(* ===== verification/Ramen_Prelude.thy ===== *)
theory Ramen_Prelude
  imports Main "HOL-Library.List_Lexorder" "HOL-Library.Char_ord"
begin

text \<open>
  Shared vocabulary of the development: Go errors, Go string maps, the state-and-error
  monad in which the stateful controller code is written, and its weakest-precondition
  calculus. The collections \<open>wp_rules\<close> (one equation per combinator) and \<open>strmap_simps\<close>
  carry the component proofs.
\<close>

named_theorems wp_rules "weakest-precondition equations of the monad's combinators"
named_theorems strmap_simps "look-ups in updated string maps"
named_theorems model_defs "definitions unfolded when a component's effect is computed"

section \<open>Go errors\<close>

text \<open>
  A Go \<^verbatim>\<open>error\<close> is its message together with what \<^verbatim>\<open>k8serrors.IsNotFound\<close> and its kin can
  still recognise in it. Wrapping with \<^verbatim>\<open>%w\<close> keeps the kind (\<open>wrapE\<close>), formatting with
  \<^verbatim>\<open>%v\<close> or dropping the cause makes a fresh error (\<open>newE\<close>).
\<close>

datatype ekind =
    NotFound
  | AlreadyExists
  | Conflict
  | NoMatch
  | AwsError
  | GoPanic
  | WaitForAppResourceRestoreToComplete
  | WaitForVolSyncManifestWorkCreation
  | WaitForSourceCluster
  | WaitForDRPCPlacementRule
  | OtherError

datatype gerr = Gerr (ekind_of: ekind) (Error: string)

definition newE :: "string \<Rightarrow> gerr" where
  "newE m = Gerr OtherError m"

definition wrapE :: "string \<Rightarrow> gerr \<Rightarrow> string \<Rightarrow> gerr" where
  "wrapE pre e post = Gerr (ekind_of e) (pre @ Error e @ post)"

definition IsNotFound :: "gerr \<Rightarrow> bool" where
  "IsNotFound e \<longleftrightarrow> ekind_of e = NotFound"

definition IsAlreadyExists :: "gerr \<Rightarrow> bool" where
  "IsAlreadyExists e \<longleftrightarrow> ekind_of e = AlreadyExists"

definition IsConflict :: "gerr \<Rightarrow> bool" where
  "IsConflict e \<longleftrightarrow> ekind_of e = Conflict"

definition IsNoMatchError :: "gerr \<Rightarrow> bool" where
  "IsNoMatchError e \<longleftrightarrow> ekind_of e = NoMatch"

lemma IsNotFound_wrapE [simp]: "IsNotFound (wrapE p e q) = IsNotFound e"
  by (simp add: IsNotFound_def wrapE_def)

lemma IsAlreadyExists_wrapE [simp]: "IsAlreadyExists (wrapE p e q) = IsAlreadyExists e"
  by (simp add: IsAlreadyExists_def wrapE_def)

lemma IsNotFound_newE [simp]: "\<not> IsNotFound (newE m)"
  by (simp add: IsNotFound_def newE_def)

lemma IsAlreadyExists_newE [simp]: "\<not> IsAlreadyExists (newE m)"
  by (simp add: IsAlreadyExists_def newE_def)

section \<open>Go string maps\<close>

text \<open>
  A \<^verbatim>\<open>map[string]string\<close> is the association list of its entries in key order, the form in
  which \<^verbatim>\<open>encoding/json\<close> writes it, so that equality of two such lists is
  \<^verbatim>\<open>reflect.DeepEqual\<close>. A nil map and an empty map are both \<open>[]\<close>. Writing, deleting and testing for a key do not depend on the
  type of the values.
\<close>

type_synonym strmap = "(string \<times> string) list"

fun sm_put :: "string \<Rightarrow> 'v \<Rightarrow> (string \<times> 'v) list \<Rightarrow> (string \<times> 'v) list" where
  "sm_put k v [] = [(k, v)]"
| "sm_put k v ((k', v') # m) =
     (if k = k' then (k, v) # m
      else if k < k' then (k, v) # (k', v') # m
      else (k', v') # sm_put k v m)"

definition sm_get :: "strmap \<Rightarrow> string \<Rightarrow> string" where
  "sm_get m k = (case map_of m k of None \<Rightarrow> [] | Some v \<Rightarrow> v)"

definition sm_has :: "(string \<times> 'v) list \<Rightarrow> string \<Rightarrow> bool" where
  "sm_has m k \<longleftrightarrow> map_of m k \<noteq> None"

definition sm_delete :: "string \<Rightarrow> (string \<times> 'v) list \<Rightarrow> (string \<times> 'v) list" where
  "sm_delete k m = filter (\<lambda>e. fst e \<noteq> k) m"

fun sm_of_list :: "(string \<times> string) list \<Rightarrow> strmap" where
  "sm_of_list [] = []"
| "sm_of_list ((k, v) # es) = sm_put k v (sm_of_list es)"

lemma map_of_sm_put [strmap_simps]: "map_of (sm_put k v m) = (map_of m)(k \<mapsto> v)"
  by (induction k v m rule: sm_put.induct) (auto simp: fun_eq_iff)

lemma map_of_sm_delete [strmap_simps]: "map_of (sm_delete k m) = (map_of m)(k := None)"
  by (induction m) (auto simp: sm_delete_def fun_eq_iff)

lemma sm_get_put [strmap_simps, simp]:
  "sm_get (sm_put k v m) k' = (if k' = k then v else sm_get m k')"
  by (simp add: sm_get_def map_of_sm_put)

lemma sm_has_put [strmap_simps, simp]: "sm_has (sm_put k v m) k' \<longleftrightarrow> k' = k \<or> sm_has m k'"
  by (simp add: sm_has_def map_of_sm_put)

lemma sm_has_delete [strmap_simps, simp]: "sm_has (sm_delete k m) k' \<longleftrightarrow> k' \<noteq> k \<and> sm_has m k'"
  by (simp add: sm_has_def map_of_sm_delete)

lemma keys_sm_put: "fst ` set (sm_put k v m) = insert k (fst ` set m)"
  by (induction k v m rule: sm_put.induct) auto

text \<open>Key order is kept, so the representation stays canonical.\<close>

lemma sorted_sm_put:
  "sorted_wrt (<) (map fst m) \<Longrightarrow> sorted_wrt (<) (map fst (sm_put k v m))"
proof (induction k v m rule: sm_put.induct)
  case (2 k v k' v' m)
  have "\<forall>x \<in> fst ` set m. k' < x"
    using "2.prems" by auto
  moreover have "\<lbrakk>k \<noteq> k'; \<not> k < k'\<rbrakk> \<Longrightarrow> \<forall>x \<in> fst ` set (sm_put k v m). k' < x"
    using "2.prems" by (auto simp: keys_sm_put)
  ultimately show ?case
    using 2 by (auto intro: less_trans)
qed simp

text \<open>Go ranges over a map in any order.\<close>

definition rangeOrder :: "string list \<Rightarrow> string list \<Rightarrow> string list" where
  "rangeOrder order keys = remdups (filter (\<lambda>k. k \<in> set keys) order @ keys)"

section \<open>Strings\<close>

text \<open>\<^verbatim>\<open>%q\<close> of a name without characters that need escaping.\<close>

definition quoted :: "string \<Rightarrow> string" where
  "quoted x = [CHR 0x22] @ x @ [CHR 0x22]"

text \<open>\<^verbatim>\<open>strings.HasPrefix\<close>, with the prefix first, and \<^verbatim>\<open>strings.Contains\<close>.\<close>

fun isPrefixOf :: "string \<Rightarrow> string \<Rightarrow> bool" where
  "isPrefixOf [] ys = True"
| "isPrefixOf (x # xs) [] = False"
| "isPrefixOf (x # xs) (y # ys) \<longleftrightarrow> x = y \<and> isPrefixOf xs ys"

fun strContains :: "string \<Rightarrow> string \<Rightarrow> bool" where
  "strContains [] sub \<longleftrightarrow> sub = []"
| "strContains (c # cs) sub \<longleftrightarrow> isPrefixOf sub (c # cs) \<or> strContains cs sub"

text \<open>A number in decimal, as \<^verbatim>\<open>%d\<close> writes it.\<close>

fun show_nat :: "nat \<Rightarrow> string" where
  "show_nat n = (if n < 10 then [char_of (48 + n)] else show_nat (n div 10) @ [char_of (48 + n mod 10)])"

declare show_nat.simps [simp del]

definition show_int :: "int \<Rightarrow> string" where
  "show_int i = (if i < 0 then ''-'' @ show_nat (nat (- i)) else show_nat (nat i))"

lemma isPrefixOf_iff: "isPrefixOf p k \<longleftrightarrow> (\<exists>r. k = p @ r)"
  by (induction p k rule: isPrefixOf.induct) auto

section \<open>The state-and-error monad\<close>

text \<open>
  A stateful Go function that may return an error: it gets the state and gives the error or
  the result, with the state it leaves behind in both cases (an error does not undo writes).
\<close>

type_synonym ('s, 'a) gm = "'s \<Rightarrow> (gerr + 'a) \<times> 's"

definition ret :: "'a \<Rightarrow> ('s, 'a) gm" where
  "ret x s = (Inr x, s)"

definition failM :: "gerr \<Rightarrow> ('s, 'a) gm" where
  "failM e s = (Inl e, s)"

definition bindM :: "('s, 'a) gm \<Rightarrow> ('a \<Rightarrow> ('s, 'b) gm) \<Rightarrow> ('s, 'b) gm" where
  "bindM m f s = (case m s of (Inl e, s') \<Rightarrow> (Inl e, s') | (Inr x, s') \<Rightarrow> f x s')"

text \<open>\<open>catchM m h\<close> is \<^verbatim>\<open>if x, err := m(); err != nil { h(err) }\<close>.\<close>

definition catchM :: "('s, 'a) gm \<Rightarrow> (gerr \<Rightarrow> ('s, 'a) gm) \<Rightarrow> ('s, 'a) gm" where
  "catchM m h s = (case m s of (Inl e, s') \<Rightarrow> h e s' | (Inr x, s') \<Rightarrow> (Inr x, s'))"

text \<open>\<open>attemptM m\<close> hands both outcomes to the continuation, as \<^verbatim>\<open>x, err := m()\<close> does.\<close>

definition attemptM :: "('s, 'a) gm \<Rightarrow> ('s, gerr + 'a) gm" where
  "attemptM m s = (case m s of (r, s') \<Rightarrow> (Inr r, s'))"

text \<open>A nil dereference panics in Go: \<open>recoverM\<close> is \<open>attemptM\<close> where a panic is not an error to hand on but goes through.\<close>

definition nilDereference :: gerr where
  "nilDereference = Gerr GoPanic ''invalid memory address or nil pointer dereference''"

definition indexOutOfRange :: gerr where
  "indexOutOfRange = Gerr GoPanic ''index out of range [0] with length 0''"

definition recoverM :: "('s, 'a) gm \<Rightarrow> ('s, gerr + 'a) gm" where
  "recoverM m s = (case m s of
     (Inl e, s') \<Rightarrow> if ekind_of e = GoPanic then (Inl e, s') else (Inr (Inl e), s')
   | (Inr x, s') \<Rightarrow> (Inr (Inr x), s'))"

definition getsM :: "('s \<Rightarrow> 'a) \<Rightarrow> ('s, 'a) gm" where
  "getsM f s = (Inr (f s), s)"

definition modifyM :: "('s \<Rightarrow> 's) \<Rightarrow> ('s, unit) gm" where
  "modifyM f s = (Inr (), f s)"

definition seqM :: "('s, unit) gm \<Rightarrow> ('s, 'b) gm \<Rightarrow> ('s, 'b) gm" where
  "seqM m n = bindM m (\<lambda>_. n)"

definition whenM :: "bool \<Rightarrow> ('s, unit) gm \<Rightarrow> ('s, unit) gm" where
  "whenM b m = (if b then m else ret ())"

text \<open>\<open>forM xs f\<close> is \<^verbatim>\<open>for _, x := range xs { if err := f(x); err != nil { return err } }\<close>.\<close>

fun forM :: "'x list \<Rightarrow> ('x \<Rightarrow> ('s, unit) gm) \<Rightarrow> ('s, unit) gm" where
  "forM [] f = ret ()"
| "forM (x # xs) f = seqM (f x) (forM xs f)"

text \<open>\<open>foldlM f b xs\<close> is such a loop that updates \<open>b\<close>.\<close>

fun foldlM :: "('b \<Rightarrow> 'x \<Rightarrow> ('s, 'b) gm) \<Rightarrow> 'b \<Rightarrow> 'x list \<Rightarrow> ('s, 'b) gm" where
  "foldlM f b [] = ret b"
| "foldlM f b (x # xs) = bindM (f b x) (\<lambda>b'. foldlM f b' xs)"

section \<open>Weakest preconditions\<close>

definition wp :: "('s, 'a) gm \<Rightarrow> (gerr + 'a \<Rightarrow> 's \<Rightarrow> bool) \<Rightarrow> 's \<Rightarrow> bool" where
  "wp m Q s = (case m s of (r, s') \<Rightarrow> Q r s')"

lemma wpI: "(\<And>r s'. m s = (r, s') \<Longrightarrow> Q r s') \<Longrightarrow> wp m Q s"
  by (simp add: wp_def split: prod.split)

lemma wpD: "wp m Q s \<Longrightarrow> m s = (r, s') \<Longrightarrow> Q r s'"
  by (simp add: wp_def)

lemma wp_mono: "wp m P s \<Longrightarrow> (\<And>r s'. P r s' \<Longrightarrow> Q r s') \<Longrightarrow> wp m Q s"
  by (simp add: wp_def split: prod.splits)

lemma wp_conj: "wp m P s \<Longrightarrow> wp m Q s \<Longrightarrow> wp m (\<lambda>r s'. P r s' \<and> Q r s') s"
  by (simp add: wp_def split: prod.splits)

lemma wp_ret [wp_rules]: "wp (ret x) Q s = Q (Inr x) s"
  by (simp add: wp_def ret_def)

lemma wp_fail [wp_rules]: "wp (failM e) Q s = Q (Inl e) s"
  by (simp add: wp_def failM_def)

lemma wp_gets [wp_rules]: "wp (getsM f) Q s = Q (Inr (f s)) s"
  by (simp add: wp_def getsM_def)

lemma wp_modify [wp_rules]: "wp (modifyM f) Q s = Q (Inr ()) (f s)"
  by (simp add: wp_def modifyM_def)

lemma wp_bind [wp_rules]:
  "wp (bindM m f) Q s = wp m (\<lambda>r s'. case r of Inl e \<Rightarrow> Q (Inl e) s' | Inr x \<Rightarrow> wp (f x) Q s') s"
  by (simp add: wp_def bindM_def split: prod.splits sum.splits)

lemma wp_seq [wp_rules]:
  "wp (seqM m n) Q s = wp m (\<lambda>r s'. case r of Inl e \<Rightarrow> Q (Inl e) s' | Inr _ \<Rightarrow> wp n Q s') s"
  by (simp add: seqM_def wp_bind)

lemma wp_catch [wp_rules]:
  "wp (catchM m h) Q s = wp m (\<lambda>r s'. case r of Inl e \<Rightarrow> wp (h e) Q s' | Inr x \<Rightarrow> Q (Inr x) s') s"
  by (simp add: wp_def catchM_def split: prod.splits sum.splits)

lemma wp_attempt [wp_rules]: "wp (attemptM m) Q s = wp m (\<lambda>r s'. Q (Inr r) s') s"
  by (simp add: wp_def attemptM_def split: prod.splits)

lemma wp_recover [wp_rules]:
  "wp (recoverM m) Q s =
     wp m (\<lambda>r s'. case r of Inl e \<Rightarrow> if ekind_of e = GoPanic then Q (Inl e) s' else Q (Inr (Inl e)) s'
                        | Inr x \<Rightarrow> Q (Inr (Inr x)) s') s"
  by (simp add: wp_def recoverM_def split: prod.splits sum.splits)

lemma wp_when [wp_rules]: "wp (whenM b m) Q s = (if b then wp m Q s else Q (Inr ()) s)"
  by (simp add: whenM_def wp_ret)

lemma wp_if [wp_rules]: "wp (if b then m else n) Q s = (if b then wp m Q s else wp n Q s)"
  by simp

text \<open>An error-free post-state: what \<open>snd\<close> of a run satisfies.\<close>

lemma wp_snd: "wp m (\<lambda>_ s'. P s') s \<longleftrightarrow> P (snd (m s))"
  by (simp add: wp_def split: prod.split)

section \<open>Observations that a computation leaves alone\<close>

definition keeps :: "('s \<Rightarrow> 'o) \<Rightarrow> ('s, 'a) gm \<Rightarrow> bool" where
  "keeps obs m \<longleftrightarrow> (\<forall>s. obs (snd (m s)) = obs s)"

definition pres :: "('s \<Rightarrow> bool) \<Rightarrow> ('s, 'a) gm \<Rightarrow> bool" where
  "pres I m \<longleftrightarrow> (\<forall>s. I s \<longrightarrow> I (snd (m s)))"

named_theorems pres_rules "invariant preservation, one rule per combinator and operation"

lemma presI: "(\<And>s. I s \<Longrightarrow> I (snd (m s))) \<Longrightarrow> pres I m"
  by (simp add: pres_def)

lemma presD: "pres I m \<Longrightarrow> I s \<Longrightarrow> I (snd (m s))"
  by (simp add: pres_def)

lemma pres_wp: "pres I m \<Longrightarrow> I s \<Longrightarrow> wp m (\<lambda>_ s'. I s') s"
  by (simp add: wp_snd presD)

lemma pres_ret [pres_rules]: "pres I (ret x)"
  by (simp add: pres_def ret_def)

lemma pres_fail [pres_rules]: "pres I (failM e)"
  by (simp add: pres_def failM_def)

lemma pres_gets [pres_rules]: "pres I (getsM f)"
  by (simp add: pres_def getsM_def)

lemma pres_bind [pres_rules]: "pres I m \<Longrightarrow> (\<And>x. pres I (f x)) \<Longrightarrow> pres I (bindM m f)"
  by (auto simp: pres_def bindM_def split: prod.splits sum.splits)

lemma pres_seq [pres_rules]: "pres I m \<Longrightarrow> pres I n \<Longrightarrow> pres I (seqM m n)"
  by (simp add: seqM_def pres_bind)

lemma pres_catch [pres_rules]: "pres I m \<Longrightarrow> (\<And>e. pres I (h e)) \<Longrightarrow> pres I (catchM m h)"
  by (auto simp: pres_def catchM_def split: prod.splits sum.splits)

lemma pres_attempt [pres_rules]: "pres I m \<Longrightarrow> pres I (attemptM m)"
  by (auto simp: pres_def attemptM_def split: prod.splits)

lemma pres_recover [pres_rules]: "pres I m \<Longrightarrow> pres I (recoverM m)"
  by (auto simp: pres_def recoverM_def split: prod.splits sum.splits)

lemma pres_when [pres_rules]: "(b \<Longrightarrow> pres I m) \<Longrightarrow> pres I (whenM b m)"
  by (simp add: whenM_def pres_ret)

lemma pres_if [pres_rules]: "(b \<Longrightarrow> pres I m) \<Longrightarrow> (\<not> b \<Longrightarrow> pres I n) \<Longrightarrow> pres I (if b then m else n)"
  by simp

lemma pres_forM [pres_rules]: "(\<And>x. pres I (f x)) \<Longrightarrow> pres I (forM xs f)"
  by (induction xs) (auto intro: pres_seq pres_ret)

lemma pres_foldlM [pres_rules]: "(\<And>b x. pres I (f b x)) \<Longrightarrow> pres I (foldlM f b xs)"
  by (induction xs arbitrary: b) (auto intro: pres_bind pres_ret)

text \<open>An invariant that a step keeps, used as its postcondition; a loop with an invariant of its own.\<close>

lemma wp_pres: "pres I m \<Longrightarrow> I s \<Longrightarrow> (\<And>r s'. I s' \<Longrightarrow> Q r s') \<Longrightarrow> wp m Q s"
  by (auto simp: wp_def pres_def split: prod.splits)

lemma wp_forM:
  assumes "\<And>x s. x \<in> set xs \<Longrightarrow> J s \<Longrightarrow> wp (f x) (\<lambda>r s'. case r of Inl e \<Rightarrow> Q (Inl e) s' | Inr _ \<Rightarrow> J s') s"
    and "\<And>s. J s \<Longrightarrow> Q (Inr ()) s" and "J s"
  shows "wp (forM xs f) Q s"
  using assms
proof (induction xs arbitrary: s)
  case (Cons x xs)
  have "wp (f x) (\<lambda>r s'. case r of Inl e \<Rightarrow> Q (Inl e) s' | Inr _ \<Rightarrow> J s') s"
    using Cons.prems(1) [of x s] Cons.prems(3) by simp
  then show ?case
    unfolding forM.simps wp_seq
    by (rule wp_mono) (use Cons.IH Cons.prems in \<open>auto split: sum.splits\<close>)
qed (simp add: wp_ret)

lemma pres_case_option [pres_rules]:
  "pres I m \<Longrightarrow> (\<And>x. pres I (f x)) \<Longrightarrow> pres I (case v of None \<Rightarrow> m | Some x \<Rightarrow> f x)"
  by (simp split: option.split)

lemma pres_case_sum [pres_rules]:
  "(\<And>e. pres I (f e)) \<Longrightarrow> (\<And>x. pres I (g x)) \<Longrightarrow> pres I (case v of Inl e \<Rightarrow> f e | Inr x \<Rightarrow> g x)"
  by (simp split: sum.split)

lemma pres_case_prod [pres_rules]:
  "(\<And>a b. v = (a, b) \<Longrightarrow> pres I (f a b)) \<Longrightarrow> pres I (case v of (a, b) \<Rightarrow> f a b)"
  by (simp split: prod.split)

lemma pres_case_bool [pres_rules]:
  "pres I m \<Longrightarrow> pres I n \<Longrightarrow> pres I (case b of True \<Rightarrow> m | False \<Rightarrow> n)"
  by (simp split: bool.split)

lemma pres_case_list [pres_rules]:
  "pres I m \<Longrightarrow> (\<And>x xs. pres I (f x xs)) \<Longrightarrow> pres I (case v of [] \<Rightarrow> m | x # xs \<Rightarrow> f x xs)"
  by (simp split: list.split)

lemma pres_Let [pres_rules]: "pres I (f x) \<Longrightarrow> pres I (Let x f)"
  by (simp add: Let_def)

lemma keeps_iff_pres: "keeps obs m \<longleftrightarrow> (\<forall>v. pres (\<lambda>s. obs s = v) m)"
  by (auto simp: keeps_def pres_def)

text \<open>Values a computation can yield.\<close>

definition yields :: "('a \<Rightarrow> bool) \<Rightarrow> ('s, 'a) gm \<Rightarrow> bool" where
  "yields P m \<longleftrightarrow> (\<forall>s. wp m (\<lambda>r _. \<forall>x. r = Inr x \<longrightarrow> P x) s)"

lemma pres_bind_yields:
  assumes "pres I m" "yields P m" "\<And>x. P x \<Longrightarrow> pres I (f x)"
  shows "pres I (bindM m f)"
proof (rule presI)
  fix s assume I: "I s"
  obtain r s' where m: "m s = (r, s')" by (cases "m s")
  have "I s'" using presD [OF assms(1) I] m by simp
  moreover have "P x" if "r = Inr x" for x
    using assms(2) m that by (auto simp: yields_def dest!: spec [of _ s] wpD)
  ultimately show "I (snd (bindM m f s))"
    using presD [OF assms(3)] m by (simp add: bindM_def split: sum.split)
qed

lemma wp_yields: "yields P m \<Longrightarrow> wp m (\<lambda>r _. \<forall>x. r = Inr x \<longrightarrow> P x) s"
  by (simp add: yields_def)

lemma yields_mono: "yields P m \<Longrightarrow> (\<And>x. P x \<Longrightarrow> Q x) \<Longrightarrow> yields Q m"
  by (auto simp: yields_def wp_def split: prod.splits)

lemma yields_ret: "P x \<Longrightarrow> yields P (ret x)"
  by (simp add: yields_def wp_ret)

lemma yields_fail: "yields P (failM e)"
  by (simp add: yields_def wp_fail)

lemma yields_bind: "yields Q m \<Longrightarrow> (\<And>x. Q x \<Longrightarrow> yields P (f x)) \<Longrightarrow> yields P (bindM m f)"
  by (fastforce simp: yields_def wp_def bindM_def split: prod.splits sum.splits)

lemma yields_any: "yields (\<lambda>_. True) m"
  by (simp add: yields_def wp_def split: prod.split)

lemma yields_attempt: "yields P m \<Longrightarrow> yields (\<lambda>r. \<forall>x. r = Inr x \<longrightarrow> P x) (attemptM m)"
  by (simp add: yields_def wp_attempt)

lemma yields_seq: "yields P n \<Longrightarrow> yields P (seqM m n)"
  by (simp add: seqM_def yields_bind [OF yields_any])

lemmas yields_step = yields_bind [OF yields_any]

lemma yields_catch: "yields P m \<Longrightarrow> (\<And>e. yields P (h e)) \<Longrightarrow> yields P (catchM m h)"
  unfolding yields_def wp_catch by (auto elim!: wp_mono split: sum.split)

text \<open>\<open>gives I m P\<close>: from a state with \<open>I\<close>, \<open>m\<close> keeps \<open>I\<close> and its results satisfy \<open>P\<close>.\<close>

definition gives :: "('s \<Rightarrow> bool) \<Rightarrow> ('s, 'a) gm \<Rightarrow> ('a \<Rightarrow> bool) \<Rightarrow> bool" where
  "gives I m P \<longleftrightarrow> (\<forall>s. I s \<longrightarrow> wp m (\<lambda>r s'. I s' \<and> (\<forall>x. r = Inr x \<longrightarrow> P x)) s)"

lemma givesI: "(\<And>s. I s \<Longrightarrow> wp m (\<lambda>r s'. I s' \<and> (\<forall>x. r = Inr x \<longrightarrow> P x)) s) \<Longrightarrow> gives I m P"
  by (simp add: gives_def)

lemma givesD: "gives I m P \<Longrightarrow> I s \<Longrightarrow> wp m (\<lambda>r s'. I s' \<and> (\<forall>x. r = Inr x \<longrightarrow> P x)) s"
  by (simp add: gives_def)

lemma gives_bind:
  assumes "gives I m Q" "\<And>x. Q x \<Longrightarrow> gives I (f x) P"
  shows "gives I (bindM m f) P"
proof (rule givesI)
  fix s assume "I s"
  then show "wp (bindM m f) (\<lambda>r s'. I s' \<and> (\<forall>x. r = Inr x \<longrightarrow> P x)) s"
    unfolding wp_bind by (rule wp_mono [OF givesD [OF assms(1)]]) (auto split: sum.split intro: givesD [OF assms(2)])
qed

lemma gives_ret: "P x \<Longrightarrow> gives I (ret x) P"
  by (simp add: gives_def wp_ret)

lemma gives_pres: "gives I m P \<Longrightarrow> pres I m"
  unfolding gives_def pres_def wp_snd [symmetric] by (blast intro: wp_mono)

lemma gives_any: "pres I m \<Longrightarrow> gives I m (\<lambda>_. True)"
  by (simp add: gives_def pres_wp)

lemma gives_yields: "pres I m \<Longrightarrow> yields P m \<Longrightarrow> gives I m P"
  unfolding gives_def yields_def by (auto intro: wp_conj pres_wp)

lemma gives_seq: "pres I m \<Longrightarrow> gives I n P \<Longrightarrow> gives I (seqM m n) P"
  unfolding seqM_def by (rule gives_bind [OF gives_any])

lemma gives_foldlM: "(\<And>b x. x \<in> set xs \<Longrightarrow> P b \<Longrightarrow> gives I (f b x) P) \<Longrightarrow> P b \<Longrightarrow> gives I (foldlM f b xs) P"
  by (induction xs arbitrary: b) (auto intro: gives_ret gives_bind)

lemma pres_bind_gives: "gives I m P \<Longrightarrow> (\<And>x. P x \<Longrightarrow> pres I (f x)) \<Longrightarrow> pres I (bindM m f)"
  by (blast intro: gives_pres [OF gives_bind] gives_any)

text \<open>\<open>returns m Q s\<close>: a run of \<open>m\<close> from \<open>s\<close> that succeeds ends with a result and a state that satisfy \<open>Q\<close>.\<close>

definition returns :: "('s, 'a) gm \<Rightarrow> ('a \<Rightarrow> 's \<Rightarrow> bool) \<Rightarrow> 's \<Rightarrow> bool" where
  "returns m Q s \<longleftrightarrow> wp m (\<lambda>r t. \<forall>x. r = Inr x \<longrightarrow> Q x t) s"

lemma returnsD: "returns m Q s \<Longrightarrow> m s = (Inr x, t) \<Longrightarrow> Q x t"
  by (auto simp: returns_def dest: wpD)

lemma returns_mono: "returns m R s \<Longrightarrow> (\<And>x t. R x t \<Longrightarrow> Q x t) \<Longrightarrow> returns m Q s"
  by (auto simp: returns_def elim: wp_mono)

lemma returns_bind: "returns m R s \<Longrightarrow> (\<And>x t. R x t \<Longrightarrow> returns (f x) Q t) \<Longrightarrow> returns (bindM m f) Q s"
  unfolding returns_def wp_bind by (auto elim!: wp_mono split: sum.split)

lemma returns_gets: "returns (f (g s)) Q s \<Longrightarrow> returns (bindM (getsM g) f) Q s"
  by (simp add: returns_def wp_bind wp_gets)

lemma returns_ret: "Q x s \<Longrightarrow> returns (ret x) Q s"
  by (simp add: returns_def wp_ret)

lemma returns_fail: "returns (failM e) Q s"
  by (simp add: returns_def wp_fail)

lemma returns_seqFail: "returns (seqM m (failM e)) Q s"
  unfolding returns_def wp_seq by (auto simp: wp_def failM_def split: prod.splits sum.split)

lemma returns_pres: "pres I m \<Longrightarrow> I s \<Longrightarrow> returns m (\<lambda>_. I) s"
  unfolding returns_def by (auto intro: wp_mono [OF pres_wp])

lemma returns_catch: "returns m Q s \<Longrightarrow> returns (catchM m (\<lambda>e. failM (h e))) Q s"
  unfolding returns_def wp_catch by (auto simp: wp_fail elim!: wp_mono split: sum.split)

lemma returns_conj: "returns m P s \<Longrightarrow> returns m Q s \<Longrightarrow> returns m (\<lambda>x t. P x t \<and> Q x t) s"
  by (auto simp: returns_def wp_def split: prod.splits)

lemma returns_attempt: "wp m (\<lambda>r t. Q r t) s \<Longrightarrow> returns (attemptM m) Q s"
  by (simp add: returns_def wp_attempt)

lemma returns_yields: "yields P m \<Longrightarrow> returns m (\<lambda>x _. P x) s"
  by (simp add: returns_def yields_def)

lemma returns_recover: "returns m Q s \<Longrightarrow> returns (recoverM m) (\<lambda>r t. \<forall>x. r = Inr x \<longrightarrow> Q x t) s"
  unfolding returns_def wp_recover by (auto elim!: wp_mono split: sum.split)

lemma returns_if: "(b \<Longrightarrow> returns m Q s) \<Longrightarrow> (\<not> b \<Longrightarrow> returns n Q s) \<Longrightarrow> returns (if b then m else n) Q s"
  by simp

lemma returns_option:
  "returns m Q s \<Longrightarrow> (\<And>x. returns (f x) Q s) \<Longrightarrow> returns (case v of None \<Rightarrow> m | Some x \<Rightarrow> f x) Q s"
  by (simp split: option.split)

end
