(* ===== verification/Ramen_Conditions.thy ===== *)
theory Ramen_Conditions
  imports Ramen_Prelude
begin

text \<open>
  Status conditions (\<^verbatim>\<open>internal/controller/util/conditions.go\<close>) and the condition writer of the
  DRPC reconciler (\<^verbatim>\<open>addOrUpdateCondition\<close>). The locale \<open>condition_store\<close> is the contract the
  controllers rely on; it is interpreted on both writers. The last part shows what
  \<^verbatim>\<open>MergeConditions\<close> computes.
\<close>

datatype condition_status = ConditionTrue | ConditionFalse | ConditionUnknown

record condition =
  cType :: string
  cStatus :: condition_status
  cObservedGeneration :: int
  cLastTransitionTime :: int
  cReason :: string
  cMessage :: string

type_synonym conditions = "condition list"

definition mkCondition :: "string \<Rightarrow> string \<Rightarrow> int \<Rightarrow> condition_status \<Rightarrow> string \<Rightarrow> condition" where
  "mkCondition t reason generation st msg =
     \<lparr>cType = t, cStatus = st, cObservedGeneration = generation, cLastTransitionTime = 0,
      cReason = reason, cMessage = msg\<rparr>"

type_synonym condition_setter = "int \<Rightarrow> conditions \<Rightarrow> int \<Rightarrow> string \<Rightarrow> conditions"

section \<open>Finding and setting a condition\<close>

fun FindCondition :: "conditions \<Rightarrow> string \<Rightarrow> condition option" where
  "FindCondition [] t = None"
| "FindCondition (c # cs) t = (if cType c = t then Some c else FindCondition cs t)"

text \<open>Go returns a pointer into the slice; a write through it changes the first match.\<close>

fun writeFound :: "string \<Rightarrow> (condition \<Rightarrow> condition) \<Rightarrow> conditions \<Rightarrow> conditions" where
  "writeFound t f [] = []"
| "writeFound t f (c # cs) = (if cType c = t then f c # cs else c # writeFound t f cs)"

definition SetStatusConditionIfNotFound :: "int \<Rightarrow> conditions \<Rightarrow> condition \<Rightarrow> conditions" where
  "SetStatusConditionIfNotFound now cs new =
     (case FindCondition cs (cType new) of
        None \<Rightarrow> cs @ [new\<lparr>cLastTransitionTime := now\<rparr>]
      | Some _ \<Rightarrow> cs)"

definition overwriteCondition :: "int \<Rightarrow> condition \<Rightarrow> condition \<Rightarrow> condition" where
  "overwriteCondition now new old =
     (let c1 = (if cStatus old \<noteq> cStatus new
                then old\<lparr>cStatus := cStatus new, cLastTransitionTime := now\<rparr> else old);
          reason = (if cReason new = [] then ''none'' else cReason new);
          message = (if cMessage new = [] then ''none'' else cMessage new);
          c2 = c1\<lparr>cReason := reason, cMessage := message\<rparr>
      in if cObservedGeneration c2 \<noteq> cObservedGeneration new
         then c2\<lparr>cObservedGeneration := cObservedGeneration new, cLastTransitionTime := now\<rparr>
         else c2)"

definition SetStatusCondition :: "int \<Rightarrow> conditions \<Rightarrow> condition \<Rightarrow> conditions \<times> condition" where
  "SetStatusCondition now cs new =
     (case FindCondition cs (cType new) of
        None \<Rightarrow> (let n = new\<lparr>cLastTransitionTime := now\<rparr> in (cs @ [n], n))
      | Some old \<Rightarrow>
          (writeFound (cType new) (overwriteCondition now new) cs, overwriteCondition now new old))"

definition ConditionUpdate :: "int \<Rightarrow> int \<Rightarrow> condition_status \<Rightarrow> string \<Rightarrow> string \<Rightarrow> condition \<Rightarrow> condition" where
  "ConditionUpdate now generation status reason message c =
     c\<lparr>cStatus := status, cObservedGeneration := generation, cLastTransitionTime := now,
       cReason := reason, cMessage := message\<rparr>"

definition ConditionAppend ::
  "int \<Rightarrow> int \<Rightarrow> conditions \<Rightarrow> string \<Rightarrow> condition_status \<Rightarrow> string \<Rightarrow> string \<Rightarrow> conditions" where
  "ConditionAppend now generation cs t status reason message =
     cs @ [\<lparr>cType = t, cStatus = status, cObservedGeneration = generation,
            cLastTransitionTime = now, cReason = reason, cMessage = message\<rparr>]"

text \<open>
  \<^verbatim>\<open>meta.FindStatusCondition\<close> of apimachinery is documented to find the condition of the given
  type, which is what \<open>FindCondition\<close> does.
\<close>

definition GenericStatusConditionSet ::
  "int \<Rightarrow> int \<Rightarrow> conditions \<Rightarrow> string \<Rightarrow> condition_status \<Rightarrow> string \<Rightarrow> string \<Rightarrow> bool \<times> conditions" where
  "GenericStatusConditionSet now generation cs t status reason message =
     (case FindCondition cs t of
        Some c \<Rightarrow>
          if cStatus c = status \<and> cReason c = reason \<and> cMessage c = message
             \<and> cObservedGeneration c = generation
          then (False, cs)
          else (True, writeFound t (ConditionUpdate now generation status reason message) cs)
      | None \<Rightarrow> (True, ConditionAppend now generation cs t status reason message))"

definition addOrUpdateCondition ::
  "int \<Rightarrow> conditions \<Rightarrow> string \<Rightarrow> int \<Rightarrow> condition_status \<Rightarrow> string \<Rightarrow> string \<Rightarrow> bool \<times> conditions" where
  "addOrUpdateCondition now cs t generation status reason msg =
     (let new = \<lparr>cType = t, cStatus = status, cObservedGeneration = generation,
                 cLastTransitionTime = now, cReason = reason, cMessage = msg\<rparr>
      in case FindCondition cs t of
           None \<Rightarrow> (True, fst (SetStatusCondition now cs new))
         | Some old \<Rightarrow>
             if cStatus old \<noteq> status \<or> cObservedGeneration old \<noteq> generation
                \<or> cReason old \<noteq> reason \<or> cMessage old \<noteq> msg
             then (True, fst (SetStatusCondition now cs new))
             else (False, cs))"

definition ensureDRPCConditionsInited :: "int \<Rightarrow> conditions \<Rightarrow> int \<Rightarrow> string \<Rightarrow> conditions" where
  "ensureDRPCConditionsInited now cs generation message =
     (let cs1 = SetStatusConditionIfNotFound now cs
            \<lparr>cType = ''Available'', cStatus = ConditionTrue, cObservedGeneration = generation,
             cLastTransitionTime = now, cReason = ''Initiating'', cMessage = message\<rparr>;
          cs2 = SetStatusConditionIfNotFound now cs1
            \<lparr>cType = ''PeerReady'', cStatus = ConditionFalse, cObservedGeneration = generation,
             cLastTransitionTime = now, cReason = ''Initiating'', cMessage = message\<rparr>
      in SetStatusConditionIfNotFound now cs2
            \<lparr>cType = ''Protected'', cStatus = ConditionFalse, cObservedGeneration = generation,
             cLastTransitionTime = now, cReason = ''Unknown'', cMessage = message\<rparr>)"

section \<open>Merging conditions\<close>

definition oldestConditions :: "condition \<Rightarrow> conditions \<Rightarrow> conditions" where
  "oldestConditions new cs =
     (case cs of
        [] \<Rightarrow> [new]
      | c # _ \<Rightarrow>
          if cObservedGeneration c < cObservedGeneration new then cs
          else if cObservedGeneration c = cObservedGeneration new then cs @ [new]
          else [new])"

definition zeroCondition :: condition where
  "zeroCondition = \<lparr>cType = [], cStatus = ConditionUnknown, cObservedGeneration = 0,
     cLastTransitionTime = 0, cReason = [], cMessage = []\<rparr>"

definition mergeStep :: "string list \<Rightarrow> condition \<Rightarrow> condition \<Rightarrow> condition" where
  "mergeStep ignoreReasons merged sub =
     (if cType merged = [] then sub
      else if cReason sub = cReason merged
        then merged\<lparr>cMessage := cMessage merged @ ''. '' @ cMessage sub\<rparr>
      else if cReason sub \<in> set ignoreReasons then merged
      else if cReason merged \<in> set ignoreReasons then sub
      else merged\<lparr>cMessage := cMessage merged @ ''. '' @ cMessage sub\<rparr>)"

definition mergedCondition :: "conditions \<Rightarrow> string list \<Rightarrow> condition" where
  "mergedCondition cs ignoreReasons = foldl (mergeStep ignoreReasons) zeroCondition cs"

fun classify ::
  "condition option list \<Rightarrow> conditions \<times> conditions \<times> conditions \<Rightarrow> conditions \<times> conditions \<times> conditions" where
  "classify [] acc = acc"
| "classify (None # subs) acc = classify subs acc"
| "classify (Some c # subs) (fs, us, ts) =
     (case cStatus c of
        ConditionFalse \<Rightarrow> classify subs (oldestConditions c fs, us, ts)
      | ConditionUnknown \<Rightarrow> classify subs (fs, oldestConditions c us, ts)
      | ConditionTrue \<Rightarrow> classify subs (fs, us, oldestConditions c ts))"

text \<open>
  \<^verbatim>\<open>conditionSet\<close> is a function argument in Go too. With no sub-condition the slice is not
  written and Go returns the zero \<^verbatim>\<open>metav1.Condition\<close>, whose status is the empty string:
  here \<open>None\<close>.
\<close>

definition MergeConditions ::
  "(conditions \<Rightarrow> condition \<Rightarrow> conditions \<times> condition) \<Rightarrow> conditions \<Rightarrow> string list
     \<Rightarrow> condition option list \<Rightarrow> conditions \<times> condition option" where
  "MergeConditions conditionSet cs ignoreReasons subs =
     (let (fs, us, ts) = classify subs ([], [], []);
          put = (\<lambda>sel. let (cs', c) = conditionSet cs (mergedCondition sel ignoreReasons)
                      in (cs', Some c))
      in if fs \<noteq> [] then put fs
         else if us \<noteq> [] then put us
         else if ts \<noteq> [] then put ts
         else (cs, None))"

section \<open>The contract of a condition store\<close>

text \<open>
  What a controller relies on when it writes a condition: the type it wrote is found with the
  status and the generation it gave, every other type is found as before, and no type is stored
  twice.
\<close>

locale condition_store =
  fixes setc :: "conditions \<Rightarrow> condition \<Rightarrow> conditions"
  assumes find_same: "\<exists>c'. FindCondition (setc cs c) (cType c) = Some c'
            \<and> cStatus c' = cStatus c \<and> cObservedGeneration c' = cObservedGeneration c"
    and find_other: "t \<noteq> cType c \<Longrightarrow> FindCondition (setc cs c) t = FindCondition cs t"
    and types: "map cType (setc cs c)
            = (if cType c \<in> set (map cType cs) then map cType cs else map cType cs @ [cType c])"
begin

lemma distinct_set: "distinct (map cType cs) \<Longrightarrow> distinct (map cType (setc cs c))"
  by (simp add: types)

lemma set_types: "set (map cType (setc cs c)) = insert (cType c) (set (map cType cs))"
  by (subst types) (auto simp del: set_map)

text \<open>Writing a sequence of conditions keeps types distinct, and the last write of a type wins.\<close>

lemma distinct_foldl: "distinct (map cType cs) \<Longrightarrow> distinct (map cType (foldl setc cs ws))"
  by (induction ws arbitrary: cs) (auto intro: distinct_set)

lemma foldl_other: "t \<notin> set (map cType ws) \<Longrightarrow> FindCondition (foldl setc cs ws) t = FindCondition cs t"
  by (induction ws arbitrary: cs) (auto simp: find_other)

lemma last_write_wins:
  assumes "cType w \<notin> set (map cType ws')"
  shows "\<exists>c'. FindCondition (foldl setc cs (ws @ w # ws')) (cType w) = Some c'
     \<and> cStatus c' = cStatus w \<and> cObservedGeneration c' = cObservedGeneration w"
proof -
  have "FindCondition (foldl setc cs (ws @ w # ws')) (cType w)
          = FindCondition (setc (foldl setc cs ws) w) (cType w)"
    using assms by (simp add: foldl_other)
  then show ?thesis using find_same [of "foldl setc cs ws" w] by auto
qed

end

section \<open>Lemmas about the slice operations\<close>

lemma FindCondition_None_iff: "FindCondition cs t = None \<longleftrightarrow> t \<notin> set (map cType cs)"
  by (induction cs) auto

lemma FindCondition_type: "FindCondition cs t = Some c \<Longrightarrow> cType c = t"
  by (induction cs) (auto split: if_splits)

lemma FindCondition_append:
  "FindCondition (cs @ ds) t = (case FindCondition cs t of None \<Rightarrow> FindCondition ds t | Some c \<Rightarrow> Some c)"
  by (induction cs) auto

lemma FindCondition_writeFound:
  assumes "\<And>c. cType (f c) = cType c"
  shows "FindCondition (writeFound t f cs) t'
           = (if t' = t then map_option f (FindCondition cs t) else FindCondition cs t')"
  by (induction cs) (auto simp: assms)

lemma types_writeFound:
  "(\<And>c. cType (f c) = cType c) \<Longrightarrow> map cType (writeFound t f cs) = map cType cs"
  by (induction cs) auto

lemma overwriteCondition_fields [simp]:
  "cType (overwriteCondition now new old) = cType old"
  "cStatus (overwriteCondition now new old) = cStatus new"
  "cObservedGeneration (overwriteCondition now new old) = cObservedGeneration new"
  "cReason (overwriteCondition now new old) = (if cReason new = [] then ''none'' else cReason new)"
  "cMessage (overwriteCondition now new old) = (if cMessage new = [] then ''none'' else cMessage new)"
  by (simp_all add: overwriteCondition_def Let_def)

lemma SetStatusCondition_find_same:
  "FindCondition (fst (SetStatusCondition now cs c)) (cType c) = Some (snd (SetStatusCondition now cs c))"
  by (auto simp: SetStatusCondition_def FindCondition_append FindCondition_writeFound Let_def
      split: option.splits)

lemma SetStatusCondition_snd [simp]:
  "cStatus (snd (SetStatusCondition now cs c)) = cStatus c"
  "cObservedGeneration (snd (SetStatusCondition now cs c)) = cObservedGeneration c"
  by (auto simp: SetStatusCondition_def Let_def split: option.splits)

lemma SetStatusCondition_find_other:
  "t \<noteq> cType c \<Longrightarrow> FindCondition (fst (SetStatusCondition now cs c)) t = FindCondition cs t"
  by (auto simp: SetStatusCondition_def FindCondition_append FindCondition_writeFound Let_def
      split: option.splits)

lemma SetStatusCondition_types:
  "map cType (fst (SetStatusCondition now cs c))
     = (if cType c \<in> set (map cType cs) then map cType cs else map cType cs @ [cType c])"
proof (cases "FindCondition cs (cType c)")
  case None
  then show ?thesis
    using FindCondition_None_iff [of cs "cType c"] by (simp add: SetStatusCondition_def Let_def)
next
  case (Some old)
  then have "cType c \<in> set (map cType cs)"
    using FindCondition_None_iff [of cs "cType c"] by auto
  with Some show ?thesis by (simp add: SetStatusCondition_def types_writeFound)
qed

interpretation ssc: condition_store "\<lambda>cs c. fst (SetStatusCondition now cs c)"
  by unfold_locales
     (auto simp: SetStatusCondition_find_same SetStatusCondition_find_other SetStatusCondition_types
       simp del: set_map)

definition addCond :: "int \<Rightarrow> conditions \<Rightarrow> condition \<Rightarrow> conditions" where
  "addCond now cs c = snd (addOrUpdateCondition now cs (cType c) (cObservedGeneration c) (cStatus c)
     (cReason c) (cMessage c))"

lemma addCond_cases:
  fixes c :: condition
  shows "addCond now cs c = fst (SetStatusCondition now cs (c\<lparr>cLastTransitionTime := now\<rparr>))
   \<or> addCond now cs c = cs \<and> (\<exists>old. FindCondition cs (cType c) = Some old
        \<and> cStatus old = cStatus c \<and> cObservedGeneration old = cObservedGeneration c)"
  by (cases c; cases "FindCondition cs (cType c)") (auto simp: addCond_def addOrUpdateCondition_def)

interpretation aoc: condition_store "addCond now"
proof unfold_locales
  fix cs and c :: condition
  show "\<exists>c'. FindCondition (addCond now cs c) (cType c) = Some c'
          \<and> cStatus c' = cStatus c \<and> cObservedGeneration c' = cObservedGeneration c"
    using addCond_cases [of now cs c]
      SetStatusCondition_find_same [of now cs "c\<lparr>cLastTransitionTime := now\<rparr>"] by auto
  show "map cType (addCond now cs c)
          = (if cType c \<in> set (map cType cs) then map cType cs else map cType cs @ [cType c])"
    using addCond_cases [of now cs c]
      SetStatusCondition_types [of now cs "c\<lparr>cLastTransitionTime := now\<rparr>"]
      FindCondition_None_iff [of cs "cType c"] by (auto simp del: set_map)
next
  fix t cs and c :: condition
  assume "t \<noteq> cType c"
  then show "FindCondition (addCond now cs c) t = FindCondition cs t"
    using addCond_cases [of now cs c]
      SetStatusCondition_find_other [of t "c\<lparr>cLastTransitionTime := now\<rparr>" now cs] by auto
qed

section \<open>What merging computes\<close>

text \<open>
  Within one status class the generation kept is the least one, and every condition kept has it.
\<close>

definition oldestOf :: "condition set \<Rightarrow> conditions \<Rightarrow> bool" where
  "oldestOf S cs \<longleftrightarrow> (cs = [] \<longleftrightarrow> S = {}) \<and> set cs \<subseteq> S
     \<and> (\<forall>c \<in> set cs. \<forall>d \<in> S. cObservedGeneration c \<le> cObservedGeneration d)"

lemma oldestOf_empty: "oldestOf {} []"
  by (simp add: oldestOf_def)

lemma oldestOf_same:
  "oldestOf S cs \<Longrightarrow> c \<in> set cs \<Longrightarrow> d \<in> set cs \<Longrightarrow> cObservedGeneration c = cObservedGeneration d"
  unfolding oldestOf_def by (meson antisym subset_eq)

lemma oldestConditions_oldestOf:
  assumes "oldestOf S cs"
  shows "oldestOf (insert c S) (oldestConditions c cs)"
proof (cases cs)
  case Nil
  with assms show ?thesis by (simp add: oldestOf_def oldestConditions_def)
next
  case (Cons h rest)
  have h: "h \<in> set cs" "cs \<noteq> []" using Cons by simp_all
  have least: "\<forall>d \<in> S. cObservedGeneration h \<le> cObservedGeneration d"
    using assms h by (simp add: oldestOf_def)
  have same: "\<forall>x \<in> set cs. cObservedGeneration x = cObservedGeneration h"
    using oldestOf_same [OF assms _ h(1)] by blast
  have sub: "set cs \<subseteq> S" using assms by (simp add: oldestOf_def)
  have le: "cObservedGeneration x \<le> cObservedGeneration d"
    if "x \<in> set cs" "d \<in> insert c S" "cObservedGeneration h \<le> cObservedGeneration c" for x d
    using that same least by (metis insertE)
  consider (older) "cObservedGeneration h < cObservedGeneration c"
    | (equal) "cObservedGeneration h = cObservedGeneration c"
    | (newer) "cObservedGeneration c < cObservedGeneration h" by linarith
  then show ?thesis
  proof cases
    case older
    then have "oldestConditions c cs = cs" by (simp add: oldestConditions_def Cons)
    with le older sub h(2) show ?thesis unfolding oldestOf_def by (simp add: subset_insertI2)
  next
    case equal
    then have "oldestConditions c cs = cs @ [c]" by (simp add: oldestConditions_def Cons)
    with le equal sub least h(2) show ?thesis unfolding oldestOf_def by (simp add: subset_insertI2)
  next
    case newer
    then have "oldestConditions c cs = [c]" by (simp add: oldestConditions_def Cons)
    with newer least show ?thesis by (force simp: oldestOf_def)
  qed
qed

definition withStatus :: "condition option list \<Rightarrow> condition_status \<Rightarrow> condition set" where
  "withStatus subs st = {c. Some c \<in> set subs \<and> cStatus c = st}"

lemma withStatus_simps [simp]:
  "withStatus [] st = {}"
  "withStatus (None # subs) st = withStatus subs st"
  "withStatus (Some c # subs) st = (if cStatus c = st then insert c (withStatus subs st) else withStatus subs st)"
  by (auto simp: withStatus_def)

lemma classify_oldestOf:
  assumes "oldestOf F fs" "oldestOf U us" "oldestOf T ts"
    and "classify subs (fs, us, ts) = (fs', us', ts')"
  shows "oldestOf (F \<union> withStatus subs ConditionFalse) fs'
       \<and> oldestOf (U \<union> withStatus subs ConditionUnknown) us'
       \<and> oldestOf (T \<union> withStatus subs ConditionTrue) ts'"
  using assms
proof (induction subs arbitrary: fs us ts F U T)
  case Nil
  then show ?case by simp
next
  case (Cons o' subs)
  show ?case
  proof (cases o')
    case None
    with Cons show ?thesis by simp
  next
    case (Some c)
    note old = oldestConditions_oldestOf [where c = c]
    show ?thesis
    proof (cases "cStatus c")
      case ConditionTrue
      with Cons.IH [OF Cons.prems(1,2) old [OF Cons.prems(3)]] Cons.prems(4) Some
      show ?thesis by simp
    next
      case ConditionFalse
      with Cons.IH [OF old [OF Cons.prems(1)] Cons.prems(2,3)] Cons.prems(4) Some
      show ?thesis by simp
    next
      case ConditionUnknown
      with Cons.IH [OF Cons.prems(1) old [OF Cons.prems(2)] Cons.prems(3)] Cons.prems(4) Some
      show ?thesis by simp
    qed
  qed
qed

lemma foldl_mergeStep_fields:
  assumes "t \<noteq> []" "cType m = t" "cStatus m = st" "cObservedGeneration m = g"
    and "\<forall>c \<in> set ds. cType c = t \<and> cStatus c = st \<and> cObservedGeneration c = g"
  shows "cType (foldl (mergeStep ig) m ds) = t \<and> cStatus (foldl (mergeStep ig) m ds) = st
     \<and> cObservedGeneration (foldl (mergeStep ig) m ds) = g"
  using assms
proof (induction ds arbitrary: m)
  case (Cons d ds)
  have d: "cType d = t" "cStatus d = st" "cObservedGeneration d = g" using Cons.prems(5) by simp_all
  show ?case
    unfolding foldl.simps
  proof (rule Cons.IH [OF Cons.prems(1)])
    show "cType (mergeStep ig m d) = t" "cStatus (mergeStep ig m d) = st"
      "cObservedGeneration (mergeStep ig m d) = g"
      by (simp_all add: mergeStep_def d Cons.prems(1-4))
    show "\<forall>c \<in> set ds. cType c = t \<and> cStatus c = st \<and> cObservedGeneration c = g"
      using Cons.prems(5) by simp
  qed
qed simp

lemma mergedCondition_fields:
  assumes "cs \<noteq> []" "t \<noteq> []" "\<forall>c \<in> set cs. cType c = t \<and> cStatus c = st \<and> cObservedGeneration c = g"
  shows "cType (mergedCondition cs ig) = t \<and> cStatus (mergedCondition cs ig) = st
     \<and> cObservedGeneration (mergedCondition cs ig) = g"
  using assms foldl_mergeStep_fields [of t "hd cs" st g "tl cs" ig]
  by (cases cs) (simp_all add: mergedCondition_def zeroCondition_def mergeStep_def)

text \<open>The condition that \<open>MergeConditions\<close> hands to \<^verbatim>\<open>conditionSet\<close> for a chosen status class.\<close>

lemma merged_of_class:
  assumes "oldestOf S cs" "S \<noteq> {}" "\<forall>c \<in> S. cType c = t \<and> cStatus c = st" "t \<noteq> []"
  shows "cType (mergedCondition cs ig) = t \<and> cStatus (mergedCondition cs ig) = st
     \<and> (\<exists>c \<in> S. cObservedGeneration (mergedCondition cs ig) = cObservedGeneration c)
     \<and> (\<forall>c \<in> S. cObservedGeneration (mergedCondition cs ig) \<le> cObservedGeneration c)"
proof -
  have ne: "cs \<noteq> []" and sub: "set cs \<subseteq> S" using assms(1,2) by (auto simp: oldestOf_def)
  then obtain h where h: "h \<in> set cs" by (cases cs) auto
  have same: "\<forall>c \<in> set cs. cType c = t \<and> cStatus c = st \<and> cObservedGeneration c = cObservedGeneration h"
    using sub assms(3) oldestOf_same [OF assms(1) _ h] by blast
  have "\<forall>d \<in> S. cObservedGeneration h \<le> cObservedGeneration d"
    using assms(1) h by (simp add: oldestOf_def)
  then show ?thesis
    using mergedCondition_fields [OF ne assms(4) same, of ig] sub h by auto
qed

text \<open>The status a merge reports: false if any sub-condition is false, else unknown if any is unknown.\<close>

definition worstStatus :: "condition option list \<Rightarrow> condition_status" where
  "worstStatus subs =
     (if withStatus subs ConditionFalse \<noteq> {} then ConditionFalse
      else if withStatus subs ConditionUnknown \<noteq> {} then ConditionUnknown else ConditionTrue)"

lemma finite_withStatus: "finite (withStatus subs st)"
proof -
  have "withStatus subs st \<subseteq> the ` set subs" by (force simp: withStatus_def)
  then show ?thesis by (rule finite_subset) simp
qed

lemma withStatus_ne: "Some d \<in> set subs \<Longrightarrow> withStatus subs (worstStatus subs) \<noteq> {}"
  by (cases "cStatus d") (auto simp: worstStatus_def withStatus_def)

section \<open>Properties\<close>

text \<open>A sub-condition for the witnesses.\<close>

definition subCondition :: "condition_status \<Rightarrow> int \<Rightarrow> string \<Rightarrow> condition" where
  "subCondition st gen reason = \<lparr>cType = ''DataReady'', cStatus = st, cObservedGeneration = gen,
     cLastTransitionTime = 0, cReason = reason, cMessage = ''message''\<rparr>"

text \<open>
  C33. \<^verbatim>\<open>MergeConditions\<close> on sub-conditions of one type, at least one of them not nil, stores and returns a
  condition of that type whose status is the worst one reported (false before unknown before true) and
  whose generation is the least generation among the sub-conditions of that status.
\<close>

theorem MergeConditions_worst_and_oldest:
  assumes "t \<noteq> []" "\<forall>c. Some c \<in> set subs \<longrightarrow> cType c = t" "Some d \<in> set subs"
  shows "\<exists>cs' c. MergeConditions (SetStatusCondition now) cs ig subs = (cs', Some c)
     \<and> FindCondition cs' t = Some c \<and> cStatus c = worstStatus subs
     \<and> cObservedGeneration c = Min (cObservedGeneration ` withStatus subs (worstStatus subs))"
proof -
  obtain fs us ts where cl: "classify subs ([], [], []) = (fs, us, ts)" by (metis prod_cases3)
  define sel where "sel = (if fs \<noteq> [] then fs else if us \<noteq> [] then us else ts)"
  define m where "m = mergedCondition sel ig"
  note old = classify_oldestOf [OF oldestOf_empty oldestOf_empty oldestOf_empty cl]
  have o: "oldestOf (withStatus subs (worstStatus subs)) sel"
    using old by (auto simp: sel_def worstStatus_def oldestOf_def)
  note ne = withStatus_ne [OF assms(3)]
  have "sel \<noteq> []" using o ne by (simp add: oldestOf_def)
  then have run: "MergeConditions (SetStatusCondition now) cs ig subs
      = (fst (SetStatusCondition now cs m), Some (snd (SetStatusCondition now cs m)))"
    by (auto simp: MergeConditions_def cl sel_def m_def Let_def split: prod.split if_splits)
  have "\<forall>c \<in> withStatus subs (worstStatus subs). cType c = t \<and> cStatus c = worstStatus subs"
    using assms(2) by (auto simp: withStatus_def)
  note m = merged_of_class [OF o ne this assms(1), of ig, folded m_def]
  have "cObservedGeneration m = Min (cObservedGeneration ` withStatus subs (worstStatus subs))"
    using m finite_withStatus [of subs "worstStatus subs"] by (intro Min_eqI [symmetric]) auto
  then show ?thesis
    using run m SetStatusCondition_find_same [of now cs m] by auto
qed

theorem MergeConditions_witness:
  "\<exists>cs' c. MergeConditions (SetStatusCondition 7) [] [''Unused'']
       [Some (subCondition ConditionTrue 1 ''Ready''), None, Some (subCondition ConditionFalse 3 ''Progressing''),
        Some (subCondition ConditionFalse 2 ''Error'')] = (cs', Some c)
     \<and> FindCondition cs' ''DataReady'' = Some c \<and> cStatus c = ConditionFalse \<and> cObservedGeneration c = 2"
  using MergeConditions_worst_and_oldest [of "''DataReady''"
      "[Some (subCondition ConditionTrue 1 ''Ready''), None, Some (subCondition ConditionFalse 3 ''Progressing''),
        Some (subCondition ConditionFalse 2 ''Error'')]" "subCondition ConditionTrue 1 ''Ready''" 7 "[]" "[''Unused'']"]
  by (simp add: worstStatus_def subCondition_def)

text \<open>
  However many conditions the DRPC reconciler writes one after the other through
  \<^verbatim>\<open>addOrUpdateCondition\<close>, a look-up of a type finds the status and generation of the last write of
  that type, whatever was stored before.
\<close>

theorem conditions_last_write_wins:
  assumes "cType w \<notin> set (map cType ws')"
  shows "\<exists>c'. FindCondition (foldl (addCond now) cs (ws @ w # ws')) (cType w) = Some c'
     \<and> cStatus c' = cStatus w \<and> cObservedGeneration c' = cObservedGeneration w"
  using assms by (rule aoc.last_write_wins)

theorem conditions_last_write_wins_witness:
  "\<exists>c'. FindCondition (foldl (addCond 7) [] ([subCondition ConditionFalse 1 ''Progressing'']
        @ subCondition ConditionTrue 2 ''Ready'' # [zeroCondition])) ''DataReady'' = Some c'
     \<and> cStatus c' = ConditionTrue \<and> cObservedGeneration c' = 2"
  using conditions_last_write_wins [of "subCondition ConditionTrue 2 ''Ready''" "[zeroCondition]" 7 "[]"
      "[subCondition ConditionFalse 1 ''Progressing'']"]
  by (simp add: subCondition_def zeroCondition_def)

end
