(* ===== verification/Ramen_Types.thy ===== *)
theory Ramen_Types
  imports Ramen_Conditions "HOL-Library.Word"
begin

text \<open>
  The API types of \<^verbatim>\<open>api/v1alpha1\<close>: a Go struct is a record of the fields the controller code
  modelled here reads or writes, an
  enumerated string type is a datatype whose first constructor is the empty string where the
  code tests for it. Times and durations are integers, a nil pointer is \<open>None\<close>, a
  \<^verbatim>\<open>metav1.LabelSelector\<close> or a pod security context is only ever copied and is kept as its
  serialised text.
\<close>

type_synonym label_selector = string

section \<open>Peer classes and protected volumes\<close>

record peer_class =
  pcReplicationID :: string
  pcGroupReplicationID :: string
  pcStorageID :: "string list"
  pcStorageClassName :: string
  pcClusterIDs :: "string list"
  pcGrouping :: bool
  pcOffloaded :: bool
  pcGlobal :: bool

record storage_id =
  idID :: string
  idModes :: "string list"

record storage_identifiers =
  siStorageProvisioner :: string
  siStorageID :: storage_id
  siReplicationID :: storage_id

record protected_pvc =
  pvcNamespace :: string
  pvcName :: string
  pvcProtectedByVolSync :: bool
  pvcStorageIdentifiers :: storage_identifiers
  pvcStorageClassName :: "string option"
  pvcAnnotations :: strmap
  pvcLabels :: strmap
  pvcAccessModes :: "string list"
  pvcResources :: string
  pvcConditions :: conditions
  pvcLastSyncTime :: "int option"
  pvcLastSyncDuration :: "int option"
  pvcLastSyncBytes :: "int option"
  pvcVolumeMode :: "string option"

section \<open>Static IP discovery and translation\<close>

record resource_reference =
  rrAPIVersion :: string
  rrKind :: string
  rrNamespace :: string
  rrName :: string

record discovered_network =
  dnNetworkName :: string
  dnAddresses :: "string list"

record discovered_resource =
  drResourceRef :: resource_reference
  drNetworks :: "discovered_network list"

record network_translation =
  ntNetworkName :: string
  ntAddresses :: "string list"

record ip_translation_spec =
  itResourceRef :: resource_reference
  itNetworks :: "network_translation list"

section \<open>VolumeReplicationGroup\<close>

datatype replication_state = ReplicationStateUnset | Primary | Secondary

datatype vrg_state = StateUnset | PrimaryState | SecondaryState | UnknownState

datatype vrg_action = VRGActionNone | VRGActionFailover | VRGActionRelocate

record vrg_async_spec =
  asReplicationClassSelector :: label_selector
  asVolumeSnapshotClassSelector :: label_selector
  asVolumeGroupSnapshotClassSelector :: label_selector
  asSchedulingInterval :: string
  asPeerClasses :: "peer_class list"

record vrg_sync_spec =
  ssPeerClasses :: "peer_class list"

record mover_config =
  mcMoverSecurityContext :: "string option"
  mcMoverServiceAccount :: "string option"
  mcPVCName :: string
  mcPVCNameSpace :: string

record rsync_tls =
  rtAddress :: string
  rtTLSSecretRef :: "string option"

record rd_spec =
  rdProtectedPVC :: protected_pvc
  rdMoverConfig :: "mover_config option"

record rs_spec =
  rsProtectedPVC :: protected_pvc
  rsRsyncTLS :: "rsync_tls option"
  rsMoverConfig :: "mover_config option"

record rd_info =
  riProtectedPVC :: protected_pvc
  riRsyncTLS :: "rsync_tls option"

record volsync_spec =
  vsRDSpec :: "rd_spec list"
  vsRSSpec :: "rs_spec list"
  vsDisabled :: bool
  vsMoverConfig :: "mover_config list"

record recipe_ref =
  rfNamespace :: string
  rfName :: string

record kube_object_protection =
  kopCaptureInterval :: "int option"
  kopRecipeRef :: "recipe_ref option"
  kopRecipeParameters :: "(string \<times> string list) list"
  kopKubeObjectSelector :: "label_selector option"

record vrg_spec =
  vPVCSelector :: label_selector
  vReplicationState :: replication_state
  vS3Profiles :: "string list"
  vAsync :: "vrg_async_spec option"
  vSync :: "vrg_sync_spec option"
  vVolSync :: volsync_spec
  vPrepareForFinalSync :: bool
  vRunFinalSync :: bool
  vAction :: vrg_action
  vDryRun :: bool
  vKubeObjectProtection :: "kube_object_protection option"
  vProtectedNamespaces :: "string list option"
  vStaticIPTranslationSpec :: "ip_translation_spec list option"

record vrg_status =
  vState :: vrg_state
  vProtectedPVCs :: "protected_pvc list"
  vPVCGroups :: "string list list"
  vRDInfo :: "rd_info list"
  vConditions :: conditions
  vStatusObservedGeneration :: int
  vLastUpdateTime :: int
  vCaptureEndTime :: "int option"
  vPrepareForFinalSyncComplete :: bool
  vFinalSyncComplete :: bool
  vLastGroupSyncTime :: "int option"
  vLastGroupSyncDuration :: "int option"
  vLastGroupSyncBytes :: "int option"
  vStaticIPDiscovery :: "discovered_resource list option"

record vrg =
  vKind :: string
  vName :: string
  vNamespace :: string
  vGeneration :: int
  vResourceVersion :: string
  vDeleted :: bool
  vAnnotations :: strmap
  vLabels :: strmap
  vSpec :: vrg_spec
  vStatus :: vrg_status

section \<open>DRPlacementControl\<close>

datatype dr_action = ActionNone | ActionFailover | ActionRelocate

datatype dr_state =
    StateNone | WaitForUser | Initiating | Deploying | Deployed | FailingOver | FailedOver
  | Relocating | Relocated | Deleting

fun dr_state_str :: "dr_state \<Rightarrow> string" where
  "dr_state_str StateNone = []"
| "dr_state_str WaitForUser = ''WaitForUser''"
| "dr_state_str Initiating = ''Initiating''"
| "dr_state_str Deploying = ''Deploying''"
| "dr_state_str Deployed = ''Deployed''"
| "dr_state_str FailingOver = ''FailingOver''"
| "dr_state_str FailedOver = ''FailedOver''"
| "dr_state_str Relocating = ''Relocating''"
| "dr_state_str Relocated = ''Relocated''"
| "dr_state_str Deleting = ''Deleting''"

fun dr_action_str :: "dr_action \<Rightarrow> string" where
  "dr_action_str ActionNone = []"
| "dr_action_str ActionFailover = ''Failover''"
| "dr_action_str ActionRelocate = ''Relocate''"

datatype progression =
    ProgressionNone
  | ProgressionCompleted
  | ProgressionCreatingMW
  | ProgressionUpdatingPlRule
  | ProgressionWaitForReadiness
  | ProgressionCleanupReadiness
  | ProgressionCleaningUp
  | ProgressionWaitOnUserToCleanUp
  | ProgressionCheckingFailoverPrerequisites
  | ProgressionFailingOverToCluster
  | ProgressionWaitForFencing
  | ProgressionWaitForStorageMaintenanceActivation
  | ProgressionPreparingFinalSync
  | ProgressionClearingPlacement
  | ProgressionRunningFinalSync
  | ProgressionFinalSyncComplete
  | ProgressionEnsuringVolumesAreSecondary
  | ProgressionWaitOnGlobalAction
  | ProgressionWaitingForResourceRestore
  | ProgressionUpdatedPlacement
  | ProgressionEnsuringSecondarySetup
  | ProgressionSettingupVolsyncDest
  | ProgressionDeleting
  | ProgressionDeleted
  | ProgressionActionPaused
  | ProgressionTestingFailover

record drpc_spec =
  dPlacementRefName :: string
  dPlacementRefNamespace :: string
  dDRPolicyRefName :: string
  dProtectedNamespaces :: "string list option"
  dPreferredCluster :: string
  dFailoverCluster :: string
  dPVCSelector :: label_selector
  dAction :: dr_action
  dDryRun :: bool
  dKubeObjectProtection :: "kube_object_protection option"
  dVolSyncSpec :: "volsync_spec option"
  dRetainNamespaceSCCAcrossPeers :: bool

record placement_decision =
  pdClusterName :: string
  pdClusterNamespace :: string

record vrg_resource_meta =
  rmKind :: string
  rmName :: string
  rmNamespace :: string
  rmGeneration :: int
  rmProtectedPVCs :: "string list"
  rmPVCGroups :: "string list list"
  rmResourceVersion :: string
  rmProtectedStaticIPVMs :: "discovered_resource list"

record vrg_conditions =
  rcResourceMeta :: vrg_resource_meta
  rcConditions :: conditions

record drpc_status =
  sPhase :: dr_state
  sObservedGeneration :: int
  sActionStartTime :: "int option"
  sActionDuration :: "int option"
  sProgression :: progression
  sPreferredDecision :: placement_decision
  sConditions :: conditions
  sResourceConditions :: vrg_conditions
  sLastUpdateTime :: "int option"
  sLastGroupSyncTime :: "int option"
  sLastGroupSyncDuration :: "int option"
  sLastGroupSyncBytes :: "int option"
  sLastKubeObjectProtectionTime :: "int option"

text \<open>
  The annotation \<^verbatim>\<open>dr-action-count\<close> holds a small JSON object written and read only by
  \<^verbatim>\<open>dr_telemetry_metrics.go\<close>; it is kept decoded, \<open>None\<close> when absent or malformed.
\<close>

record action_count =
  acFailover :: "64 word"
  acRelocate :: "64 word"
  acLastPhase :: dr_state

record drpc =
  dName :: string
  dNamespace :: string
  dUID :: string
  dGeneration :: int
  dDeleted :: bool
  dFinalizers :: "string list"
  dOwnerReferences :: "(string \<times> bool) list"
  dAnnotations :: strmap
  dLabels :: strmap
  dActionCount :: "action_count option"
  dSpec :: drpc_spec
  dStatus :: drpc_status

section \<open>DRPolicy and DRCluster\<close>

record network_peer =
  npNADName :: string
  npNADNamespace :: string
  npClusterCNITypes :: strmap

record drpolicy =
  polName :: string
  polGeneration :: int
  polCreationTimestamp :: int
  polDeleted :: bool
  polLabels :: strmap
  polFinalizers :: "string list"
  polNetworkMappingRef :: "string option"
  polSchedulingInterval :: string
  polReplicationClassSelector :: label_selector
  polVolumeSnapshotClassSelector :: label_selector
  polVolumeGroupSnapshotClassSelector :: label_selector
  polDRClusters :: "string list"
  polConditions :: conditions
  polAsyncPeerClasses :: "peer_class list"
  polSyncPeerClasses :: "peer_class list"
  polNetworkPeers :: "network_peer list"

datatype mmode_state = MModeStateUnset | MModeStateUnknown | MModeStateError | MModeStateProgressing | MModeStateCompleted

record cluster_mmode =
  cmStorageProvisioner :: string
  cmTargetID :: string
  cmState :: mmode_state
  cmConditions :: conditions

datatype cluster_fence_state =
    ClusterFenceStateUnset
  | ClusterFenceStateUnfenced
  | ClusterFenceStateFenced
  | ClusterFenceStateManuallyFenced
  | ClusterFenceStateManuallyUnfenced

datatype drcluster_phase = PhaseUnset | Available | Starting | Fencing | Fenced | Unfencing | Unfenced

record drcluster =
  dcName :: string
  dcNamespace :: string
  dcGeneration :: int
  dcDeleted :: bool
  dcLabels :: strmap
  dcAnnotations :: strmap
  dcFinalizers :: "string list"
  dcCIDRs :: "string list"
  dcClusterFence :: cluster_fence_state
  dcS3ProfileName :: string
  dcRegion :: string
  dcPhase :: drcluster_phase
  dcConditions :: conditions
  dcMaintenanceModes :: "cluster_mmode list"

datatype dr_type = DRTypeSync | DRTypeAsync

section \<open>Small predicates on the types\<close>

definition isVRGPrimary :: "vrg \<Rightarrow> bool" where
  "isVRGPrimary v \<longleftrightarrow> vReplicationState (vSpec v) = Primary"

definition isVRGSecondary :: "vrg \<Rightarrow> bool" where
  "isVRGSecondary v \<longleftrightarrow> vReplicationState (vSpec v) = Secondary"

definition isDiscoveredApp :: "drpc \<Rightarrow> bool" where
  "isDiscoveredApp d \<longleftrightarrow>
     (case dProtectedNamespaces (dSpec d) of None \<Rightarrow> False | Some ns \<Rightarrow> ns \<noteq> [])"

definition IsVMRecipe :: "kube_object_protection option \<Rightarrow> bool" where
  "IsVMRecipe kop \<longleftrightarrow>
     (case kop of None \<Rightarrow> False
      | Some k \<Rightarrow> (case kopRecipeRef k of None \<Rightarrow> False | Some r \<Rightarrow> rfName r = ''vm-recipe''))"

definition DRPolicyClusterNames :: "drpolicy \<Rightarrow> string list" where
  "DRPolicyClusterNames p = polDRClusters p"

definition IsSubmarinerEnabled :: "strmap \<Rightarrow> bool" where
  "IsSubmarinerEnabled annotations \<longleftrightarrow>
     sm_get annotations ''drplacementcontrol.ramendr.openshift.io/is-submariner-enabled'' \<noteq> ''false''"

lemma primary_not_secondary [simp]: "isVRGPrimary v \<Longrightarrow> \<not> isVRGSecondary v"
  by (simp add: isVRGPrimary_def isVRGSecondary_def)

section \<open>An empty VRG\<close>

definition zeroVolSync :: volsync_spec where
  "zeroVolSync = \<lparr>vsRDSpec = [], vsRSSpec = [], vsDisabled = False, vsMoverConfig = []\<rparr>"

definition zeroVRGStatus :: vrg_status where
  "zeroVRGStatus = \<lparr>vState = StateUnset, vProtectedPVCs = [], vPVCGroups = [], vRDInfo = [],
     vConditions = [], vStatusObservedGeneration = 0, vLastUpdateTime = 0, vCaptureEndTime = None,
     vPrepareForFinalSyncComplete = False, vFinalSyncComplete = False, vLastGroupSyncTime = None,
     vLastGroupSyncDuration = None, vLastGroupSyncBytes = None, vStaticIPDiscovery = None\<rparr>"

definition emptyVRG :: "string \<Rightarrow> string \<Rightarrow> label_selector \<Rightarrow> replication_state \<Rightarrow> vrg" where
  "emptyVRG name ns sel repState =
     \<lparr>vKind = ''VolumeReplicationGroup'', vName = name, vNamespace = ns, vGeneration = 0, vResourceVersion = [], vDeleted = False,
      vAnnotations = [], vLabels = [],
      vSpec = \<lparr>vPVCSelector = sel, vReplicationState = repState, vS3Profiles = [], vAsync = None,
        vSync = None, vVolSync = zeroVolSync, vPrepareForFinalSync = False, vRunFinalSync = False,
        vAction = VRGActionNone, vDryRun = False, vKubeObjectProtection = None,
        vProtectedNamespaces = None, vStaticIPTranslationSpec = None\<rparr>,
      vStatus = zeroVRGStatus\<rparr>"

end
