(* ===== verification/Ramen_PeerClass.thy ===== *)
theory Ramen_PeerClass
  imports Ramen_Types
begin

text \<open>
  Peer classes of a VRG and the Metro capability of a DRPolicy, from
  \<^verbatim>\<open>internal/controller/drplacementcontrol.go\<close>: \<^verbatim>\<open>updatePeers\<close> brings the peer classes a VRG
  carries up to date with the policy without changing how a volume is replicated;
  \<^verbatim>\<open>dRPolicySupportsMetro\<close> classifies a policy.
\<close>

section \<open>Updating the peer classes of a VRG\<close>

definition equalClusterIDSlices :: "string list \<Rightarrow> string list \<Rightarrow> bool" where
  "equalClusterIDSlices a b \<longleftrightarrow>
     length a = length b \<and> list_all (\<lambda>v. v \<in> set a) b \<and> list_all (\<lambda>v. v \<in> set b) a"

definition adoptPeerClass :: "peer_class \<Rightarrow> bool \<Rightarrow> peer_class" where
  "adoptPeerClass from cg = (if cg then from\<lparr>pcGrouping := True\<rparr> else from)"

fun updatePeerClass :: "peer_class list \<Rightarrow> peer_class \<Rightarrow> string \<Rightarrow> bool \<Rightarrow> peer_class list" where
  "updatePeerClass [] from scName cg = []"
| "updatePeerClass (t # ts) from scName cg =
     (if pcStorageClassName t \<noteq> scName \<or> \<not> equalClusterIDSlices (pcClusterIDs t) (pcClusterIDs from)
      then t # updatePeerClass ts from scName cg
      else if pcOffloaded t \<noteq> pcOffloaded from then t # ts
      else if pcGlobal t \<noteq> pcGlobal from then t # ts
      else if pcReplicationID t = [] \<and> pcReplicationID from = [] \<and> pcGrouping t = pcGrouping from
        then adoptPeerClass from cg # ts
      else if pcReplicationID t \<noteq> [] \<and> pcReplicationID from \<noteq> [] \<and> pcGrouping t = pcGrouping from
        then adoptPeerClass from cg # ts
      else t # ts)"

fun hasPeerClass :: "peer_class list \<Rightarrow> string \<Rightarrow> string list \<Rightarrow> bool" where
  "hasPeerClass [] scName clusterIDs = False"
| "hasPeerClass (p # ps) scName clusterIDs =
     (pcStorageClassName p = scName \<and> equalClusterIDSlices (pcClusterIDs p) clusterIDs
      \<or> hasPeerClass ps scName clusterIDs)"

text \<open>
  The inner loop of \<^verbatim>\<open>updatePeers\<close> over the policy's classes, for one storage class. In Go
  \<^verbatim>\<open>peerClasses\<close> starts as an alias of \<^verbatim>\<open>vrgPeerClasses\<close>, so an update may also show in the
  latter; \<open>hasPeerClass_updatePeerClass\<close> below shows that the only use made of it,
  \<^verbatim>\<open>hasPeerClass\<close>, cannot tell, so the model keeps the initial value.
\<close>

fun updatePeersFor ::
  "peer_class list \<Rightarrow> string \<Rightarrow> bool \<Rightarrow> peer_class list \<Rightarrow> peer_class list \<Rightarrow> peer_class list" where
  "updatePeersFor vrgPCs scName cg [] acc = acc"
| "updatePeersFor vrgPCs scName cg (p # policy) acc =
     (if pcStorageClassName p \<noteq> scName then updatePeersFor vrgPCs scName cg policy acc
      else if hasPeerClass vrgPCs scName (pcClusterIDs p) then updatePeerClass acc p scName cg
      else if hasPeerClass acc scName (pcClusterIDs p) then acc
      else updatePeersFor vrgPCs scName cg policy (acc @ [p]))"

fun updatePeersLoop ::
  "peer_class list \<Rightarrow> peer_class list \<Rightarrow> bool \<Rightarrow> protected_pvc list \<Rightarrow> peer_class list \<Rightarrow> peer_class list" where
  "updatePeersLoop vrgPCs policy cg [] acc = acc"
| "updatePeersLoop vrgPCs policy cg (pvc # pvcs) acc =
     (case pvcStorageClassName pvc of
        None \<Rightarrow> updatePeersLoop vrgPCs policy cg pvcs acc
      | Some sc \<Rightarrow>
          if sc = [] then updatePeersLoop vrgPCs policy cg pvcs acc
          else updatePeersLoop vrgPCs policy cg pvcs (updatePeersFor vrgPCs sc cg policy acc))"

definition updatePeers :: "vrg \<Rightarrow> peer_class list \<Rightarrow> peer_class list \<Rightarrow> bool \<Rightarrow> peer_class list" where
  "updatePeers vrgFromView vrgPCs policyPCs cg =
     updatePeersLoop vrgPCs policyPCs cg (vProtectedPVCs (vStatus vrgFromView)) vrgPCs"

section \<open>Metro capability of a policy\<close>

text \<open>
  \<^verbatim>\<open>GetSecondsFromSchedulingInterval\<close> on the strings the CRD admits, \<^verbatim>\<open>^(|\d+[mhd])$\<close>: the
  empty string, or a number of minutes, hours or days. \<^verbatim>\<open>time.ParseDuration\<close> refuses a value
  of more than \<open>2 ^ 63 - 1\<close> nanoseconds; days go through a float, whose rounding above
  \<open>2 ^ 53\<close> is left out. Every other string is an error here.
\<close>

definition digit_val :: "char \<Rightarrow> nat option" where
  "digit_val c = (let n = of_char c in if 48 \<le> n \<and> n \<le> (57::nat) then Some (n - 48) else None)"

fun parse_digits :: "nat \<Rightarrow> string \<Rightarrow> nat option" where
  "parse_digits acc [] = Some acc"
| "parse_digits acc (c # cs) =
     (case digit_val c of None \<Rightarrow> None | Some d \<Rightarrow> parse_digits (10 * acc + d) cs)"

definition GetSecondsFromSchedulingInterval :: "drpolicy \<Rightarrow> gerr + nat" where
  "GetSecondsFromSchedulingInterval p =
     (let si = polSchedulingInterval p
      in if si = [] then Inr 0
         else let unit = last si; num = butlast si;
                  n = (if num = [] then None else parse_digits 0 num);
                  secs = (\<lambda>k m. if m * k * 10 ^ 9 < 2 ^ 63 then Inr (m * k)
                                else Inl (newE (''time: invalid duration '' @ si)))
              in case n of
                   None \<Rightarrow> Inl (newE (''invalid duration '' @ si))
                 | Some m \<Rightarrow>
                     if unit = CHR ''d'' then Inr (m * 86400)
                     else if unit = CHR ''h'' then secs 3600 m
                     else if unit = CHR ''m'' then secs 60 m
                     else Inl (newE (''time: unknown unit '' @ si)))"

definition checkMetroSupportUsingSchedulingInterval :: "drpolicy \<Rightarrow> gerr + bool" where
  "checkMetroSupportUsingSchedulingInterval p =
     (case GetSecondsFromSchedulingInterval p of
        Inl e \<Rightarrow> Inl e
      | Inr secs \<Rightarrow> if secs = 0 then Inr True else Inr False)"

text \<open>
  \<^verbatim>\<open>drClusterIDsToNames\<close> may be nil (\<open>None\<close>); a missing key reads as the empty name.
\<close>

fun metroPeers ::
  "(string \<rightharpoonup> string) \<Rightarrow> peer_class list \<Rightarrow> string list list \<Rightarrow> bool \<times> string list list" where
  "metroPeers names [] acc = (True, acc)"
| "metroPeers names (p # ps) acc =
     (if length (pcStorageID p) \<noteq> 1 then metroPeers names ps acc
      else if pcClusterIDs p = [] then (False, [])
      else let peers = map (\<lambda>i. case names i of None \<Rightarrow> [] | Some n \<Rightarrow> n) (pcClusterIDs p)
           in if length peers \<noteq> length (pcClusterIDs p) then (False, [])
              else metroPeers names ps (acc @ [peers]))"

definition checkMetroSupportUsingPeerClass ::
  "drpolicy \<Rightarrow> (string \<rightharpoonup> string) option \<Rightarrow> bool \<times> string list list" where
  "checkMetroSupportUsingPeerClass p names =
     (if polSyncPeerClasses p = [] then (False, [])
      else case names of None \<Rightarrow> (True, []) | Some m \<Rightarrow> metroPeers m (polSyncPeerClasses p) [])"

definition dRPolicySupportsMetro ::
  "drpolicy \<Rightarrow> (string \<rightharpoonup> string) option \<Rightarrow> gerr + bool \<times> string list list" where
  "dRPolicySupportsMetro p names =
     (if polSyncPeerClasses p = [] \<and> polAsyncPeerClasses p = []
      then (case checkMetroSupportUsingSchedulingInterval p of Inl e \<Rightarrow> Inl e | Inr r \<Rightarrow> Inr (r, []))
      else if polSyncPeerClasses p \<noteq> [] then Inr (checkMetroSupportUsingPeerClass p names)
      else Inr (False, []))"

section \<open>Lemmas\<close>

text \<open>The slice comparison is an equivalence: equal length and equal element sets.\<close>

lemma equalClusterIDSlices_iff:
  "equalClusterIDSlices a b \<longleftrightarrow> length a = length b \<and> set a = set b"
  by (auto simp: equalClusterIDSlices_def list_all_iff)

text \<open>The replication scheme of a class, which an update must not change.\<close>

definition sameScheme :: "peer_class \<Rightarrow> peer_class \<Rightarrow> bool" where
  "sameScheme p q \<longleftrightarrow> pcStorageClassName p = pcStorageClassName q
     \<and> equalClusterIDSlices (pcClusterIDs p) (pcClusterIDs q)
     \<and> pcOffloaded p = pcOffloaded q \<and> pcGlobal p = pcGlobal q
     \<and> (pcReplicationID p = [] \<longleftrightarrow> pcReplicationID q = [])"

lemma sameScheme_refl [simp]: "sameScheme p p"
  by (simp add: sameScheme_def equalClusterIDSlices_iff)

lemma sameScheme_trans: "sameScheme p q \<Longrightarrow> sameScheme q r \<Longrightarrow> sameScheme p r"
  by (simp add: sameScheme_def equalClusterIDSlices_iff)

lemma updatePeerClass_scheme:
  "pcStorageClassName from = sc \<Longrightarrow> list_all2 sameScheme to (updatePeerClass to from sc cg)"
  by (induction to)
     (auto simp: sameScheme_def adoptPeerClass_def equalClusterIDSlices_iff list_all2_same)

lemma updatePeerClass_grouping:
  "list_all2 (\<lambda>p q. pcGrouping p \<longrightarrow> pcGrouping q) to (updatePeerClass to from sc cg)"
  by (induction to) (auto simp: adoptPeerClass_def list_all2_same)

lemma updatePeerClass_no_cg_grouping:
  "list_all2 (\<lambda>p q. pcGrouping q = pcGrouping p) to (updatePeerClass to from sc False)"
  by (induction to) (auto simp: adoptPeerClass_def list_all2_same)

lemma hasPeerClass_scheme:
  "list_all2 sameScheme ps qs \<Longrightarrow> hasPeerClass ps sc ids = hasPeerClass qs sc ids"
  by (induction rule: list_all2_induct) (auto simp: sameScheme_def equalClusterIDSlices_iff)

text \<open>Why the aliasing in \<^verbatim>\<open>updatePeers\<close> cannot be observed.\<close>

lemma hasPeerClass_updatePeerClass:
  "pcStorageClassName from = sc \<Longrightarrow>
     hasPeerClass (updatePeerClass to from sc cg) sc' ids = hasPeerClass to sc' ids"
  using hasPeerClass_scheme [OF updatePeerClass_scheme] by metis

lemma hasPeerClass_append [simp]:
  "hasPeerClass (ps @ qs) sc ids \<longleftrightarrow> hasPeerClass ps sc ids \<or> hasPeerClass qs sc ids"
  by (induction ps) auto

lemma hasPeerClass_iff:
  "hasPeerClass ps sc ids \<longleftrightarrow>
     (\<exists>p \<in> set ps. pcStorageClassName p = sc \<and> equalClusterIDSlices (pcClusterIDs p) ids)"
  by (induction ps) auto

text \<open>
  The loop invariant of \<^verbatim>\<open>updatePeers\<close>: the classes the VRG came with are still there, in
  place and with their scheme, followed by policy classes of storage classes in use.
\<close>

definition grownFrom :: "peer_class list \<Rightarrow> peer_class list \<Rightarrow> string set \<Rightarrow> peer_class list \<Rightarrow> bool" where
  "grownFrom vrgPCs policy scs acc \<longleftrightarrow>
     (\<exists>old new. acc = old @ new \<and> list_all2 sameScheme vrgPCs old
        \<and> (\<forall>q \<in> set new. \<exists>p \<in> set policy. sameScheme p q \<and> pcStorageClassName q \<in> scs))"

lemma grownFrom_init: "grownFrom vrgPCs policy scs vrgPCs"
  unfolding grownFrom_def
  by (rule exI [of _ vrgPCs], rule exI [of _ "[]"]) (simp add: list_all2_same)

lemma sameScheme_of_update:
  assumes "pcStorageClassName from = sc" "i < length to"
  shows "sameScheme (to ! i) (updatePeerClass to from sc cg ! i)"
  using updatePeerClass_scheme [OF assms(1), of to cg] assms(2) by (auto simp: list_all2_conv_all_nth)

lemma grownFrom_update:
  assumes g: "grownFrom vrgPCs policy scs acc" and sc: "pcStorageClassName p = sc"
  shows "grownFrom vrgPCs policy scs (updatePeerClass acc p sc cg)"
proof -
  obtain old new where acc: "acc = old @ new" and o: "list_all2 sameScheme vrgPCs old"
    and n: "\<forall>q \<in> set new. \<exists>p' \<in> set policy. sameScheme p' q \<and> pcStorageClassName q \<in> scs"
    using g by (auto simp: grownFrom_def)
  have "list_all2 sameScheme acc (updatePeerClass acc p sc cg)"
    by (rule updatePeerClass_scheme [OF sc])
  then obtain old' new' where u: "updatePeerClass acc p sc cg = old' @ new'"
    and o': "list_all2 sameScheme old old'" and n': "list_all2 sameScheme new new'"
    unfolding acc by (auto simp: list_all2_append1)
  have "list_all2 sameScheme vrgPCs old'"
    by (rule list_all2_trans [OF _ o o']) (rule sameScheme_trans)
  moreover have "\<forall>q \<in> set new'. \<exists>p' \<in> set policy. sameScheme p' q \<and> pcStorageClassName q \<in> scs"
  proof
    fix q assume "q \<in> set new'"
    then obtain q0 where "q0 \<in> set new" "sameScheme q0 q"
      using n' by (metis list_all2_conv_all_nth in_set_conv_nth)
    with n show "\<exists>p' \<in> set policy. sameScheme p' q \<and> pcStorageClassName q \<in> scs"
      using sameScheme_trans by (metis sameScheme_def)
  qed
  ultimately show ?thesis unfolding grownFrom_def using u by blast
qed

lemma grownFrom_snoc:
  assumes "grownFrom vrgPCs policy scs acc" "p \<in> set policy" "pcStorageClassName p \<in> scs"
  shows "grownFrom vrgPCs policy scs (acc @ [p])"
proof -
  obtain old new where "acc = old @ new" "list_all2 sameScheme vrgPCs old"
    "\<forall>q \<in> set new. \<exists>p \<in> set policy. sameScheme p q \<and> pcStorageClassName q \<in> scs"
    using assms(1) by (auto simp: grownFrom_def)
  with assms(2,3) show ?thesis
    unfolding grownFrom_def
    by (intro exI [of _ old] exI [of _ "new @ [p]"]) (auto intro: sameScheme_refl)
qed

lemma grownFrom_updatePeersFor:
  "grownFrom vrgPCs policy scs acc \<Longrightarrow> sc \<in> scs \<Longrightarrow> set ps \<subseteq> set policy
     \<Longrightarrow> grownFrom vrgPCs policy scs (updatePeersFor vrgPCs sc cg ps acc)"
  by (induction ps arbitrary: acc) (auto intro: grownFrom_update grownFrom_snoc)

lemma grownFrom_updatePeersLoop:
  "grownFrom vrgPCs policy scs acc
     \<Longrightarrow> {sc. \<exists>pvc \<in> set pvcs. pvcStorageClassName pvc = Some sc} \<subseteq> scs
     \<Longrightarrow> grownFrom vrgPCs policy scs (updatePeersLoop vrgPCs policy cg pvcs acc)"
proof (induction pvcs arbitrary: acc)
  case (Cons pvc pvcs)
  then show ?case
    by (cases "pvcStorageClassName pvc") (auto intro!: Cons.IH grownFrom_updatePeersFor)
qed simp

text \<open>After one storage class is handled, some policy class of it is present.\<close>

lemma hasPeerClass_updatePeersFor_mono:
  "hasPeerClass acc sc' ids \<Longrightarrow> hasPeerClass (updatePeersFor vrgPCs sc cg ps acc) sc' ids"
  by (induction ps arbitrary: acc) (auto simp: hasPeerClass_updatePeerClass)

lemma hasPeerClass_updatePeersLoop_mono:
  "hasPeerClass acc sc ids \<Longrightarrow> hasPeerClass (updatePeersLoop vrgPCs policy cg pvcs acc) sc ids"
proof (induction pvcs arbitrary: acc)
  case (Cons pvc pvcs)
  then show ?case
    by (cases "pvcStorageClassName pvc") (auto intro: Cons.IH hasPeerClass_updatePeersFor_mono)
qed simp

definition firstPolicyClass :: "peer_class list \<Rightarrow> string \<Rightarrow> peer_class option" where
  "firstPolicyClass policy sc = List.find (\<lambda>p. pcStorageClassName p = sc) policy"

lemma updatePeersFor_covers:
  assumes "firstPolicyClass policy sc = Some p" "\<And>ids. hasPeerClass vrgPCs sc ids \<Longrightarrow> hasPeerClass acc sc ids"
  shows "hasPeerClass (updatePeersFor vrgPCs sc cg policy acc) sc (pcClusterIDs p)"
  using assms
proof (induction policy arbitrary: acc)
  case (Cons q policy)
  show ?case
  proof (cases "pcStorageClassName q = sc")
    case False
    with Cons show ?thesis by (simp add: firstPolicyClass_def)
  next
    case True
    with Cons.prems(1) have "q = p" by (simp add: firstPolicyClass_def)
    with True Cons.prems(2) show ?thesis
      by (auto simp: hasPeerClass_updatePeerClass equalClusterIDSlices_iff
          intro: hasPeerClass_updatePeersFor_mono)
  qed
qed (simp add: firstPolicyClass_def)

lemma updatePeersLoop_covers:
  assumes "pvc \<in> set pvcs" "pvcStorageClassName pvc = Some sc" "sc \<noteq> []"
    and "firstPolicyClass policy sc = Some p"
    and "\<And>ids. hasPeerClass vrgPCs sc ids \<Longrightarrow> hasPeerClass acc sc ids"
  shows "hasPeerClass (updatePeersLoop vrgPCs policy cg pvcs acc) sc (pcClusterIDs p)"
  using assms(1,5)
proof (induction pvcs arbitrary: acc)
  case (Cons x pvcs)
  show ?case
  proof (cases "x = pvc")
    case True
    then show ?thesis
      using assms(2,3) updatePeersFor_covers [OF assms(4) Cons.prems(2)]
      by (simp add: hasPeerClass_updatePeersLoop_mono)
  next
    case False
    with Cons.prems(1) have "pvc \<in> set pvcs" by simp
    with Cons show ?thesis
      by (cases "pvcStorageClassName x") (auto intro: hasPeerClass_updatePeersFor_mono)
  qed
qed simp

end
