(* ===== verification/Ramen_Server.thy ===== *)
theory Ramen_Server
  imports Ramen_Prelude
begin

text \<open>
  A Kubernetes API server as a controller's client sees it: the part of the state every reconcile has, and the
  calls on one kind of object. The state of a reconciler extends the record \<open>server\<close> with its stores; the
  operations here are polymorphic in that extension.

  Every call may fail: the \<open>n\<close>-th call of the reconcile returns the error \<open>faults n\<close> if there is one, without
  effect, and succeeds otherwise; \<open>faults\<close> is any function, so a theorem about the model holds for every
  pattern of API failures.
\<close>

section \<open>State\<close>

record server =
  clock :: int
  conflictRetries :: nat
  faults :: "nat \<Rightarrow> gerr option"
  calls :: nat

type_synonym ('z, 'a) srvm = "('z server_scheme, 'a) gm"

text \<open>Objects of one kind, keyed by name and namespace (empty for a cluster-scoped kind).\<close>

type_synonym 'v store = "string \<times> string \<Rightarrow> 'v option"

section \<open>Calls\<close>

definition apiCall :: "('z, unit) srvm" where
  "apiCall s =
     (case faults s (calls s) of
        Some e \<Rightarrow> (Inl e, s\<lparr>calls := calls s + 1\<rparr>)
      | None \<Rightarrow> (Inr (), s\<lparr>calls := calls s + 1\<rparr>))"

text \<open>The calls of the API client on one kind of object.\<close>

definition getFrom :: "('z server_scheme \<Rightarrow> 'v store) \<Rightarrow> string \<Rightarrow> string \<Rightarrow> ('z, 'v) srvm" where
  "getFrom field name ns =
     seqM apiCall
       (bindM (getsM (\<lambda>s. field s (name, ns)))
          (\<lambda>r. case r of None \<Rightarrow> failM (Gerr NotFound (name @ '' not found'')) | Some v \<Rightarrow> ret v))"

definition createIn ::
  "('z server_scheme \<Rightarrow> 'v store) \<Rightarrow> (('v store \<Rightarrow> 'v store) \<Rightarrow> 'z server_scheme \<Rightarrow> 'z server_scheme) \<Rightarrow> string \<Rightarrow> string \<Rightarrow> 'v \<Rightarrow> ('z, unit) srvm" where
  "createIn field upd name ns v =
     seqM apiCall
       (bindM (getsM (\<lambda>s. field s (name, ns)))
          (\<lambda>r. case r of
             Some _ \<Rightarrow> failM (Gerr AlreadyExists (name @ '' already exists''))
           | None \<Rightarrow> modifyM (upd (\<lambda>m. m((name, ns) \<mapsto> v)))))"

definition deleteIn ::
  "('z server_scheme \<Rightarrow> 'v store) \<Rightarrow> (('v store \<Rightarrow> 'v store) \<Rightarrow> 'z server_scheme \<Rightarrow> 'z server_scheme) \<Rightarrow> string \<Rightarrow> string \<Rightarrow> ('z, unit) srvm" where
  "deleteIn field upd name ns =
     seqM apiCall
       (bindM (getsM (\<lambda>s. field s (name, ns)))
          (\<lambda>r. case r of
             None \<Rightarrow> failM (Gerr NotFound (name @ '' not found''))
           | Some _ \<Rightarrow> modifyM (upd (\<lambda>m. m((name, ns) := None)))))"

definition updateIn ::
  "('z server_scheme \<Rightarrow> 'v store) \<Rightarrow> (('v store \<Rightarrow> 'v store) \<Rightarrow> 'z server_scheme \<Rightarrow> 'z server_scheme) \<Rightarrow> string \<Rightarrow> string \<Rightarrow> 'v \<Rightarrow> ('z, unit) srvm" where
  "updateIn field upd name ns v =
     seqM apiCall
       (bindM (getsM (\<lambda>s. field s (name, ns)))
          (\<lambda>r. case r of
             None \<Rightarrow> failM (Gerr NotFound (name @ '' not found''))
           | Some _ \<Rightarrow> modifyM (upd (\<lambda>m. m((name, ns) \<mapsto> v)))))"

definition ignoring :: "(gerr \<Rightarrow> bool) \<Rightarrow> ('s, unit) gm \<Rightarrow> (gerr \<Rightarrow> gerr) \<Rightarrow> ('s, unit) gm" where
  "ignoring harmless m wrap = catchM m (\<lambda>e. if harmless e then ret () else failM (wrap e))"

text \<open>\<^verbatim>\<open>retry.RetryOnConflict\<close> of client-go, with the number of attempts of its backoff.\<close>

fun retryOnConflict :: "nat \<Rightarrow> ('z, unit) srvm \<Rightarrow> ('z, unit) srvm" where
  "retryOnConflict 0 m = failM (newE ''timed out waiting for the condition'')"
| "retryOnConflict (Suc n) m =
     catchM m (\<lambda>e. if IsConflict e \<and> n > 0 then retryOnConflict n m else failM e)"

definition liftE :: "gerr + 'a \<Rightarrow> ('s, 'a) gm" where
  "liftE r = (case r of Inl e \<Rightarrow> failM e | Inr x \<Rightarrow> ret x)"

section \<open>Weakest preconditions and preservation\<close>

text \<open>An API call only advances the call count.\<close>

lemma wp_apiCall:
  "(\<And>n e. Q (Inl e) (s\<lparr>calls := n\<rparr>)) \<Longrightarrow> (\<And>n. Q (Inr ()) (s\<lparr>calls := n\<rparr>)) \<Longrightarrow> wp apiCall Q s"
  by (simp add: wp_def apiCall_def split: option.split)

lemma pres_liftE [pres_rules]: "pres I (liftE r)"
  by (simp add: liftE_def pres_fail pres_ret split: sum.split)

lemma pres_retryOnConflict [pres_rules]: "pres I m \<Longrightarrow> pres I (retryOnConflict n m)"
  by (induction n) (auto intro!: pres_rules)

lemma wp_liftE: "wp (liftE r) Q s = Q r s"
  by (cases r) (simp_all add: liftE_def wp_rules)

lemma yields_liftE: "(\<And>x. r = Inr x \<Longrightarrow> P x) \<Longrightarrow> yields P (liftE r)"
  by (cases r) (auto simp: liftE_def intro: yields_ret yields_fail)

end
