(* ===== verification/Ramen_Api.thy ===== *)
theory Ramen_Api
  imports Ramen_PeerClass Ramen_Server
begin

text \<open>
  The hub's API server as the reconcilers see it: the objects they put into ManifestWorks, the
  store of ManifestWorks, and the utilities on it that every reconciler shares
  (\<^verbatim>\<open>internal/controller/util/mw_util.go\<close>). The state of a reconciler extends the record \<open>api\<close>;
  the operations here are polymorphic in that extension.
\<close>

section \<open>API objects\<close>

record recipe =
  rcpName :: string
  rcpNamespace :: string
  rcpLabels :: strmap
  rcpAnnotations :: strmap
  rcpFinalizers :: "string list"
  rcpSpec :: string

record ns_object =
  nsName :: string
  nsAnnotations :: strmap
  nsLabels :: strmap

record network_fence =
  nfName :: string
  nfLabels :: strmap
  nfFenceState :: cluster_fence_state
  nfCidrs :: "string list"
  nfNetworkFenceClassName :: string
  nfDriver :: string
  nfSecretName :: string
  nfSecretNamespace :: string
  nfParameters :: strmap
  nfResult :: string

record maintenance_mode =
  mmName :: string
  mmLabels :: strmap
  mmStorageProvisioner :: string
  mmTargetID :: string
  mmModes :: "string list"
  mmState :: mmode_state
  mmConditions :: conditions

record storage_access_detail =
  saStorageProvisioner :: string
  saCIDRs :: "string list"

record network_attachment =
  naName :: string
  naNamespace :: string
  naCNIType :: string

record drcluster_config =
  ccName :: string
  ccLabels :: strmap
  ccClusterID :: string
  ccReplicationSchedules :: "string list"
  ccConditions :: conditions
  ccStorageClasses :: "string list"
  ccVolumeSnapshotClasses :: "string list"
  ccVolumeGroupSnapshotClasses :: "string list"
  ccVolumeReplicationClasses :: "string list"
  ccVolumeGroupReplicationClasses :: "string list"
  ccNetworkFenceClasses :: "string list"
  ccStorageAccessDetails :: "storage_access_detail list"
  ccNetworkAttachments :: "network_attachment list"

record policy_rule =
  ruAPIGroups :: "string list"
  ruResources :: "string list"
  ruVerbs :: "string list"

record cluster_role =
  crName :: string
  crLabels :: strmap
  crRules :: "policy_rule list"

record operator_group =
  ogName :: string
  ogNamespace :: string
  ogLabels :: strmap

record olm_subscription =
  subName :: string
  subNamespace :: string
  subLabels :: strmap
  subCatalogSource :: string
  subCatalogSourceNamespace :: string
  subPackage :: string
  subChannel :: string
  subStartingCSV :: string
  subInstallPlanApproval :: string

text \<open>
  The operator's configuration: the fields the reconcilers read, of an S3 profile its name and the name of its
  secret. The rest of the ConfigMap's YAML is carried along as text.
\<close>

record ramen_config =
  cfgRetainNamespaceSCCAcrossPeers :: bool
  cfgRamenOpsNamespace :: string
  cfgLeaderElectionResourceName :: "string option"
  cfgDeploymentAutomationEnabled :: bool
  cfgChannelName :: string
  cfgPackageName :: string
  cfgNamespaceName :: string
  cfgCatalogSourceName :: string
  cfgCatalogSourceNamespaceName :: string
  cfgClusterServiceVersionName :: string
  cfgS3SecretDistributionEnabled :: bool
  cfgS3StoreProfiles :: "(string \<times> string) list"
  cfgKubeObjectProtectionDisabled :: bool
  cfgVeleroNamespaceName :: string
  cfgVolumeUnprotectionEnabled :: bool
  cfgVolSyncDisabled :: bool
  cfgMultiNamespaceFeatureEnabled :: bool
  cfgMultiNamespaceVolsyncSupported :: bool
  cfgRest :: string

record config_map =
  cfmName :: string
  cfmNamespace :: string
  cfmLabels :: strmap
  cfmRamenConfig :: ramen_config

datatype manifest =
    VRGManifest vrg
  | NSManifest ns_object
  | RecipeManifest recipe
  | NFManifest network_fence
  | MModeManifest maintenance_mode
  | DRCConfigManifest drcluster_config
  | ClusterRoleManifest cluster_role
  | OperatorGroupManifest operator_group
  | ConfigMapManifest config_map
  | SubscriptionManifest olm_subscription

record manifest_work =
  mwLabels :: strmap
  mwAnnotations :: strmap
  mwManifests :: "manifest list"
  mwOrphan :: bool
  mwDeleted :: bool
  mwConditions :: conditions

section \<open>The API server's state\<close>

record api = server +
  manifestWorks :: "string \<times> string \<Rightarrow> manifest_work option"

type_synonym ('z, 'a) apim = "('z api_scheme, 'a) gm"

section \<open>API calls\<close>

definition getMW :: "string \<Rightarrow> string \<Rightarrow> ('z, manifest_work) apim" where
  "getMW name cluster =
     seqM apiCall
       (bindM (getsM (\<lambda>s. manifestWorks s (name, cluster)))
          (\<lambda>r. case r of None \<Rightarrow> failM (Gerr NotFound (name @ '' not found'')) | Some mw \<Rightarrow> ret mw))"

definition putMW :: "string \<Rightarrow> string \<Rightarrow> manifest_work \<Rightarrow> 'z api_scheme \<Rightarrow> 'z api_scheme" where
  "putMW name cluster mw s = s\<lparr>manifestWorks := (manifestWorks s)((name, cluster) \<mapsto> mw)\<rparr>"

definition createMW :: "string \<Rightarrow> string \<Rightarrow> manifest_work \<Rightarrow> ('z, unit) apim" where
  "createMW name cluster mw =
     seqM apiCall
       (bindM (getsM (\<lambda>s. manifestWorks s (name, cluster)))
          (\<lambda>r. case r of
                 Some _ \<Rightarrow> failM (Gerr AlreadyExists (name @ '' already exists''))
               | None \<Rightarrow> modifyM (putMW name cluster mw)))"

definition updateMW :: "string \<Rightarrow> string \<Rightarrow> manifest_work \<Rightarrow> ('z, unit) apim" where
  "updateMW name cluster mw =
     seqM apiCall
       (bindM (getsM (\<lambda>s. manifestWorks s (name, cluster)))
          (\<lambda>r. case r of
                 None \<Rightarrow> failM (Gerr NotFound (name @ '' not found''))
               | Some _ \<Rightarrow> modifyM (putMW name cluster mw)))"

definition deleteMW :: "string \<Rightarrow> string \<Rightarrow> ('z, unit) apim" where
  "deleteMW name cluster =
     seqM apiCall
       (bindM (getsM (\<lambda>s. manifestWorks s (name, cluster)))
          (\<lambda>r. case r of
                 None \<Rightarrow> failM (Gerr NotFound (name @ '' not found''))
               | Some _ \<Rightarrow> modifyM (\<lambda>s. s\<lparr>manifestWorks := (manifestWorks s)((name, cluster) := None)\<rparr>)))"

section \<open>ManifestWork utilities\<close>

definition ManifestWorkName :: "string \<Rightarrow> string \<Rightarrow> string \<Rightarrow> string" where
  "ManifestWorkName name ns mwType = name @ ''-'' @ ns @ ''-'' @ mwType @ ''-mw''"

text \<open>\<^verbatim>\<open>BuildManifestWorkName\<close> of a \<^verbatim>\<open>MWUtil\<close> with the given \<^verbatim>\<open>InstName\<close> and \<^verbatim>\<open>TargetNamespace\<close>.\<close>

definition mwuManifestWorkName :: "string \<Rightarrow> string \<Rightarrow> string \<Rightarrow> string" where
  "mwuManifestWorkName instName targetNamespace mwType =
     (if mwType = ''drcconfig'' then ''drcconfig-mw''
      else ManifestWorkName instName targetNamespace mwType)"

definition FindManifestWork :: "string \<Rightarrow> string \<Rightarrow> ('z, manifest_work) apim" where
  "FindManifestWork mwName cluster =
     (if cluster = [] then failM (newE (''invalid cluster for MW '' @ mwName))
      else catchM (getMW mwName cluster)
             (\<lambda>e. if IsNotFound e then failM (wrapE [] e [])
                  else failM (wrapE ''failed to retrieve manifestwork ('' e '')'')))"

definition DeleteManifestWork :: "string \<Rightarrow> string \<Rightarrow> ('z, unit) apim" where
  "DeleteManifestWork mwName mwNamespace =
     bindM (attemptM (getMW mwName mwNamespace))
       (\<lambda>r. case r of
          Inl e \<Rightarrow> if IsNotFound e then ret ()
                   else failM (wrapE (''failed to retrieve manifestwork for type: '' @ mwName @ ''. Error: '') e [])
        | Inr mw \<Rightarrow>
            catchM (deleteMW mwName mwNamespace)
              (\<lambda>e. if IsNotFound e then ret () else failM (wrapE ''failed to delete MW. Error '' e [])))"

text \<open>A merge patch of one field: it fails only if the work is gone or the call does.\<close>

definition ensureOrphanDeleteOption :: "string \<Rightarrow> string \<Rightarrow> ('z, unit) apim" where
  "ensureOrphanDeleteOption mwName cluster =
     catchM
       (seqM apiCall
          (bindM (getsM (\<lambda>s. manifestWorks s (mwName, cluster)))
             (\<lambda>r. case r of
                None \<Rightarrow> failM (Gerr NotFound (mwName @ '' not found''))
              | Some mw \<Rightarrow> modifyM (putMW mwName cluster (mw\<lparr>mwOrphan := True\<rparr>)))))
       (\<lambda>e. failM (wrapE (''failed to set orphan delete option on ManifestWork '' @ cluster @ ''/'' @ mwName @ '': '') e []))"

definition DeleteNamespaceManifestWork :: "string \<Rightarrow> string \<Rightarrow> ('z, unit) apim" where
  "DeleteNamespaceManifestWork mwName cluster =
     bindM (attemptM (getMW mwName cluster))
       (\<lambda>r. case r of
          Inl e \<Rightarrow> if IsNotFound e then ret ()
                   else failM (wrapE (''failed to retrieve manifestwork for type: '' @ mwName @ ''. Error: '') e [])
        | Inr mw \<Rightarrow>
            if mwDeleted mw then ret ()
            else bindM (if mwOrphan mw then ret (Inr ()) else attemptM (ensureOrphanDeleteOption mwName cluster))
                   (\<lambda>r'. case r' of
                      Inl e \<Rightarrow> if IsNotFound e then ret () else failM e
                    | Inr _ \<Rightarrow> DeleteManifestWork mwName cluster))"

text \<open>\<^verbatim>\<open>DeleteRecipeManifestWork\<close>, with the name that \<^verbatim>\<open>BuildManifestWorkName\<close> gives the work of the recipe.\<close>

definition DeleteRecipeManifestWork :: "string \<Rightarrow> string \<Rightarrow> ('z, unit) apim" where
  "DeleteRecipeManifestWork mwName cluster =
     bindM (attemptM (getMW mwName cluster))
       (\<lambda>r. case r of
          Inl e \<Rightarrow> if IsNotFound e then ret ()
                   else failM (wrapE (''failed to retrieve manifestwork for type: '' @ mwName @ ''. Error: '') e [])
        | Inr mw \<Rightarrow> if mwDeleted mw then ret () else DeleteManifestWork mwName cluster)"

definition IsManifestInAppliedState :: "manifest_work \<Rightarrow> bool" where
  "IsManifestInAppliedState mw =
     (let up = (\<lambda>t. \<exists>c \<in> set (mwConditions mw). cStatus c = ConditionTrue \<and> cType c = t)
      in up ''Applied'' \<and> up ''Available'' \<and> \<not> up ''Degraded'')"

definition CreatedByRamen :: "string \<times> string" where
  "CreatedByRamen = (''ramendr.openshift.io/created-by-ramen'', ''true'')"

definition newManifestWork :: "strmap \<Rightarrow> manifest list \<Rightarrow> strmap \<Rightarrow> manifest_work" where
  "newManifestWork labels manifests annotations =
     \<lparr>mwLabels = sm_put ''ramendr.openshift.io/created-by-ramen'' ''true'' labels,
      mwAnnotations = annotations, mwManifests = manifests, mwOrphan = False, mwDeleted = False, mwConditions = []\<rparr>"

datatype operation_result = OperationResultNone | OperationResultCreated | OperationResultUpdated

definition createOrUpdateManifestWork ::
  "string \<Rightarrow> manifest_work \<Rightarrow> string \<Rightarrow> ('z, operation_result) apim" where
  "createOrUpdateManifestWork name mw cluster =
     bindM (attemptM (getMW name cluster))
       (\<lambda>r. case r of
          Inl e \<Rightarrow>
            if \<not> IsNotFound e then failM (wrapE (''failed to fetch ManifestWork '' @ name @ '': '') e [])
            else seqM (createMW name cluster mw) (ret OperationResultCreated)
        | Inr found \<Rightarrow>
            if mwManifests found \<noteq> mwManifests mw \<or> mwOrphan found \<noteq> mwOrphan mw
            then bindM (getsM conflictRetries)
                   (\<lambda>n. seqM
                     (catchM
                       (retryOnConflict n
                         (bindM (getMW name cluster)
                           (\<lambda>cur. updateMW name cluster
                              (cur\<lparr>mwManifests := mwManifests mw, mwOrphan := mwOrphan mw\<rparr>))))
                       (\<lambda>e. failM (wrapE (''failed to update ManifestWork '' @ name @ '': '') e [])))
                     (ret OperationResultUpdated))
            else ret OperationResultNone)"

section \<open>Weakest preconditions of the operations\<close>

text \<open>Reading a ManifestWork returns the stored one.\<close>

lemma wp_getMW:
  assumes "\<And>n e. Q (Inl e) (s\<lparr>calls := n\<rparr>)"
    and "\<And>n mw. manifestWorks s (name, c) = Some mw \<Longrightarrow> Q (Inr mw) (s\<lparr>calls := n\<rparr>)"
  shows "wp (getMW name c) Q s"
  unfolding getMW_def using assms by (auto simp: wp_rules intro!: wp_apiCall split: option.split)

lemma wp_FindManifestWork:
  assumes "\<And>n e. Q (Inl e) (s\<lparr>calls := n\<rparr>)"
    and "\<And>n mw. manifestWorks s (name, c) = Some mw \<Longrightarrow> Q (Inr mw) (s\<lparr>calls := n\<rparr>)"
  shows "wp (FindManifestWork name c) Q s"
proof -
  have "Q (Inl e) s" for e using assms(1) [of e "calls s"] by simp
  then show ?thesis
    unfolding FindManifestWork_def using assms by (auto simp: wp_rules intro!: wp_getMW)
qed

lemma wp_updateMW:
  assumes "\<And>n e. Q (Inl e) (s\<lparr>calls := n\<rparr>)"
    and "\<And>n. Q (Inr ()) (putMW name c mw (s\<lparr>calls := n\<rparr>))"
  shows "wp (updateMW name c mw) Q s"
  unfolding updateMW_def using assms by (auto simp: wp_rules intro!: wp_apiCall split: option.split)

lemma wp_createMW:
  assumes "\<And>n e. Q (Inl e) (s\<lparr>calls := n\<rparr>)"
    and "\<And>n. Q (Inr ()) (putMW name c mw (s\<lparr>calls := n\<rparr>))"
  shows "wp (createMW name c mw) Q s"
  unfolding createMW_def using assms by (auto simp: wp_rules intro!: wp_apiCall split: option.split)

lemma mw_name_apart [simp]:
  "ManifestWorkName a b ''ns'' \<noteq> ManifestWorkName a' b' ''vrg''"
  "ManifestWorkName a b ''recipe'' \<noteq> ManifestWorkName a' b' ''vrg''"
proof -
  have *: "rev x \<noteq> rev y \<Longrightarrow> x \<noteq> y" for x y :: string by auto
  show "ManifestWorkName a b ''ns'' \<noteq> ManifestWorkName a' b' ''vrg''"
    "ManifestWorkName a b ''recipe'' \<noteq> ManifestWorkName a' b' ''vrg''"
    by (rule *, simp add: ManifestWorkName_def)+
qed

section \<open>The retry loop ends\<close>

definition within :: "nat \<Rightarrow> nat \<Rightarrow> 'z api_scheme \<Rightarrow> bool" where
  "within retries n s \<longleftrightarrow> calls s \<le> n \<and> conflictRetries s = retries"

lemma wp_apiCall_within:
  assumes "within c n s" "\<And>r s'. within c (Suc n) s' \<Longrightarrow> Q r s'"
  shows "wp apiCall Q s"
  using assms by (auto simp: wp_def apiCall_def within_def split: option.split)

lemma wp_MW_within:
  fixes s :: "'z api_scheme"
  assumes "within c n s"
  shows "wp (getMW name cluster) (\<lambda>_. within c (Suc n)) s" "wp (createMW name cluster mw) (\<lambda>_. within c (Suc n)) s"
    "wp (updateMW name cluster mw) (\<lambda>_. within c (Suc n)) s"
  unfolding getMW_def createMW_def updateMW_def wp_seq
  by (rule wp_apiCall_within [OF assms], auto simp: wp_rules within_def putMW_def split: sum.split option.split)+

lemma wp_retryOnConflict_within:
  fixes s :: "'z api_scheme"
  assumes "\<And>c n s. within c n s \<Longrightarrow> wp m (\<lambda>_ s' :: 'z api_scheme. within c (n + j) s') s" "within c n s"
  shows "wp (retryOnConflict k m) (\<lambda>_. within c (n + k * j)) s"
  using assms(2)
proof (induction k arbitrary: n s)
  case (Suc k)
  have "wp (retryOnConflict k m) (\<lambda>_. within c (n + Suc k * j)) s1" if "within c (n + j) s1" for s1
    using Suc.IH [OF that] by (simp add: algebra_simps)
  then show ?case
    unfolding retryOnConflict.simps wp_catch
    by (intro wp_mono [OF assms(1) [OF Suc.prems]])
       (auto simp: wp_if wp_fail within_def split: sum.split)
qed (simp add: wp_fail)


end
