(* ===== verification/Ramen_Views.thy ===== *)
theory Ramen_Views
  imports Ramen_Api
begin

text \<open>
  Managed cluster views (\<^verbatim>\<open>internal/controller/util/mcv_util.go\<close>): the objects on the hub through
  which a reconciler reads a resource of a managed cluster. Asking for a resource creates the view
  when it is missing, so a read writes; the view controller of the managed cluster fills in the
  view's conditions and its result later. The record \<open>apiv\<close> adds the store of views to \<open>api\<close>.
\<close>

section \<open>Views and what they show\<close>

text \<open>
  The storage related classes: of a StorageClass, VolumeSnapshotClass, VolumeGroupSnapshotClass,
  VolumeReplicationClass, VolumeGroupReplicationClass or NetworkFenceClass the code reads the name,
  the labels and annotations, the provisioner (or driver) and the parameters.
\<close>

record class_object =
  clName :: string
  clLabels :: strmap
  clAnnotations :: strmap
  clProvisioner :: string
  clParameters :: strmap

record crd_version =
  cvName :: string
  cvServed :: bool

datatype viewed =
    ViewedVRG vrg
  | ViewedNF network_fence
  | ViewedMMode maintenance_mode
  | ViewedDRCConfig drcluster_config
  | ViewedClass class_object
  | ViewedCRD "crd_version list"
  | ViewedNS ns_object
  | ViewedRecipe recipe

record view_scope =
  scKind :: string
  scGroup :: string
  scVersion :: string
  scName :: string
  scNamespace :: string

text \<open>
  A ManagedClusterView; \<open>vwResult\<close> is the decoded raw result, \<open>None\<close> when it is not the JSON of an
  object of the kind asked for.
\<close>

record mcv =
  vwLabels :: strmap
  vwAnnotations :: strmap
  vwDeleted :: bool
  vwScope :: view_scope
  vwConditions :: conditions
  vwResult :: "viewed option"

record apiv = api +
  hubViews :: "((string \<times> string) \<times> mcv) list"

type_synonym ('z, 'a) viewm = "('z apiv_scheme, 'a) gm"

definition findView :: "string \<Rightarrow> string \<Rightarrow> 'z apiv_scheme \<Rightarrow> mcv option" where
  "findView name cluster s = map_of (hubViews s) (name, cluster)"

fun replaceView :: "string \<times> string \<Rightarrow> mcv \<Rightarrow> ((string \<times> string) \<times> mcv) list
    \<Rightarrow> ((string \<times> string) \<times> mcv) list" where
  "replaceView k v [] = [(k, v)]"
| "replaceView k v ((k', v') # vs) = (if k' = k then (k, v) # vs else (k', v') # replaceView k v vs)"

definition putView :: "string \<Rightarrow> string \<Rightarrow> mcv \<Rightarrow> 'z apiv_scheme \<Rightarrow> 'z apiv_scheme" where
  "putView name cluster v s = s\<lparr>hubViews := replaceView (name, cluster) v (hubViews s)\<rparr>"

lemma map_of_replaceView [simp]: "map_of (replaceView k v vs) = (map_of vs)(k \<mapsto> v)"
  by (induction k v vs rule: replaceView.induct) (auto simp: fun_eq_iff)

section \<open>Names\<close>

definition BuildManagedClusterViewName :: "string \<Rightarrow> string \<Rightarrow> string \<Rightarrow> string" where
  "BuildManagedClusterViewName resourceName resourceNamespace resource =
     (if resourceNamespace = [] then resourceName @ ''-'' @ resource @ ''-mcv''
      else resourceName @ ''-'' @ resourceNamespace @ ''-'' @ resource @ ''-mcv'')"

text \<open>\<^verbatim>\<open>strings.Split\<close> and \<^verbatim>\<open>strings.Join\<close> for a separator of one character.\<close>

fun splitOn :: "char \<Rightarrow> string \<Rightarrow> string list" where
  "splitOn c [] = [[]]"
| "splitOn c (x # xs) =
     (if x = c then [] # splitOn c xs
      else case splitOn c xs of [] \<Rightarrow> [[x]] | w # ws \<Rightarrow> (x # w) # ws)"

fun joinWith :: "char \<Rightarrow> string list \<Rightarrow> string" where
  "joinWith c [] = []"
| "joinWith c [w] = w"
| "joinWith c (w # ws) = w @ c # joinWith c ws"

text \<open>A slice bound below zero panics in Go: a name without two dashes has no result.\<close>

definition ClusterScopedResourceNameFromMCVName :: "string \<Rightarrow> string option" where
  "ClusterScopedResourceNameFromMCVName mcvName =
     (let parts = splitOn CHR ''-'' mcvName
      in if length parts < 2 then None else Some (joinWith CHR ''-'' (take (length parts - 2) parts)))"

section \<open>API calls on views\<close>

definition getMCV :: "string \<Rightarrow> string \<Rightarrow> ('z, mcv) viewm" where
  "getMCV name cluster =
     seqM apiCall
       (bindM (getsM (findView name cluster))
          (\<lambda>r. case r of None \<Rightarrow> failM (Gerr NotFound (name @ '' not found'')) | Some v \<Rightarrow> ret v))"

definition createMCV :: "string \<Rightarrow> string \<Rightarrow> mcv \<Rightarrow> ('z, unit) viewm" where
  "createMCV name cluster v =
     seqM apiCall
       (bindM (getsM (findView name cluster))
          (\<lambda>r. case r of
                 Some _ \<Rightarrow> failM (Gerr AlreadyExists (name @ '' already exists''))
               | None \<Rightarrow> modifyM (putView name cluster v)))"

definition updateMCV :: "string \<Rightarrow> string \<Rightarrow> mcv \<Rightarrow> ('z, unit) viewm" where
  "updateMCV name cluster v =
     seqM apiCall
       (bindM (getsM (findView name cluster))
          (\<lambda>r. case r of
                 None \<Rightarrow> failM (Gerr NotFound (name @ '' not found''))
               | Some _ \<Rightarrow> modifyM (putView name cluster v)))"

definition deleteMCV :: "string \<Rightarrow> string \<Rightarrow> ('z, unit) viewm" where
  "deleteMCV name cluster =
     seqM apiCall
       (bindM (getsM (findView name cluster))
          (\<lambda>r. case r of
                 None \<Rightarrow> failM (Gerr NotFound (name @ '' not found''))
               | Some _ \<Rightarrow> modifyM (\<lambda>s. s\<lparr>hubViews := filter (\<lambda>e. fst e \<noteq> (name, cluster)) (hubViews s)\<rparr>)))"

text \<open>The views in a cluster's namespace that carry a label with the empty value.\<close>

definition listMCVsWithLabel :: "string \<Rightarrow> string \<Rightarrow> ('z, (string \<times> mcv) list) viewm" where
  "listMCVsWithLabel cluster label =
     seqM apiCall
       (getsM (\<lambda>s. map (\<lambda>e. (fst (fst e), snd e))
          (filter (\<lambda>e. snd (fst e) = cluster \<and> map_of (vwLabels (snd e)) label = Some []) (hubViews s))))"

section \<open>Reading a resource through its view\<close>

fun lastIndexErr :: "string \<Rightarrow> string option" where
  "lastIndexErr [] = None"
| "lastIndexErr (x # xs) =
     (case lastIndexErr xs of
        Some rest \<Rightarrow> Some rest
      | None \<Rightarrow> if take 4 (x # xs) = ''err:'' then Some (drop 4 (x # xs)) else None)"

definition hasSuffix :: "string \<Rightarrow> string \<Rightarrow> bool" where
  "hasSuffix s suf \<longleftrightarrow> length suf \<le> length s \<and> drop (length s - length suf) s = suf"

definition parseErrorMessage :: "string \<Rightarrow> gerr" where
  "parseErrorMessage message =
     (if hasSuffix message ''not found''
         \<or> hasSuffix message ''the server could not find the requested resource''
      then Gerr NotFound ''requested resource not found in ManagedCluster''
      else newE (''err: '' @ (case lastIndexErr message of None \<Rightarrow> [] | Some rest \<Rightarrow> rest)))"

definition viewError :: "mcv \<Rightarrow> gerr option" where
  "viewError v =
     (case vwConditions v of
        [] \<Rightarrow> Some (newE ''missing ManagedClusterView conditions'')
      | [c] \<Rightarrow>
          if cType c \<noteq> ''Processing''
          then Some (newE (''found invalid condition ('' @ cType c @ '') in ManagedClusterView''))
          else if cReason c = ''GetResourceFailed'' then Some (parseErrorMessage (cMessage c))
          else if cStatus c \<noteq> ConditionTrue
          then Some (newE (''ManagedClusterView is not ready (reason: '' @ cReason c @ '')''))
          else None
      | _ \<Rightarrow> Some (newE ''found multiple status conditions with ManagedClusterView''))"

definition GetResource :: "mcv \<Rightarrow> gerr + viewed" where
  "GetResource v =
     (case viewError v of
        Some e \<Rightarrow> Inl (wrapE ''getManagedClusterResource results: '' e [])
      | None \<Rightarrow>
          (case vwResult v of
             None \<Rightarrow> Inl (newE ''failed to Unmarshal data from ManagedClusterView to resource'')
           | Some r \<Rightarrow> Inr r))"

definition mergeAnnotations :: "strmap \<Rightarrow> strmap \<Rightarrow> strmap" where
  "mergeAnnotations old new = foldl (\<lambda>m (k, v). sm_put k v m) old new"

definition newView :: "strmap \<Rightarrow> strmap \<Rightarrow> view_scope \<Rightarrow> mcv" where
  "newView labels annotations viewscope =
     \<lparr>vwLabels = sm_put ''ramendr.openshift.io/created-by-ramen'' ''true'' labels,
      vwAnnotations = annotations, vwDeleted = False, vwScope = viewscope,
      vwConditions = [], vwResult = None\<rparr>"

definition getOrCreateManagedClusterView ::
  "string \<Rightarrow> string \<Rightarrow> strmap \<Rightarrow> strmap \<Rightarrow> view_scope \<Rightarrow> ('z, mcv) viewm" where
  "getOrCreateManagedClusterView name cluster labels annotations viewscope =
     bindM
       (bindM (attemptM (getMCV name cluster))
          (\<lambda>r. case r of
             Inr v \<Rightarrow> ret v
           | Inl e \<Rightarrow>
               if \<not> IsNotFound e then failM (wrapE ''failed to get ManagedClusterView: '' e [])
               else let v = newView labels annotations viewscope
                    in seqM (catchM (createMCV name cluster v)
                               (\<lambda>e. failM (wrapE ''failed to create ManagedClusterView: '' e [])))
                         (ret v)))
       (\<lambda>v. let merged = mergeAnnotations (vwAnnotations v) annotations;
                v' = v\<lparr>vwScope := viewscope, vwAnnotations := merged\<rparr>
            in if vwScope v \<noteq> viewscope \<or> vwAnnotations v \<noteq> merged
               then seqM (catchM (updateMCV name cluster v')
                            (\<lambda>e. failM (wrapE ''failed to update ManagedClusterView: '' e [])))
                      (ret v')
               else ret v)"

definition getManagedClusterResource ::
  "string \<Rightarrow> string \<Rightarrow> strmap \<Rightarrow> strmap \<Rightarrow> view_scope \<Rightarrow> ('z, viewed) viewm" where
  "getManagedClusterResource name cluster labels annotations viewscope =
     bindM (catchM (getOrCreateManagedClusterView name cluster labels annotations viewscope)
              (\<lambda>e. failM (wrapE ''getManagedClusterResource failed: '' e [])))
       (\<lambda>v. liftE (GetResource v))"

definition getResourceFromManagedCluster ::
  "string \<Rightarrow> string \<Rightarrow> string \<Rightarrow> strmap \<Rightarrow> strmap \<Rightarrow> string \<Rightarrow> string \<Rightarrow> string \<Rightarrow> string \<Rightarrow> ('z, viewed) viewm" where
  "getResourceFromManagedCluster resourceName resourceNamespace managedCluster annotations labels
      mcvName kind grp version =
     getManagedClusterResource mcvName managedCluster labels annotations
       \<lparr>scKind = kind, scGroup = grp, scVersion = version, scName = resourceName,
        scNamespace = resourceNamespace\<rparr>"

section \<open>The getters\<close>

text \<open>
  \<^verbatim>\<open>json.Unmarshal\<close> into the type asked for. The view controller answers a scope with an object of
  the scope's kind; an answer of another kind is treated like one that cannot be decoded.
\<close>

definition unmarshalError :: gerr where
  "unmarshalError = newE ''failed to Unmarshal data from ManagedClusterView to resource''"

definition asVRG :: "viewed \<Rightarrow> gerr + vrg" where
  "asVRG r = (case r of ViewedVRG x \<Rightarrow> Inr x | _ \<Rightarrow> Inl unmarshalError)"

definition asNF :: "viewed \<Rightarrow> gerr + network_fence" where
  "asNF r = (case r of ViewedNF x \<Rightarrow> Inr x | _ \<Rightarrow> Inl unmarshalError)"

definition asMMode :: "viewed \<Rightarrow> gerr + maintenance_mode" where
  "asMMode r = (case r of ViewedMMode x \<Rightarrow> Inr x | _ \<Rightarrow> Inl unmarshalError)"

definition asDRCConfig :: "viewed \<Rightarrow> gerr + drcluster_config" where
  "asDRCConfig r = (case r of ViewedDRCConfig x \<Rightarrow> Inr x | _ \<Rightarrow> Inl unmarshalError)"

definition asClass :: "viewed \<Rightarrow> gerr + class_object" where
  "asClass r = (case r of ViewedClass x \<Rightarrow> Inr x | _ \<Rightarrow> Inl unmarshalError)"

definition asCRD :: "viewed \<Rightarrow> gerr + crd_version list" where
  "asCRD r = (case r of ViewedCRD x \<Rightarrow> Inr x | _ \<Rightarrow> Inl unmarshalError)"

definition ramenGroup :: string where "ramenGroup = ''ramendr.openshift.io''"
definition csiAddonsGroup :: string where "csiAddonsGroup = ''csiaddons.openshift.io''"
definition volrepGroup :: string where "volrepGroup = ''replication.storage.openshift.io''"
definition snapshotGroup :: string where "snapshotGroup = ''snapshot.storage.k8s.io''"
definition StorageIDLabel :: string where "StorageIDLabel = ''ramendr.openshift.io/storageid''"
definition ReplicationIDLabel :: string where "ReplicationIDLabel = ''ramendr.openshift.io/replicationid''"
definition GroupReplicationIDLabel :: string where "GroupReplicationIDLabel = ''ramendr.openshift.io/groupreplicationid''"
definition StorageOffloadedLabel :: string where "StorageOffloadedLabel = ''ramendr.openshift.io/offloaded''"
definition ReplicationClassScheduleKey :: string where "ReplicationClassScheduleKey = ''schedulingInterval''"
definition MModesLabel :: string where "MModesLabel = ''ramendr.openshift.io/maintenancemodes''"
definition SClassLabel :: string where "SClassLabel = ''ramendr.openshift.io/storageclass''"
definition NFClassLabel :: string where "NFClassLabel = ''ramendr.openshift.io/networkfenceclass''"
definition VSClassLabel :: string where "VSClassLabel = ''ramendr.openshift.io/volumesnapshotclass''"
definition VGSClassLabel :: string where "VGSClassLabel = ''ramendr.openshift.io/volumegroupsnapshotclass''"
definition VRClassLabel :: string where "VRClassLabel = ''ramendr.openshift.io/volumereplicationclass''"
definition VGRClassLabel :: string where "VGRClassLabel = ''ramendr.openshift.io/volumegroupreplicationclass''"

definition GetVRGFromManagedCluster :: "string \<Rightarrow> string \<Rightarrow> string \<Rightarrow> strmap \<Rightarrow> ('z, vrg) viewm" where
  "GetVRGFromManagedCluster resourceName resourceNamespace managedCluster annotations =
     bindM (getResourceFromManagedCluster resourceName resourceNamespace managedCluster annotations []
              (BuildManagedClusterViewName resourceName resourceNamespace ''vrg'')
              ''VolumeReplicationGroup'' ramenGroup ''v1alpha1'')
       (\<lambda>r. liftE (asVRG r))"

definition networkFenceName :: "string \<Rightarrow> string \<Rightarrow> string" where
  "networkFenceName targetCluster nfClass =
     (if nfClass = [] then ''network-fence-'' @ targetCluster
      else ''network-fence-'' @ nfClass @ ''-'' @ targetCluster)"

definition GetNFFromManagedCluster ::
  "string \<Rightarrow> string \<Rightarrow> string \<Rightarrow> string \<Rightarrow> strmap \<Rightarrow> ('z, network_fence) viewm" where
  "GetNFFromManagedCluster targetCluster nfClass resourceNamespace managedCluster annotations =
     (let resourceName = networkFenceName targetCluster nfClass
      in bindM (getResourceFromManagedCluster resourceName resourceNamespace managedCluster annotations []
                  (BuildManagedClusterViewName resourceName resourceNamespace ''nf'')
                  ''NetworkFence'' csiAddonsGroup ''v1alpha1'')
           (\<lambda>r. liftE (asNF r)))"

definition GetMModeFromManagedCluster :: "string \<Rightarrow> string \<Rightarrow> strmap \<Rightarrow> ('z, maintenance_mode) viewm" where
  "GetMModeFromManagedCluster resourceName managedCluster annotations =
     bindM (getResourceFromManagedCluster resourceName [] managedCluster annotations [(MModesLabel, [])]
              (BuildManagedClusterViewName resourceName [] ''mmode'')
              ''MaintenanceMode'' ramenGroup ''v1alpha1'')
       (\<lambda>r. liftE (asMMode r))"

definition GetDRClusterConfigFromManagedCluster :: "string \<Rightarrow> strmap \<Rightarrow> ('z, drcluster_config) viewm" where
  "GetDRClusterConfigFromManagedCluster clusterName annotations =
     bindM (getResourceFromManagedCluster clusterName [] clusterName annotations []
              (BuildManagedClusterViewName clusterName [] ''drcconfig'')
              ''DRClusterConfig'' ramenGroup ''v1alpha1'')
       (\<lambda>r. liftE (asDRCConfig r))"

text \<open>The getters of the class kinds differ in the label, the view's type and the API kind only.\<close>

definition getClassFromManagedCluster ::
  "string \<Rightarrow> string \<Rightarrow> string \<Rightarrow> string \<Rightarrow> string \<Rightarrow> string \<Rightarrow> string \<Rightarrow> strmap \<Rightarrow> ('z, class_object) viewm" where
  "getClassFromManagedCluster label mwType kind grp version resourceName managedCluster annotations =
     bindM (getResourceFromManagedCluster resourceName [] managedCluster annotations [(label, [])]
              (BuildManagedClusterViewName resourceName [] mwType) kind grp version)
       (\<lambda>r. liftE (asClass r))"

definition GetSClassFromManagedCluster :: "string \<Rightarrow> string \<Rightarrow> strmap \<Rightarrow> ('z, class_object) viewm" where
  "GetSClassFromManagedCluster =
     getClassFromManagedCluster SClassLabel ''sc'' ''StorageClass'' ''storage.k8s.io'' ''v1''"

definition GetNFClassFromManagedCluster :: "string \<Rightarrow> string \<Rightarrow> strmap \<Rightarrow> ('z, class_object) viewm" where
  "GetNFClassFromManagedCluster =
     getClassFromManagedCluster NFClassLabel ''nfc'' ''NetworkFenceClass'' csiAddonsGroup ''v1alpha1''"

definition GetVSClassFromManagedCluster :: "string \<Rightarrow> string \<Rightarrow> strmap \<Rightarrow> ('z, class_object) viewm" where
  "GetVSClassFromManagedCluster =
     getClassFromManagedCluster VSClassLabel ''vsc'' ''VolumeSnapshotClass'' snapshotGroup ''v1''"

definition GetVRClassFromManagedCluster :: "string \<Rightarrow> string \<Rightarrow> strmap \<Rightarrow> ('z, class_object) viewm" where
  "GetVRClassFromManagedCluster =
     getClassFromManagedCluster VRClassLabel ''vrc'' ''VolumeReplicationClass'' volrepGroup ''v1alpha1''"

definition GetVGRClassFromManagedCluster :: "string \<Rightarrow> string \<Rightarrow> strmap \<Rightarrow> ('z, class_object) viewm" where
  "GetVGRClassFromManagedCluster =
     getClassFromManagedCluster VGRClassLabel ''vgrc'' ''VolumeGroupReplicationClass'' volrepGroup ''v1alpha1''"

text \<open>
  The VolumeGroupSnapshot API of a managed cluster: the public group if its CRD serves the version
  Ramen's client speaks, else the private one.
\<close>

definition getCRDFromManagedCluster :: "string \<Rightarrow> string \<Rightarrow> strmap \<Rightarrow> ('z, crd_version list) viewm" where
  "getCRDFromManagedCluster crdName managedCluster annotations =
     bindM (getResourceFromManagedCluster crdName [] managedCluster annotations []
              (BuildManagedClusterViewName crdName [] ''crd'')
              ''CustomResourceDefinition'' ''apiextensions.k8s.io'' ''v1'')
       (\<lambda>r. liftE (asCRD r))"

definition crdServesVersion :: "crd_version list \<Rightarrow> string \<Rightarrow> bool" where
  "crdServesVersion crd version = list_ex (\<lambda>v. cvName v = version \<and> cvServed v) crd"

definition crdServedVersions :: "crd_version list \<Rightarrow> string list" where
  "crdServedVersions crd = map cvName (filter cvServed crd)"

definition vgsCandidates :: "(string \<times> string \<times> string) list" where
  "vgsCandidates =
     [(''volumegroupsnapshots.groupsnapshot.storage.k8s.io'', ''groupsnapshot.storage.k8s.io'', ''v1''),
      (''volumegroupsnapshots.groupsnapshot.storage.openshift.io'', ''groupsnapshot.storage.openshift.io'', ''v1beta1'')]"

fun joinStr :: "string \<Rightarrow> string list \<Rightarrow> string" where
  "joinStr sep [] = []"
| "joinStr sep [x] = x"
| "joinStr sep (x # xs) = x @ sep @ joinStr sep xs"

fun resolveVGSGroupVersion ::
  "(string \<Rightarrow> ('s, crd_version list option) gm) \<Rightarrow> (string \<times> string \<times> string) list \<Rightarrow> string list
     \<Rightarrow> ('s, string \<times> string) gm" where
  "resolveVGSGroupVersion getCRD [] mismatches =
     failM (newE (''VolumeGroupSnapshot CRD is required. ''
       @ ''Please install either the public (groupsnapshot.storage.k8s.io) or private (groupsnapshot.storage.openshift.io) ''
       @ ''VolumeGroupSnapshot CRD and restart the operator''
       @ (if mismatches = [] then [] else '': '' @ joinStr ''; '' mismatches)))"
| "resolveVGSGroupVersion getCRD ((crdName, grp, version) # cs) mismatches =
     bindM (catchM (getCRD crdName)
              (\<lambda>e. failM (wrapE (''checking VGS CRD '' @ crdName @ '': '') e [])))
       (\<lambda>r. case r of
          None \<Rightarrow> resolveVGSGroupVersion getCRD cs mismatches
        | Some crd \<Rightarrow>
            if crdServesVersion crd version then ret (grp, version)
            else resolveVGSGroupVersion getCRD cs
                   (mismatches @ [crdName @ '' is installed but serves [''
                      @ joinStr '', '' (crdServedVersions crd) @ ''], not the required '' @ version]))"

definition selectVGSGroupVersionFromManagedCluster :: "string \<Rightarrow> strmap \<Rightarrow> ('z, string \<times> string) viewm" where
  "selectVGSGroupVersionFromManagedCluster managedCluster annotations =
     resolveVGSGroupVersion
       (\<lambda>crdName. bindM (attemptM (getCRDFromManagedCluster crdName managedCluster annotations))
          (\<lambda>r. case r of
             Inr crd \<Rightarrow> ret (Some crd)
           | Inl e \<Rightarrow>
               if IsNotFound e then ret None
               else failM (wrapE (''get VGS CRD '' @ crdName @ '' on managed cluster '' @ managedCluster @ '': '') e [])))
       vgsCandidates []"

definition GetVGSClassFromManagedCluster :: "string \<Rightarrow> string \<Rightarrow> strmap \<Rightarrow> ('z, class_object) viewm" where
  "GetVGSClassFromManagedCluster resourceName managedCluster annotations =
     bindM (catchM (selectVGSGroupVersionFromManagedCluster managedCluster annotations)
              (\<lambda>e. failM (wrapE (''failed to select VGS API for managed cluster '' @ managedCluster @ '': '') e [])))
       (\<lambda>(grp, version).
          getClassFromManagedCluster VGSClassLabel ''vgsc'' ''VolumeGroupSnapshotClass'' grp version
            resourceName managedCluster annotations)"

section \<open>Deleting views\<close>

definition DeleteManagedClusterView :: "string \<Rightarrow> string \<Rightarrow> ('z, unit) viewm" where
  "DeleteManagedClusterView clusterName mcvName =
     bindM (attemptM (getMCV mcvName clusterName))
       (\<lambda>r. case r of
          Inl e \<Rightarrow> if IsNotFound e then ret ()
                   else failM (wrapE (''failed to retrieve ManagedClusterView for type: '' @ mcvName @ ''. Error: '') e [])
        | Inr v \<Rightarrow> deleteMCV mcvName clusterName)"

definition DeleteDRClusterConfigManagedClusterView :: "string \<Rightarrow> ('z, unit) viewm" where
  "DeleteDRClusterConfigManagedClusterView clusterName =
     DeleteManagedClusterView clusterName (BuildManagedClusterViewName clusterName [] ''drcconfig'')"

definition DeleteVRGManagedClusterView :: "string \<Rightarrow> string \<Rightarrow> string \<Rightarrow> ('z, unit) viewm" where
  "DeleteVRGManagedClusterView resourceName resourceNamespace clusterName =
     DeleteManagedClusterView clusterName (BuildManagedClusterViewName resourceName resourceNamespace ''vrg'')"

definition DeleteNamespaceManagedClusterView :: "string \<Rightarrow> string \<Rightarrow> string \<Rightarrow> ('z, unit) viewm" where
  "DeleteNamespaceManagedClusterView resourceName resourceNamespace clusterName =
     DeleteManagedClusterView clusterName (BuildManagedClusterViewName resourceName resourceNamespace ''ns'')"

definition DeleteRecipeManagedClusterView :: "string \<Rightarrow> string \<Rightarrow> string \<Rightarrow> ('z, unit) viewm" where
  "DeleteRecipeManagedClusterView resourceName resourceNamespace clusterName =
     DeleteManagedClusterView clusterName (BuildManagedClusterViewName resourceName resourceNamespace ''recipe'')"

section \<open>The views of the classes of a cluster\<close>

text \<open>
  \<^verbatim>\<open>drpolicy_peerclass.go\<close>: the classes a DRClusterConfig claims are read one by one through views, and
  views of classes no longer claimed are deleted.
\<close>

definition pruneClassViews :: "string \<Rightarrow> string list \<Rightarrow> (string \<times> mcv) list \<Rightarrow> ('z, unit) viewm" where
  "pruneClassViews clusterName survivorClassNames mcvs =
     forM mcvs (\<lambda>(name, v). whenM (scName (vwScope v) \<notin> set survivorClassNames)
                              (DeleteManagedClusterView clusterName name))"

definition pruneViewsWithLabel :: "string \<Rightarrow> string \<Rightarrow> string list \<Rightarrow> ('z, unit) viewm" where
  "pruneViewsWithLabel label clusterName survivorClassNames =
     bindM (listMCVsWithLabel clusterName label) (pruneClassViews clusterName survivorClassNames)"

definition pruneSClassViews :: "string \<Rightarrow> string list \<Rightarrow> ('z, unit) viewm" where
  "pruneSClassViews = pruneViewsWithLabel SClassLabel"

definition pruneNFClassViews :: "string \<Rightarrow> string list \<Rightarrow> ('z, unit) viewm" where
  "pruneNFClassViews = pruneViewsWithLabel NFClassLabel"

definition pruneVSClassViews :: "string \<Rightarrow> string list \<Rightarrow> ('z, unit) viewm" where
  "pruneVSClassViews = pruneViewsWithLabel VSClassLabel"

definition pruneVGSClassViews :: "string \<Rightarrow> string list \<Rightarrow> ('z, unit) viewm" where
  "pruneVGSClassViews = pruneViewsWithLabel VGSClassLabel"

definition pruneVRClassViews :: "string \<Rightarrow> string list \<Rightarrow> ('z, unit) viewm" where
  "pruneVRClassViews = pruneViewsWithLabel VRClassLabel"

definition pruneVGRClassViews :: "string \<Rightarrow> string list \<Rightarrow> ('z, unit) viewm" where
  "pruneVGRClassViews = pruneViewsWithLabel VGRClassLabel"

fun collectM :: "('x \<Rightarrow> ('s, 'a) gm) \<Rightarrow> 'x list \<Rightarrow> ('s, 'a list) gm" where
  "collectM f [] = ret []"
| "collectM f (x # xs) = bindM (f x) (\<lambda>y. bindM (collectM f xs) (\<lambda>ys. ret (y # ys)))"

definition AllDRPolicyAnnotation :: string where
  "AllDRPolicyAnnotation = ''drpolicy.ramendr.openshift.io''"

text \<open>The classes claimed under one kind; a cluster that claims none is left alone.\<close>

definition claimedClasses ::
  "(string \<Rightarrow> string \<Rightarrow> strmap \<Rightarrow> ('z, class_object) viewm) \<Rightarrow> (string \<Rightarrow> string list \<Rightarrow> ('z, unit) viewm)
     \<Rightarrow> string list \<Rightarrow> string \<Rightarrow> ('z, class_object list) viewm" where
  "claimedClasses getClass prune names clusterName =
     (if names = [] then ret []
      else bindM (collectM (\<lambda>n. getClass n clusterName [(AllDRPolicyAnnotation, clusterName)]) names)
             (\<lambda>cls. seqM (prune clusterName names) (ret cls)))"

definition GetSClassesFromCluster :: "drcluster_config \<Rightarrow> string \<Rightarrow> ('z, class_object list) viewm" where
  "GetSClassesFromCluster drcc =
     claimedClasses GetSClassFromManagedCluster pruneSClassViews (ccStorageClasses drcc)"

definition getVSClassesFromCluster :: "drcluster_config \<Rightarrow> string \<Rightarrow> ('z, class_object list) viewm" where
  "getVSClassesFromCluster drcc =
     claimedClasses GetVSClassFromManagedCluster pruneVSClassViews (ccVolumeSnapshotClasses drcc)"

definition getVRClassesFromCluster :: "drcluster_config \<Rightarrow> string \<Rightarrow> ('z, class_object list) viewm" where
  "getVRClassesFromCluster drcc =
     claimedClasses GetVRClassFromManagedCluster pruneVRClassViews (ccVolumeReplicationClasses drcc)"

definition getVGSClassesFromCluster :: "drcluster_config \<Rightarrow> string \<Rightarrow> ('z, class_object list) viewm" where
  "getVGSClassesFromCluster drcc =
     claimedClasses GetVGSClassFromManagedCluster pruneVGSClassViews (ccVolumeGroupSnapshotClasses drcc)"

definition getVGRClassesFromCluster :: "drcluster_config \<Rightarrow> string \<Rightarrow> ('z, class_object list) viewm" where
  "getVGRClassesFromCluster drcc =
     claimedClasses GetVGRClassFromManagedCluster pruneVGRClassViews (ccVolumeGroupReplicationClasses drcc)"

text \<open>The NetworkFenceClasses carry no policy annotation and are pruned even when none is claimed.\<close>

definition getNFClassesFromCluster :: "drcluster_config \<Rightarrow> string \<Rightarrow> ('z, class_object list) viewm" where
  "getNFClassesFromCluster drcc clusterName =
     bindM (collectM (\<lambda>n. GetNFClassFromManagedCluster n clusterName []) (ccNetworkFenceClasses drcc))
       (\<lambda>cls. seqM (pruneNFClassViews clusterName (ccNetworkFenceClasses drcc)) (ret cls))"

definition deleteViewsForClasses :: "string \<Rightarrow> ('z, unit) viewm" where
  "deleteViewsForClasses clusterName =
     seqM (pruneSClassViews clusterName [])
       (seqM (pruneVSClassViews clusterName [])
          (seqM (pruneVGSClassViews clusterName [])
             (seqM (pruneVGRClassViews clusterName []) (pruneVRClassViews clusterName []))))"

section \<open>Facts\<close>

lemma splitOn_ne [simp]: "splitOn c xs \<noteq> []"
  by (induction xs) (auto split: list.split)

lemma joinWith_Cons: "ws \<noteq> [] \<Longrightarrow> joinWith c (w # ws) = w @ c # joinWith c ws"
  by (cases ws) simp_all

lemma joinWith_splitOn: "joinWith c (splitOn c xs) = xs"
proof (induction xs)
  case (Cons x xs)
  obtain w ws where "splitOn c xs = w # ws" by (meson list.exhaust splitOn_ne)
  with Cons show ?case by (cases ws) (auto simp: joinWith_Cons)
qed simp

lemma splitOn_append: "splitOn c (xs @ c # ys) = splitOn c xs @ splitOn c ys"
proof (induction xs)
  case (Cons x xs)
  then show ?case
    using splitOn_ne [of c xs] by (auto split: list.split)
qed simp

lemma splitOn_single: "c \<notin> set xs \<Longrightarrow> splitOn c xs = [xs]"
  by (induction xs) auto

lemma view_name_round_trip:
  assumes "CHR ''-'' \<notin> set resource"
  shows "ClusterScopedResourceNameFromMCVName (BuildManagedClusterViewName n [] resource) = Some n"
proof -
  have "splitOn CHR ''-'' (n @ ''-'' @ resource @ ''-mcv'') = splitOn CHR ''-'' n @ [resource, ''mcv'']"
    using splitOn_append [of "CHR ''-''" n "resource @ ''-mcv''"]
      splitOn_append [of "CHR ''-''" resource "''mcv''"] assms by (simp add: splitOn_single)
  then show ?thesis
    by (simp add: ClusterScopedResourceNameFromMCVName_def BuildManagedClusterViewName_def joinWith_splitOn)
qed

section \<open>What the operations on ManifestWorks and views leave alone\<close>

text \<open>
  A property of a reconciler's state that looks neither at the call count nor at the stores of
  ManifestWorks and of views is kept by every operation of these utilities.
\<close>

locale store_neutral =
  fixes I :: "'z apiv_scheme \<Rightarrow> bool"
  assumes neutral_calls: "I (s\<lparr>calls := n\<rparr>) = I s"
    and neutral_works: "I (s\<lparr>manifestWorks := ws\<rparr>) = I s"
    and neutral_views: "I (s\<lparr>hubViews := vs\<rparr>) = I s"
begin

lemma keeps_modify: "(\<And>s. I s \<Longrightarrow> I (f s)) \<Longrightarrow> pres I (modifyM f)"
  by (simp add: pres_def modifyM_def)

lemma keeps_apiCall: "pres I apiCall"
  by (rule presI) (simp add: apiCall_def neutral_calls split: option.split)

lemma keeps_putMW: "pres I (modifyM (putMW n c mw))"
  by (simp add: keeps_modify putMW_def neutral_works)

lemma keeps_dropMW: "pres I (modifyM (\<lambda>s. s\<lparr>manifestWorks := f s\<rparr>))"
  by (simp add: keeps_modify neutral_works)

lemma keeps_putView: "pres I (modifyM (putView n c v))"
  by (simp add: keeps_modify putView_def neutral_views)

lemma keeps_dropView: "pres I (modifyM (\<lambda>s. s\<lparr>hubViews := f s\<rparr>))"
  by (simp add: keeps_modify neutral_views)

lemmas keeps_elementary = keeps_apiCall keeps_putMW keeps_dropMW keeps_putView keeps_dropView

lemma keeps_works:
  "pres I (getMW n c)" "pres I (createMW n c mw)" "pres I (updateMW n c mw)" "pres I (deleteMW n c)"
  by (auto simp: getMW_def createMW_def updateMW_def deleteMW_def intro!: pres_rules keeps_elementary)

lemma keeps_work_utilities:
  "pres I (FindManifestWork n c)" "pres I (DeleteManifestWork n c)"
  "pres I (createOrUpdateManifestWork n mw c)"
  by (auto simp: FindManifestWork_def DeleteManifestWork_def createOrUpdateManifestWork_def
      intro!: pres_rules keeps_works)

lemma keeps_view_calls:
  "pres I (getMCV n c)" "pres I (createMCV n c v)" "pres I (updateMCV n c v)" "pres I (deleteMCV n c)"
  "pres I (listMCVsWithLabel c l)"
  by (auto simp: getMCV_def createMCV_def updateMCV_def deleteMCV_def listMCVsWithLabel_def
      intro!: pres_rules keeps_elementary)

lemma keeps_getResource: "pres I (getResourceFromManagedCluster rn rns c as ls n k g v)"
  by (auto simp: getResourceFromManagedCluster_def getManagedClusterResource_def
      getOrCreateManagedClusterView_def Let_def intro!: pres_rules keeps_view_calls)

lemma keeps_getClass: "pres I (getClassFromManagedCluster l t k g v n c as)"
  by (auto simp: getClassFromManagedCluster_def intro!: pres_rules keeps_getResource)

lemma keeps_getters:
  "pres I (GetVRGFromManagedCluster n ns c as)" "pres I (GetNFFromManagedCluster t nfc ns c as)"
  "pres I (GetMModeFromManagedCluster n c as)" "pres I (GetDRClusterConfigFromManagedCluster c as)"
  "pres I (GetSClassFromManagedCluster n c as)" "pres I (GetNFClassFromManagedCluster n c as)"
  by (auto simp: GetVRGFromManagedCluster_def GetNFFromManagedCluster_def GetMModeFromManagedCluster_def
      GetDRClusterConfigFromManagedCluster_def GetSClassFromManagedCluster_def GetNFClassFromManagedCluster_def
      Let_def intro!: pres_rules keeps_getResource keeps_getClass)

lemma keeps_deleteView: "pres I (DeleteManagedClusterView c n)"
  by (auto simp: DeleteManagedClusterView_def intro!: pres_rules keeps_view_calls)

lemma keeps_prune: "pres I (pruneViewsWithLabel l c ns)"
  by (auto simp: pruneViewsWithLabel_def pruneClassViews_def intro!: pres_rules keeps_view_calls keeps_deleteView)

lemma keeps_collectM: "(\<And>x. pres I (f x)) \<Longrightarrow> pres I (collectM f xs)"
  by (induction xs) (auto intro!: pres_rules)

lemma keeps_class_lists:
  "pres I (GetSClassesFromCluster drcc c)" "pres I (getNFClassesFromCluster drcc c)"
  by (auto simp: GetSClassesFromCluster_def getNFClassesFromCluster_def claimedClasses_def pruneSClassViews_def
      pruneNFClassViews_def intro!: pres_rules keeps_collectM keeps_getters keeps_prune)

lemma keeps_deleteViewsForClasses: "pres I (deleteViewsForClasses c)"
  by (auto simp: deleteViewsForClasses_def pruneSClassViews_def pruneVSClassViews_def pruneVGSClassViews_def
      pruneVGRClassViews_def pruneVRClassViews_def intro!: pres_rules keeps_prune)

end

end
