(* ===== verification/Ramen_Hub.thy ===== *)
theory Ramen_Hub
  imports Ramen_Views
begin

text \<open>
  The state one DRPC reconcile works on, and the ManifestWork utilities
  (\<^verbatim>\<open>internal/controller/util/mw_util.go\<close>). The record \<open>hub\<close> holds the fields of
  \<^verbatim>\<open>DRPCInstance\<close>, the hub's API objects the reconcile reads and writes (ManifestWorks,
  PlacementDecisions, the stored DRPC status) and what it only reads (\<open>env\<close>).

  Every call to the Kubernetes API may fail: the \<open>n\<close>-th call of the reconcile returns the error
  \<open>faults n\<close> if there is one, without effect, and succeeds otherwise; \<open>faults\<close> is any function,
  so a theorem about the model holds for every pattern of API failures. Views of managed
  clusters, the object stores and the clock are fixed during one reconcile.
\<close>

section \<open>API objects\<close>

record cluster_decision =
  cdClusterName :: string
  cdReason :: string

text \<open>The user placement is a PlacementRule, a Placement, or an object of another type.\<close>

datatype user_placement =
    PlacementRule "placement_decision list"
  | Placement string
  | OtherPlacement

record pd_object =
  poName :: string
  poLabels :: strmap
  poDecisions :: "cluster_decision list"

text \<open>
  An Argo CD ApplicationSet as far as the reconciler reads it: of a generator, the match labels
  of its cluster decision resource and of those nested in its matrix or merge generator.
\<close>

record appset_generator =
  agClusterDecisionResource :: "strmap option"
  agMatrix :: "strmap option list option"
  agMerge :: "strmap option list option"

record app_set =
  apNamespace :: string
  apGenerators :: "appset_generator list"
  apDestinationNamespace :: string

text \<open>
  What a reconcile only reads: the managed cluster views (by namespace and cluster), the object
  stores by S3 profile, the ApplicationSets and the DRPCs of the hub, the outcome of the VolSync secret propagation and the IP translation of the
  network-mapping rules.
\<close>

record env =
  mcvVRG :: "string \<Rightarrow> string \<Rightarrow> gerr + vrg"
  mcvNS :: "string \<Rightarrow> string \<Rightarrow> gerr + ns_object"
  mcvRecipe :: "string \<Rightarrow> string \<Rightarrow> string \<Rightarrow> gerr + recipe"
  s3Store :: "string \<Rightarrow> gerr + (string \<Rightarrow> gerr + vrg)"
  appSets :: "gerr + app_set list"
  placementNamespace :: string
  hubDRPCs :: "drpc list"
  volsyncSecretErr :: "string \<Rightarrow> gerr option"
  translateSourceIP :: "string \<Rightarrow> string \<Rightarrow> string \<times> string \<Rightarrow> string"

record hub = apiv +
  inst :: drpc
  savedInstanceStatus :: drpc_status
  reconcilerSavedStatus :: drpc_status
  savedDRActionCount :: "action_count option"
  serverStatus :: drpc_status
  drPolicy :: drpolicy
  drClusters :: "drcluster list"
  vrgs :: "(string \<times> vrg) list"
  vrgNamespace :: string
  drType :: dr_type
  volSyncDisabled :: bool
  ramenConfig :: "ramen_config option"
  requeueAfter :: int
  mcvRequestInProgress :: bool
  numClustersQueriedSuccessfully :: nat
  userPlacement :: user_placement
  placementDecisions :: "pd_object list"
  environ :: env

type_synonym 'a hubm = "(hub, 'a) gm"

section \<open>API calls\<close>

text \<open>
  \<^verbatim>\<open>client.Update\<close> of the DRPC. The status is a subresource: the server ignores the status sent
  and answers with the stored one, which replaces the one in memory (as \<^verbatim>\<open>updateDRPCStatus\<close>
  notes where it saves and restores the status around this call).
\<close>

definition updateDRPC :: "unit hubm" where
  "updateDRPC =
     seqM apiCall
       (modifyM (\<lambda>s. s\<lparr>inst := (inst s)\<lparr>dStatus := serverStatus s\<rparr>\<rparr>))"

section \<open>ManifestWork utilities\<close>

text \<open>\<^verbatim>\<open>InstName\<close> and \<^verbatim>\<open>TargetNamespace\<close> of the DRPC's \<^verbatim>\<open>mwu\<close> are the DRPC's name and the VRG namespace.\<close>

definition BuildManifestWorkName :: "hub \<Rightarrow> string \<Rightarrow> string" where
  "BuildManifestWorkName s mwType =
     mwuManifestWorkName (dName (inst s)) (vrgNamespace s) mwType"

definition FindManifestWorkByType :: "string \<Rightarrow> string \<Rightarrow> manifest_work hubm" where
  "FindManifestWorkByType mwType cluster =
     bindM (getsM (\<lambda>s. BuildManifestWorkName s mwType)) (\<lambda>n. FindManifestWork n cluster)"

definition ExtractVRGFromManifestWork :: "manifest_work \<Rightarrow> gerr + vrg" where
  "ExtractVRGFromManifestWork mw =
     (case mwManifests mw of
        [] \<Rightarrow> Inl (newE ''invalid VRG ManifestWork'')
      | VRGManifest v # _ \<Rightarrow> Inr v
      | _ # _ \<Rightarrow> Inl (newE ''unable to unmarshal VRG object''))"

definition CreateOrUpdateVRGManifestWork ::
  "string \<Rightarrow> string \<Rightarrow> string \<Rightarrow> vrg \<Rightarrow> strmap \<Rightarrow> operation_result hubm" where
  "CreateOrUpdateVRGManifestWork name ns cluster v annotations =
     createOrUpdateManifestWork (ManifestWorkName name ns ''vrg'')
       (newManifestWork [] [VRGManifest v] annotations) cluster"

definition CreateOrUpdateNamespaceManifestWork ::
  "string \<Rightarrow> string \<Rightarrow> string \<Rightarrow> strmap \<Rightarrow> strmap \<Rightarrow> unit hubm" where
  "CreateOrUpdateNamespaceManifestWork name nsname cluster annotations labels =
     bindM (createOrUpdateManifestWork (ManifestWorkName name nsname ''ns'')
              ((newManifestWork labels
                 [NSManifest \<lparr>nsName = nsname, nsAnnotations = annotations, nsLabels = labels\<rparr>]
                 annotations)\<lparr>mwOrphan := True\<rparr>)
              cluster)
       (\<lambda>_. ret ())"

definition prepareRecipeForMW :: "recipe \<Rightarrow> recipe" where
  "prepareRecipeForMW r =
     r\<lparr>rcpLabels := sm_put ''ramendr.openshift.io/created-by-ramen'' ''true'' (rcpLabels r)\<rparr>"

definition CreateOrUpdateRecipeManifestWork :: "recipe \<Rightarrow> string \<Rightarrow> unit hubm" where
  "CreateOrUpdateRecipeManifestWork r cluster =
     bindM (getsM (\<lambda>s. ManifestWorkName (dName (inst s)) (vrgNamespace s) ''recipe''))
       (\<lambda>name. bindM
          (createOrUpdateManifestWork name
             ((newManifestWork [(''recipe'', rcpName r)] [RecipeManifest (prepareRecipeForMW r)] [])
                \<lparr>mwOrphan := True\<rparr>)
             cluster)
          (\<lambda>_. ret ()))"

text \<open>
  Writing the first manifest of a ManifestWork. \<^verbatim>\<open>mw\<close> was read before, so its list is not empty
  where the callers use it (an empty list would panic in Go; \<open>list_update\<close> leaves it alone).
\<close>

definition UpdateVRGManifestWork :: "vrg \<Rightarrow> manifest_work \<Rightarrow> string \<Rightarrow> unit hubm" where
  "UpdateVRGManifestWork v mw cluster =
     bindM (getsM (\<lambda>s. BuildManifestWorkName s ''vrg''))
       (\<lambda>n. catchM (updateMW n cluster (mw\<lparr>mwManifests := (mwManifests mw)[0 := VRGManifest v]\<rparr>))
              (\<lambda>e. failM (wrapE ''failed to update MW ('' e '')'')))"

section \<open>Querying the VRGs of a DRPC\<close>

definition drpcViewAnnotations :: "drpc \<Rightarrow> strmap" where
  "drpcViewAnnotations d =
     sm_of_list [(''drplacementcontrol.ramendr.openshift.io/drpc-name'', dName d),
                 (''drplacementcontrol.ramendr.openshift.io/drpc-namespace'', dNamespace d)]"

text \<open>The loop's result: the VRGs found, the clusters queried with success, and the last cluster that failed.\<close>

fun queryVRGs :: "drpc \<Rightarrow> string \<Rightarrow> drcluster list \<Rightarrow> (string \<times> vrg) list \<Rightarrow> nat \<Rightarrow> string
    \<Rightarrow> ('z, (string \<times> vrg) list \<times> nat \<times> string) viewm" where
  "queryVRGs d ns [] vs n failed = ret (vs, n, failed)"
| "queryVRGs d ns (dc # dcs) vs n failed =
     bindM (attemptM (GetVRGFromManagedCluster (dName d) ns (dcName dc) (drpcViewAnnotations d)))
       (\<lambda>r. case r of
          Inl e \<Rightarrow> if IsNotFound e then queryVRGs d ns dcs vs (n + 1) failed
                   else queryVRGs d ns dcs vs n (dcName dc)
        | Inr v \<Rightarrow>
            if dcDeleted dc then queryVRGs d ns dcs vs (n + 1) failed
            else queryVRGs d ns dcs (filter (\<lambda>e. fst e \<noteq> dcName dc) vs @ [(dcName dc, v)]) (n + 1) failed)"

definition getVRGsFromManagedClusters ::
  "drpc \<Rightarrow> drcluster list \<Rightarrow> string \<Rightarrow> ('z, (string \<times> vrg) list \<times> nat \<times> string) viewm" where
  "getVRGsFromManagedClusters d dcs ns =
     bindM (queryVRGs d ns dcs [] 0 [])
       (\<lambda>(vs, n, failed).
          if n = length dcs then ret (vs, n, [])
          else if n = 0 then failM (newE ''failed to retrieve VRGs from clusters'')
          else ret (vs, n, failed))"

section \<open>Where a DRPC looks for its placement\<close>

text \<open>The namespace the placement is looked up in, which must be the DRPC's.\<close>

definition placementRefNamespace :: "string \<Rightarrow> drpc \<Rightarrow> gerr + string" where
  "placementRefNamespace kind d =
     (let ns = (if dPlacementRefNamespace (dSpec d) = [] then dNamespace d else dPlacementRefNamespace (dSpec d))
      in if ns \<noteq> dNamespace d
         then Inl (newE (''referenced '' @ kind @ '' namespace ('' @ dPlacementRefNamespace (dSpec d)
                     @ '') differs from DRPlacementControl resource namespace ('' @ dNamespace d @ '')''))
         else Inr ns)"

section \<open>The part of the state no handler of the reconcile writes\<close>

definition cfg where
  "cfg (s :: hub) = ((dName (inst s), dNamespace (inst s), dUID (inst s), dGeneration (inst s),
             dSpec (inst s)),
            (drPolicy s, drClusters s, vrgNamespace s, drType s, volSyncDisabled s, ramenConfig s),
            (numClustersQueriedSuccessfully s, environ s, clock s, conflictRetries s, faults s,
             savedInstanceStatus s, reconcilerSavedStatus s, map fst (vrgs s)))"

text \<open>The replication state the ManifestWork of a cluster asks for, and who is asked to be primary.\<close>

definition mwVRG :: "hub \<Rightarrow> string \<Rightarrow> vrg option" where
  "mwVRG s c =
     (case manifestWorks s (BuildManifestWorkName s ''vrg'', c) of
        None \<Rightarrow> None
      | Some mw \<Rightarrow> (case ExtractVRGFromManifestWork mw of Inl _ \<Rightarrow> None | Inr v \<Rightarrow> Some v))"

definition mwPrimary :: "hub \<Rightarrow> string \<Rightarrow> bool" where
  "mwPrimary s c \<longleftrightarrow> (case mwVRG s c of None \<Rightarrow> False | Some v \<Rightarrow> isVRGPrimary v)"

end
