(* ===== verification/Ramen_VrgSpec.thy ===== *)
theory Ramen_VrgSpec
  imports Ramen_Hub
begin

text \<open>
  How the DRPC reconciler builds and refreshes the VRG it ships to a managed cluster
  (\<^verbatim>\<open>newVRG\<close>, \<^verbatim>\<open>updateVRGOptionalFields\<close> and what they call in
  \<^verbatim>\<open>internal/controller/drplacementcontrol.go\<close>). These functions only read the \<open>hub\<close>, so they are
  functions of it and of the VRG. The second half states which fields a refresh leaves alone.
\<close>

definition DRPCUIDAnnotation :: string where
  "DRPCUIDAnnotation = ''drplacementcontrol.ramendr.openshift.io/drpc-uid''"

definition DestinationClusterAnnotationKey :: string where
  "DestinationClusterAnnotationKey = ''drplacementcontrol.ramendr.openshift.io/destination-cluster''"

definition DRPCTestFailoverDryRunAnnotation :: string where
  "DRPCTestFailoverDryRunAnnotation = ''drplacementcontrol.ramendr.openshift.io/test-failover-dryrun''"

definition LastAppDeploymentCluster :: string where
  "LastAppDeploymentCluster = ''drplacementcontrol.ramendr.openshift.io/last-app-deployment-cluster''"

definition DRPCLastAction :: string where
  "DRPCLastAction = ''drplacementcontrol.ramendr.openshift.io/last-action''"

definition IsCGEnabledAnnotation :: string where
  "IsCGEnabledAnnotation = ''drplacementcontrol.ramendr.openshift.io/is-cg-enabled''"

definition IsSubmarinerEnabledAnnotation :: string where
  "IsSubmarinerEnabledAnnotation = ''drplacementcontrol.ramendr.openshift.io/is-submariner-enabled''"

definition UseVolSyncAnnotation :: string where
  "UseVolSyncAnnotation = ''drplacementcontrol.ramendr.openshift.io/use-volsync-for-pvc-protection''"

definition EnableDiffAnnotation :: string where
  "EnableDiffAnnotation = ''drplacementcontrol.ramendr.openshift.io/enable-diff''"

definition GlobalVGRLabel :: string where
  "GlobalVGRLabel = ''ramendr.openshift.io/global-vgr''"

definition CreatedByRamenLabel :: string where
  "CreatedByRamenLabel = ''ramendr.openshift.io/created-by-ramen''"

lemmas annotation_key_defs =
  DRPCUIDAnnotation_def DestinationClusterAnnotationKey_def DRPCTestFailoverDryRunAnnotation_def
  LastAppDeploymentCluster_def DRPCLastAction_def IsCGEnabledAnnotation_def
  IsSubmarinerEnabledAnnotation_def UseVolSyncAnnotation_def EnableDiffAnnotation_def
  GlobalVGRLabel_def CreatedByRamenLabel_def

section \<open>Reading the instance\<close>

abbreviation spec :: "hub \<Rightarrow> drpc_spec" where
  "spec s \<equiv> dSpec (inst s)"

abbreviation status :: "hub \<Rightarrow> drpc_status" where
  "status s \<equiv> dStatus (inst s)"

abbreviation annot :: "hub \<Rightarrow> string \<Rightarrow> string" where
  "annot s k \<equiv> sm_get (dAnnotations (inst s)) k"

definition vrgOf :: "hub \<Rightarrow> string \<Rightarrow> vrg option" where
  "vrgOf s c = map_of (vrgs s) c"

definition globalVGRLabel :: "hub \<Rightarrow> string" where
  "globalVGRLabel s = sm_get (dLabels (inst s)) GlobalVGRLabel"

definition hasGlobalVGRLabel :: "hub \<Rightarrow> bool" where
  "hasGlobalVGRLabel s \<longleftrightarrow> globalVGRLabel s \<noteq> []"

definition AvailableS3Profiles :: "drcluster list \<Rightarrow> string list" where
  "AvailableS3Profiles cs = sort (remdups (map dcS3ProfileName (filter (\<lambda>c. \<not> dcDeleted c) cs)))"

section \<open>Action, annotations and plain spec fields\<close>

fun vrgAction :: "dr_action \<Rightarrow> vrg_action" where
  "vrgAction ActionFailover = VRGActionFailover"
| "vrgAction ActionRelocate = VRGActionRelocate"
| "vrgAction ActionNone = VRGActionNone"

definition setVRGAction :: "hub \<Rightarrow> vrg \<Rightarrow> vrg" where
  "setVRGAction s v =
     (let action = vrgAction (dAction (spec s));
          sp = vSpec v;
          sp1 = (if vAction sp = VRGActionFailover \<or> vDryRun sp then sp\<lparr>vDryRun := dDryRun (spec s)\<rparr> else sp)
      in if action = VRGActionNone then v\<lparr>vSpec := sp1\<rparr>
         else let sp2 = sp1\<lparr>vAction := action\<rparr>
              in v\<lparr>vSpec := (if action = VRGActionFailover then sp2\<lparr>vDryRun := dDryRun (spec s)\<rparr> else sp2)\<rparr>)"

definition setVRGAnnotations :: "hub \<Rightarrow> vrg \<Rightarrow> string \<Rightarrow> vrg" where
  "setVRGAnnotations s v homeCluster =
     (let base = sm_of_list
            [(DestinationClusterAnnotationKey, homeCluster),
             (DRPCUIDAnnotation, dUID (inst s)),
             (IsCGEnabledAnnotation, annot s IsCGEnabledAnnotation),
             (IsSubmarinerEnabledAnnotation, annot s IsSubmarinerEnabledAnnotation),
             (UseVolSyncAnnotation, annot s UseVolSyncAnnotation),
             (EnableDiffAnnotation, annot s EnableDiffAnnotation)];
          dry = (if dDryRun (spec s) \<and> homeCluster = dFailoverCluster (spec s)
                 then annot s DRPCTestFailoverDryRunAnnotation else ''false'');
          v1 = v\<lparr>vAnnotations := sm_put DRPCTestFailoverDryRunAnnotation dry base\<rparr>
      in if hasGlobalVGRLabel s
         then v1\<lparr>vLabels := sm_put GlobalVGRLabel (globalVGRLabel s) (vLabels v1)\<rparr>
         else v1)"

definition setVRGSpecFields :: "hub \<Rightarrow> vrg \<Rightarrow> vrg" where
  "setVRGSpecFields s v =
     setVRGAction s
       (v\<lparr>vSpec := (vSpec v)
           \<lparr>vProtectedNamespaces := dProtectedNamespaces (spec s),
            vS3Profiles := AvailableS3Profiles (drClusters s),
            vKubeObjectProtection := dKubeObjectProtection (spec s),
            vVolSync := (vVolSync (vSpec v))\<lparr>vsDisabled := volSyncDisabled s\<rparr>\<rparr>\<rparr>)"

section \<open>Sync and async specs\<close>

definition newVRGSpecAsync :: "hub \<Rightarrow> vrg_async_spec" where
  "newVRGSpecAsync s =
     \<lparr>asReplicationClassSelector = polReplicationClassSelector (drPolicy s),
      asVolumeSnapshotClassSelector = polVolumeSnapshotClassSelector (drPolicy s),
      asVolumeGroupSnapshotClassSelector = polVolumeGroupSnapshotClassSelector (drPolicy s),
      asSchedulingInterval = polSchedulingInterval (drPolicy s),
      asPeerClasses = polAsyncPeerClasses (drPolicy s)\<rparr>"

definition newVRGSpecSync :: "hub \<Rightarrow> vrg_sync_spec" where
  "newVRGSpecSync s = \<lparr>ssPeerClasses = polSyncPeerClasses (drPolicy s)\<rparr>"

definition updateVRGAsyncSpec :: "hub \<Rightarrow> vrg \<Rightarrow> vrg \<Rightarrow> vrg" where
  "updateVRGAsyncSpec s vrgFromView v =
     (let asyncSpec = newVRGSpecAsync s;
          put = (\<lambda>a. v\<lparr>vSpec := (vSpec v)\<lparr>vAsync := Some a\<rparr>\<rparr>)
      in if asPeerClasses asyncSpec = []
         then (case vAsync (vSpec v) of
                 Some a \<Rightarrow> put (if asPeerClasses a \<noteq> []
                                then asyncSpec\<lparr>asPeerClasses := asPeerClasses a\<rparr> else asyncSpec)
               | None \<Rightarrow> put asyncSpec)
         else (case vAsync (vSpec v) of
                 None \<Rightarrow> put asyncSpec
               | Some a \<Rightarrow>
                   put (asyncSpec\<lparr>asPeerClasses :=
                     updatePeers vrgFromView (asPeerClasses a) (polAsyncPeerClasses (drPolicy s))
                       (annot s IsCGEnabledAnnotation = ''true'')\<rparr>)))"

definition updateVRGSyncSpec :: "hub \<Rightarrow> vrg \<Rightarrow> vrg \<Rightarrow> vrg" where
  "updateVRGSyncSpec s vrgFromView v =
     (let syncSpec = newVRGSpecSync s;
          put = (\<lambda>a. v\<lparr>vSpec := (vSpec v)\<lparr>vSync := Some a\<rparr>\<rparr>)
      in if ssPeerClasses syncSpec = []
         then (case vSync (vSpec v) of
                 Some a \<Rightarrow> put (if ssPeerClasses a \<noteq> []
                                then syncSpec\<lparr>ssPeerClasses := ssPeerClasses a\<rparr> else syncSpec)
               | None \<Rightarrow> put syncSpec)
         else (case vSync (vSpec v) of
                 None \<Rightarrow> put syncSpec
               | Some a \<Rightarrow>
                   put (syncSpec\<lparr>ssPeerClasses :=
                     updatePeers vrgFromView (ssPeerClasses a) (polSyncPeerClasses (drPolicy s)) False\<rparr>)))"

definition updateVRGDRTypeSpec :: "hub \<Rightarrow> vrg \<Rightarrow> vrg \<Rightarrow> vrg" where
  "updateVRGDRTypeSpec s vrgFromCluster v =
     (case drType s of
        DRTypeSync \<Rightarrow> updateVRGSyncSpec s vrgFromCluster v
      | DRTypeAsync \<Rightarrow> updateVRGAsyncSpec s vrgFromCluster v)"

definition updateVRGDRTypeSpecIfNeeded :: "hub \<Rightarrow> vrg \<Rightarrow> vrg option \<Rightarrow> vrg" where
  "updateVRGDRTypeSpecIfNeeded s v vrgFromView =
     (case vrgFromView of
        None \<Rightarrow> (case drType s of
                   DRTypeSync \<Rightarrow> v\<lparr>vSpec := (vSpec v)\<lparr>vSync := Some (newVRGSpecSync s)\<rparr>\<rparr>
                 | DRTypeAsync \<Rightarrow> v\<lparr>vSpec := (vSpec v)\<lparr>vAsync := Some (newVRGSpecAsync s)\<rparr>\<rparr>)
      | Some w \<Rightarrow> updateVRGDRTypeSpec s w v)"

definition updateMoverConfig :: "hub \<Rightarrow> vrg \<Rightarrow> vrg" where
  "updateMoverConfig s v =
     (case dVolSyncSpec (spec s) of
        None \<Rightarrow> v
      | Some vs \<Rightarrow>
          if vsMoverConfig vs = [] then v
          else v\<lparr>vSpec := (vSpec v)\<lparr>vVolSync := (vVolSync (vSpec v))\<lparr>vsMoverConfig := vsMoverConfig vs\<rparr>\<rparr>\<rparr>)"

definition updateMoverConfigIfNeeded :: "hub \<Rightarrow> vrg \<Rightarrow> vrg" where
  "updateMoverConfigIfNeeded s v =
     (if dVolSyncSpec (spec s) \<noteq> None \<and> drType s = DRTypeAsync then updateMoverConfig s v else v)"

section \<open>Static IP translation\<close>

fun split_on :: "char \<Rightarrow> string \<Rightarrow> string list" where
  "split_on c [] = [[]]"
| "split_on c (x # xs) =
     (if x = c then [] # split_on c xs
      else (case split_on c xs of [] \<Rightarrow> [[x]] | p # ps \<Rightarrow> (x # p) # ps))"

definition ParseNetworkName :: "string \<Rightarrow> string \<Rightarrow> string \<times> string" where
  "ParseNetworkName networkName vmNamespace =
     (case split_on (CHR ''/'') networkName of
        [p] \<Rightarrow> (vmNamespace, p)
      | [p, q] \<Rightarrow> (p, q)
      | _ \<Rightarrow> ([], []))"

definition buildStaticIPTranslationSpec :: "hub \<Rightarrow> string \<Rightarrow> string \<Rightarrow> ip_translation_spec list option" where
  "buildStaticIPTranslationSpec s primaryCluster homeCluster =
     (case vrgOf s primaryCluster of
        None \<Rightarrow> None
      | Some pv \<Rightarrow>
          (case vStaticIPDiscovery (vStatus pv) of
             None \<Rightarrow> None
           | Some [] \<Rightarrow> None
           | Some resources \<Rightarrow>
               let sameCluster = (primaryCluster = homeCluster);
                   addr = (\<lambda>res net srcIP.
                     if \<not> sameCluster
                     then translateSourceIP (environ s) srcIP primaryCluster
                            (ParseNetworkName (dnNetworkName net) (rrNamespace (drResourceRef res)))
                     else srcIP)
               in Some (map (\<lambda>res.
                    \<lparr>itResourceRef = drResourceRef res,
                     itNetworks = map (\<lambda>net.
                       \<lparr>ntNetworkName = dnNetworkName net,
                        ntAddresses = map (addr res net) (dnAddresses net)\<rparr>) (drNetworks res)\<rparr>) resources)))"

definition shouldInjectStaticIPTranslationSpec :: "hub \<Rightarrow> vrg \<Rightarrow> bool" where
  "shouldInjectStaticIPTranslationSpec s v =
     (if \<not> IsVMRecipe (dKubeObjectProtection (spec s)) then False
      else if rmProtectedStaticIPVMs (rcResourceMeta (sResourceConditions (status s))) = [] then False
      else if vReplicationState (vSpec v) \<noteq> Secondary then False
      else True)"

definition currentPrimaryCluster :: "hub \<Rightarrow> string" where
  "currentPrimaryCluster s =
     (case dAction (spec s) of
        ActionFailover \<Rightarrow> dFailoverCluster (spec s)
      | ActionRelocate \<Rightarrow> dPreferredCluster (spec s)
      | ActionNone \<Rightarrow> dPreferredCluster (spec s))"

definition setStaticIPTranslationSpec :: "vrg \<Rightarrow> ip_translation_spec list option \<Rightarrow> bool \<times> vrg" where
  "setStaticIPTranslationSpec v sp =
     (if vStaticIPTranslationSpec (vSpec v) = sp then (False, v)
      else (True, v\<lparr>vSpec := (vSpec v)\<lparr>vStaticIPTranslationSpec := sp\<rparr>\<rparr>))"

definition updateVRGStaticIPTranslationSpec :: "hub \<Rightarrow> vrg \<Rightarrow> string \<Rightarrow> vrg" where
  "updateVRGStaticIPTranslationSpec s v homeCluster =
     (if \<not> shouldInjectStaticIPTranslationSpec s v then v
      else let primaryCluster = currentPrimaryCluster s
           in if primaryCluster = [] then v
              else case buildStaticIPTranslationSpec s primaryCluster homeCluster of
                     None \<Rightarrow> v
                   | Some newSpec \<Rightarrow> snd (setStaticIPTranslationSpec v (Some newSpec)))"

section \<open>Refreshing and creating a VRG\<close>

definition updateVRGOptionalFields :: "hub \<Rightarrow> vrg \<Rightarrow> vrg option \<Rightarrow> string \<Rightarrow> vrg" where
  "updateVRGOptionalFields s v vrgFromView homeCluster =
     (let v1 = setVRGAnnotations s v homeCluster;
          v2 = setVRGSpecFields s v1;
          v3 = updateVRGDRTypeSpecIfNeeded s v2 vrgFromView;
          v4 = updateMoverConfigIfNeeded s v3
      in updateVRGStaticIPTranslationSpec s v4 homeCluster)"

definition newVRG :: "hub \<Rightarrow> string \<Rightarrow> replication_state \<Rightarrow> vrg option \<Rightarrow> vrg" where
  "newVRG s dstCluster repState vrgFromView =
     (let v = emptyVRG (dName (inst s)) (vrgNamespace s) (dPVCSelector (spec s)) repState;
          v1 = v\<lparr>vLabels := sm_put CreatedByRamenLabel ''true'' (vLabels v)\<rparr>
      in updateVRGOptionalFields s v1 vrgFromView dstCluster)"

section \<open>Fields a refresh leaves alone\<close>

text \<open>
  The list in the comment of \<^verbatim>\<open>updateVRGOptionalFields\<close>, without \<^verbatim>\<open>StaticIPTranslationSpec\<close>: the
  fields every builder above keeps.
\<close>

definition vrgCore where
  "vrgCore (v :: vrg) = (vName v, vNamespace v, vGeneration v, vDeleted v, vPVCSelector (vSpec v),
     vReplicationState (vSpec v), vPrepareForFinalSync (vSpec v), vRunFinalSync (vSpec v),
     vsRDSpec (vVolSync (vSpec v)), vsRSSpec (vVolSync (vSpec v)), vStatus v)"

named_theorems core_simps "builders that keep the core fields of a VRG"

lemma core_setVRGAction [core_simps]: "vrgCore (setVRGAction s v) = vrgCore v"
  by (simp add: vrgCore_def setVRGAction_def Let_def)

lemma core_setVRGAnnotations [core_simps]: "vrgCore (setVRGAnnotations s v c) = vrgCore v"
  by (simp add: vrgCore_def setVRGAnnotations_def Let_def)

lemma core_setVRGSpecFields [core_simps]: "vrgCore (setVRGSpecFields s v) = vrgCore v"
  by (simp add: setVRGSpecFields_def core_setVRGAction) (simp add: vrgCore_def)

lemma core_updateVRGDRTypeSpecIfNeeded [core_simps]:
  "vrgCore (updateVRGDRTypeSpecIfNeeded s v w) = vrgCore v"
  by (simp add: vrgCore_def updateVRGDRTypeSpecIfNeeded_def updateVRGDRTypeSpec_def
      updateVRGSyncSpec_def updateVRGAsyncSpec_def Let_def split: option.split dr_type.split)

lemma core_updateMoverConfig [core_simps]: "vrgCore (updateMoverConfig s v) = vrgCore v"
  by (simp add: vrgCore_def updateMoverConfig_def split: option.split)

lemma core_updateMoverConfigIfNeeded [core_simps]: "vrgCore (updateMoverConfigIfNeeded s v) = vrgCore v"
  by (simp add: updateMoverConfigIfNeeded_def core_updateMoverConfig)

lemma core_setStaticIPTranslationSpec [core_simps]:
  "vrgCore (snd (setStaticIPTranslationSpec v sp)) = vrgCore v"
  by (simp add: vrgCore_def setStaticIPTranslationSpec_def)

lemma core_updateVRGStaticIPTranslationSpec [core_simps]:
  "vrgCore (updateVRGStaticIPTranslationSpec s v c) = vrgCore v"
  by (simp add: updateVRGStaticIPTranslationSpec_def core_setStaticIPTranslationSpec Let_def split: option.split)

lemma core_updateVRGOptionalFields [core_simps]: "vrgCore (updateVRGOptionalFields s v w c) = vrgCore v"
  by (simp add: updateVRGOptionalFields_def Let_def core_simps)

lemma core_eqD:
  assumes "vrgCore v = vrgCore w"
  shows "vReplicationState (vSpec v) = vReplicationState (vSpec w)" "isVRGPrimary v = isVRGPrimary w"
    "vName v = vName w" "vNamespace v = vNamespace w"
    "vPrepareForFinalSync (vSpec v) = vPrepareForFinalSync (vSpec w)"
    "vRunFinalSync (vSpec v) = vRunFinalSync (vSpec w)"
  using assms by (auto simp: vrgCore_def isVRGPrimary_def)

lemma primary_updateVRGOptionalFields [simp]:
  "isVRGPrimary (updateVRGOptionalFields s v w c) = isVRGPrimary v"
  by (rule core_eqD(2) [OF core_updateVRGOptionalFields])

lemma primary_setVRGAction [simp]: "isVRGPrimary (setVRGAction s v) = isVRGPrimary v"
  by (rule core_eqD(2) [OF core_setVRGAction])

lemma repState_newVRG [simp]: "vReplicationState (vSpec (newVRG s c r w)) = r"
  using core_eqD(1) [OF core_updateVRGOptionalFields]
  by (simp add: newVRG_def Let_def emptyVRG_def)

lemma primary_newVRG [simp]: "isVRGPrimary (newVRG s c r w) \<longleftrightarrow> r = Primary"
  by (simp add: isVRGPrimary_def)

section \<open>Properties\<close>

text \<open>
  A refresh of a VRG's optional fields keeps its name and namespace, its PVC selector, its replication
  state, both final-sync requests, its replication destinations and sources, and its status: of the
  fields listed in the comment of \<^verbatim>\<open>updateVRGOptionalFields\<close>, all but the static IP translation.
\<close>

theorem refresh_keeps_listed_fields:
  "let v' = updateVRGOptionalFields s v vrgFromView homeCluster in
     (vName v', vNamespace v', vPVCSelector (vSpec v'), vReplicationState (vSpec v'))
           = (vName v, vNamespace v, vPVCSelector (vSpec v), vReplicationState (vSpec v))
     \<and> (vPrepareForFinalSync (vSpec v'), vRunFinalSync (vSpec v'))
           = (vPrepareForFinalSync (vSpec v), vRunFinalSync (vSpec v))
     \<and> (vsRDSpec (vVolSync (vSpec v')), vsRSSpec (vVolSync (vSpec v')), vStatus v')
           = (vsRDSpec (vVolSync (vSpec v)), vsRSSpec (vVolSync (vSpec v)), vStatus v)"
  using core_updateVRGOptionalFields [of s v vrgFromView homeCluster] by (simp add: vrgCore_def Let_def)

text \<open>
  \<^verbatim>\<open>updatePeers\<close> never changes how a volume is replicated: the peer classes the VRG came with stay, in
  place, with their storage class, clusters, offloading, globality and use of a replication ID; what is
  added are policy classes for storage classes that protected PVCs use.
\<close>

theorem updatePeers_keeps_schemes:
  "grownFrom vrgPCs policyPCs {sc. \<exists>pvc \<in> set (vProtectedPVCs (vStatus v)). pvcStorageClassName pvc = Some sc}
     (updatePeers v vrgPCs policyPCs cg)"
  unfolding updatePeers_def by (rule grownFrom_updatePeersLoop [OF grownFrom_init subset_refl])

text \<open>Data for the witness: one PVC of a storage class the policy has a class for.\<close>

definition exPeer :: "string \<Rightarrow> peer_class" where
  "exPeer sc = \<lparr>pcReplicationID = [], pcGroupReplicationID = [], pcStorageID = [''s1''], pcStorageClassName = sc,
     pcClusterIDs = [''id1'', ''id2''], pcGrouping = False, pcOffloaded = False, pcGlobal = False\<rparr>"

definition exPVC :: "string \<Rightarrow> protected_pvc" where
  "exPVC sc = \<lparr>pvcNamespace = ''ns'', pvcName = ''pvc'', pvcProtectedByVolSync = False,
     pvcStorageIdentifiers = \<lparr>siStorageProvisioner = ''csi'', siStorageID = \<lparr>idID = ''s1'', idModes = []\<rparr>,
       siReplicationID = \<lparr>idID = ''r1'', idModes = []\<rparr>\<rparr>,
     pvcStorageClassName = Some sc, pvcAnnotations = [], pvcLabels = [], pvcAccessModes = [],
     pvcResources = [], pvcConditions = [], pvcLastSyncTime = None, pvcLastSyncDuration = None,
     pvcLastSyncBytes = None, pvcVolumeMode = None\<rparr>"

definition exVRGof :: "protected_pvc list \<Rightarrow> vrg" where
  "exVRGof pvcs = (emptyVRG ''app'' ''ns'' [] Primary)\<lparr>vStatus := zeroVRGStatus\<lparr>vProtectedPVCs := pvcs\<rparr>\<rparr>"

text \<open>
  After \<^verbatim>\<open>updatePeers\<close> every storage class used by a protected PVC that the policy knows has a peer class
  for the clusters of the policy's first class of that storage class.
\<close>

theorem updatePeers_covers:
  assumes "pvc \<in> set (vProtectedPVCs (vStatus v))" "pvcStorageClassName pvc = Some sc" "sc \<noteq> []"
    "firstPolicyClass policyPCs sc = Some p"
  shows "hasPeerClass (updatePeers v vrgPCs policyPCs cg) sc (pcClusterIDs p)"
  unfolding updatePeers_def by (rule updatePeersLoop_covers [OF assms]) assumption

theorem updatePeers_covers_witness:
  "hasPeerClass (updatePeers (exVRGof [exPVC ''rbd'']) [] [exPeer ''rbd''] False) ''rbd'' [''id1'', ''id2'']"
  using updatePeers_covers [of "exPVC ''rbd''" "exVRGof [exPVC ''rbd'']" "''rbd''" "[exPeer ''rbd'']" "exPeer ''rbd''" "[]" False]
  by (simp add: exVRGof_def exPVC_def exPeer_def firstPolicyClass_def)

end
