(* ===== verification/Ramen_Placement.thy ===== *)
theory Ramen_Placement
  imports Ramen_VrgSpec
begin

text \<open>
  The user placement: which cluster ACM deploys the workload to
  (\<^verbatim>\<open>getClusterDecision\<close>, \<^verbatim>\<open>updateUserPlacementStatusDecision\<close> and the failover-retained
  decisions of \<^verbatim>\<open>internal/controller/drplacementcontrol_controller.go\<close>). The edits of the
  decision list are pure functions; the monadic operations around them read and write the
  PlacementDecision objects through the API.
\<close>

definition PlacementLabel :: string where
  "PlacementLabel = ''cluster.open-cluster-management.io/placement''"

definition ExcludeFromVeleroBackup :: string where
  "ExcludeFromVeleroBackup = ''velero.io/exclude-from-backup''"

definition FailoverRetained :: string where
  "FailoverRetained = ''RetainedForFailover''"

definition MaxPlacementDecisionConflictCount :: nat where
  "MaxPlacementDecisionConflictCount = 5"

definition noDecision :: cluster_decision where
  "noDecision = \<lparr>cdClusterName = [], cdReason = []\<rparr>"

section \<open>Edits of a decision list\<close>

definition retained :: "cluster_decision \<Rightarrow> bool" where
  "retained d \<longleftrightarrow> cdReason d = FailoverRetained"

definition activeDecisions :: "cluster_decision list \<Rightarrow> cluster_decision list" where
  "activeDecisions ds = filter (\<lambda>d. \<not> retained d) ds"

definition setDecision :: "cluster_decision option \<Rightarrow> cluster_decision list \<Rightarrow> cluster_decision list" where
  "setDecision newCD ds =
     filter retained ds @ (case newCD of None \<Rightarrow> [] | Some d \<Rightarrow> [d])"

definition dropRetained :: "string \<Rightarrow> cluster_decision list \<Rightarrow> cluster_decision list" where
  "dropRetained cluster ds = filter (\<lambda>d. \<not> (retained d \<and> cdClusterName d = cluster)) ds"

fun retainFirst :: "string \<Rightarrow> cluster_decision list \<Rightarrow> bool \<times> cluster_decision list" where
  "retainFirst cluster [] = (False, [])"
| "retainFirst cluster (d # ds) =
     (if cdClusterName d \<noteq> cluster \<or> retained d
      then (let (b, ds') = retainFirst cluster ds in (b, d # ds'))
      else (True, d\<lparr>cdReason := FailoverRetained\<rparr> # ds))"

definition switchOne :: "string \<Rightarrow> cluster_decision \<Rightarrow> cluster_decision" where
  "switchOne cluster d =
     (if cdClusterName d = cluster
      then (if retained d then d\<lparr>cdReason := cdClusterName d\<rparr> else d)
      else (if \<not> retained d then d\<lparr>cdReason := FailoverRetained\<rparr> else d))"

section \<open>Reading the decision\<close>

definition getPlacementDecisionFromPlacement :: "string \<Rightarrow> pd_object option hubm" where
  "getPlacementDecisionFromPlacement placement =
     bindM (catchM (seqM apiCall
              (getsM (\<lambda>s. filter (\<lambda>p. map_of (poLabels p) PlacementLabel = Some placement)
                            (placementDecisions s))))
              (\<lambda>e. failM (newE ''failed to list PlacementDecisions'')))
       (\<lambda>items.
          if items = [] then ret None
          else if length items > 1 then failM (newE ''multiple PlacementDecisions found for Placement'')
          else if length (activeDecisions (poDecisions (hd items))) > 1
            then failM (newE ''multiple placements found in PlacementDecision'')
          else ret (Some (hd items)))"

definition getClusterDecisionFromPlacement :: "string \<Rightarrow> cluster_decision hubm" where
  "getClusterDecisionFromPlacement placement =
     bindM (attemptM (getPlacementDecisionFromPlacement placement))
       (\<lambda>r. ret (case r of
                   Inl _ \<Rightarrow> noDecision
                 | Inr None \<Rightarrow> noDecision
                 | Inr (Some p) \<Rightarrow>
                     (case activeDecisions (poDecisions p) of [] \<Rightarrow> noDecision | d # _ \<Rightarrow> d)))"

definition getClusterDecisionFromPlacementRule :: "placement_decision list \<Rightarrow> cluster_decision" where
  "getClusterDecisionFromPlacementRule ds =
     \<lparr>cdClusterName = (case ds of [] \<Rightarrow> [] | d # _ \<Rightarrow> pdClusterName d),
      cdReason = ''PlacementRule decision''\<rparr>"

definition getClusterDecision :: "cluster_decision hubm" where
  "getClusterDecision =
     bindM (getsM userPlacement)
       (\<lambda>p. case p of
              PlacementRule ds \<Rightarrow> ret (getClusterDecisionFromPlacementRule ds)
            | Placement n \<Rightarrow> getClusterDecisionFromPlacement n
            | OtherPlacement \<Rightarrow> ret noDecision)"

section \<open>Writing PlacementDecision objects\<close>

definition putPD :: "pd_object \<Rightarrow> hub \<Rightarrow> hub" where
  "putPD p s = s\<lparr>placementDecisions := map (\<lambda>q. if poName q = poName p then p else q) (placementDecisions s)\<rparr>"

definition updatePD :: "pd_object \<Rightarrow> unit hubm" where
  "updatePD p =
     seqM apiCall
       (bindM (getsM (\<lambda>s. poName p \<in> set (map poName (placementDecisions s))))
          (\<lambda>ok. if ok then modifyM (putPD p) else failM (Gerr NotFound (poName p @ '' not found''))))"

definition createPD :: "pd_object \<Rightarrow> unit hubm" where
  "createPD p =
     seqM apiCall
       (bindM (getsM (\<lambda>s. poName p \<in> set (map poName (placementDecisions s))))
          (\<lambda>ex. if ex then failM (Gerr AlreadyExists (poName p @ '' already exists''))
                else modifyM (\<lambda>s. s\<lparr>placementDecisions := placementDecisions s @ [p]\<rparr>)))"

definition decisionName :: "string \<Rightarrow> nat \<Rightarrow> string" where
  "decisionName placement index = placement @ ''-decision-'' @ [char_of (48 + index)]"

text \<open>
  The retry loop of \<^verbatim>\<open>createPlacementDecision\<close>; \<open>n\<close> is the number of attempts left, from
  \<^verbatim>\<open>MaxPlacementDecisionConflictCount\<close> down, so index \<open>6 - n\<close> is tried.
\<close>

fun createPDLoop :: "string \<Rightarrow> strmap \<Rightarrow> nat \<Rightarrow> pd_object hubm" where
  "createPDLoop placement labels 0 =
     failM (newE ''multiple PlacementDecision conflicts found, unable to create a new PlacementDecision'')"
| "createPDLoop placement labels (Suc n) =
     (let p = \<lparr>poName = decisionName placement (MaxPlacementDecisionConflictCount - n),
               poLabels = labels, poDecisions = []\<rparr>
      in bindM (attemptM (createPD p))
           (\<lambda>r. case r of
                  Inr _ \<Rightarrow> ret p
                | Inl e \<Rightarrow> if \<not> IsAlreadyExists e then failM e else createPDLoop placement labels n))"

definition createPlacementDecision :: "string \<Rightarrow> pd_object hubm" where
  "createPlacementDecision placement =
     createPDLoop placement
       (sm_of_list [(PlacementLabel, placement), (ExcludeFromVeleroBackup, ''true''),
          (CreatedByRamenLabel, ''true'')])
       MaxPlacementDecisionConflictCount"

section \<open>Updating the user placement\<close>

definition createOrUpdatePlacementRuleDecision ::
  "placement_decision list \<Rightarrow> cluster_decision option \<Rightarrow> unit hubm" where
  "createOrUpdatePlacementRuleDecision ds newCD =
     (let new = (case newCD of
                   None \<Rightarrow> []
                 | Some d \<Rightarrow> [\<lparr>pdClusterName = cdClusterName d, pdClusterNamespace = cdClusterName d\<rparr>])
      in if new \<noteq> ds
         then seqM (modifyM (\<lambda>s. s\<lparr>userPlacement := PlacementRule new\<rparr>))
                (catchM apiCall (\<lambda>e. failM (wrapE ''failed to update userPlRule ('' e '')'')))
         else ret ())"

definition createOrUpdatePlacementDecision :: "string \<Rightarrow> cluster_decision option \<Rightarrow> unit hubm" where
  "createOrUpdatePlacementDecision placement newCD =
     bindM (getPlacementDecisionFromPlacement placement)
       (\<lambda>found. bindM
          (case found of
             None \<Rightarrow> createPlacementDecision placement
           | Some p \<Rightarrow>
               if sm_get (poLabels p) ExcludeFromVeleroBackup \<noteq> ''true''
               then (let p' = p\<lparr>poLabels := sm_put ExcludeFromVeleroBackup ''true'' (poLabels p)\<rparr>
                     in seqM (updatePD p') (ret p'))
               else ret p)
          (\<lambda>p. catchM (updatePD (p\<lparr>poDecisions := setDecision newCD (poDecisions p)\<rparr>))
                 (\<lambda>e. failM (wrapE ''failed to update placementDecision status ('' e '')''))))"

definition updateUserPlacementStatusDecision :: "cluster_decision option \<Rightarrow> unit hubm" where
  "updateUserPlacementStatusDecision newCD =
     bindM (getsM userPlacement)
       (\<lambda>p. case p of
              PlacementRule ds \<Rightarrow> createOrUpdatePlacementRuleDecision ds newCD
            | Placement n \<Rightarrow> createOrUpdatePlacementDecision n newCD
            | OtherPlacement \<Rightarrow> failM (newE ''failed to find Placement or PlacementRule''))"

definition removePlacementClusterDecisionForFailover :: "string \<Rightarrow> string \<Rightarrow> unit hubm" where
  "removePlacementClusterDecisionForFailover placement cluster =
     bindM (getPlacementDecisionFromPlacement placement)
       (\<lambda>found. case found of
          None \<Rightarrow> ret ()
        | Some p \<Rightarrow>
            if \<not> list_ex (\<lambda>d. retained d \<and> cdClusterName d = cluster) (poDecisions p) then ret ()
            else catchM (updatePD (p\<lparr>poDecisions := dropRetained cluster (poDecisions p)\<rparr>))
                   (\<lambda>e. failM (wrapE ''failed to update placementDecision status to drop cluster decision ('' e '')'')))"

definition removeClusterDecisionForFailover :: "string \<Rightarrow> unit hubm" where
  "removeClusterDecisionForFailover cluster =
     bindM (getsM userPlacement)
       (\<lambda>p. case p of
              PlacementRule _ \<Rightarrow> ret ()
            | Placement n \<Rightarrow> removePlacementClusterDecisionForFailover n cluster
            | OtherPlacement \<Rightarrow> failM (newE ''failed to find Placement or PlacementRule''))"

definition retainPlacementClusterDecisionAsFailover :: "string \<Rightarrow> string \<Rightarrow> unit hubm" where
  "retainPlacementClusterDecisionAsFailover placement cluster =
     bindM (getPlacementDecisionFromPlacement placement)
       (\<lambda>found. bindM (case found of None \<Rightarrow> createPlacementDecision placement | Some p \<Rightarrow> ret p)
          (\<lambda>p. let ds = (if poDecisions p = []
                         then [\<lparr>cdClusterName = cluster, cdReason = []\<rparr>] else poDecisions p);
                   (changed, ds') = retainFirst cluster ds
               in if changed
                  then catchM (updatePD (p\<lparr>poDecisions := ds'\<rparr>))
                    (\<lambda>e. failM (wrapE ''failed to update placementDecision status to retain cluster decision for failover ('' e '')''))
                  else ret ()))"

definition retainClusterDecisionAsFailover :: "string \<Rightarrow> unit hubm" where
  "retainClusterDecisionAsFailover cluster =
     bindM (getsM userPlacement)
       (\<lambda>p. case p of
              PlacementRule _ \<Rightarrow> ret ()
            | Placement n \<Rightarrow> retainPlacementClusterDecisionAsFailover n cluster
            | OtherPlacement \<Rightarrow> failM (newE ''failed to find Placement or PlacementRule''))"

definition switchPlacementClusterDecisionRetainFailover :: "string \<Rightarrow> string \<Rightarrow> unit hubm" where
  "switchPlacementClusterDecisionRetainFailover placement cluster =
     bindM (getPlacementDecisionFromPlacement placement)
       (\<lambda>found. case found of
          None \<Rightarrow> ret ()
        | Some p \<Rightarrow>
            (let ds' = map (switchOne cluster) (poDecisions p);
                 updated = list_ex (\<lambda>d. retained d = (cdClusterName d = cluster)) (poDecisions p)
             in if \<not> updated then ret ()
                else catchM (updatePD (p\<lparr>poDecisions := ds'\<rparr>))
                  (\<lambda>e. failM (wrapE ''failed to update placementDecision status to switch retained failover reason ('' e '')''))))"

definition switchClusterDecisionRetainFailover :: "string \<Rightarrow> unit hubm" where
  "switchClusterDecisionRetainFailover cluster =
     bindM (getsM userPlacement)
       (\<lambda>p. case p of
              PlacementRule _ \<Rightarrow> ret ()
            | Placement n \<Rightarrow> switchPlacementClusterDecisionRetainFailover n cluster
            | OtherPlacement \<Rightarrow> failM (newE ''failed to find Placement or PlacementRule''))"

section \<open>Laws of the list edits\<close>

lemma active_setDecision:
  "activeDecisions (setDecision newCD ds)
     = (case newCD of None \<Rightarrow> [] | Some d \<Rightarrow> if retained d then [] else [d])"
  by (auto simp: activeDecisions_def setDecision_def split: option.split)

lemma retained_setDecision:
  "filter retained (setDecision newCD ds)
     = filter retained ds @ (case newCD of None \<Rightarrow> [] | Some d \<Rightarrow> if retained d then [d] else [])"
  by (auto simp: setDecision_def split: option.split)

lemma active_dropRetained [simp]: "activeDecisions (dropRetained c ds) = activeDecisions ds"
  unfolding activeDecisions_def dropRetained_def filter_filter by (rule filter_cong) auto

lemma active_retainFirst:
  "retainFirst c ds = (b, ds') \<Longrightarrow> length (activeDecisions ds') \<le> length (activeDecisions ds)"
  by (induction ds arbitrary: b ds')
     (auto simp: activeDecisions_def retained_def split: if_splits prod.splits)

lemma retainFirst_single:
  assumes "retainFirst c ds = (b, ds')" "length (activeDecisions ds) \<le> 1"
  shows "\<forall>d \<in> set (activeDecisions ds'). cdClusterName d \<noteq> c"
  using assms
proof (induction ds arbitrary: b ds')
  case (Cons d ds)
  show ?case
  proof (cases "cdClusterName d \<noteq> c \<or> retained d")
    case True
    then obtain ds'' where r: "retainFirst c ds = (b, ds'')" "ds' = d # ds''"
      using Cons.prems(1) by (auto split: prod.splits)
    with Cons True show ?thesis by (auto simp: activeDecisions_def split: if_splits)
  next
    case False
    then have "activeDecisions ds = []" using Cons.prems(2) by (simp add: activeDecisions_def)
    with False Cons.prems(1) show ?thesis by (auto simp: activeDecisions_def retained_def filter_empty_conv)
  qed
qed (simp add: activeDecisions_def)

lemma retained_switchOne:
  "c \<noteq> FailoverRetained \<Longrightarrow> retained (switchOne c d) \<longleftrightarrow> cdClusterName d \<noteq> c"
  by (simp add: switchOne_def retained_def)

lemma name_switchOne [simp]: "cdClusterName (switchOne c d) = cdClusterName d"
  by (simp add: switchOne_def)

end
