(* ===== verification/Ramen_Protected.thy ===== *)
theory Ramen_Protected
  imports Ramen_VrgSpec
begin

text \<open>
  The DRPC condition \<^verbatim>\<open>Protected\<close> (\<^verbatim>\<open>internal/controller/protected_condition.go\<close>): a chain of
  helpers, each of which either reports a problem on the DRPC and stops the chain or lets the
  next one look. A helper of the source returns whether it updated the status; here it returns
  the updated DRPC or \<open>None\<close>. The last section characterises when \<^verbatim>\<open>Protected\<close> is reported true.
\<close>

type_synonym prot_check = "int \<Rightarrow> drpc \<Rightarrow> vrg \<Rightarrow> string \<Rightarrow> drpc option"

definition setDRPCCondition ::
  "int \<Rightarrow> string \<Rightarrow> condition_status \<Rightarrow> string \<Rightarrow> string \<Rightarrow> drpc \<Rightarrow> drpc" where
  "setDRPCCondition now t st reason msg d =
     d\<lparr>dStatus := (dStatus d)\<lparr>sConditions :=
        snd (addOrUpdateCondition now (sConditions (dStatus d)) t (dGeneration d) st reason msg)\<rparr>\<rparr>"

abbreviation setProtected where
  "setProtected now \<equiv> setDRPCCondition now ''Protected''"

definition vrgId :: "vrg \<Rightarrow> string \<Rightarrow> string" where
  "vrgId v cluster =
     ''VolumeReplicationGroup ('' @ vNamespace v @ ''/'' @ vName v @ '') on cluster '' @ cluster"

fun replication_state_str :: "replication_state \<Rightarrow> string" where
  "replication_state_str ReplicationStateUnset = []"
| "replication_state_str Primary = ''primary''"
| "replication_state_str Secondary = ''secondary''"

fun getStatusStateFromSpecState :: "replication_state \<Rightarrow> vrg_state" where
  "getStatusStateFromSpecState Primary = PrimaryState"
| "getStatusStateFromSpecState Secondary = SecondaryState"
| "getStatusStateFromSpecState ReplicationStateUnset = UnknownState"

definition isVRGReasonError :: "condition \<Rightarrow> bool" where
  "isVRGReasonError c \<longleftrightarrow> cReason c \<in> {''Error'', ''UnknownError'', ''UploadError'', ''AnnotationFailed'',
     ''ClusterDataConflictPrimary'', ''ClusterDataConflictSecondary''}"

definition updateProtectedConditionUnknown :: "int \<Rightarrow> drpc \<Rightarrow> string \<Rightarrow> drpc" where
  "updateProtectedConditionUnknown now d cluster =
     setProtected now ConditionUnknown ''Unknown''
       (''Missing VolumeReplicationGroup status from cluster '' @ cluster) d"

definition genericUpdateProtectedForCondition ::
  "string \<Rightarrow> string \<Rightarrow> string \<Rightarrow> string \<Rightarrow> prot_check" where
  "genericUpdateProtectedForCondition name msgUnknown msgProgressing msgError now d v cluster =
     (let retrying = '', retrying till '' @ name @ '' condition is met'';
          unknown = Some (setProtected now ConditionUnknown ''Unknown''
            (vrgId v cluster @ '' is not reporting any status about '' @ msgUnknown @ retrying) d)
      in case FindCondition (vConditions (vStatus v)) name of
           None \<Rightarrow> unknown
         | Some c \<Rightarrow>
             if cStatus c = ConditionTrue \<and> cObservedGeneration c = vGeneration v then None
             else if cObservedGeneration c \<noteq> vGeneration v \<or> cStatus c = ConditionUnknown then unknown
             else if isVRGReasonError c
               then Some (setProtected now ConditionFalse ''Error''
                 (vrgId v cluster @ '' is reporting errors ('' @ cMessage c @ '') '' @ msgError @ retrying) d)
             else Some (setProtected now ConditionFalse ''Progressing''
                 (vrgId v cluster @ '' is progressing on '' @ msgProgressing @ '' ('' @ cMessage c @ '')'' @ retrying) d))"

definition updateVRGClusterDataReady :: prot_check where
  "updateVRGClusterDataReady now d v cluster =
     (if vReplicationState (vSpec v) \<noteq> Primary then None
      else genericUpdateProtectedForCondition ''ClusterDataReady'' ''workload resources readiness''
             ''restoring workload resources'' ''restoring workload resources'' now d v cluster)"

definition updateVRGClusterDataProtected :: prot_check where
  "updateVRGClusterDataProtected now d v cluster =
     (if vReplicationState (vSpec v) \<noteq> Primary then None
      else genericUpdateProtectedForCondition ''ClusterDataProtected'' ''workload resource protection''
             ''protecting workload resources'' ''protecting workload resources'' now d v cluster)"

definition updateVRGDestinationInfoAvailable :: prot_check where
  "updateVRGDestinationInfoAvailable now d v cluster =
     (case FindCondition (vConditions (vStatus v)) ''DestinationInfoAvailable'' of
        None \<Rightarrow> None
      | Some c \<Rightarrow>
          if cStatus c = ConditionTrue \<and> cObservedGeneration c = vGeneration v then None
          else genericUpdateProtectedForCondition ''DestinationInfoAvailable''
                 ''destination info availability'' ''waiting for destination info'' ''destination info''
                 now d v cluster)"

definition updateVRGDataReadyAsPrimary :: prot_check where
  "updateVRGDataReadyAsPrimary =
     genericUpdateProtectedForCondition ''DataReady'' ''workload data readiness''
       ''readying workload data'' ''readying workload data''"

definition updateVRGDataReadyAsSecondary :: prot_check where
  "updateVRGDataReadyAsSecondary now d v cluster =
     (case FindCondition (vConditions (vStatus v)) ''DataReady'' of
        None \<Rightarrow> None
      | Some c \<Rightarrow>
          if cObservedGeneration c = vGeneration v \<and> cStatus c = ConditionFalse
             \<and> cReason c = ''Replicating'' \<and> vAsync (vSpec v) \<noteq> None
             \<and> vAction (vSpec v) = VRGActionFailover
          then None
          else genericUpdateProtectedForCondition ''DataReady'' ''workload data readiness''
                 ''readying workload data'' ''readying workload data'' now d v cluster)"

definition updateVRGDataProtectedAsPrimary :: prot_check where
  "updateVRGDataProtectedAsPrimary now d v cluster =
     (let generic = genericUpdateProtectedForCondition ''DataProtected'' ''workload data protection''
            ''protecting workload data'' ''protecting workload data'' now d v cluster
      in case FindCondition (vConditions (vStatus v)) ''DataProtected'' of
           None \<Rightarrow> generic
         | Some c \<Rightarrow>
             if cObservedGeneration c = vGeneration v
                \<and> (cReason c = ''Replicating'' \<and> cStatus c = ConditionFalse \<or> cStatus c = ConditionTrue)
             then None else generic)"

definition updateVRGNoClusterDataConflict :: prot_check where
  "updateVRGNoClusterDataConflict =
     genericUpdateProtectedForCondition ''NoClusterDataConflict'' ''workload data protection''
       ''checking for workload data conflict'' ''conflicting workload data''"

definition updateVRGDataProtectedAsSecondary :: prot_check where
  "updateVRGDataProtectedAsSecondary now d v cluster =
     (case FindCondition (vConditions (vStatus v)) ''DataProtected'' of
        None \<Rightarrow> None
      | Some _ \<Rightarrow>
          genericUpdateProtectedForCondition ''DataProtected'' ''workload data protection''
            ''protecting workload data'' ''protecting workload data'' now d v cluster)"

definition updateVRGHooksReady :: prot_check where
  "updateVRGHooksReady now d v cluster =
     (case FindCondition (vConditions (vStatus v)) ''HooksReady'' of
        None \<Rightarrow> None
      | Some c \<Rightarrow>
          if cObservedGeneration c \<noteq> vGeneration v then None
          else if cStatus c = ConditionTrue then None
          else if cStatus c = ConditionFalse \<and> cReason c = ''HookFailed''
            then Some (setProtected now ConditionFalse ''Error''
              (vrgId v cluster @ '' hook execution failed: '' @ cMessage c) d)
          else None)"

definition orElseP :: "drpc option \<Rightarrow> drpc option \<Rightarrow> drpc option" where
  "orElseP a b = (case a of Some d \<Rightarrow> Some d | None \<Rightarrow> b)"

definition updateDRPCProtectedForReplicationState :: prot_check where
  "updateDRPCProtectedForReplicationState now d v cluster =
     (case vReplicationState (vSpec v) of
        Primary \<Rightarrow> orElseP (updateVRGDataReadyAsPrimary now d v cluster)
                     (updateVRGDataProtectedAsPrimary now d v cluster)
      | Secondary \<Rightarrow> orElseP (updateVRGDataReadyAsSecondary now d v cluster)
                       (updateVRGDataProtectedAsSecondary now d v cluster)
      | ReplicationStateUnset \<Rightarrow> None)"

text \<open>A nil \<^verbatim>\<open>LastGroupSyncTime\<close> is \<open>None\<close>, the zero time is \<open>Some 0\<close>.\<close>

definition updateMiscVRGStatus :: prot_check where
  "updateMiscVRGStatus now d v cluster =
     (if vStatusObservedGeneration (vStatus v) \<noteq> vGeneration v
      then Some (setProtected now ConditionFalse ''Unknown''
        (vrgId v cluster @ '' is not reporting status for current generation as ''
         @ replication_state_str (vReplicationState (vSpec v)) @ '', retrying till status is met'') d)
      else if vState (vStatus v) \<noteq> getStatusStateFromSpecState (vReplicationState (vSpec v))
      then Some (setProtected now ConditionFalse ''Progressing''
        (vrgId v cluster @ '' is not reporting status as ''
         @ replication_state_str (vReplicationState (vSpec v)) @ '', retrying till status is met'') d)
      else if vAsync (vSpec v) \<noteq> None \<and> sm_get (vLabels v) GlobalVGRLabel = []
              \<and> (vLastGroupSyncTime (vStatus v) = None \<or> vLastGroupSyncTime (vStatus v) = Some 0)
      then Some (setProtected now ConditionFalse ''Progressing''
        (vrgId v cluster @ '' is not reporting any lastGroupSyncTime as ''
         @ replication_state_str (vReplicationState (vSpec v)) @ '', retrying till status is met'') d)
      else None)"

definition updateDRPCProtectedCondition :: "int \<Rightarrow> drpc \<Rightarrow> vrg \<Rightarrow> string \<Rightarrow> drpc" where
  "updateDRPCProtectedCondition now d v cluster =
     (case orElseP (updateVRGHooksReady now d v cluster)
          (orElseP (updateVRGClusterDataReady now d v cluster)
          (orElseP (updateDRPCProtectedForReplicationState now d v cluster)
          (orElseP (updateVRGDestinationInfoAvailable now d v cluster)
          (orElseP (updateVRGNoClusterDataConflict now d v cluster)
          (orElseP (updateMiscVRGStatus now d v cluster)
                   (updateVRGClusterDataProtected now d v cluster)))))) of
        Some d' \<Rightarrow> d'
      | None \<Rightarrow> setProtected now ConditionTrue ''Protected''
          (vrgId v cluster @ '' is protecting required resources and data'') d)"

text \<open>\<^verbatim>\<open>meta.RemoveStatusCondition\<close> of apimachinery is documented to remove the conditions of a type.\<close>

definition updateDRPCReplicationHealthyCondition :: "int \<Rightarrow> drpc \<Rightarrow> vrg \<Rightarrow> drpc" where
  "updateDRPCReplicationHealthyCondition now d v =
     (case FindCondition (vConditions (vStatus v)) ''ReplicationHealthy'' of
        None \<Rightarrow> d\<lparr>dStatus := (dStatus d)\<lparr>sConditions :=
                 filter (\<lambda>c. cType c \<noteq> ''ReplicationHealthy'') (sConditions (dStatus d))\<rparr>\<rparr>
      | Some c \<Rightarrow> setDRPCCondition now ''ReplicationHealthy'' (cStatus c) (cReason c) (cMessage c) d)"

section \<open>When the workload is reported protected\<close>

definition condOK :: "vrg \<Rightarrow> string \<Rightarrow> bool" where
  "condOK v t \<longleftrightarrow>
     (case FindCondition (vConditions (vStatus v)) t of
        None \<Rightarrow> False
      | Some c \<Rightarrow> cStatus c = ConditionTrue \<and> cObservedGeneration c = vGeneration v)"

definition condOKOrAbsent :: "vrg \<Rightarrow> string \<Rightarrow> bool" where
  "condOKOrAbsent v t \<longleftrightarrow> FindCondition (vConditions (vStatus v)) t = None \<or> condOK v t"

definition hookFailed :: "vrg \<Rightarrow> bool" where
  "hookFailed v \<longleftrightarrow>
     (case FindCondition (vConditions (vStatus v)) ''HooksReady'' of
        None \<Rightarrow> False
      | Some c \<Rightarrow> cObservedGeneration c = vGeneration v \<and> cStatus c = ConditionFalse
                  \<and> cReason c = ''HookFailed'')"

definition replicatingNow :: "vrg \<Rightarrow> string \<Rightarrow> bool" where
  "replicatingNow v t \<longleftrightarrow>
     (case FindCondition (vConditions (vStatus v)) t of
        None \<Rightarrow> False
      | Some c \<Rightarrow> cObservedGeneration c = vGeneration v \<and> cStatus c = ConditionFalse
                  \<and> cReason c = ''Replicating'')"

definition dataProtectedFor :: "vrg \<Rightarrow> bool" where
  "dataProtectedFor v \<longleftrightarrow>
     (case vReplicationState (vSpec v) of
        Primary \<Rightarrow> condOK v ''ClusterDataReady'' \<and> condOK v ''DataReady''
                    \<and> (condOK v ''DataProtected'' \<or> replicatingNow v ''DataProtected'')
                    \<and> condOK v ''ClusterDataProtected''
      | Secondary \<Rightarrow> (condOKOrAbsent v ''DataReady''
                        \<or> replicatingNow v ''DataReady'' \<and> vAsync (vSpec v) \<noteq> None
                          \<and> vAction (vSpec v) = VRGActionFailover)
                      \<and> condOKOrAbsent v ''DataProtected''
      | ReplicationStateUnset \<Rightarrow> True)"

definition syncReported :: "vrg \<Rightarrow> bool" where
  "syncReported v \<longleftrightarrow> vAsync (vSpec v) \<noteq> None \<longrightarrow> sm_get (vLabels v) GlobalVGRLabel = []
     \<longrightarrow> vLastGroupSyncTime (vStatus v) \<noteq> None \<and> vLastGroupSyncTime (vStatus v) \<noteq> Some 0"

definition workloadProtected :: "vrg \<Rightarrow> bool" where
  "workloadProtected v \<longleftrightarrow> \<not> hookFailed v \<and> dataProtectedFor v
     \<and> condOKOrAbsent v ''DestinationInfoAvailable'' \<and> condOK v ''NoClusterDataConflict''
     \<and> vStatusObservedGeneration (vStatus v) = vGeneration v
     \<and> vState (vStatus v) = getStatusStateFromSpecState (vReplicationState (vSpec v))
     \<and> syncReported v"

lemma orElseP_None [simp]: "orElseP a b = None \<longleftrightarrow> a = None \<and> b = None"
  by (simp add: orElseP_def split: option.split)

lemma generic_None_iff:
  "genericUpdateProtectedForCondition t mu mp me now d v c = None \<longleftrightarrow> condOK v t"
  by (auto simp: genericUpdateProtectedForCondition_def condOK_def Let_def split: option.splits if_splits)

text \<open>A helper that does report never reports the condition true.\<close>

definition notProtectedYet :: "int \<Rightarrow> drpc \<Rightarrow> drpc \<Rightarrow> bool" where
  "notProtectedYet now d d' \<longleftrightarrow> (\<exists>st r m. st \<noteq> ConditionTrue \<and> d' = setProtected now st r m d)"

lemma npyI: "st \<noteq> ConditionTrue \<Longrightarrow> notProtectedYet now d (setProtected now st r m d)"
  by (auto simp: notProtectedYet_def)

lemma generic_Some:
  "genericUpdateProtectedForCondition t mu mp me now d v c = Some d' \<Longrightarrow> notProtectedYet now d d'"
  by (auto simp: genericUpdateProtectedForCondition_def Let_def split: option.splits if_splits intro!: npyI)

lemmas prot_helper_defs =
  updateVRGHooksReady_def updateVRGClusterDataReady_def updateVRGClusterDataProtected_def
  updateVRGDestinationInfoAvailable_def updateVRGDataReadyAsPrimary_def
  updateVRGDataReadyAsSecondary_def updateVRGDataProtectedAsPrimary_def
  updateVRGNoClusterDataConflict_def updateVRGDataProtectedAsSecondary_def

lemma helper_Some:
  "updateVRGHooksReady now d v c = Some d' \<Longrightarrow> notProtectedYet now d d'"
  "updateVRGClusterDataReady now d v c = Some d' \<Longrightarrow> notProtectedYet now d d'"
  "updateVRGClusterDataProtected now d v c = Some d' \<Longrightarrow> notProtectedYet now d d'"
  "updateVRGDestinationInfoAvailable now d v c = Some d' \<Longrightarrow> notProtectedYet now d d'"
  "updateVRGDataReadyAsPrimary now d v c = Some d' \<Longrightarrow> notProtectedYet now d d'"
  "updateVRGDataReadyAsSecondary now d v c = Some d' \<Longrightarrow> notProtectedYet now d d'"
  "updateVRGDataProtectedAsPrimary now d v c = Some d' \<Longrightarrow> notProtectedYet now d d'"
  "updateVRGDataProtectedAsSecondary now d v c = Some d' \<Longrightarrow> notProtectedYet now d d'"
  "updateVRGNoClusterDataConflict now d v c = Some d' \<Longrightarrow> notProtectedYet now d d'"
  "updateMiscVRGStatus now d v c = Some d' \<Longrightarrow> notProtectedYet now d d'"
  by (auto simp: prot_helper_defs updateMiscVRGStatus_def Let_def
      split: option.splits if_splits dest: generic_Some intro!: npyI)

lemma replication_Some:
  "updateDRPCProtectedForReplicationState now d v c = Some d' \<Longrightarrow> notProtectedYet now d d'"
  by (auto simp: updateDRPCProtectedForReplicationState_def orElseP_def
      split: replication_state.splits option.splits dest: helper_Some)

lemma helper_None:
  "updateVRGHooksReady now d v c = None \<longleftrightarrow> \<not> hookFailed v"
  "updateVRGClusterDataReady now d v c = None \<longleftrightarrow> (isVRGPrimary v \<longrightarrow> condOK v ''ClusterDataReady'')"
  "updateVRGClusterDataProtected now d v c = None \<longleftrightarrow> (isVRGPrimary v \<longrightarrow> condOK v ''ClusterDataProtected'')"
  "updateVRGDestinationInfoAvailable now d v c = None \<longleftrightarrow> condOKOrAbsent v ''DestinationInfoAvailable''"
  "updateVRGNoClusterDataConflict now d v c = None \<longleftrightarrow> condOK v ''NoClusterDataConflict''"
  "updateVRGDataReadyAsPrimary now d v c = None \<longleftrightarrow> condOK v ''DataReady''"
  "updateVRGDataReadyAsSecondary now d v c = None \<longleftrightarrow> condOKOrAbsent v ''DataReady''
     \<or> replicatingNow v ''DataReady'' \<and> vAsync (vSpec v) \<noteq> None \<and> vAction (vSpec v) = VRGActionFailover"
  "updateVRGDataProtectedAsPrimary now d v c = None
     \<longleftrightarrow> condOK v ''DataProtected'' \<or> replicatingNow v ''DataProtected''"
  "updateVRGDataProtectedAsSecondary now d v c = None \<longleftrightarrow> condOKOrAbsent v ''DataProtected''"
  by (auto simp: prot_helper_defs generic_None_iff Let_def hookFailed_def condOK_def condOKOrAbsent_def
      replicatingNow_def isVRGPrimary_def split: option.splits if_splits)

lemma misc_None:
  "updateMiscVRGStatus now d v c = None \<longleftrightarrow>
     vStatusObservedGeneration (vStatus v) = vGeneration v
     \<and> vState (vStatus v) = getStatusStateFromSpecState (vReplicationState (vSpec v)) \<and> syncReported v"
  by (auto simp: updateMiscVRGStatus_def syncReported_def)

text \<open>Reading the condition back.\<close>

lemma FindCondition_setDRPCCondition:
  "\<exists>c. FindCondition (sConditions (dStatus (setDRPCCondition now t st r m d))) t = Some c
     \<and> cStatus c = st \<and> cObservedGeneration c = dGeneration d"
proof -
  let ?c = "\<lparr>cType = t, cStatus = st, cObservedGeneration = dGeneration d,
             cLastTransitionTime = now, cReason = r, cMessage = m\<rparr>"
  show ?thesis
    using aoc.find_same [of now "sConditions (dStatus d)" ?c]
    by (simp add: setDRPCCondition_def addCond_def)
qed

lemma FindCondition_setDRPCCondition_other:
  assumes "t' \<noteq> t"
  shows "FindCondition (sConditions (dStatus (setDRPCCondition now t st r m d))) t'
           = FindCondition (sConditions (dStatus d)) t'"
proof -
  let ?c = "\<lparr>cType = t, cStatus = st, cObservedGeneration = dGeneration d,
             cLastTransitionTime = now, cReason = r, cMessage = m\<rparr>"
  show ?thesis
    using assms aoc.find_other [of t' ?c now "sConditions (dStatus d)"]
    by (simp add: setDRPCCondition_def addCond_def)
qed

section \<open>Properties\<close>

text \<open>
  C8. \<^verbatim>\<open>updateDRPCProtectedCondition\<close> reports the workload protected (condition true) exactly when the
  VRG shows it: no failed hook, cluster data and data ready and protected for the replication state,
  no data conflict, destination information where reported, status of the current generation and state,
  and a group sync time for asynchronous replication.
\<close>

theorem protected_iff_workload_protected:
  "(\<exists>c. FindCondition (sConditions (dStatus (updateDRPCProtectedCondition now d v cluster))) ''Protected'' = Some c
      \<and> cStatus c = ConditionTrue) \<longleftrightarrow> workloadProtected v"
proof -
  let ?chain = "orElseP (updateVRGHooksReady now d v cluster)
          (orElseP (updateVRGClusterDataReady now d v cluster)
          (orElseP (updateDRPCProtectedForReplicationState now d v cluster)
          (orElseP (updateVRGDestinationInfoAvailable now d v cluster)
          (orElseP (updateVRGNoClusterDataConflict now d v cluster)
          (orElseP (updateMiscVRGStatus now d v cluster)
                   (updateVRGClusterDataProtected now d v cluster))))))"
  have none: "?chain = None \<longleftrightarrow> workloadProtected v"
    by (auto simp: helper_None misc_None workloadProtected_def dataProtectedFor_def
        updateDRPCProtectedForReplicationState_def isVRGPrimary_def split: replication_state.split)
  show ?thesis
  proof (cases ?chain)
    case None
    then have "workloadProtected v" using none by blast
    with None show ?thesis
      using FindCondition_setDRPCCondition [of now "''Protected''" ConditionTrue "''Protected''"
          "vrgId v cluster @ '' is protecting required resources and data''" d]
      by (auto simp: updateDRPCProtectedCondition_def simp del: orElseP_None)
  next
    case (Some d')
    then have "notProtectedYet now d d'"
      by (auto simp: orElseP_def split: option.splits dest: helper_Some replication_Some)
    then obtain st r m where st: "st \<noteq> ConditionTrue" "d' = setProtected now st r m d"
      by (auto simp: notProtectedYet_def)
    have "\<not> workloadProtected v" using Some none by auto
    with Some st show ?thesis
      using FindCondition_setDRPCCondition [of now "''Protected''" st r m d]
      by (auto simp: updateDRPCProtectedCondition_def)
  qed
qed

end
