(* ===== verification/Ramen_Status.thy ===== *)
theory Ramen_Status
  imports Ramen_Placement Ramen_Protected
begin

text \<open>
  The DRPC's status: phase, progression and action counters (\<^verbatim>\<open>setDRState\<close>,
  \<^verbatim>\<open>setStatusInitiating\<close>, \<^verbatim>\<open>syncDRActionCountAnnotation\<close>), the conditions, and how the status is
  refreshed from a VRG and stored (\<^verbatim>\<open>updateResourceCondition\<close>, \<^verbatim>\<open>updateDRPCStatus\<close>,
  \<^verbatim>\<open>shouldUpdateStatus\<close>). The last part shows that a DR action is counted exactly when it starts,
  and that the VRG taken from the object stores is the latest primary among them.
\<close>

section \<open>Changes of the instance\<close>

definition modInst :: "(drpc \<Rightarrow> drpc) \<Rightarrow> unit hubm" where
  "modInst f = modifyM (\<lambda>s. s\<lparr>inst := f (inst s)\<rparr>)"

definition modStatus :: "(drpc_status \<Rightarrow> drpc_status) \<Rightarrow> unit hubm" where
  "modStatus f = modInst (\<lambda>d. d\<lparr>dStatus := f (dStatus d)\<rparr>)"

definition AddAnnotation :: "string \<Rightarrow> string \<Rightarrow> drpc \<Rightarrow> bool \<times> drpc" where
  "AddAnnotation k v d =
     (if map_of (dAnnotations d) k \<noteq> Some v
      then (True, d\<lparr>dAnnotations := sm_put k v (dAnnotations d)\<rparr>) else (False, d))"

definition HasAnnotation :: "drpc \<Rightarrow> string \<Rightarrow> bool" where
  "HasAnnotation d k \<longleftrightarrow> sm_has (dAnnotations d) k"

section \<open>Action counters\<close>

definition zeroActionCount :: action_count where
  "zeroActionCount = \<lparr>acFailover = 0, acRelocate = 0, acLastPhase = StateNone\<rparr>"

definition parseDRActionCount :: "drpc \<Rightarrow> action_count" where
  "parseDRActionCount d = (case dActionCount d of None \<Rightarrow> zeroActionCount | Some c \<Rightarrow> c)"

definition syncDRActionCountAnnotation :: "drpc \<Rightarrow> bool \<times> drpc" where
  "syncDRActionCountAnnotation d =
     (let phase = sPhase (dStatus d);
          counts = parseDRActionCount d
      in if acLastPhase counts = phase then (False, d)
         else if acLastPhase counts \<noteq> Initiating \<and> phase \<noteq> Initiating then (False, d)
         else let counts1 =
                    (if acLastPhase counts = Initiating
                     then (case phase of
                             FailingOver \<Rightarrow> counts\<lparr>acFailover := acFailover counts + 1\<rparr>
                           | Relocating \<Rightarrow> counts\<lparr>acRelocate := acRelocate counts + 1\<rparr>
                           | _ \<Rightarrow> counts)
                     else counts);
                  counts2 = counts1\<lparr>acLastPhase := phase\<rparr>
              in (dActionCount d \<noteq> Some counts2, d\<lparr>dActionCount := Some counts2\<rparr>))"

section \<open>Phase and progression\<close>

definition setDRStateD :: "dr_state \<Rightarrow> drpc \<Rightarrow> drpc" where
  "setDRStateD nextState d =
     (if sPhase (dStatus d) \<noteq> nextState
      then snd (syncDRActionCountAnnotation
             (d\<lparr>dStatus := (dStatus d)\<lparr>sPhase := nextState, sObservedGeneration := dGeneration d\<rparr>\<rparr>))
      else d)"

definition setDRState :: "dr_state \<Rightarrow> unit hubm" where
  "setDRState nextState = modInst (setDRStateD nextState)"

definition updateDRPCProgression :: "drpc \<Rightarrow> progression \<Rightarrow> bool \<times> drpc" where
  "updateDRPCProgression d p =
     (if sProgression (dStatus d) \<noteq> p
      then (True, d\<lparr>dStatus := (dStatus d)\<lparr>sProgression := p\<rparr>\<rparr>) else (False, d))"

definition setProgression :: "progression \<Rightarrow> unit hubm" where
  "setProgression p = modInst (\<lambda>d. snd (updateDRPCProgression d p))"

definition IsPreRelocateProgression :: "progression \<Rightarrow> bool" where
  "IsPreRelocateProgression p \<longleftrightarrow> p \<in> {ProgressionPreparingFinalSync, ProgressionClearingPlacement,
     ProgressionRunningFinalSync, ProgressionFinalSyncComplete,
     ProgressionEnsuringVolumesAreSecondary, ProgressionWaitOnUserToCleanUp}"

definition isInFinalPhase :: "drpc \<Rightarrow> bool" where
  "isInFinalPhase d \<longleftrightarrow> sPhase (dStatus d) \<in> {Deployed, FailedOver, Relocated}"

definition isInProgressingPhase :: "drpc \<Rightarrow> bool" where
  "isInProgressingPhase d \<longleftrightarrow> sPhase (dStatus d) \<in> {Initiating, Deploying, FailingOver, Relocating}"

definition getConditionStatusForTypeAvailable :: "drpc \<Rightarrow> condition_status" where
  "getConditionStatusForTypeAvailable d =
     (if isInFinalPhase d then ConditionTrue
      else if isInProgressingPhase d then ConditionFalse else ConditionUnknown)"

definition getRequeueDuration :: "drpc \<Rightarrow> int" where
  "getRequeueDuration d =
     (case sPhase (dStatus d) of FailingOver \<Rightarrow> 300 | Relocating \<Rightarrow> 2 | _ \<Rightarrow> 1)"

definition setStatusInitiatingD :: "int \<Rightarrow> drpc \<Rightarrow> drpc" where
  "setStatusInitiatingD t d =
     (if sPhase (dStatus d) \<notin> {StateNone, WaitForUser, Deployed, FailedOver, Relocated} then d
      else let d1 = setDRStateD Initiating d;
               d2 = snd (updateDRPCProgression d1 ProgressionNone)
           in d2\<lparr>dStatus := (dStatus d2)\<lparr>sActionStartTime := Some t, sActionDuration := None\<rparr>\<rparr>)"

definition setStatusInitiating :: "unit hubm" where
  "setStatusInitiating = bindM (getsM clock) (\<lambda>t. modInst (setStatusInitiatingD t))"

definition setActionDuration :: "unit hubm" where
  "setActionDuration =
     bindM (getsM clock)
       (\<lambda>t. modStatus (\<lambda>st.
          case (sActionDuration st, sActionStartTime st) of
            (None, Some t0) \<Rightarrow> st\<lparr>sActionDuration := Some (t - t0)\<rparr>
          | _ \<Rightarrow> st))"

section \<open>Conditions of the instance\<close>

definition setCond :: "string \<Rightarrow> condition_status \<Rightarrow> string \<Rightarrow> string \<Rightarrow> unit hubm" where
  "setCond t st reason msg =
     bindM (getsM clock) (\<lambda>n. modInst (setDRPCCondition n t st reason msg))"

text \<open>\<^verbatim>\<open>ConditionAvailable\<close> as most callers write it: status and reason from the phase.\<close>

definition setAvailable :: "string \<Rightarrow> unit hubm" where
  "setAvailable msg =
     bindM (getsM inst)
       (\<lambda>d. setCond ''Available'' (getConditionStatusForTypeAvailable d)
              (dr_state_str (sPhase (dStatus d))) msg)"

definition isSecondaryVRGReadyOnInitialDeploy :: "hub \<Rightarrow> bool" where
  "isSecondaryVRGReadyOnInitialDeploy s =
     list_all (\<lambda>c. c = dPreferredCluster (spec s) \<or>
        (case vrgOf s c of
           None \<Rightarrow> False
         | Some v \<Rightarrow> vReplicationState (vSpec v) = Secondary \<and> vState (vStatus v) = SecondaryState
                     \<and> vStatusObservedGeneration (vStatus v) = vGeneration v))
       (DRPolicyClusterNames (drPolicy s))"

definition setConditionOnInitialDeploymentCompletion :: "unit hubm" where
  "setConditionOnInitialDeploymentCompletion =
     seqM (setAvailable ''Initial deployment completed'')
       (bindM (getsM isSecondaryVRGReadyOnInitialDeploy)
          (\<lambda>ready. if ready then setCond ''PeerReady'' ConditionTrue ''Success'' ''Ready''
             else setCond ''PeerReady'' ConditionFalse ''Progressing''
               ''Waiting for VRG on peer cluster to transition to Secondary''))"

text \<open>
  \<^verbatim>\<open>updatePreferredDecision\<close>: the guard is on \<^verbatim>\<open>d.instance.Spec.PreferredCluster\<close> and on an unset
  decision.
\<close>

definition emptyDecision :: placement_decision where
  "emptyDecision = \<lparr>pdClusterName = [], pdClusterNamespace = []\<rparr>"

definition updatePreferredDecision :: "unit hubm" where
  "updatePreferredDecision =
     modInst (\<lambda>d.
       if dPreferredCluster (dSpec d) \<noteq> [] \<and> sPreferredDecision (dStatus d) = emptyDecision
       then d\<lparr>dStatus := (dStatus d)\<lparr>sPreferredDecision :=
              \<lparr>pdClusterName = dPreferredCluster (dSpec d),
               pdClusterNamespace = dPreferredCluster (dSpec d)\<rparr>\<rparr>\<rparr>
       else d)"

section \<open>The last known primary\<close>

definition s3PathNamePrefix :: "string \<Rightarrow> string \<Rightarrow> string" where
  "s3PathNamePrefix ns name = ns @ ''/'' @ name @ ''/''"

definition laterPrimary :: "vrg option \<Rightarrow> vrg \<Rightarrow> vrg option" where
  "laterPrimary latest v =
     (if \<not> isVRGPrimary v then latest
      else case latest of
             None \<Rightarrow> Some v
           | Some l \<Rightarrow> if vLastUpdateTime (vStatus v) > vLastUpdateTime (vStatus l) then Some v else latest)"

fun GetLastKnownVRGPrimaryFromS3 ::
  "env \<Rightarrow> string list \<Rightarrow> string \<Rightarrow> string \<Rightarrow> vrg option \<Rightarrow> vrg option" where
  "GetLastKnownVRGPrimaryFromS3 e [] name ns latest = latest"
| "GetLastKnownVRGPrimaryFromS3 e (p # ps) name ns latest =
     GetLastKnownVRGPrimaryFromS3 e ps name ns
       (case s3Store e p of
          Inl _ \<Rightarrow> latest
        | Inr store \<Rightarrow>
            (case store (s3PathNamePrefix ns name) of Inl _ \<Rightarrow> latest | Inr v \<Rightarrow> laterPrimary latest v))"

text \<open>
  \<^verbatim>\<open>GetDRPolicy\<close> and \<^verbatim>\<open>GetDRClusters\<close> read the objects the reconcile already holds: one call for the
  policy and one for each of its clusters, any of which may fail.
\<close>

definition GetAvailableS3Profiles :: "string list hubm" where
  "GetAvailableS3Profiles =
     catchM
       (seqM apiCall
         (bindM (getsM (\<lambda>s. DRPolicyClusterNames (drPolicy s)))
           (\<lambda>names. seqM (forM names (\<lambda>_. apiCall))
              (getsM (\<lambda>s. AvailableS3Profiles (drClusters s))))))
       (\<lambda>_. ret [])"

section \<open>Which VRG the status reports\<close>

definition DRPCAppNamespace :: string where
  "DRPCAppNamespace = ''drplacementcontrol.ramendr.openshift.io/app-namespace''"

definition NestedGeneratorsMatchPlacement :: "strmap option list \<Rightarrow> string \<Rightarrow> bool" where
  "NestedGeneratorsMatchPlacement gs placementName =
     list_ex (\<lambda>g. case g of None \<Rightarrow> False | Some ls \<Rightarrow> sm_get ls PlacementLabel = placementName) gs"

definition AppSetGeneratorMatchesPlacement :: "appset_generator \<Rightarrow> string \<Rightarrow> bool" where
  "AppSetGeneratorMatchesPlacement g placementName \<longleftrightarrow>
     (case agClusterDecisionResource g of None \<Rightarrow> False | Some ls \<Rightarrow> sm_get ls PlacementLabel = placementName)
     \<or> (case agMatrix g of None \<Rightarrow> False | Some gs \<Rightarrow> NestedGeneratorsMatchPlacement gs placementName)
     \<or> (case agMerge g of None \<Rightarrow> False | Some gs \<Rightarrow> NestedGeneratorsMatchPlacement gs placementName)"

definition getApplicationDestinationNamespace :: "env \<Rightarrow> string \<Rightarrow> gerr + string" where
  "getApplicationDestinationNamespace e placementName =
     (case appSets e of
        Inl err \<Rightarrow> if IsNoMatchError err then Inr (placementNamespace e)
                   else Inl (wrapE ''ApplicationSet list: '' err [])
      | Inr sets \<Rightarrow>
          (case find (\<lambda>a. apNamespace a = placementNamespace e
                       \<and> list_ex (\<lambda>g. AppSetGeneratorMatchesPlacement g placementName) (apGenerators a)) sets of
             None \<Rightarrow> Inr (placementNamespace e)
           | Some a \<Rightarrow> Inr (apDestinationNamespace a)))"

definition selectVRGNamespace :: "env \<Rightarrow> drpc \<Rightarrow> user_placement \<Rightarrow> gerr + string" where
  "selectVRGNamespace e d placementObj =
     (if sm_get (dAnnotations d) DRPCAppNamespace \<noteq> [] then Inr (sm_get (dAnnotations d) DRPCAppNamespace)
      else case placementObj of
             Placement n \<Rightarrow> getApplicationDestinationNamespace e n
           | _ \<Rightarrow> Inr (dNamespace d))"

definition clusterForVRGStatus :: "string hubm" where
  "clusterForVRGStatus =
     bindM getClusterDecision
       (\<lambda>cd. bindM (getsM inst)
          (\<lambda>d. ret (case dAction (dSpec d) of
             ActionFailover \<Rightarrow> cdClusterName cd
           | ActionRelocate \<Rightarrow>
               if sObservedGeneration (dStatus d) \<noteq> dGeneration d then cdClusterName cd
               else if IsPreRelocateProgression (sProgression (dStatus d))
               then (if sm_get (dAnnotations d) LastAppDeploymentCluster \<noteq> []
                     then sm_get (dAnnotations d) LastAppDeploymentCluster else cdClusterName cd)
               else dPreferredCluster (dSpec d)
           | ActionNone \<Rightarrow> dPreferredCluster (dSpec d))))"

definition zeroResourceMeta :: vrg_resource_meta where
  "zeroResourceMeta = \<lparr>rmKind = [], rmName = [], rmNamespace = [], rmGeneration = 0,
     rmProtectedPVCs = [], rmPVCGroups = [], rmResourceVersion = [], rmProtectedStaticIPVMs = []\<rparr>"

definition zeroVRGConditions :: vrg_conditions where
  "zeroVRGConditions = \<lparr>rcResourceMeta = zeroResourceMeta, rcConditions = []\<rparr>"

text \<open>
  The map of VRGs is the reconcile's own (\<^verbatim>\<open>d.vrgs\<close>) or nil (\<^verbatim>\<open>recordFailure\<close>): \<open>useVrgs\<close>. The
  comparison of resource versions is Go's \<^verbatim>\<open><\<close> on strings, the lexicographic order.
\<close>

definition getVRG :: "string \<Rightarrow> string \<Rightarrow> bool \<Rightarrow> vrg option hubm" where
  "getVRG ns clusterName useVrgs =
     bindM (getsM (\<lambda>s. if useVrgs then vrgOf s clusterName else None))
       (\<lambda>cached. case cached of
          Some v \<Rightarrow> ret (Some v)
        | None \<Rightarrow>
            bindM (getsM (\<lambda>s. mcvVRG (environ s) ns clusterName))
              (\<lambda>r. case r of
                 Inr v \<Rightarrow> ret (Some v)
               | Inl _ \<Rightarrow>
                   bindM GetAvailableS3Profiles
                     (\<lambda>profiles. bindM (getsM (\<lambda>s.
                          (GetLastKnownVRGPrimaryFromS3 (environ s) profiles (dName (inst s)) ns None,
                           rmResourceVersion (rcResourceMeta (sResourceConditions (status s))), clock s)))
                        (\<lambda>(found, prev, t). case found of
                           None \<Rightarrow>
                             seqM (modStatus (\<lambda>st. st\<lparr>sResourceConditions := zeroVRGConditions\<rparr>))
                               (seqM (modInst (\<lambda>d. updateProtectedConditionUnknown t d clusterName))
                                  (ret None))
                         | Some v \<Rightarrow> if vResourceVersion v < prev then ret None else ret (Some v)))))"

definition extractProtectedPVCNames :: "vrg \<Rightarrow> string list" where
  "extractProtectedPVCNames v = map pvcName (vProtectedPVCs (vStatus v))"

text \<open>The order of the list stands for the order in which Go ranges over the map.\<close>

fun findConflictCondition :: "(string \<times> vrg) list \<Rightarrow> string \<Rightarrow> condition option \<Rightarrow> condition option" where
  "findConflictCondition [] conflictType selected = selected"
| "findConflictCondition ((c, v) # vs) conflictType selected =
     (case FindCondition (vConditions (vStatus v)) conflictType of
        Some cond \<Rightarrow>
          if cStatus cond = ConditionFalse
          then (if isVRGPrimary v then Some cond
                else findConflictCondition vs conflictType
                       (if selected = None then Some cond else selected))
          else findConflictCondition vs conflictType selected
      | None \<Rightarrow> findConflictCondition vs conflictType selected)"

definition overwriteConflict :: "int \<Rightarrow> condition \<Rightarrow> condition \<Rightarrow> condition" where
  "overwriteConflict t new old =
     (let c1 = (if cStatus old \<noteq> cStatus new \<or> cReason old \<noteq> cReason new
                then old\<lparr>cStatus := cStatus new, cReason := cReason new, cLastTransitionTime := t\<rparr> else old);
          c2 = c1\<lparr>cReason := (if cReason new = [] then ''none'' else cReason new),
                 cMessage := (if cMessage new = [] then ''none'' else cMessage new)\<rparr>
      in if cObservedGeneration c2 \<noteq> cObservedGeneration new then c2\<lparr>cLastTransitionTime := t\<rparr> else c2)"

definition setConflictStatusCondition :: "int \<Rightarrow> conditions \<Rightarrow> condition \<Rightarrow> conditions" where
  "setConflictStatusCondition t cs new =
     (case FindCondition cs (cType new) of
        None \<Rightarrow> cs @ [new\<lparr>cLastTransitionTime := t\<rparr>]
      | Some _ \<Rightarrow> writeFound (cType new) (overwriteConflict t new) cs)"

definition assignConditionsWithConflictCheck ::
  "int \<Rightarrow> (string \<times> vrg) list \<Rightarrow> vrg \<Rightarrow> string \<Rightarrow> conditions" where
  "assignConditionsWithConflictCheck t vs v conflictType =
     (case findConflictCondition vs conflictType None of
        None \<Rightarrow> vConditions (vStatus v)
      | Some c \<Rightarrow> setConflictStatusCondition t (vConditions (vStatus v)) c)"

section \<open>Refreshing the status from the VRG\<close>

text \<open>
  The conflict check writes into the VRG's own condition list, so the Protected condition is
  computed from the list with the conflict in it, and a VRG of \<^verbatim>\<open>d.vrgs\<close> keeps it (\<open>putVrg\<close>).
\<close>

definition putVrg :: "string \<Rightarrow> vrg \<Rightarrow> hub \<Rightarrow> hub" where
  "putVrg c v s = s\<lparr>vrgs := map (\<lambda>(k, w). if k = c then (k, v) else (k, w)) (vrgs s)\<rparr>"

definition refreshFromVRG :: "int \<Rightarrow> string \<Rightarrow> vrg \<Rightarrow> drpc \<Rightarrow> drpc" where
  "refreshFromVRG t clusterName v d =
     (let vst = vStatus v;
          rm = \<lparr>rmKind = vKind v, rmName = vName v, rmNamespace = vNamespace v,
                rmGeneration = vGeneration v, rmProtectedPVCs = extractProtectedPVCNames v,
                rmPVCGroups = vPVCGroups vst, rmResourceVersion = vResourceVersion v,
                rmProtectedStaticIPVMs = (case vStaticIPDiscovery vst of None \<Rightarrow> [] | Some r \<Rightarrow> r)\<rparr>;
          st0 = (dStatus d)\<lparr>sResourceConditions := \<lparr>rcResourceMeta = rm, rcConditions = vConditions vst\<rparr>\<rparr>;
          st1 = (if vLastGroupSyncTime vst \<noteq> None \<or> dAction (dSpec d) \<noteq> ActionRelocate
                 then st0\<lparr>sLastGroupSyncTime := vLastGroupSyncTime vst,
                          sLastGroupSyncDuration := vLastGroupSyncDuration vst,
                          sLastGroupSyncBytes := vLastGroupSyncBytes vst\<rparr>
                 else st0);
          st2 = (case vCaptureEndTime vst of
                   None \<Rightarrow> st1 | Some e \<Rightarrow> st1\<lparr>sLastKubeObjectProtectionTime := Some e\<rparr>)
      in updateDRPCReplicationHealthyCondition t
           (updateDRPCProtectedCondition t (d\<lparr>dStatus := st2\<rparr>) v clusterName) v)"

definition updateResourceCondition :: "bool \<Rightarrow> unit hubm" where
  "updateResourceCondition useVrgs =
     bindM (getsM (\<lambda>s. selectVRGNamespace (environ s) (inst s) (userPlacement s)))
       (\<lambda>r. case r of
          Inl _ \<Rightarrow> ret ()
        | Inr ns \<Rightarrow>
            bindM clusterForVRGStatus
              (\<lambda>clusterName. if clusterName = [] then ret () else
                 bindM (getVRG ns clusterName useVrgs)
                   (\<lambda>found. case found of
                      None \<Rightarrow> ret ()
                    | Some v \<Rightarrow>
                        modifyM (\<lambda>s.
                          let v' = v\<lparr>vStatus := (vStatus v)\<lparr>vConditions :=
                                assignConditionsWithConflictCheck (clock s)
                                  (if useVrgs then vrgs s else []) v ''NoClusterDataConflict''\<rparr>\<rparr>;
                              s' = (if useVrgs then putVrg clusterName v' s else s)
                          in s'\<lparr>inst := refreshFromVRG (clock s) clusterName v' (inst s')\<rparr>))))"

section \<open>Storing the status\<close>

definition StatusCheckDelay :: int where
  "StatusCheckDelay = 600"

definition observeGeneration :: "drpc \<Rightarrow> drpc" where
  "observeGeneration d =
     d\<lparr>dStatus := (dStatus d)\<lparr>sConditions :=
        map (\<lambda>c. c\<lparr>cObservedGeneration := dGeneration d\<rparr>) (sConditions (dStatus d))\<rparr>\<rparr>"

text \<open>
  The status read at the start of the reconcile (\<^verbatim>\<open>r.savedInstanceStatus\<close>) decides whether anything
  is written; \<^verbatim>\<open>d.savedInstanceStatus\<close> is the status after the initial conditions were added.
\<close>

definition updateDRPCStatus :: "bool \<Rightarrow> unit hubm" where
  "updateDRPCStatus useVrgs =
     seqM (modInst (\<lambda>d. snd (syncDRActionCountAnnotation d)))
       (bindM (getsM (\<lambda>s. (dActionCount (inst s), savedDRActionCount s, status s)))
         (\<lambda>(annotation, saved, st).
           seqM (if annotation \<noteq> saved
                 then seqM (catchM updateDRPC
                              (\<lambda>e. failM (wrapE ''failed to update DRPC dr-action-count annotation: '' e [])))
                        (seqM (modStatus (\<lambda>_. st))
                           (modifyM (\<lambda>s. s\<lparr>savedDRActionCount := annotation\<rparr>)))
                 else ret ())
             (seqM (updateResourceCondition useVrgs)
               (seqM (modInst observeGeneration)
                 (bindM (getsM (\<lambda>s. (reconcilerSavedStatus s = status s, clock s)))
                   (\<lambda>(same, t). if same then ret ()
                      else seqM (modStatus (\<lambda>st. st\<lparr>sLastUpdateTime := Some t\<rparr>))
                             (seqM (catchM apiCall
                                      (\<lambda>e. failM (wrapE ''failed to update DRPC status: '' e [])))
                                (modifyM (\<lambda>s. s\<lparr>serverStatus := status s\<rparr>)))))))))"

definition recordFailure :: "string \<Rightarrow> string \<Rightarrow> unit hubm" where
  "recordFailure reason msg =
     bindM (getsM (\<lambda>s. (addOrUpdateCondition (clock s) (sConditions (status s)) ''Available''
              (dGeneration (inst s)) ConditionFalse reason msg)))
       (\<lambda>(needsUpdate, cs).
          seqM (modStatus (\<lambda>st. st\<lparr>sConditions := cs\<rparr>))
            (whenM needsUpdate (catchM (updateDRPCStatus False) (\<lambda>_. ret ()))))"

text \<open>
  \<^verbatim>\<open>LastGroupSyncDuration\<close> and \<^verbatim>\<open>LastGroupSyncBytes\<close> are compared as pointers; those of the VRG and of
  the DRPC point to different objects here, so they are equal only when both are nil.
\<close>

definition shouldUpdateStatus :: "bool hubm" where
  "shouldUpdateStatus =
     bindM (getsM (\<lambda>s. list_ex (\<lambda>c. cObservedGeneration c \<noteq> dGeneration (inst s)) (sConditions (status s))
                       \<or> savedInstanceStatus s \<noteq> status s))
       (\<lambda>changed. if changed then ret True else
          bindM getClusterDecision
            (\<lambda>cd. if cdClusterName cd = [] then ret False else
               getsM (\<lambda>s. case vrgOf s (cdClusterName cd) of
                  None \<Rightarrow> False
                | Some v \<Rightarrow>
                    (let vst = vStatus v; st = status s
                     in vLastGroupSyncTime vst \<noteq> sLastGroupSyncTime st
                        \<or> \<not> (vLastGroupSyncDuration vst = None \<and> sLastGroupSyncDuration st = None)
                        \<or> \<not> (vLastGroupSyncBytes vst = None \<and> sLastGroupSyncBytes st = None)
                        \<or> (vCaptureEndTime vst \<noteq> None
                            \<and> vCaptureEndTime vst \<noteq> sLastKubeObjectProtectionTime st)
                        \<or> rcConditions (sResourceConditions st) \<noteq> vConditions vst))))"

definition statusUpdateTimeElapsed :: "hub \<Rightarrow> bool" where
  "statusUpdateTimeElapsed s =
     (case sLastUpdateTime (status s) of None \<Rightarrow> False | Some t \<Rightarrow> t + StatusCheckDelay < clock s)"

definition getStatusCheckDelay :: "int \<Rightarrow> int \<Rightarrow> int \<Rightarrow> int" where
  "getStatusCheckDelay t beforeProcessing afterProcessing =
     (if beforeProcessing \<noteq> afterProcessing then StatusCheckDelay
      else max 0 (beforeProcessing + StatusCheckDelay - t))"

section \<open>Properties\<close>

text \<open>How often a sequence of phases goes from \<open>Initiating\<close> to \<open>q\<close>.\<close>

fun starts :: "dr_state \<Rightarrow> dr_state \<Rightarrow> dr_state list \<Rightarrow> nat" where
  "starts q p [] = 0"
| "starts q p (p' # ps) = (if p = Initiating \<and> p' = q then 1 else 0) + starts q p' ps"

definition countsCurrent :: "drpc \<Rightarrow> bool" where
  "countsCurrent d \<longleftrightarrow> (acLastPhase (parseDRActionCount d) = Initiating) = (sPhase (dStatus d) = Initiating)"

lemma setDRStateD_phase [simp]: "sPhase (dStatus (setDRStateD p d)) = p"
  by (simp add: setDRStateD_def syncDRActionCountAnnotation_def Let_def)

lemma setDRStateD_counts:
  assumes "countsCurrent d"
  shows "countsCurrent (setDRStateD p d)"
    "acFailover (parseDRActionCount (setDRStateD p d)) = acFailover (parseDRActionCount d)
       + (if sPhase (dStatus d) = Initiating \<and> p = FailingOver then 1 else 0)"
    "acRelocate (parseDRActionCount (setDRStateD p d)) = acRelocate (parseDRActionCount d)
       + (if sPhase (dStatus d) = Initiating \<and> p = Relocating then 1 else 0)"
  using assms
  by (auto simp: countsCurrent_def setDRStateD_def syncDRActionCountAnnotation_def parseDRActionCount_def Let_def
      split: dr_state.splits option.splits)

definition exCountDRPC :: drpc where
  "exCountDRPC = \<lparr>dName = ''app'', dNamespace = ''ns'', dUID = ''uid'', dGeneration = 1,
     dDeleted = False, dFinalizers = [], dOwnerReferences = [], dAnnotations = [], dLabels = [], dActionCount = None,
     dSpec = \<lparr>dPlacementRefName = ''plc'', dPlacementRefNamespace = [], dDRPolicyRefName = ''policy'',
       dProtectedNamespaces = None, dPreferredCluster = ''c1'', dFailoverCluster = ''c2'',
       dPVCSelector = [], dAction = ActionFailover, dDryRun = False, dKubeObjectProtection = None,
       dVolSyncSpec = None, dRetainNamespaceSCCAcrossPeers = False\<rparr>,
     dStatus = \<lparr>sPhase = Deployed, sObservedGeneration = 0, sActionStartTime = None,
       sActionDuration = None, sProgression = ProgressionNone, sPreferredDecision = emptyDecision,
       sConditions = [], sResourceConditions = zeroVRGConditions, sLastUpdateTime = None,
       sLastGroupSyncTime = None, sLastGroupSyncDuration = None, sLastGroupSyncBytes = None,
       sLastKubeObjectProtectionTime = None\<rparr>\<rparr>"

text \<open>
  Along any sequence of phases set by \<^verbatim>\<open>setDRState\<close>, the failover (relocate) counter of the
  \<^verbatim>\<open>dr-action-count\<close> annotation grows by one exactly at each change from Initiating to FailingOver
  (Relocating), and wraps only as a 64-bit integer does.
\<close>

theorem actions_counted_once_per_start:
  assumes "countsCurrent d"
  shows "acFailover (parseDRActionCount (foldl (\<lambda>d p. setDRStateD p d) d ps))
       = acFailover (parseDRActionCount d) + of_nat (starts FailingOver (sPhase (dStatus d)) ps)
     \<and> acRelocate (parseDRActionCount (foldl (\<lambda>d p. setDRStateD p d) d ps))
       = acRelocate (parseDRActionCount d) + of_nat (starts Relocating (sPhase (dStatus d)) ps)"
  using assms
  by (induction ps arbitrary: d) (simp_all add: setDRStateD_counts)

theorem actions_counted_once_per_start_witness:
  "acFailover (parseDRActionCount (foldl (\<lambda>d p. setDRStateD p d) exCountDRPC
      [Initiating, FailingOver, FailedOver, FailingOver, Initiating, Relocating])) = 1"
  using actions_counted_once_per_start [of exCountDRPC "[Initiating, FailingOver, FailedOver, FailingOver, Initiating, Relocating]"]
  by (simp add: countsCurrent_def exCountDRPC_def parseDRActionCount_def zeroActionCount_def)

definition storedPrimaries :: "env \<Rightarrow> string list \<Rightarrow> string \<Rightarrow> string \<Rightarrow> vrg set" where
  "storedPrimaries e profiles name ns =
     {v. isVRGPrimary v \<and> (\<exists>p store. p \<in> set profiles \<and> s3Store e p = Inr store
           \<and> store (s3PathNamePrefix ns name) = Inr v)}"

definition latestIn :: "vrg set \<Rightarrow> vrg option \<Rightarrow> bool" where
  "latestIn V r = (case r of
     None \<Rightarrow> V = {}
   | Some v \<Rightarrow> v \<in> V \<and> V \<subseteq> {w. vLastUpdateTime (vStatus w) \<le> vLastUpdateTime (vStatus v)})"

lemma latestIn_later:
  "latestIn V r \<Longrightarrow> isVRGPrimary v \<Longrightarrow> latestIn (insert v V) (laterPrimary r v)"
  "latestIn V r \<Longrightarrow> \<not> isVRGPrimary v \<Longrightarrow> latestIn V (laterPrimary r v)"
  by (auto simp: latestIn_def laterPrimary_def split: option.splits intro: order_trans)

lemma latestIn_S3:
  "latestIn V r \<Longrightarrow> latestIn (V \<union> storedPrimaries e ps name ns) (GetLastKnownVRGPrimaryFromS3 e ps name ns r)"
proof (induction ps arbitrary: V r)
  case Nil
  then show ?case by (simp add: storedPrimaries_def)
next
  case (Cons p ps)
  have split: "storedPrimaries e (p # ps) name ns = storedPrimaries e [p] name ns \<union> storedPrimaries e ps name ns"
    by (auto simp: storedPrimaries_def)
  have sole: "storedPrimaries e [p] name ns = (case s3Store e p of Inl _ \<Rightarrow> {} | Inr store \<Rightarrow>
      (case store (s3PathNamePrefix ns name) of Inl _ \<Rightarrow> {} | Inr v \<Rightarrow> if isVRGPrimary v then {v} else {}))"
    by (auto simp: storedPrimaries_def split: sum.split)
  have one: "latestIn (V \<union> storedPrimaries e [p] name ns)
     (case s3Store e p of Inl _ \<Rightarrow> r | Inr store \<Rightarrow>
        (case store (s3PathNamePrefix ns name) of Inl _ \<Rightarrow> r | Inr v \<Rightarrow> laterPrimary r v))"
    using Cons.prems by (auto simp: sole intro: latestIn_later split: sum.split)
  show ?case
    using Cons.IH [OF one] by (simp add: split Un_assoc)
qed

text \<open>
  \<^verbatim>\<open>GetLastKnownVRGPrimaryFromS3\<close> returns a primary with the latest update time among the primaries the
  readable object stores hold, and nothing only when they hold none; unreadable stores are skipped.
\<close>

theorem last_known_primary_is_latest:
  "latestIn (storedPrimaries e profiles name ns) (GetLastKnownVRGPrimaryFromS3 e profiles name ns None)"
  using latestIn_S3 [of "{}" None] by (simp add: latestIn_def)

end
