(* ===== verification/Ramen_Checks.thy ===== *)
theory Ramen_Checks
  imports Ramen_Status
begin

text \<open>
  The guards of the DR actions: failover targets and prerequisites (fencing for Metro DR, storage
  maintenance modes for Regional DR), readiness of the current primary, the lag of the group sync
  and the consensus of DRPCs that share a global replication group
  (\<^verbatim>\<open>drplacementcontrol.go\<close>, \<^verbatim>\<open>drplacementcontrol_global.go\<close>). Guards that only read the
  reconcile's state are predicates on \<open>hub\<close>; those that also report are in the monad.
\<close>

section \<open>Readiness of a VRG\<close>

definition isVRGConditionMet :: "hub \<Rightarrow> string \<Rightarrow> string \<Rightarrow> bool" where
  "isVRGConditionMet s cluster conditionType =
     (case vrgOf s cluster of
        None \<Rightarrow> False
      | Some v \<Rightarrow>
          (case FindCondition (vConditions (vStatus v)) conditionType of
             None \<Rightarrow> False
           | Some c \<Rightarrow> cStatus c = ConditionTrue \<and> cObservedGeneration c = vGeneration v))"

definition checkReadiness :: "hub \<Rightarrow> string \<Rightarrow> bool" where
  "checkReadiness s homeCluster =
     (case vrgOf s homeCluster of
        None \<Rightarrow> False
      | Some v \<Rightarrow> isVRGConditionMet s homeCluster ''DataReady''
                  \<and> isVRGConditionMet s homeCluster ''ClusterDataReady''
                  \<and> vState (vStatus v) = PrimaryState)"

definition vrgExistsAndPrimary :: "hub \<Rightarrow> string \<Rightarrow> bool" where
  "vrgExistsAndPrimary s targetCluster =
     (case vrgOf s targetCluster of None \<Rightarrow> False | Some v \<Rightarrow> isVRGPrimary v \<and> \<not> vDeleted v)"

definition areMultipleVRGsPrimary :: "hub \<Rightarrow> bool" where
  "areMultipleVRGsPrimary s \<longleftrightarrow>
     length (filter (\<lambda>(c, v). isVRGPrimary v \<and> \<not> vDryRun (vSpec v)) (vrgs s)) > 1"

definition validatePeerReady :: "hub \<Rightarrow> bool" where
  "validatePeerReady s =
     (case FindCondition (sConditions (status s)) ''PeerReady'' of
        None \<Rightarrow> True
      | Some c \<Rightarrow> cStatus c = ConditionTrue)"

definition selectCurrentPrimaryAndSecondaries :: "hub \<Rightarrow> string \<times> string list" where
  "selectCurrentPrimaryAndSecondaries s =
     ((case find (\<lambda>(c, v). isVRGPrimary v \<and> c \<noteq> []) (vrgs s) of None \<Rightarrow> [] | Some (c, v) \<Rightarrow> c),
      map fst (filter (\<lambda>(c, v). isVRGSecondary v) (vrgs s)))"

definition validateAndSelectCurrentPrimary :: "hub \<Rightarrow> string \<Rightarrow> gerr + string" where
  "validateAndSelectCurrentPrimary s preferredCluster =
     (if preferredCluster = [] then Inl (newE ''preferred cluster not valid'')
      else if vrgs s = [] then Inl (newE ''no VRGs exists. Can't relocate'')
      else if areMultipleVRGsPrimary s then Inl (newE ''multiple primaries in transition detected'')
      else Inr (fst (selectCurrentPrimaryAndSecondaries s)))"

section \<open>Fencing\<close>

fun checkClusterFenced :: "string \<Rightarrow> drcluster list \<Rightarrow> gerr + bool" where
  "checkClusterFenced cluster [] =
     Inl (newE (''failed to get the fencing status for the cluster '' @ cluster))"
| "checkClusterFenced cluster (dc # dcs) =
     (if dcName dc \<noteq> cluster then checkClusterFenced cluster dcs
      else case FindCondition (dcConditions dc) ''Fenced'' of
             None \<Rightarrow> Inr False
           | Some c \<Rightarrow> Inr (cStatus c = ConditionTrue \<and> cObservedGeneration c = dcGeneration dc))"

definition readyToSwitchOver :: "hub \<Rightarrow> string \<Rightarrow> string \<Rightarrow> bool" where
  "readyToSwitchOver s homeCluster preferredCluster =
     (if drType s = DRTypeSync \<and> checkClusterFenced preferredCluster (drClusters s) \<noteq> Inr False
      then False
      else isVRGConditionMet s homeCluster ''DataReady''
           \<and> isVRGConditionMet s homeCluster ''ClusterDataProtected'')"

section \<open>Failover target\<close>

fun vrg_state_str :: "vrg_state \<Rightarrow> string" where
  "vrg_state_str StateUnset = []"
| "vrg_state_str PrimaryState = ''Primary''"
| "vrg_state_str SecondaryState = ''Secondary''"
| "vrg_state_str UnknownState = ''Unknown''"

text \<open>\<^verbatim>\<open>isValidFailoverTarget\<close> returns true exactly with a nil error, so the result is the error, if any.\<close>

definition isValidFailoverTarget :: "hub \<Rightarrow> string \<Rightarrow> gerr + unit" where
  "isValidFailoverTarget s cluster =
     (case mcvVRG (environ s) (vrgNamespace s) cluster of
        Inl e \<Rightarrow> Inl (wrapE (''failed to get VRG from managed cluster '' @ cluster @ '': '') e [])
      | Inr v \<Rightarrow>
          if isVRGPrimary v then Inr ()
          else if vState (vStatus v) \<noteq> SecondaryState
                  \<or> vStatusObservedGeneration (vStatus v) \<noteq> vGeneration v
          then Inl (newE (''VRG on '' @ cluster
                 @ '' has not transitioned to secondary yet. Spec-State/Status-State ''
                 @ replication_state_str (vReplicationState (vSpec v)) @ ''/'' @ vrg_state_str (vState (vStatus v))))
          else Inr ())"

definition getCurrentHomeClusterName :: "string \<Rightarrow> string hubm" where
  "getCurrentHomeClusterName toCluster =
     bindM getClusterDecision
       (\<lambda>cd. if cdClusterName cd \<noteq> [] then ret (cdClusterName cd) else
          getsM (\<lambda>s.
            if pdClusterName (sPreferredDecision (status s)) \<noteq> []
            then pdClusterName (sPreferredDecision (status s))
            else case find (\<lambda>dc. dcName dc \<noteq> toCluster) (drClusters s) of
                   None \<Rightarrow> [] | Some dc \<Rightarrow> dcName dc))"

section \<open>Regional prerequisites\<close>

definition getLastKnownPrimaryVRG :: "(string \<times> vrg) list \<Rightarrow> string \<Rightarrow> vrg option" where
  "getLastKnownPrimaryVRG vs targetCluster =
     map_option snd (find (\<lambda>(c, v). c \<noteq> targetCluster \<and> isVRGPrimary v) vs)"

definition activationKey :: "storage_identifiers \<Rightarrow> string" where
  "activationKey si = siStorageProvisioner si @ idID (siReplicationID si)"

definition needsFailoverMMode :: "protected_pvc \<Rightarrow> bool" where
  "needsFailoverMMode p \<longleftrightarrow> ''Failover'' \<in> set (idModes (siReplicationID (pvcStorageIdentifiers p)))"

text \<open>The map of activations, as the list of its entries; a key keeps the first value.\<close>

definition addActivation ::
  "(string \<times> storage_identifiers) list \<Rightarrow> protected_pvc \<Rightarrow> (string \<times> storage_identifiers) list" where
  "addActivation acts p =
     (if \<not> needsFailoverMMode p then acts
      else let si = pvcStorageIdentifiers p
           in if map_of acts (activationKey si) = None then acts @ [(activationKey si, si)] else acts)"

definition requiresRegionalFailoverPrerequisites ::
  "env \<Rightarrow> string list \<Rightarrow> string \<Rightarrow> string \<Rightarrow> (string \<times> vrg) list \<Rightarrow> string
     \<Rightarrow> bool \<times> (string \<times> storage_identifiers) list" where
  "requiresRegionalFailoverPrerequisites e s3ProfileNames drpcName ns vs failoverCluster =
     (let found = (case getLastKnownPrimaryVRG vs failoverCluster of
                     Some v \<Rightarrow> Some v
                   | None \<Rightarrow> GetLastKnownVRGPrimaryFromS3 e s3ProfileNames drpcName ns None)
      in case found of
           None \<Rightarrow> (False, [])
         | Some v \<Rightarrow> (let acts = foldl addActivation [] (vProtectedPVCs (vStatus v))
                      in (acts \<noteq> [], acts)))"

fun firstOfType :: "conditions \<Rightarrow> string \<Rightarrow> bool" where
  "firstOfType [] t = False"
| "firstOfType (c # cs) t = (if cType c \<noteq> t then firstOfType cs t else cStatus c = ConditionTrue)"

fun checkActivationForStorageIdentifier ::
  "cluster_mmode list \<Rightarrow> storage_identifiers \<Rightarrow> string \<Rightarrow> bool" where
  "checkActivationForStorageIdentifier [] si activation = False"
| "checkActivationForStorageIdentifier (m # ms) si activation =
     (if cmStorageProvisioner m \<noteq> siStorageProvisioner si \<or> cmTargetID m \<noteq> idID (siReplicationID si)
      then checkActivationForStorageIdentifier ms si activation
      else firstOfType (cmConditions m) activation)"

definition checkFailoverMaintenanceActivations ::
  "drcluster \<Rightarrow> (string \<times> storage_identifiers) list \<Rightarrow> bool" where
  "checkFailoverMaintenanceActivations dc acts =
     list_all (\<lambda>(k, si). checkActivationForStorageIdentifier (dcMaintenanceModes dc) si ''FailoverActivated'') acts"

definition regionalPrerequisitesMet :: "hub \<Rightarrow> bool" where
  "regionalPrerequisitesMet s =
     (case find (\<lambda>dc. dcName dc = dFailoverCluster (spec s)) (drClusters s) of
        None \<Rightarrow> True
      | Some dc \<Rightarrow>
          (case requiresRegionalFailoverPrerequisites (environ s) [dcS3ProfileName dc] (dName (inst s))
                  (vrgNamespace s) (vrgs s) (dFailoverCluster (spec s)) of
             (required, acts) \<Rightarrow> if required then checkFailoverMaintenanceActivations dc acts else True))"

definition checkRegionalFailoverPrerequisites :: "bool hubm" where
  "checkRegionalFailoverPrerequisites =
     seqM (setProgression ProgressionWaitForStorageMaintenanceActivation)
       (getsM regionalPrerequisitesMet)"

section \<open>Metro prerequisites\<close>

definition checkMetroFailoverPrerequisites :: "string \<Rightarrow> bool hubm" where
  "checkMetroFailoverPrerequisites curHomeCluster =
     seqM (setProgression ProgressionWaitForFencing)
       (bindM (getsM (\<lambda>s. checkClusterFenced curHomeCluster (drClusters s)))
          (\<lambda>r. case r of
             Inl e \<Rightarrow> failM e
           | Inr fenced \<Rightarrow>
               if \<not> fenced then failM (newE (''current home cluster '' @ curHomeCluster @ '' is not fenced''))
               else ret True))"

definition checkFailoverPrerequisites :: "string \<Rightarrow> bool hubm" where
  "checkFailoverPrerequisites curHomeCluster =
     bindM (getsM drType)
       (\<lambda>t. bindM (attemptM (if t = DRTypeSync then checkMetroFailoverPrerequisites curHomeCluster
                             else checkRegionalFailoverPrerequisites))
          (\<lambda>r. case r of
             Inr True \<Rightarrow> ret True
           | Inr False \<Rightarrow>
               seqM (setAvailable ''Waiting for spec.failoverCluster to meet failover prerequisites'') (ret False)
           | Inl e \<Rightarrow> seqM (setAvailable (Error e)) (failM e)))"

section \<open>Dry-run readiness\<close>

definition setAvailableFalse :: "string \<Rightarrow> unit hubm" where
  "setAvailableFalse msg =
     bindM (getsM (\<lambda>s. sPhase (status s)))
       (\<lambda>p. setCond ''Available'' ConditionFalse (dr_state_str p) msg)"

definition isProtected :: "bool hubm" where
  "isProtected =
     bindM (getsM (\<lambda>s. list_ex (\<lambda>c. cType c = ''Protected'' \<and> cStatus c = ConditionTrue)
                         (sConditions (status s))))
       (\<lambda>ok. if ok then ret True
             else seqM (setAvailableFalse ''cannot start failover because workload is not protected'') (ret False))"

text \<open>
  \<^verbatim>\<open>time.Since\<close> saturates at the bounds of a 64-bit nanosecond count; the bound
  \<^verbatim>\<open>3*time.Duration(intervalSecs)*time.Second\<close> is a product of signed 64-bit integers, which wraps.
\<close>

definition maxDuration :: int where
  "maxDuration = 2 ^ 63 - 1"

definition sinceNanos :: "int \<Rightarrow> int \<Rightarrow> int" where
  "sinceNanos t t0 = max (- (2 ^ 63)) (min maxDuration ((t - t0) * 10 ^ 9))"

definition lagBound :: "nat \<Rightarrow> int" where
  "lagBound intervalSecs = sint (3 * (of_nat intervalSecs :: 64 word) * 10 ^ 9)"

definition groupSyncLags :: "hub \<Rightarrow> bool" where
  "groupSyncLags s =
     (case sLastGroupSyncTime (status s) of
        None \<Rightarrow> False
      | Some t \<Rightarrow>
          (case GetSecondsFromSchedulingInterval (drPolicy s) of
             Inl _ \<Rightarrow> False
           | Inr n \<Rightarrow> \<not> sinceNanos (clock s) t \<le> lagBound n))"

definition isGroupSyncLagging :: "bool hubm" where
  "isGroupSyncLagging =
     bindM (getsM groupSyncLags)
       (\<lambda>lag. if \<not> lag then ret False
              else seqM (setAvailableFalse
                (''cannot start dry-run failover: lastGroupSyncTime is lagging behind,''
                 @ '' check workload and cluster replication state'')) (ret True))"

definition dryRunReadyToFailover :: "bool hubm" where
  "dryRunReadyToFailover =
     bindM isProtected (\<lambda>p. if \<not> p then ret False else bindM isGroupSyncLagging (\<lambda>l. ret (\<not> l)))"

section \<open>Consensus on a global action\<close>

definition actionTarget :: "dr_action \<Rightarrow> drpc_spec \<Rightarrow> string" where
  "actionTarget a sp = (if a = ActionRelocate then dPreferredCluster sp else dFailoverCluster sp)"

definition disagrees :: "dr_action \<Rightarrow> string \<Rightarrow> drpc \<Rightarrow> bool" where
  "disagrees action targetCluster d \<longleftrightarrow>
     dAction (dSpec d) \<noteq> action
     \<or> action = ActionFailover \<and> dFailoverCluster (dSpec d) \<noteq> targetCluster
     \<or> action = ActionRelocate \<and> dPreferredCluster (dSpec d) \<noteq> targetCluster"

definition pendingDRPCs :: "hub \<Rightarrow> drpc list" where
  "pendingDRPCs s =
     filter (\<lambda>d. \<not> (dName d = dName (inst s) \<and> dNamespace d = dNamespace (inst s))
                 \<and> disagrees (dAction (spec s)) (actionTarget (dAction (spec s)) (spec s)) d)
       (filter (\<lambda>d. map_of (dLabels d) GlobalVGRLabel = Some (globalVGRLabel s)) (hubDRPCs (environ s)))"

definition setGlobalActionCondition :: "bool \<Rightarrow> string \<Rightarrow> unit hubm" where
  "setGlobalActionCondition met message =
     setCond ''GlobalAction'' (if met then ConditionTrue else ConditionFalse)
       (if met then ''ConsensusReached'' else ''ConsensusNotReached'') message"

definition isGlobalActionInConsensus :: "bool hubm" where
  "isGlobalActionInConsensus =
     bindM (getsM (\<lambda>s. dAction (spec s)))
       (\<lambda>action. if action \<noteq> ActionFailover \<and> action \<noteq> ActionRelocate then ret False else
          bindM (attemptM apiCall)
            (\<lambda>r. case r of
               Inl _ \<Rightarrow> ret False
             | Inr _ \<Rightarrow>
                 bindM (getsM (\<lambda>s. (pendingDRPCs s, actionTarget action (spec s))))
                   (\<lambda>(pending, target).
                      if pending \<noteq> []
                      then seqM (setGlobalActionCondition False
                                   (''Pending: ''
                                    @ joinStr '', '' (map (\<lambda>d. dNamespace d @ ''/'' @ dName d) pending)
                                    @ ''; expected action '' @ dr_action_str action @ '' to '' @ target))
                             (seqM (setProgression ProgressionWaitOnGlobalAction) (ret False))
                      else seqM (setGlobalActionCondition True
                                   (''Consensus reached for action '' @ dr_action_str action))
                             (ret True))))"

section \<open>ManifestWorks of the VRG\<close>

definition getVRGFromManifestWork :: "string \<Rightarrow> vrg hubm" where
  "getVRGFromManifestWork clusterName =
     bindM (FindManifestWorkByType ''vrg'' clusterName) (\<lambda>mw. liftE (ExtractVRGFromManifestWork mw))"

definition mwExistsAndPlacementUpdated :: "string \<Rightarrow> bool hubm" where
  "mwExistsAndPlacementUpdated targetCluster =
     bindM (attemptM (FindManifestWorkByType ''vrg'' targetCluster))
       (\<lambda>r. case r of
          Inl e \<Rightarrow> if IsNotFound e then ret False else failM e
        | Inr _ \<Rightarrow> bindM getClusterDecision
            (\<lambda>cd. ret (cdClusterName cd \<noteq> [] \<and> cdClusterName cd = targetCluster)))"

section \<open>The lag bound\<close>

text \<open>For intervals up to some 97 years the product does not wrap.\<close>

lemma lagBound_exact:
  assumes "n \<le> 3074457345"
  shows "lagBound n = 3 * int n * 10 ^ 9"
proof -
  have "3 * (of_nat n :: 64 word) * 10 ^ 9 = word_of_int (3 * int n * 10 ^ 9)" by simp
  then have "lagBound n = signed_take_bit 63 (3 * int n * 10 ^ 9)"
    unfolding lagBound_def by (simp only: sint_sbintrunc') simp
  also have "\<dots> = 3 * int n * 10 ^ 9"
    using assms by (intro signed_take_bit_int_eq_self) auto
  finally show ?thesis .
qed

end
