(* ===== verification/Ramen_Works.thy ===== *)
theory Ramen_Works
  imports Ramen_Checks
begin

text \<open>
  The ManifestWorks of a DRPC: the namespace, the recipe and the VRG shipped to each cluster, the
  updates of a VRG already shipped and the placement that goes with them
  (\<^verbatim>\<open>drplacementcontrol.go\<close>). A nil dereference, which panics in Go, is an error of kind \<open>GoPanic\<close>.
\<close>

definition DRPCNameAnnotation :: string where
  "DRPCNameAnnotation = ''drplacementcontrol.ramendr.openshift.io/drpc-name''"

definition DRPCNamespaceAnnotation :: string where
  "DRPCNamespaceAnnotation = ''drplacementcontrol.ramendr.openshift.io/drpc-namespace''"

definition OCMBackupLabelKey :: string where
  "OCMBackupLabelKey = ''cluster.open-cluster-management.io/backup''"

definition drpcAnnotations :: "hub \<Rightarrow> strmap" where
  "drpcAnnotations s =
     sm_of_list [(DRPCNameAnnotation, dName (inst s)), (DRPCNamespaceAnnotation, dNamespace (inst s))]"

section \<open>Namespaces\<close>

definition filterSCCAnnotations :: "hub \<Rightarrow> strmap \<Rightarrow> gerr + strmap" where
  "filterSCCAnnotations s annotations =
     (let ramenConfigRetain = (case ramenConfig s of
                                 None \<Rightarrow> False | Some c \<Rightarrow> cfgRetainNamespaceSCCAcrossPeers c);
          drpcRetain = dRetainNamespaceSCCAcrossPeers (spec s)
      in if ramenConfigRetain \<and> drpcRetain then Inr annotations
         else if drpcRetain \<and> \<not> ramenConfigRetain
         then Inl (newE (''retainNamespaceSCCAcrossPeers is enabled in the DRPC,''
                         @ ''but the flag is disabled in the RamenConfig''))
         else Inr (filter (\<lambda>(k, v). \<not> strContains k ''sa.scc'') annotations))"

text \<open>
  \<^verbatim>\<open>newManifestWork\<close> adds its label to the map it is given, which is the namespace's own label map
  unless that is nil: from the second destination on the namespace itself carries the label.
\<close>

fun createNSOnPeers ::
  "string \<Rightarrow> string \<Rightarrow> strmap \<Rightarrow> strmap \<Rightarrow> string list \<Rightarrow> unit hubm" where
  "createNSOnPeers homeCluster nsname annotations labels [] = ret ()"
| "createNSOnPeers homeCluster nsname annotations labels (dst # dsts) =
     (if homeCluster = dst then createNSOnPeers homeCluster nsname annotations labels dsts
      else bindM (getsM (\<lambda>s. dName (inst s)))
             (\<lambda>name. seqM (CreateOrUpdateNamespaceManifestWork name nsname dst annotations labels)
                (createNSOnPeers homeCluster nsname annotations
                   (if labels = [] then [] else sm_put CreatedByRamenLabel ''true'' labels) dsts)))"

fun getNamespaces :: "hub \<Rightarrow> string \<Rightarrow> string list \<Rightarrow> gerr + ns_object list" where
  "getNamespaces s homeCluster [] = Inr []"
| "getNamespaces s homeCluster (n # ns) =
     (case mcvNS (environ s) homeCluster n of
        Inl e \<Rightarrow> Inl e
      | Inr obj \<Rightarrow> (case getNamespaces s homeCluster ns of Inl e \<Rightarrow> Inl e | Inr objs \<Rightarrow> Inr (obj # objs)))"

definition createOrUpdateNSForDiscoveredApps :: "string \<Rightarrow> unit hubm" where
  "createOrUpdateNSForDiscoveredApps homeCluster =
     bindM (getsM (\<lambda>s. getNamespaces s homeCluster
                         (case dProtectedNamespaces (spec s) of None \<Rightarrow> [] | Some ns \<Rightarrow> ns)))
       (\<lambda>r. bindM (liftE r)
          (\<lambda>objs. forM objs (\<lambda>obj.
             bindM (getsM (\<lambda>s. (filterSCCAnnotations s (nsAnnotations obj), DRPolicyClusterNames (drPolicy s))))
               (\<lambda>(f, names). bindM (liftE f)
                  (\<lambda>annotations.
                     createNSOnPeers homeCluster (nsName obj) annotations (nsLabels obj) names)))))"

definition createOrUpdateNSForNonDiscoveredApps :: "string \<Rightarrow> unit hubm" where
  "createOrUpdateNSForNonDiscoveredApps homeCluster =
     bindM (getsM (\<lambda>s. (dName (inst s), vrgNamespace s, drpcAnnotations s)))
       (\<lambda>(name, ns, annotations).
          catchM (CreateOrUpdateNamespaceManifestWork name ns homeCluster annotations [])
            (\<lambda>e. failM (wrapE (''failed to create namespace '' @ ns @ '' on cluster '' @ homeCluster @ '': '') e [])))"

definition createOrUpdateNamespaces :: "string \<Rightarrow> unit hubm" where
  "createOrUpdateNamespaces homeCluster =
     bindM (getsM (\<lambda>s. isDiscoveredApp (inst s)))
       (\<lambda>b. if \<not> b then createOrUpdateNSForNonDiscoveredApps homeCluster
            else createOrUpdateNSForDiscoveredApps homeCluster)"

definition ensureNamespaceManifestWork :: "string \<Rightarrow> unit hubm" where
  "ensureNamespaceManifestWork homeCluster =
     bindM (attemptM (FindManifestWorkByType ''ns'' homeCluster))
       (\<lambda>r. case r of
          Inl e \<Rightarrow> if \<not> IsNotFound e then failM (wrapE ''failed to get NS MW ('' e '')'')
                   else createOrUpdateNamespaces homeCluster
        | Inr mw \<Rightarrow>
            if sm_has (mwLabels mw) OCMBackupLabelKey
            then bindM (getsM (\<lambda>s. BuildManifestWorkName s ''ns''))
                   (\<lambda>n. updateMW n homeCluster (mw\<lparr>mwLabels := sm_delete OCMBackupLabelKey (mwLabels mw)\<rparr>))
            else ret ())"

section \<open>Recipes\<close>

definition mapsEqual :: "strmap \<Rightarrow> strmap \<Rightarrow> bool" where
  "mapsEqual a b \<longleftrightarrow> (if a = [] \<and> b = [] then True else a = b)"

definition zeroRecipe :: recipe where
  "zeroRecipe = \<lparr>rcpName = [], rcpNamespace = [], rcpLabels = [], rcpAnnotations = [],
     rcpFinalizers = [], rcpSpec = []\<rparr>"

fun recipeOf :: "manifest list \<Rightarrow> recipe" where
  "recipeOf [] = zeroRecipe"
| "recipeOf (RecipeManifest r # ms) = r"
| "recipeOf (m # ms) = recipeOf ms"

definition recipeNeedsUpdate :: "manifest_work \<Rightarrow> recipe \<Rightarrow> bool" where
  "recipeNeedsUpdate mw source =
     (if mwManifests mw = [] then True
      else let existing = recipeOf (mwManifests mw)
           in rcpSpec existing \<noteq> rcpSpec source
              \<or> \<not> mapsEqual (rcpLabels existing) (rcpLabels source)
              \<or> \<not> mapsEqual (rcpAnnotations existing) (rcpAnnotations source))"

definition shipRecipe :: "recipe_ref \<Rightarrow> string \<Rightarrow> string \<Rightarrow> unit hubm" where
  "shipRecipe rf srcCluster dstCluster =
     bindM (getsM (\<lambda>s. mcvRecipe (environ s) srcCluster (rfName rf) (rfNamespace rf)))
       (\<lambda>r. case r of
          Inl e \<Rightarrow> failM (wrapE (''failed to get recipe '' @ rfNamespace rf @ ''/'' @ rfName rf
                             @ '' in cluster '' @ srcCluster @ '': '') e [])
        | Inr recipe \<Rightarrow>
            bindM (attemptM (FindManifestWorkByType ''recipe'' dstCluster))
              (\<lambda>m. case m of
                 Inl e \<Rightarrow>
                   if \<not> IsNotFound e
                   then failM (wrapE (''failed to get recipe MW in cluster '' @ dstCluster @ '': '') e [])
                   else CreateOrUpdateRecipeManifestWork recipe dstCluster
               | Inr mw \<Rightarrow> whenM (recipeNeedsUpdate mw recipe)
                             (CreateOrUpdateRecipeManifestWork recipe dstCluster)))"

text \<open>The third test reads \<^verbatim>\<open>*d.ramenConfig\<close>, which is only dereferenced for the VM recipe's name.\<close>

definition ensureRecipeManifestWork :: "string \<Rightarrow> string \<Rightarrow> unit hubm" where
  "ensureRecipeManifestWork srcCluster dstCluster =
     bindM (getsM (\<lambda>s. (dKubeObjectProtection (spec s), ramenConfig s)))
       (\<lambda>(kop, conf). case kop of
          None \<Rightarrow> ret ()
        | Some k \<Rightarrow>
            (case kopRecipeRef k of
               None \<Rightarrow> ret ()
             | Some rf \<Rightarrow>
                 if rfName rf = ''vm-recipe''
                 then (case conf of
                         None \<Rightarrow> failM nilDereference
                       | Some c \<Rightarrow> if rfNamespace rf = cfgRamenOpsNamespace c then ret ()
                                   else shipRecipe rf srcCluster dstCluster)
                 else shipRecipe rf srcCluster dstCluster))"

section \<open>The VRG of a cluster\<close>

definition createVRGManifestWork :: "string \<Rightarrow> replication_state \<Rightarrow> unit hubm" where
  "createVRGManifestWork homeCluster repState =
     seqM (bindM (getsM vrgNamespace)
        (\<lambda>ns. catchM (ensureNamespaceManifestWork homeCluster)
           (\<lambda>_. failM (newE (''createVRGManifestWork couldn't ensure namespace '' @ ns
                             @ '' on cluster '' @ homeCluster @ '' exists'')))))
       (bindM (attemptM (getVRGFromManifestWork homeCluster))
         (\<lambda>r. case r of
            Inr v \<Rightarrow>
              if vReplicationState (vSpec v) \<noteq> repState
              then failM (newE (''ManifestWork for VolumeReplicationGroup resource exists with mismatching state ('' @ replication_state_str (vReplicationState (vSpec v)) @ '') on cluster '' @ homeCluster))
              else failM (Gerr AlreadyExists (''VolumeReplicationGroup ManifestWork for cluster '' @ homeCluster
                     @ '' in state '' @ replication_state_str (vReplicationState (vSpec v)) @ '' exists''))
          | Inl e \<Rightarrow>
              if \<not> IsNotFound e
              then failM (wrapE ''error ('' e ('') determining ManifestWork for VolumeReplicationGroup resource exists on cluster '' @ homeCluster))
              else bindM (getsM (\<lambda>s. (dName (inst s), vrgNamespace s, newVRG s homeCluster repState None, drpcAnnotations s)))
                (\<lambda>(name, ns, v, annotations).
                   catchM (bindM (CreateOrUpdateVRGManifestWork name ns homeCluster v annotations) (\<lambda>_. ret ()))
                     (\<lambda>e. failM (wrapE (''failed to create or update VolumeReplicationGroup manifest in namespace '' @ homeCluster @ '' ('') e '')'')))))"

definition ensureVRGManifestWork :: "string \<Rightarrow> unit hubm" where
  "ensureVRGManifestWork homeCluster =
     bindM (attemptM (FindManifestWorkByType ''vrg'' homeCluster))
       (\<lambda>r. case r of
          Inl e \<Rightarrow>
            if IsNotFound e
            then failM (newE (''failed to find ManifestWork for VolumeReplicationGroup from cluster '' @ homeCluster))
            else failM (wrapE ''error ('' e ('') in finding ManifestWork for VolumeReplicationGroup from cluster '' @ homeCluster))
        | Inr mw \<Rightarrow>
            (case ExtractVRGFromManifestWork mw of
               Inl e \<Rightarrow> failM (wrapE (''error extracting VRG from ManifestWork for cluster '' @ homeCluster @ ''. Error: '') e [])
             | Inr v \<Rightarrow>
                 if vReplicationState (vSpec v) \<noteq> Primary
                 then failM (newE (''invalid update for VolumeReplicationGroup in '' @ replication_state_str (vReplicationState (vSpec v)) @ '' spec.replicationState on cluster '' @ homeCluster))
                 else bindM (getsM (\<lambda>s. (vrgOf s homeCluster,
                                        updateVRGOptionalFields s v (vrgOf s homeCluster) homeCluster)))
                   (\<lambda>(view, v').
                      if view = None
                      then failM (newE (''missing VolumeReplicationGroup view for cluster '' @ homeCluster
                             @ '', while attempting to update an instance''))
                      else UpdateVRGManifestWork v' mw homeCluster)))"

text \<open>\<^verbatim>\<open>updateManifestWork\<close>: the errors of \<^verbatim>\<open>Update\<close> are returned unwrapped.\<close>

definition updateManifestWork :: "string \<Rightarrow> vrg \<Rightarrow> unit hubm" where
  "updateManifestWork clusterName v =
     bindM (FindManifestWorkByType ''vrg'' clusterName)
       (\<lambda>mw. bindM (getsM (\<lambda>s. BuildManifestWorkName s ''vrg''))
          (\<lambda>n. updateMW n clusterName (mw\<lparr>mwManifests := (mwManifests mw)[0 := VRGManifest v]\<rparr>)))"

definition updateVRGToPrepareForFinalSync :: "string \<Rightarrow> unit hubm" where
  "updateVRGToPrepareForFinalSync clusterName =
     bindM (catchM (getVRGFromManifestWork clusterName)
              (\<lambda>e. failM (wrapE (''failed to update VRG state. ClusterName '' @ clusterName @ '' ('') e '')'')))
       (\<lambda>v. if vPrepareForFinalSync (vSpec v) then ret ()
            else bindM (getsM (\<lambda>s. updateVRGOptionalFields s
                     (v\<lparr>vSpec := (vSpec v)\<lparr>vPrepareForFinalSync := True, vRunFinalSync := False\<rparr>\<rparr>)
                     (vrgOf s clusterName) clusterName))
                   (updateManifestWork clusterName))"

definition updateVRGToRunFinalSync :: "string \<Rightarrow> unit hubm" where
  "updateVRGToRunFinalSync clusterName =
     bindM (catchM (getVRGFromManifestWork clusterName)
              (\<lambda>e. failM (wrapE (''failed to update VRG state. ClusterName '' @ clusterName @ '' ('') e '')'')))
       (\<lambda>v. if vRunFinalSync (vSpec v) then ret ()
            else bindM (getsM (\<lambda>s. updateVRGOptionalFields s
                     (v\<lparr>vSpec := (vSpec v)\<lparr>vRunFinalSync := True, vPrepareForFinalSync := False\<rparr>\<rparr>)
                     (vrgOf s clusterName) clusterName))
                   (updateManifestWork clusterName))"

definition isFailoverPromotion :: "hub \<Rightarrow> string \<Rightarrow> bool" where
  "isFailoverPromotion s clusterName \<longleftrightarrow>
     clusterName = dFailoverCluster (spec s) \<and> dAction (spec s) = ActionFailover \<and> \<not> dDryRun (spec s)"

definition withReplicationState :: "hub \<Rightarrow> string \<Rightarrow> replication_state \<Rightarrow> vrg \<Rightarrow> vrg" where
  "withReplicationState s clusterName state v =
     (let v1 = setVRGAction s (v\<lparr>vSpec := (vSpec v)\<lparr>vReplicationState := state\<rparr>\<rparr>);
          v2 = updateVRGOptionalFields s v1 (vrgOf s clusterName) clusterName
      in if state = Secondary \<or> isFailoverPromotion s clusterName
         then v2\<lparr>vSpec := (vSpec v2)\<lparr>vPrepareForFinalSync := False, vRunFinalSync := False\<rparr>\<rparr>
         else v2)"

definition updateVRGState :: "string \<Rightarrow> replication_state \<Rightarrow> bool hubm" where
  "updateVRGState clusterName state =
     bindM (catchM (getVRGFromManifestWork clusterName)
              (\<lambda>e. failM (wrapE (''failed to update VRG state. ClusterName '' @ clusterName @ '' ('') e '')'')))
       (\<lambda>v. if vReplicationState (vSpec v) = state then ret False
            else bindM (getsM (\<lambda>s. withReplicationState s clusterName state v))
                   (\<lambda>v'. seqM (updateManifestWork clusterName v') (ret True)))"

definition createVRGManifestWorkAsPrimary :: "string \<Rightarrow> bool hubm" where
  "createVRGManifestWorkAsPrimary targetCluster =
     bindM (attemptM (getVRGFromManifestWork targetCluster))
       (\<lambda>r. case r of
          Inl e \<Rightarrow> if \<not> IsNotFound e then failM e
                   else seqM (createVRGManifestWork targetCluster Primary) (ret True)
        | Inr v \<Rightarrow> if vReplicationState (vSpec v) = Primary then ret False
                   else bindM (updateVRGState targetCluster Primary) (\<lambda>_. ret True))"

text \<open>A cluster without a ManifestWork counts as moved, any other error as a failure.\<close>

fun moveVRGsToSecondary :: "string list \<Rightarrow> nat \<Rightarrow> nat hubm" where
  "moveVRGsToSecondary [] failedCount = ret failedCount"
| "moveVRGsToSecondary (c # cs) failedCount =
     bindM (attemptM (updateVRGState c Secondary))
       (\<lambda>r. moveVRGsToSecondary cs
          (case r of Inl e \<Rightarrow> if IsNotFound e then failedCount else failedCount + 1 | Inr _ \<Rightarrow> failedCount))"

definition moveVRGToSecondaryEverywhere :: "bool hubm" where
  "moveVRGToSecondaryEverywhere =
     bindM (getsM (\<lambda>s. DRPolicyClusterNames (drPolicy s)))
       (\<lambda>names. bindM (moveVRGsToSecondary names 0) (\<lambda>n. ret (n = 0)))"

section \<open>Placement\<close>

definition updateUserPlacementRule :: "string \<Rightarrow> string \<Rightarrow> unit hubm" where
  "updateUserPlacementRule homeCluster reason =
     updateUserPlacementStatusDecision (Some \<lparr>cdClusterName = homeCluster, cdReason = reason\<rparr>)"

definition clearUserPlacementRuleStatus :: "unit hubm" where
  "clearUserPlacementRuleStatus = updateUserPlacementStatusDecision None"

text \<open>Both annotations are written in memory before the one update; \<open>added\<close> tells whether either changed.\<close>

definition annotatePlacement :: "string \<Rightarrow> drpc \<Rightarrow> bool \<times> drpc" where
  "annotatePlacement homeCluster d =
     (let (a1, d1) = AddAnnotation LastAppDeploymentCluster homeCluster d;
          (a2, d2) = (if \<not> dDryRun (dSpec d)
                      then AddAnnotation DRPCLastAction (dr_action_str (dAction (dSpec d))) d1
                      else (False, d1))
      in (a1 \<or> a2, d2))"

definition ensurePlacement :: "string \<Rightarrow> unit hubm" where
  "ensurePlacement homeCluster =
     bindM (getsM (\<lambda>s. fst (annotatePlacement homeCluster (inst s))))
       (\<lambda>added. seqM (modInst (\<lambda>d. snd (annotatePlacement homeCluster d)))
          (seqM (whenM added updateDRPC)
             (bindM getClusterDecision
                (\<lambda>cd. if cdClusterName cd = [] \<or> homeCluster \<noteq> cdClusterName cd
                      then seqM updatePreferredDecision (updateUserPlacementRule homeCluster homeCluster)
                      else ret ()))))"

definition errWaitForRestore :: gerr where
  "errWaitForRestore = Gerr WaitForAppResourceRestoreToComplete ''waiting for App resources to be restored)''"

definition switchToCluster :: "string \<Rightarrow> string \<Rightarrow> unit hubm" where
  "switchToCluster targetCluster targetClusterNamespace =
     bindM (createVRGManifestWorkAsPrimary targetCluster)
       (\<lambda>createdOrUpdated.
          if createdOrUpdated
          then seqM (setProgression ProgressionWaitingForResourceRestore) (failM errWaitForRestore)
          else bindM (getsM (\<lambda>s. checkReadiness s targetCluster))
            (\<lambda>ready. if \<not> ready
               then seqM (setProgression ProgressionWaitingForResourceRestore) (failM errWaitForRestore)
               else seqM (updateUserPlacementRule targetCluster targetClusterNamespace)
                      (setProgression ProgressionUpdatedPlacement)))"

section \<open>Static IP specs on the primary\<close>

definition ResetVMStaticIPSpecOnPrimary :: "string \<Rightarrow> unit hubm" where
  "ResetVMStaticIPSpecOnPrimary clusterName =
     bindM (getsM (\<lambda>s. IsVMRecipe (dKubeObjectProtection (spec s))))
       (\<lambda>vm. if \<not> vm then ret () else
          bindM (attemptM (FindManifestWorkByType ''vrg'' clusterName))
            (\<lambda>r. case r of
               Inl e \<Rightarrow>
                 if IsNotFound e then ret ()
                 else failM (wrapE (''failed to lookup VRG ManifestWork for cluster '' @ clusterName @ '' ('') e '')'')
             | Inr mw \<Rightarrow>
                 bindM (liftE (ExtractVRGFromManifestWork mw))
                   (\<lambda>v. bindM (getsM (\<lambda>s. rmProtectedStaticIPVMs (rcResourceMeta (sResourceConditions (status s)))))
                      (\<lambda>vms.
                         if vms = []
                         then (case setStaticIPTranslationSpec v None of
                                 (changed, v') \<Rightarrow> whenM changed (UpdateVRGManifestWork v' mw clusterName))
                         else if vReplicationState (vSpec v) \<noteq> Primary
                         then failM (newE (''vrg '' @ vName v @ '' is not set as primary on this cluster, '' @ clusterName))
                         else whenM (vStaticIPTranslationSpec (vSpec v) \<noteq> None)
                                (UpdateVRGManifestWork
                                   (v\<lparr>vSpec := (vSpec v)\<lparr>vStaticIPTranslationSpec := None\<rparr>\<rparr>) mw clusterName)))))"

end
