(* ===== verification/Ramen_Secondary.thy ===== *)
theory Ramen_Secondary
  imports Ramen_Works
begin

text \<open>
  Setting up the replication destination on the peer cluster and VolSync on both
  (\<^verbatim>\<open>internal/controller/drplacementcontrolvolsync.go\<close>). The pre-shared key secret and its
  propagation (package \<^verbatim>\<open>volsync\<close>) are an outcome of the environment.
\<close>

definition errWaitForVolSyncMW :: gerr where
  "errWaitForVolSyncMW = Gerr WaitForVolSyncManifestWorkCreation ''waiting for secondary ManifestWork to be created''"

definition errWaitForSource :: gerr where
  "errWaitForSource = Gerr WaitForSourceCluster ''waiting for primary to provide Protected PVCs''"

section \<open>The destination VRG\<close>

definition rdSpecOf :: "protected_pvc \<Rightarrow> rd_spec" where
  "rdSpecOf p = \<lparr>rdProtectedPVC = p\<lparr>pvcLastSyncBytes := None, pvcLastSyncTime := None,
       pvcLastSyncDuration := None, pvcConditions := []\<rparr>, rdMoverConfig = None\<rparr>"

definition resetRDSpec :: "vrg \<Rightarrow> vrg \<Rightarrow> vrg" where
  "resetRDSpec srcVRG dstVRG =
     dstVRG\<lparr>vSpec := (vSpec dstVRG)\<lparr>vVolSync := (vVolSync (vSpec dstVRG))\<lparr>vsRDSpec :=
       map rdSpecOf (filter pvcProtectedByVolSync (vProtectedPVCs (vStatus srcVRG)))\<rparr>\<rparr>\<rparr>"

text \<open>
  \<^verbatim>\<open>newVRG\<close> with a nil view always sets the spec of the DR type, so only the source's spec can be
  nil at the final assignment.
\<close>

definition refreshVRGSecondarySpec :: "string \<Rightarrow> string \<Rightarrow> vrg hubm" where
  "refreshVRGSecondarySpec srcCluster dstCluster =
     seqM (setProgression ProgressionSettingupVolsyncDest)
       (bindM (getsM (\<lambda>s. vrgOf s srcCluster))
         (\<lambda>view. case view of
            None \<Rightarrow> failM (newE (''failed to find source VolSync VRG in cluster '' @ srcCluster))
          | Some srcVRGView \<Rightarrow>
              bindM (catchM (getVRGFromManifestWork srcCluster)
                       (\<lambda>_. failM (newE (''failed to find source VRG ManifestWork in cluster '' @ srcCluster))))
                (\<lambda>srcVRG. bindM (getsM (\<lambda>s. s))
                   (\<lambda>s. let dst = newVRG s dstCluster Secondary None
                        in case drType s of
                             DRTypeAsync \<Rightarrow>
                               (let dst1 = (if vProtectedPVCs (vStatus srcVRGView) \<noteq> []
                                            then let d1 = resetRDSpec srcVRGView dst
                                                 in (if dVolSyncSpec (spec s) \<noteq> None then updateMoverConfig s d1 else d1)
                                            else dst)
                                in case (vAsync (vSpec dst1), vAsync (vSpec srcVRG)) of
                                     (Some a, Some b) \<Rightarrow>
                                       ret (dst1\<lparr>vSpec := (vSpec dst1)\<lparr>vAsync := Some (a\<lparr>asPeerClasses := asPeerClasses b\<rparr>)\<rparr>\<rparr>)
                                   | _ \<Rightarrow> failM nilDereference)
                           | DRTypeSync \<Rightarrow>
                               (case (vSync (vSpec dst), vSync (vSpec srcVRG)) of
                                  (Some a, Some b) \<Rightarrow>
                                    ret (dst\<lparr>vSpec := (vSpec dst)\<lparr>vSync := Some (a\<lparr>ssPeerClasses := ssPeerClasses b\<rparr>)\<rparr>\<rparr>)
                                | _ \<Rightarrow> failM nilDereference)))))"

text \<open>The loop returns on the first cluster that is not the source.\<close>

definition createOrUpdateSecondaryManifestWork :: "string \<Rightarrow> operation_result hubm" where
  "createOrUpdateSecondaryManifestWork srcCluster =
     bindM (getsM (\<lambda>s. find (\<lambda>c. c \<noteq> srcCluster) (DRPolicyClusterNames (drPolicy s))))
       (\<lambda>dst. case dst of
          None \<Rightarrow> ret OperationResultNone
        | Some dstCluster \<Rightarrow>
            bindM (getsM (\<lambda>s. (dName (inst s), dNamespace (inst s), vrgNamespace s, drpcAnnotations s)))
              (\<lambda>(name, ns, vrgNS, annotations).
                 seqM (catchM (ensureNamespaceManifestWork dstCluster)
                         (\<lambda>_. failM (newE (''creating ManifestWork couldn't ensure namespace '' @ ns
                                @ '' on cluster '' @ dstCluster @ '' exists''))))
                   (seqM (catchM (ensureRecipeManifestWork srcCluster dstCluster)
                            (\<lambda>_. failM (newE (''creating ManifestWork couldn't ensure recipe on cluster ''
                                   @ dstCluster @ '' exists''))))
                      (bindM (refreshVRGSecondarySpec srcCluster dstCluster)
                         (\<lambda>v. catchM (CreateOrUpdateVRGManifestWork name vrgNS dstCluster v annotations)
                            (\<lambda>e. failM (wrapE (''failed to create or update VRG MW in namespace '' @ dstCluster @ '' ('') e '')'')))))))"

section \<open>VolSync\<close>

definition IsVolSyncReplicationRequired :: "hub \<Rightarrow> string \<Rightarrow> gerr + bool" where
  "IsVolSyncReplicationRequired s homeCluster =
     (if volSyncDisabled s then Inr False
      else case vrgOf s homeCluster of
             None \<Rightarrow> Inl (newE (''failed to find VRG on homeCluster '' @ homeCluster))
           | Some v \<Rightarrow>
               if vProtectedPVCs (vStatus v) = [] then Inl errWaitForSource
               else Inr (list_ex pvcProtectedByVolSync (vProtectedPVCs (vStatus v))))"

definition EnsureVolSyncReplicationSetup :: "string \<Rightarrow> unit hubm" where
  "EnsureVolSyncReplicationSetup srcCluster =
     bindM (getsM (\<lambda>s. IsVolSyncReplicationRequired s srcCluster))
       (\<lambda>r. bindM (liftE r)
          (\<lambda>needed. if \<not> needed then ret () else
             bindM (getsM (\<lambda>s. volsyncSecretErr (environ s) (dName (inst s))))
               (\<lambda>e. case e of None \<Rightarrow> ret () | Some err \<Rightarrow> failM err)))"

definition sameRSPVC :: "rs_spec \<Rightarrow> rs_spec \<Rightarrow> bool" where
  "sameRSPVC a b \<longleftrightarrow> pvcName (rsProtectedPVC a) = pvcName (rsProtectedPVC b)
                   \<and> pvcNamespace (rsProtectedPVC a) = pvcNamespace (rsProtectedPVC b)"

fun AppendOrUpdate :: "rs_spec list \<Rightarrow> rs_spec \<Rightarrow> rs_spec list" where
  "AppendOrUpdate [] rs = [rs]"
| "AppendOrUpdate (i # is) rs = (if sameRSPVC i rs then rs # is else i # AppendOrUpdate is rs)"

definition GetVolSyncPSKSecretNameFromVRGName :: "string \<Rightarrow> string" where
  "GetVolSyncPSKSecretNameFromVRGName n = n @ ''-vs-secret''"

definition rsSpecOf :: "string \<Rightarrow> rd_info \<Rightarrow> rs_spec option" where
  "rsSpecOf drpcName ri =
     map_option (\<lambda>tls. \<lparr>rsProtectedPVC = riProtectedPVC ri,
         rsRsyncTLS = Some \<lparr>rtAddress = rtAddress tls,
           rtTLSSecretRef = Some (GetVolSyncPSKSecretNameFromVRGName drpcName)\<rparr>,
         rsMoverConfig = None\<rparr>) (riRsyncTLS ri)"

fun collectRSSpecs :: "string \<Rightarrow> rs_spec list \<Rightarrow> rd_info list \<Rightarrow> rs_spec list option" where
  "collectRSSpecs n acc [] = Some acc"
| "collectRSSpecs n acc (ri # ris) =
     (case rsSpecOf n ri of None \<Rightarrow> None | Some rs \<Rightarrow> collectRSSpecs n (AppendOrUpdate acc rs) ris)"

definition updateVSRGSpec :: "string \<Rightarrow> vrg \<Rightarrow> unit hubm" where
  "updateVSRGSpec clusterName tgt =
     bindM (getsM (\<lambda>s. BuildManifestWorkName s ''vrg''))
       (\<lambda>n. bindM (attemptM (FindManifestWork n clusterName))
          (\<lambda>r. case r of
             Inl e \<Rightarrow> if IsNotFound e then ret ()
                      else failM (wrapE (''failed to update VRG '' @ n @ '', in namespace '' @ clusterName @ '' ('') e '')'')
           | Inr mw \<Rightarrow>
               (case mwManifests mw of
                  VRGManifest v # _ \<Rightarrow>
                    catchM (updateMW n clusterName (mw\<lparr>mwManifests := (mwManifests mw)[0 := VRGManifest
                        (v\<lparr>vSpec := (vSpec v)\<lparr>vVolSync := (vVolSync (vSpec v))
                             \<lparr>vsRSSpec := vsRSSpec (vVolSync (vSpec tgt))\<rparr>\<rparr>\<rparr>)]\<rparr>))
                      (\<lambda>e. failM (wrapE ''failed to update MW ('' e '')''))
                | [] \<Rightarrow> failM (newE (''invalid VSRG ManifestWork for type: '' @ n))
                | _ \<Rightarrow> failM (newE ''unable to unmarshal VSRG object''))))"

text \<open>The source VRG is the one of \<^verbatim>\<open>d.vrgs\<close> and is written in place (\<open>putVrg\<close>).\<close>

definition updateSourceVSRG :: "string \<Rightarrow> vrg \<Rightarrow> vrg \<Rightarrow> unit hubm" where
  "updateSourceVSRG clusterName src dst =
     bindM (getsM (\<lambda>s. collectRSSpecs (dName (inst s)) (vsRSSpec (vVolSync (vSpec src))) (vRDInfo (vStatus dst))))
       (\<lambda>r. case r of
          None \<Rightarrow> failM nilDereference
        | Some specs \<Rightarrow>
            (let src' = src\<lparr>vSpec := (vSpec src)\<lparr>vVolSync := (vVolSync (vSpec src))
                             \<lparr>vsRDSpec := [], vsRSSpec := specs\<rparr>\<rparr>\<rparr>
             in seqM (modifyM (putVrg clusterName src')) (updateVSRGSpec clusterName src')))"

definition ensureVolSyncReplicationSource :: "string \<Rightarrow> unit hubm" where
  "ensureVolSyncReplicationSource srcCluster =
     bindM (getsM vrgs)
       (\<lambda>vs. if length vs \<noteq> 2 then failM (newE ''wrong number of VRGS'') else
          case map_of vs srcCluster of
            None \<Rightarrow> failM (newE (''failed to find the source VSRG in cluster '' @ srcCluster))
          | Some src \<Rightarrow>
              (case find (\<lambda>(c, v). c \<noteq> srcCluster) vs of
                 None \<Rightarrow> ret ()
               | Some (dstCluster, dst) \<Rightarrow>
                   if vRDInfo (vStatus dst) = [] then failM (newE ''waiting for VolSync RDInfo'')
                   else catchM (updateSourceVSRG srcCluster src dst)
                          (\<lambda>e. failM (wrapE (''failed to update dst VSRG on cluster '' @ srcCluster @ '' - '') e []))))"

definition EnsureSecondaryReplicationSetup :: "string \<Rightarrow> unit hubm" where
  "EnsureSecondaryReplicationSetup srcCluster =
     seqM (setProgression ProgressionEnsuringSecondarySetup)
       (bindM (createOrUpdateSecondaryManifestWork srcCluster)
         (\<lambda>opResult. if opResult = OperationResultCreated then failM errWaitForVolSyncMW else
            bindM (getsM (\<lambda>s. (vrgOf s srcCluster, IsSubmarinerEnabled (dAnnotations (inst s)))))
              (\<lambda>(src, submariner).
                 if src = None then failM (newE (''failed to find source VRG in cluster '' @ srcCluster))
                 else seqM (EnsureVolSyncReplicationSetup srcCluster)
                        (whenM (\<not> submariner) (ensureVolSyncReplicationSource srcCluster)))))"

definition ResetVolSyncRDOnPrimary :: "string \<Rightarrow> unit hubm" where
  "ResetVolSyncRDOnPrimary clusterName =
     bindM (getsM volSyncDisabled)
       (\<lambda>disabled. if disabled then ret () else
          bindM (attemptM (FindManifestWorkByType ''vrg'' clusterName))
            (\<lambda>r. case r of
               Inl e \<Rightarrow>
                 if IsNotFound e then ret ()
                 else failM (wrapE (''failed to update VRG state for MW, in namespace '' @ clusterName @ '' ('') e '')'')
             | Inr mw \<Rightarrow>
                 bindM (liftE (ExtractVRGFromManifestWork mw))
                   (\<lambda>v. if vReplicationState (vSpec v) \<noteq> Primary
                        then failM (newE (''vrg '' @ vName v @ '' is not set as primary on this cluster, '' @ clusterName))
                        else whenM (vsRDSpec (vVolSync (vSpec v)) \<noteq> [])
                               (UpdateVRGManifestWork
                                  (v\<lparr>vSpec := (vSpec v)\<lparr>vVolSync := (vVolSync (vSpec v))\<lparr>vsRDSpec := []\<rparr>\<rparr>\<rparr>)
                                  mw clusterName))))"

end
