(* ===== verification/Ramen_Cleanup.thy ===== *)
theory Ramen_Cleanup
  imports Ramen_Secondary
begin

text \<open>
  After an action: moving the peers to secondary and waiting for them to report it
  (\<^verbatim>\<open>EnsureCleanup\<close>, \<^verbatim>\<open>cleanupSecondary\<close>), the checks through managed cluster views that VRGs are
  secondary and their data protected, and the progression reported while a discovered application
  is cleaned up (\<^verbatim>\<open>drplacementcontrol.go\<close>).
\<close>

section \<open>Checks through the managed cluster views\<close>

definition secondaryReported :: "hub \<Rightarrow> string \<Rightarrow> bool" where
  "secondaryReported s c =
     (case mcvVRG (environ s) (vrgNamespace s) c of
        Inl e \<Rightarrow> IsNotFound e
      | Inr v \<Rightarrow> vState (vStatus v) = SecondaryState \<and> vStatusObservedGeneration (vStatus v) = vGeneration v)"

definition dataProtectedReported :: "hub \<Rightarrow> string \<Rightarrow> bool" where
  "dataProtectedReported s c =
     (case mcvVRG (environ s) (vrgNamespace s) c of
        Inl e \<Rightarrow> False
      | Inr v \<Rightarrow>
          (case FindCondition (vConditions (vStatus v)) ''DataProtected'' of
             None \<Rightarrow> False
           | Some cond \<Rightarrow> cStatus cond = ConditionTrue \<and> cObservedGeneration cond = vGeneration v))"

text \<open>A view that fails for another reason than a missing VRG leaves a request in progress.\<close>

definition viewPending :: "hub \<Rightarrow> string \<Rightarrow> bool" where
  "viewPending s c =
     (case mcvVRG (environ s) (vrgNamespace s) c of Inl e \<Rightarrow> \<not> IsNotFound e | Inr _ \<Rightarrow> False)"

definition ensureVRGIsSecondaryOnCluster :: "string \<Rightarrow> bool hubm" where
  "ensureVRGIsSecondaryOnCluster c =
     seqM (modifyM (\<lambda>s. s\<lparr>mcvRequestInProgress := viewPending s c\<rparr>))
       (getsM (\<lambda>s. secondaryReported s c))"

definition ensureDataProtectedOnCluster :: "string \<Rightarrow> bool hubm" where
  "ensureDataProtectedOnCluster c =
     seqM (modifyM (\<lambda>s. s\<lparr>mcvRequestInProgress := viewPending s c\<rparr>))
       (getsM (\<lambda>s. dataProtectedReported s c))"

fun allExcept :: "(string \<Rightarrow> bool hubm) \<Rightarrow> string \<Rightarrow> string list \<Rightarrow> bool hubm" where
  "allExcept p skip [] = ret True"
| "allExcept p skip (c # cs) =
     (if skip = c then allExcept p skip cs
      else bindM (p c) (\<lambda>ok. if \<not> ok then ret False else allExcept p skip cs))"

definition ensureVRGIsSecondaryEverywhere :: "string \<Rightarrow> bool hubm" where
  "ensureVRGIsSecondaryEverywhere clusterToSkip =
     bindM (getsM (\<lambda>s. DRPolicyClusterNames (drPolicy s)))
       (allExcept ensureVRGIsSecondaryOnCluster clusterToSkip)"

definition ensureDataProtected :: "string \<Rightarrow> bool hubm" where
  "ensureDataProtected targetCluster =
     bindM (getsM (\<lambda>s. DRPolicyClusterNames (drPolicy s)))
       (allExcept ensureDataProtectedOnCluster targetCluster)"

section \<open>Progression of discovered applications\<close>

definition isSourceVRGForAction :: "hub \<Rightarrow> string \<Rightarrow> bool" where
  "isSourceVRGForAction s clusterName =
     (if dPreferredCluster (spec s) = clusterName \<and> dAction (spec s) = ActionRelocate
         \<or> dFailoverCluster (spec s) = clusterName \<and> dAction (spec s) = ActionFailover
      then True
      else dAction (spec s) = ActionNone
           \<and> (case map_of (dAnnotations (inst s)) LastAppDeploymentCluster of
                None \<Rightarrow> False | Some lastCluster \<Rightarrow> lastCluster \<noteq> clusterName))"

definition getCleanupSecondaryVRG :: "hub \<Rightarrow> string \<Rightarrow> vrg option" where
  "getCleanupSecondaryVRG s clusterName =
     (if vrgs s = [] then None
      else if isSourceVRGForAction s clusterName
      then (case find (\<lambda>c. c \<noteq> clusterName \<and> vrgOf s c \<noteq> None) (DRPolicyClusterNames (drPolicy s)) of
              Some c \<Rightarrow> vrgOf s c
            | None \<Rightarrow> vrgOf s clusterName)
      else vrgOf s clusterName)"

definition isPreparingForFinalSync :: "hub \<Rightarrow> string \<Rightarrow> bool" where
  "isPreparingForFinalSync s c =
     (case getCleanupSecondaryVRG s c of
        None \<Rightarrow> False
      | Some v \<Rightarrow> vPrepareForFinalSync (vSpec v) \<or> vFinalSyncComplete (vStatus v)
                  \<or> vPrepareForFinalSyncComplete (vStatus v))"

definition autoCleanupReason :: "hub \<Rightarrow> string \<Rightarrow> string option" where
  "autoCleanupReason s c =
     (case getCleanupSecondaryVRG s c of
        None \<Rightarrow> None
      | Some v \<Rightarrow> map_option cReason (FindCondition (vConditions (vStatus v)) ''AutoCleanup''))"

definition isVMAutoCleanupFeasible :: "hub \<Rightarrow> string \<Rightarrow> bool" where
  "isVMAutoCleanupFeasible s c \<longleftrightarrow> autoCleanupReason s c = Some ''Progressing''"

definition isVMAutoCleanupCompleted :: "hub \<Rightarrow> string \<Rightarrow> bool" where
  "isVMAutoCleanupCompleted s c \<longleftrightarrow> autoCleanupReason s c = Some ''Completed''"

definition discoveredAppGCProgression :: "hub \<Rightarrow> string \<Rightarrow> progression" where
  "discoveredAppGCProgression s c =
     (if \<not> IsVMRecipe (dKubeObjectProtection (spec s)) then ProgressionWaitOnUserToCleanUp
      else if isPreparingForFinalSync s c then ProgressionPreparingFinalSync
      else if isVMAutoCleanupFeasible s c then ProgressionCleanupReadiness
      else if isVMAutoCleanupCompleted s c then ProgressionCleaningUp
      else ProgressionWaitOnUserToCleanUp)"

definition setDiscoveredAppGCProgression :: "string \<Rightarrow> unit hubm" where
  "setDiscoveredAppGCProgression c =
     bindM (getsM (\<lambda>s. discoveredAppGCProgression s c)) setProgression"

section \<open>Cleaning up the peers\<close>

definition cleanupSecondary :: "string \<Rightarrow> string \<Rightarrow> bool hubm" where
  "cleanupSecondary clusterName clusterToSkip =
     bindM (attemptM (updateVRGState clusterName Secondary))
       (\<lambda>r. case r of
          Inl e \<Rightarrow>
            seqM (whenM (IsNotFound e) (EnsureSecondaryReplicationSetup clusterToSkip)) (ret False)
        | Inr True \<Rightarrow> ret False
        | Inr False \<Rightarrow>
            bindM (getsM (\<lambda>s. (vrgOf s clusterName, dAction (spec s), isDiscoveredApp (inst s))))
              (\<lambda>(view, action, discovered). case view of
                 None \<Rightarrow> ret (action = ActionNone)
               | Some v \<Rightarrow>
                   if vReplicationState (vSpec v) \<noteq> Secondary
                      \<or> vStatusObservedGeneration (vStatus v) \<noteq> vGeneration v
                   then ret False
                   else seqM (removeClusterDecisionForFailover clusterName)
                          (seqM (whenM discovered (setDiscoveredAppGCProgression clusterToSkip))
                             (ensureVRGIsSecondaryOnCluster clusterName))))"

fun cleanupPeers :: "string \<Rightarrow> string list \<Rightarrow> unit hubm" where
  "cleanupPeers clusterToSkip [] = ret ()"
| "cleanupPeers clusterToSkip (c # cs) =
     (if clusterToSkip = c then cleanupPeers clusterToSkip cs
      else bindM (cleanupSecondary c clusterToSkip)
             (\<lambda>peersReady. if \<not> peersReady then failM (newE ''still waiting for peer to be ready'')
                           else cleanupPeers clusterToSkip cs))"

definition removeTestFailoverAnnotation :: "unit hubm" where
  "removeTestFailoverAnnotation =
     bindM (getsM (\<lambda>s. HasAnnotation (inst s) DRPCTestFailoverDryRunAnnotation))
       (\<lambda>present. whenM present
          (seqM (modInst (\<lambda>d. d\<lparr>dAnnotations := sm_delete DRPCTestFailoverDryRunAnnotation (dAnnotations d)\<rparr>))
             (catchM updateDRPC
                (\<lambda>e. failM (wrapE ''failed to remove test failover annotation: '' e [])))))"

definition cleanupSecondaries :: "string \<Rightarrow> unit hubm" where
  "cleanupSecondaries clusterToSkip =
     bindM (getsM (\<lambda>s. DRPolicyClusterNames (drPolicy s)))
       (\<lambda>names. seqM (cleanupPeers clusterToSkip names)
          (seqM (setCond ''PeerReady'' ConditionTrue ''Success'' ''Ready'')
             removeTestFailoverAnnotation))"

definition peerReadyDone :: "hub \<Rightarrow> bool" where
  "peerReadyDone s =
     (case FindCondition (sConditions (status s)) ''PeerReady'' of
        None \<Rightarrow> False
      | Some c \<Rightarrow> cReason c = ''Success'' \<and> cStatus c = ConditionTrue
                  \<and> cObservedGeneration c = dGeneration (inst s))"

definition EnsureCleanup :: "string \<Rightarrow> unit hubm" where
  "EnsureCleanup clusterToSkip =
     bindM (getsM (\<lambda>s. FindCondition (sConditions (status s)) ''PeerReady'' = None))
       (\<lambda>missing.
          seqM (whenM missing (setCond ''PeerReady'' ConditionFalse ''Progressing'' ''Starting cleanup check''))
            (bindM (getsM peerReadyDone)
               (\<lambda>d. if d then ret () else cleanupSecondaries clusterToSkip)))"

definition ensureCleanupAndSecondaryReplicationSetup :: "string \<Rightarrow> unit hubm" where
  "ensureCleanupAndSecondaryReplicationSetup srcCluster =
     seqM (ResetVolSyncRDOnPrimary srcCluster)
       (seqM (catchM (ResetVMStaticIPSpecOnPrimary srcCluster) (\<lambda>_. ret ()))
         (bindM (getsM (\<lambda>s. vrgOf s srcCluster))
            (\<lambda>view. case view of
               None \<Rightarrow> failM (newE (''waiting for RDSpec count on cluster '' @ srcCluster @ '' to go to zero. VRG OK? false''))
             | Some v \<Rightarrow>
                 if vsRDSpec (vVolSync (vSpec v)) \<noteq> []
                 then failM (newE (''waiting for RDSpec count on cluster '' @ srcCluster @ '' to go to zero. VRG OK? true''))
                 else seqM (EnsureCleanup srcCluster) (EnsureSecondaryReplicationSetup srcCluster))))"

definition ensureActionTransition :: "string \<Rightarrow> bool hubm" where
  "ensureActionTransition srcCluster =
     seqM (setProgression ProgressionCleaningUp)
       (seqM (ensureVRGManifestWork srcCluster)
         (seqM (ensurePlacement srcCluster)
           (seqM (ensureCleanupAndSecondaryReplicationSetup srcCluster)
             (seqM (setProgression ProgressionCompleted)
               (seqM setActionDuration (ret True))))))"

end
