(* ===== verification/Ramen_Actions.thy ===== *)
theory Ramen_Actions
  imports Ramen_Cleanup
begin

text \<open>
  The DR engine itself: initial deployment, failover, relocation, and the loop around them
  (\<^verbatim>\<open>startProcessing\<close>, \<^verbatim>\<open>processPlacement\<close>, \<^verbatim>\<open>executeAction\<close>, \<^verbatim>\<open>reconcileDRPCInstance\<close>). A Go function that
  returns \<^verbatim>\<open>(bool, error)\<close> gives the error or the boolean: the callers ignore the boolean of an
  error.
\<close>

section \<open>Initial deployment\<close>

definition isVRGAlreadyDeployedElsewhere :: "hub \<Rightarrow> string \<Rightarrow> string option" where
  "isVRGAlreadyDeployedElsewhere s clusterToSkip =
     map_option fst (find (\<lambda>(c, v). c \<noteq> clusterToSkip \<and> isVRGPrimary v) (vrgs s))"

definition isDeployed :: "string \<Rightarrow> (bool \<times> string) hubm" where
  "isDeployed homeCluster =
     bindM (getsM (\<lambda>s. (vrgOf s homeCluster, isVRGAlreadyDeployedElsewhere s homeCluster)))
       (\<lambda>(here, elsewhere).
          if here \<noteq> None then ret (True, homeCluster)
          else case elsewhere of
                 Some c \<Rightarrow> seqM updatePreferredDecision (ret (True, c))
               | None \<Rightarrow> ret (False, []))"

definition isUserPlRuleUpdated :: "string \<Rightarrow> bool hubm" where
  "isUserPlRuleUpdated homeCluster =
     bindM (getsM userPlacement)
       (\<lambda>p. case p of
              PlacementRule ds \<Rightarrow> ret (ds \<noteq> [] \<and> pdClusterName (hd ds) = homeCluster)
            | Placement n \<Rightarrow> bindM getClusterDecision (\<lambda>cd. ret (cdClusterName cd = homeCluster))
            | OtherPlacement \<Rightarrow> ret False)"

definition publishDeployment :: "string \<Rightarrow> string \<Rightarrow> unit hubm" where
  "publishDeployment homeCluster homeClusterNamespace =
     seqM (setProgression ProgressionUpdatingPlRule)
       (seqM (updateUserPlacementRule homeCluster homeClusterNamespace)
         (seqM (modInst (\<lambda>d. d\<lparr>dStatus := (dStatus d)\<lparr>sPreferredDecision :=
                  \<lparr>pdClusterName = dPreferredCluster (dSpec d),
                   pdClusterNamespace = dPreferredCluster (dSpec d)\<rparr>\<rparr>\<rparr>))
           (setDRState Deployed)))"

definition startDeploying :: "string \<Rightarrow> string \<Rightarrow> unit hubm" where
  "startDeploying homeCluster homeClusterNamespace =
     seqM (setDRState Deploying)
       (seqM (setProgression ProgressionCreatingMW)
         (seqM (catchM (createVRGManifestWork homeCluster Primary)
                  (\<lambda>e. if IsAlreadyExists e then ret () else failM e))
           (publishDeployment homeCluster homeClusterNamespace)))"

definition finishInitialDeployment :: "string \<Rightarrow> bool hubm" where
  "finishInitialDeployment homeCluster =
     seqM (setDRState Deployed)
       (bindM (ensureActionTransition homeCluster)
         (\<lambda>_. bindM (getsM (\<lambda>s. isDiscoveredApp (inst s)))
           (\<lambda>discovered.
              seqM (whenM discovered (updateUserPlacementRule homeCluster homeCluster))
                (seqM updatePreferredDecision
                  (seqM setConditionOnInitialDeploymentCompletion
                    (seqM (setProgression ProgressionCompleted)
                      (seqM setActionDuration (ret True))))))))"

definition deployNow :: "string \<Rightarrow> bool hubm" where
  "deployNow homeCluster =
     seqM setStatusInitiating
       (bindM (attemptM (startDeploying homeCluster homeCluster))
         (\<lambda>r. case r of
            Inl e \<Rightarrow> seqM (setAvailable (Error e)) (failM e)
          | Inr _ \<Rightarrow> seqM setConditionOnInitialDeploymentCompletion (ret False)))"

definition RunInitialDeployment :: "bool hubm" where
  "RunInitialDeployment =
     bindM (getsM (\<lambda>s. dPreferredCluster (spec s)))
       (\<lambda>homeCluster.
          if homeCluster = []
          then seqM (setAvailable ''PreferredCluster not set. Placement'')
                 (failM (newE ''PreferredCluster not set. Placement''))
          else bindM (isDeployed homeCluster)
            (\<lambda>(deployed, clusterName).
               if deployed \<and> clusterName \<noteq> homeCluster then ensureActionTransition homeCluster
               else bindM (getsM (\<lambda>s. HasAnnotation (inst s) DRPCTestFailoverDryRunAnnotation))
                 (\<lambda>testing.
                    if deployed \<and> testing
                    then seqM (switchClusterDecisionRetainFailover homeCluster)
                           (seqM (setCond ''PeerReady'' ConditionFalse ''Cleaning'' ''Not Ready'')
                              (finishInitialDeployment homeCluster))
                    else if \<not> deployed then deployNow homeCluster
                    else bindM (isUserPlRuleUpdated homeCluster)
                           (\<lambda>updated. if \<not> updated then deployNow homeCluster
                                      else finishInitialDeployment homeCluster))))"

section \<open>Failover\<close>

definition switchToFailoverCluster :: "bool hubm" where
  "switchToFailoverCluster =
     bindM (getsM (\<lambda>s. dFailoverCluster (spec s)))
       (\<lambda>target.
          seqM (setDRState FailingOver)
            (seqM (setAvailable ''Starting failover'')
              (seqM (setCond ''PeerReady'' ConditionFalse ''NotStarted''
                       (''Started failover to cluster '' @ quoted target))
                (seqM (setProgression ProgressionCheckingFailoverPrerequisites)
                  (bindM (getCurrentHomeClusterName target)
                    (\<lambda>curHome.
                       if curHome = []
                       then seqM (setAvailable ''Invalid Failover request. Current home cluster does not exists'')
                              (failM (newE ''failover requested on invalid state''))
                       else bindM (checkFailoverPrerequisites curHome)
                         (\<lambda>met. if \<not> met then ret False else
                            seqM (setProgression ProgressionFailingOverToCluster)
                              (bindM (attemptM (seqM (retainClusterDecisionAsFailover curHome)
                                                  (switchToCluster target [])))
                                (\<lambda>r. case r of
                                   Inl e \<Rightarrow> seqM (setAvailable (Error e)) (failM e)
                                 | Inr _ \<Rightarrow>
                                     seqM updatePreferredDecision
                                       (seqM (setDRState FailedOver)
                                         (seqM (setAvailable ''Completed'') (ret False)))))))))))) "

definition setAvailableTrue :: "string \<Rightarrow> unit hubm" where
  "setAvailableTrue msg =
     bindM (getsM (\<lambda>s. sPhase (status s)))
       (\<lambda>p. setCond ''Available'' ConditionTrue (dr_state_str p) msg)"

definition failoverInPlace :: "string \<Rightarrow> bool hubm" where
  "failoverInPlace failoverCluster =
     seqM updatePreferredDecision
       (seqM (setDRState FailedOver)
         (seqM (catchM (ensureVRGManifestWork failoverCluster)
                  (\<lambda>e. seqM (setProgression ProgressionWaitForReadiness) (failM e)))
           (bindM (getsM (\<lambda>s. (checkReadiness s failoverCluster, dDryRun (spec s))))
             (\<lambda>(ready, dryRun).
                if \<not> ready then seqM (setProgression ProgressionWaitForReadiness) (ret False)
                else seqM (setAvailableTrue ''Completed'')
                  (if dryRun
                   then seqM (setProgression ProgressionTestingFailover)
                          (seqM (ensurePlacement failoverCluster)
                             (seqM (modifyM (\<lambda>s. s\<lparr>requeueAfter := 60\<rparr>)) (ret False)))
                   else ensureActionTransition failoverCluster)))))"

text \<open>\<^verbatim>\<open>if d.hasGlobalVGRLabel() && !d.isGlobalActionInConsensus() { return !done, nil }\<close> before an action.\<close>

definition whenConsensus :: "bool hubm \<Rightarrow> bool hubm" where
  "whenConsensus m =
     bindM (getsM hasGlobalVGRLabel)
       (\<lambda>global. bindM (if global then isGlobalActionInConsensus else ret True)
          (\<lambda>agreed. if \<not> agreed then ret False else m))"

definition startFailover :: "bool hubm" where
  "startFailover = seqM setStatusInitiating (whenConsensus switchToFailoverCluster)"

definition RunFailover :: "bool hubm" where
  "RunFailover =
     bindM (getsM (\<lambda>s. (dFailoverCluster (spec s), dDryRun (spec s))))
       (\<lambda>(target, dryRun).
          if target = []
          then seqM (setAvailable ''missing value for spec.FailoverCluster'')
                 (failM (newE ''missing value for spec.FailoverCluster''))
          else bindM (getsM (\<lambda>s. (isValidFailoverTarget s target, vrgExistsAndPrimary s target)))
            (\<lambda>(valid, primary). case valid of
               Inl e \<Rightarrow>
                 (let err = wrapE (''unable to start failover, spec.FailoverCluster ('' @ target
                              @ '') is not a valid Secondary target: '') e []
                  in seqM (setAvailable (Error err)) (failM err))
             | Inr _ \<Rightarrow>
                 if primary then failoverInPlace target
                 else bindM (mwExistsAndPlacementUpdated target)
                   (\<lambda>yes. if yes then ret False
                      else bindM (if dryRun then dryRunReadyToFailover else ret True)
                        (\<lambda>ready. if \<not> ready then ret False else startFailover))))"

section \<open>Relocation\<close>

definition prepareForFinalSync :: "string \<Rightarrow> bool hubm" where
  "prepareForFinalSync homeCluster =
     bindM (getsM (\<lambda>s. vrgOf s homeCluster))
       (\<lambda>view. case view of
          None \<Rightarrow> failM (newE (''VRG not found on Cluster '' @ homeCluster))
        | Some v \<Rightarrow>
            if \<not> vPrepareForFinalSyncComplete (vStatus v)
            then seqM (updateVRGToPrepareForFinalSync homeCluster) (ret False)
            else ret True)"

definition runFinalSync :: "string \<Rightarrow> bool hubm" where
  "runFinalSync homeCluster =
     bindM (getsM (\<lambda>s. vrgOf s homeCluster))
       (\<lambda>view. case view of
          None \<Rightarrow> failM (newE (''VRG not found on Cluster '' @ homeCluster))
        | Some v \<Rightarrow>
            if \<not> vFinalSyncComplete (vStatus v)
            then seqM (updateVRGToRunFinalSync homeCluster) (ret False)
            else ret True)"

definition setRelocateProgression :: "string \<Rightarrow> progression \<Rightarrow> unit hubm" where
  "setRelocateProgression c p =
     bindM (getsM (\<lambda>s. isDiscoveredApp (inst s)))
       (\<lambda>b. if b then setDiscoveredAppGCProgression c else setProgression p)"

definition clearForRelocation :: "string \<Rightarrow> unit hubm" where
  "clearForRelocation homeCluster =
     seqM (setDRState Relocating)
       (seqM (setAvailable ''Starting quiescing for relocation'')
         (seqM (setRelocateProgression homeCluster ProgressionClearingPlacement)
           clearUserPlacementRuleStatus))"

definition syncSource :: "string \<Rightarrow> bool hubm" where
  "syncSource homeCluster =
     bindM (runFinalSync homeCluster)
       (\<lambda>synced. if \<not> synced
          then seqM (setRelocateProgression homeCluster ProgressionRunningFinalSync) (ret False)
          else seqM (setProgression ProgressionFinalSyncComplete) (ret True))"

definition quiesceAndRunFinalSync :: "string \<Rightarrow> bool hubm" where
  "quiesceAndRunFinalSync homeCluster =
     bindM (prepareForFinalSync homeCluster)
       (\<lambda>prepared. if \<not> prepared then seqM (setProgression ProgressionPreparingFinalSync) (ret False)
          else bindM getClusterDecision
            (\<lambda>cd. seqM (whenM (cdClusterName cd \<noteq> []) (clearForRelocation homeCluster))
                    (syncSource homeCluster)))"

definition setupRelocation :: "string \<Rightarrow> unit hubm" where
  "setupRelocation preferredCluster =
     bindM (ensureVRGIsSecondaryEverywhere preferredCluster)
       (\<lambda>ok. seqM
          (if ok then ret ()
           else seqM (setRelocateProgression preferredCluster ProgressionEnsuringVolumesAreSecondary)
             (bindM moveVRGToSecondaryEverywhere
               (\<lambda>moved. if \<not> moved then failM (newE ''failed to move VRG to secondary everywhere'')
                  else bindM (ensureVRGIsSecondaryEverywhere [])
                    (\<lambda>all. if \<not> all then failM (newE ''waiting for VRGs to move to secondaries everywhere'')
                           else ret ()))))
          (bindM (ensureDataProtected preferredCluster)
             (\<lambda>p. if \<not> p then failM (newE ''waiting for data protection'') else ret ())))"

definition reportE :: "unit hubm \<Rightarrow> unit hubm" where
  "reportE m = catchM m (\<lambda>e. seqM (setAvailable (Error e)) (failM e))"

definition relocate :: "string \<Rightarrow> string \<Rightarrow> dr_state \<Rightarrow> bool hubm" where
  "relocate preferredCluster preferredClusterNamespace drState =
     seqM (setDRState drState)
       (seqM (setAvailable ''Starting relocation'')
         (seqM (setCond ''PeerReady'' ConditionFalse ''NotStarted''
                  (''Relocation in progress to cluster '' @ quoted preferredCluster))
           (seqM (reportE (setupRelocation preferredCluster))
             (seqM (reportE (switchToCluster preferredCluster preferredClusterNamespace))
               (seqM updatePreferredDecision
                 (seqM (setDRState Relocated)
                   (seqM (setAvailable ''Completed'') (ret False))))))))"

definition relocateInPlace :: "string \<Rightarrow> bool hubm" where
  "relocateInPlace preferredCluster =
     seqM (setDRState Relocating)
       (seqM updatePreferredDecision
         (seqM (catchM (ensureVRGManifestWork preferredCluster)
                  (\<lambda>e. seqM (setProgression ProgressionWaitForReadiness) (failM e)))
           (bindM (getsM (\<lambda>s. checkReadiness s preferredCluster))
             (\<lambda>ready. if \<not> ready then seqM (setProgression ProgressionWaitForReadiness) (ret False)
                else seqM (setDRState Relocated)
                       (seqM (setAvailableTrue ''Completed'') (ensureActionTransition preferredCluster))))))"

definition startRelocation :: "string \<Rightarrow> string \<Rightarrow> bool hubm" where
  "startRelocation curHome preferredCluster =
     bindM (getsM (\<lambda>s. (readyToSwitchOver s curHome preferredCluster, sPhase (status s), validatePeerReady s)))
       (\<lambda>(ready, phase, peerReady).
          if curHome \<noteq> [] \<and> curHome \<noteq> preferredCluster \<and> \<not> ready
          then (let msg = ''current cluster ('' @ curHome @ '') has not completed protection actions''
                in seqM (setAvailable msg) (failM (newE msg)))
          else if phase \<noteq> Relocating \<and> \<not> peerReady
          then failM (newE ''clean up secondaries is pending, peer is not ready'')
          else bindM (if curHome \<noteq> [] \<and> curHome \<noteq> preferredCluster
                      then quiesceAndRunFinalSync curHome else ret True)
                 (\<lambda>quiesced. if \<not> quiesced then ret False
                    else relocate preferredCluster preferredCluster Relocating))"

definition RunRelocate :: "bool hubm" where
  "RunRelocate =
     bindM (getsM (\<lambda>s. numClustersQueriedSuccessfully s \<noteq> length (polDRClusters (drPolicy s))))
       (\<lambda>partial. if partial then ret False else
          bindM (getsM (\<lambda>s. (dPreferredCluster (spec s),
                            validateAndSelectCurrentPrimary s (dPreferredCluster (spec s)),
                            vrgExistsAndPrimary s (dPreferredCluster (spec s)))))
            (\<lambda>(preferred, r, primary). case r of
               Inl e \<Rightarrow> seqM (setAvailable (Error e)) (failM e)
             | Inr curHome \<Rightarrow>
                 if curHome \<noteq> [] \<and> primary then relocateInPlace preferred
                 else seqM setStatusInitiating (whenConsensus (startRelocation curHome preferred))))"

section \<open>The loop\<close>

definition processTestFailoverFlowIfEnabled :: "bool hubm" where
  "processTestFailoverFlowIfEnabled =
     bindM (getsM (\<lambda>s. (dDryRun (spec s), dAction (spec s), dFailoverCluster (spec s),
                        HasAnnotation (inst s) DRPCTestFailoverDryRunAnnotation)))
       (\<lambda>(dryRun, action, target, present).
          if dryRun \<and> action \<noteq> ActionFailover
          then seqM (recordFailure ''ValidationFailed'' ''dryRun is enabled but action is not failover'')
                 (failM (newE ''dryRun is enabled but action is not failover''))
          else if dryRun \<and> action = ActionFailover \<and> target \<noteq> [] \<and> \<not> present
          then seqM (modInst (\<lambda>d. snd (AddAnnotation DRPCTestFailoverDryRunAnnotation ''true'' d)))
                 (seqM (catchM updateDRPC
                          (\<lambda>e. failM (wrapE ''failed to add test failover annotation: '' e [])))
                    (ret False))
          else ret True)"

definition executeAction :: "bool hubm" where
  "executeAction =
     bindM (getsM (\<lambda>s. dAction (spec s)))
       (\<lambda>action. case action of
          ActionFailover \<Rightarrow> RunFailover
        | ActionRelocate \<Rightarrow> RunRelocate
        | ActionNone \<Rightarrow> RunInitialDeployment)"

definition processPlacement :: "bool hubm" where
  "processPlacement =
     bindM processTestFailoverFlowIfEnabled
       (\<lambda>continue. if \<not> continue then ret False else executeAction)"

text \<open>
  \<^verbatim>\<open>shouldUpdateStatus() || statusUpdateTimeElapsed()\<close> evaluates the second only when the first is
  false; a failed status update requeues.
\<close>

definition startProcessing :: "bool hubm" where
  "startProcessing =
     bindM (attemptM processPlacement)
       (\<lambda>processed. bindM shouldUpdateStatus
         (\<lambda>should. bindM (getsM (\<lambda>s. should \<or> statusUpdateTimeElapsed s))
           (\<lambda>update. bindM (attemptM (whenM update (updateDRPCStatus True)))
             (\<lambda>updated. ret (case updated of
                Inl _ \<Rightarrow> True
              | Inr _ \<Rightarrow> (case processed of Inl _ \<Rightarrow> True | Inr d \<Rightarrow> \<not> d))))))"

end
