(* ===== verification/Ramen_Invariants.thy ===== *)
theory Ramen_Invariants
  imports Ramen_Actions
begin

text \<open>
  What every handler of the reconcile keeps. Five locales, each extending one before, are the
  contract between the engine and a property of the hub. A property that does not look at the count
  of API calls is kept by every operation that only reads (\<open>read_invariant\<close>); one that does not look
  at the reported status either, by the checks (\<open>report_invariant\<close>); one that only looks at the VRGs
  among the ManifestWorks and not at the placement, by the operations on namespaces, recipes and placement
  (\<open>works_invariant\<close>); one that of the DRPC looks at its specification only, by storing the status (\<open>stored_status_invariant\<close>); and one closed under every elementary write that does not ask a new cluster to be
  primary, by every handler that does not promote (\<open>hub_invariant\<close>). The extension
  \<open>promotion_target\<close> adds the promotion of one cluster and then covers the whole engine. All are
  interpreted on the model at the end of the theory: the configuration of the reconcile never changes, and the set of
  clusters asked to be primary only ever grows by the target of the action.
\<close>

section \<open>Facts about the elementary operations\<close>

definition mwPrim :: "manifest_work \<Rightarrow> bool" where
  "mwPrim mw = (case ExtractVRGFromManifestWork mw of Inl _ \<Rightarrow> False | Inr v \<Rightarrow> isVRGPrimary v)"

lemma mwPrimary_alt:
  "mwPrimary s c = (case manifestWorks s (BuildManifestWorkName s ''vrg'', c) of None \<Rightarrow> False | Some mw \<Rightarrow> mwPrim mw)"
  by (simp add: mwPrimary_def mwVRG_def mwPrim_def split: option.split sum.split)

lemma mwPrim_simps [simp]:
  "mwPrim (cur\<lparr>mwManifests := ms, mwOrphan := b\<rparr>) = mwPrim (cur\<lparr>mwManifests := ms\<rparr>)"
  "mwPrim (cur\<lparr>mwManifests := mwManifests mw\<rparr>) = mwPrim mw"
  "mwPrim (cur\<lparr>mwManifests := VRGManifest v # ms\<rparr>) = isVRGPrimary v"
  "mwPrim (newManifestWork l [VRGManifest v] a) = isVRGPrimary v"
  "mwPrim (mw\<lparr>mwLabels := l\<rparr>) = mwPrim mw"
  by (simp_all add: mwPrim_def ExtractVRGFromManifestWork_def newManifestWork_def)

lemma primary_flags [simp]:
  fixes v :: vrg
  shows "isVRGPrimary (v\<lparr>vSpec := (vSpec v)\<lparr>vPrepareForFinalSync := a, vRunFinalSync := b\<rparr>\<rparr>) = isVRGPrimary v"
    "isVRGPrimary (v\<lparr>vSpec := (vSpec v)\<lparr>vRunFinalSync := b, vPrepareForFinalSync := a\<rparr>\<rparr>) = isVRGPrimary v"
  by (simp_all add: isVRGPrimary_def)

lemma Extract_Inr: "ExtractVRGFromManifestWork mw = Inr v \<longleftrightarrow> (\<exists>ms. mwManifests mw = VRGManifest v # ms)"
  by (auto simp: ExtractVRGFromManifestWork_def split: list.splits manifest.splits)

lemma Build_simps [simp]:
  "BuildManifestWorkName s ''vrg'' = ManifestWorkName (dName (inst s)) (vrgNamespace s) ''vrg''"
  "BuildManifestWorkName s ''ns'' = ManifestWorkName (dName (inst s)) (vrgNamespace s) ''ns''"
  "BuildManifestWorkName s ''recipe'' = ManifestWorkName (dName (inst s)) (vrgNamespace s) ''recipe''"
  by (simp_all add: BuildManifestWorkName_def mwuManifestWorkName_def)

lemma wp_FindManifestWorkByType:
  assumes "\<And>n e. Q (Inl e) (s\<lparr>calls := n\<rparr>)"
    and "\<And>n mw. manifestWorks s (BuildManifestWorkName s t, c) = Some mw \<Longrightarrow> Q (Inr mw) (s\<lparr>calls := n\<rparr>)"
  shows "wp (FindManifestWorkByType t c) Q s"
  unfolding FindManifestWorkByType_def using assms by (auto simp: wp_rules intro!: wp_FindManifestWork)

lemma wp_getVRGFromManifestWork:
  assumes "\<And>n e. Q (Inl e) (s\<lparr>calls := n\<rparr>)"
    and "\<And>n v. mwVRG s c = Some v \<Longrightarrow> Q (Inr v) (s\<lparr>calls := n\<rparr>)"
  shows "wp (getVRGFromManifestWork c) Q s"
  unfolding getVRGFromManifestWork_def using assms
  by (auto simp: wp_rules liftE_def mwVRG_def intro!: wp_FindManifestWorkByType split: sum.splits)

lemma pres_case_user_placement [pres_rules]:
  "(\<And>ds. pres I (f ds)) \<Longrightarrow> (\<And>n. pres I (g n)) \<Longrightarrow> pres I h
     \<Longrightarrow> pres I (case p of PlacementRule ds \<Rightarrow> f ds | Placement n \<Rightarrow> g n | OtherPlacement \<Rightarrow> h)"
  by (simp split: user_placement.split)



section \<open>The contract\<close>

definition drpcCore :: "drpc \<Rightarrow> string \<times> string \<times> string \<times> int \<times> drpc_spec" where
  "drpcCore d = (dName d, dNamespace d, dUID d, dGeneration d, dSpec d)"

text \<open>What the reporting operations leave of the DRPC.\<close>

definition reportCore where
  "reportCore (d :: drpc) = (drpcCore d, dAnnotations d, dLabels d, sPreferredDecision (dStatus d), sLastGroupSyncTime (dStatus d))"

lemma report_core: "reportCore d = reportCore d' \<Longrightarrow> drpcCore d = drpcCore d'"
  by (simp add: reportCore_def)

lemma report_setDRStateD: "reportCore (setDRStateD p d) = reportCore d"
  by (simp add: setDRStateD_def syncDRActionCountAnnotation_def reportCore_def drpcCore_def Let_def)

lemma report_setDRPCCondition: "reportCore (setDRPCCondition n t st r m d) = reportCore d"
  by (simp add: setDRPCCondition_def reportCore_def drpcCore_def)

lemma report_progression: "reportCore (snd (updateDRPCProgression d p)) = reportCore d"
  by (simp add: updateDRPCProgression_def reportCore_def drpcCore_def)

lemma report_setStatusInitiatingD: "reportCore (setStatusInitiatingD t d) = reportCore d"
proof -
  have "reportCore (d'\<lparr>dStatus := (dStatus d')\<lparr>sActionStartTime := a, sActionDuration := b\<rparr>\<rparr>) = reportCore d'" for d' a b
    by (simp add: reportCore_def drpcCore_def)
  then show ?thesis
    by (simp add: setStatusInitiatingD_def Let_def report_progression report_setDRStateD)
qed

lemmas core_setDRPCCondition = report_core [OF report_setDRPCCondition]

lemma core_sync: "drpcCore (snd (syncDRActionCountAnnotation d)) = drpcCore d"
  by (simp add: syncDRActionCountAnnotation_def drpcCore_def Let_def)

lemma core_annotatePlacement: "drpcCore (snd (annotatePlacement c d)) = drpcCore d"
  by (simp add: annotatePlacement_def AddAnnotation_def drpcCore_def Let_def)

locale read_invariant =
  fixes I :: "hub \<Rightarrow> bool"
  assumes I_calls: "I s \<Longrightarrow> I (s\<lparr>calls := n\<rparr>)"
begin

text \<open>Operations that only read, through the API.\<close>

lemma pres_modifyM: "(\<And>s. I s \<Longrightarrow> I (f s)) \<Longrightarrow> pres I (modifyM f)"
  by (simp add: pres_def modifyM_def)

lemma pres_apiCall [pres_rules]: "pres I apiCall"
  by (rule presI) (auto simp: apiCall_def I_calls split: option.split)

lemma pres_getPlacementDecisionFromPlacement [pres_rules]: "pres I (getPlacementDecisionFromPlacement pl)"
  unfolding getPlacementDecisionFromPlacement_def by (intro pres_rules)

lemma pres_getClusterDecisionFromPlacement [pres_rules]: "pres I (getClusterDecisionFromPlacement pl)"
  unfolding getClusterDecisionFromPlacement_def by (intro pres_rules)

lemma pres_getClusterDecision [pres_rules]: "pres I getClusterDecision"
  unfolding getClusterDecision_def by (intro pres_rules)

lemma pres_getMW [pres_rules]: "pres I (getMW name c)"
  unfolding getMW_def by (intro pres_rules)

lemma pres_FindManifestWork [pres_rules]: "pres I (FindManifestWork name c)"
  unfolding FindManifestWork_def by (intro pres_rules)

lemma pres_FindManifestWorkByType [pres_rules]: "pres I (FindManifestWorkByType t c)"
  unfolding FindManifestWorkByType_def by (intro pres_rules)

lemma pres_getVRGFromManifestWork [pres_rules]: "pres I (getVRGFromManifestWork c)"
  unfolding getVRGFromManifestWork_def by (intro pres_rules)

lemma pres_mwExistsAndPlacementUpdated [pres_rules]: "pres I (mwExistsAndPlacementUpdated c)"
  unfolding mwExistsAndPlacementUpdated_def by (intro pres_rules)

lemma pres_getCurrentHomeClusterName [pres_rules]: "pres I (getCurrentHomeClusterName c)"
  unfolding getCurrentHomeClusterName_def by (intro pres_rules)

lemma pres_GetAvailableS3Profiles [pres_rules]: "pres I GetAvailableS3Profiles"
  unfolding GetAvailableS3Profiles_def by (intro pres_rules)

lemma pres_clusterForVRGStatus [pres_rules]: "pres I clusterForVRGStatus"
  unfolding clusterForVRGStatus_def by (intro pres_rules)

lemma pres_shouldUpdateStatus [pres_rules]: "pres I shouldUpdateStatus"
  unfolding shouldUpdateStatus_def by (intro pres_rules)

lemma pres_isUserPlRuleUpdated [pres_rules]: "pres I (isUserPlRuleUpdated c)"
  unfolding isUserPlRuleUpdated_def by (intro pres_rules)

end

locale report_invariant = read_invariant +
  assumes I_mcv: "I s \<Longrightarrow> I (s\<lparr>mcvRequestInProgress := b\<rparr>)"
    and I_report: "I s \<Longrightarrow> reportCore d = reportCore (inst s) \<Longrightarrow> I (s\<lparr>inst := d\<rparr>)"
begin

text \<open>Operations that only read or report in the DRPC's status.\<close>

lemma pres_report: "(\<And>d. reportCore (f d) = reportCore d) \<Longrightarrow> pres I (modInst f)"
  by (rule presI) (simp add: modInst_def modifyM_def I_report)

lemma pres_setDRState [pres_rules]: "pres I (setDRState p)"
  unfolding setDRState_def by (rule pres_report) (rule report_setDRStateD)

lemma pres_setProgression [pres_rules]: "pres I (setProgression p)"
  unfolding setProgression_def by (rule pres_report) (rule report_progression)

lemma pres_setStatusInitiating [pres_rules]: "pres I setStatusInitiating"
  unfolding setStatusInitiating_def by (intro pres_rules pres_report report_setStatusInitiatingD)

lemma pres_setActionDuration [pres_rules]: "pres I setActionDuration"
  unfolding setActionDuration_def modStatus_def
  by (intro pres_rules pres_report) (simp add: reportCore_def drpcCore_def split: option.split)

lemma pres_setCond [pres_rules]: "pres I (setCond t st r m)"
  unfolding setCond_def by (intro pres_rules pres_report report_setDRPCCondition)

lemma pres_setAvailable [pres_rules]: "pres I (setAvailable m)"
  unfolding setAvailable_def by (intro pres_rules)

lemma pres_setAvailableFalse [pres_rules]: "pres I (setAvailableFalse m)"
  unfolding setAvailableFalse_def by (intro pres_rules)

lemma pres_setAvailableTrue [pres_rules]: "pres I (setAvailableTrue m)"
  unfolding setAvailableTrue_def by (intro pres_rules)

lemma pres_setConditionOnInitialDeploymentCompletion [pres_rules]:
  "pres I setConditionOnInitialDeploymentCompletion"
  unfolding setConditionOnInitialDeploymentCompletion_def by (intro pres_rules)

lemma pres_checkFailoverPrerequisites [pres_rules]: "pres I (checkFailoverPrerequisites c)"
  unfolding checkFailoverPrerequisites_def checkMetroFailoverPrerequisites_def
    checkRegionalFailoverPrerequisites_def
  by (intro pres_rules)

lemma pres_dryRunReadyToFailover [pres_rules]: "pres I dryRunReadyToFailover"
  unfolding dryRunReadyToFailover_def isProtected_def isGroupSyncLagging_def by (intro pres_rules)

lemma pres_isGlobalActionInConsensus [pres_rules]: "pres I isGlobalActionInConsensus"
  unfolding isGlobalActionInConsensus_def setGlobalActionCondition_def by (intro pres_rules)

lemma pres_viewChecks [pres_rules]:
  "pres I (ensureVRGIsSecondaryOnCluster c)" "pres I (ensureDataProtectedOnCluster c)"
  unfolding ensureVRGIsSecondaryOnCluster_def ensureDataProtectedOnCluster_def
  by (auto intro!: pres_rules pres_modifyM I_mcv)

lemma pres_allExcept [pres_rules]: "(\<And>c. pres I (p c)) \<Longrightarrow> pres I (allExcept p k cs)"
  by (induction cs) (auto intro!: pres_rules)

lemma pres_ensureVRGIsSecondaryEverywhere [pres_rules]: "pres I (ensureVRGIsSecondaryEverywhere c)"
  unfolding ensureVRGIsSecondaryEverywhere_def by (intro pres_rules)

lemma pres_ensureDataProtected [pres_rules]: "pres I (ensureDataProtected c)"
  unfolding ensureDataProtected_def by (intro pres_rules)

lemma pres_setDiscoveredAppGCProgression [pres_rules]: "pres I (setDiscoveredAppGCProgression c)"
  unfolding setDiscoveredAppGCProgression_def by (intro pres_rules)

lemma pres_setRelocateProgression [pres_rules]: "pres I (setRelocateProgression c p)"
  unfolding setRelocateProgression_def by (intro pres_rules)

end

locale works_invariant = report_invariant +
  assumes I_userPlacement: "I s \<Longrightarrow> I (s\<lparr>userPlacement := up\<rparr>)"
    and I_placementDecisions: "I s \<Longrightarrow> I (s\<lparr>placementDecisions := pds\<rparr>)"
    and I_putMW_other: "I s \<Longrightarrow> name \<noteq> BuildManifestWorkName s ''vrg'' \<Longrightarrow> I (putMW name c mw s)"
begin

text \<open>Placement decisions.\<close>

lemma pres_putPD: "I s \<Longrightarrow> I (putPD p s)"
  unfolding putPD_def by (rule I_placementDecisions)

lemma pres_updatePD [pres_rules]: "pres I (updatePD p)"
  unfolding updatePD_def by (intro pres_rules pres_modifyM pres_putPD)

lemma pres_createPD [pres_rules]: "pres I (createPD p)"
  unfolding createPD_def by (intro pres_rules pres_modifyM I_placementDecisions)

lemma pres_createPDLoop [pres_rules]: "pres I (createPDLoop pl ls n)"
  by (induction n) (auto simp: Let_def intro!: pres_rules)

lemma pres_createPlacementDecision [pres_rules]: "pres I (createPlacementDecision pl)"
  unfolding createPlacementDecision_def by (intro pres_rules)

lemma pres_createOrUpdatePlacementRuleDecision [pres_rules]:
  "pres I (createOrUpdatePlacementRuleDecision ds cd)"
  unfolding createOrUpdatePlacementRuleDecision_def
  by (intro pres_rules pres_modifyM I_userPlacement)

lemma pres_createOrUpdatePlacementDecision [pres_rules]: "pres I (createOrUpdatePlacementDecision pl cd)"
  unfolding createOrUpdatePlacementDecision_def by (intro pres_rules)

lemma pres_updateUserPlacementStatusDecision [pres_rules]: "pres I (updateUserPlacementStatusDecision cd)"
  unfolding updateUserPlacementStatusDecision_def by (intro pres_rules)

lemma pres_removeClusterDecisionForFailover [pres_rules]: "pres I (removeClusterDecisionForFailover c)"
  unfolding removeClusterDecisionForFailover_def removePlacementClusterDecisionForFailover_def
  by (intro pres_rules)

lemma pres_retainClusterDecisionAsFailover [pres_rules]: "pres I (retainClusterDecisionAsFailover c)"
  unfolding retainClusterDecisionAsFailover_def retainPlacementClusterDecisionAsFailover_def
  by (intro pres_rules)

lemma pres_switchClusterDecisionRetainFailover [pres_rules]: "pres I (switchClusterDecisionRetainFailover c)"
  unfolding switchClusterDecisionRetainFailover_def switchPlacementClusterDecisionRetainFailover_def
  by (intro pres_rules)

lemma pres_updateUserPlacementRule [pres_rules]: "pres I (updateUserPlacementRule c r)"
  unfolding updateUserPlacementRule_def by (intro pres_rules)

lemma pres_clearUserPlacementRuleStatus [pres_rules]: "pres I clearUserPlacementRuleStatus"
  unfolding clearUserPlacementRuleStatus_def by (intro pres_rules)

text \<open>ManifestWorks of namespaces and recipes.\<close>

lemma pres_write:
  assumes "\<And>s. I s \<Longrightarrow> I (putMW name c mw s)"
  shows "pres I (updateMW name c mw)" "pres I (createMW name c mw)"
proof -
  show "pres I (updateMW name c mw)"
    unfolding updateMW_def by (intro pres_rules pres_modifyM assms)
  show "pres I (createMW name c mw)"
    unfolding createMW_def by (intro pres_rules pres_modifyM assms)
qed

lemma pres_createOrUpdateManifestWork:
  assumes "\<And>s cur. I s \<Longrightarrow> I (putMW name c (cur\<lparr>mwManifests := mwManifests mw, mwOrphan := mwOrphan mw\<rparr>) s)"
    and "\<And>s. I s \<Longrightarrow> I (putMW name c mw s)"
  shows "pres I (createOrUpdateManifestWork name mw c)"
  unfolding createOrUpdateManifestWork_def by (intro pres_rules pres_write assms)

lemma pres_CreateOrUpdateNamespaceManifestWork [pres_rules]:
  "pres I (CreateOrUpdateNamespaceManifestWork name nsname c ann ls)"
  unfolding CreateOrUpdateNamespaceManifestWork_def
  by (intro pres_rules pres_createOrUpdateManifestWork I_putMW_other) simp_all

lemma pres_CreateOrUpdateRecipeManifestWork [pres_rules]: "pres I (CreateOrUpdateRecipeManifestWork r c)"
  unfolding CreateOrUpdateRecipeManifestWork_def
proof (rule presI)
  fix s assume I: "I s"
  have "pres I (createOrUpdateManifestWork (ManifestWorkName a b ''recipe'') mw c)" for a b mw
    by (intro pres_createOrUpdateManifestWork I_putMW_other) simp_all
  then have "pres I (bindM (createOrUpdateManifestWork (ManifestWorkName a b ''recipe'') mw c) (\<lambda>_. ret ()))" for a b mw
    by (intro pres_rules)
  from presD [OF this I] show "I (snd (bindM (getsM (\<lambda>s. ManifestWorkName (dName (inst s)) (vrgNamespace s) ''recipe''))
       (\<lambda>name. bindM (createOrUpdateManifestWork name
          ((newManifestWork [(''recipe'', rcpName r)] [RecipeManifest (prepareRecipeForMW r)] [])\<lparr>mwOrphan := True\<rparr>) c)
          (\<lambda>_. ret ())) s))"
    by (simp add: bindM_def getsM_def)
qed

lemma pres_createNSOnPeers [pres_rules]: "pres I (createNSOnPeers c n ann ls dsts)"
  by (induction dsts arbitrary: ls) (auto intro!: pres_rules)

lemma pres_createOrUpdateNamespaces [pres_rules]: "pres I (createOrUpdateNamespaces c)"
  unfolding createOrUpdateNamespaces_def createOrUpdateNSForNonDiscoveredApps_def
    createOrUpdateNSForDiscoveredApps_def
  by (intro pres_rules)

lemma pres_ensureNamespaceManifestWork [pres_rules]: "pres I (ensureNamespaceManifestWork c)"
proof (rule presI)
  fix s assume I: "I s"
  have "wp (ensureNamespaceManifestWork c) (\<lambda>_. I) s"
    unfolding ensureNamespaceManifestWork_def wp_rules
    by (rule wp_FindManifestWorkByType)
       (auto simp: wp_rules I I_calls intro!: wp_updateMW I_putMW_other pres_wp [OF pres_createOrUpdateNamespaces])
  then show "I (snd (ensureNamespaceManifestWork c s))" by (simp add: wp_snd)
qed

lemma pres_ensureRecipeManifestWork [pres_rules]: "pres I (ensureRecipeManifestWork a b)"
  unfolding ensureRecipeManifestWork_def shipRecipe_def by (intro pres_rules)

end

locale stored_status_invariant = read_invariant +
  assumes I_inst: "I s \<Longrightarrow> drpcCore d = drpcCore (inst s) \<Longrightarrow> I (s\<lparr>inst := d\<rparr>)"
    and I_serverStatus: "I s \<Longrightarrow> I (s\<lparr>serverStatus := st\<rparr>)"
    and I_savedDRActionCount: "I s \<Longrightarrow> I (s\<lparr>savedDRActionCount := ac\<rparr>)"
    and I_vrgs: "I s \<Longrightarrow> map fst vs = map fst (vrgs s) \<Longrightarrow> I (s\<lparr>vrgs := vs\<rparr>)"
begin

text \<open>The instance.\<close>

lemma pres_modInst: "(\<And>d. drpcCore (f d) = drpcCore d) \<Longrightarrow> pres I (modInst f)"
  by (rule presI) (simp add: modInst_def modifyM_def I_inst)

lemma pres_modStatus [pres_rules]: "pres I (modStatus f)"
  unfolding modStatus_def by (rule pres_modInst) (simp add: drpcCore_def)

lemma pres_updateDRPC [pres_rules]: "pres I updateDRPC"
  unfolding updateDRPC_def by (intro pres_rules pres_modifyM I_inst) (simp_all add: drpcCore_def)

lemma pres_putVrg: "I s \<Longrightarrow> I (putVrg c v s)"
  unfolding putVrg_def by (rule I_vrgs) (auto simp: comp_def)

text \<open>Status.\<close>

lemma core_status: "drpcCore (d\<lparr>dStatus := x\<rparr>) = drpcCore d"
  by (simp add: drpcCore_def)

lemma core_updateDRPCProtectedCondition:
  "drpcCore (updateDRPCProtectedCondition t d v c) = drpcCore d"
proof -
  have np: "notProtectedYet t d d' \<Longrightarrow> drpcCore d' = drpcCore d" for d'
    by (auto simp: notProtectedYet_def core_setDRPCCondition)
  show ?thesis
    unfolding updateDRPCProtectedCondition_def orElseP_def
    by (auto simp: core_setDRPCCondition split: option.split intro: np helper_Some replication_Some)
qed

lemma core_refreshFromVRG: "drpcCore (refreshFromVRG t c v d) = drpcCore d"
  by (simp add: refreshFromVRG_def Let_def updateDRPCReplicationHealthyCondition_def core_status
      core_setDRPCCondition core_updateDRPCProtectedCondition split: option.split)

lemma pres_getVRG [pres_rules]: "pres I (getVRG ns c b)"
  unfolding getVRG_def
  by (intro pres_rules pres_modInst) (simp add: updateProtectedConditionUnknown_def core_setDRPCCondition)

lemma pres_updateResourceCondition [pres_rules]: "pres I (updateResourceCondition b)"
  unfolding updateResourceCondition_def
  by (intro pres_rules pres_modifyM)
     (auto simp: Let_def core_refreshFromVRG intro!: I_inst pres_putVrg)

lemma pres_updateDRPCStatus [pres_rules]: "pres I (updateDRPCStatus b)"
  unfolding updateDRPCStatus_def
  by (intro pres_rules pres_modInst pres_modifyM I_savedDRActionCount I_serverStatus core_sync)
     (simp_all add: observeGeneration_def core_status)

lemma pres_recordFailure [pres_rules]: "pres I (recordFailure r m)"
  unfolding recordFailure_def by (intro pres_rules)

end

locale hub_invariant = works_invariant + stored_status_invariant +
  assumes I_requeueAfter: "I s \<Longrightarrow> I (s\<lparr>requeueAfter := t\<rparr>)"
    and I_putMW: "I s \<Longrightarrow> (name = BuildManifestWorkName s ''vrg'' \<Longrightarrow> mwPrim mw \<Longrightarrow> mwPrimary s c)
                   \<Longrightarrow> I (putMW name c mw s)"
begin

lemma pres_updatePreferredDecision [pres_rules]: "pres I updatePreferredDecision"
  unfolding updatePreferredDecision_def by (rule pres_modInst) (simp add: drpcCore_def)

lemma pres_ensurePlacement [pres_rules]: "pres I (ensurePlacement c)"
  unfolding ensurePlacement_def by (intro pres_rules pres_modInst core_annotatePlacement)

end

section \<open>ManifestWorks that do not promote\<close>

context hub_invariant
begin

text \<open>Rewriting the VRG of a ManifestWork that was just read, without promoting it.\<close>

lemma I_rewrite:
  assumes "I s" "manifestWorks s (ManifestWorkName (dName (inst s)) (vrgNamespace s) ''vrg'', c) = Some mw"
    "ExtractVRGFromManifestWork mw = Inr v" "isVRGPrimary v' \<Longrightarrow> isVRGPrimary v"
  shows "I (putMW name c (mw\<lparr>mwManifests := (mwManifests mw)[0 := VRGManifest v']\<rparr>) s)"
proof (rule I_putMW [OF assms(1)])
  obtain ms where ms: "mwManifests mw = VRGManifest v # ms" using assms(3) by (auto simp: Extract_Inr)
  assume "mwPrim (mw\<lparr>mwManifests := (mwManifests mw)[0 := VRGManifest v']\<rparr>)"
  then have "isVRGPrimary v'" by (simp add: ms)
  then show "mwPrimary s c" using assms by (simp add: mwPrimary_alt mwPrim_def)
qed

lemma I_rewrite_volsync:
  assumes "I s" "manifestWorks s (ManifestWorkName (dName (inst s)) (vrgNamespace s) ''vrg'', c) = Some mw"
    "mwManifests mw = VRGManifest v # ms"
  shows "I (putMW name c (mw\<lparr>mwManifests := VRGManifest (v\<lparr>vSpec := (vSpec v)\<lparr>vVolSync := x\<rparr>\<rparr>) # ms\<rparr>) s)"
  using I_rewrite [OF assms(1,2), of v "v\<lparr>vSpec := (vSpec v)\<lparr>vVolSync := x\<rparr>\<rparr>" name] assms(3)
  by (simp add: Extract_Inr isVRGPrimary_def)

lemma wp_UpdateVRGManifestWork:
  assumes "I s" "manifestWorks s (ManifestWorkName (dName (inst s)) (vrgNamespace s) ''vrg'', c) = Some mw"
    "ExtractVRGFromManifestWork mw = Inr v" "isVRGPrimary v' \<Longrightarrow> isVRGPrimary v"
  shows "wp (UpdateVRGManifestWork v' mw c) (\<lambda>_. I) s"
  unfolding UpdateVRGManifestWork_def using assms
  by (auto simp: I_calls wp_rules intro!: wp_updateMW I_rewrite)

lemma pres_ensureVRGManifestWork [pres_rules]: "pres I (ensureVRGManifestWork c)"
proof (rule presI)
  fix s assume I: "I s"
  have "wp (ensureVRGManifestWork c) (\<lambda>_. I) s"
    unfolding ensureVRGManifestWork_def wp_rules
    by (rule wp_FindManifestWorkByType)
       (auto simp: wp_rules I I_calls isVRGPrimary_def intro!: wp_UpdateVRGManifestWork split: sum.split)
  then show "I (snd (ensureVRGManifestWork c s))" by (simp add: wp_snd)
qed

lemma pres_ResetVolSyncRDOnPrimary [pres_rules]: "pres I (ResetVolSyncRDOnPrimary c)"
proof (rule presI)
  fix s assume I: "I s"
  have "wp (ResetVolSyncRDOnPrimary c) (\<lambda>_. I) s"
    unfolding ResetVolSyncRDOnPrimary_def wp_rules
    by (auto simp: wp_rules I I_calls liftE_def isVRGPrimary_def intro!: wp_FindManifestWorkByType wp_UpdateVRGManifestWork split: sum.split)
  then show "I (snd (ResetVolSyncRDOnPrimary c s))" by (simp add: wp_snd)
qed

lemma pres_ResetVMStaticIPSpecOnPrimary [pres_rules]: "pres I (ResetVMStaticIPSpecOnPrimary c)"
proof (rule presI)
  fix s assume I: "I s"
  have "wp (ResetVMStaticIPSpecOnPrimary c) (\<lambda>_. I) s"
    unfolding ResetVMStaticIPSpecOnPrimary_def wp_rules
    by (auto simp: wp_rules I I_calls liftE_def isVRGPrimary_def setStaticIPTranslationSpec_def
        intro!: wp_FindManifestWorkByType wp_UpdateVRGManifestWork split: sum.split prod.split)
  then show "I (snd (ResetVMStaticIPSpecOnPrimary c s))" by (simp add: wp_snd)
qed

text \<open>\<^verbatim>\<open>updateManifestWork\<close> reads the ManifestWork again before it writes.\<close>

lemma wp_updateManifestWork:
  assumes "I s" "mwVRG s c = Some v" "isVRGPrimary v' \<Longrightarrow> isVRGPrimary v"
  shows "wp (updateManifestWork c v') (\<lambda>_. I) s"
  unfolding updateManifestWork_def using assms
  by (auto simp: wp_rules I_calls mwVRG_def
      intro!: wp_FindManifestWorkByType wp_updateMW I_rewrite split: sum.splits)

lemma mwVRG_calls [simp]: "mwVRG (s\<lparr>calls := n\<rparr>) c = mwVRG s c"
  by (simp add: mwVRG_def)

lemma pres_finalSync [pres_rules]:
  "pres I (updateVRGToPrepareForFinalSync c)" "pres I (updateVRGToRunFinalSync c)"
proof -
  have "wp (updateVRGToPrepareForFinalSync c) (\<lambda>_. I) s" "wp (updateVRGToRunFinalSync c) (\<lambda>_. I) s"
    if "I s" for s
    unfolding updateVRGToPrepareForFinalSync_def updateVRGToRunFinalSync_def
    using that
    by (auto simp: wp_rules I_calls intro!: wp_getVRGFromManifestWork wp_updateManifestWork)
  then show "pres I (updateVRGToPrepareForFinalSync c)" "pres I (updateVRGToRunFinalSync c)"
    by (auto simp: wp_snd intro!: presI)
qed

lemma primary_withReplicationState: "isVRGPrimary (withReplicationState s c st v) \<longleftrightarrow> st = Primary"
  by (simp add: withReplicationState_def Let_def) (simp add: isVRGPrimary_def)

lemma pres_updateVRGState_Secondary [pres_rules]: "pres I (updateVRGState c Secondary)"
proof (rule presI)
  fix s assume I: "I s"
  have "wp (updateVRGState c Secondary) (\<lambda>_. I) s"
    unfolding updateVRGState_def
    by (auto simp: wp_rules I I_calls primary_withReplicationState
        intro!: wp_getVRGFromManifestWork wp_mono [OF wp_updateManifestWork] split: sum.split)
  then show "I (snd (updateVRGState c Secondary s))" by (simp add: wp_snd)
qed

lemma pres_moveVRGsToSecondary [pres_rules]: "pres I (moveVRGsToSecondary cs n)"
  by (induction cs arbitrary: n) (auto intro!: pres_rules)

lemma pres_moveVRGToSecondaryEverywhere [pres_rules]: "pres I moveVRGToSecondaryEverywhere"
  unfolding moveVRGToSecondaryEverywhere_def by (intro pres_rules)

end

section \<open>Secondaries, checks, cleanup and status\<close>

lemma yieldsI: "(\<And>s. wp m (\<lambda>r _. \<forall>x. r = Inr x \<longrightarrow> P x) s) \<Longrightarrow> yields P m"
  by (simp add: yields_def)

lemma primary_resetRDSpec [simp]: "isVRGPrimary (resetRDSpec a b) = isVRGPrimary b"
  by (simp add: resetRDSpec_def isVRGPrimary_def)

lemma primary_updateMoverConfig [simp]: "isVRGPrimary (updateMoverConfig s v) = isVRGPrimary v"
  by (rule core_eqD(2) [OF core_updateMoverConfig])

lemma primary_setAsync [simp]:
  fixes v :: vrg
  shows "isVRGPrimary (v\<lparr>vSpec := (vSpec v)\<lparr>vAsync := a\<rparr>\<rparr>) = isVRGPrimary v"
    "isVRGPrimary (v\<lparr>vSpec := (vSpec v)\<lparr>vSync := b\<rparr>\<rparr>) = isVRGPrimary v"
    "isVRGPrimary (v\<lparr>vSpec := (vSpec v)\<lparr>vVolSync := c\<rparr>\<rparr>) = isVRGPrimary v"
  by (simp_all add: isVRGPrimary_def)

text \<open>The VRG built for the peer is never a primary.\<close>

lemma yields_refreshVRGSecondarySpec: "yields (\<lambda>v. \<not> isVRGPrimary v) (refreshVRGSecondarySpec a b)"
proof (rule yieldsI)
  fix s
  show "wp (refreshVRGSecondarySpec a b) (\<lambda>r _. \<forall>x. r = Inr x \<longrightarrow> \<not> isVRGPrimary x) s"
    unfolding refreshVRGSecondarySpec_def setProgression_def modInst_def
    by (auto simp: wp_rules Let_def intro!: wp_getVRGFromManifestWork split: option.splits dr_type.split)
qed

context hub_invariant
begin

lemma pres_CreateOrUpdateVRGManifestWork_secondary:
  "\<not> isVRGPrimary v \<Longrightarrow> pres I (CreateOrUpdateVRGManifestWork name ns c v ann)"
  unfolding CreateOrUpdateVRGManifestWork_def
  by (intro pres_createOrUpdateManifestWork I_putMW) simp_all

lemma pres_refreshVRGSecondarySpec [pres_rules]: "pres I (refreshVRGSecondarySpec a b)"
  unfolding refreshVRGSecondarySpec_def
  by (intro pres_rules) (auto simp: Let_def intro!: pres_rules split: dr_type.split option.split)

lemma pres_createOrUpdateSecondaryManifestWork [pres_rules]: "pres I (createOrUpdateSecondaryManifestWork a)"
  unfolding createOrUpdateSecondaryManifestWork_def
  by (intro pres_bind_yields [OF _ yields_refreshVRGSecondarySpec]
        pres_CreateOrUpdateVRGManifestWork_secondary pres_rules)

lemma pres_updateVSRGSpec [pres_rules]: "pres I (updateVSRGSpec c v)"
proof (rule presI)
  fix s assume I: "I s"
  have "wp (updateVSRGSpec c v) (\<lambda>_. I) s"
    unfolding updateVSRGSpec_def
    by (auto simp: wp_rules I I_calls
        intro!: wp_FindManifestWork wp_updateMW I_rewrite_volsync split: list.split manifest.split)
  then show "I (snd (updateVSRGSpec c v s))" by (simp add: wp_snd)
qed

lemma pres_updateSourceVSRG [pres_rules]: "pres I (updateSourceVSRG c a b)"
  unfolding updateSourceVSRG_def by (intro pres_rules pres_modifyM pres_putVrg)

lemma pres_ensureVolSyncReplicationSource [pres_rules]: "pres I (ensureVolSyncReplicationSource c)"
  unfolding ensureVolSyncReplicationSource_def by (intro pres_rules)

lemma pres_EnsureVolSyncReplicationSetup [pres_rules]: "pres I (EnsureVolSyncReplicationSetup c)"
  unfolding EnsureVolSyncReplicationSetup_def by (intro pres_rules)

lemma pres_EnsureSecondaryReplicationSetup [pres_rules]: "pres I (EnsureSecondaryReplicationSetup c)"
  unfolding EnsureSecondaryReplicationSetup_def by (intro pres_rules)

text \<open>Checks.\<close>

text \<open>Cleanup.\<close>

lemma pres_cleanupSecondary [pres_rules]: "pres I (cleanupSecondary a b)"
  unfolding cleanupSecondary_def by (intro pres_rules)

lemma pres_cleanupPeers [pres_rules]: "pres I (cleanupPeers a cs)"
  by (induction cs) (auto intro!: pres_rules)

lemma pres_cleanupSecondaries [pres_rules]: "pres I (cleanupSecondaries c)"
  unfolding cleanupSecondaries_def removeTestFailoverAnnotation_def
  by (intro pres_rules pres_modInst) (simp add: drpcCore_def)

lemma pres_EnsureCleanup [pres_rules]: "pres I (EnsureCleanup c)"
  unfolding EnsureCleanup_def by (intro pres_rules)

lemma pres_ensureActionTransition [pres_rules]: "pres I (ensureActionTransition c)"
  unfolding ensureActionTransition_def ensureCleanupAndSecondaryReplicationSetup_def
  by (intro pres_rules)

lemma pres_processTestFailoverFlowIfEnabled [pres_rules]: "pres I processTestFailoverFlowIfEnabled"
  unfolding processTestFailoverFlowIfEnabled_def
  by (intro pres_rules pres_modInst) (simp add: AddAnnotation_def drpcCore_def)

text \<open>The parts of the actions that do not promote.\<close>

lemma pres_isDeployed [pres_rules]: "pres I (isDeployed c)"
  unfolding isDeployed_def by (intro pres_rules)

lemma pres_publishDeployment [pres_rules]: "pres I (publishDeployment c ns)"
  unfolding publishDeployment_def by (intro pres_rules pres_modInst) (simp add: drpcCore_def)

lemma pres_finishInitialDeployment [pres_rules]: "pres I (finishInitialDeployment c)"
  unfolding finishInitialDeployment_def by (intro pres_rules)

lemma pres_failoverInPlace [pres_rules]: "pres I (failoverInPlace c)"
  unfolding failoverInPlace_def by (intro pres_rules pres_modifyM I_requeueAfter)

lemma pres_quiesceAndRunFinalSync [pres_rules]: "pres I (quiesceAndRunFinalSync c)"
  unfolding quiesceAndRunFinalSync_def prepareForFinalSync_def runFinalSync_def
    clearForRelocation_def syncSource_def by (intro pres_rules)

lemma pres_setupRelocation [pres_rules]: "pres I (setupRelocation c)"
  unfolding setupRelocation_def by (intro pres_rules)

lemma pres_reportE [pres_rules]: "pres I m \<Longrightarrow> pres I (reportE m)"
  unfolding reportE_def by (intro pres_rules)

lemma pres_whenConsensus [pres_rules]: "pres I m \<Longrightarrow> pres I (whenConsensus m)"
  unfolding whenConsensus_def by (intro pres_rules)

lemma pres_relocateInPlace [pres_rules]: "pres I (relocateInPlace c)"
  unfolding relocateInPlace_def by (intro pres_rules)

end

section \<open>Promotions\<close>

text \<open>The cluster the DRPC's action asks to be primary.\<close>

definition engineTarget :: "hub \<Rightarrow> string" where
  "engineTarget s =
     (case dAction (spec s) of
        ActionFailover \<Rightarrow> dFailoverCluster (spec s)
      | ActionRelocate \<Rightarrow> dPreferredCluster (spec s)
      | ActionNone \<Rightarrow> dPreferredCluster (spec s))"

locale promotion_target = hub_invariant +
  fixes t :: string and act :: dr_action
  assumes I_promote: "I s \<Longrightarrow> I (putMW name t mw s)"
    and I_action: "I s \<Longrightarrow> dAction (spec s) = act"
    and I_target: "I s \<Longrightarrow> engineTarget s = t"
begin

lemma pres_createVRGManifestWork [pres_rules]: "pres I (createVRGManifestWork t st)"
  unfolding createVRGManifestWork_def CreateOrUpdateVRGManifestWork_def
  by (intro pres_rules pres_createOrUpdateManifestWork I_promote)

lemma pres_updateVRGState_target [pres_rules]: "pres I (updateVRGState t st)"
  unfolding updateVRGState_def updateManifestWork_def by (intro pres_rules pres_write I_promote)

lemma pres_createVRGManifestWorkAsPrimary [pres_rules]: "pres I (createVRGManifestWorkAsPrimary t)"
  unfolding createVRGManifestWorkAsPrimary_def by (intro pres_rules)

lemma pres_switchToCluster [pres_rules]: "pres I (switchToCluster t ns)"
  unfolding switchToCluster_def by (intro pres_rules)

lemma pres_deployNow [pres_rules]: "pres I (deployNow t)"
  unfolding deployNow_def startDeploying_def by (intro pres_rules)

lemma pres_relocate [pres_rules]: "pres I (relocate t ns st)"
  unfolding relocate_def by (intro pres_rules)

lemma pres_startRelocation [pres_rules]: "pres I (startRelocation c t)"
  unfolding startRelocation_def by (intro pres_rules)

text \<open>Where the target is read from the state, the invariant says it is \<open>t\<close>.\<close>

lemma pres_gets_at:
  assumes "\<And>s. I s \<Longrightarrow> P (f s)" "\<And>x. P x \<Longrightarrow> pres I (g x)"
  shows "pres I (bindM (getsM f) g)"
  using assms by (auto simp: pres_def bindM_def getsM_def)

lemma failover_target: "act = ActionFailover \<Longrightarrow> I s \<Longrightarrow> dFailoverCluster (spec s) = t"
  using I_action [of s] I_target [of s] by (simp add: engineTarget_def)

lemma preferred_target: "act \<noteq> ActionFailover \<Longrightarrow> I s \<Longrightarrow> dPreferredCluster (spec s) = t"
  using I_action [of s] I_target [of s] by (cases act) (simp_all add: engineTarget_def)

lemma pres_switchToFailoverCluster:
  assumes "act = ActionFailover"
  shows "pres I switchToFailoverCluster"
  unfolding switchToFailoverCluster_def
  by (rule pres_gets_at [where P = "\<lambda>c. c = t"]) (auto simp: failover_target assms intro!: pres_rules)

lemma pres_RunFailover:
  assumes "act = ActionFailover"
  shows "pres I RunFailover"
  unfolding RunFailover_def startFailover_def
  by (rule pres_gets_at [where P = "\<lambda>p. fst p = t"])
     (auto simp: failover_target assms intro!: pres_rules pres_switchToFailoverCluster)

lemma pres_RunRelocate:
  assumes "act \<noteq> ActionFailover"
  shows "pres I RunRelocate"
  unfolding RunRelocate_def
  by (rule pres_bind [OF pres_gets], rule pres_if [OF pres_ret],
      rule pres_gets_at [where P = "\<lambda>p. fst p = t"])
     (auto simp: preferred_target assms intro!: pres_rules)

lemma pres_RunInitialDeployment:
  assumes "act \<noteq> ActionFailover"
  shows "pres I RunInitialDeployment"
  unfolding RunInitialDeployment_def
  by (rule pres_gets_at [where P = "\<lambda>c. c = t"]) (auto simp: preferred_target assms intro!: pres_rules)

lemma pres_executeAction [pres_rules]: "pres I executeAction"
  unfolding executeAction_def
  by (rule pres_gets_at [where P = "\<lambda>a. a = act"])
     (auto simp: I_action split: dr_action.split
       intro!: pres_RunFailover pres_RunRelocate pres_RunInitialDeployment)

lemma pres_processPlacement [pres_rules]: "pres I processPlacement"
  unfolding processPlacement_def by (intro pres_rules)

lemma pres_startProcessing [pres_rules]: "pres I startProcessing"
  unfolding startProcessing_def by (intro pres_rules)

end

section \<open>The model keeps the contract\<close>

definition primaryWithin :: "hub \<Rightarrow> string set \<Rightarrow> hub \<Rightarrow> bool" where
  "primaryWithin s0 P s \<longleftrightarrow> cfg s = cfg s0 \<and> (\<forall>c. mwPrimary s c \<longrightarrow> mwPrimary s0 c \<or> c \<in> P)"

lemma cfg_mwName: "cfg s = cfg s0 \<Longrightarrow> BuildManifestWorkName s x = BuildManifestWorkName s0 x"
  by (simp add: cfg_def BuildManifestWorkName_def mwuManifestWorkName_def)

lemma engineTarget_cfg: "cfg s = cfg s0 \<Longrightarrow> engineTarget s = engineTarget s0"
  by (simp add: cfg_def engineTarget_def split: dr_action.split)

lemma mwPrimary_putMW:
  "mwPrimary (putMW name c mw s) c' =
     (if name = BuildManifestWorkName s ''vrg'' \<and> c' = c then mwPrim mw else mwPrimary s c')"
  by (auto simp: mwPrimary_alt putMW_def)

lemma mwPrimary_cong:
  "manifestWorks s' = manifestWorks s \<Longrightarrow> BuildManifestWorkName s' ''vrg'' = BuildManifestWorkName s ''vrg''
     \<Longrightarrow> mwPrimary s' c = mwPrimary s c"
  by (simp add: mwPrimary_alt)

lemma cfg_upd [simp]:
  "cfg (s\<lparr>calls := n\<rparr>) = cfg s" "cfg (s\<lparr>serverStatus := st\<rparr>) = cfg s"
  "cfg (s\<lparr>savedDRActionCount := ac\<rparr>) = cfg s" "cfg (s\<lparr>requeueAfter := rt\<rparr>) = cfg s"
  "cfg (s\<lparr>mcvRequestInProgress := b\<rparr>) = cfg s" "cfg (s\<lparr>userPlacement := up\<rparr>) = cfg s"
  "cfg (s\<lparr>placementDecisions := pds\<rparr>) = cfg s" "cfg (putMW name c mw s) = cfg s"
  "drpcCore d = drpcCore (inst s) \<Longrightarrow> cfg (s\<lparr>inst := d\<rparr>) = cfg s"
  "map fst vs = map fst (vrgs s) \<Longrightarrow> cfg (s\<lparr>vrgs := vs\<rparr>) = cfg s"
  by (simp_all add: cfg_def putMW_def drpcCore_def)

lemma mwPrimary_upd [simp]:
  "mwPrimary (s\<lparr>calls := n\<rparr>) c = mwPrimary s c" "mwPrimary (s\<lparr>serverStatus := st\<rparr>) c = mwPrimary s c"
  "mwPrimary (s\<lparr>savedDRActionCount := ac\<rparr>) c = mwPrimary s c" "mwPrimary (s\<lparr>requeueAfter := rt\<rparr>) c = mwPrimary s c"
  "mwPrimary (s\<lparr>mcvRequestInProgress := b\<rparr>) c = mwPrimary s c" "mwPrimary (s\<lparr>userPlacement := up\<rparr>) c = mwPrimary s c"
  "mwPrimary (s\<lparr>placementDecisions := pds\<rparr>) c = mwPrimary s c" "mwPrimary (s\<lparr>vrgs := vs\<rparr>) c = mwPrimary s c"
  "drpcCore d = drpcCore (inst s) \<Longrightarrow> mwPrimary (s\<lparr>inst := d\<rparr>) c = mwPrimary s c"
  by (simp_all add: mwPrimary_alt drpcCore_def)

interpretation pw: hub_invariant "primaryWithin s0 P"
  by unfold_locales (auto simp: primaryWithin_def mwPrimary_putMW dest!: report_core)

interpretation pt: promotion_target "primaryWithin s0 {engineTarget s0}" "engineTarget s0" "dAction (spec s0)"
proof unfold_locales
  fix s name mw assume "primaryWithin s0 {engineTarget s0} s"
  then show "primaryWithin s0 {engineTarget s0} (putMW name (engineTarget s0) mw s)"
    by (auto simp: primaryWithin_def mwPrimary_putMW split: if_splits)
next
  fix s assume "primaryWithin s0 {engineTarget s0} s"
  then have c: "cfg s = cfg s0" by (simp add: primaryWithin_def)
  show "engineTarget s = engineTarget s0" using c by (rule engineTarget_cfg)
  show "dAction (spec s) = dAction (spec s0)" using c by (simp add: cfg_def)
qed

text \<open>
  Reporting leaves everything the guards of a promotion read: the configuration, the cached views,
  the placement, the ManifestWorks and the preferred decision.
\<close>

definition frame where
  "frame (s :: hub) = (cfg s, vrgs s, userPlacement s, placementDecisions s, manifestWorks s, reportCore (inst s))"

lemma frame_upd [simp]:
  "frame (s\<lparr>calls := n\<rparr>) = frame s" "frame (s\<lparr>mcvRequestInProgress := b\<rparr>) = frame s"
  by (simp_all add: frame_def cfg_def)

interpretation rd: read_invariant "\<lambda>s. s\<lparr>calls := 0\<rparr> = k"
  by unfold_locales simp

definition workFrame where
  "workFrame (s :: hub) = (cfg s, vrgs s, reportCore (inst s),
     \<lambda>c. manifestWorks s (ManifestWorkName (dName (inst s)) (vrgNamespace s) ''vrg'', c))"

lemma workFrame_calls [simp]: "workFrame (s\<lparr>calls := n\<rparr>) = workFrame s"
  by (simp add: workFrame_def cfg_def)

interpretation wk: works_invariant "\<lambda>s. workFrame s = k"
  by unfold_locales
    (auto simp: workFrame_def putMW_def cfg_def fun_eq_iff reportCore_def drpcCore_def)

interpretation fr: report_invariant "\<lambda>s. frame s = k"
  by unfold_locales (auto simp: frame_def dest: report_core)

lemma frame_cfg: "frame s' = frame s \<Longrightarrow> cfg s' = cfg s"
  by (simp add: frame_def)

lemma frame_mwPrimary: "frame s' = frame s \<Longrightarrow> mwPrimary s' c = mwPrimary s c"
  by (simp add: frame_def cfg_mwName mwPrimary_alt) (simp add: cfg_def)

section \<open>The ManifestWorks of one cluster\<close>

locale cluster_works = read_invariant +
  fixes c :: string
  assumes I_elsewhere: "dst \<noteq> c \<Longrightarrow> I s \<Longrightarrow> I (putMW name dst mw s)"
begin

lemma pres_write_elsewhere:
  assumes "dst \<noteq> c"
  shows "pres I (updateMW name dst mw)" "pres I (createMW name dst mw)"
proof -
  show "pres I (updateMW name dst mw)"
    unfolding updateMW_def by (intro pres_rules pres_modifyM I_elsewhere assms)
  show "pres I (createMW name dst mw)"
    unfolding createMW_def by (intro pres_rules pres_modifyM I_elsewhere assms)
qed

lemma pres_createOrUpdateManifestWork_elsewhere:
  "dst \<noteq> c \<Longrightarrow> pres I (createOrUpdateManifestWork name mw dst)"
  unfolding createOrUpdateManifestWork_def by (intro pres_rules pres_getMW pres_write_elsewhere)

lemma pres_createNSOnPeers: "pres I (createNSOnPeers c n ann ls dsts)"
  by (induction dsts arbitrary: ls)
     (auto simp: CreateOrUpdateNamespaceManifestWork_def intro!: pres_rules pres_createOrUpdateManifestWork_elsewhere)

lemma pres_createOrUpdateNSForDiscoveredApps: "pres I (createOrUpdateNSForDiscoveredApps c)"
  unfolding createOrUpdateNSForDiscoveredApps_def by (intro pres_rules pres_createNSOnPeers)

end

interpretation mk: cluster_works "\<lambda>s. manifestWorks s (n, c) = k" c
  by unfold_locales (auto simp: putMW_def)

end
