(* ===== verification/Ramen_Faultless.thy ===== *)
theory Ramen_Faultless
  imports Ramen_Invariants
begin

text \<open>
  Reconciles during which no API call fails. The rules \<open>ok_rules\<close> compute what the elementary
  operations do then; on top of them, what a round of the ManifestWork and placement operations
  leaves behind: an object written is the object read back.
\<close>

named_theorems ok_rules "exact weakest preconditions when no API call fails"

definition faultless :: "hub \<Rightarrow> bool" where
  "faultless s \<longleftrightarrow> faults s = (\<lambda>_. None)"

lemma faultless_upd [simp]:
  "faultless (s\<lparr>calls := n\<rparr>) = faultless s" "faultless (s\<lparr>inst := d\<rparr>) = faultless s"
  "faultless (putMW name c mw s) = faultless s" "faultless (s\<lparr>userPlacement := up\<rparr>) = faultless s"
  "faultless (s\<lparr>placementDecisions := pds\<rparr>) = faultless s" "faultless (s\<lparr>vrgs := vs\<rparr>) = faultless s"
  "faultless (putPD p s) = faultless s" "faultless (s\<lparr>manifestWorks := mws\<rparr>) = faultless s"
  by (simp_all add: faultless_def putMW_def putPD_def)

lemma faultless_cfg: "cfg s' = cfg s \<Longrightarrow> faultless s' = faultless s"
  by (simp add: cfg_def faultless_def)

lemma calls_putMW [simp]: "putMW name c mw (s\<lparr>calls := n\<rparr>) = (putMW name c mw s)\<lparr>calls := n\<rparr>"
  by (simp add: putMW_def)

section \<open>Elementary operations\<close>

abbreviation tick :: "hub \<Rightarrow> hub" where
  "tick s \<equiv> s\<lparr>calls := calls s + 1\<rparr>"

lemma ok_apiCall [ok_rules]: "faultless s \<Longrightarrow> wp apiCall Q s = Q (Inr ()) (tick s)"
  by (simp add: wp_def apiCall_def faultless_def)

lemma ok_getMW [ok_rules]:
  "faultless s \<Longrightarrow> wp (getMW name c) Q s =
     (case manifestWorks s (name, c) of
        None \<Rightarrow> Q (Inl (Gerr NotFound (name @ '' not found''))) (tick s)
      | Some mw \<Rightarrow> Q (Inr mw) (tick s))"
  by (simp add: getMW_def wp_rules ok_apiCall split: option.split)

lemma ok_updateMW [ok_rules]:
  "faultless s \<Longrightarrow> wp (updateMW name c mw) Q s =
     (case manifestWorks s (name, c) of
        None \<Rightarrow> Q (Inl (Gerr NotFound (name @ '' not found''))) (tick s)
      | Some _ \<Rightarrow> Q (Inr ()) (putMW name c mw (tick s)))"
  by (simp add: updateMW_def wp_rules ok_apiCall split: option.split)

lemma ok_createMW [ok_rules]:
  "faultless s \<Longrightarrow> wp (createMW name c mw) Q s =
     (case manifestWorks s (name, c) of
        None \<Rightarrow> Q (Inr ()) (putMW name c mw (tick s))
      | Some _ \<Rightarrow> Q (Inl (Gerr AlreadyExists (name @ '' already exists''))) (tick s))"
  by (simp add: createMW_def wp_rules ok_apiCall split: option.split)

lemma ok_FindManifestWorkByType [ok_rules]:
  "faultless s \<Longrightarrow> c \<noteq> [] \<Longrightarrow> manifestWorks s (BuildManifestWorkName s t, c) = Some mw
     \<Longrightarrow> wp (FindManifestWorkByType t c) Q s = Q (Inr mw) (tick s)"
  by (simp add: FindManifestWorkByType_def FindManifestWork_def wp_rules ok_getMW)

lemma ok_getVRGFromManifestWork [ok_rules]:
  assumes "faultless s" "c \<noteq> []" "mwVRG s c = Some v"
  shows "wp (getVRGFromManifestWork c) Q s = Q (Inr v) (tick s)"
proof -
  obtain mw where "manifestWorks s (BuildManifestWorkName s ''vrg'', c) = Some mw"
      "ExtractVRGFromManifestWork mw = Inr v"
    using assms(3) by (auto simp: mwVRG_def split: option.splits sum.splits)
  with assms show ?thesis
    by (simp add: getVRGFromManifestWork_def wp_rules liftE_def ok_FindManifestWorkByType del: Build_simps)
qed

section \<open>Updating the VRG of a ManifestWork\<close>

definition putVRGManifest :: "string \<Rightarrow> vrg \<Rightarrow> hub \<Rightarrow> hub" where
  "putVRGManifest c v s =
     (case manifestWorks s (BuildManifestWorkName s ''vrg'', c) of
        None \<Rightarrow> s
      | Some mw \<Rightarrow> putMW (BuildManifestWorkName s ''vrg'') c
                     (mw\<lparr>mwManifests := (mwManifests mw)[0 := VRGManifest v]\<rparr>) s)"

lemma mwVRG_putVRGManifest:
  assumes "mwVRG s c = Some w"
  shows "mwVRG (putVRGManifest c v s) c' = (if c' = c then Some v else mwVRG s c')"
proof -
  obtain mw where mw: "manifestWorks s (BuildManifestWorkName s ''vrg'', c) = Some mw"
      "ExtractVRGFromManifestWork mw = Inr w"
    using assms by (auto simp: mwVRG_def split: option.splits sum.splits)
  obtain ms where "mwManifests mw = VRGManifest w # ms" using mw(2) by (auto simp: Extract_Inr)
  with mw show ?thesis
    by (simp add: putVRGManifest_def mwVRG_def putMW_def ExtractVRGFromManifestWork_def)
qed

lemma mwVRG_tick [simp]: "mwVRG (s\<lparr>calls := n\<rparr>) c = mwVRG s c"
  by (simp add: mwVRG_def)

lemma putVRGManifest_calls [simp]:
  "putVRGManifest c v (s\<lparr>calls := n\<rparr>) = (putVRGManifest c v s)\<lparr>calls := n\<rparr>"
  by (simp add: putVRGManifest_def split: option.split)

lemma ok_updateManifestWork [ok_rules]:
  assumes "faultless s" "c \<noteq> []" "mwVRG s c = Some w"
  shows "wp (updateManifestWork c v) Q s = Q (Inr ()) ((putVRGManifest c v s)\<lparr>calls := calls s + 2\<rparr>)"
proof -
  obtain mw where "manifestWorks s (BuildManifestWorkName s ''vrg'', c) = Some mw"
    using assms(3) by (auto simp: mwVRG_def split: option.splits)
  with assms(1,2) show ?thesis
    by (simp add: updateManifestWork_def wp_rules ok_rules putVRGManifest_def)
qed

text \<open>The builders of a VRG do not look at the count of calls.\<close>

lemma builders_calls [simp]:
  "vrgOf (s\<lparr>calls := n\<rparr>) c = vrgOf s c"
  "setVRGAction (s\<lparr>calls := n\<rparr>) v = setVRGAction s v"
  "hasGlobalVGRLabel (s\<lparr>calls := n\<rparr>) = hasGlobalVGRLabel s"
  "newVRGSpecSync (s\<lparr>calls := n\<rparr>) = newVRGSpecSync s"
  "newVRGSpecAsync (s\<lparr>calls := n\<rparr>) = newVRGSpecAsync s"
  "updateMoverConfig (s\<lparr>calls := n\<rparr>) v = updateMoverConfig s v"
  "shouldInjectStaticIPTranslationSpec (s\<lparr>calls := n\<rparr>) v = shouldInjectStaticIPTranslationSpec s v"
  "currentPrimaryCluster (s\<lparr>calls := n\<rparr>) = currentPrimaryCluster s"
  "isFailoverPromotion (s\<lparr>calls := n\<rparr>) c = isFailoverPromotion s c"
  by (simp_all add: vrgOf_def setVRGAction_def hasGlobalVGRLabel_def globalVGRLabel_def newVRGSpecSync_def
      newVRGSpecAsync_def updateMoverConfig_def shouldInjectStaticIPTranslationSpec_def
      currentPrimaryCluster_def isFailoverPromotion_def Let_def split: dr_action.split option.split)

lemma annotations_calls [simp]: "setVRGAnnotations (s\<lparr>calls := n\<rparr>) v c = setVRGAnnotations s v c"
  by (simp only: setVRGAnnotations_def builders_calls) (simp add: globalVGRLabel_def Let_def)

lemma specFields_calls [simp]: "setVRGSpecFields (s\<lparr>calls := n\<rparr>) v = setVRGSpecFields s v"
  by (simp add: setVRGSpecFields_def)

lemma typeSpec_calls [simp]:
  "updateVRGDRTypeSpecIfNeeded (s\<lparr>calls := n\<rparr>) v w = updateVRGDRTypeSpecIfNeeded s v w"
  by (simp only: updateVRGDRTypeSpecIfNeeded_def updateVRGDRTypeSpec_def updateVRGSyncSpec_def updateVRGAsyncSpec_def
      builders_calls) (simp add: Let_def split: option.split dr_type.split)

lemma mover_calls [simp]: "updateMoverConfigIfNeeded (s\<lparr>calls := n\<rparr>) v = updateMoverConfigIfNeeded s v"
  by (simp add: updateMoverConfigIfNeeded_def)

lemma staticIP_calls [simp]:
  "buildStaticIPTranslationSpec (s\<lparr>calls := n\<rparr>) a b = buildStaticIPTranslationSpec s a b"
  "updateVRGStaticIPTranslationSpec (s\<lparr>calls := n\<rparr>) v c = updateVRGStaticIPTranslationSpec s v c"
proof -
  show b: "buildStaticIPTranslationSpec (s\<lparr>calls := n\<rparr>) a b = buildStaticIPTranslationSpec s a b" for a b
    by (simp only: buildStaticIPTranslationSpec_def builders_calls) (simp add: Let_def split: option.split list.split)
  show "updateVRGStaticIPTranslationSpec (s\<lparr>calls := n\<rparr>) v c = updateVRGStaticIPTranslationSpec s v c"
    by (simp only: updateVRGStaticIPTranslationSpec_def builders_calls b)
qed

lemma withReplicationState_calls [simp]:
  "withReplicationState (s\<lparr>calls := n\<rparr>) c st v = withReplicationState s c st v"
  by (simp only: withReplicationState_def updateVRGOptionalFields_def builders_calls annotations_calls
      specFields_calls typeSpec_calls mover_calls staticIP_calls)

lemma withReplicationState_fields:
  "vReplicationState (vSpec (withReplicationState s c st v)) = st"
  "(vPrepareForFinalSync (vSpec (withReplicationState s c st v)), vRunFinalSync (vSpec (withReplicationState s c st v)))
     = (if st = Secondary \<or> isFailoverPromotion s c then (False, False)
        else (vPrepareForFinalSync (vSpec v), vRunFinalSync (vSpec v)))"
  "(vName (withReplicationState s c st v), vNamespace (withReplicationState s c st v),
    vPVCSelector (vSpec (withReplicationState s c st v)), vStatus (withReplicationState s c st v),
    vsRDSpec (vVolSync (vSpec (withReplicationState s c st v))))
     = (vName v, vNamespace v, vPVCSelector (vSpec v), vStatus v, vsRDSpec (vVolSync (vSpec v)))"
proof -
  let ?v2 = "updateVRGOptionalFields s (setVRGAction s (v\<lparr>vSpec := (vSpec v)\<lparr>vReplicationState := st\<rparr>\<rparr>)) (vrgOf s c) c"
  have "vrgCore ?v2 = vrgCore (v\<lparr>vSpec := (vSpec v)\<lparr>vReplicationState := st\<rparr>\<rparr>)"
    by (simp add: core_updateVRGOptionalFields core_setVRGAction)
  then have "vReplicationState (vSpec ?v2) = st" "vPrepareForFinalSync (vSpec ?v2) = vPrepareForFinalSync (vSpec v)"
      "vRunFinalSync (vSpec ?v2) = vRunFinalSync (vSpec v)" "vName ?v2 = vName v" "vNamespace ?v2 = vNamespace v"
      "vPVCSelector (vSpec ?v2) = vPVCSelector (vSpec v)" "vStatus ?v2 = vStatus v"
      "vsRDSpec (vVolSync (vSpec ?v2)) = vsRDSpec (vVolSync (vSpec v))"
    by (simp_all add: vrgCore_def)
  then show "vReplicationState (vSpec (withReplicationState s c st v)) = st"
    "(vPrepareForFinalSync (vSpec (withReplicationState s c st v)), vRunFinalSync (vSpec (withReplicationState s c st v)))
     = (if st = Secondary \<or> isFailoverPromotion s c then (False, False)
        else (vPrepareForFinalSync (vSpec v), vRunFinalSync (vSpec v)))"
    "(vName (withReplicationState s c st v), vNamespace (withReplicationState s c st v),
      vPVCSelector (vSpec (withReplicationState s c st v)), vStatus (withReplicationState s c st v),
      vsRDSpec (vVolSync (vSpec (withReplicationState s c st v))))
     = (vName v, vNamespace v, vPVCSelector (vSpec v), vStatus v, vsRDSpec (vVolSync (vSpec v)))"
    by (simp_all add: withReplicationState_def Let_def)
qed

lemma ok_updateVRGState [ok_rules]:
  assumes "faultless s" "c \<noteq> []" "mwVRG s c = Some v"
  shows "wp (updateVRGState c st) Q s =
     (if vReplicationState (vSpec v) = st then Q (Inr False) (tick s)
      else Q (Inr True) ((putVRGManifest c (withReplicationState s c st v) s)\<lparr>calls := calls s + 3\<rparr>))"
  using assms by (simp add: updateVRGState_def wp_rules ok_rules numeral_3_eq_3)

lemma ok_createVRGManifestWorkAsPrimary [ok_rules]:
  assumes "faultless s" "c \<noteq> []" "mwVRG s c = Some v" "\<not> isVRGPrimary v"
  shows "wp (createVRGManifestWorkAsPrimary c) Q s =
     Q (Inr True) ((putVRGManifest c (withReplicationState s c Primary v) s)\<lparr>calls := calls s + 4\<rparr>)"
  using assms by (simp add: createVRGManifestWorkAsPrimary_def wp_rules ok_rules isVRGPrimary_def ac_simps)

section \<open>The placement decision\<close>

definition decisionObjects :: "hub \<Rightarrow> string \<Rightarrow> pd_object list" where
  "decisionObjects s placement =
     filter (\<lambda>p. map_of (poLabels p) PlacementLabel = Some placement) (placementDecisions s)"

definition decisionIn :: "pd_object list \<Rightarrow> cluster_decision" where
  "decisionIn items =
     (case items of
        [p] \<Rightarrow> (case activeDecisions (poDecisions p) of [d] \<Rightarrow> d | _ \<Rightarrow> noDecision)
      | _ \<Rightarrow> noDecision)"

definition currentDecision :: "hub \<Rightarrow> cluster_decision" where
  "currentDecision s =
     (case userPlacement s of
        PlacementRule ds \<Rightarrow> getClusterDecisionFromPlacementRule ds
      | Placement n \<Rightarrow> decisionIn (decisionObjects s n)
      | OtherPlacement \<Rightarrow> noDecision)"

definition goodObjects :: "pd_object list \<Rightarrow> bool" where
  "goodObjects items \<longleftrightarrow> length items \<le> 1 \<and> list_all (\<lambda>p. length (activeDecisions (poDecisions p)) \<le> 1) items"

lemma ok_getPlacementDecisionFromPlacement [ok_rules]:
  assumes "faultless s"
  shows "wp (getPlacementDecisionFromPlacement n) Q s \<longleftrightarrow>
     (if goodObjects (decisionObjects s n)
      then Q (Inr (case decisionObjects s n of [] \<Rightarrow> None | p # _ \<Rightarrow> Some p)) (tick s)
      else (\<exists>m. Q (Inl (newE m)) (tick s) \<and>
              m = (if length (decisionObjects s n) > 1 then ''multiple PlacementDecisions found for Placement''
                   else ''multiple placements found in PlacementDecision'')))"
proof (cases "decisionObjects s n")
  case Nil
  with assms show ?thesis
    by (simp add: getPlacementDecisionFromPlacement_def wp_rules ok_rules decisionObjects_def goodObjects_def)
next
  case (Cons p ps)
  with assms show ?thesis
    by (auto simp: getPlacementDecisionFromPlacement_def wp_rules ok_rules decisionObjects_def goodObjects_def)
qed

lemma ok_getClusterDecision [ok_rules]:
  assumes "faultless s"
  shows "wp getClusterDecision Q s =
     Q (Inr (currentDecision s)) (case userPlacement s of Placement _ \<Rightarrow> tick s | _ \<Rightarrow> s)"
proof -
  have "wp (getClusterDecisionFromPlacement n) Q s = Q (Inr (decisionIn (decisionObjects s n))) (tick s)" for n
    unfolding getClusterDecisionFromPlacement_def wp_bind wp_attempt ok_getPlacementDecisionFromPlacement [OF assms]
    by (auto simp: wp_rules decisionIn_def goodObjects_def noDecision_def split: list.split)
  then show ?thesis
    by (simp add: getClusterDecision_def wp_rules currentDecision_def split: user_placement.split)
qed

lemma ok_updatePD [ok_rules]:
  "faultless s \<Longrightarrow> wp (updatePD p) Q s =
     (if poName p \<in> set (map poName (placementDecisions s)) then Q (Inr ()) (putPD p (tick s))
      else Q (Inl (Gerr NotFound (poName p @ '' not found''))) (tick s))"
  by (simp add: updatePD_def wp_rules ok_apiCall)

lemma filter_putPD:
  assumes "distinct (map poName xs)" "filter P xs = [p]" "P p'" "poName p' = poName p"
  shows "filter P (map (\<lambda>q. if poName q = poName p' then p' else q) xs) = [p']"
  using assms
proof (induction xs)
  case (Cons x xs)
  show ?case
  proof (cases "P x")
    case True
    with Cons.prems have x: "x = p" "filter P xs = []" by simp_all
    have "map (\<lambda>q. if poName q = poName p' then p' else q) xs = xs"
      using Cons.prems(1,4) x(1) by (intro map_idI) (force simp: image_iff)
    with x Cons.prems show ?thesis by simp
  next
    case False
    have "p \<in> set xs" using Cons.prems(2) False by (auto simp: filter_eq_Cons_iff)
    then have "poName x \<noteq> poName p'" using Cons.prems(1,4) by auto
    with False Cons show ?thesis by simp
  qed
qed simp

lemma decisionObjects_putPD:
  assumes "distinct (map poName (placementDecisions s))" "decisionObjects s n = [p]"
    "map_of (poLabels p') PlacementLabel = Some n" "poName p' = poName p"
  shows "decisionObjects (putPD p' s) n = [p']"
  using filter_putPD [OF assms(1) assms(2) [unfolded decisionObjects_def] assms(3,4)]
  by (simp add: decisionObjects_def putPD_def)

lemma names_putPD [simp]: "map poName (placementDecisions (putPD p s)) = map poName (placementDecisions s)"
  by (simp add: putPD_def comp_def)

lemma pds_calls [simp]:
  "decisionObjects (s\<lparr>calls := k\<rparr>) n = decisionObjects s n" "putPD p (s\<lparr>calls := k\<rparr>) = (putPD p s)\<lparr>calls := k\<rparr>"
  "currentDecision (s\<lparr>calls := k\<rparr>) = currentDecision s" "userPlacement (putPD p s) = userPlacement s"
  by (simp_all add: decisionObjects_def putPD_def currentDecision_def split: user_placement.split)

text \<open>A PlacementDecision created is a fresh object at the end of the list.\<close>

lemma createPDLoop_fresh:
  assumes "faultless s"
  shows "wp (createPDLoop n ls k) (\<lambda>r s'. \<forall>p. r = Inr p \<longrightarrow> faultless s' \<and> userPlacement s' = userPlacement s
     \<and> placementDecisions s' = placementDecisions s @ [p]
     \<and> poName p \<notin> set (map poName (placementDecisions s)) \<and> poLabels p = ls \<and> poDecisions p = []) s"
  using assms
proof (induction k arbitrary: s)
  case (Suc k)
  show ?case
    using Suc.prems Suc.IH [of "s\<lparr>calls := Suc (calls s)\<rparr>"]
    by (auto simp: Let_def wp_rules createPD_def ok_apiCall)
qed (simp add: wp_rules)

text \<open>Storing a decision in the one object of a placement, and reading it back.\<close>

lemma store_decision:
  assumes "faultless s" "distinct (map poName (placementDecisions s))" "userPlacement s = Placement n"
    "decisionObjects s n = [p]" "\<not> retained d" "poName p' = poName p"
    "map_of (poLabels p') PlacementLabel = Some n"
  shows "wp (updatePD (p'\<lparr>poDecisions := setDecision (Some d) ds\<rparr>))
     (\<lambda>r s'. r = Inr () \<and> faultless s' \<and> currentDecision s' = d) s"
proof -
  let ?q = "p'\<lparr>poDecisions := setDecision (Some d) ds\<rparr>"
  have "p \<in> set (placementDecisions s)"
    using assms(4) by (auto simp: decisionObjects_def filter_eq_Cons_iff)
  moreover have "decisionObjects (putPD ?q s) n = [?q]"
    by (rule decisionObjects_putPD [OF assms(2,4)]) (use assms(6,7) in simp_all)
  ultimately show ?thesis
    using assms(1,3,5,6) by (simp add: ok_rules currentDecision_def decisionIn_def active_setDecision)
qed

lemma one_object:
  "goodObjects (decisionObjects s n) \<Longrightarrow> decisionObjects s n = [] \<or> (\<exists>p. decisionObjects s n = [p])"
  by (cases "decisionObjects s n") (simp_all add: goodObjects_def)

lemma object_label: "decisionObjects s n = [p] \<Longrightarrow> map_of (poLabels p) PlacementLabel = Some n"
  by (auto simp: decisionObjects_def filter_eq_Cons_iff)

lemma placement_labels_apart [simp]: "PlacementLabel \<noteq> ExcludeFromVeleroBackup"
  by (simp add: PlacementLabel_def ExcludeFromVeleroBackup_def)

lemma createOrUpdatePlacementDecision_stores:
  assumes "faultless s" "distinct (map poName (placementDecisions s))" "userPlacement s = Placement n" "\<not> retained d"
  shows "wp (createOrUpdatePlacementDecision n (Some d)) (\<lambda>r s'. r = Inr () \<longrightarrow> faultless s' \<and> currentDecision s' = d) s"
proof (cases "goodObjects (decisionObjects s n)")
  case False
  with assms show ?thesis
    by (simp add: createOrUpdatePlacementDecision_def wp_rules ok_rules)
next
  case True
  let ?post = "\<lambda>r s'. r = Inr () \<longrightarrow> faultless s' \<and> currentDecision s' = d"
  have store: "wp (catchM (updatePD (p'\<lparr>poDecisions := setDecision (Some d) ds\<rparr>)) (\<lambda>e. failM (f e))) ?post s'"
    if "faultless s'" "distinct (map poName (placementDecisions s'))" "userPlacement s' = Placement n"
      "decisionObjects s' n = [p]" "poName p' = poName p" "map_of (poLabels p') PlacementLabel = Some n" for s' p p' ds f
    unfolding wp_catch
    by (rule wp_mono [OF store_decision [OF that(1-4) assms(4) that(5,6)]]) simp
  consider (none) "decisionObjects s n = []" | (one) p where "decisionObjects s n = [p]"
    using one_object [OF True] by blast
  then show ?thesis
  proof cases
    case none
    define ls where "ls = sm_of_list [(PlacementLabel, n), (ExcludeFromVeleroBackup, ''true''), (CreatedByRamenLabel, ''true'')]"
    have "map_of ls PlacementLabel = Some n"
      by (simp add: ls_def map_of_sm_put)
    then show ?thesis
      using assms none True
      unfolding createOrUpdatePlacementDecision_def createPlacementDecision_def wp_bind ok_getPlacementDecisionFromPlacement [OF assms(1)]
        ls_def [symmetric]
      by (auto intro!: wp_mono [OF createPDLoop_fresh] store simp: decisionObjects_def split: sum.split)
  next
    case (one p)
    note label = object_label [OF one]
    have mem: "poName p \<in> set (map poName (placementDecisions s))"
      using one by (auto simp: decisionObjects_def filter_eq_Cons_iff)
    let ?p' = "p\<lparr>poLabels := sm_put ExcludeFromVeleroBackup ''true'' (poLabels p)\<rparr>"
    have again: "decisionObjects (putPD ?p' s) n = [?p']"
      by (rule decisionObjects_putPD [OF assms(2) one]) (use label in \<open>simp_all add: map_of_sm_put\<close>)
    have "map_of (poLabels ?p') PlacementLabel = Some n" using label by (simp add: map_of_sm_put)
    then show ?thesis
      using assms one True label again mem
      unfolding createOrUpdatePlacementDecision_def wp_bind ok_getPlacementDecisionFromPlacement [OF assms(1)]
      by (auto simp: Let_def wp_seq wp_ret ok_updatePD intro!: store split: sum.split)
  qed
qed

lemma updateUserPlacementRule_stores:
  assumes "faultless s" "distinct (map poName (placementDecisions s))" "r \<noteq> FailoverRetained"
  shows "wp (updateUserPlacementRule c r) (\<lambda>res s'. res = Inr () \<longrightarrow> faultless s' \<and> cdClusterName (currentDecision s') = c) s"
proof (cases "userPlacement s")
  case (PlacementRule ds)
  with assms(1) show ?thesis
    by (auto simp: updateUserPlacementRule_def updateUserPlacementStatusDecision_def createOrUpdatePlacementRuleDecision_def
        wp_rules ok_rules Let_def currentDecision_def getClusterDecisionFromPlacementRule_def)
next
  case (Placement n)
  have "\<not> retained \<lparr>cdClusterName = c, cdReason = r\<rparr>" using assms(3) by (simp add: retained_def)
  note stores = createOrUpdatePlacementDecision_stores [OF assms(1,2) Placement this]
  show ?thesis
    unfolding updateUserPlacementRule_def updateUserPlacementStatusDecision_def wp_bind wp_gets sum.case
    by (simp add: Placement) (rule wp_mono [OF stores], simp)
qed (simp add: updateUserPlacementRule_def updateUserPlacementStatusDecision_def wp_rules)

section \<open>Creating or updating a ManifestWork\<close>

lemma createOrUpdateManifestWork_writes:
  assumes "faultless s" "0 < conflictRetries s"
  shows "wp (createOrUpdateManifestWork name mw c) (\<lambda>r s'. (\<exists>res. r = Inr res) \<and> faultless s'
     \<and> (\<exists>m. manifestWorks s' = (manifestWorks s)((name, c) \<mapsto> m)
            \<and> mwManifests m = mwManifests mw \<and> mwOrphan m = mwOrphan mw)) s"
proof -
  obtain n where n: "conflictRetries s = Suc n" using assms(2) gr0_implies_Suc by blast
  show ?thesis
  proof (cases "manifestWorks s (name, c)")
    case None
    with assms(1) show ?thesis
      by (auto simp: createOrUpdateManifestWork_def wp_rules ok_rules IsNotFound_def putMW_def)
  next
    case (Some m)
    with assms(1) n show ?thesis
      by (auto simp: createOrUpdateManifestWork_def wp_rules ok_rules putMW_def fun_eq_iff)
  qed
qed

lemma createOrUpdateManifestWork_same:
  assumes "faultless s" "manifestWorks s (name, c) = Some m" "mwManifests m = mwManifests mw" "mwOrphan m = mwOrphan mw"
  shows "wp (createOrUpdateManifestWork name mw c) (\<lambda>r s'. r = Inr OperationResultNone \<and> s' = tick s) s"
  using assms by (simp add: createOrUpdateManifestWork_def wp_rules ok_rules)

end
