(* ===== verification/Ramen_Failover.thy ===== *)
theory Ramen_Failover
  imports Ramen_Faultless
begin

text \<open>
  Failover: what has to hold before a cluster is asked to become primary by \<^verbatim>\<open>RunFailover\<close>, and that
  it does become primary then. The current home cluster is the one the placement names, else the
  preferred decision, else the peer; in Metro DR it must be fenced, in Regional DR the storage of the
  failover cluster must be in the maintenance modes the last known primary asks for. When the placement
  cannot be read, \<^verbatim>\<open>getCurrentHomeClusterName\<close> takes the next of the three for it, so the home cluster is
  only known to be one of them (\<open>homeCandidates\<close>).
\<close>

definition promoted :: "'a hubm \<Rightarrow> hub \<Rightarrow> string set" where
  "promoted m s = {c. mwPrimary (snd (m s)) c \<and> \<not> mwPrimary s c}"

definition placementNames :: "hub \<Rightarrow> string list" where
  "placementNames s =
     (case userPlacement s of
        PlacementRule ds \<Rightarrow> map pdClusterName (take 1 ds)
      | Placement n \<Rightarrow>
          concat (map (\<lambda>p. map cdClusterName (activeDecisions (poDecisions p)))
            (filter (\<lambda>p. map_of (poLabels p) PlacementLabel = Some n) (placementDecisions s)))
      | OtherPlacement \<Rightarrow> [])"

definition homeCluster :: "hub \<Rightarrow> string" where
  "homeCluster s =
     (if cdClusterName (currentDecision s) \<noteq> [] then cdClusterName (currentDecision s)
      else if pdClusterName (sPreferredDecision (status s)) \<noteq> [] then pdClusterName (sPreferredDecision (status s))
      else case find (\<lambda>dc. dcName dc \<noteq> dFailoverCluster (spec s)) (drClusters s) of
             None \<Rightarrow> [] | Some dc \<Rightarrow> dcName dc)"

definition homeCandidates :: "hub \<Rightarrow> string list" where
  "homeCandidates s =
     filter (\<lambda>h. h \<noteq> [])
       (if faultless s then [homeCluster s]
        else placementNames s @ [pdClusterName (sPreferredDecision (status s))]
             @ map dcName (filter (\<lambda>dc. dcName dc \<noteq> dFailoverCluster (spec s)) (drClusters s)))"

definition failoverPrereq :: "hub \<Rightarrow> string \<Rightarrow> bool" where
  "failoverPrereq s h =
     (if drType s = DRTypeSync then checkClusterFenced h (drClusters s) = Inr True
      else regionalPrerequisitesMet s)"

section \<open>What the guards read is not changed by reporting\<close>

lemma wp_True [simp]: "wp m (\<lambda>r s'. True) s"
  by (simp add: wp_def split: prod.split)

lemma wp_framed:
  "(\<And>k. pres (\<lambda>s. frame s = k) m) \<Longrightarrow> (\<And>r s'. frame s' = frame s \<Longrightarrow> Q r s') \<Longrightarrow> wp m Q s"
  by (rule wp_mono [OF pres_wp [where I = "\<lambda>s'. frame s' = frame s"]]) simp_all

lemma wp_read:
  "(\<And>k. pres (\<lambda>s. s\<lparr>calls := 0\<rparr> = k) m) \<Longrightarrow> (\<And>r n. Q r (s\<lparr>calls := n\<rparr>)) \<Longrightarrow> wp m Q s"
proof (rule wpI)
  fix r s'
  assume p: "\<And>k. pres (\<lambda>s. s\<lparr>calls := 0\<rparr> = k) m" and q: "\<And>r n. Q r (s\<lparr>calls := n\<rparr>)" and r: "m s = (r, s')"
  have "s'\<lparr>calls := 0\<rparr> = s\<lparr>calls := 0\<rparr>"
    using presD [OF p [of "s\<lparr>calls := 0\<rparr>"], of s] r by simp
  then have "s' = s\<lparr>calls := calls s'\<rparr>" by (cases s, cases s') simp
  then show "Q r s'" using q by metis
qed

lemma frameD:
  assumes "frame s' = frame s"
  shows "cfg s' = cfg s" "vrgs s' = vrgs s" "userPlacement s' = userPlacement s"
    "placementDecisions s' = placementDecisions s" "manifestWorks s' = manifestWorks s"
    "reportCore (inst s') = reportCore (inst s)"
  using assms by (simp_all add: frame_def)

lemma cfgD:
  assumes "cfg s' = cfg s"
  shows "dSpec (inst s') = dSpec (inst s)" "drPolicy s' = drPolicy s" "drClusters s' = drClusters s" "drType s' = drType s"
    "environ s' = environ s" "vrgNamespace s' = vrgNamespace s" "dName (inst s') = dName (inst s)"
    "dNamespace (inst s') = dNamespace (inst s)" "clock s' = clock s" "faults s' = faults s"
    "volSyncDisabled s' = volSyncDisabled s" "dGeneration (inst s') = dGeneration (inst s)"
  using assms by (simp_all add: cfg_def)

lemma frame_guards:
  assumes "frame s' = frame s"
  shows "homeCandidates s' = homeCandidates s" "failoverPrereq s' = failoverPrereq s"
    "regionalPrerequisitesMet s' = regionalPrerequisitesMet s" "placementNames s' = placementNames s"
    "hasGlobalVGRLabel s' = hasGlobalVGRLabel s" "pendingDRPCs s' = pendingDRPCs s"
    "groupSyncLags s' = groupSyncLags s" "homeCluster s' = homeCluster s" "currentDecision s' = currentDecision s"
proof -
  note f = frameD [OF assms] cfgD [OF frame_cfg [OF assms]]
  have d: "dLabels (inst s') = dLabels (inst s)"
    "sPreferredDecision (status s') = sPreferredDecision (status s)"
    "sLastGroupSyncTime (status s') = sLastGroupSyncTime (status s)"
    using f(6) by (simp_all add: reportCore_def)
  have c: "currentDecision s' = currentDecision s"
    by (simp add: currentDecision_def decisionObjects_def f split: user_placement.split)
  then have h: "homeCluster s' = homeCluster s" by (simp add: homeCluster_def f d)
  show "homeCluster s' = homeCluster s" "currentDecision s' = currentDecision s" using c h by simp_all
  show "placementNames s' = placementNames s" by (simp add: placementNames_def f split: user_placement.split)
  then show "homeCandidates s' = homeCandidates s"
    by (simp add: homeCandidates_def f d h faultless_cfg [OF f(1)])
  show r: "regionalPrerequisitesMet s' = regionalPrerequisitesMet s"
    by (simp add: regionalPrerequisitesMet_def requiresRegionalFailoverPrerequisites_def f
        split: option.split prod.split)
  show "failoverPrereq s' = failoverPrereq s" by (simp add: failoverPrereq_def fun_eq_iff r f)
  show "hasGlobalVGRLabel s' = hasGlobalVGRLabel s" "pendingDRPCs s' = pendingDRPCs s"
    by (simp_all add: hasGlobalVGRLabel_def globalVGRLabel_def pendingDRPCs_def f d)
  show "groupSyncLags s' = groupSyncLags s" by (simp add: groupSyncLags_def f d split: option.split sum.split)
qed

section \<open>The current home cluster and its prerequisites\<close>

lemma getClusterDecision_names:
  "wp getClusterDecision (\<lambda>r s'. \<forall>cd. r = Inr cd \<longrightarrow> cdClusterName cd \<noteq> [] \<longrightarrow> cdClusterName cd \<in> set (placementNames s)) s"
proof -
  have "wp (getPlacementDecisionFromPlacement n)
      (\<lambda>r s'. \<forall>p. r = Inr (Some p) \<longrightarrow> p \<in> set (filter (\<lambda>p. map_of (poLabels p) PlacementLabel = Some n) (placementDecisions s))) s" for n
    unfolding getPlacementDecisionFromPlacement_def
    by (auto simp: wp_rules intro!: wp_apiCall) (metis (mono_tags, lifting) hd_in_set mem_Collect_eq set_filter)+
  note pd = wp_mono [OF this]
  show ?thesis
    unfolding getClusterDecision_def getClusterDecisionFromPlacement_def
    by (auto simp: wp_rules placementNames_def getClusterDecisionFromPlacementRule_def noDecision_def
        split: user_placement.split list.split option.split sum.split
        intro!: pd) (metis list.set_intros(1) image_eqI)
qed

lemma ok_getCurrentHomeClusterName [ok_rules]:
  "faultless s \<Longrightarrow> wp (getCurrentHomeClusterName (dFailoverCluster (spec s))) Q s =
     Q (Inr (homeCluster s)) (case userPlacement s of Placement _ \<Rightarrow> tick s | _ \<Rightarrow> s)"
  by (auto simp: getCurrentHomeClusterName_def wp_rules ok_rules homeCluster_def split: user_placement.split option.split)

lemma getCurrentHomeClusterName_candidate:
  "wp (getCurrentHomeClusterName (dFailoverCluster (spec s)))
     (\<lambda>r s'. frame s' = frame s \<and> (\<forall>h. r = Inr h \<longrightarrow> h \<noteq> [] \<longrightarrow> h \<in> set (homeCandidates s))) s"
proof (rule wp_conj)
  show "wp (getCurrentHomeClusterName (dFailoverCluster (spec s))) (\<lambda>r s'. frame s' = frame s) s"
    by (rule pres_wp [OF fr.pres_getCurrentHomeClusterName refl])
  have "wp getClusterDecision (\<lambda>r s'. frame s' = frame s \<and>
      (\<forall>cd. r = Inr cd \<longrightarrow> cdClusterName cd \<noteq> [] \<longrightarrow> cdClusterName cd \<in> set (placementNames s))) s"
    by (rule wp_conj [OF pres_wp [OF fr.pres_getClusterDecision refl] getClusterDecision_names])
  then have named: "wp (getCurrentHomeClusterName (dFailoverCluster (spec s)))
      (\<lambda>r s'. \<forall>h. r = Inr h \<longrightarrow> h \<noteq> [] \<longrightarrow> h \<in> set (homeCandidates s)) s" if "\<not> faultless s"
    unfolding getCurrentHomeClusterName_def wp_rules
  proof (rule wp_mono, goal_cases)
    case (1 r s')
    note f = frameD [OF conjunct1 [OF 1]] cfgD [OF frame_cfg [OF conjunct1 [OF 1]]]
    have "sPreferredDecision (status s') = sPreferredDecision (status s)"
      using f(6) by (simp add: reportCore_def)
    with 1 f that show ?case
      by (auto simp: wp_rules homeCandidates_def find_Some_iff split: sum.split option.split)
  qed
  show "wp (getCurrentHomeClusterName (dFailoverCluster (spec s)))
      (\<lambda>r s'. \<forall>h. r = Inr h \<longrightarrow> h \<noteq> [] \<longrightarrow> h \<in> set (homeCandidates s)) s"
    using named by (cases "faultless s") (simp_all add: ok_getCurrentHomeClusterName homeCandidates_def)
qed

lemma checkFailoverPrerequisites_met:
  "wp (checkFailoverPrerequisites h) (\<lambda>r s'. frame s' = frame s \<and> (r = Inr True \<longrightarrow> failoverPrereq s h)) s"
proof (rule wp_conj)
  show "wp (checkFailoverPrerequisites h) (\<lambda>r s'. frame s' = frame s) s"
    by (rule pres_wp [OF fr.pres_checkFailoverPrerequisites refl])
  have "wp (checkMetroFailoverPrerequisites h) (\<lambda>r s'. r = Inr True \<longrightarrow> checkClusterFenced h (drClusters s) = Inr True) s"
    unfolding checkMetroFailoverPrerequisites_def wp_rules
  proof (rule wp_framed [OF fr.pres_setProgression], goal_cases)
    case (1 r s')
    from cfgD(3) [OF frame_cfg [OF this]] show ?case by (auto simp: wp_rules split: sum.split)
  qed
  moreover have "wp checkRegionalFailoverPrerequisites (\<lambda>r s'. r = Inr True \<longrightarrow> regionalPrerequisitesMet s) s"
    unfolding checkRegionalFailoverPrerequisites_def wp_rules
  proof (rule wp_framed [OF fr.pres_setProgression], goal_cases)
    case (1 r s')
    from frame_guards(3) [OF this] show ?case by (auto simp: wp_rules split: sum.split)
  qed
  moreover have report: "wp (seqM (setAvailable m) n) (\<lambda>r s'. r = Inr True \<longrightarrow> P) s'" if "\<And>s'. wp n (\<lambda>r _. r \<noteq> Inr True) s'" for m n P s'
    using that by (auto simp: wp_rules intro!: wp_framed [OF fr.pres_setAvailable] wp_mono [OF that] split: sum.split)
  ultimately show "wp (checkFailoverPrerequisites h) (\<lambda>r s'. r = Inr True \<longrightarrow> failoverPrereq s h) s"
    unfolding checkFailoverPrerequisites_def failoverPrereq_def wp_bind wp_gets sum.case wp_attempt
    by (cases "drType s = DRTypeSync")
       (auto elim!: wp_mono intro!: report simp: wp_ret wp_fail split: sum.split bool.split)
qed

section \<open>Nothing is promoted while the prerequisites are missing\<close>

lemma frame_primaryWithin:
  assumes "frame s' = frame s"
  shows "primaryWithin s P s'"
  using frame_cfg [OF assms] frame_mwPrimary [OF assms] by (simp add: primaryWithin_def)

lemma switchToFailoverCluster_blocked:
  assumes "\<not> list_ex (failoverPrereq s) (homeCandidates s)" "frame s0 = frame s"
  shows "wp switchToFailoverCluster (\<lambda>_ s'. frame s' = frame s) s0"
proof -
  have t: "dFailoverCluster (spec s0) = dFailoverCluster (spec s')" if "frame s' = frame s" for s'
    using cfgD(1) [OF frame_cfg [OF that]] cfgD(1) [OF frame_cfg [OF assms(2)]] by simp
  have home: "wp (getCurrentHomeClusterName (dFailoverCluster (spec s0)))
      (\<lambda>r s'. frame s' = frame s \<and> (\<forall>h. r = Inr h \<longrightarrow> h \<noteq> [] \<longrightarrow> h \<in> set (homeCandidates s))) s'"
    if "frame s' = frame s" for s'
    using getCurrentHomeClusterName_candidate [of s'] frame_guards(1) [OF that] that t [OF that] by simp
  have met: "wp (checkFailoverPrerequisites h) (\<lambda>r s'. frame s' = frame s \<and> r \<noteq> Inr True) s'"
    if "frame s' = frame s" "h \<in> set (homeCandidates s)" for s' h
  proof -
    have "\<not> failoverPrereq s' h"
      using assms(1) that frame_guards(2) [OF that(1)] by (auto simp: list_ex_iff)
    then show ?thesis
      using checkFailoverPrerequisites_met [of h s'] that(1) by (auto elim!: wp_mono)
  qed
  show ?thesis
    unfolding switchToFailoverCluster_def wp_bind wp_seq wp_gets sum.case
    using assms(2)
    by (auto intro!: wp_framed [OF fr.pres_setDRState] wp_framed [OF fr.pres_setAvailable]
        wp_framed [OF fr.pres_setCond] wp_framed [OF fr.pres_setProgression]
        wp_mono [OF home] wp_mono [OF met] simp: wp_rules split: sum.split bool.split)
qed

lemma consensus_met:
  "wp isGlobalActionInConsensus (\<lambda>r s'. frame s' = frame s \<and> (r = Inr True \<longrightarrow> pendingDRPCs s = [])) s"
proof (rule wp_conj)
  show "wp isGlobalActionInConsensus (\<lambda>_ s'. frame s' = frame s) s"
    by (rule pres_wp [OF fr.pres_isGlobalActionInConsensus refl])
  have "pendingDRPCs (s\<lparr>calls := n\<rparr>) = pendingDRPCs s" for n
    by (rule frame_guards) simp
  then show "wp isGlobalActionInConsensus (\<lambda>r _. r = Inr True \<longrightarrow> pendingDRPCs s = []) s"
    unfolding isGlobalActionInConsensus_def setGlobalActionCondition_def
    by (auto simp: wp_rules intro!: wp_apiCall wp_framed [OF fr.pres_setCond]
        wp_framed [OF fr.pres_setProgression] split: sum.split)
qed

definition dryRunReady :: "hub \<Rightarrow> bool" where
  "dryRunReady s \<longleftrightarrow>
     list_ex (\<lambda>c. cType c = ''Protected'' \<and> cStatus c = ConditionTrue) (sConditions (status s))
     \<and> \<not> groupSyncLags s"

lemma dryRunReady_met:
  "wp dryRunReadyToFailover (\<lambda>r s'. frame s' = frame s \<and> (r = Inr True \<longrightarrow> dryRunReady s)) s"
proof (rule wp_conj)
  show "wp dryRunReadyToFailover (\<lambda>_ s'. frame s' = frame s) s"
    by (rule pres_wp [OF fr.pres_dryRunReadyToFailover refl])
  show "wp dryRunReadyToFailover (\<lambda>r _. r = Inr True \<longrightarrow> dryRunReady s) s"
    unfolding dryRunReadyToFailover_def isProtected_def isGroupSyncLagging_def dryRunReady_def
    by (auto simp: wp_rules intro!: wp_framed [OF fr.pres_setAvailableFalse] split: sum.split)
qed

definition failoverReady :: "hub \<Rightarrow> bool" where
  "failoverReady s \<longleftrightarrow>
     dFailoverCluster (spec s) \<noteq> [] \<and> isValidFailoverTarget s (dFailoverCluster (spec s)) = Inr ()
     \<and> (if hasGlobalVGRLabel s then pendingDRPCs s = [] else True)
     \<and> (if dDryRun (spec s) then dryRunReady s else True)
     \<and> list_ex (failoverPrereq s) (homeCandidates s)"

lemma startFailover_blocked:
  assumes "hasGlobalVGRLabel s \<and> pendingDRPCs s \<noteq> [] \<or> \<not> list_ex (failoverPrereq s) (homeCandidates s)"
    "frame s0 = frame s"
  shows "wp startFailover (\<lambda>_ s'. frame s' = frame s) s0"
proof -
  have cons: "wp isGlobalActionInConsensus
      (\<lambda>r s'. frame s' = frame s \<and> (r = Inr True \<longrightarrow> pendingDRPCs s = [])) s'" if "frame s' = frame s" for s'
    using consensus_met [of s'] frame_guards(6) [OF that] that by simp
  show ?thesis
    unfolding startFailover_def whenConsensus_def wp_seq wp_bind wp_gets sum.case
  proof (rule wp_framed [OF fr.pres_setStatusInitiating], goal_cases)
    case (1 r s')
    then have f: "frame s' = frame s" using assms(2) by simp
    show ?case
    proof (cases r)
      case (Inr x)
      then show ?thesis
        using f assms(1) frame_guards(5) [OF f]
        by (auto simp: wp_rules intro!: wp_mono [OF cons] switchToFailoverCluster_blocked split: sum.split)
    qed (use f in simp)
  qed
qed

lemma frame_calls: "frame (s\<lparr>calls := n\<rparr>) = frame s"
  by simp

lemma RunFailover_blocked:
  assumes "\<not> failoverReady s"
  shows "wp RunFailover (\<lambda>_ s'. primaryWithin s {} s') s"
proof -
  have self: "primaryWithin s {} s" by (rule frame_primaryWithin) simp
  have inPlace: "wp (failoverInPlace c) (\<lambda>_ s'. primaryWithin s {} s') s" for c
    by (rule pres_wp [OF pw.pres_failoverInPlace self])
  have avail: "wp (setAvailable m) (\<lambda>_ s'. primaryWithin s {} s') s" for m
    by (rule pres_wp [OF pw.pres_setAvailable self])
  have start: "wp startFailover (\<lambda>_ s'. primaryWithin s {} s') s'"
    if "frame s' = frame s" "\<not> (if hasGlobalVGRLabel s then pendingDRPCs s = [] else True) \<or> \<not> list_ex (failoverPrereq s) (homeCandidates s)" for s'
    using startFailover_blocked [OF _ that(1)] that(2) by (auto elim!: wp_mono intro: frame_primaryWithin split: if_splits)
  have dry: "wp dryRunReadyToFailover (\<lambda>r s'. frame s' = frame s \<and> (r = Inr True \<longrightarrow> dryRunReady s)) (s\<lparr>calls := n\<rparr>)" for n
    using dryRunReady_met [of "s\<lparr>calls := n\<rparr>"] frame_guards(7) [OF frame_calls [where s = s and n = n]] by (simp add: dryRunReady_def)
  show ?thesis
    using assms unfolding RunFailover_def failoverReady_def
    by (auto simp: wp_rules Let_def inPlace intro!: wp_mono [OF avail] wp_read [OF rd.pres_mwExistsAndPlacementUpdated]
        start wp_mono [OF dry] frame_primaryWithin split: sum.split prod.split)
qed

lemma RunFailover_promoted: "promoted RunFailover s \<subseteq> {c. failoverReady s}"
  using RunFailover_blocked [of s] by (auto simp: promoted_def wp_snd primaryWithin_def)

end
