(* ===== verification/Ramen_Relocation.thy ===== *)
theory Ramen_Relocation
  imports Ramen_Failover
begin

text \<open>
  Relocation and initial deployment: what has to hold before \<^verbatim>\<open>RunRelocate\<close> and
  \<^verbatim>\<open>RunInitialDeployment\<close> ask a cluster to become primary, and the guard of the whole engine.
\<close>

section \<open>Views of all the other clusters\<close>

lemma allExcept_True:
  assumes step: "\<And>c s. I s \<Longrightarrow> wp (p c) (\<lambda>r s'. I s' \<and> (r = Inr True \<longrightarrow> P c)) s" and "I s"
  shows "wp (allExcept p k cs) (\<lambda>r s'. I s' \<and> (r = Inr True \<longrightarrow> list_all (\<lambda>c. c = k \<or> P c) cs)) s"
  using assms(2)
proof (induction cs arbitrary: s)
  case (Cons c cs)
  show ?case
    using Cons.IH Cons.prems
    by (auto simp: wp_rules intro!: wp_mono [OF step] elim!: wp_mono split: sum.split)
qed (simp add: wp_rules)

definition othersSecondary :: "hub \<Rightarrow> string \<Rightarrow> bool" where
  "othersSecondary s skip = list_all (\<lambda>c. c = skip \<or> c = [] \<or> secondaryReported s c) (DRPolicyClusterNames (drPolicy s))"

definition othersDataProtected :: "hub \<Rightarrow> string \<Rightarrow> bool" where
  "othersDataProtected s skip = list_all (\<lambda>c. c = skip \<or> dataProtectedReported s c) (DRPolicyClusterNames (drPolicy s))"

lemma cfg_reported:
  assumes "cfg s' = cfg s"
  shows "secondaryReported s' c = secondaryReported s c" "dataProtectedReported s' c = dataProtectedReported s c"
    "DRPolicyClusterNames (drPolicy s') = DRPolicyClusterNames (drPolicy s)"
  using cfgD [OF assms] by (simp_all add: secondaryReported_def dataProtectedReported_def)

lemma viewCheck_met:
  assumes "primaryWithin s P s0"
  shows "wp (ensureVRGIsSecondaryOnCluster c) (\<lambda>r s'. primaryWithin s P s' \<and> (r = Inr True \<longrightarrow> secondaryReported s c)) s0"
    "wp (ensureDataProtectedOnCluster c) (\<lambda>r s'. primaryWithin s P s' \<and> (r = Inr True \<longrightarrow> dataProtectedReported s c)) s0"
proof -
  have c: "cfg (s0\<lparr>mcvRequestInProgress := b\<rparr>) = cfg s" for b
    using assms by (simp add: primaryWithin_def)
  note r = cfg_reported [OF c]
  show "wp (ensureVRGIsSecondaryOnCluster c) (\<lambda>r s'. primaryWithin s P s' \<and> (r = Inr True \<longrightarrow> secondaryReported s c)) s0"
    "wp (ensureDataProtectedOnCluster c) (\<lambda>r s'. primaryWithin s P s' \<and> (r = Inr True \<longrightarrow> dataProtectedReported s c)) s0"
    unfolding ensureVRGIsSecondaryOnCluster_def ensureDataProtectedOnCluster_def
    using assms by (simp_all add: wp_rules r pw.I_mcv)
qed

lemma ensureVRGIsSecondaryEverywhere_met:
  assumes "primaryWithin s P s0"
  shows "wp (ensureVRGIsSecondaryEverywhere k)
     (\<lambda>r s'. primaryWithin s P s' \<and> (r = Inr True \<longrightarrow>
        list_all (\<lambda>c. c = k \<or> secondaryReported s c) (DRPolicyClusterNames (drPolicy s)))) s0"
proof -
  have c: "cfg s0 = cfg s" using assms by (simp add: primaryWithin_def)
  show ?thesis
    unfolding ensureVRGIsSecondaryEverywhere_def wp_bind wp_gets sum.case cfg_reported(3) [OF c]
    by (rule allExcept_True [OF viewCheck_met(1) assms])
qed

lemma ensureDataProtected_met:
  assumes "primaryWithin s P s0"
  shows "wp (ensureDataProtected k)
     (\<lambda>r s'. primaryWithin s P s' \<and> (r = Inr True \<longrightarrow> othersDataProtected s k)) s0"
proof -
  have c: "cfg s0 = cfg s" using assms by (simp add: primaryWithin_def)
  show ?thesis
    unfolding ensureDataProtected_def othersDataProtected_def wp_bind wp_gets sum.case cfg_reported(3) [OF c]
    by (rule allExcept_True [OF viewCheck_met(2) assms])
qed

lemma setupRelocation_met:
  assumes "primaryWithin s P s0"
  shows "wp (setupRelocation k)
     (\<lambda>r s'. primaryWithin s P s' \<and> (r = Inr () \<longrightarrow> othersSecondary s k \<and> othersDataProtected s k)) s0"
proof -
  have w: "list_all (\<lambda>c. c = k \<or> secondaryReported s c) cs \<or> list_all (\<lambda>c. c = [] \<or> secondaryReported s c) cs
      \<Longrightarrow> list_all (\<lambda>c. c = k \<or> c = [] \<or> secondaryReported s c) cs" for cs
    by (auto simp: list_all_iff)
  have prog: "wp (setRelocateProgression k p) (\<lambda>_ s'. primaryWithin s P s') s'"
    "wp moveVRGToSecondaryEverywhere (\<lambda>_ s'. primaryWithin s P s') s'" if "primaryWithin s P s'" for s' p
    by (rule pres_wp [OF pw.pres_setRelocateProgression that], rule pres_wp [OF pw.pres_moveVRGToSecondaryEverywhere that])
  show ?thesis
    unfolding setupRelocation_def othersSecondary_def
    by (auto simp: wp_rules assms intro!: wp_mono [OF ensureVRGIsSecondaryEverywhere_met]
        wp_mono [OF ensureDataProtected_met] wp_mono [OF prog(1)] wp_mono [OF prog(2)] w split: sum.split)
qed

section \<open>Relocation\<close>

definition finalSyncDone :: "hub \<Rightarrow> string \<Rightarrow> bool" where
  "finalSyncDone s c =
     (case vrgOf s c of
        None \<Rightarrow> False
      | Some v \<Rightarrow> vPrepareForFinalSyncComplete (vStatus v) \<and> vFinalSyncComplete (vStatus v))"

definition currentHome :: "hub \<Rightarrow> string" where
  "currentHome s = fst (selectCurrentPrimaryAndSecondaries s)"

definition relocateReady :: "hub \<Rightarrow> bool" where
  "relocateReady s \<longleftrightarrow>
     (let k = dPreferredCluster (spec s); h = currentHome s
      in numClustersQueriedSuccessfully s = length (polDRClusters (drPolicy s))
         \<and> k \<noteq> [] \<and> vrgs s \<noteq> [] \<and> \<not> areMultipleVRGsPrimary s
         \<and> (if hasGlobalVGRLabel s then pendingDRPCs s = [] else True)
         \<and> (if h \<noteq> [] \<and> h \<noteq> k then readyToSwitchOver s h k \<and> finalSyncDone s h else True)
         \<and> othersSecondary s k \<and> othersDataProtected s k)"

lemma workFrameD:
  assumes "workFrame s' = workFrame s"
  shows "cfg s' = cfg s" "vrgs s' = vrgs s" "mwVRG s' c = mwVRG s c" "mwPrimary s' c = mwPrimary s c"
    "primaryWithin s P s'"
proof -
  show c: "cfg s' = cfg s" and "vrgs s' = vrgs s" using assms by (simp_all add: workFrame_def)
  have "manifestWorks s' (BuildManifestWorkName s' ''vrg'', c) = manifestWorks s (BuildManifestWorkName s ''vrg'', c)" for c
    using assms by (simp add: workFrame_def fun_eq_iff)
  then show "mwVRG s' c = mwVRG s c" and "mwPrimary s' c = mwPrimary s c" for c
    by (simp_all only: mwVRG_def mwPrimary_alt)
  then show "primaryWithin s P s'" using c by (simp add: primaryWithin_def)
qed

lemma wp_worked:
  "(\<And>k. pres (\<lambda>s. workFrame s = k) m) \<Longrightarrow> (\<And>r s'. workFrame s' = workFrame s \<Longrightarrow> Q r s') \<Longrightarrow> wp m Q s"
  by (rule wp_mono [OF pres_wp [where I = "\<lambda>s'. workFrame s' = workFrame s"]]) simp_all

lemma vrgOf_worked: "vrgs s' = vrgs s \<Longrightarrow> vrgOf s' c = vrgOf s c"
  by (simp add: vrgOf_def)

text \<open>The quiescing step reports success only for a source whose final sync is complete.\<close>

lemma quiesce_met:
  assumes "primaryWithin s P s0" "vrgs s0 = vrgs s"
  shows "wp (quiesceAndRunFinalSync h)
     (\<lambda>r s'. primaryWithin s P s' \<and> (r = Inr True \<longrightarrow> finalSyncDone s h)) s0"
proof (rule wp_conj)
  show "wp (quiesceAndRunFinalSync h) (\<lambda>_ s'. primaryWithin s P s') s0"
    by (rule pres_wp [OF pw.pres_quiesceAndRunFinalSync assms(1)])
  have run: "wp (runFinalSync h) (\<lambda>r _. r = Inr True \<longrightarrow> (\<exists>v. vrgOf s h = Some v \<and> vFinalSyncComplete (vStatus v))) s'"
    if "vrgs s' = vrgs s" for s'
    unfolding runFinalSync_def
    by (auto simp: wp_rules vrgOf_worked [OF that] intro!: wpI split: option.split sum.split)
  have prep: "wp (prepareForFinalSync h) (\<lambda>r s'. r = Inr True \<longrightarrow>
      s' = s0 \<and> (\<exists>v. vrgOf s h = Some v \<and> vPrepareForFinalSyncComplete (vStatus v))) s0"
    unfolding prepareForFinalSync_def
    by (auto simp: wp_rules vrgOf_worked [OF assms(2)] intro!: wpI split: option.split sum.split)
  have clear: "wp (clearForRelocation h) (\<lambda>_ s'. workFrame s' = workFrame s0) s'" if "workFrame s' = workFrame s0" for s'
    unfolding clearForRelocation_def
    by (rule pres_wp [where I = "\<lambda>s'. workFrame s' = workFrame s0", OF _ that]) (intro pres_seq wk.pres_setDRState wk.pres_setAvailable
        wk.pres_setRelocateProgression wk.pres_clearUserPlacementRuleStatus)
  have sync: "wp (syncSource h) (\<lambda>r _. r = Inr True \<longrightarrow> (\<exists>v. vrgOf s h = Some v \<and> vFinalSyncComplete (vStatus v))) s'"
    if "workFrame s' = workFrame s0" for s'
    unfolding syncSource_def wp_bind
    by (rule wp_mono [OF run]) (use workFrameD(2) [OF that] assms(2) in
        \<open>auto simp: wp_rules intro!: wpI split: sum.split\<close>)
  show "wp (quiesceAndRunFinalSync h) (\<lambda>r _. r = Inr True \<longrightarrow> finalSyncDone s h) s0"
    unfolding quiesceAndRunFinalSync_def wp_bind
  proof (rule wp_mono [OF prep], goal_cases)
    case (1 r s1)
    show ?case
    proof (cases "r = Inr True")
      case True
      with 1 obtain v where v: "s1 = s0" "vrgOf s h = Some v" "vPrepareForFinalSyncComplete (vStatus v)" by auto
      show ?thesis
        using True v
        by (auto simp: wp_bind wp_seq wp_when finalSyncDone_def intro!: wp_worked [OF wk.pres_getClusterDecision]
            wp_mono [OF clear] wp_mono [OF sync] split: sum.split)
    qed (auto simp: wp_rules intro!: wpI split: sum.split)
  qed
qed

lemma relocate_blocked:
  assumes "primaryWithin s {} s0" "\<not> (othersSecondary s k \<and> othersDataProtected s k)"
  shows "wp (relocate k ns st) (\<lambda>_ s'. primaryWithin s {} s') s0"
proof -
  have report: "wp m (\<lambda>_ s'. primaryWithin s {} s') s'"
    if "pres (primaryWithin s {}) m" "primaryWithin s {} s'" for m :: "unit hubm" and s'
    using that by (rule pres_wp)
  have prepd: "wp (reportE (setupRelocation k)) (\<lambda>r s'. primaryWithin s {} s' \<and> r \<noteq> Inr ()) s'"
    if "primaryWithin s {} s'" for s'
    unfolding reportE_def wp_catch
    by (rule wp_mono [OF setupRelocation_met [OF that]])
       (use assms(2) in \<open>auto simp: wp_rules intro!: wp_mono [OF report [OF pw.pres_setAvailable]] split: sum.split\<close>)
  show ?thesis
    unfolding relocate_def wp_seq using assms(1)
    by (auto intro!: wp_mono [OF report [OF pw.pres_setDRState]] wp_mono [OF report [OF pw.pres_setAvailable]]
        wp_mono [OF report [OF pw.pres_setCond]] wp_mono [OF prepd] split: sum.split)
qed

lemma frame_ready:
  assumes "frame s' = frame s"
  shows "readyToSwitchOver s' h k = readyToSwitchOver s h k"
  using frameD [OF assms] cfgD [OF frame_cfg [OF assms]]
  by (simp add: readyToSwitchOver_def isVRGConditionMet_def vrgOf_def split: option.split)

lemma startRelocation_blocked:
  assumes "frame s0 = frame s"
    "(h \<noteq> [] \<and> h \<noteq> k) \<and> \<not> (readyToSwitchOver s h k \<and> finalSyncDone s h)
       \<or> \<not> (othersSecondary s k \<and> othersDataProtected s k)"
  shows "wp (startRelocation h k) (\<lambda>_ s'. primaryWithin s {} s') s0"
proof -
  have w: "primaryWithin s {} s0" "vrgs s0 = vrgs s"
    using frame_primaryWithin [OF assms(1)] frameD(2) [OF assms(1)] by simp_all
  have avail: "wp (setAvailable m) (\<lambda>_ s'. primaryWithin s {} s') s0" for m
    by (rule pres_wp [OF pw.pres_setAvailable w(1)])
  note q = quiesce_met [OF w]
  show ?thesis
    unfolding startRelocation_def wp_bind wp_gets sum.case frame_ready [OF assms(1)] prod.case
    using assms(2) w(1)
    by (auto simp: wp_rules Let_def intro!: wp_mono [OF avail] wp_mono [OF q] relocate_blocked split: sum.split)
qed

lemma RunRelocate_blocked:
  assumes "\<not> relocateReady s"
  shows "wp RunRelocate (\<lambda>_ s'. primaryWithin s {} s') s"
proof -
  have self: "primaryWithin s {} s" by (rule frame_primaryWithin) simp
  have inPlace: "wp (relocateInPlace c) (\<lambda>_ s'. primaryWithin s {} s') s" for c
    by (rule pres_wp [OF pw.pres_relocateInPlace self])
  have avail: "wp (setAvailable m) (\<lambda>_ s'. primaryWithin s {} s') s" for m
    by (rule pres_wp [OF pw.pres_setAvailable self])
  have cons: "wp isGlobalActionInConsensus
      (\<lambda>r s'. frame s' = frame s \<and> (r = Inr True \<longrightarrow> pendingDRPCs s = [])) s'" if "frame s' = frame s" for s'
    using consensus_met [of s'] frame_guards(6) [OF that] that by simp
  have tail: "wp (whenConsensus (startRelocation h k)) (\<lambda>_ s'. primaryWithin s {} s') s'"
    if "frame s' = frame s" "hasGlobalVGRLabel s \<and> pendingDRPCs s \<noteq> []
       \<or> (h \<noteq> [] \<and> h \<noteq> k) \<and> \<not> (readyToSwitchOver s h k \<and> finalSyncDone s h)
       \<or> \<not> (othersSecondary s k \<and> othersDataProtected s k)" for s' h k
    unfolding whenConsensus_def using that frame_guards(5) [OF that(1)]
    by (auto simp: wp_rules intro!: wp_mono [OF cons] startRelocation_blocked frame_primaryWithin split: sum.split)
  show ?thesis
  proof (cases "validateAndSelectCurrentPrimary s (dPreferredCluster (spec s))")
    case (Inl e)
    then show ?thesis
      unfolding RunRelocate_def by (auto simp: wp_rules self intro!: wp_mono [OF avail] split: sum.split)
  next
    case (Inr h)
    have h: "h = currentHome s" "dPreferredCluster (spec s) \<noteq> []" "vrgs s \<noteq> []" "\<not> areMultipleVRGsPrimary s"
      using Inr by (auto simp: validateAndSelectCurrentPrimary_def currentHome_def split: if_splits)
    show ?thesis
      unfolding RunRelocate_def wp_bind wp_gets sum.case wp_if wp_ret prod.case Inr wp_seq
      using assms h
      by (auto simp: relocateReady_def Let_def self inPlace
          intro!: wp_framed [OF fr.pres_setStatusInitiating] tail frame_primaryWithin split: sum.split if_splits)
  qed
qed

section \<open>Initial deployment\<close>

text \<open>
  A fresh primary is only created where no ManifestWork holds the VRG yet, and never while the
  workload is primary elsewhere and unknown at home. (A call to the API server that answers "not found" although
  the object exists would break the first half; no such fault is excluded by the model.)
\<close>

definition spuriousNotFound :: "hub \<Rightarrow> bool" where
  "spuriousNotFound s \<longleftrightarrow> (\<exists>n e. faults s n = Some e \<and> IsNotFound e)"

definition deployReady :: "hub \<Rightarrow> bool" where
  "deployReady s \<longleftrightarrow>
     (let k = dPreferredCluster (spec s)
      in k \<noteq> [] \<and> (vrgOf s k \<noteq> None \<or> isVRGAlreadyDeployedElsewhere s k = None)
         \<and> (mwVRG s k = None \<or> spuriousNotFound s))"

lemma wp_apiCall_honest:
  assumes "\<not> spuriousNotFound s" "\<And>n e. \<not> IsNotFound e \<Longrightarrow> Q (Inl e) (s\<lparr>calls := n\<rparr>)" "\<And>n. Q (Inr ()) (s\<lparr>calls := n\<rparr>)"
  shows "wp apiCall Q s"
  using assms by (auto simp: wp_def apiCall_def spuriousNotFound_def split: option.split)

lemma createVRGManifestWork_blocked:
  assumes "mwVRG s c \<noteq> None" "\<not> spuriousNotFound s" "workFrame s0 = workFrame s"
  shows "wp (createVRGManifestWork c st) (\<lambda>_ s'. workFrame s' = workFrame s) s0"
proof -
  have honest: "wp (getVRGFromManifestWork c) (\<lambda>r s'. workFrame s' = workFrame s \<and>
       (\<forall>e. r = Inl e \<longrightarrow> \<not> IsNotFound e)) s'" if w: "workFrame s' = workFrame s" for s'
  proof -
    have h: "\<not> spuriousNotFound s'"
      using assms(2) cfgD(10) [OF workFrameD(1) [OF w]] by (simp add: spuriousNotFound_def)
    have "mwVRG s' c \<noteq> None" using assms(1) workFrameD(3) [OF w] by simp
    then obtain mw v where mw: "manifestWorks s' (BuildManifestWorkName s' ''vrg'', c) = Some mw"
        "ExtractVRGFromManifestWork mw = Inr v"
      by (auto simp: mwVRG_def split: option.splits sum.splits)
    show ?thesis
      unfolding getVRGFromManifestWork_def FindManifestWorkByType_def FindManifestWork_def getMW_def
      using mw w by (auto simp: wp_rules liftE_def intro!: wp_apiCall_honest [OF h])
  qed
  show ?thesis
    unfolding createVRGManifestWork_def wp_seq wp_bind wp_gets sum.case wp_catch wp_attempt
  proof (rule wp_worked [OF wk.pres_ensureNamespaceManifestWork], goal_cases)
    case (1 r s')
    then have "workFrame s' = workFrame s" using assms(3) by simp
    then show ?case by (auto simp: wp_rules intro!: wp_mono [OF honest] split: sum.split)
  qed
qed

lemma deployNow_blocked:
  assumes "mwVRG s c \<noteq> None" "\<not> spuriousNotFound s" "workFrame s0 = workFrame s"
  shows "wp (deployNow c) (\<lambda>_ s'. primaryWithin s {} s') s0"
proof -
  have step: "wp m (\<lambda>_ s'. workFrame s' = workFrame s) s'" if "\<And>k. pres (\<lambda>s. workFrame s = k) m" "workFrame s' = workFrame s" for m :: "unit hubm" and s'
    using that by (intro pres_wp [where I = "\<lambda>s'. workFrame s' = workFrame s"])
  have publish: "wp (publishDeployment c c) (\<lambda>_ s'. primaryWithin s {} s') s'" if "workFrame s' = workFrame s" for s'
    by (rule pres_wp [OF pw.pres_publishDeployment workFrameD(5) [OF that]])
  have start: "wp (startDeploying c c) (\<lambda>_ s'. primaryWithin s {} s') s'" if "workFrame s' = workFrame s" for s'
    unfolding startDeploying_def wp_seq wp_catch
    by (auto simp: wp_rules that intro!: wp_mono [OF step [OF wk.pres_setDRState]] wp_mono [OF step [OF wk.pres_setProgression]]
          wp_mono [OF createVRGManifestWork_blocked [OF assms(1,2)]] publish workFrameD(5) split: sum.split)
  have finish: "pres (primaryWithin s {}) (case r of Inl e \<Rightarrow> seqM (setAvailable (Error e)) (failM e)
      | Inr _ \<Rightarrow> seqM setConditionOnInitialDeploymentCompletion (ret False))" for r :: "gerr + unit"
    by (intro pres_case_sum pres_seq pres_fail pres_ret pw.pres_setAvailable pw.pres_setConditionOnInitialDeploymentCompletion)
  show ?thesis
    unfolding deployNow_def wp_seq wp_bind wp_attempt sum.case
    by (auto simp: assms(3) intro!: wp_mono [OF step [OF wk.pres_setStatusInitiating]] wp_mono [OF start]
        pres_wp [OF finish] workFrameD(5) split: sum.split)
qed

lemma RunInitialDeployment_blocked:
  assumes "\<not> deployReady s"
  shows "wp RunInitialDeployment (\<lambda>_ s'. primaryWithin s {} s') s"
proof -
  let ?k = "dPreferredCluster (spec s)"
  have self: "primaryWithin s {} s" by (rule frame_primaryWithin) simp
  have keep: "wp m (\<lambda>_ s'. primaryWithin s {} s') s'" if "pres (primaryWithin s {}) m" "primaryWithin s {} s'"
    for m :: "bool hubm" and s' using that by (rule pres_wp)
  have avail: "wp (setAvailable m) (\<lambda>_ s'. primaryWithin s {} s') s" for m
    by (rule pres_wp [OF pw.pres_setAvailable self])
  have testing: "pres (primaryWithin s {}) (seqM (switchClusterDecisionRetainFailover c)
      (seqM (setCond ''PeerReady'' ConditionFalse ''Cleaning'' ''Not Ready'') (finishInitialDeployment c)))" for c
    by (intro pres_seq pw.pres_switchClusterDecisionRetainFailover pw.pres_setCond pw.pres_finishInitialDeployment)
  have elsewhere: "wp (seqM updatePreferredDecision (ensureActionTransition c)) (\<lambda>_ s'. primaryWithin s {} s') s" for c
    by (rule keep [OF _ self]) (intro pres_seq pw.pres_updatePreferredDecision pw.pres_ensureActionTransition)
  have updated: "wp (isUserPlRuleUpdated c) (\<lambda>_ s'. workFrame s' = workFrame s) s" for c
    by (rule pres_wp [OF wk.pres_isUserPlRuleUpdated refl])
  have blocked: "mwVRG s ?k \<noteq> None \<and> \<not> spuriousNotFound s" if "?k \<noteq> []" "vrgOf s ?k \<noteq> None \<or> isVRGAlreadyDeployedElsewhere s ?k = None"
    using assms that by (auto simp: deployReady_def Let_def)
  show ?thesis
  proof (cases "?k = []")
    case True
    then show ?thesis
      unfolding RunInitialDeployment_def wp_bind wp_gets sum.case
      by (auto simp: wp_rules self intro!: wp_mono [OF avail] split: sum.split)
  next
    case False
    show ?thesis
    proof (cases "vrgOf s ?k = None \<and> isVRGAlreadyDeployedElsewhere s ?k \<noteq> None")
      case True
      then obtain c where c: "isVRGAlreadyDeployedElsewhere s ?k = Some c" by auto
      have "c \<noteq> ?k" using c by (auto simp: isVRGAlreadyDeployedElsewhere_def find_Some_iff)
      then show ?thesis
        using False True c elsewhere [of ?k]
        by (auto simp: RunInitialDeployment_def isDeployed_def wp_rules elim!: wp_mono split: sum.splits)
    next
      case no: False
      have b: "mwVRG s ?k \<noteq> None" "\<not> spuriousNotFound s" using blocked False no by auto
      show ?thesis
        using False no unfolding RunInitialDeployment_def isDeployed_def wp_bind wp_gets sum.case
        by (auto simp: wp_bind wp_gets wp_if wp_ret self intro!: keep [OF testing] deployNow_blocked [OF b] wp_mono [OF updated]
            keep [OF pw.pres_finishInitialDeployment] workFrameD(5) split: sum.split option.split)
    qed
  qed
qed

section \<open>The engine\<close>

definition promotionReady :: "hub \<Rightarrow> bool" where
  "promotionReady s =
     (case dAction (spec s) of
        ActionFailover \<Rightarrow> failoverReady s
      | ActionRelocate \<Rightarrow> relocateReady s
      | ActionNone \<Rightarrow> deployReady s)"

lemma executeAction_blocked:
  assumes "\<not> promotionReady s"
  shows "wp executeAction (\<lambda>_ s'. primaryWithin s {} s') s"
  using assms unfolding executeAction_def promotionReady_def wp_bind wp_gets sum.case
  by (auto simp: RunFailover_blocked RunRelocate_blocked RunInitialDeployment_blocked split: dr_action.splits)

text \<open>The test failover step lets the action run only on the state it found.\<close>

lemma testFailover_continues:
  "wp processTestFailoverFlowIfEnabled (\<lambda>r s'. primaryWithin s {} s' \<and> (r = Inr True \<longrightarrow> s' = s)) s"
proof (rule wp_conj)
  show "wp processTestFailoverFlowIfEnabled (\<lambda>_ s'. primaryWithin s {} s') s"
    by (rule pres_wp [OF pw.pres_processTestFailoverFlowIfEnabled frame_primaryWithin [OF refl]])
  show "wp processTestFailoverFlowIfEnabled (\<lambda>r s'. r = Inr True \<longrightarrow> s' = s) s"
    unfolding processTestFailoverFlowIfEnabled_def
    by (auto simp: wp_rules intro!: wpI split: sum.split)
qed

lemma startProcessing_blocked:
  assumes "\<not> promotionReady s"
  shows "wp startProcessing (\<lambda>_ s'. primaryWithin s {} s') s"
proof -
  have process: "wp processPlacement (\<lambda>_ s'. primaryWithin s {} s') s"
    unfolding processPlacement_def wp_bind
    by (rule wp_mono [OF testFailover_continues])
       (use executeAction_blocked [OF assms] in \<open>auto simp: wp_rules split: sum.split\<close>)
  have finish: "pres (primaryWithin s {}) (bindM shouldUpdateStatus
       (\<lambda>should. bindM (getsM (\<lambda>s. should \<or> statusUpdateTimeElapsed s))
         (\<lambda>update. bindM (attemptM (whenM update (updateDRPCStatus True)))
           (\<lambda>updated. ret (case updated of Inl _ \<Rightarrow> True
              | Inr _ \<Rightarrow> (case processed of Inl _ \<Rightarrow> True | Inr d \<Rightarrow> \<not> d))))))" for processed :: "gerr + bool"
    by (intro pres_bind pres_gets pres_attempt pres_when pres_ret pw.pres_shouldUpdateStatus pw.pres_updateDRPCStatus)
  show ?thesis
    unfolding startProcessing_def wp_bind [where m = "attemptM processPlacement"] wp_attempt sum.case
    by (rule wp_mono [OF process]) (rule pres_wp [OF finish])
qed

lemma startProcessing_target:
  "mwPrimary (snd (startProcessing s)) c \<Longrightarrow> mwPrimary s c \<or> c = engineTarget s"
  using presD [OF pt.pres_startProcessing [of s], of s] frame_primaryWithin [of s s "{engineTarget s}"]
  by (auto simp: primaryWithin_def)

end
