(* ===== verification/Ramen_PeerReady.thy ===== *)
theory Ramen_PeerReady
  imports Ramen_Relocation
begin

text \<open>
  When the peers are reported ready: what \<^verbatim>\<open>cleanupSecondaries\<close> has seen of every other cluster of the
  policy before it sets the condition \<^verbatim>\<open>PeerReady\<close>.
\<close>

section \<open>A peer that needs no more cleaning\<close>

definition peerClean :: "hub \<Rightarrow> string \<Rightarrow> bool" where
  "peerClean s c \<longleftrightarrow>
     (case mwVRG s c of None \<Rightarrow> False | Some v \<Rightarrow> isVRGSecondary v)
     \<and> (case vrgOf s c of
          None \<Rightarrow> dAction (spec s) = ActionNone
        | Some v \<Rightarrow> isVRGSecondary v \<and> vStatusObservedGeneration (vStatus v) = vGeneration v
                    \<and> secondaryReported s c)"

lemma peerClean_framed:
  assumes "workFrame s' = workFrame s"
  shows "peerClean s' c = peerClean s c"
  using workFrameD [OF assms] cfg_reported(1) [OF workFrameD(1) [OF assms]] cfgD [OF workFrameD(1) [OF assms]]
  by (simp add: peerClean_def vrgOf_def split: option.split)

lemma updateVRGState_unchanged:
  "wp (updateVRGState c st) (\<lambda>r s'. r = Inr False \<longrightarrow>
     workFrame s' = workFrame s \<and> (\<exists>v. mwVRG s c = Some v \<and> vReplicationState (vSpec v) = st)) s"
  unfolding updateVRGState_def wp_bind wp_catch
  by (rule wp_getVRGFromManifestWork) (auto simp: wp_rules intro!: wpI split: sum.split)

lemma cleanupSecondary_clean:
  "wp (cleanupSecondary c k) (\<lambda>r s'. r = Inr True \<longrightarrow> workFrame s' = workFrame s \<and> peerClean s c) s"
proof -
  have tail: "wp (seqM (removeClusterDecisionForFailover c) (seqM (whenM b (setDiscoveredAppGCProgression k))
      (ensureVRGIsSecondaryOnCluster c))) (\<lambda>r s2. workFrame s2 = workFrame s \<and> (r = Inr True \<longrightarrow> secondaryReported s c)) s'"
    if f: "workFrame s' = workFrame s" for s' b
  proof (rule wp_conj)
    show "wp (seqM (removeClusterDecisionForFailover c) (seqM (whenM b (setDiscoveredAppGCProgression k))
      (ensureVRGIsSecondaryOnCluster c))) (\<lambda>r s2. workFrame s2 = workFrame s) s'"
      by (rule pres_wp [where I = "\<lambda>s'. workFrame s' = workFrame s", OF _ f])
         (intro pres_seq pres_when wk.pres_removeClusterDecisionForFailover wk.pres_setDiscoveredAppGCProgression
           wk.pres_viewChecks)
    have step: "wp (ensureVRGIsSecondaryOnCluster c) (\<lambda>r s2. r = Inr True \<longrightarrow> secondaryReported s c) s''"
      if "workFrame s'' = workFrame s" for s''
    proof -
      have "cfg (s''\<lparr>mcvRequestInProgress := b\<rparr>) = cfg s" for b using workFrameD(1) [OF that] by simp
      from cfg_reported(1) [OF this] show ?thesis
        unfolding ensureVRGIsSecondaryOnCluster_def by (simp add: wp_rules)
    qed
    show "wp (seqM (removeClusterDecisionForFailover c) (seqM (whenM b (setDiscoveredAppGCProgression k))
      (ensureVRGIsSecondaryOnCluster c))) (\<lambda>r s2. r = Inr True \<longrightarrow> secondaryReported s c) s'"
      unfolding wp_seq wp_when using f
      by (auto intro!: wp_worked [OF wk.pres_removeClusterDecisionForFailover]
          wp_worked [OF wk.pres_setDiscoveredAppGCProgression] step split: sum.split)
  qed
  show ?thesis
    unfolding cleanupSecondary_def wp_bind wp_attempt
  proof (rule wp_mono [OF updateVRGState_unchanged], goal_cases)
    case (1 r s')
    show ?case
    proof (cases r)
      case (Inl e)
      then show ?thesis by (auto simp: wp_rules intro!: wpI split: sum.split)
    next
      case (Inr b)
      show ?thesis
      proof (cases b)
        case False
        with 1 Inr obtain v where f: "workFrame s' = workFrame s" and v: "mwVRG s c = Some v" "vReplicationState (vSpec v) = Secondary"
          by auto
        have same: "vrgOf s' c = vrgOf s c" "dAction (spec s') = dAction (spec s)"
          using workFrameD(2) [OF f] cfgD(1) [OF workFrameD(1) [OF f]] by (simp_all add: vrgOf_def)
        show ?thesis
          using Inr False f v
          by (auto simp: wp_bind wp_gets wp_ret wp_if same peerClean_def isVRGSecondary_def
              intro!: wp_mono [OF tail [OF f]] split: option.split)
      qed (use Inr in \<open>simp add: wp_ret\<close>)
    qed
  qed
qed

lemma cleanupPeers_clean:
  "wp (cleanupPeers k cs) (\<lambda>r s'. r = Inr () \<longrightarrow> workFrame s' = workFrame s \<and> list_all (\<lambda>c. c = k \<or> peerClean s c) cs) s"
proof (induction cs arbitrary: s)
  case (Cons c cs)
  show ?case
  proof (cases "k = c")
    case True
    then show ?thesis using Cons.IH [of s] by simp
  next
    case False
    have rest: "wp (if \<not> ok then failM e else cleanupPeers k cs) (\<lambda>r s2. r = Inr () \<longrightarrow>
        workFrame s2 = workFrame s \<and> list_all (\<lambda>c. c = k \<or> peerClean s c) (c # cs)) s'"
      if "ok = True \<longrightarrow> workFrame s' = workFrame s \<and> peerClean s c" for ok e s'
      using that Cons.IH [of s'] peerClean_framed [of s' s] by (auto simp: wp_fail elim!: wp_mono)
    show ?thesis
      unfolding cleanupPeers.simps wp_bind if_not_P [OF False]
    proof (rule wp_mono [OF cleanupSecondary_clean], goal_cases)
      case (1 r s')
      then show ?case by (cases r) (simp, simp only: sum.case, rule rest, simp)
    qed
  qed
qed (simp add: wp_rules)

section \<open>Properties\<close>


end
