(* ===== verification/Ramen_Liveness.thy ===== *)
theory Ramen_Liveness
  imports Ramen_Relocation
begin

text \<open>
  Progress of a failover: when no API call fails and the prerequisites hold, one pass of
  \<^verbatim>\<open>RunFailover\<close> does ask the failover cluster to become primary, and then waits for the workload's
  resources to be restored there.
\<close>

section \<open>Reporting always succeeds\<close>

definition succeeds :: "unit hubm \<Rightarrow> bool" where
  "succeeds m \<longleftrightarrow> (\<forall>s. wp m (\<lambda>r _. r = Inr ()) s)"

lemma succeeds_modInst: "succeeds (modInst f)"
  by (simp add: succeeds_def modInst_def wp_rules)

lemma succeeds_bind: "(\<And>x. succeeds (f x)) \<Longrightarrow> succeeds (bindM (getsM g) f)"
  by (simp add: succeeds_def wp_rules)

lemma succeeds_reports:
  "succeeds (setDRState p)" "succeeds (setProgression q)" "succeeds (setCond t st r m)"
  "succeeds (setAvailable msg)" "succeeds setStatusInitiating"
  unfolding setDRState_def setProgression_def setCond_def setAvailable_def setStatusInitiating_def
  by (intro succeeds_bind succeeds_modInst)+

lemma wp_reported:
  assumes "succeeds m" "\<And>k. pres (\<lambda>s. frame s = k) m" "\<And>s'. frame s' = frame s \<Longrightarrow> Q (Inr ()) s'"
  shows "wp m Q s"
proof -
  have "wp m (\<lambda>r s'. r = Inr () \<and> frame s' = frame s) s"
    using assms(1) pres_wp [OF assms(2) [of "frame s"], of s] by (intro wp_conj) (simp_all add: succeeds_def)
  then show ?thesis by (rule wp_mono) (use assms(3) in auto)
qed

lemmas wp_reports =
  wp_reported [OF succeeds_reports(1) fr.pres_setDRState]
  wp_reported [OF succeeds_reports(2) fr.pres_setProgression]
  wp_reported [OF succeeds_reports(3) fr.pres_setCond]
  wp_reported [OF succeeds_reports(4) fr.pres_setAvailable]
  wp_reported [OF succeeds_reports(5) fr.pres_setStatusInitiating]

section \<open>The steps of a failover\<close>

lemma ok_checkFailoverPrerequisites:
  assumes "failoverPrereq s h"
  shows "wp (checkFailoverPrerequisites h) (\<lambda>r s'. r = Inr True \<and> frame s' = frame s) s"
proof (rule wp_conj)
  show "wp (checkFailoverPrerequisites h) (\<lambda>_ s'. frame s' = frame s) s"
    by (rule pres_wp [OF fr.pres_checkFailoverPrerequisites refl])
  have metro: "wp (checkMetroFailoverPrerequisites h) (\<lambda>r _. r = Inr True) s"
    if "checkClusterFenced h (drClusters s) = Inr True"
    unfolding checkMetroFailoverPrerequisites_def wp_seq wp_bind wp_gets sum.case
  proof (rule wp_reports(2), goal_cases)
    case (1 s')
    from cfgD(3) [OF frame_cfg [OF this]] that show ?case by (simp add: wp_rules)
  qed
  have regional: "wp checkRegionalFailoverPrerequisites (\<lambda>r _. r = Inr True) s" if "regionalPrerequisitesMet s"
    unfolding checkRegionalFailoverPrerequisites_def wp_seq wp_gets sum.case
  proof (rule wp_reports(2), goal_cases)
    case (1 s')
    from frame_guards(3) [OF this] that show ?case by simp
  qed
  show "wp (checkFailoverPrerequisites h) (\<lambda>r _. r = Inr True) s"
    using assms metro regional
    by (auto simp: checkFailoverPrerequisites_def failoverPrereq_def wp_bind wp_gets wp_attempt wp_ret
        elim!: wp_mono split: if_splits)
qed

text \<open>The placement can be written: a PlacementRule, or a Placement with its one decision object.\<close>

definition placementOK :: "hub \<Rightarrow> bool" where
  "placementOK s =
     (case userPlacement s of
        PlacementRule _ \<Rightarrow> True
      | Placement n \<Rightarrow> goodObjects (decisionObjects s n) \<and> decisionObjects s n \<noteq> []
      | OtherPlacement \<Rightarrow> False)"

lemma ok_retain:
  assumes "faultless s" "placementOK s"
  shows "wp (retainClusterDecisionAsFailover h) (\<lambda>r s'. r = Inr () \<and> workFrame s' = workFrame s) s"
proof (rule wp_conj)
  show "wp (retainClusterDecisionAsFailover h) (\<lambda>_ s'. workFrame s' = workFrame s) s"
    by (rule pres_wp [OF wk.pres_retainClusterDecisionAsFailover refl])
  show "wp (retainClusterDecisionAsFailover h) (\<lambda>r _. r = Inr ()) s"
  proof (cases "userPlacement s")
    case (Placement n)
    with assms(2) obtain p where p: "decisionObjects s n = [p]" "goodObjects (decisionObjects s n)"
      using one_object [of s n] by (auto simp: placementOK_def)
    then have "poName p \<in> set (map poName (placementDecisions s))"
      by (auto simp: decisionObjects_def filter_eq_Cons_iff)
    with Placement p assms(1) show ?thesis
      unfolding retainClusterDecisionAsFailover_def retainPlacementClusterDecisionAsFailover_def
      by (auto simp: wp_rules ok_rules Let_def split: prod.split)
  qed (use assms(2) in \<open>auto simp: retainClusterDecisionAsFailover_def placementOK_def wp_rules\<close>)
qed

lemma setProgression_keeps:
  "wp (setProgression p) (\<lambda>r s'. r = Inr () \<and> frame s' = frame s) s"
  by (rule wp_reports(2)) simp

text \<open>Switching to a cluster whose ManifestWork holds a secondary promotes it and waits for the restore.\<close>

lemma ok_switchToCluster:
  assumes "faultless s" "t \<noteq> []" "mwVRG s t = Some v" "\<not> isVRGPrimary v"
  shows "wp (switchToCluster t ns) (\<lambda>r s'. r = Inl errWaitForRestore \<and> mwPrimary s' t) s"
proof -
  define s1 where "s1 = (putVRGManifest t (withReplicationState s t Primary v) s)\<lparr>calls := calls s + 4\<rparr>"
  have "mwPrimary s1 t"
    using mwVRG_putVRGManifest [OF assms(3), of "withReplicationState s t Primary v" t]
    by (simp add: s1_def mwPrimary_def pw.primary_withReplicationState)
  then have "wp (seqM (setProgression p) (failM e)) (\<lambda>r s'. r = Inl e \<and> mwPrimary s' t) s1" for p e
    unfolding wp_seq by (intro wp_mono [OF setProgression_keeps]) (auto simp: wp_rules dest: frame_mwPrimary [where c = t])
  then show ?thesis
    by (simp add: switchToCluster_def wp_bind ok_createVRGManifestWorkAsPrimary [OF assms] s1_def)
qed

definition failoverPossible :: "hub \<Rightarrow> bool" where
  "failoverPossible s \<longleftrightarrow>
     (let t = dFailoverCluster (spec s)
      in faultless s \<and> placementOK s \<and> t \<noteq> [] \<and> isValidFailoverTarget s t = Inr () \<and> \<not> vrgExistsAndPrimary s t
         \<and> (case mwVRG s t of None \<Rightarrow> False | Some v \<Rightarrow> \<not> isVRGPrimary v)
         \<and> cdClusterName (currentDecision s) \<noteq> t \<and> \<not> dDryRun (spec s) \<and> \<not> hasGlobalVGRLabel s
         \<and> homeCluster s \<noteq> [] \<and> failoverPrereq s (homeCluster s))"

lemma frame_possible:
  assumes "frame s' = frame s"
  shows "faultless s' = faultless s" "placementOK s' = placementOK s" "mwVRG s' c = mwVRG s c"
    "workFrame s' = workFrame s"
proof -
  note f = frameD [OF assms] cfgD [OF frame_cfg [OF assms]]
  show "faultless s' = faultless s" by (rule faultless_cfg [OF f(1)])
  show "placementOK s' = placementOK s"
    by (simp add: placementOK_def decisionObjects_def f split: user_placement.split)
  show w: "workFrame s' = workFrame s" by (simp add: workFrame_def f)
  show "mwVRG s' c = mwVRG s c" by (rule workFrameD(3) [OF w])
qed

lemma switchToFailoverCluster_promotes:
  assumes "failoverPossible s" "frame s0 = frame s"
  shows "wp switchToFailoverCluster (\<lambda>r s'. r = Inl errWaitForRestore \<and> mwPrimary s' (dFailoverCluster (spec s))) s0"
proof -
  let ?t = "dFailoverCluster (spec s)" and ?h = "homeCluster s"
  obtain v where p: "faultless s" "placementOK s" "?t \<noteq> []" "mwVRG s ?t = Some v" "\<not> isVRGPrimary v"
      "?h \<noteq> []" "failoverPrereq s ?h"
    using assms(1) by (auto simp: failoverPossible_def Let_def split: option.splits)
  have t0: "dFailoverCluster (spec s0) = ?t" using cfgD(1) [OF frame_cfg [OF assms(2)]] by simp
  have home: "wp (getCurrentHomeClusterName ?t) (\<lambda>r s'. r = Inr ?h \<and> frame s' = frame s) s'"
    if f: "frame s' = frame s" for s'
  proof -
    have "dFailoverCluster (spec s') = ?t" "faultless s'"
      using cfgD(1) [OF frame_cfg [OF f]] frame_possible(1) [OF f] p(1) by simp_all
    then show ?thesis
      using ok_getCurrentHomeClusterName [of s'] frame_guards(8) [OF f] f by (simp split: user_placement.split)
  qed
  have met: "wp (checkFailoverPrerequisites ?h) (\<lambda>r s'. r = Inr True \<and> frame s' = frame s) s'"
    if f: "frame s' = frame s" for s'
    using ok_checkFailoverPrerequisites [of s' ?h] frame_guards(2) [OF f] p(7) f by simp
  have switch: "wp (seqM (retainClusterDecisionAsFailover ?h) (switchToCluster ?t []))
      (\<lambda>r s'. r = Inl errWaitForRestore \<and> mwPrimary s' ?t) s'" if f: "frame s' = frame s" for s'
  proof -
    have w: "faultless s'" "placementOK s'" using frame_possible(1,2) [OF f] p(1,2) by simp_all
    have next_: "faultless s2" "mwVRG s2 ?t = Some v" if "workFrame s2 = workFrame s'" for s2
      using faultless_cfg [OF workFrameD(1) [OF that]] workFrameD(3) [OF that] frame_possible(3) [OF f] w(1) p(4) by simp_all
    show ?thesis
      unfolding wp_seq
      by (rule wp_mono [OF ok_retain [OF w]]) (auto intro!: ok_switchToCluster next_ simp: p(3,4,5))
  qed
  have switchQ: "wp (retainClusterDecisionAsFailover ?h) (\<lambda>r s2. case r of Inl e \<Rightarrow> Q (Inl e) s2
      | Inr _ \<Rightarrow> wp (switchToCluster ?t []) Q s2) s'"
    if "frame s' = frame s" "\<And>s2. mwPrimary s2 ?t \<Longrightarrow> Q (Inl errWaitForRestore) s2" for s' Q
    using wp_mono [OF switch [OF that(1)], of Q] that(2) by (auto simp: wp_seq)
  have kept: "mwPrimary s2 ?t" if "mwPrimary s1 ?t" "frame s2 = frame s1" for s1 s2
    using that frame_mwPrimary by blast
  show ?thesis
    unfolding switchToFailoverCluster_def wp_bind wp_gets sum.case wp_seq t0 using assms(2) p(6)
    by (auto intro!: wp_reports wp_mono [OF home] wp_mono [OF met] switchQ simp: wp_rules) (erule kept, assumption)
qed

lemma RunFailover_promotes:
  assumes "failoverPossible s"
  shows "wp RunFailover (\<lambda>r s'. r = Inl errWaitForRestore \<and> mwPrimary s' (dFailoverCluster (spec s))) s"
proof -
  let ?t = "dFailoverCluster (spec s)"
  obtain v mw where p: "faultless s" "?t \<noteq> []" "isValidFailoverTarget s ?t = Inr ()" "\<not> vrgExistsAndPrimary s ?t"
      "manifestWorks s (BuildManifestWorkName s ''vrg'', ?t) = Some mw" "cdClusterName (currentDecision s) \<noteq> ?t"
      "\<not> dDryRun (spec s)" "\<not> hasGlobalVGRLabel s"
    using assms by (auto simp: failoverPossible_def Let_def mwVRG_def split: option.splits)
  have start: "wp startFailover (\<lambda>r s'. r = Inl errWaitForRestore \<and> mwPrimary s' ?t) s0" if f: "frame s0 = frame s" for s0
    unfolding startFailover_def wp_seq whenConsensus_def
  proof (rule wp_reports(5), goal_cases)
    case (1 s')
    then have f': "frame s' = frame s" using f by simp
    show ?case
      using switchToFailoverCluster_promotes [OF assms f'] frame_guards(5) [OF f'] p(8) by (simp add: wp_rules)
  qed
  show ?thesis
    using p by (auto simp: RunFailover_def mwExistsAndPlacementUpdated_def wp_rules ok_rules start
        split: user_placement.split)
qed

section \<open>Reading never fails\<close>

lemma getClusterDecision_returns: "\<exists>x s'. getClusterDecision s = (Inr x, s')"
  by (auto simp: getClusterDecision_def getClusterDecisionFromPlacement_def bindM_def getsM_def ret_def attemptM_def
      split: user_placement.split prod.split)

lemma shouldUpdateStatus_returns: "\<exists>x s'. shouldUpdateStatus s = (Inr x, s')"
  using getClusterDecision_returns [of s]
  by (auto simp: shouldUpdateStatus_def bindM_def getsM_def ret_def)

end
