(* ===== verification/Ramen_Examples.thy ===== *)
theory Ramen_Examples
  imports Ramen_Invariants
begin

text \<open>
  A concrete pair of clusters \<open>c1\<close> and \<open>c2\<close> with one protected workload, and the states of a
  reconcile built on it. The witnesses of the properties evaluate the model on these states.
\<close>

definition exCond :: "string \<Rightarrow> condition" where
  "exCond t = \<lparr>cType = t, cStatus = ConditionTrue, cObservedGeneration = 1, cLastTransitionTime = 0,
     cReason = ''Ready'', cMessage = ''ok''\<rparr>"

definition exVRG :: "replication_state \<Rightarrow> vrg" where
  "exVRG st =
     (let v = emptyVRG ''app'' ''ns'' [] st
      in v\<lparr>vGeneration := 1,
           vSpec := (vSpec v)\<lparr>vSync := Some \<lparr>ssPeerClasses = []\<rparr>\<rparr>,
           vStatus := (vStatus v)
             \<lparr>vState := getStatusStateFromSpecState st, vStatusObservedGeneration := 1,
              vConditions := map exCond [''DataReady'', ''ClusterDataReady'', ''DataProtected'',
                ''ClusterDataProtected'', ''NoClusterDataConflict'']\<rparr>\<rparr>)"

definition exStatus :: drpc_status where
  "exStatus = \<lparr>sPhase = StateNone, sObservedGeneration = 0, sActionStartTime = None,
     sActionDuration = None, sProgression = ProgressionNone, sPreferredDecision = emptyDecision,
     sConditions = [], sResourceConditions = zeroVRGConditions, sLastUpdateTime = None,
     sLastGroupSyncTime = None, sLastGroupSyncDuration = None, sLastGroupSyncBytes = None,
     sLastKubeObjectProtectionTime = None\<rparr>"

definition exDRPC :: "dr_action \<Rightarrow> drpc" where
  "exDRPC a = \<lparr>dName = ''app'', dNamespace = ''ns'', dUID = ''uid'', dGeneration = 2,
     dDeleted = False, dFinalizers = [], dOwnerReferences = [], dAnnotations = [], dLabels = [], dActionCount = None,
     dSpec = \<lparr>dPlacementRefName = ''plc'', dPlacementRefNamespace = [], dDRPolicyRefName = ''policy'',
       dProtectedNamespaces = None, dPreferredCluster = ''c1'', dFailoverCluster = ''c2'',
       dPVCSelector = [], dAction = a, dDryRun = False, dKubeObjectProtection = None,
       dVolSyncSpec = None, dRetainNamespaceSCCAcrossPeers = False\<rparr>,
     dStatus = exStatus\<rparr>"

definition exCluster :: "string \<Rightarrow> bool \<Rightarrow> drcluster" where
  "exCluster n fenced = \<lparr>dcName = n, dcNamespace = [], dcGeneration = 1, dcDeleted = False, dcLabels = [],
     dcAnnotations = [], dcFinalizers = [], dcCIDRs = [], dcClusterFence = ClusterFenceStateUnset,
     dcS3ProfileName = ''s3-'' @ n, dcRegion = ''east'', dcPhase = Available, dcConditions = (if fenced then [exCond ''Fenced''] else []),
     dcMaintenanceModes = []\<rparr>"

definition exPolicy :: drpolicy where
  "exPolicy = \<lparr>polName = ''policy'', polGeneration = 1, polCreationTimestamp = 0, polDeleted = False, polLabels = [],
      polFinalizers = [], polNetworkMappingRef = None, polSchedulingInterval = [], polReplicationClassSelector = [],
     polVolumeSnapshotClassSelector = [], polVolumeGroupSnapshotClassSelector = [],
     polDRClusters = [''c1'', ''c2''], polConditions = [], polAsyncPeerClasses = [],
     polSyncPeerClasses = [], polNetworkPeers = []\<rparr>"

definition exEnv :: "(string \<times> vrg) list \<Rightarrow> env" where
  "exEnv views = \<lparr>mcvVRG = (\<lambda>ns c. case map_of views c of
                     None \<Rightarrow> Inl (Gerr NotFound ''no such VRG'') | Some v \<Rightarrow> Inr v),
     mcvNS = (\<lambda>c n. Inl (Gerr NotFound ''no such namespace'')),
     mcvRecipe = (\<lambda>c n ns. Inl (Gerr NotFound ''no such recipe'')),
     s3Store = (\<lambda>p. Inl (newE ''no store'')), appSets = Inr [], placementNamespace = ''ns'',
     hubDRPCs = [], volsyncSecretErr = (\<lambda>_. None), translateSourceIP = (\<lambda>ip c n. ip)\<rparr>"

definition exMW :: "replication_state \<Rightarrow> manifest_work" where
  "exMW st = newManifestWork [] [VRGManifest (exVRG st)] []"

definition exNSMW :: manifest_work where
  "exNSMW = newManifestWork [] [NSManifest \<lparr>nsName = ''ns'', nsAnnotations = [], nsLabels = []\<rparr>] []"

definition exHub :: "dr_action \<Rightarrow> bool \<Rightarrow> (string \<times> vrg) list \<Rightarrow> (string \<times> manifest_work) list \<Rightarrow> string \<Rightarrow> hub" where
  "exHub a fenced views mws home =
     \<lparr>clock = 1000, conflictRetries = 5, faults = (\<lambda>_. None), calls = 0,
      manifestWorks = (\<lambda>k. if k = (''app-ns-ns-mw'', ''c1'') \<or> k = (''app-ns-ns-mw'', ''c2'') then Some exNSMW
                           else if fst k = ''app-ns-vrg-mw'' then map_of mws (snd k) else None),
      hubViews = [], inst = exDRPC a, savedInstanceStatus = exStatus, reconcilerSavedStatus = exStatus,
      savedDRActionCount = None, serverStatus = exStatus, drPolicy = exPolicy,
      drClusters = [exCluster ''c1'' fenced, exCluster ''c2'' False], vrgs = views,
      vrgNamespace = ''ns'', drType = DRTypeSync, volSyncDisabled = True, ramenConfig = None,
      requeueAfter = 0, mcvRequestInProgress = False, numClustersQueriedSuccessfully = 2,
      userPlacement = PlacementRule [\<lparr>pdClusterName = home, pdClusterNamespace = home\<rparr>],
      placementDecisions = [],
      environ = exEnv views\<rparr>"

text \<open>The primary on \<open>c1\<close> with its peer on \<open>c2\<close>.\<close>

definition exViews :: "(string \<times> vrg) list" where
  "exViews = [(''c1'', exVRG Primary), (''c2'', exVRG Secondary)]"

definition exMWs :: "(string \<times> manifest_work) list" where
  "exMWs = [(''c1'', exMW Primary), (''c2'', exMW Secondary)]"

definition exFailover :: hub where
  "exFailover = exHub ActionFailover True exViews exMWs ''c1''"

text \<open>A dry run that asks for a relocation, and a workload placed on \<open>c1\<close> by a Placement.\<close>

definition exDryRelocate :: hub where
  "exDryRelocate =
     (let s = exHub ActionRelocate True exViews exMWs ''c1''
      in s\<lparr>inst := (inst s)\<lparr>dSpec := (dSpec (inst s))\<lparr>dDryRun := True\<rparr>\<rparr>\<rparr>)"

definition exPlaced :: hub where
  "exPlaced =
     (exHub ActionFailover True exViews exMWs ''c1'')
       \<lparr>userPlacement := Placement ''plc'',
        placementDecisions := [\<lparr>poName = ''plc-decision-1'', poLabels = [(PlacementLabel, ''plc'')],
          poDecisions = [\<lparr>cdClusterName = ''c1'', cdReason = ''c1''\<rparr>]\<rparr>]\<rparr>"

text \<open>A workload synced at time \<open>t\<close> every five minutes, and a group of two DRPCs of which the other asks for \<open>a\<close>.\<close>

definition exSynced :: "int \<Rightarrow> hub" where
  "exSynced t =
     (let s = exHub ActionFailover True exViews exMWs ''c1''
      in s\<lparr>inst := (inst s)\<lparr>dStatus := exStatus\<lparr>sLastGroupSyncTime := Some t\<rparr>\<rparr>,
           drPolicy := exPolicy\<lparr>polSchedulingInterval := ''5m''\<rparr>\<rparr>)"

definition exGroup :: "dr_action \<Rightarrow> hub" where
  "exGroup a =
     (let s = exHub ActionFailover True exViews exMWs ''c1''; labels = [(GlobalVGRLabel, ''group'')]
      in s\<lparr>inst := (inst s)\<lparr>dLabels := labels\<rparr>,
           environ := (environ s)\<lparr>hubDRPCs := [(exDRPC ActionFailover)\<lparr>dLabels := labels\<rparr>,
             (exDRPC a)\<lparr>dName := ''other'', dLabels := labels\<rparr>]\<rparr>\<rparr>)"

text \<open>
  A regional pair whose primary protects volumes that need the failover maintenance mode; a hub that can
  only read the primary from the object stores; a workload moved to \<open>c2\<close> whose placement may be unreadable.
\<close>

definition exMModePVC :: "string \<Rightarrow> string \<Rightarrow> protected_pvc" where
  "exMModePVC provisioner rid =
     (exPVC ''sc'')\<lparr>pvcStorageIdentifiers := \<lparr>siStorageProvisioner = provisioner,
        siStorageID = \<lparr>idID = ''s'', idModes = []\<rparr>, siReplicationID = \<lparr>idID = rid, idModes = [''Failover'']\<rparr>\<rparr>\<rparr>"

definition exRegional :: "protected_pvc list \<Rightarrow> hub" where
  "exRegional pvcs =
     (let v = exVRG Primary
      in (exHub ActionFailover True [(''c1'', v\<lparr>vStatus := (vStatus v)\<lparr>vProtectedPVCs := pvcs\<rparr>\<rparr>)] exMWs ''c1'')
           \<lparr>drType := DRTypeAsync\<rparr>)"

definition exStale :: hub where
  "exStale =
     (let s = exHub ActionFailover True [] exMWs ''c1'';
          rc = zeroVRGConditions\<lparr>rcResourceMeta := zeroResourceMeta\<lparr>rmResourceVersion := ''999''\<rparr>\<rparr>
      in s\<lparr>inst := (inst s)\<lparr>dStatus := exStatus\<lparr>sResourceConditions := rc\<rparr>\<rparr>,
           environ := (environ s)\<lparr>s3Store := (\<lambda>p. Inr (\<lambda>k. Inr ((exVRG Primary)\<lparr>vResourceVersion := ''1000''\<rparr>)))\<rparr>\<rparr>)"

definition exUnreadable :: "bool \<Rightarrow> hub" where
  "exUnreadable broken =
     (let s = exHub ActionFailover True exViews exMWs ''c2''
      in s\<lparr>inst := (inst s)\<lparr>dStatus := exStatus\<lparr>sPreferredDecision := \<lparr>pdClusterName = ''c1'', pdClusterNamespace = ''c1''\<rparr>\<rparr>\<rparr>,
           userPlacement := Placement ''plc'',
           placementDecisions := [\<lparr>poName = ''plc-decision-1'', poLabels = [(PlacementLabel, ''plc'')],
             poDecisions = [\<lparr>cdClusterName = ''c2'', cdReason = ''c2''\<rparr>]\<rparr>],
           faults := (\<lambda>n. if broken \<and> n = 0 then Some (newE ''timeout'') else None)\<rparr>)"

text \<open>A virtual machine with a static address on the primary \<open>c2\<close>, protected by the VM recipe.\<close>

definition exVM :: resource_reference where
  "exVM = \<lparr>rrAPIVersion = ''kubevirt.io/v1'', rrKind = ''VirtualMachine'', rrNamespace = ''ns'', rrName = ''vm''\<rparr>"

definition exStaticIP :: hub where
  "exStaticIP =
     (let vms = [\<lparr>drResourceRef = exVM, drNetworks = [\<lparr>dnNetworkName = ''net'', dnAddresses = [''10.0.0.1'']\<rparr>]\<rparr>];
          v = exVRG Primary;
          s = exHub ActionFailover True [(''c2'', v\<lparr>vStatus := (vStatus v)\<lparr>vStaticIPDiscovery := Some vms\<rparr>\<rparr>)] exMWs ''c2'';
          rc = zeroVRGConditions\<lparr>rcResourceMeta := zeroResourceMeta\<lparr>rmProtectedStaticIPVMs := vms\<rparr>\<rparr>;
          kop = \<lparr>kopCaptureInterval = None, kopRecipeRef = Some \<lparr>rfNamespace = ''ns'', rfName = ''vm-recipe''\<rparr>,
                 kopRecipeParameters = [], kopKubeObjectSelector = None\<rparr>
      in s\<lparr>inst := (inst s)\<lparr>dSpec := (dSpec (inst s))\<lparr>dKubeObjectProtection := Some kop\<rparr>,
                           dStatus := exStatus\<lparr>sResourceConditions := rc\<rparr>\<rparr>\<rparr>)"

lemmas ex_defs = exFailover_def exHub_def exMWs_def exViews_def exNSMW_def exMW_def exEnv_def exPolicy_def
  exCluster_def exDRPC_def exStatus_def exVRG_def exCond_def emptyVRG_def zeroVRGStatus_def zeroVolSync_def
  emptyDecision_def

lemmas monad_defs = bindM_def seqM_def catchM_def attemptM_def getsM_def modifyM_def ret_def failM_def whenM_def
  modInst_def modStatus_def

end
