(* ===== verification/Ramen_Cidr.thy ===== *)
theory Ramen_Cidr
  imports Ramen_Views
begin

text \<open>
  Which strings Go's \<^verbatim>\<open>net.ParseCIDR\<close> accepts, as \<^verbatim>\<open>validateCIDRsFormat\<close> of
  \<^verbatim>\<open>drcluster_controller.go\<close> uses it: an address of \<^verbatim>\<open>netip.ParseAddr\<close> without a zone, a slash,
  and a decimal prefix length of at most the address's bits.
\<close>

definition isDigit :: "char \<Rightarrow> bool" where
  "isDigit c \<longleftrightarrow> CHR ''0'' \<le> c \<and> c \<le> CHR ''9''"

definition isHexDigit :: "char \<Rightarrow> bool" where
  "isHexDigit c \<longleftrightarrow> isDigit c \<or> CHR ''a'' \<le> c \<and> c \<le> CHR ''f'' \<or> CHR ''A'' \<le> c \<and> c \<le> CHR ''F''"

definition decimalValue :: "string \<Rightarrow> nat" where
  "decimalValue = foldl (\<lambda>n c. 10 * n + (of_char c - 48)) 0"

section \<open>IPv4\<close>

definition ipv4Field :: "string \<Rightarrow> bool" where
  "ipv4Field f \<longleftrightarrow> f \<noteq> [] \<and> list_all isDigit f \<and> (length f = 1 \<or> hd f \<noteq> CHR ''0'') \<and> decimalValue f \<le> 255"

definition parseIPv4 :: "string \<Rightarrow> bool" where
  "parseIPv4 s = (let fs = splitOn CHR ''.'' s in length fs = 4 \<and> list_all ipv4Field fs)"

section \<open>IPv6\<close>

text \<open>
  The loop of \<^verbatim>\<open>parseIPv6\<close>: \<open>i\<close> bytes are filled, \<open>ellipsis\<close> says whether \<^verbatim>\<open>::\<close> was seen. Each round
  reads one group of hexadecimal digits, or an IPv4 address that ends the string.
\<close>

function parseIPv6Groups :: "string \<Rightarrow> nat \<Rightarrow> bool \<Rightarrow> bool" where
  "parseIPv6Groups s i ellipsis =
     (if i \<ge> 16 then s = [] \<and> \<not> ellipsis
      else let digits = takeWhile isHexDigit s; rest = dropWhile isHexDigit s
           in if digits = [] \<or> length digits > 4 then False
              else case rest of
                     [] \<Rightarrow> (if i + 2 < 16 then ellipsis else \<not> ellipsis)
                   | c # rest' \<Rightarrow>
                       if c = CHR ''.''
                       then (ellipsis \<or> i = 12) \<and> i + 4 \<le> 16 \<and> parseIPv4 s
                            \<and> (if i + 4 < 16 then ellipsis else \<not> ellipsis)
                       else if c \<noteq> CHR '':'' \<or> rest' = [] then False
                       else if hd rest' \<noteq> CHR '':'' then parseIPv6Groups rest' (i + 2) ellipsis
                       else if ellipsis then False
                       else if tl rest' = [] then i + 2 < 16
                       else parseIPv6Groups (tl rest') (i + 2) True)"
  by pat_completeness auto
termination
  by (relation "measure (\<lambda>(s, i, e). 16 - i)") auto

definition parseIPv6 :: "string \<Rightarrow> bool" where
  "parseIPv6 s =
     (if take 2 s = ''::'' then drop 2 s = [] \<or> parseIPv6Groups (drop 2 s) 0 True
      else parseIPv6Groups s 0 False)"

section \<open>CIDR\<close>

text \<open>\<^verbatim>\<open>netip.ParseAddr\<close>: the first of the characters \<open>.\<close>, \<open>:\<close> and \<open>%\<close> decides; the result is the address's bits.\<close>

definition addrBits :: "string \<Rightarrow> nat option" where
  "addrBits s =
     (case find (\<lambda>c. c = CHR ''.'' \<or> c = CHR '':'' \<or> c = CHR ''%'') s of
        None \<Rightarrow> None
      | Some c \<Rightarrow>
          if c = CHR ''.'' then (if parseIPv4 s then Some 32 else None)
          else if c = CHR '':'' \<and> CHR ''%'' \<notin> set s then (if parseIPv6 s then Some 128 else None)
          else None)"

definition parseCIDR :: "string \<Rightarrow> bool" where
  "parseCIDR s =
     (if CHR ''/'' \<notin> set s then False
      else let addr = takeWhile (\<lambda>c. c \<noteq> CHR ''/'') s; mask = tl (dropWhile (\<lambda>c. c \<noteq> CHR ''/'') s)
           in case addrBits addr of
                None \<Rightarrow> False
              | Some bits \<Rightarrow> mask \<noteq> [] \<and> list_all isDigit mask \<and> decimalValue mask \<le> bits)"

lemma parseCIDR_examples:
  "parseCIDR ''10.0.0.0/8''" "parseCIDR ''2001:db8::/32''" "parseCIDR ''::ffff:10.0.0.1/96''"
  "parseCIDR ''::/0''" "parseCIDR ''1:2:3:4:5:6:7:8/128''"
  "\<not> parseCIDR ''10.0.0.0/33''" "\<not> parseCIDR ''10.0.0.256/8''" "\<not> parseCIDR ''10.0.0.01/8''"
  "\<not> parseCIDR ''10.0.0.1''" "\<not> parseCIDR ''1::2::3/64''" "\<not> parseCIDR ''fe80::1%eth0/64''"
  by code_simp+

text \<open>A prefix length longer than the address is rejected, however it is written.\<close>

lemma parseCIDR_mask_bound:
  "parseCIDR s \<Longrightarrow> decimalValue (tl (dropWhile (\<lambda>c. c \<noteq> CHR ''/'') s)) \<le> 128"
  by (auto simp: parseCIDR_def addrBits_def Let_def split: if_splits option.splits)

end
