(* ===== verification/Ramen_DRCluster.thy ===== *)
theory Ramen_DRCluster
  imports Ramen_Cidr Ramen_Checks
begin

text \<open>
  The DRCluster reconciler (\<^verbatim>\<open>internal/controller/drcluster_controller.go\<close>): the state of one
  reconcile, the condition setters, the phases, and the validation of the cluster's specification. The
  record \<open>drc\<close> holds the fields of \<^verbatim>\<open>drclusterInstance\<close>, the object as the API server stores it, and
  what the reconcile only reads.
\<close>

section \<open>State\<close>

record managed_cluster =
  mclConditions :: conditions
  mclClaims :: "(string \<times> string) list"

record placement_meta =
  plcDeleted :: bool
  plcDisableAnnotation :: "string option"

record plrule_meta =
  prDeleted :: bool
  prSchedulerName :: string

record drcluster_status =
  stPhase :: drcluster_phase
  stConditions :: conditions
  stMaintenanceModes :: "cluster_mmode list"

text \<open>
  \<open>uOrder\<close> is the order in which the API server lists the keys of ManifestWorks; \<open>uStores\<close> gives for an
  S3 profile the error of connecting, or the outcome of \<^verbatim>\<open>HeadBucket\<close> and of \<^verbatim>\<open>ListKeys\<close>; \<open>uMetrics\<close>
  holds the two CIDR gauges while they are registered. \<open>uMModesReset\<close> says that the list of maintenance
  modes in memory is an allocated one, which \<^verbatim>\<open>reflect.DeepEqual\<close> tells from the nil list it was read as.
\<close>

record drc = apiv +
  uObject :: drcluster
  uSaved :: drcluster_status
  uServer :: drcluster
  uRequeue :: bool
  uMModesReset :: bool
  uOrder :: "(string \<times> string) list"
  uPolicies :: "drpolicy list"
  uClusters :: "drcluster list"
  uConfig :: "gerr + ramen_config"
  uPodNamespace :: string
  uManagedClusters :: "string \<Rightarrow> managed_cluster option"
  uStores :: "string \<Rightarrow> gerr + (gerr option \<times> (string \<Rightarrow> gerr option))"
  uAddOns :: "string list"
  uMetrics :: "(bool \<times> bool) option"
  uEnv :: env
  uPlacements :: "string \<times> string \<Rightarrow> placement_meta option"
  uPlRules :: "string \<times> string \<Rightarrow> plrule_meta option"

type_synonym 'a drcm = "(drc, 'a) gm"

definition statusOf :: "drcluster \<Rightarrow> drcluster_status" where
  "statusOf dc = \<lparr>stPhase = dcPhase dc, stConditions = dcConditions dc,
     stMaintenanceModes = dcMaintenanceModes dc\<rparr>"

definition withStatusOf :: "drcluster \<Rightarrow> drcluster \<Rightarrow> drcluster" where
  "withStatusOf dc from = dc\<lparr>dcPhase := dcPhase from, dcConditions := dcConditions from,
     dcMaintenanceModes := dcMaintenanceModes from\<rparr>"

definition modObject :: "(drcluster \<Rightarrow> drcluster) \<Rightarrow> unit drcm" where
  "modObject f = modifyM (\<lambda>s. s\<lparr>uObject := f (uObject s)\<rparr>)"

definition setRequeue :: "unit drcm" where
  "setRequeue = modifyM (\<lambda>s. s\<lparr>uRequeue := True\<rparr>)"

section \<open>Condition setters\<close>

text \<open>Every setter of the fencing conditions writes \<open>Fenced\<close> and then \<open>Clean\<close>.\<close>

definition setFencedAndClean ::
  "string \<Rightarrow> condition_status \<Rightarrow> string \<Rightarrow> condition_status \<Rightarrow> condition_setter" where
  "setFencedAndClean fencedReason fenced cleanReason clean now cs generation msg =
     fst (SetStatusCondition now
       (fst (SetStatusCondition now cs (mkCondition ''Fenced'' fencedReason generation fenced msg)))
       (mkCondition ''Clean'' cleanReason generation clean msg))"

definition setDRClusterInitialCondition :: condition_setter where
  "setDRClusterInitialCondition now cs generation msg =
     foldl (\<lambda>cs t. SetStatusConditionIfNotFound now cs
              (mkCondition t ''Initializing'' generation ConditionUnknown msg))
       cs [''Validated'', ''Fenced'', ''Clean'']"

definition setDRClusterFencingCondition :: condition_setter where
  "setDRClusterFencingCondition = setFencedAndClean ''Fencing'' ConditionFalse ''Fencing'' ConditionTrue"

definition setDRClusterUnfencingCondition :: condition_setter where
  "setDRClusterUnfencingCondition = setFencedAndClean ''Unfencing'' ConditionTrue ''Unfencing'' ConditionFalse"

definition setDRClusterCleaningCondition :: condition_setter where
  "setDRClusterCleaningCondition = setFencedAndClean ''Cleaning'' ConditionFalse ''Cleaning'' ConditionFalse"

definition setDRClusterFencedCondition :: condition_setter where
  "setDRClusterFencedCondition = setFencedAndClean ''Fenced'' ConditionTrue ''Fenced'' ConditionFalse"

definition setDRClusterUnfencedCondition :: condition_setter where
  "setDRClusterUnfencedCondition = setFencedAndClean ''Unfenced'' ConditionFalse ''Fenced'' ConditionFalse"

definition setDRClusterCleanCondition :: condition_setter where
  "setDRClusterCleanCondition = setFencedAndClean ''Clean'' ConditionFalse ''Clean'' ConditionTrue"

definition setDRClusterFencingFailedCondition :: condition_setter where
  "setDRClusterFencingFailedCondition = setFencedAndClean ''FenceError'' ConditionFalse ''FenceError'' ConditionTrue"

definition setDRClusterUnfencingFailedCondition :: condition_setter where
  "setDRClusterUnfencingFailedCondition = setFencedAndClean ''UnfenceError'' ConditionTrue ''UnfenceError'' ConditionFalse"

definition setDRClusterValidatedCondition :: condition_setter where
  "setDRClusterValidatedCondition now cs generation msg =
     fst (SetStatusCondition now cs (mkCondition ''Validated'' ''Succeeded'' generation ConditionTrue msg))"

definition setCIDRsValidatedCondition :: "string \<Rightarrow> condition_status \<Rightarrow> condition_setter" where
  "setCIDRsValidatedCondition reason st now cs generation msg =
     fst (SetStatusCondition now cs (mkCondition ''CIDRsValidated'' reason generation st msg))"

definition setCIDRsValidatedConditionSucceeded :: condition_setter where
  "setCIDRsValidatedConditionSucceeded = setCIDRsValidatedCondition ''Succeeded'' ConditionTrue"

definition setCIDRsValidatedConditionUndetectedCIDRsFound :: condition_setter where
  "setCIDRsValidatedConditionUndetectedCIDRsFound = setCIDRsValidatedCondition ''UndetectedCIDRsFound'' ConditionTrue"

definition setCIDRsValidatedConditionDetectedCIDRsUnconfigured :: condition_setter where
  "setCIDRsValidatedConditionDetectedCIDRsUnconfigured =
     setCIDRsValidatedCondition ''DetectedCIDRsUnconfigured'' ConditionFalse"

definition setCIDRsValidatedConditionInvalidFormat :: condition_setter where
  "setCIDRsValidatedConditionInvalidFormat = setCIDRsValidatedCondition ''InvalidCIDRsFormat'' ConditionFalse"

text \<open>A setter applied to the conditions and the generation of the object in memory.\<close>

definition setConditions :: "condition_setter \<Rightarrow> string \<Rightarrow> unit drcm" where
  "setConditions setter msg =
     modifyM (\<lambda>s. s\<lparr>uObject := (uObject s)
       \<lparr>dcConditions := setter (clock s) (dcConditions (uObject s)) (dcGeneration (uObject s)) msg\<rparr>\<rparr>)"

section \<open>Phases\<close>

definition isFencingOrFenced :: "drcluster \<Rightarrow> bool" where
  "isFencingOrFenced dc \<longleftrightarrow> dcPhase dc = Fencing \<or> dcPhase dc = Fenced"

definition isUnfencingOrUnfenced :: "drcluster \<Rightarrow> bool" where
  "isUnfencingOrUnfenced dc \<longleftrightarrow> dcPhase dc = Unfencing \<or> dcPhase dc = Unfenced"

definition setDRClusterPhase :: "drcluster_phase \<Rightarrow> unit drcm" where
  "setDRClusterPhase nextPhase = modObject (\<lambda>dc. dc\<lparr>dcPhase := nextPhase\<rparr>)"

definition nextPhaseOf :: "drcluster_phase \<Rightarrow> drcluster_phase" where
  "nextPhaseOf p = (case p of Fencing \<Rightarrow> Fenced | Unfencing \<Rightarrow> Unfenced | _ \<Rightarrow> p)"

definition advanceToNextPhase :: "unit drcm" where
  "advanceToNextPhase = bindM (getsM (\<lambda>s. dcPhase (uObject s))) (\<lambda>p. setDRClusterPhase (nextPhaseOf p))"

section \<open>Writing the object\<close>

definition initializeStatus :: "unit drcm" where
  "initializeStatus =
     seqM (modifyM (\<lambda>s. s\<lparr>uSaved := statusOf (uObject s)\<rparr>))
       (bindM (getsM (\<lambda>s. dcConditions (uObject s)))
          (\<lambda>cs. whenM (cs = [])
                  (seqM (setConditions setDRClusterInitialCondition ''Initializing DRCluster'')
                     (setDRClusterPhase Starting))))"

text \<open>
  The status is a subresource: an update of the status stores the status in memory; an update of the
  object stores the rest of it and answers with the stored status, which replaces the one in memory.
\<close>

definition statusUpdate :: "unit drcm" where
  "statusUpdate =
     bindM (getsM (\<lambda>s. (uSaved s \<noteq> statusOf (uObject s) \<or> uMModesReset s \<and> stMaintenanceModes (uSaved s) = [],
                     dcName (uObject s), dcNamespace (uObject s))))
       (\<lambda>(changed, name, ns). whenM changed
          (catchM (seqM apiCall (modifyM (\<lambda>s. s\<lparr>uServer := withStatusOf (uServer s) (uObject s)\<rparr>)))
             (\<lambda>_. failM (newE (''failed to update drCluster status ('' @ name @ ''/'' @ ns @ '')'')))))"

definition updateObject :: "unit drcm" where
  "updateObject =
     seqM apiCall
       (modifyM (\<lambda>s. let dc = withStatusOf (uObject s) (uServer s) in s\<lparr>uObject := dc, uServer := dc\<rparr>))"

definition statusConditionSetAndUpdate :: "string \<Rightarrow> condition_status \<Rightarrow> string \<Rightarrow> string \<Rightarrow> unit drcm" where
  "statusConditionSetAndUpdate t st reason msg =
     seqM (modifyM (\<lambda>s. s\<lparr>uObject := (uObject s)
             \<lparr>dcConditions := snd (GenericStatusConditionSet (clock s) (dcGeneration (uObject s))
                (dcConditions (uObject s)) t st reason msg)\<rparr>\<rparr>))
       statusUpdate"

text \<open>\<^verbatim>\<open>validatedSetFalseAndUpdate\<close> returns the error it was given unless updating the status failed.\<close>

definition validatedSetFalseAndUpdate :: "string \<Rightarrow> gerr \<Rightarrow> 'a drcm" where
  "validatedSetFalseAndUpdate reason e =
     seqM (statusConditionSetAndUpdate ''Validated'' ConditionFalse reason (Error e)) (failM e)"

definition drClusterFinalizerName :: string where
  "drClusterFinalizerName = ''drclusters.ramendr.openshift.io/ramen''"

definition addLabelsAndFinalizers :: "unit drcm" where
  "addLabelsAndFinalizers =
     bindM (getsM uObject)
       (\<lambda>dc. let labelled = map_of (dcLabels dc) ''cluster.open-cluster-management.io/backup'' = Some ''ramen'';
                 guarded = drClusterFinalizerName \<in> set (dcFinalizers dc)
             in whenM (\<not> labelled \<or> \<not> guarded)
                  (seqM (modObject (\<lambda>dc. dc
                           \<lparr>dcLabels := (if labelled then dcLabels dc
                              else sm_put ''cluster.open-cluster-management.io/backup'' ''ramen'' (dcLabels dc)),
                            dcFinalizers := (if guarded then dcFinalizers dc
                              else dcFinalizers dc @ [drClusterFinalizerName])\<rparr>))
                     updateObject))"

definition finalizerRemove :: "unit drcm" where
  "finalizerRemove =
     bindM (getsM (\<lambda>s. drClusterFinalizerName \<in> set (dcFinalizers (uObject s))))
       (\<lambda>guarded. whenM guarded
          (seqM (modObject (\<lambda>dc. dc\<lparr>dcFinalizers := filter (\<lambda>f. f \<noteq> drClusterFinalizerName) (dcFinalizers dc)\<rparr>))
             updateObject))"

end
