(* ===== verification/Ramen_DRClusterConfig.thy ===== *)
theory Ramen_DRClusterConfig
  imports Ramen_DRCluster
begin

text \<open>
  What a DRCluster reconcile deploys to its managed cluster and validates: the ManifestWork with the
  cluster roles and the operator's subscription (\<^verbatim>\<open>drclusters.go\<close>, \<^verbatim>\<open>util/mw_util.go\<close>), the
  DRClusterConfig with the replication schedules of the policies, the S3 profile and the CIDRs
  (\<^verbatim>\<open>drcluster_controller.go\<close>).
\<close>

section \<open>The DR cluster operator\<close>

definition clusterRole :: "string \<Rightarrow> string \<Rightarrow> string \<Rightarrow> string list \<Rightarrow> manifest" where
  "clusterRole suffix apiGroup resource verbs =
     ClusterRoleManifest
       \<lparr>crName = ''open-cluster-management:klusterlet-work-sa:agent:'' @ suffix,
        crLabels = [(''open-cluster-management.io/aggregate-to-work'', ''true''), CreatedByRamen],
        crRules = [\<lparr>ruAPIGroups = [apiGroup], ruResources = [resource], ruVerbs = verbs\<rparr>]\<rparr>"

definition editVerbs :: "string list" where
  "editVerbs = [''create'', ''get'', ''list'', ''update'', ''delete'']"

definition vrgClusterRole :: manifest where
  "vrgClusterRole = clusterRole ''volrepgroup-edit'' ''ramendr.openshift.io'' ''volumereplicationgroups'' editVerbs"

definition mModeClusterRole :: manifest where
  "mModeClusterRole = clusterRole ''mmode-edit'' ''ramendr.openshift.io'' ''maintenancemodes'' editVerbs"

definition drClusterConfigRole :: manifest where
  "drClusterConfigRole = clusterRole ''drclusterconfig-edit'' ''ramendr.openshift.io'' ''drclusterconfigs'' editVerbs"

definition networkFenceClusterRole :: manifest where
  "networkFenceClusterRole =
     clusterRole ''networkfence-edit'' csiAddonsGroup ''networkfences'' (editVerbs @ [''watch''])"

definition recipeClusterRole :: manifest where
  "recipeClusterRole =
     clusterRole ''recipe-edit'' ''ramendr.openshift.io'' ''recipes'' [''create'', ''get'', ''list'', ''update'']"

definition olmClusterRole :: manifest where
  "olmClusterRole = clusterRole ''olm-edit'' ''operators.coreos.com'' ''operatorgroups'' editVerbs"

definition orDefault :: "string \<Rightarrow> string \<Rightarrow> string" where
  "orDefault def x = (if x = [] then def else x)"

definition drClusterOperatorChannelNameOrDefault :: "ramen_config \<Rightarrow> string" where
  "drClusterOperatorChannelNameOrDefault c = orDefault ''alpha'' (cfgChannelName c)"

definition drClusterOperatorPackageNameOrDefault :: "ramen_config \<Rightarrow> string" where
  "drClusterOperatorPackageNameOrDefault c = orDefault ''ramen-dr-cluster-operator'' (cfgPackageName c)"

definition drClusterOperatorNamespaceNameOrDefault :: "string \<Rightarrow> ramen_config \<Rightarrow> string" where
  "drClusterOperatorNamespaceNameOrDefault podNamespace c = orDefault podNamespace (cfgNamespaceName c)"

definition drClusterOperatorCatalogSourceNameOrDefault :: "ramen_config \<Rightarrow> string" where
  "drClusterOperatorCatalogSourceNameOrDefault c = orDefault ''ramen-catalog'' (cfgCatalogSourceName c)"

definition drClusterOperatorCatalogSourceNamespaceNameOrDefault :: "string \<Rightarrow> ramen_config \<Rightarrow> string" where
  "drClusterOperatorCatalogSourceNamespaceNameOrDefault podNamespace c =
     orDefault podNamespace (cfgCatalogSourceNamespaceName c)"

definition drClusterOperatorClusterServiceVersionNameOrDefault :: "ramen_config \<Rightarrow> string" where
  "drClusterOperatorClusterServiceVersionNameOrDefault c =
     orDefault ''ramen-dr-cluster-operator.v0.0.1'' (cfgClusterServiceVersionName c)"

definition Namespace :: "string \<Rightarrow> manifest" where
  "Namespace n = NSManifest \<lparr>nsName = n, nsAnnotations = [], nsLabels = [CreatedByRamen]\<rparr>"

definition operatorGroup :: "string \<Rightarrow> manifest" where
  "operatorGroup ns = OperatorGroupManifest
     \<lparr>ogName = ''ramen-operator-group'', ogNamespace = ns, ogLabels = [CreatedByRamen]\<rparr>"

definition ConfigMapNew :: "string \<Rightarrow> string \<Rightarrow> ramen_config \<Rightarrow> manifest" where
  "ConfigMapNew ns name c = ConfigMapManifest
     \<lparr>cfmName = name, cfmNamespace = ns, cfmLabels = [CreatedByRamen], cfmRamenConfig = c\<rparr>"

definition objectsToDeploy :: "string \<Rightarrow> ramen_config \<Rightarrow> manifest list" where
  "objectsToDeploy podNamespace hubConfig =
     (let ns = drClusterOperatorNamespaceNameOrDefault podNamespace hubConfig;
          c = hubConfig\<lparr>cfgLeaderElectionResourceName :=
                map_option (\<lambda>_. ''dr-cluster.ramendr.openshift.io'') (cfgLeaderElectionResourceName hubConfig)\<rparr>
      in (if cfgRamenOpsNamespace hubConfig \<noteq> [] then [Namespace (cfgRamenOpsNamespace hubConfig)] else [])
         @ [Namespace ns, olmClusterRole, operatorGroup ns,
            ConfigMapNew ns ''ramen-dr-cluster-operator-config'' c])"

definition subscription :: "string \<Rightarrow> ramen_config \<Rightarrow> olm_subscription" where
  "subscription podNamespace c =
     \<lparr>subName = ''ramen-dr-cluster-subscription'',
      subNamespace = drClusterOperatorNamespaceNameOrDefault podNamespace c, subLabels = [CreatedByRamen],
      subCatalogSource = drClusterOperatorCatalogSourceNameOrDefault c,
      subCatalogSourceNamespace = drClusterOperatorCatalogSourceNamespaceNameOrDefault podNamespace c,
      subPackage = drClusterOperatorPackageNameOrDefault c,
      subChannel = drClusterOperatorChannelNameOrDefault c,
      subStartingCSV = drClusterOperatorClusterServiceVersionNameOrDefault c,
      subInstallPlanApproval = ''Automatic''\<rparr>"

definition GetDrClusterManifestWork :: "string \<Rightarrow> ('z, manifest_work option) apim" where
  "GetDrClusterManifestWork clusterName =
     bindM (attemptM (FindManifestWork ''ramen-dr-cluster'' clusterName))
       (\<lambda>r. case r of
          Inr mw \<Rightarrow> ret (Some mw)
        | Inl e \<Rightarrow> if IsNotFound e then ret None else failM e)"

fun subscriptionOf :: "manifest list \<Rightarrow> olm_subscription option" where
  "subscriptionOf [] = None"
| "subscriptionOf (m # ms) = (case m of SubscriptionManifest sub \<Rightarrow> Some sub | _ \<Rightarrow> subscriptionOf ms)"

definition SubscriptionFromDrClusterManifestWork :: "string \<Rightarrow> ('z, olm_subscription option) apim" where
  "SubscriptionFromDrClusterManifestWork clusterName =
     bindM (catchM (GetDrClusterManifestWork clusterName)
              (\<lambda>e. failM (wrapE ''failed fetching cluster manifest work '' e [])))
       (\<lambda>r. case r of None \<Rightarrow> ret None | Some mw \<Rightarrow> ret (subscriptionOf (mwManifests mw)))"

definition appendSubscriptionObject ::
  "string \<Rightarrow> string \<Rightarrow> ramen_config \<Rightarrow> manifest list \<Rightarrow> ('z, manifest list) apim" where
  "appendSubscriptionObject podNamespace clusterName c objects =
     bindM (SubscriptionFromDrClusterManifestWork clusterName)
       (\<lambda>r. let new = subscription podNamespace c
            in ret (objects @ [SubscriptionManifest
                 (case r of
                    None \<Rightarrow> new
                  | Some sub \<Rightarrow>
                      if subChannel sub = subChannel new \<and> subCatalogSource sub = subCatalogSource new
                         \<and> subCatalogSourceNamespace sub = subCatalogSourceNamespace new
                         \<and> subPackage sub = subPackage new
                      then sub else new)]))"

definition CreateOrUpdateDrClusterManifestWork :: "string \<Rightarrow> manifest list \<Rightarrow> strmap \<Rightarrow> ('z, unit) apim" where
  "CreateOrUpdateDrClusterManifestWork clusterName objectsToAppend annotations =
     bindM (createOrUpdateManifestWork ''ramen-dr-cluster''
              (newManifestWork []
                 ([vrgClusterRole, mModeClusterRole, drClusterConfigRole, networkFenceClusterRole,
                   recipeClusterRole] @ objectsToAppend) annotations)
              clusterName)
       (\<lambda>_. ret ())"

text \<open>
  \<^verbatim>\<open>DeployVolSyncToCluster\<close>: a ManagedClusterAddOn is created if there is none; controller-runtime's
  \<^verbatim>\<open>CreateOrUpdate\<close> reads it first and leaves an existing one alone, as the callback does not change it.
\<close>

definition reconcileVolSyncManagedClusterAddOn :: "string \<Rightarrow> unit drcm" where
  "reconcileVolSyncManagedClusterAddOn clusterName =
     catchM
       (seqM apiCall
          (bindM (getsM (\<lambda>s. clusterName \<in> set (uAddOns s)))
             (\<lambda>present. whenM (\<not> present)
                (seqM apiCall (modifyM (\<lambda>s. s\<lparr>uAddOns := uAddOns s @ [clusterName]\<rparr>))))))
       (\<lambda>e. failM (wrapE ''error creating or updating VolSync ManagedClusterAddOn ('' e '')''))"

definition DRClusterNameAnnotation :: string where
  "DRClusterNameAnnotation = ''drcluster.ramendr.openshift.io/drcluster-name''"

definition drClusterDeploy :: "ramen_config \<Rightarrow> unit drcm" where
  "drClusterDeploy c =
     bindM (getsM (\<lambda>s. (dcName (uObject s), uPodNamespace s)))
       (\<lambda>(name, podNamespace).
          bindM (if \<not> cfgDeploymentAutomationEnabled c then ret []
                 else bindM (appendSubscriptionObject podNamespace name c (objectsToDeploy podNamespace c))
                        (\<lambda>objects. seqM (catchM (reconcileVolSyncManagedClusterAddOn name)
                             (\<lambda>e. failM (wrapE ''unable to deploy volsync to drcluster: '' e [])))
                           (ret objects)))
            (\<lambda>objects. CreateOrUpdateDrClusterManifestWork name objects [(DRClusterNameAnnotation, name)]))"

definition getDRClusterDeployedStatus :: "unit drcm" where
  "getDRClusterDeployedStatus =
     bindM (getsM (\<lambda>s. dcName (uObject s)))
       (\<lambda>name. bindM (catchM (GetDrClusterManifestWork name)
                        (\<lambda>e. failM (newE (''error in fetching DRCluster ManifestWork '' @ Error e))))
          (\<lambda>r. case r of
             None \<Rightarrow> failM (newE ''missing DRCluster ManifestWork resource <nil>'')
           | Some mw \<Rightarrow>
               if IsManifestInAppliedState mw then ret ()
               else failM (newE ''DRCluster ManifestWork is not in applied state'')))"

section \<open>The DRClusterConfig\<close>

definition NewManagedClusterInstance :: "(string \<Rightarrow> managed_cluster option) \<Rightarrow> string \<Rightarrow> ('z, managed_cluster) apim" where
  "NewManagedClusterInstance managedClusters cluster =
     seqM (catchM apiCall
             (\<lambda>e. failM (wrapE (''failed to get ManagedCluster resource for cluster ('' @ cluster @ ''): '') e [])))
       (case managedClusters cluster of
          None \<Rightarrow> failM (wrapE (''failed to get ManagedCluster resource for cluster ('' @ cluster @ ''): '')
                           (Gerr NotFound (cluster @ '' not found'')) [])
        | Some mc \<Rightarrow>
            (case FindCondition (mclConditions mc) ''ManagedClusterJoined'' of
               Some c \<Rightarrow> if cStatus c = ConditionTrue then ret mc
                         else failM (newE (''cluster ('' @ cluster @ '') has not joined the hub''))
             | None \<Rightarrow> failM (newE (''cluster ('' @ cluster @ '') has not joined the hub''))))"

definition ClusterID :: "string \<Rightarrow> managed_cluster \<Rightarrow> gerr + string" where
  "ClusterID cluster mc =
     (case map_of (mclClaims mc) ''id.k8s.io'' of
        Some v \<Rightarrow> if v = [] then Inl (newE (''cluster ('' @ cluster @ '') is missing cluster ID claim'')) else Inr v
      | None \<Rightarrow> Inl (newE (''cluster ('' @ cluster @ '') is missing cluster ID claim'')))"

fun noDuplicateSchedules :: "string \<Rightarrow> drpolicy list \<Rightarrow> string list \<Rightarrow> string list" where
  "noDuplicateSchedules cluster [] added = added"
| "noDuplicateSchedules cluster (p # ps) added =
     (if polDeleted p \<or> polSchedulingInterval p = [] \<or> cluster \<notin> set (polDRClusters p)
         \<or> polSchedulingInterval p \<in> set added
      then noDuplicateSchedules cluster ps added
      else noDuplicateSchedules cluster ps (added @ [polSchedulingInterval p]))"

definition GetAllDRPolicies :: "drpolicy list drcm" where
  "GetAllDRPolicies =
     seqM (catchM apiCall (\<lambda>e. failM (wrapE ''unable to fetch drpolicies: '' e []))) (getsM uPolicies)"

definition ensureNoDuplicateSchedules :: "drcluster_config \<Rightarrow> drcluster_config drcm" where
  "ensureNoDuplicateSchedules drcc =
     bindM (getsM (\<lambda>s. dcName (uObject s)))
       (\<lambda>name. bindM GetAllDRPolicies
          (\<lambda>ps. ret (drcc\<lparr>ccReplicationSchedules := noDuplicateSchedules name ps []\<rparr>)))"

definition emptyDRCConfig :: "string \<Rightarrow> string \<Rightarrow> drcluster_config" where
  "emptyDRCConfig name clusterID =
     \<lparr>ccName = name, ccLabels = [CreatedByRamen], ccClusterID = clusterID, ccReplicationSchedules = [],
      ccConditions = [], ccStorageClasses = [], ccVolumeSnapshotClasses = [], ccVolumeGroupSnapshotClasses = [],
      ccVolumeReplicationClasses = [], ccVolumeGroupReplicationClasses = [], ccNetworkFenceClasses = [],
      ccStorageAccessDetails = [], ccNetworkAttachments = []\<rparr>"

definition generateDRClusterConfig :: "drcluster_config drcm" where
  "generateDRClusterConfig =
     bindM (getsM (\<lambda>s. (dcName (uObject s), uManagedClusters s)))
       (\<lambda>(name, mcs). bindM (NewManagedClusterInstance mcs name)
          (\<lambda>mc. bindM (liftE (ClusterID name mc))
             (\<lambda>clusterID. ensureNoDuplicateSchedules (emptyDRCConfig name clusterID))))"

definition CreateOrUpdateDRCConfigManifestWork :: "string \<Rightarrow> drcluster_config \<Rightarrow> ('z, unit) apim" where
  "CreateOrUpdateDRCConfigManifestWork cluster drcc =
     bindM (createOrUpdateManifestWork ''drcconfig-mw'' (newManifestWork [] [DRCConfigManifest drcc] []) cluster)
       (\<lambda>_. ret ())"

definition ensureDRClusterConfig :: "unit drcm" where
  "ensureDRClusterConfig =
     bindM (getsM (\<lambda>s. dcName (uObject s)))
       (\<lambda>name. bindM generateDRClusterConfig
          (\<lambda>drcc. seqM
             (catchM (CreateOrUpdateDRCConfigManifestWork name drcc)
                (\<lambda>e. failM (wrapE (''failed to create or update DRClusterConfig manifest on cluster ''
                               @ name @ '' ('') e '')'')))
             (bindM (attemptM (FindManifestWork (mwuManifestWorkName name [] ''drcconfig'') name))
                (\<lambda>r. case r of
                   Inr mw \<Rightarrow> if IsManifestInAppliedState mw then ret ()
                             else failM (newE (''DRClusterConfig is not applied to cluster ('' @ name @ '')''))
                 | Inl _ \<Rightarrow> failM (newE (''DRClusterConfig is not applied to cluster ('' @ name @ '')''))))))"

section \<open>Object store\<close>

text \<open>The result is the condition's reason with the error, or no error.\<close>

definition s3ProfileValidate ::
  "(string \<Rightarrow> gerr + (gerr option \<times> (string \<Rightarrow> gerr option))) \<Rightarrow> string \<Rightarrow> string \<Rightarrow> (string \<times> gerr) option" where
  "s3ProfileValidate stores profile listKeyPrefix =
     (case stores profile of
        Inl e \<Rightarrow> Some (''s3ConnectionFailed'', wrapE (profile @ '': '') e [])
      | Inr (head, keys) \<Rightarrow>
          (case head of
             Some e \<Rightarrow> Some (''s3BucketNotFound'', wrapE (profile @ '': '') e [])
           | None \<Rightarrow>
               (case keys listKeyPrefix of
                  Some e \<Rightarrow> Some (''s3ListFailed'', wrapE (profile @ '': '') e [])
                | None \<Rightarrow> None)))"

definition validateS3Profile :: "drc \<Rightarrow> (string \<times> gerr) option" where
  "validateS3Profile s =
     (let dc = uObject s
      in if dcS3ProfileName dc \<noteq> ''NoS3''
         then s3ProfileValidate (uStores s) (dcS3ProfileName dc) (dcNamespace dc @ ''/'' @ dcName dc)
         else None)"

section \<open>CIDRs\<close>

definition setInvalidCIDRsDetected :: "bool \<Rightarrow> unit drcm" where
  "setInvalidCIDRsDetected b = modifyM (\<lambda>s. s\<lparr>uMetrics := map_option (\<lambda>(_, u). (b, u)) (uMetrics s)\<rparr>)"

definition setUndetectedCIDRsFound :: "bool \<Rightarrow> unit drcm" where
  "setUndetectedCIDRsFound b = modifyM (\<lambda>s. s\<lparr>uMetrics := map_option (\<lambda>(i, _). (i, b)) (uMetrics s)\<rparr>)"

definition createDRClusterMetricsInstance :: "unit drcm" where
  "createDRClusterMetricsInstance =
     modifyM (\<lambda>s. s\<lparr>uMetrics := Some (case uMetrics s of None \<Rightarrow> (False, False) | Some m \<Rightarrow> m)\<rparr>)"

definition validateCIDRsFormat :: "unit drcm" where
  "validateCIDRsFormat =
     bindM (getsM (\<lambda>s. filter (\<lambda>c. \<not> parseCIDR c) (dcCIDRs (uObject s))))
       (\<lambda>invalid. if invalid \<noteq> []
                  then seqM (setInvalidCIDRsDetected True)
                         (failM (newE (''invalid CIDRs format specified '' @ joinStr '', '' invalid)))
                  else ret ())"

definition getDRCCFromCluster :: "string \<Rightarrow> ('z, drcluster_config) viewm" where
  "getDRCCFromCluster cluster =
     GetDRClusterConfigFromManagedCluster cluster [(DRClusterNameAnnotation, cluster)]"

definition getCIDRSFromDRCC :: "string list option drcm" where
  "getCIDRSFromDRCC =
     bindM (getsM (\<lambda>s. dcName (uObject s)))
       (\<lambda>name. bindM (attemptM (getDRCCFromCluster name))
          (\<lambda>r. case r of
             Inl e \<Rightarrow> if IsNotFound e then ret None else failM e
           | Inr drcc \<Rightarrow>
               if ccStorageAccessDetails drcc = []
               then (case FindCondition (ccConditions drcc) ''Processed'' of
                       Some c \<Rightarrow> if cStatus c = ConditionTrue then ret (Some []) else ret None
                     | None \<Rightarrow> ret None)
               else ret (Some (concat (map saCIDRs (ccStorageAccessDetails drcc))))))"

text \<open>\<^verbatim>\<open>sets.String\<close>: the difference of two sets in the order of \<^verbatim>\<open>List\<close>.\<close>

definition setDifference :: "string list \<Rightarrow> string list \<Rightarrow> string list" where
  "setDifference xs ys = sort (remdups (filter (\<lambda>x. x \<notin> set ys) xs))"

definition checkDetectedCIDRsConfigured :: "string list \<Rightarrow> string list \<Rightarrow> unit drcm" where
  "checkDetectedCIDRsConfigured detected configured =
     (let unconfigured = setDifference detected configured;
          msg = ''detected CIDRs not configured: '' @ joinStr '', '' unconfigured
      in if unconfigured \<noteq> []
         then seqM (setConditions setCIDRsValidatedConditionDetectedCIDRsUnconfigured msg)
                (seqM (setInvalidCIDRsDetected True) (failM (newE msg)))
         else ret ())"

definition checkUndetectedCIDRsFound :: "string list \<Rightarrow> string list \<Rightarrow> bool drcm" where
  "checkUndetectedCIDRsFound detected configured =
     (let undetected = setDifference configured detected
      in if undetected \<noteq> []
         then seqM (setConditions setCIDRsValidatedConditionUndetectedCIDRsFound
                      (''warning: CIDRs not detected by storage provisioner: '' @ joinStr '', '' undetected))
                (seqM (setUndetectedCIDRsFound True) (ret True))
         else ret False)"

definition validateCIDRs :: "unit drcm" where
  "validateCIDRs =
     seqM (setInvalidCIDRsDetected False)
       (seqM (setUndetectedCIDRsFound False)
          (bindM (getsM (\<lambda>s. dcCIDRs (uObject s)))
             (\<lambda>configured.
                if configured = []
                then modObject (\<lambda>dc. dc\<lparr>dcConditions := filter (\<lambda>c. cType c \<noteq> ''CIDRsValidated'') (dcConditions dc)\<rparr>)
                else seqM (catchM validateCIDRsFormat
                             (\<lambda>e. seqM (setConditions setCIDRsValidatedConditionInvalidFormat (Error e)) (failM e)))
                       (bindM getCIDRSFromDRCC
                          (\<lambda>r. case r of
                             None \<Rightarrow> ret ()
                           | Some detected \<Rightarrow>
                               seqM (checkDetectedCIDRsConfigured detected configured)
                                 (bindM (checkUndetectedCIDRsFound detected configured)
                                    (\<lambda>found. whenM (\<not> found)
                                       (setConditions setCIDRsValidatedConditionSucceeded
                                          ''All detected CIDRs are configured''))))))))"

end
