(* ===== verification/Ramen_Fencing.thy ===== *)
theory Ramen_Fencing
  imports Ramen_DRClusterConfig
begin

text \<open>
  Fencing and unfencing of a DRCluster through NetworkFence resources that a peer cluster applies
  (\<^verbatim>\<open>drcluster_controller.go\<close>): the choice of the peer, the NetworkFence and its ManifestWork, the
  check of its result through a managed cluster view, and the clean-up after unfencing.
\<close>

section \<open>The peer cluster\<close>

definition getDRCluster :: "string \<Rightarrow> drcluster drcm" where
  "getDRCluster name =
     seqM apiCall
       (bindM (getsM (\<lambda>s. find (\<lambda>dc. dcName dc = name) (uClusters s)))
          (\<lambda>r. case r of None \<Rightarrow> failM (Gerr NotFound (name @ '' not found'')) | Some dc \<Rightarrow> ret dc))"

fun peerAmong :: "bool \<Rightarrow> drcluster \<Rightarrow> string list \<Rightarrow> drcluster option drcm" where
  "peerAmong syncPeers dc [] = ret None"
| "peerAmong syncPeers dc (c # cs) =
     (if c = dcName dc then peerAmong syncPeers dc cs
      else bindM (attemptM (getDRCluster c))
             (\<lambda>r. case r of
                Inl _ \<Rightarrow> peerAmong syncPeers dc cs
              | Inr peer \<Rightarrow>
                  if dcDeleted peer then peerAmong syncPeers dc cs
                  else if syncPeers \<or> dcRegion dc = dcRegion peer then ret (Some peer)
                  else peerAmong syncPeers dc cs))"

definition getPeerFromPolicy :: "drpolicy \<Rightarrow> drcluster \<Rightarrow> drcluster drcm" where
  "getPeerFromPolicy p dc =
     bindM (peerAmong (polSyncPeerClasses p \<noteq> []) dc (polDRClusters p))
       (\<lambda>r. case r of
          None \<Rightarrow> failM (newE (''count not find the peer cluster for '' @ dcName dc))
        | Some peer \<Rightarrow> ret peer)"

fun getPeerCluster :: "drpolicy list \<Rightarrow> drcluster \<Rightarrow> drcluster drcm" where
  "getPeerCluster [] dc = failM (newE (''failed to find the peer cluster for cluster '' @ dcName dc))"
| "getPeerCluster (p # ps) dc =
     (if dcName dc \<notin> set (polDRClusters p) then getPeerCluster ps dc
      else bindM (attemptM (getPeerFromPolicy p dc))
             (\<lambda>r. case r of Inl _ \<Rightarrow> getPeerCluster ps dc | Inr peer \<Rightarrow> ret peer))"

section \<open>Network fence classes\<close>

definition nfClassMatches :: "class_object \<Rightarrow> class_object \<Rightarrow> bool" where
  "nfClassMatches nfc sc \<longleftrightarrow>
     (case map_of (clAnnotations nfc) StorageIDLabel of
        None \<Rightarrow> False
      | Some ids \<Rightarrow> clProvisioner sc = clProvisioner nfc
                    \<and> sm_get (clLabels sc) StorageIDLabel \<in> set (splitOn CHR '','' ids))"

definition findMatchingNFClasses :: "class_object list \<Rightarrow> class_object list \<Rightarrow> string list" where
  "findMatchingNFClasses nfcs scs =
     (let names = concat (map (\<lambda>nfc. map (\<lambda>_. clName nfc) (filter (nfClassMatches nfc) scs)) nfcs)
      in if names = [] then [[]] else names)"

definition getNFClassesFromDRClusterConfig :: "string \<Rightarrow> ('z, string list) viewm" where
  "getNFClassesFromDRClusterConfig cluster =
     bindM (getDRCCFromCluster cluster)
       (\<lambda>drcc. bindM (getNFClassesFromCluster drcc cluster)
          (\<lambda>nfcs. bindM (GetSClassesFromCluster drcc cluster)
             (\<lambda>scs. ret (findMatchingNFClasses nfcs scs))))"

section \<open>The NetworkFence and its ManifestWork\<close>

definition fillStorageDetails :: "drcluster \<Rightarrow> network_fence \<Rightarrow> gerr + network_fence" where
  "fillStorageDetails dc nf =
     (let annotation = (\<lambda>k. map_of (dcAnnotations dc) (''drcluster.ramendr.openshift.io/storage-'' @ k))
      in case annotation ''driver'' of
           None \<Rightarrow> Inl (newE ''failed to find storage driver in annotations'')
         | Some driver \<Rightarrow>
      (case annotation ''secret-name'' of
         None \<Rightarrow> Inl (newE ''failed to find storage secret name in annotations'')
       | Some secretName \<Rightarrow>
      (case annotation ''secret-namespace'' of
         None \<Rightarrow> Inl (newE ''failed to find storage secret namespace in annotations'')
       | Some secretNamespace \<Rightarrow>
      (case annotation ''clusterid'' of
         None \<Rightarrow> Inl (newE ''failed to find storage cluster id in annotations'')
       | Some clusterID \<Rightarrow>
           Inr (nf\<lparr>nfSecretName := secretName, nfSecretNamespace := secretNamespace, nfDriver := driver,
                  nfParameters := [(''clusterID'', clusterID)]\<rparr>)))))"

definition generateNF :: "drcluster \<Rightarrow> string \<Rightarrow> gerr + network_fence" where
  "generateNF dc nfClass =
     (if dcCIDRs dc = [] then Inl (newE ''CIDRs has no values'')
      else let nf = \<lparr>nfName = networkFenceName (dcName dc) nfClass, nfLabels = [CreatedByRamen],
                     nfFenceState = dcClusterFence dc, nfCidrs = dcCIDRs dc,
                     nfNetworkFenceClassName = nfClass, nfDriver = [], nfSecretName = [],
                     nfSecretNamespace = [], nfParameters = [], nfResult = []\<rparr>
           in if nfClass \<noteq> [] then Inr nf
              else case fillStorageDetails dc nf of
                     Inl e \<Rightarrow> Inl (wrapE ''failed to create network fence resource with storage detai: '' e [])
                   | Inr nf' \<Rightarrow> Inr nf')"

definition nfManifestWorkName :: "string \<Rightarrow> string \<Rightarrow> string \<Rightarrow> string" where
  "nfManifestWorkName name nfClass cluster =
     ManifestWorkName (if nfClass = [] then name else name @ ''-'' @ nfClass) cluster ''nf''"

definition CreateOrUpdateNFManifestWork :: "string \<Rightarrow> string \<Rightarrow> network_fence \<Rightarrow> strmap \<Rightarrow> ('z, unit) apim" where
  "CreateOrUpdateNFManifestWork name homeCluster nf annotations =
     bindM (createOrUpdateManifestWork (nfManifestWorkName name (nfNetworkFenceClassName nf) homeCluster)
              (newManifestWork [(''app'', ''NF'')] [NFManifest nf] annotations) homeCluster)
       (\<lambda>_. ret ())"

definition createNFManifestWork :: "drcluster \<Rightarrow> drcluster \<Rightarrow> string \<Rightarrow> unit drcm" where
  "createNFManifestWork target peer nfClass =
     (case generateNF target nfClass of
        Inl e \<Rightarrow> failM (wrapE ''failed to generate network fence resource: '' e [])
      | Inr nf \<Rightarrow>
          bindM (getsM (\<lambda>s. dcName (uObject s)))
            (\<lambda>name. catchM (CreateOrUpdateNFManifestWork name (dcName peer) nf [(DRClusterNameAnnotation, name)])
               (\<lambda>e. failM (wrapE (''failed to create or update NetworkFence manifest in cluster '' @ dcName peer
                            @ '' to fence off cluster '' @ dcName target @ '' ('') e '')''))))"

section \<open>Checking the NetworkFence\<close>

definition fence_state_str :: "cluster_fence_state \<Rightarrow> string" where
  "fence_state_str st =
     (case st of
        ClusterFenceStateUnset \<Rightarrow> []
      | ClusterFenceStateUnfenced \<Rightarrow> ''Unfenced''
      | ClusterFenceStateFenced \<Rightarrow> ''Fenced''
      | ClusterFenceStateManuallyFenced \<Rightarrow> ''ManuallyFenced''
      | ClusterFenceStateManuallyUnfenced \<Rightarrow> ''ManuallyUnfenced'')"

definition getNF :: "drcluster \<Rightarrow> string \<Rightarrow> network_fence drcm" where
  "getNF peer nfClass =
     bindM (getsM uObject)
       (\<lambda>dc. GetNFFromManagedCluster (dcName dc) nfClass (dcNamespace dc) (dcName peer)
               [(DRClusterNameAnnotation, dcName dc)])"

definition checkFenceStatus :: "drcluster \<Rightarrow> string \<Rightarrow> unit drcm" where
  "checkFenceStatus peer nfClass =
     bindM (catchM (getNF peer nfClass)
              (\<lambda>e. failM (wrapE ''failed to get NetworkFence using MCV (error: '' e '')'')))
       (\<lambda>nf. bindM (getsM (\<lambda>s. dcClusterFence (uObject s)))
          (\<lambda>st.
             if nfFenceState nf \<noteq> st
             then failM (newE (''fence state in the NetworkFence resource is not changed to ''
                            @ fence_state_str st @ '' yet''))
             else if nfResult nf \<noteq> ''Succeeded''
             then seqM (setConditions setDRClusterFencingFailedCondition ''fencing operation not successful'')
                    (failM (newE ''fencing operation result not successful''))
             else ret ()))"

definition requeueIfNFMWExists :: "drcluster \<Rightarrow> unit drcm" where
  "requeueIfNFMWExists peer =
     bindM (getsM (\<lambda>s. dcName (uObject s)))
       (\<lambda>name. bindM (attemptM (FindManifestWork (mwuManifestWorkName name [] ''nf'') (dcName peer)))
          (\<lambda>r. case r of
             Inl e \<Rightarrow> if IsNotFound e then ret ()
                      else failM (wrapE ''failed to get MW for NetworkFence '' e [])
           | Inr _ \<Rightarrow> failM (newE ''NetworkFence not found. But MW still exists'')))"

definition checkUnfenceStatus :: "drcluster \<Rightarrow> string \<Rightarrow> unit drcm" where
  "checkUnfenceStatus peer nfClass =
     bindM (attemptM (getNF peer nfClass))
       (\<lambda>r. case r of
          Inl e \<Rightarrow> if IsNotFound e then requeueIfNFMWExists peer
                   else failM (wrapE ''failed to get NetworkFence using MCV (error: '' e [])
        | Inr nf \<Rightarrow>
            bindM (getsM (\<lambda>s. dcClusterFence (uObject s)))
              (\<lambda>st.
                 if nfFenceState nf \<noteq> st
                 then failM (newE (''fence state in the NetworkFence resource is not changed to ''
                                @ fence_state_str st @ '' yet''))
                 else if nfResult nf \<noteq> ''Succeeded''
                 then seqM (setConditions setDRClusterUnfencingFailedCondition ''unfencing operation not successful'')
                        (failM (newE ''un operation result not successful''))
                 else ret ()))"

section \<open>Cleaning up\<close>

definition removeFencingCR :: "drcluster \<Rightarrow> bool drcm" where
  "removeFencingCR cluster =
     bindM (catchM (getNFClassesFromDRClusterConfig (dcName cluster))
              (\<lambda>e. failM (wrapE ''failed to get NetworkFenceClasses: '' e [])))
       (\<lambda>nfClasses. bindM (getsM (\<lambda>s. dcName (uObject s)))
          (\<lambda>name. seqM
             (forM nfClasses
                (\<lambda>nfClass. catchM (DeleteManifestWork (nfManifestWorkName name nfClass (dcName cluster)) (dcName cluster))
                   (\<lambda>e. failM (wrapE (''failed to delete NetworkFence MW ''
                                @ nfManifestWorkName name nfClass (dcName cluster) @ '' from cluster ''
                                @ dcName cluster @ '': '') e []))))
             (ret False)))"

text \<open>The loop counts the clusters that were cleaned; an error of one does not stop it.\<close>

fun cleanEach :: "drcluster list \<Rightarrow> nat \<Rightarrow> bool \<Rightarrow> (nat \<times> bool) drcm" where
  "cleanEach [] cleaned needRequeue = ret (cleaned, needRequeue)"
| "cleanEach (c # cs) cleaned needRequeue =
     bindM (attemptM (removeFencingCR c))
       (\<lambda>r. case r of
          Inr False \<Rightarrow> cleanEach cs (cleaned + 1) needRequeue
        | _ \<Rightarrow> cleanEach cs cleaned True)"

definition cleanClusters :: "drcluster list \<Rightarrow> bool drcm" where
  "cleanClusters clusters =
     bindM (cleanEach clusters 0 False)
       (\<lambda>(cleaned, needRequeue).
          seqM (if cleaned = length clusters
                then setConditions setDRClusterCleanCondition ''fencing resource cleaned from cluster''
                else setConditions setDRClusterCleaningCondition ''NetworkFence resource clean started'')
            (ret needRequeue))"

section \<open>Fencing and unfencing\<close>

definition policiesAndPeer :: "drcluster drcm" where
  "policiesAndPeer =
     bindM (catchM GetAllDRPolicies (\<lambda>e. failM (wrapE ''getting all drpolicies failed: '' e [])))
       (\<lambda>ps. bindM (getsM uObject)
          (\<lambda>dc. catchM (getPeerCluster ps dc)
             (\<lambda>e. failM (wrapE (''failed to get the peer cluster for the cluster '' @ dcName dc @ '': '') e []))))"

text \<open>Both operations return whether to requeue; every error comes with a requeue.\<close>

definition clusterFence :: "bool drcm" where
  "clusterFence =
     bindM policiesAndPeer
       (\<lambda>peer. bindM (catchM (getNFClassesFromDRClusterConfig (dcName peer))
                        (\<lambda>e. failM (wrapE ''failed to get NetworkFenceClasses: '' e [])))
          (\<lambda>nfClasses. bindM (getsM uObject)
             (\<lambda>dc. if \<not> isFencingOrFenced dc
                   then seqM (forM nfClasses
                               (\<lambda>nfClass. catchM (createNFManifestWork dc peer nfClass)
                                  (\<lambda>e. seqM (setConditions setDRClusterFencingFailedCondition
                                               (''NetworkFence ManifestWork creation failed: '' @ Error e))
                                         (failM (wrapE (''failed to create the NetworkFence MW on cluster ''
                                            @ dcName peer @ '' to fence '' @ dcName dc @ '': '') e [])))))
                          (seqM (setConditions setDRClusterFencingCondition
                                   ''ManifestWork for NetworkFence fence operation created'')
                             (seqM (setDRClusterPhase Fencing) (ret True)))
                   else seqM (forM nfClasses (checkFenceStatus peer))
                          (seqM (setConditions setDRClusterFencedCondition ''Cluster successfully fenced'')
                             (seqM advanceToNextPhase (ret False))))))"

definition clusterUnfence :: "bool drcm" where
  "clusterUnfence =
     bindM policiesAndPeer
       (\<lambda>peer. bindM (catchM (getNFClassesFromDRClusterConfig (dcName peer))
                        (\<lambda>e. failM (wrapE ''failed to get NetworkFenceClasses: '' e [])))
          (\<lambda>nfClasses. bindM (getsM uObject)
             (\<lambda>dc. if \<not> isUnfencingOrUnfenced dc
                   then seqM (forM nfClasses
                               (\<lambda>nfClass. catchM (createNFManifestWork dc peer nfClass)
                                  (\<lambda>e. seqM (setConditions setDRClusterUnfencingFailedCondition
                                               (''NetworkFence ManifestWork for unfence failed: '' @ Error e))
                                         (failM (wrapE (''failed to generate NetworkFence MW on cluster ''
                                            @ dcName peer @ '' to unfence '' @ dcName dc @ '': '') e [])))))
                          (seqM (setConditions setDRClusterUnfencingCondition
                                   ''ManifestWork for NetworkFence unfence operation created'')
                             (seqM (setDRClusterPhase Unfencing) (ret True)))
                   else seqM (forM nfClasses (checkUnfenceStatus peer))
                          (seqM (setConditions setDRClusterUnfencedCondition ''Cluster successfully unfenced'')
                             (seqM advanceToNextPhase
                                (bindM (getsM uObject) (\<lambda>dc'. cleanClusters [dc', peer])))))))"

definition clusterFenceHandle :: "bool drcm" where
  "clusterFenceHandle =
     bindM (getsM (\<lambda>s. dcClusterFence (uObject s)))
       (\<lambda>st. case st of
          ClusterFenceStateUnfenced \<Rightarrow> clusterUnfence
        | ClusterFenceStateManuallyFenced \<Rightarrow>
            seqM (setConditions setDRClusterFencedCondition ''Cluster Manually fenced'')
              (seqM (setDRClusterPhase Fenced) (ret False))
        | ClusterFenceStateManuallyUnfenced \<Rightarrow>
            seqM (setConditions setDRClusterCleanCondition ''Cluster Manually Unfenced and clean'')
              (seqM (setDRClusterPhase Unfenced) (ret False))
        | ClusterFenceStateFenced \<Rightarrow> clusterFence
        | ClusterFenceStateUnset \<Rightarrow>
            seqM (setConditions setDRClusterCleanCondition ''Cluster Clean'')
              (seqM (setDRClusterPhase Available) (ret False)))"

definition handleDeletion :: "bool drcm" where
  "handleDeletion =
     bindM policiesAndPeer (\<lambda>peer. bindM (getsM uObject) (\<lambda>dc. cleanClusters [dc, peer]))"

end
