(* ===== verification/Ramen_MModes.thy ===== *)
theory Ramen_MModes
  imports Ramen_DRClusterConfig
begin

text \<open>
  Storage maintenance modes of a DRCluster (\<^verbatim>\<open>drcluster_mmode.go\<close>): which activations the DRPCs
  failing over to the cluster need (\<^verbatim>\<open>drplacementcontrol_watcher.go\<close>), the ManifestWorks that request
  them, and the status reported back from their views.
\<close>

section \<open>DRPCs failing over to a cluster\<close>

definition listDRPolicies :: "drpolicy list drcm" where
  "listDRPolicies = seqM apiCall (getsM uPolicies)"

fun GetDRClusters :: "string list \<Rightarrow> drcluster list drcm" where
  "GetDRClusters [] = ret []"
| "GetDRClusters (c # cs) =
     bindM (catchM (seqM apiCall
                      (bindM (getsM (\<lambda>s. find (\<lambda>dc. dcName dc = c) (uClusters s)))
                         (\<lambda>r. case r of None \<Rightarrow> failM (Gerr NotFound (c @ '' not found'')) | Some dc \<Rightarrow> ret dc)))
              (\<lambda>e. failM (wrapE (''failed to get DRCluster ('' @ c @ '') '') e [])))
       (\<lambda>dc. bindM (GetDRClusters cs) (\<lambda>dcs. ret (dc # dcs)))"

definition isFailingOverTo :: "drpolicy \<Rightarrow> string \<Rightarrow> drpc \<Rightarrow> bool" where
  "isFailingOverTo p cluster d \<longleftrightarrow>
     dDRPolicyRefName (dSpec d) = polName p \<and> \<not> dDeleted d
     \<and> dAction (dSpec d) = ActionFailover \<and> dFailoverCluster (dSpec d) = cluster
     \<and> \<not> (case FindCondition (sConditions (dStatus d)) ''Available'' of
             None \<Rightarrow> False
           | Some c \<Rightarrow> cStatus c = ConditionTrue \<and> cObservedGeneration c = dGeneration d)"

definition DRPCsFailingOverToClusterForPolicy :: "drpolicy \<Rightarrow> string \<Rightarrow> drpc list drcm" where
  "DRPCsFailingOverToClusterForPolicy p cluster =
     seqM apiCall (getsM (\<lambda>s. filter (isFailingOverTo p cluster) (hubDRPCs (uEnv s))))"

text \<open>
  The loop over the policies. A policy with a single cluster ends it with nothing and no error; a Metro
  policy ends it with what was collected.
\<close>

fun failingOverAmong :: "string \<Rightarrow> drpolicy list \<Rightarrow> (drpc \<times> drpolicy) list \<Rightarrow> (drpc \<times> drpolicy) list drcm" where
  "failingOverAmong cluster [] acc = ret acc"
| "failingOverAmong cluster (p # ps) acc =
     (if cluster \<notin> set (polDRClusters p) then failingOverAmong cluster ps acc
      else bindM (GetDRClusters (polDRClusters p))
             (\<lambda>dcs. if length dcs \<le> 1 then ret []
                    else case dRPolicySupportsMetro p None of
                           Inl e \<Rightarrow> failM (wrapE ''failed to check if DRPolicy supports Metro: '' e [])
                         | Inr (metro, _) \<Rightarrow>
                             if metro then ret acc
                             else bindM (DRPCsFailingOverToClusterForPolicy p cluster)
                                    (\<lambda>ds. failingOverAmong cluster ps (acc @ map (\<lambda>d. (d, p)) ds))))"

definition DRPCsFailingOverToCluster :: "string \<Rightarrow> (drpc \<times> drpolicy) list drcm" where
  "DRPCsFailingOverToCluster cluster = bindM listDRPolicies (\<lambda>ps. failingOverAmong cluster ps [])"

section \<open>The placement of a DRPC\<close>

definition getPlacementRule :: "drpc \<Rightarrow> user_placement drcm" where
  "getPlacementRule d =
     bindM (liftE (placementRefNamespace ''PlacementRule'' d))
       (\<lambda>ns. seqM apiCall
          (bindM (getsM (\<lambda>s. uPlRules s (dPlacementRefName (dSpec d), ns)))
             (\<lambda>r. case r of
                None \<Rightarrow> failM (Gerr NotFound (dPlacementRefName (dSpec d) @ '' not found''))
              | Some pr \<Rightarrow>
                  if \<not> (dDeleted d \<or> prDeleted pr) \<and> prSchedulerName pr \<noteq> ''ramen''
                  then failM (newE (''placementRule '' @ dPlacementRefName (dSpec d)
                         @ '' does not have the ramen scheduler. Scheduler used '' @ prSchedulerName pr))
                  else ret (PlacementRule []))))"

definition getPlacement :: "drpc \<Rightarrow> user_placement drcm" where
  "getPlacement d =
     bindM (liftE (placementRefNamespace ''Placement'' d))
       (\<lambda>ns. seqM apiCall
          (bindM (getsM (\<lambda>s. uPlacements s (dPlacementRefName (dSpec d), ns)))
             (\<lambda>r. case r of
                None \<Rightarrow> failM (Gerr NotFound (dPlacementRefName (dSpec d) @ '' not found''))
              | Some pl \<Rightarrow>
                  if \<not> (dDeleted d \<or> plcDeleted pl)
                     \<and> (plcDisableAnnotation pl = None \<or> plcDisableAnnotation pl = Some ''false'')
                  then failM (newE (''placement '' @ dPlacementRefName (dSpec d)
                         @ '' must be disabled in order for Ramen to be the scheduler''))
                  else ret (Placement (dPlacementRefName (dSpec d))))))"

definition getPlacementOrPlacementRule :: "drpc \<Rightarrow> user_placement drcm" where
  "getPlacementOrPlacementRule d =
     bindM (attemptM (getPlacement d))
       (\<lambda>r. case r of
          Inr pl \<Rightarrow>
            bindM (attemptM (getPlacementRule d))
              (\<lambda>r'. case r' of
                 Inr _ \<Rightarrow> failM (newE (''can't proceed. Placement and PlacementRule CR with the same name exist in the''
                            @ '' same namespace''))
               | Inl _ \<Rightarrow> ret pl)
        | Inl e \<Rightarrow> if IsNotFound e then getPlacementRule d else failM e)"

text \<open>The namespace of the user placement is the DRPC's.\<close>

definition vrgNamespaceOf :: "drpc \<Rightarrow> user_placement \<Rightarrow> string drcm" where
  "vrgNamespaceOf d pl =
     bindM (getsM (\<lambda>s. selectVRGNamespace ((uEnv s)\<lparr>placementNamespace := dNamespace d\<rparr>) d pl)) liftE"

section \<open>VRGs of a DRPC\<close>

definition getVRGs :: "drpc \<Rightarrow> drpolicy \<Rightarrow> (string \<times> vrg) list drcm" where
  "getVRGs d p =
     bindM (GetDRClusters (polDRClusters p))
       (\<lambda>dcs. bindM (getPlacementOrPlacementRule d)
          (\<lambda>pl. bindM (vrgNamespaceOf d pl)
             (\<lambda>ns. bindM (getVRGsFromManagedClusters d dcs ns) (\<lambda>(vs, _, _). ret vs))))"

section \<open>Required activations\<close>

type_synonym activations = "(string \<times> storage_identifiers) list"

definition mergeActivations :: "activations \<Rightarrow> activations \<Rightarrow> activations" where
  "mergeActivations all new = foldl (\<lambda>m (k, si). if map_of m k = None then m @ [(k, si)] else m) all new"

fun activationsFor :: "(drpc \<times> drpolicy) list \<Rightarrow> activations \<Rightarrow> activations drcm" where
  "activationsFor [] all = ret all"
| "activationsFor ((d, p) # ds) all =
     bindM (attemptM (getVRGs d p))
       (\<lambda>r. case r of
          Inl _ \<Rightarrow> seqM setRequeue (activationsFor ds all)
        | Inr vs \<Rightarrow>
            bindM (getPlacementOrPlacementRule d)
              (\<lambda>pl. bindM (vrgNamespaceOf d pl)
                 (\<lambda>ns. bindM (getsM (\<lambda>s. requiresRegionalFailoverPrerequisites (uEnv s)
                                 [dcS3ProfileName (uObject s)] (dName d) ns vs (dcName (uObject s))))
                    (\<lambda>(required, new). activationsFor ds (if required then mergeActivations all new else all)))))"

definition mModeActivationsRequired :: "activations drcm" where
  "mModeActivationsRequired =
     bindM (getsM (\<lambda>s. dcName (uObject s)))
       (\<lambda>name. bindM (catchM (DRPCsFailingOverToCluster name) (\<lambda>e. seqM setRequeue (failM e)))
          (\<lambda>ds. activationsFor ds []))"

section \<open>Activating\<close>

definition CreateOrUpdateMModeManifestWork ::
  "string \<Rightarrow> string \<Rightarrow> maintenance_mode \<Rightarrow> strmap \<Rightarrow> ('z, unit) apim" where
  "CreateOrUpdateMModeManifestWork name cluster mMode annotations =
     bindM (createOrUpdateManifestWork (name @ ''-mmode-mw'')
              (newManifestWork [(MModesLabel, [])] [MModeManifest mMode] annotations) cluster)
       (\<lambda>_. ret ())"

definition mModeFor :: "storage_identifiers \<Rightarrow> maintenance_mode" where
  "mModeFor si =
     \<lparr>mmName = idID (siReplicationID si), mmLabels = [CreatedByRamen],
      mmStorageProvisioner = siStorageProvisioner si, mmTargetID = idID (siReplicationID si),
      mmModes = [''Failover''], mmState = MModeStateUnset, mmConditions = []\<rparr>"

definition activateRegionalFailoverPrequisite :: "storage_identifiers \<Rightarrow> unit drcm" where
  "activateRegionalFailoverPrequisite si =
     bindM (getsM (\<lambda>s. dcName (uObject s)))
       (\<lambda>name. CreateOrUpdateMModeManifestWork (idID (siReplicationID si)) name (mModeFor si)
                 [(DRClusterNameAnnotation, name)])"

definition activateRegionalFailoverPrequisites :: "activations \<Rightarrow> unit drcm" where
  "activateRegionalFailoverPrequisites acts =
     forM acts (\<lambda>(_, si). catchM (activateRegionalFailoverPrequisite si) (\<lambda>_. setRequeue))"

section \<open>Pruning\<close>

text \<open>\<^verbatim>\<open>client.InNamespace\<close> with an empty name lists every namespace.\<close>

definition ListMModeManifests :: "string \<Rightarrow> ((string \<times> string) \<times> manifest_work) list drcm" where
  "ListMModeManifests cluster =
     seqM apiCall
       (getsM (\<lambda>s. List.map_filter
          (\<lambda>k. case manifestWorks s k of
                 Some mw \<Rightarrow> if (cluster = [] \<or> snd k = cluster) \<and> map_of (mwLabels mw) MModesLabel = Some []
                            then Some (k, mw) else None
               | None \<Rightarrow> None)
          (uOrder s)))"

fun ExtractMModeFromManifestWork :: "manifest list \<Rightarrow> maintenance_mode option" where
  "ExtractMModeFromManifestWork [] = None"
| "ExtractMModeFromManifestWork (m # ms) =
     (case m of MModeManifest mm \<Rightarrow> Some mm | _ \<Rightarrow> ExtractMModeFromManifestWork ms)"

definition usesStorageBackend :: "string \<Rightarrow> string \<Rightarrow> (string \<times> vrg) list \<Rightarrow> bool" where
  "usesStorageBackend provisioner targetID vs =
     list_ex (\<lambda>(_, v). list_ex (\<lambda>p. siStorageProvisioner (pvcStorageIdentifiers p) = provisioner
                                    \<and> idID (siReplicationID (pvcStorageIdentifiers p)) = targetID)
                         (vProtectedPVCs (vStatus v))) vs"

definition drpcUsesStorageBackend :: "drpc \<Rightarrow> string \<Rightarrow> string \<Rightarrow> bool drcm" where
  "drpcUsesStorageBackend d provisioner targetID =
     bindM (attemptM (seqM apiCall
              (bindM (getsM (\<lambda>s. find (\<lambda>p. polName p = dDRPolicyRefName (dSpec d)) (uPolicies s)))
                 (\<lambda>r. case r of
                    None \<Rightarrow> failM (Gerr NotFound (dDRPolicyRefName (dSpec d) @ '' not found''))
                  | Some p \<Rightarrow> ret p))))
       (\<lambda>r. case r of
          Inl _ \<Rightarrow> ret True
        | Inr p \<Rightarrow>
            bindM (attemptM (getVRGs d p))
              (\<lambda>r'. case r' of
                 Inl _ \<Rightarrow> ret True
               | Inr vs \<Rightarrow> ret (usesStorageBackend provisioner targetID vs)))"

definition notAvailable :: "drpc \<Rightarrow> bool" where
  "notAvailable d \<longleftrightarrow>
     (case FindCondition (sConditions (dStatus d)) ''Available'' of
        None \<Rightarrow> True
      | Some c \<Rightarrow> cStatus c \<noteq> ConditionTrue \<or> cObservedGeneration c \<noteq> dGeneration d)"

fun neededByAny :: "string \<Rightarrow> string \<Rightarrow> (drpc \<times> drpolicy) list \<Rightarrow> bool drcm" where
  "neededByAny provisioner targetID [] = ret False"
| "neededByAny provisioner targetID ((d, p) # ds) =
     (if notAvailable d
      then bindM (drpcUsesStorageBackend d provisioner targetID)
             (\<lambda>uses. if uses then ret True else neededByAny provisioner targetID ds)
      else neededByAny provisioner targetID ds)"

definition mmodeStillNeededByFailoverDRPC :: "string \<Rightarrow> string \<Rightarrow> bool drcm" where
  "mmodeStillNeededByFailoverDRPC provisioner targetID =
     bindM (getsM (\<lambda>s. dcName (uObject s)))
       (\<lambda>name. bindM (attemptM (DRPCsFailingOverToCluster name))
          (\<lambda>r. case r of
             Inl _ \<Rightarrow> seqM setRequeue (ret True)
           | Inr ds \<Rightarrow> neededByAny provisioner targetID ds))"

type_synonym survivors = "(string \<times> manifest_work) list"

definition addSurvivor :: "string \<Rightarrow> manifest_work \<Rightarrow> survivors \<Rightarrow> survivors" where
  "addSurvivor k mw ss = filter (\<lambda>e. fst e \<noteq> k) ss @ [(k, mw)]"

fun pruneEach :: "activations \<Rightarrow> ((string \<times> string) \<times> manifest_work) list \<Rightarrow> survivors \<Rightarrow> survivors drcm" where
  "pruneEach acts [] ss = ret ss"
| "pruneEach acts ((k, mw) # mws) ss =
     (case ExtractMModeFromManifestWork (mwManifests mw) of
        None \<Rightarrow> failM nilDereference
      | Some mm \<Rightarrow>
          if map_of acts (mmStorageProvisioner mm @ mmTargetID mm) \<noteq> None
          then pruneEach acts mws (addSurvivor (mmTargetID mm) mw ss)
          else bindM (mmodeStillNeededByFailoverDRPC (mmStorageProvisioner mm) (mmTargetID mm))
                 (\<lambda>needed.
                    if needed then pruneEach acts mws (addSurvivor (mmTargetID mm) mw ss)
                    else seqM (catchM (DeleteManifestWork (fst k) (snd k)) (\<lambda>_. setRequeue))
                           (pruneEach acts mws ss)))"

definition pruneMModesActivations :: "activations \<Rightarrow> survivors drcm" where
  "pruneMModesActivations acts =
     bindM (getsM (\<lambda>s. dcName (uObject s)))
       (\<lambda>name. bindM (catchM (ListMModeManifests name) (\<lambda>e. seqM setRequeue (failM e)))
          (\<lambda>mws. pruneEach acts mws []))"

section \<open>Reporting\<close>

definition createMModeMCV :: "survivors \<Rightarrow> unit drcm" where
  "createMModeMCV ss =
     forM ss (\<lambda>(_, mw).
       case ExtractMModeFromManifestWork (mwManifests mw) of
         None \<Rightarrow> failM nilDereference
       | Some mm \<Rightarrow>
           bindM (getsM (\<lambda>s. dcName (uObject s)))
             (\<lambda>name. bindM (attemptM (GetMModeFromManagedCluster (mmTargetID mm) name [(DRClusterNameAnnotation, name)]))
                (\<lambda>r. case r of Inl _ \<Rightarrow> setRequeue | Inr _ \<Rightarrow> ret ())))"

definition pruneMModeMCV :: "string \<Rightarrow> mcv \<Rightarrow> survivors \<Rightarrow> maintenance_mode option drcm" where
  "pruneMModeMCV mcvName v ss =
     (case (case GetResource v of Inl e \<Rightarrow> Inl e | Inr r \<Rightarrow> asMMode r) of
        Inr mm \<Rightarrow> ret (Some mm)
      | Inl e \<Rightarrow>
          if \<not> IsNotFound e then seqM setRequeue (ret None)
          else case ClusterScopedResourceNameFromMCVName mcvName of
                 None \<Rightarrow> failM (Gerr GoPanic ''slice bounds out of range'')
               | Some key \<Rightarrow>
                   if map_of ss key \<noteq> None \<or> vwDeleted v then ret None
                   else bindM (getsM (\<lambda>s. dcName (uObject s)))
                          (\<lambda>name. seqM (catchM (DeleteManagedClusterView name mcvName) (\<lambda>_. setRequeue))
                             (ret None)))"

definition appendMModeStatus :: "cluster_mmode \<Rightarrow> unit drcm" where
  "appendMModeStatus m = modObject (\<lambda>dc. dc\<lparr>dcMaintenanceModes := dcMaintenanceModes dc @ [m]\<rparr>)"

definition reportView :: "survivors \<Rightarrow> string \<times> mcv \<Rightarrow> unit drcm" where
  "reportView ss e =
     (case e of (mcvName, v) \<Rightarrow>
        bindM (pruneMModeMCV mcvName v ss)
          (\<lambda>r. case r of
             Some mm \<Rightarrow>
               appendMModeStatus \<lparr>cmStorageProvisioner = mmStorageProvisioner mm, cmTargetID = mmTargetID mm,
                                  cmState = mmState mm, cmConditions = mmConditions mm\<rparr>
           | None \<Rightarrow>
               (case ClusterScopedResourceNameFromMCVName mcvName of
                  None \<Rightarrow> failM (Gerr GoPanic ''slice bounds out of range'')
                | Some key \<Rightarrow>
                    (case map_of ss key of
                       None \<Rightarrow> ret ()
                     | Some mw \<Rightarrow>
                         (case ExtractMModeFromManifestWork (mwManifests mw) of
                            None \<Rightarrow> failM nilDereference
                          | Some mm \<Rightarrow>
                              appendMModeStatus
                                \<lparr>cmStorageProvisioner = mmStorageProvisioner mm, cmTargetID = mmTargetID mm,
                                 cmState = MModeStateUnknown, cmConditions = []\<rparr>)))))"

text \<open>
  When listing the views fails, \<^verbatim>\<open>ListMModesMCVs\<close> returns a nil list; the code notes the error, resets the
  status and then ranges over the items of that nil list.
\<close>

definition updateMModeActivationStatus :: "survivors \<Rightarrow> unit drcm" where
  "updateMModeActivationStatus ss =
     seqM (createMModeMCV ss)
       (bindM (getsM (\<lambda>s. dcName (uObject s)))
          (\<lambda>name. bindM (attemptM (listMCVsWithLabel name MModesLabel))
             (\<lambda>r. seqM (whenM (isl r) setRequeue)
                (seqM (modifyM (\<lambda>s. s\<lparr>uObject := (uObject s)\<lparr>dcMaintenanceModes := []\<rparr>, uMModesReset := True\<rparr>))
                   (case r of
                      Inl _ \<Rightarrow> failM nilDereference
                    | Inr vs \<Rightarrow> forM vs (reportView ss))))))"

definition clusterMModeHandler :: "unit drcm" where
  "clusterMModeHandler =
     bindM (catchM mModeActivationsRequired (\<lambda>e. seqM setRequeue (failM e)))
       (\<lambda>acts. bindM (getsM (\<lambda>s. checkFailoverMaintenanceActivations (uObject s) acts))
          (\<lambda>activated. seqM (whenM (\<not> activated) (activateRegionalFailoverPrequisites acts))
             (bindM (recoverM (pruneMModesActivations acts))
                (\<lambda>r. case r of
                   Inl _ \<Rightarrow> seqM setRequeue (updateMModeActivationStatus [])
                 | Inr ss \<Rightarrow> updateMModeActivationStatus ss))))"

definition drClusterMModeCleanup :: "unit drcm" where
  "drClusterMModeCleanup =
     bindM (getsM uObject)
       (\<lambda>dc. bindM (ListMModeManifests (dcNamespace dc))
          (\<lambda>mws. seqM (forM mws (\<lambda>(k, _). DeleteManifestWork (fst k) (snd k)))
             (bindM (listMCVsWithLabel (dcName dc) MModesLabel)
                (\<lambda>vs. forM vs (\<lambda>(n, _). DeleteManagedClusterView (dcName dc) n)))))"

end
