(* ===== verification/Ramen_DRClusterReconcile.thy ===== *)
theory Ramen_DRClusterReconcile
  imports Ramen_Fencing Ramen_MModes
begin

text \<open>
  One reconcile of a DRCluster: creation or update, and deletion
  (\<^verbatim>\<open>Reconcile\<close>, \<^verbatim>\<open>processCreateOrUpdate\<close>, \<^verbatim>\<open>processDeletion\<close> of \<^verbatim>\<open>drcluster_controller.go\<close>,
  \<^verbatim>\<open>drClusterUndeploy\<close> of \<^verbatim>\<open>drclusters.go\<close>). The result says whether the request is requeued.
\<close>

definition ConfigMapGet :: "ramen_config drcm" where
  "ConfigMapGet = seqM apiCall (bindM (getsM uConfig) liftE)"

definition failValidated :: "string \<Rightarrow> string \<Rightarrow> gerr \<Rightarrow> 'a drcm" where
  "failValidated what reason e =
     catchM (validatedSetFalseAndUpdate reason e) (\<lambda>e'. failM (wrapE (what @ '': '') e' []))"

definition processCreateOrUpdate :: "bool drcm" where
  "processCreateOrUpdate =
     bindM (catchM ConfigMapGet (failValidated ''config map get'' ''ConfigMapGetFailed''))
       (\<lambda>c. seqM (catchM addLabelsAndFinalizers (failValidated ''finalizer add update'' ''FinalizerAddFailed''))
       (seqM (catchM (drClusterDeploy c) (failValidated ''drclusters deploy'' ''DrClustersDeployFailed''))
       (seqM createDRClusterMetricsInstance
       (bindM (attemptM clusterFenceHandle)
       (\<lambda>fence. bindM (getsM validateS3Profile)
       (\<lambda>s3. seqM (case s3 of
                     Some (reason, e) \<Rightarrow> failValidated ''drclusters s3Profile validate'' reason e
                   | None \<Rightarrow> ret ())
       (seqM (catchM getDRClusterDeployedStatus
                (failValidated ''drclusters deploy status'' ''DrClustersDeployStatusCheckFailed''))
       (seqM (catchM ensureDRClusterConfig
                (failValidated ''failed to ensure DRClusterConfig'' ''DRClusterConfigInProgress''))
       (seqM (catchM validateCIDRs
                (\<lambda>_. failValidated ''drclusters CIDRs validate'' ''ValidationFailed'' (newE ''CIDRs validation failed'')))
       (seqM (setConditions setDRClusterValidatedCondition ''Validated the cluster'')
       (bindM (recoverM clusterMModeHandler)
       (\<lambda>mmode. seqM (catchM statusUpdate (\<lambda>_. ret ()))
       (bindM (getsM uRequeue)
       (\<lambda>requeue. ret ((case fence of Inl _ \<Rightarrow> True | Inr b \<Rightarrow> b) \<or> isl mmode \<or> requeue)))))))))))))))"

definition drClusterUndeploy :: "unit drcm" where
  "drClusterUndeploy =
     bindM (getsM uObject)
       (\<lambda>dc. bindM (catchM listDRPolicies (\<lambda>e. failM (wrapE ''drpolicies list: '' e [])))
          (\<lambda>ps.
             if dcName dc \<in> set (concat (map polDRClusters ps))
             then failM (newE (''drcluster '' @ dcName dc @ '' referenced in one or more existing drPolicy resources''))
             else seqM (deleteViewsForClasses (dcName dc))
               (seqM (DeleteDRClusterConfigManagedClusterView (dcName dc))
               (seqM (DeleteManifestWork (mwuManifestWorkName (dcName dc) [] ''drcconfig'') (dcName dc))
               (bindM (attemptM (FindManifestWork (mwuManifestWorkName (dcName dc) [] ''drcconfig'') (dcName dc)))
               (\<lambda>r. case r of
                  Inr _ \<Rightarrow> failM (newE (''waiting for DRClusterConfig resource deletion on cluster ('' @ dcName dc @ '')''))
                | Inl _ \<Rightarrow>
                    seqM drClusterMModeCleanup
                      (catchM (DeleteManifestWork ''ramen-dr-cluster'' (dcName dc))
                         (\<lambda>e. failM (wrapE (''drcluster '' @ dcName dc @ '' manifest work delete: '') e [])))))))))"

definition processDeletion :: "bool drcm" where
  "processDeletion =
     seqM (catchM drClusterUndeploy (\<lambda>e. failM (wrapE ''drclusters undeploy: '' e [])))
       (bindM (getsM (\<lambda>s. dcClusterFence (uObject s)))
          (\<lambda>st. bindM
             (if st = ClusterFenceStateFenced \<or> st = ClusterFenceStateUnfenced
              then catchM handleDeletion (\<lambda>e. failM (wrapE ''cleanup update: '' e []))
              else ret False)
             (\<lambda>requeue. if requeue then ret True
                else seqM (modifyM (\<lambda>s. s\<lparr>uMetrics := None\<rparr>))
                       (seqM (catchM finalizerRemove (\<lambda>e. failM (wrapE ''finalizer remove update: '' e [])))
                          (ret False)))))"

text \<open>A reconcile starts by reading the object into memory; a missing object ends it without an error.\<close>

definition Reconcile :: "bool drcm" where
  "Reconcile =
     bindM (attemptM apiCall)
       (\<lambda>r. case r of
          Inl e \<Rightarrow> if IsNotFound e then ret False else failM (wrapE ''get: '' e [])
        | Inr _ \<Rightarrow>
            seqM (modifyM (\<lambda>s. s\<lparr>uObject := uServer s, uRequeue := False, uMModesReset := False\<rparr>))
              (seqM initializeStatus
                 (bindM (getsM (\<lambda>s. dcDeleted (uObject s)))
                    (\<lambda>deleted. if deleted then processDeletion else processCreateOrUpdate))))"

end
