(* ===== verification/Ramen_FencingSpec.thy ===== *)
theory Ramen_FencingSpec
  imports Ramen_DRClusterReconcile
begin

text \<open>
  What fencing promises. The abstract automaton \<open>fence_step\<close> says how the phase and the two reported
  conditions of a DRCluster may change in one reconcile, for each requested fence state; every run of
  \<^verbatim>\<open>clusterFenceHandle\<close> is one of its steps, whatever API calls fail.
\<close>

section \<open>The abstract automaton\<close>

record fence_view =
  fvPhase :: drcluster_phase
  fvFenced :: "condition_status option"
  fvClean :: "condition_status option"

definition absFence :: "drcluster \<Rightarrow> fence_view" where
  "absFence dc =
     \<lparr>fvPhase = dcPhase dc,
      fvFenced = map_option cStatus (FindCondition (dcConditions dc) ''Fenced''),
      fvClean = map_option cStatus (FindCondition (dcConditions dc) ''Clean'')\<rparr>"

abbreviation reported :: "condition_status \<Rightarrow> condition_status \<Rightarrow> drcluster_phase \<Rightarrow> fence_view" where
  "reported fenced clean p \<equiv> \<lparr>fvPhase = p, fvFenced = Some fenced, fvClean = Some clean\<rparr>"

inductive fence_step :: "cluster_fence_state \<Rightarrow> fence_view \<Rightarrow> fence_view \<Rightarrow> bool" where
  stay: "st \<in> {ClusterFenceStateFenced, ClusterFenceStateUnfenced} \<Longrightarrow> fence_step st v v"
| unset: "fence_step ClusterFenceStateUnset v (reported ConditionFalse ConditionTrue Available)"
| manual_fence: "fence_step ClusterFenceStateManuallyFenced v (reported ConditionTrue ConditionFalse Fenced)"
| manual_unfence: "fence_step ClusterFenceStateManuallyUnfenced v (reported ConditionFalse ConditionTrue Unfenced)"
| fence_start: "fvPhase v \<notin> {Fencing, Fenced}
    \<Longrightarrow> fence_step ClusterFenceStateFenced v (reported ConditionFalse ConditionTrue Fencing)"
| fence_failed: "fence_step ClusterFenceStateFenced v (reported ConditionFalse ConditionTrue (fvPhase v))"
| fence_done: "fvPhase v \<in> {Fencing, Fenced}
    \<Longrightarrow> fence_step ClusterFenceStateFenced v (reported ConditionTrue ConditionFalse Fenced)"
| unfence_start: "fvPhase v \<notin> {Unfencing, Unfenced}
    \<Longrightarrow> fence_step ClusterFenceStateUnfenced v (reported ConditionTrue ConditionFalse Unfencing)"
| unfence_failed: "fence_step ClusterFenceStateUnfenced v (reported ConditionTrue ConditionFalse (fvPhase v))"
| unfence_done: "fvPhase v \<in> {Unfencing, Unfenced} \<Longrightarrow> clean \<in> {ConditionTrue, ConditionFalse}
    \<Longrightarrow> fence_step ClusterFenceStateUnfenced v (reported ConditionFalse clean Unfenced)"

inductive_simps fence_step_simps:
  "fence_step ClusterFenceStateFenced v w" "fence_step ClusterFenceStateUnfenced v w"
  "fence_step ClusterFenceStateUnset v w" "fence_step ClusterFenceStateManuallyFenced v w"
  "fence_step ClusterFenceStateManuallyUnfenced v w"

lemma absFence_phase [simp]:
  "absFence (dc\<lparr>dcPhase := p\<rparr>) = (absFence dc)\<lparr>fvPhase := p\<rparr>" "fvPhase (absFence dc) = dcPhase dc"
  by (simp_all add: absFence_def)

lemma absFence_setFencedAndClean [simp]:
  "absFence (dc\<lparr>dcConditions := setFencedAndClean fr f cr c now (dcConditions dc) g msg\<rparr>)
     = reported f c (dcPhase dc)"
proof -
  let ?cs = "fst (SetStatusCondition now (dcConditions dc) (mkCondition ''Fenced'' fr g f msg))"
  have "map_option cStatus (FindCondition ?cs ''Fenced'') = Some f"
    using SetStatusCondition_find_same [of now "dcConditions dc" "mkCondition ''Fenced'' fr g f msg"]
    by (simp add: mkCondition_def)
  then show ?thesis
    using SetStatusCondition_find_same [of now ?cs "mkCondition ''Clean'' cr g c msg"]
      SetStatusCondition_find_other [of "''Fenced''" "mkCondition ''Clean'' cr g c msg" now ?cs]
    by (simp add: absFence_def setFencedAndClean_def mkCondition_def)
qed

lemmas fence_setters =
  setDRClusterFencingCondition_def setDRClusterUnfencingCondition_def setDRClusterCleaningCondition_def
  setDRClusterFencedCondition_def setDRClusterUnfencedCondition_def setDRClusterCleanCondition_def
  setDRClusterFencingFailedCondition_def setDRClusterUnfencingFailedCondition_def

section \<open>What the steps of fencing keep\<close>

text \<open>
  A property that looks neither at the call count nor at the stores is kept by the steps that only talk to the
  API server (\<open>drc_neutral\<close>); if it also survives the setters of conditions and phase, by the whole handler
  (\<open>fence_steps\<close>).
\<close>

locale drc_neutral = store_neutral I for I :: "drc \<Rightarrow> bool"
begin

lemma keeps_getDRCluster: "pres I (getDRCluster n)"
  by (auto simp: getDRCluster_def intro!: pres_rules keeps_apiCall)

lemma keeps_peerAmong: "pres I (peerAmong b d cs)"
  by (induction cs) (auto intro!: pres_rules keeps_getDRCluster)

lemma keeps_getPeerCluster: "pres I (getPeerCluster ps d)"
  by (induction ps) (auto simp: getPeerFromPolicy_def intro!: pres_rules keeps_peerAmong)

lemma keeps_policiesAndPeer: "pres I policiesAndPeer"
  by (auto simp: policiesAndPeer_def GetAllDRPolicies_def intro!: pres_rules keeps_getPeerCluster keeps_apiCall)

lemma keeps_nfClasses: "pres I (getNFClassesFromDRClusterConfig c)"
  by (auto simp: getNFClassesFromDRClusterConfig_def getDRCCFromCluster_def
      intro!: pres_rules keeps_getters keeps_class_lists)

lemma keeps_createNF: "pres I (createNFManifestWork d p n)"
  by (auto simp: createNFManifestWork_def CreateOrUpdateNFManifestWork_def
      intro!: pres_rules keeps_work_utilities split: sum.split)

lemma keeps_getNF: "pres I (getNF p n)"
  by (auto simp: getNF_def intro!: pres_rules keeps_getters)

lemma keeps_requeueIfNFMWExists: "pres I (requeueIfNFMWExists p)"
  by (auto simp: requeueIfNFMWExists_def intro!: pres_rules keeps_work_utilities)

lemma keeps_removeFencingCR: "pres I (removeFencingCR c)"
  by (auto simp: removeFencingCR_def intro!: pres_rules keeps_nfClasses keeps_work_utilities)

lemma keeps_cleanEach: "pres I (cleanEach cs n b)"
  by (induction cs arbitrary: n b)
     (auto intro!: pres_rules keeps_removeFencingCR split: sum.split bool.split)

lemma keeps_mmodeCleanup: "pres I drClusterMModeCleanup"
  by (auto simp: drClusterMModeCleanup_def ListMModeManifests_def
      intro!: pres_rules keeps_apiCall keeps_work_utilities keeps_view_calls keeps_deleteView split: prod.split)

lemma keeps_undeploy: "pres I drClusterUndeploy"
  by (auto simp: drClusterUndeploy_def listDRPolicies_def DeleteDRClusterConfigManagedClusterView_def
      intro!: pres_rules keeps_apiCall keeps_work_utilities keeps_deleteView keeps_deleteViewsForClasses
        keeps_mmodeCleanup)

end

locale fence_steps = drc_neutral +
  assumes keeps_fenceSetter: "pres I (setConditions (setFencedAndClean fr f cr c) msg)"
    and keeps_phase: "pres I (setDRClusterPhase p)"
begin

lemma keeps_advance: "pres I advanceToNextPhase"
  by (auto simp: advanceToNextPhase_def intro!: pres_rules keeps_phase)

lemma keeps_checks: "pres I (checkFenceStatus p n)" "pres I (checkUnfenceStatus p n)"
  by (auto simp: checkFenceStatus_def checkUnfenceStatus_def fence_setters
      intro!: pres_rules keeps_getNF keeps_requeueIfNFMWExists keeps_fenceSetter)

lemma keeps_cleanClusters: "pres I (cleanClusters cs)"
  by (auto simp: cleanClusters_def fence_setters intro!: pres_rules keeps_cleanEach keeps_fenceSetter)

lemma keeps_clusterFenceHandle: "pres I clusterFenceHandle"
  unfolding clusterFenceHandle_def clusterFence_def clusterUnfence_def fence_setters
  by (auto intro!: pres_rules keeps_policiesAndPeer keeps_nfClasses keeps_createNF keeps_checks keeps_phase
      keeps_advance keeps_fenceSetter keeps_cleanClusters split: cluster_fence_state.split)

lemma keeps_handleDeletion: "pres I handleDeletion"
  by (auto simp: handleDeletion_def intro!: pres_rules keeps_policiesAndPeer keeps_cleanClusters)

end

definition objectIs :: "drcluster \<Rightarrow> drc \<Rightarrow> bool" where
  "objectIs dc s \<longleftrightarrow> uObject s = dc"

interpretation ob: drc_neutral "objectIs dc"
  by unfold_locales (simp_all add: objectIs_def)

lemma wp_object:
  "pres (objectIs (uObject s)) m \<Longrightarrow> (\<And>r s'. uObject s' = uObject s \<Longrightarrow> Q r s') \<Longrightarrow> wp m Q s"
  by (rule wp_pres [where I = "objectIs (uObject s)"]) (auto simp: objectIs_def)

lemma wp_setConditions [wp_rules]:
  "wp (setConditions setter msg) Q s = Q (Inr ()) (s\<lparr>uObject := (uObject s)
     \<lparr>dcConditions := setter (clock s) (dcConditions (uObject s)) (dcGeneration (uObject s)) msg\<rparr>\<rparr>)"
  by (simp add: setConditions_def wp_rules)

lemma wp_setDRClusterPhase [wp_rules]:
  "wp (setDRClusterPhase p) Q s = Q (Inr ()) (s\<lparr>uObject := (uObject s)\<lparr>dcPhase := p\<rparr>\<rparr>)"
  by (simp add: setDRClusterPhase_def modObject_def wp_rules)

lemma wp_advanceToNextPhase [wp_rules]:
  "wp advanceToNextPhase Q s
     = Q (Inr ()) (s\<lparr>uObject := (uObject s)\<lparr>dcPhase := nextPhaseOf (dcPhase (uObject s))\<rparr>\<rparr>)"
  by (simp add: advanceToNextPhase_def wp_rules)

section \<open>The handler refines the automaton\<close>

text \<open>
  The outcome of a step of the two loops over the NetworkFence classes: it goes on with the object
  unchanged, or fails with the object unchanged or with the given conditions reported.
\<close>

definition loopOutcome :: "drcluster \<Rightarrow> condition_status \<Rightarrow> condition_status \<Rightarrow> gerr + unit \<Rightarrow> drc \<Rightarrow> bool" where
  "loopOutcome dc f c r s' \<longleftrightarrow>
     (case r of
        Inr _ \<Rightarrow> uObject s' = dc
      | Inl _ \<Rightarrow> absFence (uObject s') = absFence dc \<or> absFence (uObject s') = reported f c (dcPhase dc))"

lemma loop_rule:
  assumes "\<And>x s. uObject s = dc \<Longrightarrow> wp (body x) (loopOutcome dc f c) s" and "uObject s = dc"
    and "\<And>r s'. loopOutcome dc f c r s' \<Longrightarrow> Q r s'"
  shows "wp (forM xs body) Q s"
proof (rule wp_mono [of _ "loopOutcome dc f c"])
  show "wp (forM xs body) (loopOutcome dc f c) s"
  proof (rule wp_forM [where J = "\<lambda>s. uObject s = dc"])
    fix x and s :: drc assume "uObject s = dc"
    then show "wp (body x) (\<lambda>r s'. case r of Inl e \<Rightarrow> loopOutcome dc f c (Inl e) s' | Inr _ \<Rightarrow> uObject s' = dc) s"
      using assms(1) [of s x] by (auto simp: loopOutcome_def elim!: wp_mono split: sum.splits)
  qed (use assms(2) in \<open>auto simp: loopOutcome_def\<close>)
qed (rule assms(3))

lemma create_failing_outcome:
  assumes "uObject s = dc"
  shows "wp (catchM (createNFManifestWork d p n)
           (\<lambda>e. seqM (setConditions (setFencedAndClean fr f cr c) (m e)) (failM (w e)))) (loopOutcome dc f c) s"
  using assms
  by (auto simp: wp_rules loopOutcome_def intro!: wp_object [OF ob.keeps_createNF] split: sum.split)

lemma checkFenceStatus_outcome:
  assumes "uObject s = dc"
  shows "wp (checkFenceStatus p n) (loopOutcome dc ConditionFalse ConditionTrue) s"
  using assms
  by (auto simp: checkFenceStatus_def wp_rules loopOutcome_def fence_setters
      intro!: wp_object [OF ob.keeps_getNF] split: sum.split)

lemma checkUnfenceStatus_outcome:
  assumes "uObject s = dc"
  shows "wp (checkUnfenceStatus p n) (loopOutcome dc ConditionTrue ConditionFalse) s"
  using assms
  by (auto simp: checkUnfenceStatus_def wp_rules loopOutcome_def fence_setters
      intro!: wp_object [OF ob.keeps_getNF] wp_object [OF ob.keeps_requeueIfNFMWExists] split: sum.split)

lemma wp_cleanClusters:
  assumes "\<And>r s'. absFence (uObject s') = reported ConditionFalse ConditionTrue (dcPhase (uObject s)) \<Longrightarrow> Q r s'"
    and "\<And>r s'. absFence (uObject s') = reported ConditionFalse ConditionFalse (dcPhase (uObject s)) \<Longrightarrow> Q r s'"
    and "\<And>e s'. uObject s' = uObject s \<Longrightarrow> Q (Inl e) s'"
  shows "wp (cleanClusters cs) Q s"
  unfolding cleanClusters_def wp_bind
proof (rule wp_object [OF ob.keeps_cleanEach])
  fix r and s' :: drc
  assume "uObject s' = uObject s"
  then show "case r of Inl e \<Rightarrow> Q (Inl e) s' | Inr x \<Rightarrow> wp (case x of (cleaned, needRequeue) \<Rightarrow>
      seqM (if cleaned = length cs then setConditions setDRClusterCleanCondition ''fencing resource cleaned from cluster''
            else setConditions setDRClusterCleaningCondition ''NetworkFence resource clean started'') (ret needRequeue)) Q s'"
    by (auto simp: wp_rules fence_setters intro: assms split: sum.split)
qed

text \<open>The two branches of each operation, once the peer and the classes are known.\<close>

lemma fence_branches:
  assumes "uObject s = dc"
  shows "\<not> isFencingOrFenced dc \<Longrightarrow> wp (seqM (forM ns (\<lambda>n. catchM (createNFManifestWork dc p n)
             (\<lambda>e. seqM (setConditions setDRClusterFencingFailedCondition (m e)) (failM (w e)))))
             (seqM (setConditions setDRClusterFencingCondition msg) (seqM (setDRClusterPhase Fencing) (ret True))))
           (\<lambda>r s'. fence_step ClusterFenceStateFenced (absFence dc) (absFence (uObject s'))) s" (is "_ \<Longrightarrow> ?start")
    and "isFencingOrFenced dc \<Longrightarrow> wp (seqM (forM ns (checkFenceStatus p))
             (seqM (setConditions setDRClusterFencedCondition msg) (seqM advanceToNextPhase (ret False))))
           (\<lambda>r s'. fence_step ClusterFenceStateFenced (absFence dc) (absFence (uObject s'))) s" (is "_ \<Longrightarrow> ?check")
proof -
  assume "\<not> isFencingOrFenced dc"
  then show ?start
    unfolding wp_seq fence_setters
    by (intro loop_rule [OF create_failing_outcome assms])
       (auto simp: loopOutcome_def wp_rules fence_step_simps isFencingOrFenced_def split: sum.splits)
next
  assume "isFencingOrFenced dc"
  then show ?check
    unfolding wp_seq fence_setters
    by (intro loop_rule [OF checkFenceStatus_outcome assms])
       (auto simp: loopOutcome_def wp_rules fence_step_simps isFencingOrFenced_def nextPhaseOf_def
         split: sum.splits)
qed

lemma unfence_branches:
  assumes "uObject s = dc"
  shows "\<not> isUnfencingOrUnfenced dc \<Longrightarrow> wp (seqM (forM ns (\<lambda>n. catchM (createNFManifestWork dc p n)
             (\<lambda>e. seqM (setConditions setDRClusterUnfencingFailedCondition (m e)) (failM (w e)))))
             (seqM (setConditions setDRClusterUnfencingCondition msg) (seqM (setDRClusterPhase Unfencing) (ret True))))
           (\<lambda>r s'. fence_step ClusterFenceStateUnfenced (absFence dc) (absFence (uObject s'))) s" (is "_ \<Longrightarrow> ?start")
    and "isUnfencingOrUnfenced dc \<Longrightarrow> wp (seqM (forM ns (checkUnfenceStatus p))
             (seqM (setConditions setDRClusterUnfencedCondition msg) (seqM advanceToNextPhase
                (bindM (getsM uObject) (\<lambda>dc'. cleanClusters [dc', p])))))
           (\<lambda>r s'. fence_step ClusterFenceStateUnfenced (absFence dc) (absFence (uObject s'))) s" (is "_ \<Longrightarrow> ?check")
proof -
  assume "\<not> isUnfencingOrUnfenced dc"
  then show ?start
    unfolding wp_seq fence_setters
    by (intro loop_rule [OF create_failing_outcome assms])
       (auto simp: loopOutcome_def wp_rules fence_step_simps isUnfencingOrUnfenced_def split: sum.splits)
next
  assume "isUnfencingOrUnfenced dc"
  then show ?check
    unfolding wp_seq fence_setters
    by (intro loop_rule [OF checkUnfenceStatus_outcome assms])
       (auto simp: loopOutcome_def wp_rules fence_step_simps isUnfencingOrUnfenced_def nextPhaseOf_def
         intro!: wp_cleanClusters split: sum.splits)
qed

lemma clusterFence_steps:
  "wp clusterFence (\<lambda>r s'. fence_step ClusterFenceStateFenced (absFence (uObject s)) (absFence (uObject s'))) s"
  unfolding clusterFence_def
  by (auto simp: wp_bind wp_catch wp_fail wp_gets fence_step.stay fence_branches
      intro!: wp_object [OF ob.keeps_policiesAndPeer] wp_object [OF ob.keeps_nfClasses] split: sum.split)

lemma clusterUnfence_steps:
  "wp clusterUnfence (\<lambda>r s'. fence_step ClusterFenceStateUnfenced (absFence (uObject s)) (absFence (uObject s'))) s"
  unfolding clusterUnfence_def
  by (auto simp: wp_bind wp_catch wp_fail wp_gets fence_step.stay unfence_branches
      intro!: wp_object [OF ob.keeps_policiesAndPeer] wp_object [OF ob.keeps_nfClasses] split: sum.split)

lemma clusterFenceHandle_steps:
  "wp clusterFenceHandle
     (\<lambda>r s'. fence_step (dcClusterFence (uObject s)) (absFence (uObject s)) (absFence (uObject s'))) s"
  using clusterFence_steps [of s] clusterUnfence_steps [of s]
  by (auto simp: clusterFenceHandle_def wp_rules fence_setters fence_step_simps split: cluster_fence_state.split)

end
