(* ===== verification/Ramen_DRClusterInv.thy ===== *)
theory Ramen_DRClusterInv
  imports Ramen_FencingSpec
begin

text \<open>
  What every part of a DRCluster reconcile keeps of the status. The locale \<open>status_invariant\<close> is the contract
  of a property of the phase and the conditions with the parts that write other conditions than the
  fencing ones; \<open>fence_invariant\<close> adds the fencing conditions and the phase, and covers the whole reconcile.
\<close>

locale status_invariant =
  fixes P :: "drcluster_phase \<Rightarrow> conditions \<Rightarrow> bool"
  assumes P_set: "P p cs \<Longrightarrow> cType c \<in> {''Validated'', ''CIDRsValidated''}
                    \<Longrightarrow> P p (fst (SetStatusCondition now cs c))"
    and P_generic: "P p cs \<Longrightarrow> P p (snd (GenericStatusConditionSet now g cs ''Validated'' st reason msg))"
    and P_remove: "P p cs \<Longrightarrow> P p (filter (\<lambda>c. cType c \<noteq> ''CIDRsValidated'') cs)"
begin

definition holds :: "cluster_fence_state \<Rightarrow> drc \<Rightarrow> bool" where
  "holds st s \<longleftrightarrow> P (dcPhase (uObject s)) (dcConditions (uObject s))
     \<and> P (dcPhase (uServer s)) (dcConditions (uServer s)) \<and> dcClusterFence (uObject s) = st"

sublocale hn: drc_neutral "holds st"
  by unfold_locales (simp_all add: holds_def)

lemma holds_modify: "(\<And>s. holds st s \<Longrightarrow> holds st (f s)) \<Longrightarrow> pres (holds st) (modifyM f)"
  by (simp add: pres_def modifyM_def)

lemma holds_setters:
  "pres (holds st) (setConditions setDRClusterValidatedCondition m)"
  "pres (holds st) (setConditions setCIDRsValidatedConditionSucceeded m)"
  "pres (holds st) (setConditions setCIDRsValidatedConditionUndetectedCIDRsFound m)"
  "pres (holds st) (setConditions setCIDRsValidatedConditionDetectedCIDRsUnconfigured m)"
  "pres (holds st) (setConditions setCIDRsValidatedConditionInvalidFormat m)"
  by (auto simp: setConditions_def setDRClusterValidatedCondition_def setCIDRsValidatedConditionSucceeded_def
      setCIDRsValidatedConditionUndetectedCIDRsFound_def setCIDRsValidatedConditionDetectedCIDRsUnconfigured_def
      setCIDRsValidatedConditionInvalidFormat_def setCIDRsValidatedCondition_def mkCondition_def holds_def P_set
      intro!: holds_modify)

lemma holds_small:
  "pres (holds st) setRequeue" "pres (holds st) (setInvalidCIDRsDetected b)"
  "pres (holds st) (setUndetectedCIDRsFound b)" "pres (holds st) createDRClusterMetricsInstance"
  "pres (holds st) (modifyM (\<lambda>s. s\<lparr>uMetrics := None\<rparr>))" "pres (holds st) (appendMModeStatus m)"
  "pres (holds st) (modifyM (\<lambda>s. s\<lparr>uObject := (uObject s)\<lparr>dcMaintenanceModes := []\<rparr>, uMModesReset := True\<rparr>))"
  "pres (holds st) (modifyM (\<lambda>s. s\<lparr>uAddOns := uAddOns s @ [n]\<rparr>))"
  by (auto simp: setRequeue_def setInvalidCIDRsDetected_def setUndetectedCIDRsFound_def
      createDRClusterMetricsInstance_def appendMModeStatus_def modObject_def holds_def intro!: holds_modify)

lemma holds_statusUpdate: "pres (holds st) statusUpdate"
  by (auto simp: statusUpdate_def holds_def withStatusOf_def intro!: pres_rules hn.keeps_apiCall holds_modify)

lemma holds_updateObject: "pres (holds st) updateObject"
  by (auto simp: updateObject_def holds_def withStatusOf_def Let_def intro!: pres_rules hn.keeps_apiCall holds_modify)

lemma holds_validatedSetFalse: "pres (holds st) (validatedSetFalseAndUpdate reason e)"
  by (auto simp: validatedSetFalseAndUpdate_def statusConditionSetAndUpdate_def holds_def P_generic
      intro!: pres_rules holds_statusUpdate holds_modify)

lemma holds_failValidated: "pres (holds st) (failValidated what reason e)"
  by (auto simp: failValidated_def intro!: pres_rules holds_validatedSetFalse)

lemma holds_metadata: "pres (holds st) addLabelsAndFinalizers" "pres (holds st) finalizerRemove"
  by (auto simp: addLabelsAndFinalizers_def finalizerRemove_def modObject_def Let_def holds_def
      intro!: pres_rules holds_updateObject holds_modify)

lemma holds_deploy: "pres (holds st) (drClusterDeploy c)"
  by (auto simp: drClusterDeploy_def appendSubscriptionObject_def SubscriptionFromDrClusterManifestWork_def
      GetDrClusterManifestWork_def reconcileVolSyncManagedClusterAddOn_def CreateOrUpdateDrClusterManifestWork_def
      Let_def intro!: pres_rules hn.keeps_work_utilities hn.keeps_apiCall holds_small)

lemma holds_config:
  "pres (holds st) ConfigMapGet" "pres (holds st) getDRClusterDeployedStatus" "pres (holds st) ensureDRClusterConfig"
  by (auto simp: ConfigMapGet_def getDRClusterDeployedStatus_def GetDrClusterManifestWork_def ensureDRClusterConfig_def
      generateDRClusterConfig_def NewManagedClusterInstance_def ensureNoDuplicateSchedules_def GetAllDRPolicies_def
      CreateOrUpdateDRCConfigManifestWork_def
      intro!: pres_rules hn.keeps_work_utilities hn.keeps_apiCall)

lemma holds_validateCIDRs: "pres (holds st) validateCIDRs"
proof -
  have "pres (holds st) (modObject (\<lambda>dc. dc\<lparr>dcConditions := filter (\<lambda>c. cType c \<noteq> ''CIDRsValidated'') (dcConditions dc)\<rparr>))"
    by (auto simp: modObject_def holds_def P_remove intro!: holds_modify)
  then show ?thesis
    by (auto simp: validateCIDRs_def validateCIDRsFormat_def getCIDRSFromDRCC_def getDRCCFromCluster_def
        checkDetectedCIDRsConfigured_def checkUndetectedCIDRsFound_def Let_def
        intro!: pres_rules hn.keeps_getters holds_small holds_setters)
qed

section \<open>Maintenance modes\<close>

lemma holds_GetDRClusters: "pres (holds st) (GetDRClusters cs)"
  by (induction cs) (auto intro!: pres_rules hn.keeps_apiCall)

lemma holds_failingOverAmong: "pres (holds st) (failingOverAmong c ps acc)"
  by (induction ps arbitrary: acc)
     (auto simp: DRPCsFailingOverToClusterForPolicy_def intro!: pres_rules hn.keeps_apiCall holds_GetDRClusters
       split: sum.split prod.split)

lemma holds_failingOver: "pres (holds st) (DRPCsFailingOverToCluster c)"
  by (auto simp: DRPCsFailingOverToCluster_def listDRPolicies_def
      intro!: pres_rules hn.keeps_apiCall holds_failingOverAmong)

lemma holds_placement: "pres (holds st) (getPlacementOrPlacementRule d)" "pres (holds st) (vrgNamespaceOf d pl)"
  by (auto simp: getPlacementOrPlacementRule_def getPlacement_def getPlacementRule_def vrgNamespaceOf_def
      intro!: pres_rules hn.keeps_apiCall)

lemma holds_queryVRGs: "pres (holds st) (queryVRGs d ns dcs vs n f)"
  by (induction dcs arbitrary: vs n f) (auto intro!: pres_rules hn.keeps_getters)

lemma holds_getVRGs: "pres (holds st) (getVRGs d p)"
  by (auto simp: getVRGs_def getVRGsFromManagedClusters_def
      intro!: pres_rules holds_GetDRClusters holds_placement holds_queryVRGs)

lemma holds_activationsFor: "pres (holds st) (activationsFor ds acts)"
  by (induction ds acts rule: activationsFor.induct)
     (auto intro!: pres_rules holds_getVRGs holds_placement holds_small)

lemma holds_activations: "pres (holds st) mModeActivationsRequired"
  by (auto simp: mModeActivationsRequired_def intro!: pres_rules holds_failingOver holds_small holds_activationsFor)

lemma holds_activate: "pres (holds st) (activateRegionalFailoverPrequisites acts)"
  by (auto simp: activateRegionalFailoverPrequisites_def activateRegionalFailoverPrequisite_def
      CreateOrUpdateMModeManifestWork_def intro!: pres_rules hn.keeps_work_utilities holds_small)

lemma holds_neededByAny: "pres (holds st) (neededByAny pr t ds)"
  by (induction pr t ds rule: neededByAny.induct)
     (auto simp: drpcUsesStorageBackend_def intro!: pres_rules hn.keeps_apiCall holds_getVRGs)

lemma holds_pruneEach: "pres (holds st) (pruneEach acts mws ss)"
  by (induction acts mws ss rule: pruneEach.induct)
     (auto simp: mmodeStillNeededByFailoverDRPC_def intro!: pres_rules holds_failingOver holds_neededByAny
       holds_small hn.keeps_work_utilities split: option.split)

lemma holds_prune: "pres (holds st) (pruneMModesActivations acts)"
  by (auto simp: pruneMModesActivations_def ListMModeManifests_def
      intro!: pres_rules hn.keeps_apiCall holds_small holds_pruneEach)

lemma holds_reportView: "pres (holds st) (reportView ss e)"
  by (auto simp: reportView_def pruneMModeMCV_def
      intro!: pres_rules holds_small hn.keeps_deleteView split: prod.split sum.split option.split)

lemma holds_mmodes: "pres (holds st) clusterMModeHandler"
proof -
  have "pres (holds st) (updateMModeActivationStatus ss)" for ss
    unfolding updateMModeActivationStatus_def createMModeMCV_def
    by (auto intro!: pres_rules hn.keeps_getters hn.keeps_view_calls holds_small holds_reportView
        split: option.split sum.split prod.split)
  then show ?thesis
    by (auto simp: clusterMModeHandler_def intro!: pres_rules holds_activations holds_small holds_activate holds_prune)
qed

end

section \<open>The whole reconcile\<close>

text \<open>The part of a reconcile before the fencing request is handled, and the part after.\<close>

definition beforeFencing :: "unit drcm" where
  "beforeFencing =
     bindM (catchM ConfigMapGet (failValidated ''config map get'' ''ConfigMapGetFailed''))
       (\<lambda>c. seqM (catchM addLabelsAndFinalizers (failValidated ''finalizer add update'' ''FinalizerAddFailed''))
       (seqM (catchM (drClusterDeploy c) (failValidated ''drclusters deploy'' ''DrClustersDeployFailed''))
       createDRClusterMetricsInstance))"

definition afterFencing :: "gerr + bool \<Rightarrow> bool drcm" where
  "afterFencing fence =
     bindM (getsM validateS3Profile)
       (\<lambda>s3. seqM (case s3 of
                     Some (reason, e) \<Rightarrow> failValidated ''drclusters s3Profile validate'' reason e
                   | None \<Rightarrow> ret ())
       (seqM (catchM getDRClusterDeployedStatus
                (failValidated ''drclusters deploy status'' ''DrClustersDeployStatusCheckFailed''))
       (seqM (catchM ensureDRClusterConfig
                (failValidated ''failed to ensure DRClusterConfig'' ''DRClusterConfigInProgress''))
       (seqM (catchM validateCIDRs
                (\<lambda>_. failValidated ''drclusters CIDRs validate'' ''ValidationFailed'' (newE ''CIDRs validation failed'')))
       (seqM (setConditions setDRClusterValidatedCondition ''Validated the cluster'')
       (bindM (recoverM clusterMModeHandler)
       (\<lambda>mmode. seqM (catchM statusUpdate (\<lambda>_. ret ()))
       (bindM (getsM uRequeue)
       (\<lambda>requeue. ret ((case fence of Inl _ \<Rightarrow> True | Inr b \<Rightarrow> b) \<or> isl mmode \<or> requeue))))))))))"

lemma bindM_assoc: "bindM (bindM m f) g = bindM m (\<lambda>x. bindM (f x) g)"
  by (simp add: bindM_def fun_eq_iff split: prod.split sum.split)

lemma processCreateOrUpdate_parts:
  "processCreateOrUpdate = seqM beforeFencing (bindM (attemptM clusterFenceHandle) afterFencing)"
  by (simp add: processCreateOrUpdate_def beforeFencing_def afterFencing_def [abs_def] seqM_def bindM_assoc)

context status_invariant
begin

lemma holds_beforeFencing: "pres (holds st) beforeFencing"
  by (auto simp: beforeFencing_def
      intro!: pres_rules holds_config holds_failValidated holds_metadata holds_deploy holds_small)

lemma holds_afterFencing: "pres (holds st) (afterFencing fence)"
  by (auto simp: afterFencing_def intro!: pres_rules holds_config holds_failValidated holds_validateCIDRs
      holds_setters holds_mmodes holds_statusUpdate split: option.split prod.split)

end

text \<open>A property of the status that fencing keeps as well.\<close>

locale fence_invariant = status_invariant +
  assumes P_fence: "P p cs \<Longrightarrow> P p (setFencedAndClean fr f cr c now cs g msg)"
    and P_phase: "P p cs \<Longrightarrow> P p' cs"
    and P_initial: "P p [] \<Longrightarrow> P p (setDRClusterInitialCondition now [] g msg)"
begin

sublocale fs: fence_steps "holds st"
  by unfold_locales
     (auto simp: setConditions_def setDRClusterPhase_def modObject_def holds_def P_fence intro!: holds_modify dest: P_phase)

lemma holds_processes: "pres (holds st) processCreateOrUpdate" "pres (holds st) processDeletion"
  by (auto simp: processCreateOrUpdate_parts processDeletion_def
      intro!: pres_rules holds_beforeFencing holds_afterFencing fs.keeps_clusterFenceHandle hn.keeps_undeploy
        fs.keeps_handleDeletion holds_small holds_metadata)

lemma holds_initializeStatus: "pres (holds st) initializeStatus"
proof (rule presI)
  fix s assume "holds st s"
  then show "holds st (snd (initializeStatus s))"
    using P_initial P_phase
    by (auto simp: initializeStatus_def seqM_def bindM_def modifyM_def getsM_def whenM_def ret_def
        setConditions_def setDRClusterPhase_def modObject_def holds_def)
qed

theorem reconcile_keeps:
  assumes "P (dcPhase (uServer s)) (dcConditions (uServer s))"
  shows "wp Reconcile (\<lambda>r s'. P (dcPhase (uServer s')) (dcConditions (uServer s'))) s"
proof -
  let ?s0 = "\<lambda>n. s\<lparr>calls := n, uObject := uServer s, uRequeue := False, uMModesReset := False\<rparr>"
  have "pres (holds st) (seqM initializeStatus (bindM (getsM (\<lambda>s. dcDeleted (uObject s)))
          (\<lambda>deleted. if deleted then processDeletion else processCreateOrUpdate)))" for st
    by (auto intro!: pres_rules holds_initializeStatus holds_processes)
  moreover have "holds (dcClusterFence (uServer s)) (?s0 n)" for n
    using assms by (simp add: holds_def)
  ultimately show ?thesis
    unfolding Reconcile_def wp_bind wp_attempt wp_seq [where m = "modifyM f" for f] wp_modify
    using assms
    by (intro wp_apiCall)
       (auto simp: wp_bind wp_seq [where m = "modifyM f" for f] wp_modify wp_ret wp_fail
         intro!: wp_pres [where I = "holds (dcClusterFence (uServer s))"] simp: holds_def)
qed

end

section \<open>The conditions are a map by type\<close>

lemma distinct_SetStatusCondition:
  "distinct (map cType cs) \<Longrightarrow> distinct (map cType (fst (SetStatusCondition now cs c)))"
  by (simp add: SetStatusCondition_types del: set_map)

lemma distinct_GenericStatusConditionSet:
  "distinct (map cType cs) \<Longrightarrow> distinct (map cType (snd (GenericStatusConditionSet now g cs t st reason msg)))"
  using FindCondition_None_iff [of cs t]
  by (auto simp: GenericStatusConditionSet_def ConditionAppend_def types_writeFound ConditionUpdate_def
      split: option.split)

interpretation ct: fence_invariant "\<lambda>p cs. distinct (map cType cs)"
  by unfold_locales
     (simp_all add: distinct_SetStatusCondition distinct_GenericStatusConditionSet distinct_map_filter
       setFencedAndClean_def setDRClusterInitialCondition_def SetStatusConditionIfNotFound_def mkCondition_def)

end
