(* ===== verification/Ramen_FencingProps.thy ===== *)
theory Ramen_FencingProps
  imports Ramen_DRClusterInv
begin

text \<open>
  What the DRCluster reconcile guarantees about fencing, whatever API calls fail: it refines an abstract
  automaton, it reports a cluster fenced by NetworkFences only when every NetworkFence succeeded, and it
  keeps the conditions a map by type. Also where it does not do what it means to: an unfence request is first reported
  as fenced, a missing NetworkFence is taken for a cleaned one, and a fenced cluster cannot be deleted.
\<close>

section \<open>A reconcile as a step of the automaton\<close>

definition initialView :: fence_view where
  "initialView = reported ConditionUnknown ConditionUnknown Starting"

definition viewsBefore :: "fence_view \<Rightarrow> fence_view set" where
  "viewsBefore v = insert v (if fvFenced v = None \<and> fvClean v = None then {initialView} else {})"

definition viewsAfter :: "cluster_fence_state \<Rightarrow> fence_view \<Rightarrow> fence_view set" where
  "viewsAfter st v = viewsBefore v \<union> {w. \<exists>u \<in> viewsBefore v. fence_step st u w}"

definition fenceView :: "drcluster_phase \<Rightarrow> conditions \<Rightarrow> fence_view" where
  "fenceView p cs =
     \<lparr>fvPhase = p, fvFenced = map_option cStatus (FindCondition cs ''Fenced''),
      fvClean = map_option cStatus (FindCondition cs ''Clean'')\<rparr>"

lemma absFence_fenceView: "absFence dc = fenceView (dcPhase dc) (dcConditions dc)"
  by (simp add: absFence_def fenceView_def)

lemma FindCondition_filter_other: "t' \<noteq> t \<Longrightarrow> FindCondition (filter (\<lambda>c. cType c \<noteq> t) cs) t' = FindCondition cs t'"
  by (induction cs) auto

lemma FindCondition_GenericStatusConditionSet_other:
  "t' \<noteq> t \<Longrightarrow> FindCondition (snd (GenericStatusConditionSet now g cs t st reason msg)) t' = FindCondition cs t'"
  by (auto simp: GenericStatusConditionSet_def ConditionAppend_def FindCondition_append FindCondition_writeFound
      ConditionUpdate_def split: option.split)

interpretation fv: status_invariant "\<lambda>p cs. fenceView p cs \<in> W" for W
  by unfold_locales
     (auto simp: fenceView_def SetStatusCondition_find_other FindCondition_GenericStatusConditionSet_other
       FindCondition_filter_other)

definition viewsIn :: "fence_view set \<Rightarrow> cluster_fence_state \<Rightarrow> drc \<Rightarrow> bool" where
  "viewsIn W st s \<longleftrightarrow> absFence (uObject s) \<in> W \<and> absFence (uServer s) \<in> W \<and> dcClusterFence (uObject s) = st"

lemma holds_viewsIn: "fv.holds W st = viewsIn W st"
  by (simp add: fun_eq_iff fv.holds_def viewsIn_def absFence_fenceView)

lemmas viewsIn_before = fv.holds_beforeFencing [unfolded holds_viewsIn]
lemmas viewsIn_after = fv.holds_afterFencing [unfolded holds_viewsIn]

lemma wp_initializeStatus:
  "wp initializeStatus (\<lambda>r s'. uServer s' = uServer s \<and> dcClusterFence (uObject s') = dcClusterFence (uObject s)
     \<and> absFence (uObject s') \<in> viewsBefore (absFence (uObject s))) s"
proof -
  have "absFence (dc\<lparr>dcConditions := setDRClusterInitialCondition t [] g m, dcPhase := Starting\<rparr>) = initialView" for dc t g m
    by (simp add: absFence_def initialView_def setDRClusterInitialCondition_def SetStatusConditionIfNotFound_def mkCondition_def)
  then show ?thesis
    by (auto simp: initializeStatus_def wp_rules viewsBefore_def absFence_def)
qed

text \<open>The stored object changes only through the two updates, which the fencing handler does not call.\<close>

definition storedIs :: "drcluster \<Rightarrow> cluster_fence_state \<Rightarrow> drc \<Rightarrow> bool" where
  "storedIs dc st s \<longleftrightarrow> uServer s = dc \<and> dcClusterFence (uObject s) = st"

interpretation sv: fence_steps "storedIs dc st"
  by unfold_locales
     (auto simp: storedIs_def setConditions_def setDRClusterPhase_def modObject_def pres_def modifyM_def)

lemma fv_clusterFenceHandle:
  assumes "viewsIn (viewsBefore v) st s"
  shows "wp clusterFenceHandle (\<lambda>r s'. viewsIn (viewsAfter st v) st s') s"
proof -
  have "wp clusterFenceHandle (\<lambda>_ s'. storedIs (uServer s) (dcClusterFence (uObject s)) s') s"
    by (rule pres_wp [OF sv.keeps_clusterFenceHandle]) (simp add: storedIs_def)
  from wp_conj [OF clusterFenceHandle_steps this] show ?thesis
    by (rule wp_mono) (use assms in \<open>auto simp: viewsIn_def viewsAfter_def storedIs_def\<close>)
qed

lemma fv_processCreateOrUpdate:
  assumes "viewsIn (viewsBefore v) st s"
  shows "wp processCreateOrUpdate (\<lambda>r s'. absFence (uServer s') \<in> viewsAfter st v) s"
proof -
  have sub: "viewsBefore v \<subseteq> viewsAfter st v" by (auto simp: viewsAfter_def)
  have "wp (bindM (attemptM clusterFenceHandle) afterFencing) (\<lambda>r s'. absFence (uServer s') \<in> viewsAfter st v) s1"
    if "viewsIn (viewsBefore v) st s1" for s1
    unfolding wp_bind wp_attempt
    by (rule wp_mono [OF fv_clusterFenceHandle [OF that]])
       (auto intro: wp_pres [OF viewsIn_after] simp: viewsIn_def)
  then show ?thesis
    unfolding processCreateOrUpdate_parts wp_seq
    by (intro wp_pres [OF viewsIn_before assms]) (use sub in \<open>auto simp: viewsIn_def split: sum.split\<close>)
qed

text \<open>Deleting a DRCluster does not write its status.\<close>

definition storedView :: "fence_view \<Rightarrow> drc \<Rightarrow> bool" where
  "storedView v s \<longleftrightarrow> absFence (uServer s) = v"

interpretation sw: fence_steps "storedView v"
  by unfold_locales
     (auto simp: storedView_def setConditions_def setDRClusterPhase_def modObject_def pres_def modifyM_def)

lemma storedView_finalizerRemove: "pres (storedView v) finalizerRemove"
  unfolding finalizerRemove_def updateObject_def modObject_def Let_def
  by (auto intro!: pres_rules sw.keeps_apiCall sw.keeps_modify simp: storedView_def withStatusOf_def absFence_def)

lemma storedView_processDeletion: "pres (storedView v) processDeletion"
  by (auto simp: processDeletion_def
      intro!: pres_rules sw.keeps_undeploy sw.keeps_handleDeletion storedView_finalizerRemove sw.keeps_modify
      simp: storedView_def)

lemma reconcile_step_of:
  "wp Reconcile (\<lambda>r s'. absFence (uServer s') \<in> viewsAfter (dcClusterFence (uServer s)) (absFence (uServer s))) s"
proof -
  define st v where "st = dcClusterFence (uServer s)" and "v = absFence (uServer s)"
  have "wp (seqM initializeStatus (bindM (getsM (\<lambda>s. dcDeleted (uObject s)))
             (\<lambda>deleted. if deleted then processDeletion else processCreateOrUpdate)))
           (\<lambda>r s'. absFence (uServer s') \<in> viewsAfter st v) s0" if "uObject s0 = uServer s" "uServer s0 = uServer s" for s0
    unfolding wp_seq
  proof (rule wp_mono [OF wp_initializeStatus], goal_cases)
    case (1 r s1)
    with that have h: "viewsIn (viewsBefore v) st s1" by (auto simp: viewsIn_def v_def st_def viewsBefore_def)
    have "wp processDeletion (\<lambda>r s'. absFence (uServer s') \<in> viewsAfter st v) s1"
      by (rule wp_pres [OF storedView_processDeletion [of v]])
         (use 1 that in \<open>auto simp: storedView_def v_def viewsAfter_def viewsBefore_def\<close>)
    with h show ?case
      using fv_processCreateOrUpdate [OF h] 1 that
      by (auto simp: wp_bind wp_gets v_def viewsAfter_def viewsBefore_def split: sum.split)
  qed
  then show ?thesis
    unfolding Reconcile_def wp_bind wp_attempt
    by (intro wp_apiCall)
       (auto simp: wp_ret wp_fail wp_seq [where m = "modifyM f" for f] wp_modify st_def v_def viewsAfter_def viewsBefore_def)
qed

section \<open>When a cluster is reported fenced\<close>

text \<open>What \<^verbatim>\<open>checkClusterFenced\<close> of the DRPC reconciler reads off a DRCluster.\<close>

definition fencedNow :: "drcluster \<Rightarrow> bool" where
  "fencedNow dc \<longleftrightarrow> checkClusterFenced (dcName dc) [dc] = Inr True"

text \<open>The view of a NetworkFence on the peer shows that fencing succeeded.\<close>

definition viewShows :: "string \<Rightarrow> string \<Rightarrow> viewed \<Rightarrow> 'z apiv_scheme \<Rightarrow> bool" where
  "viewShows name cluster r s \<longleftrightarrow> (\<exists>v. findView name cluster s = Some v \<and> GetResource v = Inr r)"

definition nfViewName :: "drcluster \<Rightarrow> string \<Rightarrow> string" where
  "nfViewName dc nfClass = BuildManagedClusterViewName (networkFenceName (dcName dc) nfClass) (dcNamespace dc) ''nf''"

definition fenceSucceeded :: "drcluster \<Rightarrow> string \<Rightarrow> drc \<Rightarrow> string \<Rightarrow> bool" where
  "fenceSucceeded dc peer s nfClass \<longleftrightarrow>
     (\<exists>nf. viewShows (nfViewName dc nfClass) peer (ViewedNF nf) s
        \<and> nfFenceState nf = ClusterFenceStateFenced \<and> nfResult nf = ''Succeeded'')"

definition isPeerOf :: "drc \<Rightarrow> drcluster \<Rightarrow> drcluster \<Rightarrow> bool" where
  "isPeerOf s dc peer \<longleftrightarrow> peer \<in> set (uClusters s) \<and> \<not> dcDeleted peer \<and> dcName peer \<noteq> dcName dc
     \<and> (\<exists>p \<in> set (uPolicies s). {dcName dc, dcName peer} \<subseteq> set (polDRClusters p))"

lemma findView_putView: "findView n c (putView n' c' v s) = (if (n', c') = (n, c) then Some v else findView n c s)"
  by (simp add: findView_def putView_def)

lemma findView_calls [simp]: "findView n c (s\<lparr>calls := k\<rparr>) = findView n c s"
  by (simp add: findView_def)

lemma GetResource_meta [simp]: "GetResource (v\<lparr>vwScope := sc, vwAnnotations := as\<rparr>) = GetResource v"
proof -
  have "viewError (v\<lparr>vwScope := sc, vwAnnotations := as\<rparr>) = viewError v" by (simp add: viewError_def)
  then show ?thesis by (simp add: GetResource_def split: option.split)
qed

lemma GetResource_newView [simp]: "GetResource (newView l a sc) \<noteq> Inr r"
  by (simp add: GetResource_def viewError_def newView_def)

lemma wp_getOrCreate:
  "wp (getOrCreateManagedClusterView n c ls as sc)
     (\<lambda>r s'. (\<forall>m k x. viewShows m k x s \<longrightarrow> viewShows m k x s')
        \<and> (\<forall>v x. r = Inr v \<longrightarrow> GetResource v = Inr x \<longrightarrow> viewShows n c x s')) s"
  unfolding getOrCreateManagedClusterView_def getMCV_def createMCV_def updateMCV_def Let_def
  by (auto simp: wp_rules viewShows_def findView_putView intro!: wp_apiCall split: option.split sum.split)

lemma wp_getNF:
  "wp (getNF peer nfClass)
     (\<lambda>r s'. (\<forall>m k x. viewShows m k x s \<longrightarrow> viewShows m k x s')
        \<and> (\<forall>nf. r = Inr nf \<longrightarrow> viewShows (nfViewName (uObject s) nfClass) (dcName peer) (ViewedNF nf) s')) s"
  unfolding getNF_def GetNFFromManagedCluster_def getResourceFromManagedCluster_def getManagedClusterResource_def
    Let_def liftE_def
  by (auto simp: wp_rules asNF_def nfViewName_def intro!: wp_mono [OF wp_getOrCreate] split: sum.split viewed.split)

text \<open>The check of one NetworkFence: it succeeds only if the view shows success, and otherwise never turns \<open>Fenced\<close> to true.\<close>

lemma fencedNow_setter:
  "fencedNow (dc\<lparr>dcConditions := setFencedAndClean fr f cr c t (dcConditions dc) (dcGeneration dc) m\<rparr>) \<longleftrightarrow> f = ConditionTrue"
proof -
  let ?cs = "fst (SetStatusCondition t (dcConditions dc) (mkCondition ''Fenced'' fr (dcGeneration dc) f m))"
  obtain x where "FindCondition ?cs ''Fenced'' = Some x" "cStatus x = f" "cObservedGeneration x = dcGeneration dc"
    using SetStatusCondition_find_same [of t "dcConditions dc" "mkCondition ''Fenced'' fr (dcGeneration dc) f m"]
    by (auto simp: mkCondition_def)
  then show ?thesis
    using SetStatusCondition_find_other [of "''Fenced''" "mkCondition ''Clean'' cr (dcGeneration dc) c m" t ?cs]
    by (simp add: fencedNow_def setFencedAndClean_def mkCondition_def)
qed

lemma fencedNow_phase [simp]: "fencedNow (dc\<lparr>dcPhase := p\<rparr>) = fencedNow dc"
  by (simp add: fencedNow_def split: option.split)

lemma viewShows_object [simp]: "viewShows m k x (s\<lparr>uObject := dc\<rparr>) = viewShows m k x s"
  by (simp add: viewShows_def findView_def)

lemma wp_checkFenceStatus:
  assumes "dcClusterFence (uObject s) = ClusterFenceStateFenced"
  shows "wp (checkFenceStatus peer n)
     (\<lambda>r s'. (\<forall>m k x. viewShows m k x s \<longrightarrow> viewShows m k x s')
        \<and> (case r of
             Inr _ \<Rightarrow> uObject s' = uObject s \<and> fenceSucceeded (uObject s) (dcName peer) s' n
           | Inl _ \<Rightarrow> uObject s' = uObject s \<or> \<not> fencedNow (uObject s'))) s"
proof -
  have "wp (getNF peer n) (\<lambda>_ s'. objectIs (uObject s) s') s"
    by (rule pres_wp [OF ob.keeps_getNF]) (simp add: objectIs_def)
  from wp_conj [OF wp_getNF this] show ?thesis
    unfolding checkFenceStatus_def
    by (auto simp: wp_rules objectIs_def fence_setters fencedNow_setter fenceSucceeded_def assms
        elim!: wp_mono split: sum.splits)
qed

lemma fenceSucceeded_mono:
  "\<forall>m k x. viewShows m k x s \<longrightarrow> viewShows m k x s' \<Longrightarrow> fenceSucceeded dc peer s n \<Longrightarrow> fenceSucceeded dc peer s' n"
  unfolding fenceSucceeded_def by blast

lemma wp_checkFences:
  assumes "dcClusterFence (uObject s) = ClusterFenceStateFenced"
  shows "wp (forM ns (checkFenceStatus peer))
     (\<lambda>r s'. (\<forall>m k x. viewShows m k x s \<longrightarrow> viewShows m k x s')
        \<and> (case r of
             Inr _ \<Rightarrow> uObject s' = uObject s \<and> list_all (fenceSucceeded (uObject s) (dcName peer) s') ns
           | Inl _ \<Rightarrow> uObject s' = uObject s \<or> \<not> fencedNow (uObject s'))) s"
  using assms
proof (induction ns arbitrary: s)
  case (Cons n ns)
  show ?case
    unfolding forM.simps wp_seq
  proof (rule wp_mono [OF wp_checkFenceStatus [OF Cons.prems]], goal_cases)
    case (1 r s1)
    show ?case
    proof (cases r)
      case (Inr u)
      with 1 have "uObject s1 = uObject s" by simp
      with 1 Inr Cons.prems show ?thesis
        using Cons.IH [of s1] by (auto elim!: wp_mono intro: fenceSucceeded_mono split: sum.splits)
    qed (use 1 in simp)
  qed
qed (simp add: wp_ret)

section \<open>The peer\<close>

lemma wp_peerAmong:
  assumes "set cs \<subseteq> C" "uClusters s = dcs"
  shows "wp (peerAmong b dc cs) (\<lambda>r s'. \<forall>peer. r = Inr (Some peer) \<longrightarrow>
     peer \<in> set dcs \<and> \<not> dcDeleted peer \<and> dcName peer \<noteq> dcName dc \<and> dcName peer \<in> C) s"
  using assms
proof (induction cs arbitrary: s)
  case (Cons c cs)
  have IH: "wp (peerAmong b dc cs) (\<lambda>r s'. \<forall>peer. r = Inr (Some peer) \<longrightarrow>
     peer \<in> set dcs \<and> \<not> dcDeleted peer \<and> dcName peer \<noteq> dcName dc \<and> dcName peer \<in> C) (s\<lparr>calls := n\<rparr>)" for n
    using Cons by (intro Cons.IH) auto
  show ?case
    using IH [of "calls s"] IH Cons.prems
    by (auto simp: getDRCluster_def wp_rules find_Some_iff intro!: wp_apiCall split: option.split)
qed (simp add: wp_ret)

text \<open>What the search for the peer reads stays as it is.\<close>

definition inputsAre :: "drcluster \<Rightarrow> drcluster list \<Rightarrow> drpolicy list \<Rightarrow> drc \<Rightarrow> bool" where
  "inputsAre dc dcs ps s \<longleftrightarrow> uObject s = dc \<and> uClusters s = dcs \<and> uPolicies s = ps"

interpretation inp: drc_neutral "inputsAre dc dcs ps"
  by unfold_locales (simp_all add: inputsAre_def)

lemma wp_getPeerCluster:
  assumes "set ps \<subseteq> set (uPolicies s)"
  shows "wp (getPeerCluster ps dc) (\<lambda>r s'. \<forall>peer. r = Inr peer \<longrightarrow> isPeerOf s dc peer) s"
proof -
  define I where "I = inputsAre (uObject s) (uClusters s) (uPolicies s)"
  have "wp (getPeerCluster ps dc) (\<lambda>r s'. \<forall>peer. r = Inr peer \<longrightarrow> isPeerOf s dc peer) s1" if "I s1" for s1
    using assms that
  proof (induction ps arbitrary: s1)
    case (Cons p ps)
    have IH: "wp (getPeerCluster ps dc) (\<lambda>r s'. \<forall>peer. r = Inr peer \<longrightarrow> isPeerOf s dc peer) s2" if "I s2" for s2
      using Cons that by simp
    have "uClusters s1 = uClusters s" using Cons.prems(2) by (simp add: I_def inputsAre_def)
    note wp_conj [OF wp_peerAmong [OF subset_refl this] pres_wp [OF inp.keeps_peerAmong Cons.prems(2) [unfolded I_def]],
        of "polSyncPeerClasses p \<noteq> []" dc "polDRClusters p"]
    then show ?case
      using IH Cons.prems
      by (auto simp: getPeerFromPolicy_def wp_rules isPeerOf_def I_def elim!: wp_mono split: option.split sum.split)
  qed (simp add: wp_fail)
  then show ?thesis by (simp add: I_def inputsAre_def)
qed

lemma wp_policiesAndPeer:
  "wp policiesAndPeer (\<lambda>r s'. uObject s' = uObject s \<and> (\<forall>peer. r = Inr peer \<longrightarrow> isPeerOf s (uObject s) peer)) s"
proof -
  have p: "wp (getPeerCluster (uPolicies s) (uObject s)) (\<lambda>r s'. objectIs (uObject s) s'
      \<and> (\<forall>peer. r = Inr peer \<longrightarrow> isPeerOf s (uObject s) peer)) (s\<lparr>calls := n\<rparr>)" for n
    using wp_getPeerCluster [of "uPolicies s" "s\<lparr>calls := n\<rparr>" "uObject s"]
    by (intro wp_conj pres_wp [OF ob.keeps_getPeerCluster]) (simp_all add: objectIs_def isPeerOf_def)
  show ?thesis
    unfolding policiesAndPeer_def GetAllDRPolicies_def
    by (auto simp: wp_rules objectIs_def intro!: wp_apiCall wp_mono [OF p] split: sum.split)
qed

text \<open>
  Why a cluster is reported fenced at its current generation after its fencing request was handled: it was
  so before; it is fenced by hand; it is being unfenced; or a live cluster that shares a policy with it shows that the
  NetworkFence of each of its classes (at least one) asks for fencing and succeeded.
\<close>

definition fencedJustified :: "drc \<Rightarrow> drc \<Rightarrow> bool" where
  "fencedJustified s s' \<longleftrightarrow>
     (case dcClusterFence (uObject s) of
        ClusterFenceStateManuallyFenced \<Rightarrow> True
      | ClusterFenceStateUnfenced \<Rightarrow> True
      | ClusterFenceStateFenced \<Rightarrow>
          fencedNow (uObject s)
          \<or> (\<exists>peer nfClasses. isPeerOf s (uObject s) peer \<and> nfClasses \<noteq> []
               \<and> list_all (fenceSucceeded (uObject s) (dcName peer) s') nfClasses)
      | _ \<Rightarrow> False)"

lemma wp_nfClasses:
  fixes s :: drc
  shows "wp (getNFClassesFromDRClusterConfig c) (\<lambda>r s'. uObject s' = uObject s \<and> (\<forall>ns. r = Inr ns \<longrightarrow> ns \<noteq> [])) s"
proof -
  have ne: "findMatchingNFClasses nfcs scs \<noteq> []" for nfcs scs
    by (simp add: findMatchingNFClasses_def Let_def)
  have "wp (getNFClassesFromDRClusterConfig c) (\<lambda>r s'. \<forall>ns. r = Inr ns \<longrightarrow> ns \<noteq> []) s"
    unfolding getNFClassesFromDRClusterConfig_def
    by (intro wpI) (auto simp: bindM_def ret_def ne split: prod.splits sum.splits)
  from wp_conj [OF this pres_wp [OF ob.keeps_nfClasses [of "uObject s"]]] show ?thesis
    by (auto simp: objectIs_def elim!: wp_mono)
qed

lemma start_justified:
  assumes "uObject s = dc"
  shows "wp (seqM (forM ns (\<lambda>n. catchM (createNFManifestWork dc p n)
             (\<lambda>e. seqM (setConditions setDRClusterFencingFailedCondition (m e)) (failM (w e)))))
             (seqM (setConditions setDRClusterFencingCondition msg) (seqM (setDRClusterPhase Fencing) (ret True))))
           (\<lambda>r s'. \<not> fencedNow (uObject s')) s"
  unfolding wp_seq fence_setters
  by (rule wp_forM [where J = "\<lambda>s. uObject s = dc"])
     (use assms in \<open>auto simp: wp_rules fencedNow_setter intro!: wp_object [OF ob.keeps_createNF] split: sum.split\<close>)

lemma clusterFence_justified:
  assumes "dcClusterFence (uObject s) = ClusterFenceStateFenced"
  shows "wp clusterFence (\<lambda>r s'. fencedNow (uObject s') \<longrightarrow> fencedJustified s s') s"
  unfolding clusterFence_def wp_bind
proof (rule wp_mono [OF wp_policiesAndPeer], goal_cases)
  case (1 r s1)
  show ?case
  proof (cases r)
    case (Inr peer)
    with 1 have peer: "isPeerOf s (uObject s) peer" and s1: "uObject s1 = uObject s" by simp_all
    have check: "wp (seqM (forM ns (checkFenceStatus peer))
             (seqM (setConditions setDRClusterFencedCondition msg) (seqM advanceToNextPhase (ret False))))
          (\<lambda>r s'. fencedNow (uObject s') \<longrightarrow> fencedJustified s s') s2"
      if "uObject s2 = uObject s" "ns \<noteq> []" for ns s2 msg
      unfolding wp_seq
      by (rule wp_mono [OF wp_checkFences])
         (use that peer assms in \<open>auto simp: wp_rules fencedJustified_def fenceSucceeded_def list_all_iff split: sum.splits\<close>)
    show ?thesis
      using Inr s1 assms check
      by (auto simp: wp_catch wp_fail wp_gets wp_bind fencedJustified_def
          intro!: wp_mono [OF wp_nfClasses] wp_mono [OF start_justified] split: sum.split)
  qed (use 1 assms in \<open>auto simp: fencedJustified_def\<close>)
qed

end
