(* ===== verification/Ramen_DRClusterProps.thy ===== *)
theory Ramen_DRClusterProps
  imports Ramen_FencingProps
begin

text \<open>
  The properties of the DRCluster reconcile, each with a concrete pair of clusters \<open>c1\<close> and \<open>c2\<close> of one
  Metro policy on which its hypotheses hold.
\<close>

section \<open>A pair of clusters\<close>

definition exDRCluster :: "string \<Rightarrow> cluster_fence_state \<Rightarrow> drcluster_phase \<Rightarrow> drcluster" where
  "exDRCluster name st p =
     \<lparr>dcName = name, dcNamespace = [], dcGeneration = 2, dcDeleted = False, dcLabels = [],
      dcAnnotations = [(''drcluster.ramendr.openshift.io/storage-clusterid'', ''storage''),
        (''drcluster.ramendr.openshift.io/storage-driver'', ''rbd.csi.ceph.com''),
        (''drcluster.ramendr.openshift.io/storage-secret-name'', ''secret''),
        (''drcluster.ramendr.openshift.io/storage-secret-namespace'', ''ramen'')],
      dcFinalizers = [drClusterFinalizerName], dcCIDRs = [''10.0.0.0/8''], dcClusterFence = st,
      dcS3ProfileName = ''NoS3'', dcRegion = ''east'', dcPhase = p, dcConditions = [],
      dcMaintenanceModes = []\<rparr>"

definition exReady :: condition where
  "exReady = mkCondition ''Processing'' ''GetResourceProcessing'' 1 ConditionTrue ''Watching resources successfully''"

definition exView :: "string \<Rightarrow> string \<Rightarrow> string \<Rightarrow> string \<Rightarrow> viewed \<Rightarrow> mcv" where
  "exView kind grp name drcluster r =
     (newView [] [(DRClusterNameAnnotation, drcluster)]
        \<lparr>scKind = kind, scGroup = grp, scVersion = ''v1alpha1'', scName = name, scNamespace = []\<rparr>)
       \<lparr>vwConditions := [exReady], vwResult := Some r\<rparr>"

definition exFence :: "cluster_fence_state \<Rightarrow> network_fence" where
  "exFence st =
     \<lparr>nfName = ''network-fence-c1'', nfLabels = [CreatedByRamen], nfFenceState = st, nfCidrs = [''10.0.0.0/8''],
      nfNetworkFenceClassName = [], nfDriver = ''rbd.csi.ceph.com'', nfSecretName = ''secret'',
      nfSecretNamespace = ''ramen'', nfParameters = [(''clusterID'', ''storage'')], nfResult = ''Succeeded''\<rparr>"

definition exMetroPolicy :: "string list \<Rightarrow> drpolicy" where
  "exMetroPolicy cs =
     \<lparr>polName = ''metro'', polGeneration = 1, polCreationTimestamp = 0, polDeleted = False, polLabels = [],
      polFinalizers = [], polNetworkMappingRef = None, polSchedulingInterval = [], polReplicationClassSelector = [],
      polVolumeSnapshotClassSelector = [], polVolumeGroupSnapshotClassSelector = [], polDRClusters = cs,
      polConditions = [], polAsyncPeerClasses = [], polSyncPeerClasses = [], polNetworkPeers = []\<rparr>"

definition exDRC :: "drcluster \<Rightarrow> ((string \<times> string) \<times> mcv) list \<Rightarrow> drpolicy list \<Rightarrow> drc" where
  "exDRC dc vs ps =
     \<lparr>clock = 1000, conflictRetries = 5, faults = (\<lambda>_. None), calls = 0, manifestWorks = (\<lambda>_. None),
      hubViews = vs, uObject = dc, uSaved = statusOf dc, uServer = dc, uRequeue = False, uMModesReset = False,
      uOrder = [], uPolicies = ps,
      uClusters = [dc, exDRCluster ''c2'' ClusterFenceStateUnset Available],
      uConfig = Inl (Gerr NotFound ''no configuration''), uPodNamespace = ''ramen-system'',
      uManagedClusters = (\<lambda>_. None), uStores = (\<lambda>_. Inl (newE ''no store'')), uAddOns = [], uMetrics = None,
      uEnv = \<lparr>mcvVRG = (\<lambda>ns c. Inl (Gerr NotFound ''no such VRG'')),
        mcvNS = (\<lambda>c n. Inl (Gerr NotFound ''no such namespace'')),
        mcvRecipe = (\<lambda>c n ns. Inl (Gerr NotFound ''no such recipe'')), s3Store = (\<lambda>p. Inl (newE ''no store'')),
        appSets = Inr [], placementNamespace = ''ns'', hubDRPCs = [], volsyncSecretErr = (\<lambda>_. None),
        translateSourceIP = (\<lambda>ip c n. ip)\<rparr>,
      uPlacements = (\<lambda>_. None), uPlRules = (\<lambda>_. None)\<rparr>"

definition exConfigView :: "(string \<times> string) \<times> mcv" where
  "exConfigView = ((''c2-drcconfig-mcv'', ''c2''),
     exView ''DRClusterConfig'' ramenGroup ''c2'' ''c2'' (ViewedDRCConfig (emptyDRCConfig ''c2'' ''id-2'')))"

text \<open>\<open>c1\<close> is being fenced and the NetworkFence on \<open>c2\<close> succeeded; \<open>c1\<close> was never fenced and is asked to be unfenced.\<close>

definition exFencing :: drc where
  "exFencing = exDRC (exDRCluster ''c1'' ClusterFenceStateFenced Fencing)
     [exConfigView, ((''network-fence-c1-nf-mcv'', ''c2''),
        exView ''NetworkFence'' csiAddonsGroup ''network-fence-c1'' ''c1'' (ViewedNF (exFence ClusterFenceStateFenced)))]
     [exMetroPolicy [''c1'', ''c2'']]"

definition exUnfence :: drc where
  "exUnfence = exDRC (exDRCluster ''c1'' ClusterFenceStateUnfenced Available) [exConfigView]
     [exMetroPolicy [''c1'', ''c2'']]"

section \<open>Refinement\<close>

text \<open>
  C14. Every reconcile of a DRCluster, whatever API calls fail and whether the object is being deleted or not, changes
  the stored phase and the stored statuses of the conditions \<open>Fenced\<close> and \<open>Clean\<close> as one step of the fencing
  automaton for the requested fence state, possibly after initialising them, or leaves them alone.
\<close>

theorem reconcile_refines_fencing:
  "absFence (uServer (snd (Reconcile s))) \<in> viewsAfter (dcClusterFence (uServer s)) (absFence (uServer s))"
  using reconcile_step_of [of s] by (simp add: wp_snd)

section \<open>Never fenced and clean at once\<close>

text \<open>
  The life of a DRCluster: it is created without a status; it is reconciled; and between reconciles everything but
  its status may change (the specification, the metadata and all that the reconciler reads from elsewhere).
\<close>

inductive drcluster_life :: "drc \<Rightarrow> bool" where
  created: "dcConditions (uServer s) = [] \<Longrightarrow> drcluster_life s"
| reconciled: "drcluster_life s \<Longrightarrow> drcluster_life (snd (Reconcile s))"
| edited: "drcluster_life s \<Longrightarrow> statusOf (uServer s') = statusOf (uServer s) \<Longrightarrow> drcluster_life s'"

definition notBothTrue :: "fence_view \<Rightarrow> bool" where
  "notBothTrue v \<longleftrightarrow> \<not> (fvFenced v = Some ConditionTrue \<and> fvClean v = Some ConditionTrue)"

lemma fence_step_notBothTrue: "fence_step st v w \<Longrightarrow> notBothTrue v \<Longrightarrow> notBothTrue w"
  by (cases rule: fence_step.cases) (auto simp: notBothTrue_def)

lemma viewsAfter_notBothTrue: "notBothTrue v \<Longrightarrow> w \<in> viewsAfter st v \<Longrightarrow> notBothTrue w"
proof -
  have "notBothTrue initialView" by (simp add: notBothTrue_def initialView_def)
  then show "notBothTrue v \<Longrightarrow> w \<in> viewsAfter st v \<Longrightarrow> notBothTrue w"
    by (auto simp: viewsAfter_def viewsBefore_def split: if_splits intro: fence_step_notBothTrue)
qed

text \<open>
  C15. Through its whole life, over any sequence of reconciles (with any failing API calls) and of edits between them, a
  DRCluster is never reported both fenced and clean.
\<close>

theorem never_fenced_and_clean:
  assumes "drcluster_life s"
  shows "\<not> (fvFenced (absFence (uServer s)) = Some ConditionTrue \<and> fvClean (absFence (uServer s)) = Some ConditionTrue)"
proof -
  from assms have "notBothTrue (absFence (uServer s))"
  proof induction
    case (created s)
    then show ?case by (simp add: absFence_def notBothTrue_def)
  next
    case (reconciled s)
    then show ?case
      using reconcile_step_of [of s] by (auto simp: wp_snd dest: viewsAfter_notBothTrue)
  next
    case (edited s s')
    then show ?case by (simp add: absFence_def statusOf_def)
  qed
  then show ?thesis by (simp add: notBothTrue_def)
qed

theorem never_fenced_and_clean_witness:
  "drcluster_life (snd (Reconcile exFencing))
   \<and> \<not> (fvFenced (absFence (uServer (snd (Reconcile exFencing)))) = Some ConditionTrue
        \<and> fvClean (absFence (uServer (snd (Reconcile exFencing)))) = Some ConditionTrue)"
proof -
  have "drcluster_life (snd (Reconcile exFencing))"
    by (intro reconciled created) (simp add: exFencing_def exDRC_def exDRCluster_def)
  then show ?thesis using never_fenced_and_clean by blast
qed

section \<open>When a cluster is reported fenced\<close>

lemma clusterFenceHandle_justified:
  "wp clusterFenceHandle (\<lambda>r s'. fencedNow (uObject s') \<longrightarrow> fencedJustified s s') s"
proof (cases "dcClusterFence (uObject s)")
  case ClusterFenceStateFenced
  then show ?thesis
    using clusterFence_justified [of s] by (simp add: clusterFenceHandle_def wp_bind wp_gets)
next
  case ClusterFenceStateUnfenced
  then show ?thesis by (simp add: fencedJustified_def wp_def)
qed (simp_all add: clusterFenceHandle_def wp_rules fencedJustified_def fence_setters fencedNow_setter)



section \<open>Unfencing a cluster that is not fenced\<close>

text \<open>
  The first reconcile of an unfence request that succeeds reports the cluster fenced at its current generation,
  whatever it reported before: a request to unfence a cluster that was never fenced makes it look fenced to
  \<^verbatim>\<open>checkClusterFenced\<close> of the DRPC reconciler until the unfencing is confirmed.
\<close>

theorem unfence_request_reports_fenced:
  assumes "dcClusterFence (uObject s) = ClusterFenceStateUnfenced" "\<not> isUnfencingOrUnfenced (uObject s)"
    and "\<not> isl (fst (clusterFenceHandle s))"
  shows "fst (clusterFenceHandle s) = Inr True \<and> fencedNow (uObject (snd (clusterFenceHandle s)))
    \<and> dcPhase (uObject (snd (clusterFenceHandle s))) = Unfencing"
proof -
  let ?Q = "\<lambda>r s'. isl r \<or> r = Inr True \<and> fencedNow (uObject s') \<and> dcPhase (uObject s') = Unfencing"
  have start: "wp (seqM (forM ns (\<lambda>n. catchM (createNFManifestWork dc p n)
             (\<lambda>e. seqM (setConditions setDRClusterUnfencingFailedCondition (m e)) (failM (w e)))))
             (seqM (setConditions setDRClusterUnfencingCondition msg) (seqM (setDRClusterPhase Unfencing) (ret True))))
           ?Q s1" for ns dc p m w msg and s1 :: drc
    unfolding wp_seq fence_setters
    by (rule wp_forM [where J = "\<lambda>s. True"])
       (auto simp: wp_rules fencedNow_setter intro!: wpI [of "createNFManifestWork dc p n" for n] split: sum.split)
  have "wp clusterUnfence ?Q s"
    unfolding clusterUnfence_def wp_bind
    by (rule wp_mono [OF wp_policiesAndPeer])
       (use assms start in \<open>auto simp: wp_catch wp_fail wp_gets wp_bind intro!: wp_mono [OF wp_nfClasses] split: sum.split\<close>)
  with assms show ?thesis
    by (auto simp: clusterFenceHandle_def wp_def bindM_def getsM_def split: prod.splits)
qed

theorem unfence_request_reports_fenced_witness:
  "dcConditions (uObject exUnfence) = [] \<and> fencedNow (uObject (snd (clusterFenceHandle exUnfence)))"
proof -
  have "dcClusterFence (uObject exUnfence) = ClusterFenceStateUnfenced" "\<not> isUnfencingOrUnfenced (uObject exUnfence)"
    "\<not> isl (fst (clusterFenceHandle exUnfence))" "dcConditions (uObject exUnfence) = []"
    by code_simp+
  then show ?thesis using unfence_request_reports_fenced by blast
qed

section \<open>The conditions form a map by type\<close>

text \<open>
  C32. A reconcile keeps the stored conditions of a DRCluster a map keyed by their type (\<^verbatim>\<open>+listType=map\<close>): if no two
  of them have the same type before it, none do after, whatever API calls fail.
\<close>

theorem reconcile_keeps_condition_types_distinct:
  "distinct (map cType (dcConditions (uServer s)))
   \<Longrightarrow> distinct (map cType (dcConditions (uServer (snd (Reconcile s)))))"
  using ct.reconcile_keeps [of s] by (simp add: wp_snd)

theorem reconcile_keeps_condition_types_distinct_witness:
  "distinct (map cType (dcConditions (uServer (snd (Reconcile (snd (Reconcile exFencing)))))))"
proof -
  have "distinct (map cType (dcConditions (uServer exFencing)))"
    by (simp add: exFencing_def exDRC_def exDRCluster_def)
  then show ?thesis using reconcile_keeps_condition_types_distinct by blast
qed

section \<open>Deleting a fenced cluster\<close>

lemma getPeerCluster_unreferenced:
  "\<forall>p \<in> set ps. dcName dc \<notin> set (polDRClusters p) \<Longrightarrow> isl (fst (getPeerCluster ps dc s)) \<and> snd (getPeerCluster ps dc s) = s"
  by (induction ps) (simp_all add: failM_def)

definition unreferenced :: "drc \<Rightarrow> bool" where
  "unreferenced s \<longleftrightarrow> (\<forall>p \<in> set (uPolicies s). dcName (uObject s) \<notin> set (polDRClusters p))"

lemma handleDeletion_unreferenced:
  assumes "unreferenced s"
  shows "wp handleDeletion (\<lambda>r s'. isl r \<and> uServer s' = uServer s) s"
proof -
  have p: "wp (getPeerCluster (uPolicies s) (uObject s)) (\<lambda>r s'. isl r \<and> uServer s' = uServer s) (s\<lparr>calls := n\<rparr>)" for n
    using getPeerCluster_unreferenced [of "uPolicies s" "uObject s" "s\<lparr>calls := n\<rparr>"] assms
    by (auto simp: unreferenced_def wp_def)
  show ?thesis
    unfolding handleDeletion_def policiesAndPeer_def GetAllDRPolicies_def
    by (auto simp: wp_rules intro!: wp_apiCall wp_mono [OF p] split: sum.split)
qed

definition undeployInputs :: "drc \<Rightarrow> drc \<Rightarrow> bool" where
  "undeployInputs s0 s \<longleftrightarrow> uObject s = uObject s0 \<and> uServer s = uServer s0 \<and> uPolicies s = uPolicies s0"

interpretation ui: drc_neutral "undeployInputs s0"
  by unfold_locales (simp_all add: undeployInputs_def)

lemma undeploy_unreferenced:
  "wp drClusterUndeploy (\<lambda>r s'. undeployInputs s s' \<and> (isl r \<or> unreferenced s')) s"
proof -
  have "wp drClusterUndeploy (\<lambda>r s'. isl r \<or> unreferenced s) s"
  proof (cases "unreferenced s")
    case False
    then have "\<exists>p \<in> set (uPolicies s). dcName (uObject s) \<in> set (polDRClusters p)" by (simp add: unreferenced_def)
    then show ?thesis
      unfolding drClusterUndeploy_def listDRPolicies_def
      by (auto simp: wp_bind wp_gets wp_catch wp_seq wp_fail intro!: wp_apiCall)
  qed (simp add: wp_def)
  then show ?thesis
    by (rule wp_mono [OF wp_conj [OF _ pres_wp [OF ui.keeps_undeploy [of s]]]])
       (auto simp: undeployInputs_def unreferenced_def)
qed

text \<open>
  C39. A deleted DRCluster whose specification asks for fencing or unfencing never loses its finalizers: undeploying
  it requires that no policy names it any more, and the clean-up of its fencing then cannot find a peer cluster.
\<close>

theorem deletion_of_fenced_cluster_stuck:
  assumes "dcDeleted (uServer s)" "dcClusterFence (uServer s) \<in> {ClusterFenceStateFenced, ClusterFenceStateUnfenced}"
  shows "dcFinalizers (uServer (snd (Reconcile s))) = dcFinalizers (uServer s)"
proof -
  have "wp processDeletion (\<lambda>r s'. uServer s' = uServer s) s1"
    if "uServer s1 = uServer s" "dcClusterFence (uObject s1) = dcClusterFence (uServer s)" for s1
    unfolding processDeletion_def wp_seq wp_catch
    by (rule wp_mono [OF undeploy_unreferenced])
       (use that assms in \<open>auto simp: wp_rules undeployInputs_def intro!: wp_mono [OF handleDeletion_unreferenced] split: sum.split\<close>)
  then have "wp (seqM initializeStatus (bindM (getsM (\<lambda>s. dcDeleted (uObject s)))
             (\<lambda>deleted. if deleted then processDeletion else processCreateOrUpdate)))
           (\<lambda>r s'. uServer s' = uServer s) s0" if "uObject s0 = uServer s" "uServer s0 = uServer s" for s0
    using that assms unfolding wp_seq
    by (auto simp: initializeStatus_def wp_rules)
  then have "wp Reconcile (\<lambda>r s'. uServer s' = uServer s) s"
    unfolding Reconcile_def wp_bind wp_attempt
    by (intro wp_apiCall) (auto simp: wp_ret wp_fail wp_seq [where m = "modifyM f" for f] wp_modify)
  then show ?thesis by (simp add: wp_snd)
qed

definition exDeleted :: drc where
  "exDeleted = exDRC ((exDRCluster ''c1'' ClusterFenceStateUnfenced Unfenced)\<lparr>dcDeleted := True\<rparr>) [] []"

theorem deletion_of_fenced_cluster_stuck_witness:
  "unreferenced exDeleted \<and> drClusterFinalizerName \<in> set (dcFinalizers (uServer (snd (Reconcile exDeleted))))"
proof -
  have "dcDeleted (uServer exDeleted)"
    "dcClusterFence (uServer exDeleted) \<in> {ClusterFenceStateFenced, ClusterFenceStateUnfenced}"
    "unreferenced exDeleted" "drClusterFinalizerName \<in> set (dcFinalizers (uServer exDeleted))"
    by (simp_all add: exDeleted_def exDRC_def exDRCluster_def unreferenced_def)
  then show ?thesis using deletion_of_fenced_cluster_stuck [of exDeleted] by simp
qed

end
