(* ===== verification/Ramen_Peers.thy ===== *)
theory Ramen_Peers
  imports Ramen_Views Ramen_PeerClass
begin

text \<open>
  How a DRPolicy finds the peer classes of its clusters (\<^verbatim>\<open>drpolicy_peerclass.go\<close>): the pairs of clusters on which
  a storage class of the same name is replicated, synchronously when both share the storage, asynchronously when a
  replication, group replication or snapshot class links them, and the update of the policy's status with them.
\<close>

section \<open>Data\<close>

record class_lists =
  clsClusterID :: string
  clsSClasses :: "class_object list"
  clsVSClasses :: "class_object list"
  clsVRClasses :: "class_object list"
  clsVGRClasses :: "class_object list"
  clsVGSClasses :: "class_object list"

record peer_info =
  piReplicationID :: string
  piGroupReplicationID :: string
  piStorageIDs :: "string list"
  piStorageClassName :: string
  piClusterIDs :: "string list"
  piGrouping :: bool
  piOffloaded :: bool
  piGlobal :: bool

definition GlobalReplicationLabel :: string where "GlobalReplicationLabel = ''ramendr.openshift.io/global''"

abbreviation storageIDOf :: "class_object \<Rightarrow> string" where
  "storageIDOf c \<equiv> sm_get (clLabels c) StorageIDLabel"

section \<open>Peers and the status of the policy\<close>

definition peerClassMatchesPeer :: "peer_class \<Rightarrow> peer_info \<Rightarrow> bool" where
  "peerClassMatchesPeer pc peer \<longleftrightarrow>
     (if pcGroupReplicationID pc \<noteq> [] \<and> piGroupReplicationID peer \<noteq> []
      then pcGroupReplicationID pc = piGroupReplicationID peer \<and> pcStorageClassName pc = piStorageClassName peer
      else pcStorageClassName pc = piStorageClassName peer)
     \<and> equalClusterIDSlices (pcClusterIDs pc) (piClusterIDs peer)"

definition findStatusPeerInPeers :: "peer_class \<Rightarrow> peer_info list \<Rightarrow> peer_info option" where
  "findStatusPeerInPeers pc peers = find (peerClassMatchesPeer pc) peers"

definition findPeerInStatusPeer :: "peer_info \<Rightarrow> peer_class list \<Rightarrow> bool" where
  "findPeerInStatusPeer peer pcs = list_ex (\<lambda>pc. peerClassMatchesPeer pc peer) pcs"

definition peerClassFromPeer :: "peer_info \<Rightarrow> peer_class" where
  "peerClassFromPeer peer =
     \<lparr>pcReplicationID = piReplicationID peer, pcGroupReplicationID = piGroupReplicationID peer,
      pcStorageID = piStorageIDs peer, pcStorageClassName = piStorageClassName peer,
      pcClusterIDs = piClusterIDs peer, pcGrouping = piGrouping peer, pcOffloaded = piOffloaded peer,
      pcGlobal = piGlobal peer\<rparr>"

text \<open>Surviving entries first, in the order of the status, then the new peers.\<close>

definition pruneAndUpdateStatusPeers :: "peer_class list \<Rightarrow> peer_info list \<Rightarrow> peer_class list" where
  "pruneAndUpdateStatusPeers statusPeers peers =
     map peerClassFromPeer (List.map_filter (\<lambda>pc. findStatusPeerInPeers pc peers) statusPeers)
     @ map peerClassFromPeer (filter (\<lambda>peer. \<not> findPeerInStatusPeer peer statusPeers) peers)"

section \<open>Classes that link two clusters\<close>

definition provisionerMatchesSC :: "string \<Rightarrow> class_lists \<Rightarrow> string \<Rightarrow> bool" where
  "provisionerMatchesSC sname cl driver =
     (case find (\<lambda>sc. clName sc = sname) (clsSClasses cl) of
        None \<Rightarrow> False
      | Some sc \<Rightarrow> clProvisioner sc = driver)"

definition hasClassMatchingSID :: "class_object list \<Rightarrow> string \<Rightarrow> class_lists \<Rightarrow> string \<Rightarrow> bool" where
  "hasClassMatchingSID classes sname cl sID =
     list_ex (\<lambda>c. storageIDOf c \<noteq> [] \<and> storageIDOf c = sID \<and> provisionerMatchesSC sname cl (clProvisioner c)) classes"

definition hasVSClassMatchingSID :: "string \<Rightarrow> class_lists \<Rightarrow> string \<Rightarrow> bool" where
  "hasVSClassMatchingSID sname cl sID = hasClassMatchingSID (clsVSClasses cl) sname cl sID"

definition hasVGSClassMatchingSID :: "string \<Rightarrow> class_lists \<Rightarrow> string \<Rightarrow> bool" where
  "hasVGSClassMatchingSID sname cl sID = hasClassMatchingSID (clsVGSClasses cl) sname cl sID"

definition isAsyncVSClassPeer :: "string \<Rightarrow> class_lists \<Rightarrow> class_lists \<Rightarrow> string \<Rightarrow> string \<Rightarrow> bool" where
  "isAsyncVSClassPeer sname clA clB sIDA sIDB \<longleftrightarrow>
     hasVSClassMatchingSID sname clA sIDA \<and> hasVSClassMatchingSID sname clB sIDB"

definition isAsyncVGSClassPeer :: "string \<Rightarrow> class_lists \<Rightarrow> class_lists \<Rightarrow> string \<Rightarrow> string \<Rightarrow> bool" where
  "isAsyncVGSClassPeer sname clA clB sIDA sIDB \<longleftrightarrow>
     hasVGSClassMatchingSID sname clA sIDA \<and> hasVGSClassMatchingSID sname clB sIDB"

text \<open>The class stands for the index the code passes; \<open>matchesStorage\<close> is what the two functions check alike.\<close>

definition matchesStorage :: "string \<Rightarrow> class_lists \<Rightarrow> class_object \<Rightarrow> string \<Rightarrow> string \<Rightarrow> bool" where
  "matchesStorage sname cl c inSID schedule \<longleftrightarrow>
     \<not> (storageIDOf c = [] \<or> inSID \<noteq> storageIDOf c)
     \<and> sm_get (clParameters c) ReplicationClassScheduleKey = schedule
     \<and> provisionerMatchesSC sname cl (clProvisioner c)"

definition getVRID :: "string \<Rightarrow> class_lists \<Rightarrow> class_object \<Rightarrow> string \<Rightarrow> string \<Rightarrow> string" where
  "getVRID sname cl vrc inSID schedule =
     (if matchesStorage sname cl vrc inSID schedule then sm_get (clLabels vrc) ReplicationIDLabel else [])"

definition getVGRID :: "string \<Rightarrow> class_lists \<Rightarrow> class_object \<Rightarrow> string \<Rightarrow> string \<Rightarrow> string \<Rightarrow> string" where
  "getVGRID sname cl vgrc inSID schedule scGrID =
     (if \<not> matchesStorage sname cl vgrc inSID schedule then []
      else let grID = sm_get (clLabels vgrc) GroupReplicationIDLabel
           in if scGrID \<noteq> [] \<and> scGrID \<noteq> grID then [] else grID)"

text \<open>The first identifier on the one cluster, not empty, that the other has too.\<close>

definition firstCommonID :: "string list \<Rightarrow> string list \<Rightarrow> string" where
  "firstCommonID as bs = (case find (\<lambda>a. a \<noteq> [] \<and> a \<in> set bs) as of None \<Rightarrow> [] | Some a \<Rightarrow> a)"

definition getAsyncVRClassPeer ::
  "string \<Rightarrow> class_lists \<Rightarrow> class_lists \<Rightarrow> string \<Rightarrow> string \<Rightarrow> string \<Rightarrow> string" where
  "getAsyncVRClassPeer sname clA clB sIDA sIDB schedule =
     firstCommonID (map (\<lambda>c. getVRID sname clA c sIDA schedule) (clsVRClasses clA))
       (map (\<lambda>c. getVRID sname clB c sIDB schedule) (clsVRClasses clB))"

definition getAsyncVGRClassPeer ::
  "string \<Rightarrow> class_lists \<Rightarrow> class_lists \<Rightarrow> string \<Rightarrow> string \<Rightarrow> string \<Rightarrow> string \<Rightarrow> string" where
  "getAsyncVGRClassPeer sname clA clB sIDA sIDB schedule scGrID =
     firstCommonID (map (\<lambda>c. getVGRID sname clA c sIDA schedule scGrID) (clsVGRClasses clA))
       (map (\<lambda>c. getVGRID sname clB c sIDB schedule scGrID) (clsVGRClasses clB))"

definition isAsyncVGRClassPeerGlobal :: "class_lists \<Rightarrow> class_lists \<Rightarrow> string \<Rightarrow> bool" where
  "isAsyncVGRClassPeerGlobal clA clB grID =
     (let hasGlobal = (\<lambda>cl. case find (\<lambda>c. sm_get (clLabels c) GroupReplicationIDLabel = grID) (clsVGRClasses cl) of
                              None \<Rightarrow> False
                            | Some c \<Rightarrow> map_of (clLabels c) GlobalReplicationLabel = Some ''true'')
      in hasGlobal clA \<and> hasGlobal clB)"

section \<open>Peers of one storage class\<close>

text \<open>One cluster of the loop of \<^verbatim>\<open>getAsyncPeers\<close>: a class that does not fit is skipped, one on the same storage ends the search.\<close>

fun asyncPeerAmong :: "string \<Rightarrow> string \<Rightarrow> string \<Rightarrow> bool \<Rightarrow> class_lists \<Rightarrow> class_lists \<Rightarrow> string
    \<Rightarrow> class_object list \<Rightarrow> peer_info option" where
  "asyncPeerAmong sname clusterID sID offloaded cl0 cl schedule [] = None"
| "asyncPeerAmong sname clusterID sID offloaded cl0 cl schedule (sc # scs) =
     (let next = asyncPeerAmong sname clusterID sID offloaded cl0 cl schedule scs;
          sIDcl = storageIDOf sc;
          scGrID = (case find (\<lambda>c. clName c = sname) (clsSClasses cl0) of
                      None \<Rightarrow> [] | Some c \<Rightarrow> sm_get (clLabels c) GroupReplicationIDLabel);
          grID = getAsyncVGRClassPeer sname cl0 cl sID sIDcl schedule scGrID;
          rID = getAsyncVRClassPeer sname cl0 cl sID sIDcl schedule;
          peer = \<lparr>piReplicationID = [], piGroupReplicationID = [], piStorageIDs = [sID, sIDcl],
                   piStorageClassName = sname, piClusterIDs = [clusterID, clsClusterID cl], piGrouping = False,
                   piOffloaded = offloaded, piGlobal = False\<rparr>
      in if clName sc \<noteq> sname then next
         else if sID = sIDcl then None
         else if offloaded \<noteq> sm_has (clLabels sc) StorageOffloadedLabel then next
         else if offloaded
         then (if grID = [] then next
               else Some (peer\<lparr>piGroupReplicationID := grID, piGrouping := True,
                               piGlobal := isAsyncVGRClassPeerGlobal cl0 cl grID\<rparr>))
         else if rID \<noteq> []
         then Some (peer\<lparr>piReplicationID := rID, piGroupReplicationID := grID, piGrouping := grID \<noteq> []\<rparr>)
         else if isAsyncVGSClassPeer sname cl0 cl sID sIDcl then Some (peer\<lparr>piGrouping := True\<rparr>)
         else if isAsyncVSClassPeer sname cl0 cl sID sIDcl then Some peer
         else next)"

text \<open>\<open>cl0\<close> and \<open>cls\<close> are the first of the list the code passes and the others.\<close>

definition getAsyncPeers ::
  "string \<Rightarrow> string \<Rightarrow> string \<Rightarrow> bool \<Rightarrow> class_lists \<Rightarrow> class_lists list \<Rightarrow> string \<Rightarrow> peer_info list" where
  "getAsyncPeers sname clusterID sID offloaded cl0 cls schedule =
     List.map_filter (\<lambda>cl. asyncPeerAmong sname clusterID sID offloaded cl0 cl schedule (clsSClasses cl)) cls"

definition syncPeerWith :: "string \<Rightarrow> string \<Rightarrow> string \<Rightarrow> class_lists \<Rightarrow> peer_info option" where
  "syncPeerWith sname clusterID sID cl =
     (case find (\<lambda>sc. clName sc = sname) (clsSClasses cl) of
        None \<Rightarrow> None
      | Some sc \<Rightarrow>
          if sID \<noteq> storageIDOf sc then None
          else Some \<lparr>piReplicationID = [], piGroupReplicationID = [], piStorageIDs = [sID],
                     piStorageClassName = sname, piClusterIDs = [clusterID, clsClusterID cl], piGrouping = False,
                     piOffloaded = False, piGlobal = False\<rparr>)"

definition getSyncPeers :: "string \<Rightarrow> string \<Rightarrow> string \<Rightarrow> class_lists list \<Rightarrow> peer_info list" where
  "getSyncPeers sname clusterID sID cls = List.map_filter (syncPeerWith sname clusterID sID) cls"

section \<open>All peers\<close>

text \<open>The class the index loop of \<^verbatim>\<open>findPeers\<close> stops at: the last one if none has the name.\<close>

fun classAt :: "string \<Rightarrow> class_object list \<Rightarrow> class_object option" where
  "classAt sname [] = None"
| "classAt sname (sc # scs) = (if clName sc = sname \<or> scs = [] then Some sc else classAt sname scs)"

text \<open>An index out of range panics; it is the value \<open>None\<close>.\<close>

definition findPeers :: "class_lists list \<Rightarrow> string \<Rightarrow> nat \<Rightarrow> string \<Rightarrow> (peer_info list \<times> peer_info list) option" where
  "findPeers cls sname startClsIdx schedule =
     (case drop startClsIdx cls of
        [] \<Rightarrow> None
      | cl # rest \<Rightarrow>
     (case classAt sname (clsSClasses cl) of
        None \<Rightarrow> None
      | Some sc \<Rightarrow>
          if \<not> sm_has (clLabels sc) StorageIDLabel then Some ([], [])
          else let sID = storageIDOf sc;
                   offloaded = sm_has (clLabels sc) StorageOffloadedLabel
               in Some (getSyncPeers sname (clsClusterID cl) sID rest,
                        if schedule \<noteq> []
                        then getAsyncPeers sname (clsClusterID cl) sID offloaded cl rest schedule
                        else [])))"

definition unionStorageClasses :: "class_lists list \<Rightarrow> string list" where
  "unionStorageClasses cls =
     foldl (\<lambda>all n. if n \<in> set all then all else all @ [n]) [] (concat (map (\<lambda>cl. map clName (clsSClasses cl)) cls))"

definition peersFrom ::
  "class_lists list \<Rightarrow> string list \<Rightarrow> string \<Rightarrow> nat \<Rightarrow> (peer_info list \<times> peer_info list) list option" where
  "peersFrom cls sClassNames schedule clsIdx =
     those (map (\<lambda>sc. if clName sc \<notin> set sClassNames then Some ([], []) else findPeers cls (clName sc) clsIdx schedule)
       (clsSClasses (cls ! clsIdx)))"

definition findAllPeers :: "class_lists list \<Rightarrow> string \<Rightarrow> (peer_info list \<times> peer_info list) option" where
  "findAllPeers cls schedule =
     (if length cls \<le> 1 then Some ([], [])
      else map_option (\<lambda>ps. (concat (map fst (concat ps)), concat (map snd (concat ps))))
             (those (map (peersFrom cls (unionStorageClasses cls) schedule) [0..<length cls - 1])))"

end
