(* ===== verification/Ramen_PeersProps.thy ===== *)
theory Ramen_PeersProps
  imports Ramen_Peers "HOL-Library.Multiset"
begin

text \<open>
  What the search for peers finds: the search never indexes out of range and equals a definition by recursion over
  the clusters; no storage class is paired twice, or both synchronously and asynchronously, on the same two clusters;
  and the status of the policy is updated to exactly the peers found.
\<close>

section \<open>The search as a recursion over the clusters\<close>

definition peersOfClass :: "string \<Rightarrow> class_lists \<Rightarrow> class_lists list \<Rightarrow> string \<Rightarrow> peer_info list \<times> peer_info list" where
  "peersOfClass schedule cl rest n =
     (case find (\<lambda>sc. clName sc = n) (clsSClasses cl) of
        None \<Rightarrow> ([], [])
      | Some sc \<Rightarrow>
          if \<not> sm_has (clLabels sc) StorageIDLabel then ([], [])
          else (getSyncPeers n (clsClusterID cl) (storageIDOf sc) rest,
                if schedule = [] then []
                else getAsyncPeers n (clsClusterID cl) (storageIDOf sc)
                       (sm_has (clLabels sc) StorageOffloadedLabel) cl rest schedule))"

fun allPairs :: "string \<Rightarrow> class_lists list \<Rightarrow> (peer_info list \<times> peer_info list) list" where
  "allPairs schedule [] = []"
| "allPairs schedule (cl # rest) = map (\<lambda>sc. peersOfClass schedule cl rest (clName sc)) (clsSClasses cl) @ allPairs schedule rest"

lemma classAt_found: "n \<in> clName ` set scs \<Longrightarrow> classAt n scs = find (\<lambda>sc. clName sc = n) scs"
  by (induction scs) auto

lemma set_unionStorageClasses: "set (unionStorageClasses cls) = (\<Union>cl \<in> set cls. clName ` set (clsSClasses cl))"
proof -
  have "set (foldl (\<lambda>all n. if n \<in> set all then all else all @ [n]) acc ns) = set acc \<union> set ns" for acc ns :: "string list"
    by (induction ns arbitrary: acc) auto
  then show ?thesis by (auto simp: unionStorageClasses_def)
qed

lemma findPeers_found:
  assumes "i < length cls" "n \<in> clName ` set (clsSClasses (cls ! i))"
  shows "findPeers cls n i schedule = Some (peersOfClass schedule (cls ! i) (drop (Suc i) cls) n)"
proof -
  obtain sc where "find (\<lambda>sc. clName sc = n) (clsSClasses (cls ! i)) = Some sc"
    using assms(2) by (cases "find (\<lambda>sc. clName sc = n) (clsSClasses (cls ! i))") (auto simp: find_None_iff)
  then show ?thesis
    using assms by (simp add: findPeers_def peersOfClass_def classAt_found Let_def flip: Cons_nth_drop_Suc)
qed

lemma those_map_Some: "(\<And>x. x \<in> set xs \<Longrightarrow> f x = Some (g x)) \<Longrightarrow> those (map f xs) = Some (map g xs)"
  by (induction xs) auto

lemma peersFrom_found:
  assumes "i < length cls"
  shows "peersFrom cls (unionStorageClasses cls) schedule i
    = Some (map (\<lambda>sc. peersOfClass schedule (cls ! i) (drop (Suc i) cls) (clName sc)) (clsSClasses (cls ! i)))"
  unfolding peersFrom_def
  by (rule those_map_Some) (use assms in \<open>auto simp: set_unionStorageClasses intro!: findPeers_found\<close>)

lemma peersOfClass_alone: "peersOfClass schedule cl [] n = ([], [])"
  by (simp add: peersOfClass_def getSyncPeers_def getAsyncPeers_def split: option.split)

lemma concat_allPairs:
  assumes "g ([], []) = []"
  shows "concat (map g (concat (map (\<lambda>i. map (\<lambda>sc. peersOfClass schedule (cls ! i) (drop (Suc i) cls) (clName sc))
       (clsSClasses (cls ! i))) [0..<length cls - 1]))) = concat (map g (allPairs schedule cls))"
proof (induction cls)
  case (Cons cl rest)
  show ?case
  proof (cases rest)
    case Nil
    have "concat (map g (map (\<lambda>sc. ([], [])) scs)) = []" for scs :: "class_object list"
      by (induction scs) (simp_all add: assms)
    with Nil show ?thesis by (simp add: peersOfClass_alone comp_def)
  next
    case (Cons c cs)
    then have "[0..<length (cl # rest) - 1] = 0 # map Suc [0..<length rest - 1]"
      by (simp add: map_Suc_upt upt_conv_Cons del: upt_Suc)
    with Cons.IH show ?thesis by (simp add: comp_def)
  qed
qed simp

lemma findAllPeers_allPairs:
  "findAllPeers cls schedule
    = Some (concat (map fst (allPairs schedule cls)), concat (map snd (allPairs schedule cls)))"
proof -
  have "those (map (peersFrom cls (unionStorageClasses cls) schedule) [0..<length cls - 1])
      = Some (map (\<lambda>i. map (\<lambda>sc. peersOfClass schedule (cls ! i) (drop (Suc i) cls) (clName sc))
           (clsSClasses (cls ! i))) [0..<length cls - 1])"
    by (rule those_map_Some) (auto intro!: peersFrom_found)
  moreover have "findAllPeers cls schedule = Some ([], [])" if "length cls \<le> 1" using that by (simp add: findAllPeers_def)
  moreover have "concat (map g (allPairs schedule cls)) = []" if "length cls \<le> 1" "g ([], []) = []"
    for g :: "peer_info list \<times> peer_info list \<Rightarrow> peer_info list"
    using concat_allPairs [of g schedule cls] that by (cases cls) auto
  ultimately show ?thesis
    using concat_allPairs [of fst schedule cls] concat_allPairs [of snd schedule cls]
    by (cases "length cls \<le> 1") (simp_all add: findAllPeers_def)
qed

section \<open>No pair twice\<close>

text \<open>What identifies a peer: the storage class and the two clusters.\<close>

definition peerKey :: "peer_info \<Rightarrow> string \<times> string set" where
  "peerKey p = (piStorageClassName p, set (piClusterIDs p))"

definition classKey :: "peer_class \<Rightarrow> string \<times> string set" where
  "classKey pc = (pcStorageClassName pc, set (pcClusterIDs pc))"

definition wellNamed :: "class_lists list \<Rightarrow> bool" where
  "wellNamed cls \<longleftrightarrow> distinct (map clsClusterID cls) \<and> list_all (\<lambda>cl. distinct (map clName (clsSClasses cl))) cls"

lemma asyncPeerAmong_key:
  "asyncPeerAmong n cid sID off cl0 cl schedule scs = Some p
   \<Longrightarrow> peerKey p = (n, {cid, clsClusterID cl}) \<and> piClusterIDs p = [cid, clsClusterID cl]"
  by (induction n cid sID off cl0 cl schedule scs rule: asyncPeerAmong.induct)
     (auto simp: Let_def peerKey_def split: if_splits)

lemma syncPeerWith_key: "syncPeerWith n cid sID cl = Some p \<Longrightarrow> peerKey p = (n, {cid, clsClusterID cl})"
  by (auto simp: syncPeerWith_def peerKey_def split: option.splits if_splits)

text \<open>The first class of that name decides: on the same storage the pair is synchronous, and never asynchronous.\<close>

lemma sync_not_async:
  "find (\<lambda>sc. clName sc = n) scs = Some sc \<Longrightarrow> sID = storageIDOf sc
   \<Longrightarrow> asyncPeerAmong n cid sID off cl0 cl schedule scs = None"
  by (induction scs) (auto simp: Let_def split: if_splits)

lemma sync_excludes_async:
  "syncPeerWith n cid sID cl \<noteq> None \<Longrightarrow> asyncPeerAmong n cid sID off cl0 cl schedule (clsSClasses cl) = None"
  by (auto simp: syncPeerWith_def sync_not_async split: option.splits if_splits)

lemma in_map_filter: "x \<in> set (List.map_filter f cs) \<longleftrightarrow> (\<exists>c \<in> set cs. f c = Some x)"
  by (force simp: map_filter_def)

lemma map_filter_keys:
  assumes "\<And>c p. c \<in> set cs \<Longrightarrow> f c = Some p \<Longrightarrow> key p = k c"
  shows "set (map key (List.map_filter f cs)) \<subseteq> k ` set cs"
  using assms by (auto simp: in_map_filter)

lemma distinct_two_map_filters:
  assumes "\<And>c p. c \<in> set cs \<Longrightarrow> f c = Some p \<Longrightarrow> key p = k c" "\<And>c p. c \<in> set cs \<Longrightarrow> g c = Some p \<Longrightarrow> key p = k c"
    and "\<And>c. c \<in> set cs \<Longrightarrow> f c \<noteq> None \<Longrightarrow> g c = None" "distinct (map k cs)"
  shows "distinct (map key (List.map_filter f cs @ List.map_filter g cs))"
  using assms
proof (induction cs)
  case (Cons c cs)
  have "k c \<notin> set (map key (List.map_filter f cs))" "k c \<notin> set (map key (List.map_filter g cs))"
    using map_filter_keys [of cs f key k] map_filter_keys [of cs g key k] Cons.prems by auto
  moreover have "distinct (map key (List.map_filter f cs @ List.map_filter g cs))"
    using Cons by simp
  ultimately show ?case
    using Cons.prems(1) [of c] Cons.prems(2) [of c] Cons.prems(3) [of c]
    by (cases "f c"; cases "g c") (auto simp: map_filter_simps)
qed (simp add: map_filter_simps)

abbreviation both :: "'a list \<times> 'a list \<Rightarrow> 'a list" where
  "both p \<equiv> fst p @ snd p"

lemma distinct_map_append:
  "distinct (map f xs) \<Longrightarrow> distinct (map f ys) \<Longrightarrow> (\<And>x y. x \<in> set xs \<Longrightarrow> y \<in> set ys \<Longrightarrow> f x \<noteq> f y)
   \<Longrightarrow> distinct (map f (xs @ ys))"
  by force

lemma peersOfClass_key:
  "p \<in> set (both (peersOfClass schedule cl rest n)) \<Longrightarrow> \<exists>c \<in> set rest. peerKey p = (n, {clsClusterID cl, clsClusterID c})"
  by (auto simp: peersOfClass_def getSyncPeers_def getAsyncPeers_def in_map_filter
      dest!: asyncPeerAmong_key syncPeerWith_key split: option.splits if_splits)

lemma distinct_peersOfClass:
  assumes "distinct (map clsClusterID (cl # rest))"
  shows "distinct (map peerKey (both (peersOfClass schedule cl rest n)))"
proof -
  let ?k = "\<lambda>c. (n, {clsClusterID cl, clsClusterID c})"
  have k: "distinct (map ?k rest)"
    using assms by (auto simp: distinct_map inj_on_def doubleton_eq_iff)
  have "distinct (map peerKey (getSyncPeers n (clsClusterID cl) sID rest
       @ getAsyncPeers n (clsClusterID cl) sID off cl rest schedule))" for sID off
    unfolding getSyncPeers_def getAsyncPeers_def
    by (rule distinct_two_map_filters [where k = ?k])
       (use k in \<open>auto dest: syncPeerWith_key asyncPeerAmong_key simp: sync_excludes_async\<close>)
  then show ?thesis
    by (auto simp: peersOfClass_def split: option.split)
qed

lemma distinct_pairsWith:
  assumes "distinct (map clsClusterID (cl # rest))" "distinct ns"
  shows "distinct (map peerKey (concat (map (\<lambda>n. both (peersOfClass schedule cl rest n)) ns)))"
  using assms(2)
proof (induction ns)
  case (Cons n ns)
  have "n' = n" if "x \<in> set (both (peersOfClass schedule cl rest n))" "y \<in> set (both (peersOfClass schedule cl rest n'))"
      "peerKey x = peerKey y" for x y n'
    using peersOfClass_key [OF that(1)] peersOfClass_key [OF that(2)] that(3) by auto
  then have "peerKey x \<noteq> peerKey y" if "x \<in> set (both (peersOfClass schedule cl rest n))"
      "y \<in> set (concat (map (\<lambda>n. both (peersOfClass schedule cl rest n)) ns))" for x y
    using that Cons.prems by (auto simp del: set_append)
  from distinct_map_append [OF distinct_peersOfClass [OF assms(1)] Cons.IH this] Cons.prems show ?case
    by (simp del: map_append)
qed simp

lemma allPairs_key:
  "p \<in> set (concat (map both (allPairs schedule cls))) \<Longrightarrow> snd (peerKey p) \<subseteq> clsClusterID ` set cls"
proof (induction cls)
  case (Cons cl rest)
  then consider n where "p \<in> set (both (peersOfClass schedule cl rest n))"
    | "p \<in> set (concat (map both (allPairs schedule rest)))" by auto
  then show ?case
  proof cases
    case 1
    from peersOfClass_key [OF this] show ?thesis by auto
  qed (use Cons.IH in auto)
qed simp

lemma distinct_allPairs: "wellNamed cls \<Longrightarrow> distinct (map peerKey (concat (map both (allPairs schedule cls))))"
proof (induction cls)
  case (Cons cl rest)
  then have ids: "distinct (map clsClusterID (cl # rest))" and "wellNamed rest"
    by (simp_all add: wellNamed_def)
  let ?new = "concat (map (\<lambda>n. both (peersOfClass schedule cl rest n)) (map clName (clsSClasses cl)))"
  have disjoint: "peerKey x \<noteq> peerKey y" if "x \<in> set ?new" "y \<in> set (concat (map both (allPairs schedule rest)))" for x y
  proof -
    from that(1) obtain n where "x \<in> set (both (peersOfClass schedule cl rest n))" by auto
    from peersOfClass_key [OF this] have "clsClusterID cl \<in> snd (peerKey x)" by auto
    moreover have "clsClusterID cl \<notin> snd (peerKey y)"
      using allPairs_key [OF that(2)] ids by auto
    ultimately show ?thesis by auto
  qed
  have new: "distinct (map peerKey ?new)"
    by (rule distinct_pairsWith [OF ids]) (use Cons.prems in \<open>simp add: wellNamed_def\<close>)
  have "concat (map both (allPairs schedule (cl # rest))) = ?new @ concat (map both (allPairs schedule rest))"
    by (simp add: comp_def)
  with distinct_map_append [OF new Cons.IH [OF \<open>wellNamed rest\<close>] disjoint] show ?case by (simp only:)
qed simp

lemma mset_both: "mset (concat (map fst ps) @ concat (map snd ps)) = mset (concat (map both ps))"
  by (induction ps) (simp_all add: ac_simps)

lemma findAllPeers_keys:
  assumes "wellNamed cls" "findAllPeers cls schedule = Some (syncPeers, asyncPeers)"
  shows "distinct (map peerKey (syncPeers @ asyncPeers))"
proof -
  have "mset (syncPeers @ asyncPeers) = mset (concat (map both (allPairs schedule cls)))"
    using assms(2) mset_both [of "allPairs schedule cls"] by (simp add: findAllPeers_allPairs)
  then have "mset (map peerKey (syncPeers @ asyncPeers)) = mset (map peerKey (concat (map both (allPairs schedule cls))))"
    unfolding mset_map by (rule arg_cong)
  then show ?thesis using distinct_allPairs [OF assms(1)] mset_eq_imp_distinct_iff by blast
qed

section \<open>The status follows the peers\<close>

lemma matches_key:
  "peerClassMatchesPeer pc p \<Longrightarrow> classKey pc = peerKey p"
  by (auto simp: peerClassMatchesPeer_def classKey_def peerKey_def equalClusterIDSlices_def list_all_iff split: if_splits)

lemma key_peerClassFromPeer: "classKey (peerClassFromPeer p) = peerKey p"
  by (simp add: classKey_def peerKey_def peerClassFromPeer_def)

lemma find_matched:
  "findStatusPeerInPeers pc peers = Some p \<Longrightarrow> p \<in> set peers \<and> peerClassMatchesPeer pc p"
  by (auto simp: findStatusPeerInPeers_def find_Some_iff)

lemma find_matching:
  assumes "distinct (map peerKey peers)" "p \<in> set peers" "peerClassMatchesPeer pc p"
  shows "findStatusPeerInPeers pc peers = Some p"
proof (cases "findStatusPeerInPeers pc peers")
  case None
  with assms(2,3) show ?thesis by (auto simp: findStatusPeerInPeers_def find_None_iff)
next
  case (Some q)
  with find_matched have "q \<in> set peers" "peerKey q = peerKey p" using assms(3) by (metis matches_key)+
  with Some assms(1,2) show ?thesis by (auto simp: distinct_map dest: inj_onD)
qed

lemma mset_pruneAndUpdateStatusPeers:
  assumes "distinct (map classKey st)" "distinct (map peerKey peers)"
  shows "mset (pruneAndUpdateStatusPeers st peers) = mset (map peerClassFromPeer peers)"
proof -
  let ?old = "List.map_filter (\<lambda>pc. findStatusPeerInPeers pc peers) st"
  let ?new = "filter (\<lambda>p. \<not> findPeerInStatusPeer p st) peers"
  have old: "set ?old = {p \<in> set peers. findPeerInStatusPeer p st}"
    by (auto simp: in_map_filter findPeerInStatusPeer_def list_ex_iff intro: bexI)
       (blast dest: find_matched intro: find_matching [OF assms(2)])+
  have "distinct (map peerKey (?old @ List.map_filter (\<lambda>_. None) st))"
    by (rule distinct_two_map_filters [where k = classKey]) (use assms(1) in \<open>auto dest!: find_matched simp: matches_key\<close>)
  then have "distinct ?old" by (simp add: distinct_map)
  moreover have "distinct peers" using assms(2) by (simp add: distinct_map)
  ultimately have "mset (?old @ ?new) = mset peers"
    using old by (intro set_eq_iff_mset_eq_distinct [THEN iffD1]) auto
  moreover have "pruneAndUpdateStatusPeers st peers = map peerClassFromPeer (?old @ ?new)"
    by (simp add: pruneAndUpdateStatusPeers_def)
  ultimately show ?thesis by (simp only: mset_map)
qed

section \<open>Properties\<close>

definition exClass :: "string \<Rightarrow> strmap \<Rightarrow> class_object" where
  "exClass n labels = \<lparr>clName = n, clLabels = labels, clAnnotations = [], clProvisioner = ''rbd'',
     clParameters = [(ReplicationClassScheduleKey, ''5m'')]\<rparr>"

text \<open>Three clusters: the first two share the storage of \<open>block\<close>, the third replicates it.\<close>

definition exClasses :: "string \<Rightarrow> string \<Rightarrow> class_lists" where
  "exClasses cid sID = \<lparr>clsClusterID = cid, clsSClasses = [exClass ''block'' [(StorageIDLabel, sID)]], clsVSClasses = [],
     clsVRClasses = [exClass ''vrc'' [(StorageIDLabel, sID), (ReplicationIDLabel, ''r1'')]],
     clsVGRClasses = [], clsVGSClasses = []\<rparr>"

definition exClusters :: "class_lists list" where
  "exClusters = [exClasses ''id1'' ''sA'', exClasses ''id2'' ''sA'', exClasses ''id3'' ''sB'']"

text \<open>
  C29. The search for peers never indexes out of range, and when the clusters have distinct identifiers and the storage
  classes of each have distinct names, no storage class is paired twice on the same two clusters: neither twice in one of
  the two lists, nor in both, synchronously and asynchronously.
\<close>

theorem peers_paired_once:
  assumes "wellNamed cls"
  shows "\<exists>syncPeers asyncPeers. findAllPeers cls schedule = Some (syncPeers, asyncPeers)
     \<and> distinct (map peerKey (syncPeers @ asyncPeers))"
  using findAllPeers_keys [OF assms] findAllPeers_allPairs by blast

lemma wellNamed_exClusters: "wellNamed exClusters"
  by (simp add: wellNamed_def exClusters_def exClasses_def)

theorem peers_paired_once_witness:
  "\<exists>syncPeers asyncPeers. findAllPeers exClusters ''5m'' = Some (syncPeers, asyncPeers)
     \<and> map piClusterIDs syncPeers = [[''id1'', ''id2'']]
     \<and> map piClusterIDs asyncPeers = [[''id1'', ''id3''], [''id2'', ''id3'']]
     \<and> distinct (map peerKey (syncPeers @ asyncPeers))"
proof -
  have "map_option (\<lambda>(s, a). (map piClusterIDs s, map piClusterIDs a)) (findAllPeers exClusters ''5m'')
     = Some ([[''id1'', ''id2'']], [[''id1'', ''id3''], [''id2'', ''id3'']])"
    by code_simp
  then show ?thesis using peers_paired_once [OF wellNamed_exClusters, of "''5m''"] by auto
qed

text \<open>
  C30. Updating the status of a policy with the peers found makes it exactly those peers, each once, whatever it held before
  (given that it held no pair of clusters of a storage class twice, which the update keeps true).
\<close>

theorem status_follows_peers:
  assumes "distinct (map classKey st)" "distinct (map peerKey peers)"
  shows "mset (pruneAndUpdateStatusPeers st peers) = mset (map peerClassFromPeer peers)
     \<and> distinct (map classKey (pruneAndUpdateStatusPeers st peers))"
proof -
  note m = mset_pruneAndUpdateStatusPeers [OF assms]
  then have "mset (map classKey (pruneAndUpdateStatusPeers st peers)) = mset (map peerKey peers)"
    by (simp add: mset_map image_mset.compositionality comp_def key_peerClassFromPeer)
  with assms(2) have "distinct (map classKey (pruneAndUpdateStatusPeers st peers))"
    by (metis mset_eq_imp_distinct_iff)
  with m show ?thesis by simp
qed

definition exOldPeers :: "peer_class list" where
  "exOldPeers = map (\<lambda>ids. \<lparr>pcReplicationID = ''old'', pcGroupReplicationID = [], pcStorageID = [], pcStorageClassName = ''block'',
     pcClusterIDs = ids, pcGrouping = False, pcOffloaded = False, pcGlobal = False\<rparr>) [[''id3'', ''id2''], [''id7'', ''id8'']]"

theorem status_follows_peers_witness:
  "map (\<lambda>pc. (pcReplicationID pc, pcClusterIDs pc))
     (pruneAndUpdateStatusPeers exOldPeers (snd (the (findAllPeers exClusters ''5m''))))
     = [(''r1'', [''id2'', ''id3'']), (''r1'', [''id1'', ''id3''])]
   \<and> mset (pruneAndUpdateStatusPeers exOldPeers (snd (the (findAllPeers exClusters ''5m''))))
     = mset (map peerClassFromPeer (snd (the (findAllPeers exClusters ''5m''))))"
proof -
  have "distinct (map classKey exOldPeers)" by code_simp
  moreover have "distinct (map peerKey (snd (the (findAllPeers exClusters ''5m''))))" by code_simp
  ultimately have "mset (pruneAndUpdateStatusPeers exOldPeers (snd (the (findAllPeers exClusters ''5m''))))
     = mset (map peerClassFromPeer (snd (the (findAllPeers exClusters ''5m''))))"
    using status_follows_peers by blast
  moreover have "map (\<lambda>pc. (pcReplicationID pc, pcClusterIDs pc))
     (pruneAndUpdateStatusPeers exOldPeers (snd (the (findAllPeers exClusters ''5m''))))
     = [(''r1'', [''id2'', ''id3'']), (''r1'', [''id1'', ''id3''])]"
    by code_simp
  ultimately show ?thesis by blast
qed

end
