(* ===== verification/Ramen_Secrets.thy ===== *)
theory Ramen_Secrets
  imports Ramen_Views
begin

text \<open>
  Delivery of the S3 secrets of the hub to the managed clusters (\<^verbatim>\<open>util/secrets_util.go\<close>): for each secret and
  target format a Policy that carries the secret, a PlacementRule that lists the clusters it goes to, and a
  PlacementBinding that ties the two; a finalizer keeps the secret while they exist.
\<close>

section \<open>State\<close>

datatype secret_format = SecretFormatRamen | SecretFormatVelero

record hub_secret =
  secName :: string
  secFinalizers :: "string list"
  secDeleted :: bool
  secResourceVersion :: string

record local_secret =
  lsName :: string
  lsNamespace :: string
  lsLabels :: strmap
  lsData :: strmap

record configuration_policy =
  cpName :: string
  cpLabels :: strmap
  cpObject :: local_secret

record ocm_policy =
  opLabels :: strmap
  opAnnotations :: strmap
  opTemplate :: configuration_policy

record placement_binding =
  pbLabels :: strmap
  pbPlacementRule :: string
  pbPolicy :: string

record placement_rule =
  prlLabels :: strmap
  prlClusters :: "string list"

text \<open>
  Objects are keyed by name and namespace. \<open>versionAfter\<close> is the API server's choice of the resource version that
  follows another, of which nothing is assumed.
\<close>

record sec = apiv +
  hubSecrets :: "hub_secret store"
  ocmPolicies :: "ocm_policy store"
  placementBindings :: "placement_binding store"
  placementRules :: "placement_rule store"
  versionAfter :: "string \<Rightarrow> string"

type_synonym ('z, 'a) secm = "('z sec_scheme, 'a) gm"

text \<open>An update of a deleted secret that leaves no finalizer removes it; the secret in memory gets the new version.\<close>

definition updateSecret :: "string \<Rightarrow> hub_secret \<Rightarrow> ('z, hub_secret) secm" where
  "updateSecret ns secret =
     bindM (getsM versionAfter)
       (\<lambda>after. let secret' = secret\<lparr>secResourceVersion := after (secResourceVersion secret)\<rparr>
                in seqM (updateIn hubSecrets hubSecrets_update (secName secret) ns secret')
                     (seqM (whenM (secDeleted secret \<and> secFinalizers secret = [])
                              (modifyM (hubSecrets_update (\<lambda>m. m((secName secret, ns) := None)))))
                        (ret secret')))"

section \<open>Names\<close>

definition formatPrefix :: "secret_format \<Rightarrow> string" where
  "formatPrefix format = (case format of SecretFormatRamen \<Rightarrow> [] | SecretFormatVelero \<Rightarrow> ''v'')"

definition GeneratePolicyResourceNames :: "string \<Rightarrow> secret_format \<Rightarrow> string \<times> string \<times> string \<times> string" where
  "GeneratePolicyResourceNames secret format =
     (let policyName = formatPrefix format @ secret
      in (policyName, ''plbinding-'' @ policyName, ''plrule-'' @ policyName, ''cfg-policy-'' @ policyName))"

definition generatePolicyPlacementName :: "string \<Rightarrow> secret_format \<Rightarrow> string" where
  "generatePolicyPlacementName secret format = ''plrule-'' @ formatPrefix format @ secret"

definition GenerateVeleroSecretName :: "string \<Rightarrow> string" where
  "GenerateVeleroSecretName sName = ''v'' @ sName"

definition SecretPolicyFinalizer :: string where
  "SecretPolicyFinalizer = ''drpolicies.ramendr.openshift.io/policy-protection''"

definition SecretFinalizer :: "secret_format \<Rightarrow> string" where
  "SecretFinalizer format =
     (case format of
        SecretFormatRamen \<Rightarrow> SecretPolicyFinalizer
      | SecretFormatVelero \<Rightarrow> SecretPolicyFinalizer @ ''-velero'')"

definition PolicyTriggerAnnotation :: string where
  "PolicyTriggerAnnotation = ''policy.open-cluster-management.io/trigger-update''"

section \<open>The objects of a policy\<close>

definition newS3ConfigurationSecret :: "string \<Rightarrow> string \<Rightarrow> string \<Rightarrow> local_secret" where
  "newS3ConfigurationSecret name ns targetns =
     (let from = (\<lambda>k. ''{{hub fromSecret '' @ quoted ns @ '' '' @ quoted name @ '' '' @ quoted k @ '' hub}}'')
      in \<lparr>lsName = name, lsNamespace = targetns, lsLabels = [CreatedByRamen],
          lsData = [(''AWS_ACCESS_KEY_ID'', from ''AWS_ACCESS_KEY_ID''),
                    (''AWS_SECRET_ACCESS_KEY'', from ''AWS_SECRET_ACCESS_KEY'')]\<rparr>)"

definition newVeleroSecret :: "string \<Rightarrow> string \<Rightarrow> string \<Rightarrow> string \<Rightarrow> local_secret" where
  "newVeleroSecret name fromNS veleroNS keyName =
     (let nl = [CHR 0x5C, CHR ''n''];
          lookup = (\<lambda>k. ''((lookup '' @ quoted ''v1'' @ '' '' @ quoted ''Secret'' @ '' '' @ quoted fromNS @ '' ''
                       @ quoted name @ '').data.'' @ k @ '' | base64dec)'')
      in \<lparr>lsName = GenerateVeleroSecretName name, lsNamespace = veleroNS, lsLabels = [CreatedByRamen],
          lsData = [(keyName,
             ''{{ (printf '' @ quoted (''[default]'' @ nl @ ''  aws_access_key_id = %s'' @ nl
                @ ''  aws_secret_access_key = %s'' @ nl) @ '' '' @ lookup ''AWS_ACCESS_KEY_ID'' @ '' ''
                @ lookup ''AWS_SECRET_ACCESS_KEY'' @ '') | base64enc }}'')]\<rparr>)"

definition newConfigurationPolicy :: "string \<Rightarrow> local_secret \<Rightarrow> configuration_policy" where
  "newConfigurationPolicy name object = \<lparr>cpName = name, cpLabels = [CreatedByRamen], cpObject = object\<rparr>"

definition newPolicy :: "string \<Rightarrow> configuration_policy \<Rightarrow> ocm_policy" where
  "newPolicy triggerValue object =
     \<lparr>opLabels = [], opAnnotations = [(PolicyTriggerAnnotation, triggerValue)], opTemplate = object\<rparr>"

definition newPlacementRuleBinding :: "string \<Rightarrow> string \<Rightarrow> placement_binding" where
  "newPlacementRuleBinding placementRuleName subject =
     \<lparr>pbLabels = [], pbPlacementRule = placementRuleName, pbPolicy = subject\<rparr>"

definition newPlacementRule :: "string list \<Rightarrow> placement_rule" where
  "newPlacementRule clusters = \<lparr>prlLabels = [], prlClusters = clusters\<rparr>"

definition policyObject :: "string \<Rightarrow> string \<Rightarrow> string \<Rightarrow> secret_format \<Rightarrow> string \<Rightarrow> local_secret" where
  "policyObject name ns targetNS format veleroNS =
     (case format of
        SecretFormatRamen \<Rightarrow> newS3ConfigurationSecret name ns targetNS
      | SecretFormatVelero \<Rightarrow> newVeleroSecret name targetNS veleroNS ''ramengenerated'')"

section \<open>Creating, updating and deleting them\<close>

definition createPolicyResources ::
  "hub_secret \<Rightarrow> string \<Rightarrow> string \<Rightarrow> string \<Rightarrow> secret_format \<Rightarrow> string \<Rightarrow> ('z, unit) secm" where
  "createPolicyResources secret cluster ns targetNS format veleroNS =
     (let (policyName, plBindingName, plRuleName, configPolicyName) = GeneratePolicyResourceNames (secName secret) format;
          wrap = (\<lambda>what e. wrapE (''unable to '' @ what @ '' (secret: '' @ secName secret @ '', cluster: '' @ cluster @ ''): '') e [])
      in bindM (if SecretFinalizer format \<notin> set (secFinalizers secret)
                then catchM (updateSecret ns (secret\<lparr>secFinalizers := secFinalizers secret @ [SecretFinalizer format]\<rparr>))
                       (\<lambda>e. failM (wrap ''add finalizer to secret'' e))
                else ret secret)
           (\<lambda>secret. seqM
              (ignoring IsAlreadyExists
                 (createIn placementBindings placementBindings_update plBindingName ns
                    ((newPlacementRuleBinding plRuleName policyName)\<lparr>pbLabels := [CreatedByRamen]\<rparr>))
                 (wrap ''create placement binding''))
              (seqM
                 (ignoring IsAlreadyExists
                    (createIn ocmPolicies ocmPolicies_update policyName ns
                       ((newPolicy (secResourceVersion secret)
                           (newConfigurationPolicy configPolicyName
                              (policyObject (secName secret) ns targetNS format veleroNS)))
                          \<lparr>opLabels := [CreatedByRamen]\<rparr>))
                    (wrap ''create policy''))
                 (ignoring IsAlreadyExists
                    (createIn placementRules placementRules_update plRuleName ns
                       ((newPlacementRule [cluster])\<lparr>prlLabels := [CreatedByRamen]\<rparr>))
                    (wrap ''create placement rule'')))))"

definition deletePolicyResources :: "hub_secret \<Rightarrow> string \<Rightarrow> secret_format \<Rightarrow> ('z, unit) secm" where
  "deletePolicyResources secret ns format =
     (let (policyName, plBindingName, plRuleName, _) = GeneratePolicyResourceNames (secName secret) format;
          wrap = (\<lambda>what e. wrapE (''unable to '' @ what @ '' (secret: '' @ secName secret @ ''): '') e [])
      in seqM (ignoring IsNotFound (deleteIn placementBindings placementBindings_update plBindingName ns)
                 (wrap ''delete placement binding''))
         (seqM (ignoring IsNotFound (deleteIn ocmPolicies ocmPolicies_update policyName ns) (wrap ''delete policy''))
         (seqM (ignoring IsNotFound (deleteIn placementRules placementRules_update plRuleName ns)
                  (wrap ''delete placement rule''))
            (whenM (SecretFinalizer format \<in> set (secFinalizers secret))
               (catchM (bindM (updateSecret ns
                          (secret\<lparr>secFinalizers := filter (\<lambda>f. f \<noteq> SecretFinalizer format) (secFinalizers secret)\<rparr>))
                          (\<lambda>_. ret ()))
                  (\<lambda>e. failM (wrap ''remove finalizer from secret'' e)))))))"

text \<open>Adding returns the clusters as they are at the first occurrence; removing drops every occurrence.\<close>

definition inspectClusters :: "string list \<Rightarrow> string \<Rightarrow> bool \<Rightarrow> bool \<times> string list" where
  "inspectClusters clusters cluster add =
     (if add \<and> cluster \<in> set clusters then (True, clusters)
      else (cluster \<in> set clusters, filter (\<lambda>c. c \<noteq> cluster) clusters))"

text \<open>Returns whether the policy was deleted.\<close>

definition updatePlacementRule ::
  "string \<Rightarrow> placement_rule \<Rightarrow> hub_secret \<Rightarrow> string \<Rightarrow> string \<Rightarrow> secret_format \<Rightarrow> bool \<Rightarrow> ('z, bool) secm" where
  "updatePlacementRule plRuleName plRule secret cluster ns format add =
     (let (found, survivors) = inspectClusters (prlClusters plRule) cluster add;
          update = (\<lambda>clusters.
            seqM (catchM (updateIn placementRules placementRules_update plRuleName ns (plRule\<lparr>prlClusters := clusters\<rparr>))
                    (\<lambda>e. failM (wrapE (''unable to update placement rule (placementRule: '' @ plRuleName
                                  @ '', cluster: '' @ cluster @ ''): '') e [])))
              (ret False))
      in if add
         then (if found then ret False else update (prlClusters plRule @ [cluster]))
         else if survivors = [] then seqM (deletePolicyResources secret ns format) (ret True)
         else if \<not> found then ret False
         else update survivors)"

text \<open>The Policy is looked up by the name of the secret, in either format; writing to its annotations panics if it has none.\<close>

definition nilMapWrite :: gerr where
  "nilMapWrite = Gerr GoPanic ''assignment to entry in nil map''"

definition ticklePolicy :: "hub_secret \<Rightarrow> string \<Rightarrow> ('z, unit) secm" where
  "ticklePolicy secret ns =
     bindM (catchM (getFrom ocmPolicies (secName secret) ns)
              (\<lambda>e. failM (wrapE (''unable to get policy (secret: '' @ secName secret @ ''): '') e [])))
       (\<lambda>policy.
          if map_of (opAnnotations policy) PolicyTriggerAnnotation = Some (secResourceVersion secret) then ret ()
          else if opAnnotations policy = [] then failM nilMapWrite
          else catchM (updateIn ocmPolicies ocmPolicies_update (secName secret) ns
                         (policy\<lparr>opAnnotations := sm_put PolicyTriggerAnnotation (secResourceVersion secret)
                            (opAnnotations policy)\<rparr>))
                 (\<lambda>e. failM (wrapE (''unable to trigger policy update (secret: '' @ secName secret @ ''): '') e [])))"

definition updatePolicyResources ::
  "string \<Rightarrow> placement_rule \<Rightarrow> hub_secret \<Rightarrow> string \<Rightarrow> string \<Rightarrow> secret_format \<Rightarrow> bool \<Rightarrow> ('z, unit) secm" where
  "updatePolicyResources plRuleName plRule secret cluster ns format add =
     bindM (updatePlacementRule plRuleName plRule secret cluster ns format add)
       (\<lambda>deleted. whenM (\<not> deleted) (ticklePolicy secret ns))"

definition ensureS3SecretResources :: "string \<Rightarrow> string \<Rightarrow> secret_format \<Rightarrow> ('z, hub_secret option) secm" where
  "ensureS3SecretResources name ns format =
     bindM (attemptM (getFrom hubSecrets name ns))
       (\<lambda>r. case r of
          Inl e \<Rightarrow>
            if \<not> IsNotFound e then failM (wrapE ''failed to get secret object: '' e [])
            else seqM (deletePolicyResources
                         \<lparr>secName = name, secFinalizers = [], secDeleted = False, secResourceVersion = []\<rparr> ns format)
                   (ret None)
        | Inr secret \<Rightarrow>
            if \<not> secDeleted secret then ret (Some secret)
            else seqM (deletePolicyResources secret ns format) (ret None))"

section \<open>Adding a secret to a cluster and removing it\<close>

definition AddSecretToCluster ::
  "string \<Rightarrow> string \<Rightarrow> string \<Rightarrow> string \<Rightarrow> secret_format \<Rightarrow> string \<Rightarrow> ('z, unit) secm" where
  "AddSecretToCluster name cluster ns targetNS format veleroNS =
     (if length name + length ns + 1 + 1 > 63
      then failM (newE (''secret namespace.name ('' @ name @ ''.'' @ ns @ '') length exceeds maximum character limit (63)''))
      else if format = SecretFormatVelero \<and> veleroNS = []
      then failM (newE ''requested format (velero) requires a target namespace'')
      else bindM (ensureS3SecretResources name ns format)
             (\<lambda>r. case r of
                None \<Rightarrow> failM (newE (''failed to find secret (secret: '' @ name @ '', cluster: '' @ cluster @ '')''))
              | Some secret \<Rightarrow>
                  let plRuleName = generatePolicyPlacementName name format
                  in bindM (attemptM (getFrom placementRules plRuleName ns))
                       (\<lambda>q. case q of
                          Inl e \<Rightarrow>
                            if \<not> IsNotFound e then failM (wrapE ''failed to get placementRule object: '' e [])
                            else createPolicyResources secret cluster ns targetNS format veleroNS
                        | Inr plRule \<Rightarrow> updatePolicyResources plRuleName plRule secret cluster ns format True)))"

definition RemoveSecretFromCluster :: "string \<Rightarrow> string \<Rightarrow> string \<Rightarrow> secret_format \<Rightarrow> ('z, unit) secm" where
  "RemoveSecretFromCluster name cluster ns format =
     bindM (ensureS3SecretResources name ns format)
       (\<lambda>r. case r of
          None \<Rightarrow> ret ()
        | Some secret \<Rightarrow>
            let plRuleName = generatePolicyPlacementName name format
            in bindM (attemptM (getFrom placementRules plRuleName ns))
                 (\<lambda>q. case q of
                    Inl e \<Rightarrow>
                      if \<not> IsNotFound e then failM (wrapE ''failed to get placementRule object: '' e [])
                      else deletePolicyResources secret ns format
                  | Inr plRule \<Rightarrow> updatePolicyResources plRuleName plRule secret cluster ns format False))"

end
