(* ===== verification/Ramen_DRPolicy.thy ===== *)
theory Ramen_DRPolicy
  imports Ramen_DRClusterConfig Ramen_Peers Ramen_Secrets "HOL-Library.AList"
begin

text \<open>
  The DRPolicy reconciler (\<^verbatim>\<open>drpolicy_controller.go\<close>, \<^verbatim>\<open>drpolicy.go\<close>): validation of a policy, the update of its peer
  classes, the distribution of the S3 secrets of its clusters, the conflicts with other policies, the symmetry of the
  network attachments, and the deletion of a policy.
\<close>

section \<open>State\<close>

text \<open>
  \<open>pObject\<close> is the policy in memory, \<open>pServer\<close> the stored one. \<open>pOrder\<close> is an order of cluster names in which Go may
  range over a map keyed by them. \<open>pInterval\<close> is the gauge of the synchronisation interval while it is registered.
\<close>

record drp = sec +
  pObject :: drpolicy
  pServer :: drpolicy
  pPolicies :: "drpolicy list"
  pClusters :: "drcluster list"
  pDRPCs :: "drpc list"
  pConfig :: "gerr + ramen_config"
  pPodNamespace :: string
  pManagedClusters :: "string \<Rightarrow> managed_cluster option"
  pNamespaces :: "string list"
  pOrder :: "string list"
  pInterval :: "nat option"

type_synonym 'a drpm = "(drp, 'a) gm"

definition withPolicyStatusOf :: "drpolicy \<Rightarrow> drpolicy \<Rightarrow> drpolicy" where
  "withPolicyStatusOf p q =
     p\<lparr>polConditions := polConditions q, polAsyncPeerClasses := polAsyncPeerClasses q,
       polSyncPeerClasses := polSyncPeerClasses q, polNetworkPeers := polNetworkPeers q\<rparr>"

definition modPolicy :: "(drpolicy \<Rightarrow> drpolicy) \<Rightarrow> unit drpm" where
  "modPolicy f = modifyM (\<lambda>s. s\<lparr>pObject := f (pObject s)\<rparr>)"

definition drpolicyStatusUpdate :: "unit drpm" where
  "drpolicyStatusUpdate =
     seqM apiCall (modifyM (\<lambda>s. s\<lparr>pServer := withPolicyStatusOf (pServer s) (pObject s)\<rparr>))"

text \<open>\<^verbatim>\<open>ResourceUpdater.Update\<close>: the answer's status replaces the one in memory.\<close>

definition drpolicyUpdate :: "unit drpm" where
  "drpolicyUpdate =
     seqM apiCall
       (modifyM (\<lambda>s. let p = withPolicyStatusOf (pObject s) (pServer s) in s\<lparr>pObject := p, pServer := p\<rparr>))"

definition drpolicySetCondition :: "string \<Rightarrow> condition_status \<Rightarrow> string \<Rightarrow> string \<Rightarrow> bool drpm" where
  "drpolicySetCondition t st reason msg =
     bindM (getsM (\<lambda>s. GenericStatusConditionSet (clock s) (polGeneration (pObject s)) (polConditions (pObject s)) t st reason msg))
       (\<lambda>(changed, cs). seqM (modPolicy (\<lambda>p. p\<lparr>polConditions := cs\<rparr>)) (ret changed))"

definition drpolicyStatusConditionSet :: "string \<Rightarrow> condition_status \<Rightarrow> string \<Rightarrow> string \<Rightarrow> unit drpm" where
  "drpolicyStatusConditionSet t st reason msg =
     bindM (drpolicySetCondition t st reason msg) (\<lambda>changed. whenM changed drpolicyStatusUpdate)"

definition validatedSetTrue :: "unit drpm" where
  "validatedSetTrue = drpolicyStatusConditionSet ''Validated'' ConditionTrue ''Succeeded'' ''drpolicy validated''"

definition validatedSetFalse :: "string \<Rightarrow> gerr \<Rightarrow> 'a drpm" where
  "validatedSetFalse reason e =
     seqM (drpolicyStatusConditionSet ''Validated'' ConditionFalse reason (Error e)) (failM e)"

definition failInvalid :: "string \<Rightarrow> string \<Rightarrow> gerr \<Rightarrow> 'a drpm" where
  "failInvalid what reason e = catchM (validatedSetFalse reason e) (\<lambda>e'. failM (wrapE (what @ '': '') e' []))"

definition drPolicyFinalizerName :: string where
  "drPolicyFinalizerName = ''drpolicies.ramendr.openshift.io/ramen''"

definition drpolicyAddLabelsAndFinalizers :: "unit drpm" where
  "drpolicyAddLabelsAndFinalizers =
     bindM (getsM pObject)
       (\<lambda>p. let labelled = map_of (polLabels p) ''cluster.open-cluster-management.io/backup'' = Some ''ramen'';
                guarded = drPolicyFinalizerName \<in> set (polFinalizers p)
            in whenM (\<not> labelled \<or> \<not> guarded)
                 (seqM (modPolicy (\<lambda>p. p
                          \<lparr>polLabels := (if labelled then polLabels p
                             else sm_put ''cluster.open-cluster-management.io/backup'' ''ramen'' (polLabels p)),
                           polFinalizers := (if guarded then polFinalizers p
                             else polFinalizers p @ [drPolicyFinalizerName])\<rparr>))
                    drpolicyUpdate))"

definition drpolicyFinalizerRemove :: "unit drpm" where
  "drpolicyFinalizerRemove =
     bindM (getsM (\<lambda>s. drPolicyFinalizerName \<in> set (polFinalizers (pObject s))))
       (\<lambda>guarded. whenM guarded
          (seqM (modPolicy (\<lambda>p. p\<lparr>polFinalizers := filter (\<lambda>f. f \<noteq> drPolicyFinalizerName) (polFinalizers p)\<rparr>))
             drpolicyUpdate))"

section \<open>Validation\<close>

text \<open>A cluster named twice is found twice.\<close>

definition ensureDRClustersAvailable :: "drpolicy \<Rightarrow> drcluster list \<Rightarrow> (string \<times> gerr) option" where
  "ensureDRClustersAvailable p dcs =
     (let found = concat (map (\<lambda>n. filter (\<lambda>dc. dcName dc = n) dcs) (polDRClusters p));
          validated = filter (\<lambda>dc. case FindCondition (dcConditions dc) ''Validated'' of
                                     None \<Rightarrow> False | Some c \<Rightarrow> cStatus c = ConditionTrue) found
      in if length found \<noteq> length (polDRClusters p)
         then Some (''DRClusterNotFound'', newE (''failed to find DRClusters specified in policy ([''
                @ joinStr '' '' (polDRClusters p) @ ''])''))
         else if validated = []
         then Some (''DRClustersUnavailable'', newE (''none of the DRClusters are validated ([''
                @ joinStr '' '' (polDRClusters p) @ ''])''))
         else None)"

definition validateDRPolicy :: "drpolicy \<Rightarrow> drcluster list \<Rightarrow> (string \<times> gerr) option" where
  "validateDRPolicy p dcs =
     (if polDRClusters p = [] then Some (''ValidationFailed'', newE ''missing DRClusters list in policy'')
      else ensureDRClustersAvailable p dcs)"

text \<open>The errors of \<^verbatim>\<open>dRPolicySupportsMetro\<close> are ignored: it then answers false and no clusters.\<close>

definition supportsMetro :: "drpolicy \<Rightarrow> strmap \<Rightarrow> bool \<times> string list list" where
  "supportsMetro p ids = (case dRPolicySupportsMetro p (Some (map_of ids)) of Inl _ \<Rightarrow> (False, []) | Inr r \<Rightarrow> r)"

definition haveOverlappingMetroZones :: "drpolicy \<Rightarrow> drpolicy \<Rightarrow> strmap \<Rightarrow> bool" where
  "haveOverlappingMetroZones d1 d2 ids =
     (let common = filter (\<lambda>c. c \<in> set (polDRClusters d2)) (polDRClusters d1);
          hits = (\<lambda>d. let (metro, zones) = supportsMetro d ids
                      in metro \<and> list_ex (\<lambda>zone. list_ex (\<lambda>c. c \<in> set common) zone) zones)
      in if common = [] then False else hits d2 \<or> hits d1)"

fun HasConflictingDRPolicy :: "drpolicy \<Rightarrow> drpolicy list \<Rightarrow> strmap \<Rightarrow> gerr option" where
  "HasConflictingDRPolicy match [] ids = None"
| "HasConflictingDRPolicy match (p # ps) ids =
     (if polName p = polName match then HasConflictingDRPolicy match ps ids
      else if polCreationTimestamp match < polCreationTimestamp p then HasConflictingDRPolicy match ps ids
      else if haveOverlappingMetroZones match p ids
      then Some (newE (''drpolicy: '' @ polName match @ '' has overlapping clusters with another drpolicy '' @ polName p))
      else HasConflictingDRPolicy match ps ids)"

definition validatePolicyConflicts :: "strmap \<Rightarrow> unit drpm" where
  "validatePolicyConflicts ids =
     bindM (getsM pObject)
       (\<lambda>p. if polSyncPeerClasses p \<noteq> [] \<and> polAsyncPeerClasses p \<noteq> []
            then failM (newE ''invalid DRPolicy: a policy cannot contain both sync and async configurations'')
            else seqM (catchM apiCall
                         (\<lambda>e. failM (wrapE (''validate managed cluster in drpolicy '' @ polName p
                                 @ '' failed: unable to fetch drpolicies: '') e [])))
                   (bindM (getsM pPolicies)
                      (\<lambda>ps. case HasConflictingDRPolicy p ps ids of
                         Some e \<Rightarrow> failM (wrapE ''validate managed cluster in drpolicy failed: '' e [])
                       | None \<Rightarrow> ret ())))"

section \<open>The clusters\<close>

fun clusterIDsToNames ::
  "(string \<Rightarrow> managed_cluster option) \<Rightarrow> drcluster list \<Rightarrow> strmap \<Rightarrow> strmap drpm" where
  "clusterIDsToNames mcs [] ids = ret ids"
| "clusterIDsToNames mcs (dc # dcs) ids =
     bindM (attemptM (NewManagedClusterInstance mcs (dcName dc)))
       (\<lambda>r. case r of
          Inl _ \<Rightarrow> clusterIDsToNames mcs dcs ids
        | Inr mc \<Rightarrow>
            (case ClusterID (dcName dc) mc of
               Inl e \<Rightarrow> failM (wrapE (''drclusters cluster ID ('' @ dcName dc @ ''): '') e [])
             | Inr cid \<Rightarrow> clusterIDsToNames mcs dcs (sm_put cid (dcName dc) ids)))"

definition getDRClusterDetails :: "(drcluster list \<times> strmap) drpm" where
  "getDRClusterDetails =
     seqM (catchM apiCall (\<lambda>e. failM (wrapE ''drclusters list: '' e [])))
       (bindM (getsM (\<lambda>s. (pClusters s, pManagedClusters s)))
          (\<lambda>(dcs, mcs). bindM (clusterIDsToNames mcs dcs [])
             (\<lambda>ids. if ids = [] then failM (newE ''no DRClusters found'') else ret (dcs, ids))))"

definition getClusterClasses :: "string \<Rightarrow> class_lists drpm" where
  "getClusterClasses cluster =
     (let none = \<lparr>clsClusterID = [], clsSClasses = [], clsVSClasses = [], clsVRClasses = [], clsVGRClasses = [],
                  clsVGSClasses = []\<rparr>
      in bindM (getsM pManagedClusters)
           (\<lambda>mcs. bindM (NewManagedClusterInstance mcs cluster)
           (\<lambda>mc. bindM (liftE (ClusterID cluster mc))
           (\<lambda>clID. bindM (GetDRClusterConfigFromManagedCluster cluster [(AllDRPolicyAnnotation, cluster)])
           (\<lambda>drcc. bindM (GetSClassesFromCluster drcc cluster)
           (\<lambda>scs. if scs = [] then ret none
                  else bindM (getVSClassesFromCluster drcc cluster)
                    (\<lambda>vscs. bindM (getVRClassesFromCluster drcc cluster)
                    (\<lambda>vrcs. bindM (getVGSClassesFromCluster drcc cluster)
                    (\<lambda>vgscs. bindM (getVGRClassesFromCluster drcc cluster)
                    (\<lambda>vgrcs. ret \<lparr>clsClusterID = clID, clsSClasses = scs, clsVSClasses = vscs, clsVRClasses = vrcs,
                                  clsVGRClasses = vgrcs, clsVGSClasses = vgscs\<rparr>))))))))))"

definition updatePeerClassStatus :: "peer_info list \<Rightarrow> peer_info list \<Rightarrow> unit drpm" where
  "updatePeerClassStatus syncPeers asyncPeers =
     seqM (modPolicy (\<lambda>p. p
             \<lparr>polAsyncPeerClasses := pruneAndUpdateStatusPeers (polAsyncPeerClasses p) asyncPeers,
              polSyncPeerClasses := pruneAndUpdateStatusPeers (polSyncPeerClasses p) syncPeers\<rparr>))
       drpolicyStatusUpdate"

definition updatePeerClasses :: "unit drpm" where
  "updatePeerClasses =
     bindM (getsM pObject)
       (\<lambda>p. if length (polDRClusters p) \<le> 1
            then failM (newE (''cannot form peerClasses, insufficient clusters (''
                   @ (if polDRClusters p = [] then ''0'' else ''1'') @ '') in policy''))
            else bindM (collectM getClusterClasses (polDRClusters p))
                   (\<lambda>cls. case findAllPeers (filter (\<lambda>cl. clsSClasses cl \<noteq> []) cls) (polSchedulingInterval p) of
                      None \<Rightarrow> failM nilDereference
                    | Some (syncPeers, asyncPeers) \<Rightarrow> updatePeerClassStatus syncPeers asyncPeers))"

section \<open>The S3 secrets\<close>

text \<open>The loops over the clusters have no \<^verbatim>\<open>break\<close>: the last one of the name counts.\<close>

definition s3ProfileOf :: "drcluster list \<Rightarrow> string \<Rightarrow> string" where
  "s3ProfileOf dcs n = (case find (\<lambda>dc. dcName dc = n) (rev dcs) of None \<Rightarrow> [] | Some dc \<Rightarrow> dcS3ProfileName dc)"

definition DRPolicyS3Profiles :: "drpolicy \<Rightarrow> drcluster list \<Rightarrow> string list" where
  "DRPolicyS3Profiles p dcs = map (s3ProfileOf dcs) (polDRClusters p)"

text \<open>The names, as far as known, and the last error.\<close>

definition drPolicySecretNames :: "drpolicy \<Rightarrow> drcluster list \<Rightarrow> ramen_config \<Rightarrow> string list \<times> gerr option" where
  "drPolicySecretNames p dcs rc =
     (let known = (\<lambda>c. map_of (cfgS3StoreProfiles rc) (s3ProfileOf dcs c));
          missing = filter (\<lambda>c. known c = None) (polDRClusters p)
      in (List.map_filter known (polDRClusters p),
          if missing = [] then None
          else Some (newE (''missing profile name ('' @ s3ProfileOf dcs (last missing)
                 @ '') in config for DRCluster ('' @ last missing @ '')''))))"

definition secretDistributionEnabled :: "ramen_config \<Rightarrow> bool" where
  "secretDistributionEnabled rc \<longleftrightarrow> \<not> (\<not> cfgDeploymentAutomationEnabled rc \<or> \<not> cfgS3SecretDistributionEnabled rc)"

definition veleroEnabled :: "ramen_config \<Rightarrow> bool" where
  "veleroEnabled rc \<longleftrightarrow> \<not> cfgKubeObjectProtectionDisabled rc \<and> cfgVeleroNamespaceName rc \<noteq> []"

definition sortedSet :: "string list \<Rightarrow> string list" where
  "sortedSet xs = sort (remdups xs)"

definition drClusterSecretsDeploy :: "string \<Rightarrow> drpolicy \<Rightarrow> drcluster list \<Rightarrow> ramen_config \<Rightarrow> unit drpm" where
  "drClusterSecretsDeploy clusterName p dcs rc =
     (if \<not> secretDistributionEnabled rc then ret ()
      else case drPolicySecretNames p dcs rc of
             ([], Some e) \<Rightarrow> failM e
           | (names, _) \<Rightarrow>
               bindM (getsM pPodNamespace)
                 (\<lambda>ns. forM (sortedSet names)
                    (\<lambda>n. seqM
                       (catchM (AddSecretToCluster n clusterName ns (drClusterOperatorNamespaceNameOrDefault ns rc)
                                  SecretFormatRamen [])
                          (\<lambda>e. failM (wrapE (''cannot add secret '' @ n @ '' to drcluster '' @ clusterName @ '': '') e [])))
                       (whenM (veleroEnabled rc)
                          (catchM (AddSecretToCluster n clusterName ns (drClusterOperatorNamespaceNameOrDefault ns rc)
                                     SecretFormatVelero (cfgVeleroNamespaceName rc))
                             (\<lambda>e. failM (wrapE (''cannot add secret '' @ n @ '' to drcluster '' @ clusterName
                                           @ '' in format velero: '') e [])))))))"

definition propagateS3Secret :: "drpolicy \<Rightarrow> drcluster list \<Rightarrow> ramen_config \<Rightarrow> unit drpm" where
  "propagateS3Secret p dcs rc = forM (polDRClusters p) (\<lambda>c. drClusterSecretsDeploy c p dcs rc)"

definition drClusterListMustHaveS3Profiles :: "drpolicy list \<Rightarrow> drcluster list \<Rightarrow> string \<Rightarrow> drpolicy \<Rightarrow> string list" where
  "drClusterListMustHaveS3Profiles ps dcs clusterName ignored =
     concat (map (\<lambda>p. DRPolicyS3Profiles p dcs)
       (filter (\<lambda>p. polName ignored \<noteq> polName p \<and> clusterName \<in> set (polDRClusters p)) ps))"

definition drClusterListMustHaveSecrets ::
  "drpolicy list \<Rightarrow> drcluster list \<Rightarrow> string \<Rightarrow> drpolicy \<Rightarrow> ramen_config \<Rightarrow> string list" where
  "drClusterListMustHaveSecrets ps dcs clusterName ignored rc =
     map snd (filter (\<lambda>(profile, _). profile \<in> set (drClusterListMustHaveS3Profiles ps dcs clusterName ignored))
       (cfgS3StoreProfiles rc))"

definition deleteSecretFromCluster :: "string \<Rightarrow> string \<Rightarrow> ramen_config \<Rightarrow> unit drpm" where
  "deleteSecretFromCluster n clusterName rc =
     (let wrap = (\<lambda>e. wrapE (''unable to delete secret in format ramen for s3Profile '' @ n @ '' on drcluster ''
                        @ clusterName @ '': '') e [])
      in bindM (getsM pPodNamespace)
           (\<lambda>ns. seqM (catchM (RemoveSecretFromCluster n clusterName ns SecretFormatRamen) (\<lambda>e. failM (wrap e)))
              (whenM (veleroEnabled rc)
                 (catchM (RemoveSecretFromCluster n clusterName ns SecretFormatVelero) (\<lambda>e. failM (wrap e))))))"

definition drClustersUndeploySecrets :: "drpolicy \<Rightarrow> drcluster list \<Rightarrow> drpolicy list \<Rightarrow> ramen_config \<Rightarrow> unit drpm" where
  "drClustersUndeploySecrets p dcs ps rc =
     (if \<not> secretDistributionEnabled rc then ret ()
      else let mayDelete = sortedSet (fst (drPolicySecretNames p dcs rc))
           in bindM (getsM pOrder)
                (\<lambda>order. forM (rangeOrder order (polDRClusters p))
                   (\<lambda>c. forM mayDelete
                      (\<lambda>n. whenM (n \<notin> set (drClusterListMustHaveSecrets ps dcs c p rc))
                         (deleteSecretFromCluster n c rc)))))"

definition drPolicyUndeploy :: "drpolicy \<Rightarrow> drcluster list \<Rightarrow> ramen_config \<Rightarrow> unit drpm" where
  "drPolicyUndeploy p dcs rc =
     seqM (catchM apiCall (\<lambda>e. failM (wrapE ''drpolicies list: '' e [])))
       (bindM (getsM pPolicies) (\<lambda>ps. drClustersUndeploySecrets p dcs ps rc))"

section \<open>Network attachments\<close>

definition isNetworkMappingEnabled :: "drpolicy \<Rightarrow> bool" where
  "isNetworkMappingEnabled p = (case polNetworkMappingRef p of None \<Rightarrow> False | Some n \<Rightarrow> n \<noteq> [])"

definition NetworkAttachmentsValidated :: string where
  "NetworkAttachmentsValidated = ''NetworkAttachmentsValidated''"

fun dropFirstOfType :: "string \<Rightarrow> conditions \<Rightarrow> conditions" where
  "dropFirstOfType t [] = []"
| "dropFirstOfType t (c # cs) = (if cType c = t then cs else c # dropFirstOfType t cs)"

definition clearNADStatus :: "unit drpm" where
  "clearNADStatus =
     bindM (getsM pObject)
       (\<lambda>p. if NetworkAttachmentsValidated \<notin> cType ` set (polConditions p) \<and> polNetworkPeers p = [] then ret ()
            else seqM (modPolicy (\<lambda>p. p\<lparr>polConditions := dropFirstOfType NetworkAttachmentsValidated (polConditions p),
                                        polNetworkPeers := []\<rparr>))
                   (catchM drpolicyStatusUpdate
                      (\<lambda>e. failM (wrapE (''clearing stale NAD status for '' @ polName p @ '': '') e []))))"

type_synonym nads = "(string \<times> network_attachment) list"

definition nadKey :: "network_attachment \<Rightarrow> string" where
  "nadKey na = naNamespace na @ ''/'' @ naName na"

text \<open>A map keyed by namespace and name; a later entry replaces an earlier one.\<close>

definition nadInventory :: "network_attachment list \<Rightarrow> nads" where
  "nadInventory nas = fold (\<lambda>na. AList.update (nadKey na) na) nas []"

definition clusterNADInfo :: "string \<Rightarrow> nads drpm" where
  "clusterNADInfo cluster =
     bindM (catchM (GetDRClusterConfigFromManagedCluster cluster [(AllDRPolicyAnnotation, cluster)])
              (\<lambda>e. failM (wrapE (''ManagedClusterView for DRClusterConfig '' @ cluster @ '': '') e [])))
       (\<lambda>drcc. ret (nadInventory (ccNetworkAttachments drcc)))"

record nad_missing_entry =
  nmNADName :: string
  nmNADNamespace :: string
  nmMissingOnA :: bool
  nmClusterA :: string
  nmMissingOnB :: bool
  nmClusterB :: string

text \<open>Both lists are sorted by namespace and name, which tell their entries apart, so the order of the maps is not seen.\<close>

definition networkPeersOf :: "string \<Rightarrow> string \<Rightarrow> nads \<Rightarrow> nads \<Rightarrow> network_peer list" where
  "networkPeersOf clusterA clusterB nadsA nadsB =
     sort_key npNADNamespace (sort_key npNADName
       (List.map_filter (\<lambda>(k, naA).
          case map_of nadsB k of
            None \<Rightarrow> None
          | Some naB \<Rightarrow> Some \<lparr>npNADName = naName naA, npNADNamespace = naNamespace naA,
              npClusterCNITypes = sm_put clusterB (naCNIType naB) [(clusterA, naCNIType naA)]\<rparr>) nadsA))"

definition updateNetworkPeers :: "string \<Rightarrow> string \<Rightarrow> nads \<Rightarrow> nads \<Rightarrow> unit drpm" where
  "updateNetworkPeers clusterA clusterB nadsA nadsB =
     modPolicy (\<lambda>p. p\<lparr>polNetworkPeers := networkPeersOf clusterA clusterB nadsA nadsB\<rparr>)"

definition missingNADs :: "string \<Rightarrow> string \<Rightarrow> nads \<Rightarrow> nads \<Rightarrow> nad_missing_entry list" where
  "missingNADs clusterA clusterB nadsA nadsB =
     sort_key nmNADNamespace (sort_key nmNADName
       (map (\<lambda>(_, na). \<lparr>nmNADName = naName na, nmNADNamespace = naNamespace na, nmMissingOnA = False, nmClusterA = [],
                        nmMissingOnB = True, nmClusterB = clusterB\<rparr>) (filter (\<lambda>(k, _). map_of nadsB k = None) nadsA)
        @ map (\<lambda>(_, na). \<lparr>nmNADName = naName na, nmNADNamespace = naNamespace na, nmMissingOnA = True,
                          nmClusterA = clusterA, nmMissingOnB = False, nmClusterB = []\<rparr>)
            (filter (\<lambda>(k, _). map_of nadsA k = None) nadsB)))"

definition validateNADsAcrossClusters :: "nad_missing_entry list drpm" where
  "validateNADsAcrossClusters =
     bindM (getsM pObject)
       (\<lambda>p. case polDRClusters p of
          clusterA # clusterB # _ \<Rightarrow>
            bindM (catchM (clusterNADInfo clusterA)
                     (\<lambda>e. failM (wrapE (''reading DRClusterConfig for '' @ clusterA @ '': '') e [])))
              (\<lambda>infoA. bindM (catchM (clusterNADInfo clusterB)
                                (\<lambda>e. failM (wrapE (''reading DRClusterConfig for '' @ clusterB @ '': '') e [])))
                 (\<lambda>infoB. seqM (updateNetworkPeers clusterA clusterB infoA infoB)
                    (ret (missingNADs clusterA clusterB infoA infoB))))
        | _ \<Rightarrow> failM (newE (''drpolicy '' @ polName p @ '' has '' @ (if polDRClusters p = [] then ''0'' else ''1'')
                 @ '' clusters, expected at least 2'')))"

text \<open>The namespace is written out only when it is empty.\<close>

definition missingNADText :: "nad_missing_entry \<Rightarrow> string" where
  "missingNADText m =
     (if nmNADNamespace m = [] then nmNADNamespace m @ ''/'' @ nmNADName m else nmNADName m)
     @ (if nmMissingOnA m then '' missing on '' @ nmClusterA m else [])
     @ (if nmMissingOnB m then (if nmMissingOnA m then '' and'' else []) @ '' missing on '' @ nmClusterB m else [])"

definition buildMissingNADsMessage :: "nad_missing_entry list \<Rightarrow> string" where
  "buildMissingNADsMessage missing = ''NADs missing on one or more clusters: '' @ joinStr ''; '' (map missingNADText missing)"

definition UpdateNADValidationCondition :: "bool drpm" where
  "UpdateNADValidationCondition =
     bindM (getsM (\<lambda>s. isNetworkMappingEnabled (pObject s)))
       (\<lambda>enabled. if \<not> enabled then seqM clearNADStatus (ret False)
          else bindM validateNADsAcrossClusters
            (\<lambda>missing. bindM (getsM (\<lambda>s. polNetworkPeers (pObject s)))
               (\<lambda>peers. bindM
                  (if missing = [] \<and> peers = []
                   then drpolicySetCondition NetworkAttachmentsValidated ConditionTrue ''NoEligibleNetworkAttachments''
                          (''No NADs eligible for static-IP translation were discovered on either cluster; ''
                           @ ''symmetry is trivially satisfied but no IP translation will occur.'')
                   else if missing = []
                   then drpolicySetCondition NetworkAttachmentsValidated ConditionTrue ''Validated''
                          ''NADs are symmetric across both clusters''
                   else bindM (drpolicySetCondition NetworkAttachmentsValidated ConditionFalse ''NADsMissing''
                                 (buildMissingNADsMessage missing))
                          (\<lambda>_. drpolicySetCondition ''Validated'' ConditionFalse ''NADsMissing''
                             (''one or more NADs are absent on a peer cluster; ''
                              @ ''see NetworkAttachmentsValidated condition'')))
                  (\<lambda>_. seqM (catchM drpolicyStatusUpdate
                               (\<lambda>e. failM (wrapE ''status update for NAD validation: '' e [])))
                         (ret (missing = []))))))"

definition validateNADs :: "unit drpm" where
  "validateNADs =
     bindM (getsM (\<lambda>s. isNetworkMappingEnabled (pObject s)))
       (\<lambda>enabled. if \<not> enabled then ret ()
          else bindM UpdateNADValidationCondition
            (\<lambda>valid. if valid then ret ()
               else validatedSetFalse ''NADsMissing''
                      (newE (''one or more NADs are absent on a peer cluster; ''
                             @ ''see NetworkAttachmentsValidated condition''))))"

section \<open>Reconcile\<close>

definition isConflictFound :: "drpolicy \<Rightarrow> bool" where
  "isConflictFound p = list_ex (\<lambda>c. cType c = ''Validated'' \<and> cReason c = ''DRPolicyConflictFound'') (polConditions p)"

definition isNADsMissing :: "drpolicy \<Rightarrow> bool" where
  "isNADsMissing p =
     list_ex (\<lambda>c. cType c = ''Validated'' \<and> cStatus c = ConditionFalse \<and> cReason c = ''NADsMissing'') (polConditions p)"

definition setValidationSucceeded :: "unit drpm" where
  "setValidationSucceeded =
     bindM (getsM pObject)
       (\<lambda>p. if \<not> isNetworkMappingEnabled p
            then (if FindCondition (polConditions p) NetworkAttachmentsValidated \<noteq> None then clearNADStatus
                  else if \<not> isConflictFound p then validatedSetTrue
                  else ret ())
            else if isConflictFound p \<or> isNADsMissing p then ret ()
            else validatedSetTrue)"

definition setDRPolicyMetrics :: "unit drpm" where
  "setDRPolicyMetrics =
     bindM (getsM pObject)
       (\<lambda>p. case GetSecondsFromSchedulingInterval p of
          Inl e \<Rightarrow> failM (wrapE ''unable to convert scheduling interval to seconds: '' e [])
        | Inr secs \<Rightarrow> modifyM (\<lambda>s. s\<lparr>pInterval := Some secs\<rparr>))"

definition metroM :: "(bool \<Rightarrow> unit drpm) \<Rightarrow> unit drpm" where
  "metroM f =
     bindM (getsM pObject)
       (\<lambda>p. case dRPolicySupportsMetro p None of
          Inl e \<Rightarrow> failM (wrapE ''failed to check if DRPolicy supports Metro: '' e [])
        | Inr (isMetro, _) \<Rightarrow> f isMetro)"

definition initiateDRPolicyMetrics :: "unit drpm" where
  "initiateDRPolicyMetrics =
     metroM (\<lambda>isMetro. whenM (\<not> isMetro)
       (catchM setDRPolicyMetrics (\<lambda>e. failM (wrapE ''error in setting drpolicy metrics: '' e []))))"

definition deleteDRPolicy :: "drcluster list \<Rightarrow> ramen_config \<Rightarrow> unit drpm" where
  "deleteDRPolicy dcs rc =
     seqM (catchM apiCall (\<lambda>e. failM (wrapE ''drpcs list: '' e [])))
       (bindM (getsM (\<lambda>s. (pObject s, pDRPCs s)))
          (\<lambda>(p, drpcs).
             case find (\<lambda>d. polName p = dDRPolicyRefName (dSpec d)) drpcs of
               Some d \<Rightarrow> failM (newE (''this drpolicy is referenced in existing drpc resource name '' @ dName d))
             | None \<Rightarrow>
                 seqM (catchM (drPolicyUndeploy p dcs rc) (\<lambda>e. failM (wrapE ''drpolicy undeploy: '' e [])))
                   (seqM (catchM drpolicyFinalizerRemove (\<lambda>e. failM (wrapE ''finalizer remove update: '' e [])))
                      (metroM (\<lambda>isMetro. whenM (\<not> isMetro) (modifyM (\<lambda>s. s\<lparr>pInterval := None\<rparr>)))))))"

definition CreateRamenOpsNamespace :: "ramen_config \<Rightarrow> unit drpm" where
  "CreateRamenOpsNamespace rc =
     whenM (cfgRamenOpsNamespace rc \<noteq> [])
       (bindM (attemptM (seqM apiCall
                 (bindM (getsM (\<lambda>s. cfgRamenOpsNamespace rc \<in> set (pNamespaces s)))
                    (\<lambda>present. if present then ret ()
                       else failM (Gerr NotFound (cfgRamenOpsNamespace rc @ '' not found''))))))
          (\<lambda>r. case r of
             Inr _ \<Rightarrow> ret ()
           | Inl e \<Rightarrow>
               if IsNotFound e
               then seqM apiCall (modifyM (\<lambda>s. s\<lparr>pNamespaces := pNamespaces s @ [cfgRamenOpsNamespace rc]\<rparr>))
               else failM e))"

definition drpolicyReconcileValid :: "drcluster list \<Rightarrow> ramen_config \<Rightarrow> strmap \<Rightarrow> unit drpm" where
  "drpolicyReconcileValid dcs rc ids =
     seqM (catchM setValidationSucceeded (\<lambda>e. failM (wrapE ''unable to set drpolicy validation: '' e [])))
     (seqM (catchM updatePeerClasses (\<lambda>e. failM (wrapE ''drpolicy peerClass update: '' e [])))
     (seqM (bindM (getsM pObject)
              (\<lambda>p. catchM (propagateS3Secret p dcs rc) (\<lambda>e. failM (wrapE ''drpolicy deploy: '' e []))))
     (seqM (catchM (validatePolicyConflicts ids) (validatedSetFalse ''DRPolicyConflictFound''))
     (seqM validateNADs
     (seqM (catchM validatedSetTrue (\<lambda>e. failM (wrapE ''unable to set drpolicy validation: '' e [])))
        (catchM initiateDRPolicyMetrics (\<lambda>e. failM (wrapE ''error in intiating policy metrics: '' e []))))))))"

text \<open>A missing DRCluster is an error only if the status could not be updated with it.\<close>

definition drpolicyReconcile :: "unit drpm" where
  "drpolicyReconcile =
     bindM (attemptM apiCall)
       (\<lambda>r. case r of
          Inl e \<Rightarrow> if IsNotFound e then ret () else failM (wrapE ''get: '' e [])
        | Inr _ \<Rightarrow>
     seqM (modifyM (\<lambda>s. s\<lparr>pObject := pServer s\<rparr>))
     (bindM (catchM (seqM apiCall (bindM (getsM pConfig) liftE)) (failInvalid ''config map get'' ''ConfigMapGetFailed''))
     (\<lambda>rc. seqM (catchM (CreateRamenOpsNamespace rc)
                    (failInvalid ''failed to create RamenOpsNamespace'' ''NamespaceCreateFailed''))
     (bindM (catchM getDRClusterDetails (failInvalid ''drclusters details'' ''drClusterDetailsFailed''))
     (\<lambda>(dcs, ids). bindM (getsM pObject)
     (\<lambda>p. if polDeleted p \<and> drPolicyFinalizerName \<in> set (polFinalizers p) then deleteDRPolicy dcs rc
          else case validateDRPolicy p dcs of
                 Some (reason, e) \<Rightarrow>
                   bindM (attemptM (drpolicyStatusConditionSet ''Validated'' ConditionFalse reason (Error e)))
                     (\<lambda>u. case u of
                        Inl e' \<Rightarrow> failM (wrapE ''validate: '' e' [])
                      | Inr _ \<Rightarrow> if reason \<noteq> ''DRClusterNotFound'' then failM (wrapE ''validate: '' e []) else ret ())
               | None \<Rightarrow>
                   seqM (catchM drpolicyAddLabelsAndFinalizers (failInvalid ''finalizer add update'' ''FinalizerAddFailed''))
                     (drpolicyReconcileValid dcs rc ids)))))))"

section \<open>Watches\<close>

definition policiesToReconcile :: "(drpolicy \<Rightarrow> bool) \<Rightarrow> string list drpm" where
  "policiesToReconcile wanted =
     catchM (seqM apiCall (getsM (\<lambda>s. map polName (filter wanted (pPolicies s))))) (\<lambda>_. ret [])"

definition getDRPoliciesForCluster :: "string \<Rightarrow> string list drpm" where
  "getDRPoliciesForCluster clusterName = policiesToReconcile (\<lambda>p. clusterName \<in> set (polDRClusters p))"

definition mcvMapFun :: "string \<Rightarrow> mcv \<Rightarrow> string list drpm" where
  "mcvMapFun ns v = (if map_of (vwAnnotations v) AllDRPolicyAnnotation = None then ret [] else getDRPoliciesForCluster ns)"

definition secretMapFunc :: "string \<Rightarrow> string list drpm" where
  "secretMapFunc ns =
     bindM (getsM pPodNamespace) (\<lambda>pod. if ns \<noteq> pod then ret [] else policiesToReconcile (\<lambda>_. True))"

end
