(* ===== verification/Ramen_DRPolicyProps.thy ===== *)
theory Ramen_DRPolicyProps
  imports Ramen_DRPolicy
begin

text \<open>
  Properties of the DRPolicy reconciler: of two policies whose Metro clusters overlap one is always refused; deleting a
  policy leaves the secrets that another policy needs where they are.
\<close>

section \<open>Conflicting policies\<close>

lemma haveOverlappingMetroZones_sym: "haveOverlappingMetroZones d1 d2 ids = haveOverlappingMetroZones d2 d1 ids"
proof -
  have zone: "list_ex (\<lambda>c. c \<in> set (filter (\<lambda>c. c \<in> set ys) xs)) = list_ex (\<lambda>c. c \<in> set (filter (\<lambda>c. c \<in> set xs) ys))"
    for xs ys :: "string list"
    by (auto simp: list_ex_iff fun_eq_iff)
  have none: "(filter (\<lambda>c. c \<in> set ys) xs = []) = (filter (\<lambda>c. c \<in> set xs) ys = [])" for xs ys :: "string list"
    by (auto simp: filter_empty_conv)
  show ?thesis
    unfolding haveOverlappingMetroZones_def Let_def zone [of "polDRClusters d2" "polDRClusters d1"]
      none [of "polDRClusters d2" "polDRClusters d1"] by auto
qed

lemma HasConflictingDRPolicy_None:
  "HasConflictingDRPolicy match ps ids = None \<longleftrightarrow>
     (\<forall>p \<in> set ps. polName p \<noteq> polName match \<and> polCreationTimestamp p \<le> polCreationTimestamp match
        \<longrightarrow> \<not> haveOverlappingMetroZones match p ids)"
  by (induction ps) (auto simp: not_less)


definition exPeerPolicy :: "string \<Rightarrow> int \<Rightarrow> string list \<Rightarrow> drpolicy" where
  "exPeerPolicy n created cs =
     \<lparr>polName = n, polGeneration = 1, polCreationTimestamp = created, polDeleted = False, polLabels = [],
      polFinalizers = [], polNetworkMappingRef = None, polSchedulingInterval = [], polReplicationClassSelector = [],
      polVolumeSnapshotClassSelector = [], polVolumeGroupSnapshotClassSelector = [], polDRClusters = cs,
      polConditions = [], polAsyncPeerClasses = [],
      polSyncPeerClasses = [\<lparr>pcReplicationID = [], pcGroupReplicationID = [], pcStorageID = [''s''],
        pcStorageClassName = ''block'', pcClusterIDs = map (\<lambda>c. ''id-'' @ c) cs, pcGrouping = False,
        pcOffloaded = False, pcGlobal = False\<rparr>], polNetworkPeers = []\<rparr>"

definition exPolicies :: "drpolicy list" where
  "exPolicies = [exPeerPolicy ''old'' 1 [''e1'', ''e2''], exPeerPolicy ''new'' 2 [''e1'', ''w1'']]"

definition exIDs :: strmap where
  "exIDs = map (\<lambda>c. (''id-'' @ c, c)) [''e1'', ''e2'', ''w1'']"


section \<open>Removing a secret from a cluster\<close>

text \<open>The placement rule of a secret in a format lists a cluster: the secret is delivered there.\<close>

definition delivered :: "string \<Rightarrow> string \<Rightarrow> secret_format \<Rightarrow> string \<Rightarrow> 'z sec_scheme \<Rightarrow> bool" where
  "delivered n ns format cluster s \<longleftrightarrow>
     (\<exists>r. placementRules s (generatePolicyPlacementName n format, ns) = Some r \<and> cluster \<in> set (prlClusters r))"

definition liveSecret :: "string \<Rightarrow> string \<Rightarrow> 'z sec_scheme \<Rightarrow> bool" where
  "liveSecret n ns s \<longleftrightarrow> (\<exists>sec. hubSecrets s (n, ns) = Some sec \<and> secName sec = n \<and> \<not> secDeleted sec)"

text \<open>
  What removing secrets from clusters keeps: the secrets of the hub that are not deleted, and the delivery of one of
  them to one cluster, and what the other components store. The API server does not report an object missing that is there.
\<close>

definition kept :: "'z \<Rightarrow> string set \<Rightarrow> string \<Rightarrow> string \<Rightarrow> secret_format \<Rightarrow> string \<Rightarrow> 'z sec_scheme \<Rightarrow> bool" where
  "kept z live ns n format cluster s \<longleftrightarrow>
     sec.more s = z \<and> (\<forall>k e. faults s k = Some e \<longrightarrow> \<not> IsNotFound e) \<and> (\<forall>m \<in> live. liveSecret m ns s) \<and> delivered n ns format cluster s"

lemma kept_stores [simp]:
  "kept z live ns n format c (s\<lparr>calls := k\<rparr>) = kept z live ns n format c s"
  "kept z live ns n format c (placementBindings_update f s) = kept z live ns n format c s"
  "kept z live ns n format c (ocmPolicies_update g s) = kept z live ns n format c s"
  by (simp_all add: kept_def liveSecret_def delivered_def)

lemma wp_kept_apiCall:
  assumes "kept z live ns n format c s"
    and "\<And>s'. kept z live ns n format c s' \<Longrightarrow> Q (Inr ()) s'"
    and "\<And>e s'. kept z live ns n format c s' \<Longrightarrow> \<not> IsNotFound e \<Longrightarrow> Q (Inl e) s'"
  shows "wp apiCall Q s"
  using assms by (auto simp: wp_def apiCall_def kept_def liveSecret_def delivered_def split: option.split)

lemma pres_kept_apiCall: "pres (kept z live ns n format c) apiCall"
  by (rule presI) (simp add: apiCall_def split: option.split)

lemma pres_kept_modify:
  "(\<And>s. kept z live ns n format c s \<Longrightarrow> kept z live ns n format c (f s)) \<Longrightarrow> pres (kept z live ns n format c) (modifyM f)"
  by (simp add: pres_def modifyM_def)

lemmas object_calls = getFrom_def createIn_def updateIn_def deleteIn_def ignoring_def

lemma pres_kept_objects:
  "pres (kept z live ns n format c) (deleteIn placementBindings placementBindings_update m ns')"
  "pres (kept z live ns n format c) (deleteIn ocmPolicies ocmPolicies_update m ns')"
  "pres (kept z live ns n format c) (updateIn ocmPolicies ocmPolicies_update m ns' p)"
  "m \<noteq> generatePolicyPlacementName n format
     \<Longrightarrow> pres (kept z live ns n format c) (deleteIn placementRules placementRules_update m ns')"
  "m \<noteq> generatePolicyPlacementName n format \<or> c \<in> set (prlClusters r)
     \<Longrightarrow> pres (kept z live ns n format c) (updateIn placementRules placementRules_update m ns' r)"
  by (auto simp: object_calls kept_def delivered_def liveSecret_def
      intro!: pres_rules pres_kept_apiCall pres_kept_modify)

lemma pres_kept_updateSecret: "\<not> secDeleted secret \<Longrightarrow> pres (kept z live ns n format c) (updateSecret ns secret)"
  by (auto simp: updateSecret_def object_calls Let_def kept_def delivered_def liveSecret_def
      intro!: pres_rules pres_kept_apiCall pres_kept_modify)

lemma pres_kept_deletePolicyResources:
  assumes "generatePolicyPlacementName (secName secret) format' \<noteq> generatePolicyPlacementName n format" "\<not> secDeleted secret"
  shows "pres (kept z live ns n format c) (deletePolicyResources secret ns format')"
  using assms
  by (auto simp: deletePolicyResources_def GeneratePolicyResourceNames_def generatePolicyPlacementName_def ignoring_def Let_def
      intro!: pres_rules pres_kept_objects pres_kept_updateSecret)

lemma pres_kept_tickle: "pres (kept z live ns n format c) (ticklePolicy secret ns)"
  by (auto simp: ticklePolicy_def getFrom_def intro!: pres_rules pres_kept_objects pres_kept_apiCall)

text \<open>The step that matters: a cluster is taken off the placement rule of a secret.\<close>

lemma wp_kept_updatePlacementRule:
  assumes "kept z live ns n format c s" "\<not> secDeleted secret" "plRuleName = generatePolicyPlacementName (secName secret) format'"
    and "plRuleName = generatePolicyPlacementName n format \<Longrightarrow> c' \<noteq> c \<and> c \<in> set (prlClusters plRule)"
  shows "wp (updatePlacementRule plRuleName plRule secret c' ns format' False) (\<lambda>_. kept z live ns n format c) s"
proof -
  have "pres (kept z live ns n format c) (updatePlacementRule plRuleName plRule secret c' ns format' False)"
  proof (cases "plRuleName = generatePolicyPlacementName n format")
    case True
    with assms have "c \<in> set (filter (\<lambda>x. x \<noteq> c') (prlClusters plRule))" by auto
    then show ?thesis
      unfolding updatePlacementRule_def inspectClusters_def Let_def
      by (auto intro!: pres_rules pres_kept_objects simp: filter_empty_conv)
  next
    case False
    with assms show ?thesis
      unfolding updatePlacementRule_def inspectClusters_def Let_def
      by (auto intro!: pres_rules pres_kept_objects pres_kept_deletePolicyResources)
  qed
  then show ?thesis using assms(1) by (rule pres_wp)
qed

lemma wp_kept_get:
  assumes "kept z live ns n format c s"
    and "\<And>v s'. kept z live ns n format c s' \<Longrightarrow> field s' (m, ns') = Some v \<Longrightarrow> Q (Inr v) s'"
    and "\<And>e s'. kept z live ns n format c s' \<Longrightarrow> IsNotFound e \<longrightarrow> field s' (m, ns') = None \<Longrightarrow> Q (Inl e) s'"
  shows "wp (getFrom field m ns') Q s"
  unfolding getFrom_def wp_seq
  by (rule wp_kept_apiCall [OF assms(1)]) (auto simp: wp_rules assms split: option.split)

lemma wp_kept_ensure:
  assumes "kept z live ns n format c s" "m \<in> live"
    and "\<And>secret s'. kept z live ns n format c s' \<Longrightarrow> secName secret = m \<Longrightarrow> \<not> secDeleted secret \<Longrightarrow> Q (Inr (Some secret)) s'"
    and "\<And>e s'. kept z live ns n format c s' \<Longrightarrow> Q (Inl e) s'"
  shows "wp (ensureS3SecretResources m ns format') Q s"
  unfolding ensureS3SecretResources_def wp_bind wp_attempt
  by (rule wp_kept_get [OF assms(1)])
     (use assms(2) in \<open>auto simp: wp_rules kept_def liveSecret_def intro!: assms(3,4)\<close>)

lemma RemoveSecretFromCluster_keeps:
  assumes "m \<in> live" "generatePolicyPlacementName m format' = generatePolicyPlacementName n format \<Longrightarrow> c' \<noteq> c"
  shows "pres (kept z live ns n format c) (RemoveSecretFromCluster m c' ns format')"
proof -
  let ?K = "kept z live ns n format c"
  have update: "wp (updatePolicyResources (generatePolicyPlacementName m format') r secret c' ns format' False) (\<lambda>_. ?K) s"
    if "?K s" "secName secret = m" "\<not> secDeleted secret"
      "placementRules s (generatePolicyPlacementName m format', ns) = Some r" for s r secret
  proof -
    have "c' \<noteq> c \<and> c \<in> set (prlClusters r)"
      if "generatePolicyPlacementName m format' = generatePolicyPlacementName n format"
      using that \<open>?K s\<close> \<open>placementRules s _ = Some r\<close> assms(2) by (auto simp: kept_def delivered_def)
    then have "wp (updatePlacementRule (generatePolicyPlacementName m format') r secret c' ns format' False) (\<lambda>_. ?K) s"
      using that by (intro wp_kept_updatePlacementRule) auto
    then show ?thesis
      unfolding updatePolicyResources_def wp_bind
      by (rule wp_mono) (auto simp: wp_when intro!: pres_wp [OF pres_kept_tickle] split: sum.split)
  qed
  have delete: "wp (deletePolicyResources secret ns format') (\<lambda>_. ?K) s"
    if "?K s" "secName secret = m" "\<not> secDeleted secret"
      "placementRules s (generatePolicyPlacementName m format', ns) = None" for s secret
    by (rule pres_wp [OF pres_kept_deletePolicyResources])
       (use that in \<open>auto simp: kept_def delivered_def\<close>)
  have "wp (RemoveSecretFromCluster m c' ns format') (\<lambda>_. ?K) s" if "?K s" for s
    unfolding RemoveSecretFromCluster_def wp_bind
  proof (rule wp_kept_ensure [OF that assms(1)], goal_cases)
    case (1 secret s')
    then show ?case
      using update [OF _ 1(2,3)] delete [OF _ 1(2,3)]
      by (simp add: Let_def wp_bind wp_attempt wp_fail wp_if) (rule wp_kept_get [OF 1(1)]; simp add: wp_fail)
  qed simp
  then show ?thesis by (simp add: pres_def wp_snd)
qed

section \<open>Deleting a policy\<close>

lemma placement_name_eq:
  assumes "generatePolicyPlacementName m format' = generatePolicyPlacementName n format" "n \<noteq> ''v'' @ m" "m \<noteq> ''v'' @ n"
  shows "m = n"
  using assms by (auto simp: generatePolicyPlacementName_def formatPrefix_def split: secret_format.splits)

lemma undeploy_keeps_delivery:
  assumes "\<And>c' m. c' \<in> set (polDRClusters p) \<Longrightarrow> m \<in> live \<Longrightarrow> m \<notin> set (drClusterListMustHaveSecrets ps dcs c' p rc)
      \<Longrightarrow> (\<forall>format'. generatePolicyPlacementName m format' = generatePolicyPlacementName n format \<longrightarrow> c' \<noteq> c)"
    and "set (fst (drPolicySecretNames p dcs rc)) \<subseteq> live" "pPodNamespace s = ns" "kept (sec.more s) live ns n format c s"
  shows "wp (drClustersUndeploySecrets p dcs ps rc) (\<lambda>_. kept (sec.more s) live ns n format c) s"
proof -
  let ?K = "kept (sec.more s) live ns n format c"
  have ns: "pPodNamespace s' = ns" if "?K s'" for s' :: drp
    using that assms(3) by (cases s; cases s') (simp add: kept_def)
  have one: "pres ?K (deleteSecretFromCluster m c' rc)"
    if "\<forall>format'. generatePolicyPlacementName m format' = generatePolicyPlacementName n format \<longrightarrow> c' \<noteq> c" "m \<in> live" for m c'
  proof (rule presI)
    fix s' assume "?K s'"
    have "wp (deleteSecretFromCluster m c' rc) (\<lambda>_. ?K) s'"
      unfolding deleteSecretFromCluster_def Let_def wp_bind wp_gets ns [OF \<open>?K s'\<close>] sum.case
      by (rule pres_wp) (use that \<open>?K s'\<close> in \<open>auto intro!: pres_rules RemoveSecretFromCluster_keeps\<close>)
    then show "?K (snd (deleteSecretFromCluster m c' rc s'))" by (simp add: wp_snd)
  qed
  have loop: "pres ?K (forM xs f)" if "\<And>x. x \<in> set xs \<Longrightarrow> pres ?K (f x)" for xs and f :: "string \<Rightarrow> unit drpm"
    using that by (induction xs) (auto intro!: pres_rules)
  have "pres ?K (drClustersUndeploySecrets p dcs ps rc)"
    unfolding drClustersUndeploySecrets_def Let_def
    by (intro pres_rules loop one)
       (use assms(1,2) in \<open>auto simp: rangeOrder_def sortedSet_def\<close>)
  then show ?thesis using assms(4) by (rule pres_wp)
qed


text \<open>The policy \<open>old\<close> of \<open>e1\<close> and \<open>e2\<close> is deleted; \<open>new\<close> still needs the secrets of \<open>e1\<close> and \<open>w1\<close> on \<open>e1\<close>.\<close>

definition exS3Cluster :: "string \<Rightarrow> drcluster" where
  "exS3Cluster n = \<lparr>dcName = n, dcNamespace = [], dcGeneration = 1, dcDeleted = False, dcLabels = [], dcAnnotations = [],
     dcFinalizers = [], dcCIDRs = [], dcClusterFence = ClusterFenceStateUnset, dcS3ProfileName = ''s3-'' @ n,
     dcRegion = ''east'', dcPhase = Available, dcConditions = [], dcMaintenanceModes = []\<rparr>"

definition exS3Clusters :: "drcluster list" where
  "exS3Clusters = map exS3Cluster [''e1'', ''e2'', ''w1'']"

definition exConfig :: ramen_config where
  "exConfig = \<lparr>cfgRetainNamespaceSCCAcrossPeers = False, cfgRamenOpsNamespace = [], cfgLeaderElectionResourceName = None,
     cfgDeploymentAutomationEnabled = True, cfgChannelName = [], cfgPackageName = [], cfgNamespaceName = [],
     cfgCatalogSourceName = [], cfgCatalogSourceNamespaceName = [], cfgClusterServiceVersionName = [],
     cfgS3SecretDistributionEnabled = True,
     cfgS3StoreProfiles = map (\<lambda>c. (''s3-'' @ c, ''secret-'' @ c)) [''e1'', ''e2'', ''w1''],
     cfgKubeObjectProtectionDisabled = True, cfgVeleroNamespaceName = [], cfgVolumeUnprotectionEnabled = True, cfgVolSyncDisabled = False,
     cfgMultiNamespaceFeatureEnabled = False, cfgMultiNamespaceVolsyncSupported = False, cfgRest = []\<rparr>"

definition exSecrets :: drp where
  "exSecrets =
     \<lparr>clock = 0, conflictRetries = 5, faults = (\<lambda>_. None), calls = 0, manifestWorks = (\<lambda>_. None), hubViews = [],
      hubSecrets = map_of (map (\<lambda>c. ((''secret-'' @ c, ''ramen''),
        \<lparr>secName = ''secret-'' @ c, secFinalizers = [SecretPolicyFinalizer], secDeleted = False, secResourceVersion = ''1''\<rparr>))
        [''e1'', ''e2'', ''w1'']),
      ocmPolicies = map_of (map (\<lambda>c. ((''secret-'' @ c, ''ramen''),
        newPolicy ''1'' (newConfigurationPolicy ''cfg'' (newS3ConfigurationSecret (''secret-'' @ c) ''ramen'' ''ramen''))))
        [''e1'', ''e2'', ''w1'']),
      placementBindings = (\<lambda>_. None),
      placementRules = map_of [((''plrule-secret-e1'', ''ramen''), newPlacementRule [''e1'', ''e2'', ''w1'']),
        ((''plrule-secret-e2'', ''ramen''), newPlacementRule [''e1'', ''e2'']),
        ((''plrule-secret-w1'', ''ramen''), newPlacementRule [''e1'', ''w1''])],
      versionAfter = (\<lambda>v. v @ ''1''), pObject = exPolicies ! 0, pServer = exPolicies ! 0, pPolicies = exPolicies,
      pClusters = exS3Clusters, pDRPCs = [], pConfig = Inr exConfig, pPodNamespace = ''ramen'',
      pManagedClusters = (\<lambda>_. None), pNamespaces = [], pOrder = [''e2''], pInterval = None\<rparr>"


end
