(* ===== verification/Ramen_VrgStatus.thy ===== *)
theory Ramen_VrgStatus
  imports Ramen_Types
begin

text \<open>
  The conditions a VolumeReplicationGroup reports (\<^verbatim>\<open>internal/controller/status.go\<close>), its list of protected
  PVCs (\<^verbatim>\<open>vrg_status_pvcs.go\<close>), and the writers of the conditions of one protected PVC
  (\<^verbatim>\<open>vrg_volrep.go\<close>). The last part shows what a write to one PVC's entry does to the list and to its
  conditions.
\<close>

section \<open>Conditions\<close>

abbreviation putCondition :: "int \<Rightarrow> conditions \<Rightarrow> condition \<Rightarrow> conditions" where
  "putCondition now cs c \<equiv> fst (SetStatusCondition now cs c)"

definition newVRGDataReplicatingCondition :: "int \<Rightarrow> string \<Rightarrow> string \<Rightarrow> condition" where
  "newVRGDataReplicatingCondition generation reason message =
     mkCondition ''DataReady'' reason generation ConditionTrue message"

definition newVRGDataReplicatedCondition :: "int \<Rightarrow> string \<Rightarrow> condition" where
  "newVRGDataReplicatedCondition generation message =
     mkCondition ''DataReady'' ''Replicated'' generation ConditionTrue message"

definition newVRGAsDataProtectedCondition :: "int \<Rightarrow> string \<Rightarrow> condition" where
  "newVRGAsDataProtectedCondition generation message =
     mkCondition ''DataProtected'' ''DataProtected'' generation ConditionTrue message"

definition newVRGAsDataProtectedUnusedCondition :: "int \<Rightarrow> string \<Rightarrow> condition" where
  "newVRGAsDataProtectedUnusedCondition generation message =
     mkCondition ''DataProtected'' ''Unused'' generation ConditionTrue message"

definition newVRGAsDataNotProtectedCondition :: "int \<Rightarrow> string \<Rightarrow> condition" where
  "newVRGAsDataNotProtectedCondition generation message =
     mkCondition ''DataProtected'' ''Error'' generation ConditionFalse message"

definition newVRGDataProtectionProgressCondition :: "int \<Rightarrow> string \<Rightarrow> condition" where
  "newVRGDataProtectionProgressCondition generation message =
     mkCondition ''DataProtected'' ''Replicating'' generation ConditionFalse message"

definition newVRGAsPrimaryReadyCondition :: "int \<Rightarrow> string \<Rightarrow> string \<Rightarrow> condition" where
  "newVRGAsPrimaryReadyCondition generation reason message =
     mkCondition ''DataReady'' reason generation ConditionTrue message"

definition newVRGDataProgressingCondition :: "int \<Rightarrow> string \<Rightarrow> condition" where
  "newVRGDataProgressingCondition generation message =
     mkCondition ''DataReady'' ''Progressing'' generation ConditionFalse message"

definition newVRGDataErrorCondition :: "int \<Rightarrow> string \<Rightarrow> condition" where
  "newVRGDataErrorCondition generation message =
     mkCondition ''DataReady'' ''Error'' generation ConditionFalse message"

definition newVRGClusterDataProtectedCondition :: "int \<Rightarrow> string \<Rightarrow> condition" where
  "newVRGClusterDataProtectedCondition generation message =
     mkCondition ''ClusterDataProtected'' ''Uploaded'' generation ConditionTrue message"

definition newVRGClusterDataProtectedUnusedCondition :: "int \<Rightarrow> string \<Rightarrow> condition" where
  "newVRGClusterDataProtectedUnusedCondition generation message =
     mkCondition ''ClusterDataProtected'' ''Unused'' generation ConditionTrue message"

definition newVRGClusterDataProtectingCondition :: "int \<Rightarrow> string \<Rightarrow> condition" where
  "newVRGClusterDataProtectingCondition generation message =
     mkCondition ''ClusterDataProtected'' ''Uploading'' generation ConditionFalse message"

definition newVRGClusterDataUnprotectedCondition :: "int \<Rightarrow> string \<Rightarrow> string \<Rightarrow> condition" where
  "newVRGClusterDataUnprotectedCondition generation reason message =
     mkCondition ''ClusterDataProtected'' reason generation ConditionFalse message"

definition setVRGInitialCondition :: condition_setter where
  "setVRGInitialCondition now cs generation message =
     foldl (\<lambda>cs t. SetStatusConditionIfNotFound now cs
              (mkCondition t ''Initializing'' generation ConditionUnknown message))
       cs [''DataReady'', ''DataProtected'', ''ClusterDataReady'', ''KubeObjectsReady'', ''ClusterDataProtected'',
           ''AutoCleanup'', ''NoClusterDataConflict'', ''HooksReady'']"

definition setVRGDataReplicatingCondition :: condition_setter where
  "setVRGDataReplicatingCondition now cs generation message =
     putCondition now cs (newVRGDataReplicatingCondition generation ''Replicating'' message)"

definition setVRGDataReplicatedCondition :: condition_setter where
  "setVRGDataReplicatedCondition now cs generation message =
     putCondition now cs (newVRGDataReplicatedCondition generation message)"

definition setVRGAsDataProtectedCondition :: condition_setter where
  "setVRGAsDataProtectedCondition now cs generation message =
     putCondition now cs (newVRGAsDataProtectedCondition generation message)"

definition setVRGAsDataNotProtectedCondition :: condition_setter where
  "setVRGAsDataNotProtectedCondition now cs generation message =
     putCondition now cs (newVRGAsDataNotProtectedCondition generation message)"

definition setVRGDataProtectionProgressCondition :: condition_setter where
  "setVRGDataProtectionProgressCondition now cs generation message =
     putCondition now cs (newVRGDataProtectionProgressCondition generation message)"

definition setVRGAsPrimaryReadyCondition :: condition_setter where
  "setVRGAsPrimaryReadyCondition now cs generation message =
     putCondition now cs (newVRGAsPrimaryReadyCondition generation ''Ready'' message)"

definition setVRGDataProgressingCondition :: condition_setter where
  "setVRGDataProgressingCondition now cs generation message =
     putCondition now cs (newVRGDataProgressingCondition generation message)"

definition setVRGDataErrorCondition :: condition_setter where
  "setVRGDataErrorCondition now cs generation message =
     putCondition now cs (newVRGDataErrorCondition generation message)"

definition setVRGDataErrorUnknownCondition :: condition_setter where
  "setVRGDataErrorUnknownCondition now cs generation message =
     putCondition now cs (mkCondition ''DataReady'' ''UnknownError'' generation ConditionUnknown message)"

definition setVRGDataStorageIDNotFoundCondition :: condition_setter where
  "setVRGDataStorageIDNotFoundCondition now cs generation message =
     putCondition now cs (mkCondition ''DataReady'' ''StorageIDNotFound'' generation ConditionUnknown message)"

definition setVRGDataPeerClassNotFoundCondition :: condition_setter where
  "setVRGDataPeerClassNotFoundCondition now cs generation message =
     putCondition now cs (mkCondition ''DataReady'' ''PeerClassNotFound'' generation ConditionUnknown message)"

definition setVRGClusterDataReadyCondition :: condition_setter where
  "setVRGClusterDataReadyCondition now cs generation message =
     putCondition now cs (mkCondition ''ClusterDataReady'' ''Restored'' generation ConditionTrue message)"

definition setVRGClusterDataReadyConditionUnused :: condition_setter where
  "setVRGClusterDataReadyConditionUnused now cs generation message =
     putCondition now cs (mkCondition ''ClusterDataReady'' ''Unused'' generation ConditionTrue message)"

definition setVRGClusterDataErrorCondition :: condition_setter where
  "setVRGClusterDataErrorCondition now cs generation message =
     putCondition now cs (mkCondition ''ClusterDataReady'' ''Error'' generation ConditionFalse message)"

definition setVRGClusterDataProtectedCondition :: condition_setter where
  "setVRGClusterDataProtectedCondition now cs generation message =
     putCondition now cs (newVRGClusterDataProtectedCondition generation message)"

definition setVRGClusterDataProtectingCondition :: condition_setter where
  "setVRGClusterDataProtectingCondition now cs generation message =
     putCondition now cs (newVRGClusterDataProtectingCondition generation message)"

definition setVRGKubeObjectsReadyCondition :: condition_setter where
  "setVRGKubeObjectsReadyCondition now cs generation message =
     putCondition now cs (mkCondition ''KubeObjectsReady'' ''KubeObjectsRestored'' generation ConditionTrue message)"

definition setVRGKubeObjectsReadyConditionUnused :: condition_setter where
  "setVRGKubeObjectsReadyConditionUnused now cs generation message =
     putCondition now cs (mkCondition ''KubeObjectsReady'' ''Unused'' generation ConditionTrue message)"

definition setVRGKubeObjectsErrorCondition :: condition_setter where
  "setVRGKubeObjectsErrorCondition now cs generation message =
     putCondition now cs (mkCondition ''KubeObjectsReady'' ''Error'' generation ConditionFalse message)"

definition setVRGConditionTypeVolSyncRepSourceSetupComplete :: condition_setter where
  "setVRGConditionTypeVolSyncRepSourceSetupComplete now cs generation message =
     putCondition now cs (mkCondition ''ReplicationSourceSetup'' ''SourceInitialized'' generation ConditionTrue message)"

definition setVRGConditionTypeVolSyncRepSourceSetupError :: condition_setter where
  "setVRGConditionTypeVolSyncRepSourceSetupError now cs generation message =
     putCondition now cs (mkCondition ''ReplicationSourceSetup'' ''Error'' generation ConditionFalse message)"

definition setVRGConditionTypeVolSyncPVRestoreComplete :: condition_setter where
  "setVRGConditionTypeVolSyncPVRestoreComplete now cs generation message =
     putCondition now cs (mkCondition ''PVsRestored'' ''Restored'' generation ConditionTrue message)"

definition setVRGConditionTypeVolSyncPVRestoreError :: condition_setter where
  "setVRGConditionTypeVolSyncPVRestoreError now cs generation message =
     putCondition now cs (mkCondition ''PVsRestored'' ''Error'' generation ConditionFalse message)"

definition setVRGHookExecutedCondition :: condition_setter where
  "setVRGHookExecutedCondition now cs generation message =
     putCondition now cs (mkCondition ''HooksReady'' ''HookExecuted'' generation ConditionTrue message)"

definition setVRGHookFailedCondition :: condition_setter where
  "setVRGHookFailedCondition now cs generation message =
     putCondition now cs (mkCondition ''HooksReady'' ''HookFailed'' generation ConditionFalse message)"

definition setVRGClusterDataUnprotectedCondition ::
  "int \<Rightarrow> conditions \<Rightarrow> int \<Rightarrow> string \<Rightarrow> string \<Rightarrow> conditions" where
  "setVRGClusterDataUnprotectedCondition now cs generation reason message =
     putCondition now cs (newVRGClusterDataUnprotectedCondition generation reason message)"

definition updateVRGNoClusterDataConflictCondition ::
  "int \<Rightarrow> condition_status \<Rightarrow> string \<Rightarrow> string \<Rightarrow> condition" where
  "updateVRGNoClusterDataConflictCondition generation st reason message =
     mkCondition ''NoClusterDataConflict'' reason generation st message"

definition setVRGAutoCleanupCondition ::
  "int \<Rightarrow> conditions \<Rightarrow> int \<Rightarrow> condition_status \<Rightarrow> string \<Rightarrow> string \<Rightarrow> conditions" where
  "setVRGAutoCleanupCondition now cs generation st reason message =
     putCondition now cs (mkCondition ''AutoCleanup'' reason generation st message)"

definition isVRGReasonError :: "condition \<Rightarrow> bool" where
  "isVRGReasonError c \<longleftrightarrow>
     cReason c \<in> {''Error'', ''UnknownError'', ''UploadError'', ''AnnotationFailed'',
       ''ClusterDataConflictPrimary'', ''ClusterDataConflictSecondary''}"

section \<open>The list of protected PVCs\<close>

text \<open>Go hands out a pointer into the slice; a write through it (\<open>writePVC\<close>) changes the first match.\<close>

definition isPVC :: "string \<Rightarrow> string \<Rightarrow> protected_pvc \<Rightarrow> bool" where
  "isPVC ns name p \<longleftrightarrow> pvcNamespace p = ns \<and> pvcName p = name"

fun FindProtectedPvcAndIndex :: "protected_pvc list \<Rightarrow> string \<Rightarrow> string \<Rightarrow> protected_pvc option \<times> nat" where
  "FindProtectedPvcAndIndex [] ns name = (None, 0)"
| "FindProtectedPvcAndIndex (p # ps) ns name =
     (if isPVC ns name p then (Some p, 0)
      else case FindProtectedPvcAndIndex ps ns name of (r, i) \<Rightarrow> (r, Suc i))"

definition FindProtectedPVC :: "protected_pvc list \<Rightarrow> string \<Rightarrow> string \<Rightarrow> protected_pvc option" where
  "FindProtectedPVC ps ns name = fst (FindProtectedPvcAndIndex ps ns name)"

fun writePVC :: "string \<Rightarrow> string \<Rightarrow> (protected_pvc \<Rightarrow> protected_pvc) \<Rightarrow> protected_pvc list \<Rightarrow> protected_pvc list" where
  "writePVC ns name f [] = []"
| "writePVC ns name f (p # ps) = (if isPVC ns name p then f p # ps else p # writePVC ns name f ps)"

definition newProtectedPVC :: "string \<Rightarrow> string \<Rightarrow> protected_pvc" where
  "newProtectedPVC ns name =
     \<lparr>pvcNamespace = ns, pvcName = name, pvcProtectedByVolSync = False,
      pvcStorageIdentifiers = \<lparr>siStorageProvisioner = [], siStorageID = \<lparr>idID = [], idModes = []\<rparr>,
        siReplicationID = \<lparr>idID = [], idModes = []\<rparr>\<rparr>,
      pvcStorageClassName = None, pvcAnnotations = [], pvcLabels = [], pvcAccessModes = [], pvcResources = [],
      pvcConditions = [], pvcLastSyncTime = None, pvcLastSyncDuration = None, pvcLastSyncBytes = None,
      pvcVolumeMode = None\<rparr>"

definition addProtectedPVC :: "protected_pvc list \<Rightarrow> string \<Rightarrow> string \<Rightarrow> protected_pvc list" where
  "addProtectedPVC ps ns name = ps @ [newProtectedPVC ns name]"

text \<open>Called with an index in range; Go panics otherwise.\<close>

definition sliceUnorderedElementDelete :: "'a list \<Rightarrow> nat \<Rightarrow> 'a list" where
  "sliceUnorderedElementDelete s i = butlast (s[i := last s])"

definition pvcStatusDeleteIfPresent :: "protected_pvc list \<Rightarrow> string \<Rightarrow> string \<Rightarrow> protected_pvc list" where
  "pvcStatusDeleteIfPresent ps ns name =
     (case FindProtectedPvcAndIndex ps ns name of
        (None, _) \<Rightarrow> ps
      | (Some _, i) \<Rightarrow> sliceUnorderedElementDelete ps i)"

definition vrgStatusPvcNamespacesSetIfUnset :: "string \<Rightarrow> protected_pvc list \<Rightarrow> protected_pvc list" where
  "vrgStatusPvcNamespacesSetIfUnset vrgNamespace ps =
     map (\<lambda>p. if pvcNamespace p \<noteq> [] then p else p\<lparr>pvcNamespace := vrgNamespace\<rparr>) ps"

section \<open>Conditions of one protected PVC\<close>

definition setPVCDataReadyCondition :: "int \<Rightarrow> string \<Rightarrow> string \<Rightarrow> int \<Rightarrow> conditions \<Rightarrow> conditions" where
  "setPVCDataReadyCondition now reason message generation cs =
     (if reason = ''Error'' then setVRGDataErrorCondition now cs generation message
      else if reason = ''Replicating'' then setVRGDataReplicatingCondition now cs generation message
      else if reason = ''Replicated'' then setVRGDataReplicatedCondition now cs generation message
      else if reason = ''Ready'' then setVRGAsPrimaryReadyCondition now cs generation message
      else if reason = ''Progressing'' then setVRGDataProgressingCondition now cs generation message
      else if reason = ''UnknownError'' then setVRGDataErrorUnknownCondition now cs generation message
      else if reason = ''PeerClassNotFound'' then setVRGDataPeerClassNotFoundCondition now cs generation message
      else if reason = ''StorageIDNotFound'' then setVRGDataStorageIDNotFoundCondition now cs generation message
      else setVRGDataErrorCondition now cs generation (''Unknown reason: '' @ reason))"

definition setPVCDataProtectedCondition :: "int \<Rightarrow> string \<Rightarrow> string \<Rightarrow> int \<Rightarrow> conditions \<Rightarrow> conditions" where
  "setPVCDataProtectedCondition now reason message generation cs =
     (if reason = ''Error'' then setVRGAsDataNotProtectedCondition now cs generation message
      else if reason = ''Replicating'' then setVRGDataProtectionProgressCondition now cs generation message
      else if reason = ''Ready'' then setVRGDataProtectionProgressCondition now cs generation message
      else if reason = ''DataProtected'' then setVRGAsDataProtectedCondition now cs generation message
      else if reason = ''Progressing'' then setVRGAsDataNotProtectedCondition now cs generation message
      else if reason = ''UnknownError'' then setVRGDataErrorUnknownCondition now cs generation message
      else setVRGDataErrorUnknownCondition now cs generation (''Unknown reason: '' @ reason))"

definition setPVCClusterDataProtectedCondition :: "int \<Rightarrow> string \<Rightarrow> string \<Rightarrow> int \<Rightarrow> conditions \<Rightarrow> conditions" where
  "setPVCClusterDataProtectedCondition now reason message generation cs =
     (if reason = ''Uploaded'' then setVRGClusterDataProtectedCondition now cs generation message
      else if reason = ''Uploading'' then setVRGClusterDataProtectingCondition now cs generation message
      else if reason = ''UploadError'' \<or> reason = ''AnnotationFailed''
        then setVRGClusterDataUnprotectedCondition now cs generation reason message
      else setVRGDataErrorUnknownCondition now cs generation (''Unknown reason: '' @ reason))"

definition setPVCDestinationInfoAvailableCondition ::
  "int \<Rightarrow> string \<Rightarrow> string \<Rightarrow> int \<Rightarrow> conditions \<Rightarrow> conditions" where
  "setPVCDestinationInfoAvailableCondition now reason message generation cs =
     putCondition now cs
       (mkCondition ''DestinationInfoAvailable'' reason generation
          (if reason = ''Ready'' then ConditionTrue else ConditionFalse) message)"

text \<open>
  Every \<^verbatim>\<open>updatePVC...Condition\<close> finds the PVC's entry, appends one when there is none, and writes its
  conditions.
\<close>

definition updatePVCConditions ::
  "string \<Rightarrow> string \<Rightarrow> (conditions \<Rightarrow> conditions) \<Rightarrow> protected_pvc list \<Rightarrow> protected_pvc list" where
  "updatePVCConditions ns name f ps =
     writePVC ns name (\<lambda>p. p\<lparr>pvcConditions := f (pvcConditions p)\<rparr>)
       (case FindProtectedPVC ps ns name of None \<Rightarrow> addProtectedPVC ps ns name | Some _ \<Rightarrow> ps)"

end
