(* ===== verification/Ramen_VrgObjects.thy ===== *)
theory Ramen_VrgObjects
  imports Ramen_VrgStatus Ramen_Views
begin

text \<open>
  Objects of a managed cluster that the VRG controller reads and writes: PVCs and volumes, the replication resources of
  csi-addons, pods, snapshots and virtual machines, each with the fields the controller looks at. Their types belong to
  Kubernetes, csi-addons and KubeVirt.
\<close>

record owner_reference =
  ownerAPIVersion :: string
  ownerKind :: string
  ownerName :: string
  ownerUID :: string

record claim =
  claimName :: string
  claimNamespace :: string
  claimUID :: string
  claimResourceVersion :: string
  claimDeleted :: bool
  claimCreationTimestamp :: int
  claimLabels :: strmap
  claimAnnotations :: strmap
  claimFinalizers :: "string list"
  claimOwners :: "owner_reference list"
  claimStorageClassName :: "string option"
  claimVolumeName :: string
  claimAccessModes :: "string list"
  claimResources :: string
  claimVolumeMode :: "string option"
  claimVolumeAttributesClass :: "string option"
  claimRequested :: int
  claimCapacity :: int
  claimBound :: bool

text \<open>
  \<open>claimResources\<close> is the text of the resource requirements, \<open>claimRequested\<close> and \<open>claimCapacity\<close> are the storage requested in
  them and the capacity in the status. A secret reference is a name and a namespace.
\<close>

datatype reclaim_policy = ReclaimRetain | ReclaimDelete | ReclaimRecycle

datatype volume_phase = VolumeBound | VolumeReleased | VolumeAvailable | VolumePending | VolumeFailed

record claim_ref =
  crKind :: string
  crAPIVersion :: string
  crNamespace :: string
  crName :: string
  crUID :: string
  crResourceVersion :: string

type_synonym secret_ref = "string \<times> string"

record csi_source =
  csiDriver :: string
  csiFSType :: string
  csiVolumeHandle :: string
  csiVolumeAttributes :: strmap
  csiNodeStageSecretRef :: "secret_ref option"
  csiNodePublishSecretRef :: "secret_ref option"
  csiNodeExpandSecretRef :: "secret_ref option"
  csiControllerExpandSecretRef :: "secret_ref option"
  csiControllerPublishSecretRef :: "secret_ref option"

record volume =
  pvName :: string
  pvGeneration :: int
  pvResourceVersion :: string
  pvLabels :: strmap
  pvAnnotations :: strmap
  pvDeleted :: bool
  pvReclaimPolicy :: reclaim_policy
  pvStorageClassName :: string
  pvClaimRef :: "claim_ref option"
  pvCSI :: "csi_source option"
  pvAccessModes :: "string list"
  pvVolumeMode :: "string option"
  pvPhase :: volume_phase

text \<open>
  A \<^verbatim>\<open>VolumeReplication\<close>, a \<^verbatim>\<open>VolumeGroupReplication\<close> and the content of a group. Their status is written by the csi-addons
  controller and only read here.
\<close>

datatype vr_replication_state = VRPrimary | VRSecondary | VRResync

datatype vr_state = VRStateUnset | VRPrimaryState | VRSecondaryState | VRUnknownState

record vr_status =
  vrsState :: vr_state
  vrsConditions :: conditions
  vrsObservedGeneration :: int
  vrsLastSyncTime :: "int option"
  vrsLastSyncDuration :: "int option"
  vrsLastSyncBytes :: "int option"
  vrsDestinationVolumeID :: string

record volume_replication =
  vrGeneration :: int
  vrDeleted :: bool
  vrFinalizers :: "string list"
  vrLabels :: strmap
  vrOwner :: "string option"
  vrReplicationState :: vr_replication_state
  vrAutoResync :: bool
  vrClass :: string
  vrStatus :: vr_status

record volume_group_replication = volume_replication +
  vgrName :: string
  vgrNamespace :: string
  vgrResourceVersion :: string
  vgrAnnotations :: strmap
  vgrGroupClass :: string
  vgrContentName :: string
  vgrExternal :: bool
  vgrSelector :: strmap
  vgrClaimRefs :: "string list"

record pv_mapping =
  pmName :: string
  pmVolumeHandle :: string
  pmDestinationVolumeHandle :: string

record group_content =
  gcName :: string
  gcGeneration :: int
  gcResourceVersion :: string
  gcDeleted :: bool
  gcAnnotations :: strmap
  gcRef :: "(string \<times> string) option"
  gcHandle :: string
  gcVolumeHandles :: "string list"
  gcAttributes :: strmap
  gcClassName :: string
  gcMappings :: "pv_mapping list"
  gcDestinationGroupID :: string

text \<open>\<open>gcRef\<close> is the name and namespace of the group the content belongs to.\<close>

record pod =
  podNamespace :: string
  podClaims :: "string list"
  podRunning :: bool
  podConditions :: "(string \<times> condition_status) list"

record snapshot =
  snapName :: string
  snapNamespace :: string
  snapLabels :: strmap
  snapClaim :: "string option"
  snapClass :: "string option"
  snapReady :: bool

record replication_source =
  rsrcLastSyncTime :: "int option"

text \<open>
  Of a virtual machine: \<open>vmAddresses\<close> is the annotation \<^verbatim>\<open>network.kubevirt.io/addresses\<close> of its template, \<open>Some None\<close> when
  it is not the JSON of a map of lists, otherwise the map in the order Go ranges over it.
\<close>

record virtual_machine =
  vmName :: string
  vmNamespace :: string
  vmDeleted :: bool
  vmLabels :: strmap
  vmAddresses :: "(string \<times> string list) list option option"

end
