(* ===== verification/Ramen_ObjectStore.thy ===== *)
theory Ramen_ObjectStore
  imports Ramen_VrgObjects Ramen_Server
begin

text \<open>
  Object stores (\<^verbatim>\<open>s3utils.go\<close>, with the profiles of \<^verbatim>\<open>ramenconfig.go\<close>). The S3 service is a map from endpoint and bucket to
  the objects of the bucket, in the order of their keys, in which S3 is documented to list them; a call to it may fail like
  a call to the API server. Objects travel as compressed JSON: what is downloaded is what was uploaded, and reading an
  object of another type fails.
\<close>

section \<open>State\<close>

record s3_profile =
  spName :: string
  spBucket :: string
  spEndpoint :: string
  spEndpointParses :: bool
  spRegion :: string
  spSecretName :: string
  spSecretNamespace :: string

text \<open>\<open>spEndpointParses\<close> is whether \<^verbatim>\<open>url.ParseRequestURI\<close> accepts the endpoint.\<close>

datatype stored =
    StoredPV volume
  | StoredPVC claim
  | StoredVRG vrg
  | StoredVGR volume_group_replication
  | StoredVGRC group_content

type_synonym bucket = "(string \<times> stored) list"

text \<open>The profiles are those of the operator's ConfigMap; of a secret, name and namespace matter.\<close>

record stores = server +
  iOperatorNamespace :: string
  kS3Profiles :: "s3_profile list"
  kSecrets :: "(string \<times> string) list"
  kBuckets :: "string \<times> string \<Rightarrow> bucket option"

type_synonym ('z, 'a) storem = "('z stores_scheme, 'a) gm"

text \<open>An \<^verbatim>\<open>ObjectStorer\<close> is known by its endpoint and bucket.\<close>

type_synonym object_store = "string \<times> string"

section \<open>Access to a store\<close>

definition s3StoreProfileFormatCheck :: "s3_profile \<Rightarrow> gerr option" where
  "s3StoreProfileFormatCheck p =
     (if spEndpoint p = [] then Some (newE (''s3 endpoint has not been configured in s3 profile '' @ spName p))
      else if \<not> spEndpointParses p
      then Some (newE (''invalid s3 endpoint <'' @ spEndpoint p @ ''> in profile '' @ spName p))
      else if spBucket p = [] then Some (newE (''s3 bucket has not been configured in s3 profile '' @ spName p))
      else None)"

definition RamenConfigS3StoreProfilePointerGet :: "s3_profile list \<Rightarrow> string \<Rightarrow> s3_profile option" where
  "RamenConfigS3StoreProfilePointerGet ps name = find (\<lambda>p. spName p = name) ps"

definition GetRamenConfigS3StoreProfile :: "string \<Rightarrow> ('z, s3_profile) storem" where
  "GetRamenConfigS3StoreProfile name =
     seqM apiCall
       (bindM (getsM (\<lambda>s. RamenConfigS3StoreProfilePointerGet (kS3Profiles s) name))
          (\<lambda>r. case r of
             None \<Rightarrow> failM (newE (''s3 profile '' @ name @ '' not found in RamenConfig''))
           | Some p \<Rightarrow> (case s3StoreProfileFormatCheck p of Some e \<Rightarrow> failM e | None \<Rightarrow> ret p)))"

definition GetS3Secret :: "string \<Rightarrow> string \<Rightarrow> ('z, unit) storem" where
  "GetS3Secret name ns =
     seqM apiCall
       (bindM (getsM (\<lambda>s. (name, if ns = [] then iOperatorNamespace s else ns) \<in> set (kSecrets s)))
          (\<lambda>found. if found then ret () else failM (Gerr NotFound (''failed to get secret '' @ name @ '' not found''))))"

text \<open>Opening a session reads the configuration of the process and may fail.\<close>

definition ObjectStore :: "string \<Rightarrow> string \<Rightarrow> ('z, object_store \<times> s3_profile) storem" where
  "ObjectStore name callerTag =
     bindM (catchM (GetRamenConfigS3StoreProfile name)
              (\<lambda>e. failM (wrapE (''failed to get profile '' @ name @ '' for caller '' @ callerTag @ '', '') e [])))
       (\<lambda>p. bindM (getsM iOperatorNamespace)
          (\<lambda>ramenNS.
             if name \<noteq> [] \<and> spSecretName p \<noteq> [] \<and> spSecretNamespace p \<noteq> [] \<and> spSecretNamespace p \<noteq> ramenNS
             then failM (newE (''invalid S3SecretRef namespace '' @ spSecretNamespace p @ '' for s3 profile '' @ name))
             else seqM (catchM (GetS3Secret (spSecretName p) (spSecretNamespace p))
                          (\<lambda>e. failM (wrapE (''failed to get secret for caller '' @ callerTag @ '', '') e [])))
                 (seqM (catchM apiCall
                          (\<lambda>e. failM (wrapE (''failed to create new session for '' @ spEndpoint p @ '', '') e [])))
                    (ret ((spEndpoint p, spBucket p), p)))))"

section \<open>Errors\<close>

text \<open>
  An error of the AWS library is formatted by its code and message and not wrapped; any other error is wrapped.
\<close>

definition processAwsError :: "string \<Rightarrow> gerr \<Rightarrow> gerr" where
  "processAwsError prefix e =
     (if ekind_of e = AwsError then newE (prefix @ '': '' @ Error e) else wrapE (prefix @ '': '') e [])"

definition isAwsError :: "gerr \<Rightarrow> bool" where
  "isAwsError e \<longleftrightarrow> ekind_of e = AwsError"

definition noSuchBucket :: gerr where
  "noSuchBucket = Gerr AwsError ''code: NoSuchBucket''"

definition noSuchKey :: gerr where
  "noSuchKey = Gerr AwsError ''code: NoSuchKey''"

text \<open>A request to a bucket.\<close>

definition withBucket :: "object_store \<Rightarrow> string \<Rightarrow> (bucket \<Rightarrow> ('z, 'a) storem) \<Rightarrow> ('z, 'a) storem" where
  "withBucket store prefix f =
     seqM (catchM apiCall (\<lambda>e. failM (processAwsError prefix e)))
       (bindM (getsM (\<lambda>s. kBuckets s store))
          (\<lambda>r. case r of None \<Rightarrow> failM (processAwsError prefix noSuchBucket) | Some b \<Rightarrow> f b))"

section \<open>Objects\<close>

definition UploadObject :: "object_store \<Rightarrow> string \<Rightarrow> stored \<Rightarrow> ('z, unit) storem" where
  "UploadObject store key v =
     withBucket store (''failed to upload data of '' @ snd store @ '':'' @ key)
       (\<lambda>b. modifyM (\<lambda>s. s\<lparr>kBuckets := (kBuckets s)(store \<mapsto> sm_put key v b)\<rparr>))"

definition DownloadObject :: "object_store \<Rightarrow> string \<Rightarrow> (stored \<Rightarrow> 'v option) \<Rightarrow> ('z, 'v) storem" where
  "DownloadObject store key decode =
     (let prefix = ''failed to download data of '' @ snd store @ '':'' @ key
      in withBucket store prefix
           (\<lambda>b. case map_of b key of
              None \<Rightarrow> failM (processAwsError prefix noSuchKey)
            | Some v \<Rightarrow>
                (case decode v of
                   None \<Rightarrow> failM (newE (''failed to decode json decoder of '' @ snd store @ '':'' @ key))
                 | Some x \<Rightarrow> ret x)))"

text \<open>The pages of a listing are one request here.\<close>

definition ListKeys :: "object_store \<Rightarrow> string \<Rightarrow> ('z, string list) storem" where
  "ListKeys store keyPrefix =
     withBucket store ''failed to list objects in bucket''
       (\<lambda>b. ret (filter (\<lambda>k. isPrefixOf keyPrefix k) (map fst b)))"

definition DeleteObject :: "object_store \<Rightarrow> string \<Rightarrow> ('z, unit) storem" where
  "DeleteObject store key =
     withBucket store (''failed to delete object '' @ key)
       (\<lambda>b. modifyM (\<lambda>s. s\<lparr>kBuckets := (kBuckets s)(store \<mapsto> sm_delete key b)\<rparr>))"

text \<open>A batch may be carried out in part: every key fails or succeeds on its own, and one failure is an error of the batch.\<close>

definition DeleteObjects :: "object_store \<Rightarrow> string list \<Rightarrow> ('z, unit) storem" where
  "DeleteObjects store keys =
     bindM (foldlM (\<lambda>failed key.
              bindM (attemptM (withBucket store [] (\<lambda>b. modifyM (\<lambda>s. s\<lparr>kBuckets := (kBuckets s)(store \<mapsto> sm_delete key b)\<rparr>))))
                (\<lambda>r. ret (failed \<or> r \<noteq> Inr ())))
            False keys)
       (\<lambda>failed. if failed then failM (newE ''unable to process batch delete'') else ret ())"

definition DeleteObjectsWithKeyPrefix :: "object_store \<Rightarrow> string \<Rightarrow> ('z, unit) storem" where
  "DeleteObjectsWithKeyPrefix store keyPrefix =
     bindM (catchM (ListKeys store keyPrefix)
              (\<lambda>e. failM (processAwsError (''unable to ListKeys in DeleteObjects from endpoint '' @ fst store
                          @ '' bucket '' @ snd store @ '' keyPrefix '' @ keyPrefix) e)))
       (\<lambda>keys. catchM (DeleteObjects store keys)
          (\<lambda>e. failM (wrapE (''unable to DeleteObjects from endpoint '' @ fst store @ '' bucket '' @ snd store
                        @ '' keyPrefix '' @ keyPrefix @ '', '') e [])))"

section \<open>Typed objects\<close>

definition S3KeyPrefix :: "string \<Rightarrow> string" where
  "S3KeyPrefix namespacedName = namespacedName @ ''/''"

definition s3PathNamePrefix :: "string \<Rightarrow> string \<Rightarrow> string" where
  "s3PathNamePrefix namespaceName objectName = S3KeyPrefix (namespaceName @ ''/'' @ objectName)"

definition typedKey :: "string \<Rightarrow> string \<Rightarrow> string \<Rightarrow> string" where
  "typedKey prefix suffix typ = prefix @ typ @ ''/'' @ suffix"

fun storedType :: "stored \<Rightarrow> string" where
  "storedType (StoredPV _) = ''v1.PersistentVolume''"
| "storedType (StoredPVC _) = ''v1.PersistentVolumeClaim''"
| "storedType (StoredVRG _) = ''v1alpha1.VolumeReplicationGroup''"
| "storedType (StoredVGR _) = ''v1alpha1.VolumeGroupReplication''"
| "storedType (StoredVGRC _) = ''v1alpha1.VolumeGroupReplicationContent''"

definition storedPV :: "stored \<Rightarrow> volume option" where
  "storedPV v = (case v of StoredPV x \<Rightarrow> Some x | _ \<Rightarrow> None)"

definition storedPVC :: "stored \<Rightarrow> claim option" where
  "storedPVC v = (case v of StoredPVC x \<Rightarrow> Some x | _ \<Rightarrow> None)"

definition storedVRG :: "stored \<Rightarrow> vrg option" where
  "storedVRG v = (case v of StoredVRG x \<Rightarrow> Some x | _ \<Rightarrow> None)"

definition storedVGR :: "stored \<Rightarrow> volume_group_replication option" where
  "storedVGR v = (case v of StoredVGR x \<Rightarrow> Some x | _ \<Rightarrow> None)"

definition storedVGRC :: "stored \<Rightarrow> group_content option" where
  "storedVGRC v = (case v of StoredVGRC x \<Rightarrow> Some x | _ \<Rightarrow> None)"

definition uploadTypedObject :: "object_store \<Rightarrow> string \<Rightarrow> string \<Rightarrow> stored \<Rightarrow> ('z, unit) storem" where
  "uploadTypedObject store keyPrefix keySuffix v = UploadObject store (typedKey keyPrefix keySuffix (storedType v)) v"

definition UploadPV :: "object_store \<Rightarrow> string \<Rightarrow> string \<Rightarrow> volume \<Rightarrow> ('z, unit) storem" where
  "UploadPV store prefix suffix pv = uploadTypedObject store prefix suffix (StoredPV pv)"

definition UploadPVC :: "object_store \<Rightarrow> string \<Rightarrow> string \<Rightarrow> claim \<Rightarrow> ('z, unit) storem" where
  "UploadPVC store prefix suffix pvc = uploadTypedObject store prefix suffix (StoredPVC pvc)"

definition UploadVGR :: "object_store \<Rightarrow> string \<Rightarrow> string \<Rightarrow> volume_group_replication \<Rightarrow> ('z, unit) storem" where
  "UploadVGR store prefix suffix vgr = uploadTypedObject store prefix suffix (StoredVGR vgr)"

definition UploadVGRC :: "object_store \<Rightarrow> string \<Rightarrow> string \<Rightarrow> group_content \<Rightarrow> ('z, unit) storem" where
  "UploadVGRC store prefix suffix vgrc = uploadTypedObject store prefix suffix (StoredVGRC vgrc)"

definition DeleteTypedObject :: "object_store \<Rightarrow> string \<Rightarrow> string \<Rightarrow> string \<Rightarrow> ('z, unit) storem" where
  "DeleteTypedObject store keyPrefix keySuffix typ = DeleteObject store (typedKey keyPrefix keySuffix typ)"

definition DownloadTypedObject ::
  "object_store \<Rightarrow> string \<Rightarrow> string \<Rightarrow> string \<Rightarrow> (stored \<Rightarrow> 'v option) \<Rightarrow> ('z, 'v) storem" where
  "DownloadTypedObject store keyPrefix keySuffix typ decode =
     DownloadObject store (typedKey keyPrefix keySuffix typ) decode"

definition DownloadTypedObjects :: "object_store \<Rightarrow> string \<Rightarrow> string \<Rightarrow> (stored \<Rightarrow> 'v option) \<Rightarrow> ('z, 'v list) storem" where
  "DownloadTypedObjects store keyPrefix typ decode =
     (let newKeyPrefix = typedKey keyPrefix [] typ
      in bindM (catchM (ListKeys store newKeyPrefix)
                  (\<lambda>e. failM (wrapE (''unable to ListKeys of type '' @ typ @ '' keyPrefix '' @ newKeyPrefix @ '', '') e [])))
           (\<lambda>keys. foldlM (\<lambda>objects key.
              bindM (catchM (DownloadObject store key decode)
                       (\<lambda>e. failM (wrapE (''unable to DownloadObject of key '' @ key @ '', '') e [])))
                (\<lambda>x. ret (objects @ [x]))) [] keys))"

definition downloadPVs :: "object_store \<Rightarrow> string \<Rightarrow> ('z, volume list) storem" where
  "downloadPVs store prefix = DownloadTypedObjects store prefix ''v1.PersistentVolume'' storedPV"

definition downloadPVCs :: "object_store \<Rightarrow> string \<Rightarrow> ('z, claim list) storem" where
  "downloadPVCs store prefix = DownloadTypedObjects store prefix ''v1.PersistentVolumeClaim'' storedPVC"

definition downloadVGRs :: "object_store \<Rightarrow> string \<Rightarrow> ('z, volume_group_replication list) storem" where
  "downloadVGRs store prefix = DownloadTypedObjects store prefix ''v1alpha1.VolumeGroupReplication'' storedVGR"

definition downloadVGRCs :: "object_store \<Rightarrow> string \<Rightarrow> ('z, group_content list) storem" where
  "downloadVGRCs store prefix = DownloadTypedObjects store prefix ''v1alpha1.VolumeGroupReplicationContent'' storedVGRC"

definition DownloadVRGs :: "object_store \<Rightarrow> string \<Rightarrow> ('z, vrg list) storem" where
  "DownloadVRGs store prefix = DownloadTypedObjects store prefix ''v1alpha1.VolumeReplicationGroup'' storedVRG"

end
