(* ===== verification/Ramen_VrgState.thy ===== *)
theory Ramen_VrgState
  imports Ramen_ObjectStore
begin

text \<open>
  The state of one reconcile of a VolumeReplicationGroup on a managed cluster: the fields of \<^verbatim>\<open>VRGInstance\<close>
  (\<^verbatim>\<open>volumereplicationgroup_controller.go\<close>) and the objects of the managed cluster's API server it reads and
  writes, with the API calls on them and the utilities of \<^verbatim>\<open>util/\<close> the controller shares.
\<close>

section \<open>State\<close>

text \<open>
  The fields with prefix \<open>i\<close> are those of \<^verbatim>\<open>VRGInstance\<close>: the object in memory with its UID, its status as read at
  the start, the operator's configuration, the PVCs to process, the classes once listed, the caches of storage
  classes, attribute classes, snapshot classes and object stores, the stores of the VRG, the versions of VRGs uploaded so
  far (which belong to the process), the two conditions other parts of the controller leave behind, the workload status of
  the VolSync handler, the labels and namespaces that select the PVCs of the recipe, and whether to requeue. Those with prefix \<open>k\<close> are
  the API server's objects; \<open>kMatchLabels\<close> reads the \<^verbatim>\<open>matchLabels\<close> of a label selector, which is kept as text, and
  \<open>kClaimOrder\<close>, \<open>kVolumeOrder\<close> and \<open>kVGROrder\<close> are the orders in which the server lists PVCs, volumes and group replications. Of a
  \<^verbatim>\<open>ReplicationGroupSource\<close> the labels and the names of its replication sources are read. \<open>kServerVRG\<close> is the VRG as the
  server stores it, \<open>kVersion\<close> the last resource version it gave out. \<open>kHash\<close> is the SHA-256 digest of the JSON of a PVC's specification, of which only that it is a function of
  the specification is used.
\<close>

type_synonym claim_spec =
  "string option \<times> string \<times> string list \<times> string \<times> string option \<times> string option"

definition claimSpec :: "claim \<Rightarrow> claim_spec" where
  "claimSpec c = (claimStorageClassName c, claimVolumeName c, claimAccessModes c, claimResources c, claimVolumeMode c,
     claimVolumeAttributesClass c)"

record vrgs = stores +
  iVrg :: vrg
  iUID :: string
  iSaved :: vrg_status
  iConfig :: ramen_config
  iVolRepPVCs :: "claim list"
  iVolSyncPVCs :: "claim list"
  iReplClassList :: "class_object list"
  iGrpReplClassList :: "class_object list"
  iVrcUpdated :: bool
  iStorageClassCache :: "string \<Rightarrow> class_object option"
  iVacCache :: "string list"
  iSnapshotClasses :: "class_object list option"
  iObjectStorers :: "string \<Rightarrow> (gerr + object_store) option"
  iS3StoreAccessors :: "(object_store \<times> s3_profile) list"
  iLastUploadVersion :: "string \<Rightarrow> string option"
  iVrgObjectProtected :: "condition option"
  iKubeObjectsProtected :: "condition option"
  iWorkloadStatus :: string
  iPvcSelector :: strmap
  iPvcNamespaces :: "string list"
  iRequeue :: bool
  kServerVRG :: vrg
  kVersion :: nat
  kVRGs :: "vrg list"
  kClaims :: "claim store"
  kClaimOrder :: "(string \<times> string) list"
  kVolumes :: "volume store"
  kVolumeOrder :: "string list"
  kVRs :: "volume_replication store"
  kVGRs :: "volume_group_replication store"
  kStorageClasses :: "class_object store"
  kVRClasses :: "class_object list"
  kVGRClasses :: "class_object list"
  kMatchLabels :: "label_selector \<Rightarrow> strmap"
  kCRDs :: "string list"
  kPods :: "pod list"
  kAttachedVolumes :: "string list"
  kReplicationSources :: "replication_source store"
  kReplicationGroupSources :: "(strmap \<times> string list) list"
  kVGROrder :: "(string \<times> string) list"
  kVGRCs :: "group_content store"
  kSnapshots :: "snapshot list"
  kSnapshotClasses :: "class_object list"
  kVolumeAttributesClasses :: "string list"
  kVMs :: "virtual_machine list"
  kHash :: "claim_spec \<Rightarrow> string"

type_synonym 'a vrgm = "(vrgs, 'a) gm"

abbreviation vrgSpecOf :: "vrgs \<Rightarrow> vrg_spec" where
  "vrgSpecOf s \<equiv> vSpec (iVrg s)"

abbreviation vrgStatusOf :: "vrgs \<Rightarrow> vrg_status" where
  "vrgStatusOf s \<equiv> vStatus (iVrg s)"

abbreviation protectedPVCs :: "vrgs \<Rightarrow> protected_pvc list" where
  "protectedPVCs s \<equiv> vProtectedPVCs (vrgStatusOf s)"

definition updStatus :: "(vrg_status \<Rightarrow> vrg_status) \<Rightarrow> vrgs \<Rightarrow> vrgs" where
  "updStatus f s = s\<lparr>iVrg := (iVrg s)\<lparr>vStatus := f (vrgStatusOf s)\<rparr>\<rparr>"

definition updProtected :: "(protected_pvc list \<Rightarrow> protected_pvc list) \<Rightarrow> vrgs \<Rightarrow> vrgs" where
  "updProtected f = updStatus (\<lambda>st. st\<lparr>vProtectedPVCs := f (vProtectedPVCs st)\<rparr>)"

definition updConditions :: "(conditions \<Rightarrow> conditions) \<Rightarrow> vrgs \<Rightarrow> vrgs" where
  "updConditions f = updStatus (\<lambda>st. st\<lparr>vConditions := f (vConditions st)\<rparr>)"

definition requeueVRG :: "unit vrgm" where
  "requeueVRG = modifyM (\<lambda>s. s\<lparr>iRequeue := True\<rparr>)"

section \<open>API calls\<close>

text \<open>
  An object that is deleted while it has finalizers stays, marked for deletion, until they are gone; an update does not
  change the mark.
\<close>

definition updateClaim :: "claim \<Rightarrow> unit vrgm" where
  "updateClaim c =
     (let key = (claimName c, claimNamespace c)
      in seqM apiCall
           (bindM (getsM (\<lambda>s. kClaims s key))
              (\<lambda>r. case r of
                 None \<Rightarrow> failM (Gerr NotFound (claimName c @ '' not found''))
               | Some old \<Rightarrow>
                   modifyM (kClaims_update (\<lambda>m. m(key :=
                     if claimDeleted old \<and> claimFinalizers c = [] then None else Some (c\<lparr>claimDeleted := claimDeleted old\<rparr>)))))))"

definition createClaim :: "claim \<Rightarrow> unit vrgm" where
  "createClaim c =
     (let key = (claimName c, claimNamespace c)
      in seqM (createIn kClaims kClaims_update (claimName c) (claimNamespace c) (c\<lparr>claimDeleted := False\<rparr>))
           (modifyM (\<lambda>s. s\<lparr>kClaimOrder := (if key \<in> set (kClaimOrder s) then kClaimOrder s else kClaimOrder s @ [key])\<rparr>)))"

definition updateVolume :: "volume \<Rightarrow> unit vrgm" where
  "updateVolume pv = updateIn kVolumes kVolumes_update (pvName pv) [] pv"

definition createVolume :: "volume \<Rightarrow> unit vrgm" where
  "createVolume pv =
     seqM (createIn kVolumes kVolumes_update (pvName pv) [] (pv\<lparr>pvDeleted := False, pvPhase := VolumePending\<rparr>))
       (modifyM (\<lambda>s. s\<lparr>kVolumeOrder := (if pvName pv \<in> set (kVolumeOrder s) then kVolumeOrder s else kVolumeOrder s @ [pvName pv])\<rparr>))"

definition markDeleted :: "'z volume_replication_scheme \<Rightarrow> 'z volume_replication_scheme option" where
  "markDeleted vr = (if vrFinalizers vr = [] then None else Some (vr\<lparr>vrDeleted := True\<rparr>))"

definition deleteReplication ::
  "(vrgs \<Rightarrow> 'z volume_replication_scheme store) \<Rightarrow> (('z volume_replication_scheme store \<Rightarrow> 'z volume_replication_scheme store) \<Rightarrow> vrgs \<Rightarrow> vrgs)
     \<Rightarrow> string \<Rightarrow> string \<Rightarrow> unit vrgm" where
  "deleteReplication field upd name ns =
     seqM apiCall
       (bindM (getsM (\<lambda>s. field s (name, ns)))
          (\<lambda>r. case r of
             None \<Rightarrow> failM (Gerr NotFound (name @ '' not found''))
           | Some vr \<Rightarrow> modifyM (upd (\<lambda>m. m((name, ns) := markDeleted vr)))))"

text \<open>
  An update of the VRG leaves its status, an update of the status the rest; both leave the server's object in memory.
\<close>

definition storeInstance :: "vrg \<Rightarrow> vrgs \<Rightarrow> vrgs" where
  "storeInstance v s =
     (let v' = v\<lparr>vResourceVersion := show_nat (Suc (kVersion s))\<rparr>
      in s\<lparr>kVersion := Suc (kVersion s), kServerVRG := v', iVrg := v'\<rparr>)"

definition updateInstance :: "unit vrgm" where
  "updateInstance =
     seqM apiCall (modifyM (\<lambda>s. storeInstance ((iVrg s)\<lparr>vStatus := vStatus (kServerVRG s)\<rparr>) s))"

definition updateServerStatus :: "unit vrgm" where
  "updateServerStatus =
     seqM apiCall (modifyM (\<lambda>s. storeInstance ((kServerVRG s)\<lparr>vStatus := vrgStatusOf s\<rparr>) s))"

text \<open>Listing with a label selector of equalities.\<close>

definition matchesLabels :: "strmap \<Rightarrow> strmap \<Rightarrow> bool" where
  "matchesLabels sel labels \<longleftrightarrow> list_all (\<lambda>(k, v). map_of labels k = Some v) sel"

definition listAll :: "(vrgs \<Rightarrow> 'v list) \<Rightarrow> ('v \<Rightarrow> bool) \<Rightarrow> 'v list vrgm" where
  "listAll field P = seqM apiCall (getsM (\<lambda>s. filter P (field s)))"

definition claimsInOrder :: "vrgs \<Rightarrow> claim list" where
  "claimsInOrder s = List.map_filter (kClaims s) (kClaimOrder s)"

definition volumesInOrder :: "vrgs \<Rightarrow> volume list" where
  "volumesInOrder s = List.map_filter (\<lambda>n. kVolumes s (n, [])) (kVolumeOrder s)"

definition vgrsInOrder :: "vrgs \<Rightarrow> volume_group_replication list" where
  "vgrsInOrder s = List.map_filter (kVGRs s) (kVGROrder s)"

section \<open>Utilities\<close>

definition IsCRDInstalled :: "string \<Rightarrow> bool vrgm" where
  "IsCRDInstalled crdName =
     bindM (attemptM apiCall)
       (\<lambda>r. case r of Inl _ \<Rightarrow> ret False | Inr _ \<Rightarrow> getsM (\<lambda>s. crdName \<in> set (kCRDs s)))"

definition IsCGEnabledForVolRep :: "bool vrgm" where
  "IsCGEnabledForVolRep = IsCRDInstalled ''volumegroupreplications.replication.storage.openshift.io''"

definition IsCGEnabledForVolSync :: "bool vrgm" where
  "IsCGEnabledForVolSync =
     bindM (IsCRDInstalled ''volumegroupsnapshots.groupsnapshot.storage.k8s.io'')
       (\<lambda>b. if b then ret True else IsCRDInstalled ''volumegroupsnapshots.groupsnapshot.storage.openshift.io'')"

definition ConsistencyGroupLabel :: string where
  "ConsistencyGroupLabel = ''ramendr.openshift.io/consistency-group''"

definition isCGEnabled :: "claim \<Rightarrow> (string \<times> bool) vrgm" where
  "isCGEnabled pvc =
     (case map_of (claimLabels pvc) ConsistencyGroupLabel of
        None \<Rightarrow> ret ([], False)
      | Some cg \<Rightarrow> bindM IsCGEnabledForVolRep (\<lambda>b. ret (cg, b)))"

definition vrgGlobalVGRLabel :: "vrg \<Rightarrow> string" where
  "vrgGlobalVGRLabel v = sm_get (vLabels v) ''ramendr.openshift.io/global-vgr''"

definition vrgHasGlobalVGRLabel :: "vrg \<Rightarrow> bool" where
  "vrgHasGlobalVGRLabel v \<longleftrightarrow> vrgGlobalVGRLabel v \<noteq> []"

definition globalVGRNamespacedName :: "vrgs \<Rightarrow> string \<times> string" where
  "globalVGRNamespacedName s = (vrgGlobalVGRLabel (iVrg s), iOperatorNamespace s)"

definition asciiLower :: "char \<Rightarrow> char" where
  "asciiLower c = (if of_char c \<in> {65 :: nat..90} then char_of (of_char c + 32 :: nat) else c)"

definition trimRight :: "char list \<Rightarrow> string \<Rightarrow> string" where
  "trimRight cutset w = rev (dropWhile (\<lambda>c. c \<in> set cutset) (rev w))"

definition TrimToK8sResourceNameLength :: "string \<Rightarrow> string" where
  "TrimToK8sResourceNameLength name = (if length name > 63 then trimRight ''-.'' (take 63 name) else name)"

definition CreateVGRName :: "string \<Rightarrow> string \<Rightarrow> string" where
  "CreateVGRName prefix suffix =
     TrimToK8sResourceNameLength (''vgr-'' @ map asciiLower prefix @ ''-'' @ map asciiLower suffix)"

definition vgrNamespacedName :: "vrgs \<Rightarrow> string \<Rightarrow> string \<Rightarrow> string \<times> string" where
  "vgrNamespacedName s cg pvcNs =
     (if vrgHasGlobalVGRLabel (iVrg s) then globalVGRNamespacedName s
      else (CreateVGRName cg (vName (iVrg s)), pvcNs))"

definition replicationStateText :: "replication_state \<Rightarrow> string" where
  "replicationStateText st = (case st of ReplicationStateUnset \<Rightarrow> [] | Primary \<Rightarrow> ''primary'' | Secondary \<Rightarrow> ''secondary'')"

text \<open>Owner labels, and the map operations of \<^verbatim>\<open>util/maps.go\<close> with which they are set and removed.\<close>

definition OwnerLabels :: "vrg \<Rightarrow> strmap" where
  "OwnerLabels v =
     [(''ramendr.openshift.io/owner-name'', vName v), (''ramendr.openshift.io/owner-namespace-name'', vNamespace v)]"

datatype comparison = Different | Same | Absent

definition MapInsertOnlyAll :: "strmap \<Rightarrow> strmap \<Rightarrow> comparison \<times> strmap" where
  "MapInsertOnlyAll src dst =
     (if list_ex (\<lambda>(k, v). sm_has dst k \<and> sm_get dst k \<noteq> v) src then (Different, dst)
      else if list_all (\<lambda>(k, v). sm_has dst k) src then (Same, dst)
      else (Absent, foldl (\<lambda>m (k, v). sm_put k v m) dst src))"

definition MapDelete :: "strmap \<Rightarrow> strmap \<Rightarrow> bool \<times> strmap" where
  "MapDelete src dst =
     foldl (\<lambda>(diff, m) (k, v). if sm_has m k \<and> sm_get m k \<noteq> v then (diff, m) else (True, sm_delete k m))
       (False, dst) src"

definition ObjectOwnerSetIfNotAlready :: "strmap \<Rightarrow> vrg \<Rightarrow> comparison \<times> strmap" where
  "ObjectOwnerSetIfNotAlready labels owner = MapInsertOnlyAll (OwnerLabels owner) labels"

definition ObjectOwnerUnsetIfSet :: "strmap \<Rightarrow> vrg \<Rightarrow> bool \<times> strmap" where
  "ObjectOwnerUnsetIfSet labels owner = MapDelete (OwnerLabels owner) labels"

section \<open>Use of a PVC\<close>

definition isPodReady :: "(string \<times> condition_status) list \<Rightarrow> bool" where
  "isPodReady cs = list_ex (\<lambda>(t, st). t = ''Ready'' \<and> st = ConditionTrue) cs"

text \<open>The last running pod decides whether the mounting pod is ready.\<close>

definition IsPVCInUseByPod :: "string \<Rightarrow> string \<Rightarrow> bool \<Rightarrow> bool vrgm" where
  "IsPVCInUseByPod name ns inUsePodMustBeReady =
     bindM (catchM (listAll kPods (\<lambda>p. podNamespace p = ns \<and> name \<in> set (podClaims p)))
              (\<lambda>e. failM (wrapE ''unable to lookup pods to check if pvc is in use ('' e '')'')))
       (\<lambda>pods. if pods = [] then ret False
               else if inUsePodMustBeReady
               then ret (foldl (\<lambda>r p. if podRunning p then isPodReady (podConditions p) else r) False pods)
               else ret True)"

text \<open>An error of the list call is logged and not returned: the list is then empty.\<close>

definition IsPVAttachedToNode :: "claim \<Rightarrow> bool vrgm" where
  "IsPVAttachedToNode pvc =
     (if claimVolumeName pvc = [] then ret False
      else bindM (catchM (listAll kAttachedVolumes (\<lambda>pv. pv = claimVolumeName pvc)) (\<lambda>e. ret []))
             (\<lambda>attached. ret (attached \<noteq> [])))"

section \<open>Conditions of one PVC\<close>

definition updatePVC :: "(int \<Rightarrow> int \<Rightarrow> conditions \<Rightarrow> conditions) \<Rightarrow> string \<Rightarrow> string \<Rightarrow> unit vrgm" where
  "updatePVC f ns name =
     modifyM (\<lambda>s. updProtected (updatePVCConditions ns name (f (clock s) (vGeneration (iVrg s)))) s)"

definition updatePVCDataReadyCondition :: "string \<Rightarrow> string \<Rightarrow> string \<Rightarrow> string \<Rightarrow> unit vrgm" where
  "updatePVCDataReadyCondition ns name reason message =
     updatePVC (\<lambda>now. setPVCDataReadyCondition now reason message) ns name"

definition updatePVCDataProtectedCondition :: "string \<Rightarrow> string \<Rightarrow> string \<Rightarrow> string \<Rightarrow> unit vrgm" where
  "updatePVCDataProtectedCondition ns name reason message =
     updatePVC (\<lambda>now. setPVCDataProtectedCondition now reason message) ns name"

definition updatePVCClusterDataProtectedCondition :: "string \<Rightarrow> string \<Rightarrow> string \<Rightarrow> string \<Rightarrow> unit vrgm" where
  "updatePVCClusterDataProtectedCondition ns name reason message =
     updatePVC (\<lambda>now. setPVCClusterDataProtectedCondition now reason message) ns name"

definition updatePVCDestinationInfoAvailableCondition :: "string \<Rightarrow> string \<Rightarrow> string \<Rightarrow> string \<Rightarrow> unit vrgm" where
  "updatePVCDestinationInfoAvailableCondition ns name reason message =
     updatePVC (\<lambda>now. setPVCDestinationInfoAvailableCondition now reason message) ns name"

definition updatePVCReplicationHealthyCondition ::
  "string \<Rightarrow> string \<Rightarrow> condition_status \<Rightarrow> string \<Rightarrow> string \<Rightarrow> unit vrgm" where
  "updatePVCReplicationHealthyCondition ns name st reason message =
     updatePVC (\<lambda>now generation cs. putCondition now cs (mkCondition ''ReplicationHealthy'' reason generation st message))
       ns name"

text \<open>The same write for each of several PVCs.\<close>

definition forClaims :: "claim list \<Rightarrow> (string \<Rightarrow> string \<Rightarrow> unit vrgm) \<Rightarrow> unit vrgm" where
  "forClaims pvcs f = forM pvcs (\<lambda>pvc. f (claimNamespace pvc) (claimName pvc))"

end
