(* ===== verification/Ramen_VolRepStatus.thy ===== *)
theory Ramen_VolRepStatus
  imports Ramen_VrgState
begin

text \<open>
  From the status of a VolumeReplication or a VolumeGroupReplication to the conditions of the PVCs it replicates
  (\<^verbatim>\<open>vrg_volrep.go\<close>, \<^verbatim>\<open>checkVRStatus\<close> and what it calls, with the short cut for a global group of
  \<^verbatim>\<open>vrg_volgrouprep_global.go\<close>). The resource is passed as its generation and its status, which is all these
  functions read of it besides the name they log.
\<close>

section \<open>Conditions of the replication resource\<close>

datatype condition_state = ConditionMissing | ConditionStale | ConditionIndeterminate | ConditionKnown

definition isVRConditionMet ::
  "int \<Rightarrow> vr_status \<Rightarrow> string \<Rightarrow> condition_status \<Rightarrow> bool \<times> condition_state \<times> string" where
  "isVRConditionMet generation status conditionType desired =
     (case FindCondition (vrsConditions status) conditionType of
        None \<Rightarrow> (False, ConditionMissing,
                  ''Failed to get the '' @ conditionType @ '' condition from status of VolumeReplication resource.'')
      | Some c \<Rightarrow>
          if generation \<noteq> cObservedGeneration c
          then (False, ConditionStale,
                ''Stale generation for condition '' @ conditionType @ '' from status of VolumeReplication resource.'')
          else if cStatus c = ConditionUnknown
          then (False, ConditionIndeterminate,
                ''Unknown status for condition '' @ conditionType @ '' from status of VolumeReplication resource.'')
          else if cStatus c \<noteq> desired then (False, ConditionKnown, cMessage c)
          else (True, ConditionKnown, []))"

definition orDefault :: "string \<Rightarrow> string \<Rightarrow> string" where
  "orDefault message other = (if message = [] then other else message)"

definition setErrors :: "claim list \<Rightarrow> string \<Rightarrow> unit vrgm" where
  "setErrors pvcs message =
     forClaims pvcs (\<lambda>ns name. seqM (updatePVCDataReadyCondition ns name ''Error'' message)
                              (updatePVCDataProtectedCondition ns name ''Error'' message))"

definition validateVRValidatedStatus :: "claim list \<Rightarrow> int \<Rightarrow> vr_status \<Rightarrow> (bool \<times> condition_state) vrgm" where
  "validateVRValidatedStatus pvcs generation status =
     (case isVRConditionMet generation status ''Validated'' ConditionTrue of
        (met, st, errorMsg) \<Rightarrow>
          seqM (whenM (\<not> met \<and> st \<noteq> ConditionMissing)
                  (setErrors pvcs (orDefault errorMsg ''VolumeReplication resource not validated'')))
            (ret (met, st)))"

definition validateVRCompletedStatus :: "claim list \<Rightarrow> int \<Rightarrow> replication_state \<Rightarrow> vr_status \<Rightarrow> bool vrgm" where
  "validateVRCompletedStatus pvcs generation state status =
     (case isVRConditionMet generation status ''Completed'' ConditionTrue of
        (met, _, errorMsg) \<Rightarrow>
          if met then ret True
          else seqM (setErrors pvcs
                       (orDefault errorMsg
                          (''VolumeReplication resource for pvc not ''
                           @ (case state of Primary \<Rightarrow> ''promoted to primary'' | Secondary \<Rightarrow> ''demoted to secondary''
                                | _ \<Rightarrow> '' to ''))))
                 (ret False))"

section \<open>What is copied to the PVCs\<close>

definition checkAndUpdateDestinationInfoAvailable :: "claim list \<Rightarrow> vr_status \<Rightarrow> unit vrgm" where
  "checkAndUpdateDestinationInfoAvailable pvcs status =
     (case FindCondition (vrsConditions status) ''DestinationInfoAvailable'' of
        None \<Rightarrow> ret ()
      | Some c \<Rightarrow>
          forClaims pvcs
            (\<lambda>ns name.
               if cStatus c = ConditionTrue
               then updatePVCDestinationInfoAvailableCondition ns name ''Ready''
                      ''VolumeReplication destination info is available''
               else updatePVCDestinationInfoAvailableCondition ns name ''Progressing''
                      ''VolumeReplication destination info not yet available''))"

definition checkAndUpdateReplicationHealthy :: "claim list \<Rightarrow> vr_status \<Rightarrow> unit vrgm" where
  "checkAndUpdateReplicationHealthy pvcs status =
     (case FindCondition (vrsConditions status) ''Replicating'' of
        None \<Rightarrow> ret ()
      | Some c \<Rightarrow>
          forClaims pvcs
            (\<lambda>ns name.
               updatePVCReplicationHealthyCondition ns name (cStatus c)
                 (case cStatus c of ConditionTrue \<Rightarrow> ''Ready'' | ConditionFalse \<Rightarrow> ''Error''
                    | ConditionUnknown \<Rightarrow> ''UnknownError'')
                 (orDefault (cMessage c) ''VolumeReplication Replicating condition has no message'')))"

definition pvcInGroupedList :: "string list list \<Rightarrow> string \<Rightarrow> bool" where
  "pvcInGroupedList groups name \<longleftrightarrow> list_ex (\<lambda>g. name \<in> set g) groups"

definition groupAlreadyHasThisSyncTime :: "vrgs \<Rightarrow> string \<Rightarrow> int \<Rightarrow> bool" where
  "groupAlreadyHasThisSyncTime s name syncTime \<longleftrightarrow>
     list_ex (\<lambda>other. pvcName other \<noteq> name \<and> pvcLastSyncTime other = Some syncTime
                \<and> list_ex (\<lambda>g. name \<in> set g \<and> pvcName other \<in> set g) (vPVCGroups (vrgStatusOf s)))
       (vProtectedPVCs (iSaved s))"

definition isPVCSyncedInVGR :: "vrgs \<Rightarrow> claim \<Rightarrow> protected_pvc \<Rightarrow> int option \<Rightarrow> bool" where
  "isPVCSyncedInVGR s pvc protectedPVC syncTime =
     (case syncTime of
        None \<Rightarrow> True
      | Some t \<Rightarrow>
          if \<not> pvcInGroupedList (vPVCGroups (vrgStatusOf s)) (claimName pvc) then False
          else if \<not> t > claimCreationTimestamp pvc then False
          else \<not> (pvcLastSyncTime protectedPVC = None \<and> groupAlreadyHasThisSyncTime s (claimName pvc) t))"

definition setSyncCounters :: "int option \<Rightarrow> int option \<Rightarrow> int option \<Rightarrow> protected_pvc \<Rightarrow> protected_pvc" where
  "setSyncCounters t d b p =
     (let p' = p\<lparr>pvcLastSyncTime := t, pvcLastSyncDuration := d\<rparr>
      in if pvcProtectedByVolSync p' then p' else p'\<lparr>pvcLastSyncBytes := b\<rparr>)"

definition writeSyncCounters :: "claim \<Rightarrow> int option \<Rightarrow> int option \<Rightarrow> int option \<Rightarrow> unit vrgm" where
  "writeSyncCounters pvc t d b =
     modifyM (updProtected (writePVC (claimNamespace pvc) (claimName pvc) (setSyncCounters t d b)))"

definition updatePVCLastSyncCounters :: "claim \<Rightarrow> vr_status option \<Rightarrow> unit vrgm" where
  "updatePVCLastSyncCounters pvc status =
     bindM (getsM (\<lambda>s. FindProtectedPVC (protectedPVCs s) (claimNamespace pvc) (claimName pvc)))
       (\<lambda>found. case found of
          None \<Rightarrow> ret ()
        | Some protectedPVC \<Rightarrow>
            (case status of
               None \<Rightarrow> writeSyncCounters pvc None None None
             | Some st \<Rightarrow>
                 bindM (isCGEnabled pvc)
                   (\<lambda>(_, cgEnabled).
                      bindM (getsM (\<lambda>s. isPVCSyncedInVGR s pvc protectedPVC (vrsLastSyncTime st)))
                        (\<lambda>synced.
                           if cgEnabled \<and> \<not> synced then ret ()
                           else writeSyncCounters pvc (vrsLastSyncTime st) (vrsLastSyncDuration st)
                                  (vrsLastSyncBytes st)))))"

section \<open>The checks\<close>

definition checkResyncCompletionAsSecondary :: "claim list \<Rightarrow> int \<Rightarrow> vr_status \<Rightarrow> bool vrgm" where
  "checkResyncCompletionAsSecondary pvcs generation status =
     (case isVRConditionMet generation status ''Resyncing'' ConditionFalse of
        (met, _, errorMsg) \<Rightarrow>
          if \<not> met
          then seqM (setErrors pvcs (orDefault errorMsg ''VolumeReplication resource for pvc not syncing as Secondary''))
                 (ret False)
          else (case isVRConditionMet generation status ''Degraded'' ConditionFalse of
             (met, _, errorMsg) \<Rightarrow>
               if \<not> met
               then seqM (setErrors pvcs
                            (orDefault errorMsg
                               ''VolumeReplication resource for pvc is not syncing and is degraded as Secondary''))
                      (ret False)
               else if vrsState status \<noteq> VRSecondaryState
               then seqM (setErrors pvcs
                            ''VolumeReplication resource is not syncing and is not degraded, but still not in Secondary state'')
                      (ret False)
               else let msg = ''VolumeReplication resource for the pvc as Secondary is in sync with Primary''
                    in seqM (forClaims pvcs
                               (\<lambda>ns name. seqM (updatePVCDataReadyCondition ns name ''Replicated'' msg)
                                  (updatePVCDataProtectedCondition ns name ''DataProtected'' msg)))
                         (seqM (checkAndUpdateDestinationInfoAvailable pvcs status)
                            (seqM (checkAndUpdateReplicationHealthy pvcs status) (ret True)))))"

definition validateAdditionalVRStatusForSecondary :: "claim list \<Rightarrow> int \<Rightarrow> vr_status \<Rightarrow> bool vrgm" where
  "validateAdditionalVRStatusForSecondary pvcs generation status =
     seqM (forM pvcs (\<lambda>pvc. updatePVCLastSyncCounters pvc None))
       (if \<not> fst (isVRConditionMet generation status ''Resyncing'' ConditionTrue)
        then checkResyncCompletionAsSecondary pvcs generation status
        else (case isVRConditionMet generation status ''Degraded'' ConditionTrue of
          (met, _, errorMsg) \<Rightarrow>
            if \<not> met
            then let msg = orDefault errorMsg
                             ''VolumeReplication resource for pvc is not in Degraded condition while resyncing''
                 in seqM (forClaims pvcs
                            (\<lambda>ns name. seqM (updatePVCDataProtectedCondition ns name ''Error'' msg)
                               (updatePVCDataReadyCondition ns name ''Error'' msg)))
                      (ret False)
            else let msg = ''VolumeReplication resource for the pvc is syncing as Secondary''
                 in seqM (forClaims pvcs
                            (\<lambda>ns name. seqM (updatePVCDataReadyCondition ns name ''Replicating'' msg)
                               (updatePVCDataProtectedCondition ns name ''Replicating'' msg)))
                      (seqM (checkAndUpdateDestinationInfoAvailable pvcs status)
                         (seqM (checkAndUpdateReplicationHealthy pvcs status) (ret True)))))"

definition readyAsPrimary :: "claim list \<Rightarrow> vr_status \<Rightarrow> bool vrgm" where
  "readyAsPrimary pvcs status =
     (let msg = ''PVC in the VolumeReplicationGroup is ready for use''
      in seqM (forM pvcs
                 (\<lambda>pvc. seqM (updatePVCDataReadyCondition (claimNamespace pvc) (claimName pvc) ''Ready'' msg)
                    (seqM (updatePVCDataProtectedCondition (claimNamespace pvc) (claimName pvc) ''Ready'' msg)
                       (updatePVCLastSyncCounters pvc (Some status)))))
           (seqM (checkAndUpdateDestinationInfoAvailable pvcs status)
              (seqM (checkAndUpdateReplicationHealthy pvcs status) (ret True))))"

definition validateVRStatus :: "claim list \<Rightarrow> int \<Rightarrow> replication_state \<Rightarrow> vr_status \<Rightarrow> bool vrgm" where
  "validateVRStatus pvcs generation state status =
     bindM (if state = Primary then validateVRValidatedStatus pvcs generation status else ret (True, ConditionKnown))
       (\<lambda>(validated, condState).
          if \<not> validated \<and> condState = ConditionKnown then getsM (\<lambda>s. vDeleted (iVrg s))
          else if \<not> validated \<and> condState \<noteq> ConditionMissing then ret False
          else bindM (validateVRCompletedStatus pvcs generation state status)
                 (\<lambda>completed.
                    if \<not> completed then ret False
                    else if state = Secondary then validateAdditionalVRStatusForSecondary pvcs generation status
                    else readyAsPrimary pvcs status))"

definition isGlobalVGRStateMatched :: "vr_status \<Rightarrow> replication_state \<Rightarrow> bool" where
  "isGlobalVGRStateMatched status desired =
     (case desired of
        Primary \<Rightarrow> vrsState status = VRPrimaryState
      | Secondary \<Rightarrow> vrsState status = VRSecondaryState
      | ReplicationStateUnset \<Rightarrow> False)"

definition validateGlobalVGRStatus :: "claim list \<Rightarrow> vr_status \<Rightarrow> replication_state \<Rightarrow> bool vrgm" where
  "validateGlobalVGRStatus pvcs status state =
     bindM (getsM (\<lambda>s. vrgHasGlobalVGRLabel (iVrg s)))
       (\<lambda>isGlobal.
          if \<not> isGlobal \<or> \<not> isGlobalVGRStateMatched status state then ret False
          else seqM (forM pvcs
                 (\<lambda>pvc. seqM (updatePVCDataReadyCondition (claimNamespace pvc) (claimName pvc)
                                (if state = Primary then ''Ready'' else ''Replicated'')
                                ''PVC in the VolumeReplicationGroup is ready for use'')
                    (seqM (updatePVCDataProtectedCondition (claimNamespace pvc) (claimName pvc) ''DataProtected''
                             ''PVC in the VolumeReplicationGroup is data protected by storage provider'')
                       (updatePVCLastSyncCounters pvc (Some status)))))
               (ret True))"

definition checkVRStatus :: "claim list \<Rightarrow> int \<Rightarrow> vr_status \<Rightarrow> bool vrgm" where
  "checkVRStatus pvcs generation status =
     bindM (getsM iVrg)
       (\<lambda>v. bindM (if vrgHasGlobalVGRLabel v
                   then validateGlobalVGRStatus pvcs status (vReplicationState (vSpec v)) else ret False)
          (\<lambda>done.
             if done then ret True
             else if generation \<noteq> vrsObservedGeneration status
             then seqM (forClaims pvcs
                          (\<lambda>ns name. updatePVCDataReadyCondition ns name ''Progressing''
                             ''VolumeReplication generation not updated in status''))
                    (ret False)
             else if vReplicationState (vSpec v) = Primary then validateVRStatus pvcs generation Primary status
             else if vReplicationState (vSpec v) = Secondary then validateVRStatus pvcs generation Secondary status
             else seqM (forClaims pvcs
                          (\<lambda>ns name. updatePVCDataReadyCondition ns name ''Error''
                             ''VolumeReplicationGroup state invalid''))
                    (ret False)))"

end
