(* ===== verification/Ramen_VolRepProtect.thy ===== *)
theory Ramen_VolRepProtect
  imports Ramen_VolRepStatus
begin

text \<open>
  How a PVC comes under the protection of a VRG and leaves it (\<^verbatim>\<open>vrg_volrep.go\<close>): the classes that fit it, its entry
  in the status, the owner labels, the finalizer and the annotation on the PVC, the reclaim policy of its volume. Go
  changes the PVC through a pointer; here a function that changes it returns it.
\<close>

section \<open>Classes\<close>

definition updateReplicationClassList :: "unit vrgm" where
  "updateReplicationClassList =
     bindM (getsM iVrcUpdated)
       (\<lambda>updated.
          if updated then ret ()
          else bindM (getsM (\<lambda>s. (kMatchLabels s, vAsync (vrgSpecOf s))))
            (\<lambda>(matchLabels, async). case async of
               None \<Rightarrow> failM nilDereference
             | Some a \<Rightarrow>
                 let sel = (\<lambda>c. matchesLabels (matchLabels (asReplicationClassSelector a)) (clLabels c))
                 in bindM (catchM (listAll kVRClasses sel) (\<lambda>e. failM (wrapE ''failed to list Replication Classes, '' e [])))
                      (\<lambda>vrcs.
                         seqM (modifyM (\<lambda>s. s\<lparr>iReplClassList := vrcs\<rparr>))
                           (bindM IsCGEnabledForVolRep
                              (\<lambda>cg.
                                 seqM (if cg
                                       then bindM (catchM (listAll kVGRClasses sel)
                                                     (\<lambda>e. failM (wrapE ''failed to list Group Replication Classes, '' e [])))
                                              (\<lambda>vgrcs. modifyM (\<lambda>s. s\<lparr>iGrpReplClassList := vgrcs\<rparr>))
                                       else ret ())
                                   (modifyM (\<lambda>s. s\<lparr>iVrcUpdated := True\<rparr>)))))))"

definition getStorageClassFromSCName :: "string \<Rightarrow> class_object vrgm" where
  "getStorageClassFromSCName className =
     bindM (getsM (\<lambda>s. iStorageClassCache s className))
       (\<lambda>cached. case cached of
          Some sc \<Rightarrow> ret sc
        | None \<Rightarrow>
            bindM (catchM (getFrom kStorageClasses className [])
                     (\<lambda>e. failM (wrapE (''failed to get the storageclass with name '' @ className @ '' ('') e '')'')))
              (\<lambda>sc. seqM (modifyM (\<lambda>s. s\<lparr>iStorageClassCache := (iStorageClassCache s)(className \<mapsto> sc)\<rparr>)) (ret sc)))"

definition getStorageClass :: "claim \<Rightarrow> class_object vrgm" where
  "getStorageClass pvc =
     (case claimStorageClassName pvc of
        None \<Rightarrow> failM (newE (''missing StorageClass name for pvc ('' @ claimNamespace pvc @ ''/'' @ claimName pvc @ '')''))
      | Some className \<Rightarrow>
          if className = []
          then failM (newE (''missing StorageClass name for pvc ('' @ claimNamespace pvc @ ''/'' @ claimName pvc @ '')''))
          else getStorageClassFromSCName className)"

definition filterDefaultVRC :: "class_object list \<Rightarrow> string \<Rightarrow> gerr + class_object" where
  "filterDefaultVRC classes objType =
     (case filter (\<lambda>c. sm_get (clAnnotations c) ''replication.storage.openshift.io/is-default-class'' = ''true'') classes of
        [] \<Rightarrow> Inl (newE (''multiple '' @ objType @ '' found, with no default annotation''))
      | [c] \<Rightarrow> Inr c
      | _ \<Rightarrow> Inl (newE (''multiple '' @ objType @ '' found with default annotation'')))"

definition matchingReplicationClass :: "vrg_async_spec \<Rightarrow> class_object \<Rightarrow> string \<Rightarrow> class_object \<Rightarrow> bool" where
  "matchingReplicationClass async storageClass rIDLabel c \<longleftrightarrow>
     clProvisioner storageClass = clProvisioner c
     \<and> map_of (clParameters c) ReplicationClassScheduleKey = Some (asSchedulingInterval async)
     \<and> (asPeerClasses async \<noteq> [] \<longrightarrow>
          sm_has (clLabels c) StorageIDLabel
          \<and> sm_get (clLabels c) StorageIDLabel = sm_get (clLabels storageClass) StorageIDLabel
          \<and> sm_has (clLabels c) rIDLabel
          \<and> sm_get (clLabels c) rIDLabel = sm_get (clLabels storageClass) rIDLabel)"

definition selectVolumeReplicationClass :: "claim \<Rightarrow> bool \<Rightarrow> class_object vrgm" where
  "selectVolumeReplicationClass pvc selectVolumeGroup =
     seqM updateReplicationClassList
       (bindM (getsM (\<lambda>s. (iReplClassList s, iGrpReplClassList s, vAsync (vrgSpecOf s))))
          (\<lambda>(repl, grp, async).
             if repl = [] \<and> grp = []
             then failM (newE ''no VolumeReplicationClass and VolumeGroupReplicationClass available'')
             else bindM (catchM (getStorageClass pvc)
                           (\<lambda>e. failM (wrapE (''failed to get the storageclass of pvc '' @ claimName pvc @ '' ('') e '')'')))
               (\<lambda>storageClass.
                  case async of
                    None \<Rightarrow> failM nilDereference
                  | Some a \<Rightarrow>
                      let classes = (if selectVolumeGroup then grp else repl);
                          objType = (if classes = [] then []
                                     else if selectVolumeGroup then ''VolumeGroupReplicationClass''
                                     else ''VolumeReplicationClass'');
                          rIDLabel = (if selectVolumeGroup then GroupReplicationIDLabel else ReplicationIDLabel)
                      in case filter (matchingReplicationClass a storageClass rIDLabel) classes of
                           [] \<Rightarrow> failM (newE (''no '' @ objType @ '' found to match provisioner and schedule''))
                         | [c] \<Rightarrow> ret c
                         | cs \<Rightarrow> liftE (filterDefaultVRC cs objType))))"

definition getVGRClassReplicationID :: "claim \<Rightarrow> string vrgm" where
  "getVGRClassReplicationID pvc =
     bindM (getStorageClass pvc)
       (\<lambda>sc. case map_of (clLabels sc) GroupReplicationIDLabel of
          None \<Rightarrow> failM (newE (''storageClass '' @ clName sc @ '' is missing groupReplicationID for PVC ''
                                @ claimNamespace pvc @ ''/'' @ claimName pvc))
        | Some grID \<Rightarrow> ret grID)"

section \<open>The entry of a PVC in the status\<close>

definition MModesFromCSV :: "string \<Rightarrow> string list" where
  "MModesFromCSV modes = filter (\<lambda>m. m = ''Failover'') (splitOn CHR '','' modes)"

definition storageIDFromLabels :: "strmap \<Rightarrow> string \<Rightarrow> storage_id \<Rightarrow> storage_id" where
  "storageIDFromLabels labels label sid =
     (case map_of labels label of
        None \<Rightarrow> sid
      | Some value \<Rightarrow>
          (case map_of labels MModesLabel of
             None \<Rightarrow> sid\<lparr>idID := value\<rparr>
           | Some modes \<Rightarrow> sid\<lparr>idID := value, idModes := MModesFromCSV modes\<rparr>))"

definition setPVCStorageIdentifiers :: "class_object \<Rightarrow> claim \<Rightarrow> unit vrgm" where
  "setPVCStorageIdentifiers storageClass pvc =
     (if sm_has (clLabels storageClass) StorageOffloadedLabel then ret ()
      else bindM (catchM (selectVolumeReplicationClass pvc False)
                    (\<lambda>e. failM (wrapE ''failed to find the appropriate VolumeReplicationClass '' e [])))
        (\<lambda>vrc. modifyM (updProtected (writePVC (claimNamespace pvc) (claimName pvc)
           (\<lambda>p. p\<lparr>pvcStorageIdentifiers := (let si = pvcStorageIdentifiers p in
              si\<lparr>siStorageProvisioner := clProvisioner storageClass,
                 siStorageID := storageIDFromLabels (clLabels storageClass) StorageIDLabel (siStorageID si),
                 siReplicationID := storageIDFromLabels (clLabels vrc) ReplicationIDLabel (siReplicationID si)\<rparr>)\<rparr>)))))"

definition updateProtectedPVCs :: "claim \<Rightarrow> unit vrgm" where
  "updateProtectedPVCs pvc =
     bindM (getsM (\<lambda>s. vSync (vrgSpecOf s)))
       (\<lambda>sync.
          if sync \<noteq> None then ret ()
          else bindM (catchM (getStorageClass pvc)
                        (\<lambda>e. failM (wrapE (''failed to get the storageclass for pvc '' @ claimName pvc @ '' ('') e '')'')))
            (\<lambda>storageClass.
               bindM (isCGEnabled pvc)
                 (\<lambda>(_, selectVolumeGroup).
                    bindM (catchM (selectVolumeReplicationClass pvc selectVolumeGroup)
                             (\<lambda>e. failM (wrapE ''failed to find the appropriate VolumeReplicationClass '' e [])))
                      (\<lambda>_.
                         seqM (modifyM (updProtected (\<lambda>ps.
                                 writePVC (claimNamespace pvc) (claimName pvc)
                                   (\<lambda>p. p\<lparr>pvcProtectedByVolSync := False,
                                          pvcStorageClassName := claimStorageClassName pvc,
                                          pvcLabels := claimLabels pvc,
                                          pvcAccessModes := claimAccessModes pvc,
                                          pvcResources := claimResources pvc,
                                          pvcVolumeMode := claimVolumeMode pvc\<rparr>)
                                   (case FindProtectedPVC ps (claimNamespace pvc) (claimName pvc) of
                                      None \<Rightarrow> addProtectedPVC ps (claimNamespace pvc) (claimName pvc)
                                    | Some _ \<Rightarrow> ps))))
                           (setPVCStorageIdentifiers storageClass pvc)))))"

section \<open>Protecting a PVC\<close>

definition PvcVRFinalizerProtected :: string where
  "PvcVRFinalizerProtected = ''volumereplicationgroups.ramendr.openshift.io/pvc-vr-protection''"

definition pvcVRAnnotationProtectedKey :: string where
  "pvcVRAnnotationProtectedKey = ''volumereplicationgroups.ramendr.openshift.io/vr-protected''"

definition pvcVRAnnotationArchivedKey :: string where
  "pvcVRAnnotationArchivedKey = ''volumereplicationgroups.ramendr.openshift.io/vr-archived''"

definition pvVRAnnotationRetentionKey :: string where
  "pvVRAnnotationRetentionKey = ''volumereplicationgroups.ramendr.openshift.io/vr-retained''"

definition pvLeftBehindLabelKey :: string where
  "pvLeftBehindLabelKey = ''ramendr.openshift.io/pv-left-behind-by-ramen''"

definition isPVCDeletedAndNotProtected :: "claim \<Rightarrow> bool \<times> string" where
  "isPVCDeletedAndNotProtected pvc =
     (if PvcVRFinalizerProtected \<notin> set (claimFinalizers pvc) \<and> claimDeleted pvc
      then (True, ''Skipping pvc marked for deletion'') else (False, []))"

definition skipPVC :: "claim \<Rightarrow> bool \<times> string" where
  "skipPVC pvc = (if \<not> claimBound pvc then (True, ''PVC not bound yet'') else isPVCDeletedAndNotProtected pvc)"

definition annotateClaim :: "claim \<Rightarrow> string \<Rightarrow> string \<Rightarrow> claim vrgm" where
  "annotateClaim pvc key value =
     (if map_of (claimAnnotations pvc) key = Some value then ret pvc
      else let pvc' = pvc\<lparr>claimAnnotations := sm_put key value (claimAnnotations pvc)\<rparr>
           in seqM (catchM (updateClaim pvc') (\<lambda>e. failM (wrapE ''failed to update PersistentVolumeClaim annotation, '' e [])))
                (ret pvc'))"

definition annotateVolume :: "volume \<Rightarrow> string \<Rightarrow> string \<Rightarrow> unit vrgm" where
  "annotateVolume pv key value =
     (if map_of (pvAnnotations pv) key = Some value then ret ()
      else catchM (updateVolume (pv\<lparr>pvAnnotations := sm_put key value (pvAnnotations pv)\<rparr>))
             (\<lambda>e. failM (wrapE ''failed to update PersistentVolume annotation, '' e [])))"

definition retainPVForPVC :: "claim \<Rightarrow> unit vrgm" where
  "retainPVForPVC pvc =
     bindM (catchM (getFrom kVolumes (claimVolumeName pvc) [])
              (\<lambda>e. failM (wrapE (''failed to get PersistentVolume resource ('' @ claimVolumeName pvc @ ''), '') e [])))
       (\<lambda>pv. if pvReclaimPolicy pv = ReclaimRetain then ret ()
             else annotateVolume (pv\<lparr>pvReclaimPolicy := ReclaimRetain\<rparr>) pvVRAnnotationRetentionKey ''retained'')"

definition dataReadyError :: "claim \<Rightarrow> string \<Rightarrow> unit vrgm" where
  "dataReadyError pvc msg = updatePVCDataReadyCondition (claimNamespace pvc) (claimName pvc) ''Error'' msg"

text \<open>The result is whether to requeue, and the PVC as it is left behind.\<close>

definition protectPVC :: "claim \<Rightarrow> (bool \<times> claim) vrgm" where
  "protectPVC pvc =
     bindM (getsM iVrg)
       (\<lambda>v. case ObjectOwnerSetIfNotAlready (claimLabels pvc) v of
          (Different, _) \<Rightarrow> seqM (dataReadyError pvc ''PVC owned by another resource'') (ret (False, pvc))
        | (owner, labels) \<Rightarrow>
            let finalizerAdded = (PvcVRFinalizerProtected \<notin> set (claimFinalizers pvc));
                pvc1 = pvc\<lparr>claimLabels := labels,
                           claimFinalizers := claimFinalizers pvc @ (if finalizerAdded then [PvcVRFinalizerProtected] else [])\<rparr>
            in bindM (attemptM (whenM (finalizerAdded \<or> owner = Absent) (updateClaim pvc1)))
                 (\<lambda>r. case r of
                    Inl _ \<Rightarrow> seqM (dataReadyError pvc1 ''Failed to update PVC to add owner and/or Protected Finalizer'')
                               (ret (True, pvc1))
                  | Inr _ \<Rightarrow>
                      bindM (attemptM (retainPVForPVC pvc1))
                        (\<lambda>r. case r of
                           Inl _ \<Rightarrow> seqM (dataReadyError pvc1 ''Failed to retain PV for PVC'') (ret (True, pvc1))
                         | Inr _ \<Rightarrow>
                             if claimDeleted pvc1 then ret (False, pvc1)
                             else bindM (attemptM (annotateClaim pvc1 pvcVRAnnotationProtectedKey ''protected''))
                               (\<lambda>r. case r of
                                  Inl _ \<Rightarrow> seqM (dataReadyError pvc1 ''Failed to add protected annotatation to PVC'')
                                             (ret (True, pvc1))
                                | Inr pvc2 \<Rightarrow> ret (False, pvc2)))))"

text \<open>The result is whether to requeue, whether to skip the PVC, and the PVC.\<close>

definition preparePVCForVRProtection :: "claim \<Rightarrow> (bool \<times> bool \<times> claim) vrgm" where
  "preparePVCForVRProtection pvc =
     (if sm_get (claimAnnotations pvc) pvcVRAnnotationProtectedKey = ''protected''
         \<and> PvcVRFinalizerProtected \<in> set (claimFinalizers pvc)
      then ret (False, False, pvc)
      else case skipPVC pvc of
        (True, msg) \<Rightarrow>
          seqM (updatePVCDataReadyCondition (claimNamespace pvc) (claimName pvc) ''Progressing''
                  (if msg = [] then ''PVC not ready'' else msg))
            (ret (False, True, pvc))
      | (False, _) \<Rightarrow> bindM (protectPVC pvc) (\<lambda>(requeue, pvc'). ret (requeue, False, pvc')))"

section \<open>Releasing a PVC\<close>

definition undoPVRetention :: "volume \<Rightarrow> volume" where
  "undoPVRetention pv =
     (if map_of (pvAnnotations pv) pvVRAnnotationRetentionKey \<noteq> Some ''retained'' then pv
      else pv\<lparr>pvReclaimPolicy := ReclaimDelete, pvAnnotations := sm_delete pvVRAnnotationRetentionKey (pvAnnotations pv)\<rparr>)"

definition getPVFromPVC :: "claim \<Rightarrow> volume vrgm" where
  "getPVFromPVC pvc =
     catchM (getFrom kVolumes (claimVolumeName pvc) [])
       (\<lambda>e. failM (wrapE (''failed to get PV '' @ claimVolumeName pvc @ '' from PVC '' @ claimName pvc @ '', '') e []))"

definition releasedVolume :: "vrg \<Rightarrow> string \<Rightarrow> volume \<Rightarrow> volume" where
  "releasedVolume v uid pv =
     (let pv1 = (if vAsync (vSpec v) \<noteq> None \<or> vReplicationState (vSpec v) = Primary then undoPVRetention pv
                 else pv\<lparr>pvLabels := sm_put pvLeftBehindLabelKey uid (pvLabels pv)\<rparr>)
      in pv1\<lparr>pvAnnotations := sm_delete pvcVRAnnotationArchivedKey (pvAnnotations pv1)\<rparr>)"

definition releasedClaim :: "vrg \<Rightarrow> claim \<Rightarrow> claim" where
  "releasedClaim v pvc =
     pvc\<lparr>claimLabels := sm_delete ConsistencyGroupLabel (snd (ObjectOwnerUnsetIfSet (claimLabels pvc) v)),
         claimFinalizers := filter (\<lambda>f. f \<noteq> PvcVRFinalizerProtected) (claimFinalizers pvc),
         claimAnnotations := sm_delete pvcVRAnnotationArchivedKey
           (sm_delete pvcVRAnnotationProtectedKey (claimAnnotations pvc))\<rparr>"

definition deletePVCStatus :: "claim \<Rightarrow> unit vrgm" where
  "deletePVCStatus pvc =
     modifyM (updProtected (\<lambda>ps. pvcStatusDeleteIfPresent ps (claimNamespace pvc) (claimName pvc)))"

definition preparePVCForVRDeletion :: "claim \<Rightarrow> unit vrgm" where
  "preparePVCForVRDeletion pvc =
     bindM (getPVFromPVC pvc)
       (\<lambda>pv. bindM (getsM (\<lambda>s. (iVrg s, iUID s)))
          (\<lambda>(v, uid).
             seqM (catchM (updateVolume (releasedVolume v uid pv))
                     (\<lambda>e. failM (wrapE ''failed to update PersistentVolume for deletion of VR, '' e [])))
               (seqM (catchM (updateClaim (releasedClaim v pvc))
                        (\<lambda>e. failM (wrapE ''failed to update PersistentVolumeClaim for deletion of VR, '' e [])))
                  (deletePVCStatus pvc))))"

text \<open>
  The volumes a Metro VRG leaves behind as secondary are deleted with it once they are released. An error of one
  volume does not stop the others; \<^verbatim>\<open>errors.Join\<close> of the errors is nil when there is none, and only
  that matters to the caller: the first error stands for the join.
\<close>

definition deleteLeftBehindPV :: "gerr list \<Rightarrow> volume \<Rightarrow> gerr list vrgm" where
  "deleteLeftBehindPV errs pv =
     (if pvPhase pv \<noteq> VolumeReleased \<or> pvDeleted pv then ret errs
      else bindM (attemptM (deleteIn kVolumes kVolumes_update (pvName pv) []))
        (\<lambda>r. case r of
           Inl e \<Rightarrow> if IsNotFound e then ret errs else ret (errs @ [wrapE ''failed to delete PersistentVolume, '' e []])
         | Inr _ \<Rightarrow> ret errs))"

definition deleteLeftBehindPVs :: "unit vrgm" where
  "deleteLeftBehindPVs =
     bindM (getsM (\<lambda>s. (vrgSpecOf s, iUID s)))
       (\<lambda>(sp, uid).
          if vSync sp = None \<or> vReplicationState sp \<noteq> Secondary then ret ()
          else bindM (catchM (listAll volumesInOrder (\<lambda>pv. map_of (pvLabels pv) pvLeftBehindLabelKey = Some uid))
                        (\<lambda>e. failM (wrapE ''failed to list PersistentVolumes left behind by VRG, '' e [])))
            (\<lambda>pvs. bindM (foldlM deleteLeftBehindPV [] pvs)
               (\<lambda>errs. case errs of [] \<Rightarrow> ret () | e # _ \<Rightarrow> failM e)))"

end
