(* ===== verification/Ramen_VolRep.thy ===== *)
theory Ramen_VolRep
  imports Ramen_VolRepProtect
begin

text \<open>
  The VolumeReplication of a PVC (\<^verbatim>\<open>vrg_volrep.go\<close>): creating, updating and deleting it, and the reconcile of one PVC
  as secondary, as primary up to the upload of its volume, and when its VRG is deleted. A Go function with results
  \<^verbatim>\<open>(requeue, ready, err)\<close> returns that triple here, the error as an option.
\<close>

section \<open>Creating and updating\<close>

definition autoResync :: "vrg \<Rightarrow> vr_replication_state \<Rightarrow> bool" where
  "autoResync v state =
     (if state \<noteq> VRSecondary then False
      else if sm_get (vAnnotations v) ''drplacementcontrol.ramendr.openshift.io/test-failover-dryrun'' = ''true'' then True
      else vAction (vSpec v) = VRGActionFailover)"

definition getPVCForVRNSName :: "string \<Rightarrow> string \<Rightarrow> claim vrgm" where
  "getPVCForVRNSName name ns =
     bindM (getsM (\<lambda>s. find (\<lambda>c. claimName c = name \<and> claimNamespace c = ns) (iVolRepPVCs s)))
       (\<lambda>r. case r of
          None \<Rightarrow> failM (newE (''failed to get the pvc with namespaced name '' @ ns @ ''/'' @ name))
        | Some c \<Rightarrow> ret c)"

definition vrgInAdminNamespace :: "vrgs \<Rightarrow> bool" where
  "vrgInAdminNamespace s \<longleftrightarrow> vNamespace (iVrg s) \<in> {cfgRamenOpsNamespace (iConfig s), iOperatorNamespace s}"

text \<open>
  The status of a resource just created is empty. \<^verbatim>\<open>ctrl.SetControllerReference\<close> is documented to refuse an owner in
  another namespace.
\<close>

definition emptyVRStatus :: vr_status where
  "emptyVRStatus = \<lparr>vrsState = VRStateUnset, vrsConditions = [], vrsObservedGeneration = 0, vrsLastSyncTime = None,
     vrsLastSyncDuration = None, vrsLastSyncBytes = None, vrsDestinationVolumeID = []\<rparr>"

definition newVR :: "vrgs \<Rightarrow> vr_replication_state \<Rightarrow> string \<Rightarrow> volume_replication" where
  "newVR s state className =
     \<lparr>vrGeneration = 1, vrDeleted = False, vrFinalizers = [],
      vrLabels = sm_put ''ramendr.openshift.io/created-by-ramen'' ''true'' (OwnerLabels (iVrg s)),
      vrOwner = (if vrgInAdminNamespace s then None else Some (iUID s)),
      vrReplicationState = state, vrAutoResync = autoResync (iVrg s) state, vrClass = className,
      vrStatus = emptyVRStatus\<rparr>"

definition createVR :: "string \<Rightarrow> string \<Rightarrow> vr_replication_state \<Rightarrow> unit vrgm" where
  "createVR name ns state =
     bindM (getPVCForVRNSName name ns)
       (\<lambda>pvc. bindM (catchM (selectVolumeReplicationClass pvc False)
                       (\<lambda>e. failM (wrapE ''failed to find the appropriate VolumeReplicationClass '' e [])))
          (\<lambda>vrc. bindM (getsM (\<lambda>s. (newVR s state (clName vrc), vNamespace (iVrg s))))
             (\<lambda>(vr, vrgNs).
                if vrOwner vr \<noteq> None \<and> vrgNs \<noteq> ns
                then failM (newE ''failed to set owner reference to VolumeReplication resource'')
                else catchM (createIn kVRs kVRs_update name ns vr)
                       (\<lambda>e. failM (wrapE ''failed to create VolumeReplication resource, '' e [])))))"

text \<open>A change of the specification makes the server count up the generation.\<close>

definition withVRState :: "vrg \<Rightarrow> vr_replication_state \<Rightarrow> 'z volume_replication_scheme \<Rightarrow> 'z volume_replication_scheme" where
  "withVRState v state vr =
     vr\<lparr>vrReplicationState := state, vrAutoResync := autoResync v state, vrGeneration := vrGeneration vr + 1\<rparr>"

type_synonym outcome = "bool \<times> bool \<times> gerr option"

definition updateVR :: "claim \<Rightarrow> volume_replication \<Rightarrow> vr_replication_state \<Rightarrow> outcome vrgm" where
  "updateVR pvc vr state =
     bindM (getsM iVrg)
       (\<lambda>v. if vrReplicationState vr = state \<and> vrAutoResync vr = autoResync v state
            then bindM (checkVRStatus [pvc] (vrGeneration vr) (vrStatus vr)) (\<lambda>ready. ret (False, ready, None))
            else bindM (attemptM (updateIn kVRs kVRs_update (claimName pvc) (claimNamespace pvc) (withVRState v state vr)))
              (\<lambda>r. case r of
                 Inl e \<Rightarrow> seqM (dataReadyError pvc ''Failed to update VolumeReplication resource'')
                           (ret (True, False, Some (wrapE ''failed to update VolumeReplication resource, '' e [])))
               | Inr _ \<Rightarrow>
                   seqM (updatePVCDataReadyCondition (claimNamespace pvc) (claimName pvc) ''Progressing''
                           ''Updated VolumeReplication resource for PVC'')
                     (ret (False, False, None))))"

definition createOrUpdateVR :: "claim \<Rightarrow> vr_replication_state \<Rightarrow> outcome vrgm" where
  "createOrUpdateVR pvc state =
     (let name = claimName pvc; ns = claimNamespace pvc
      in bindM (attemptM (getFrom kVRs name ns))
           (\<lambda>r. case r of
              Inr vr \<Rightarrow> updateVR pvc vr state
            | Inl e \<Rightarrow>
                if \<not> IsNotFound e
                then seqM (updatePVCDataReadyCondition ns name ''UnknownError'' ''Failed to get VolumeReplication resource'')
                       (ret (True, False, Some (wrapE ''failed to get VolumeReplication resource, '' e [])))
                else bindM (attemptM (createVR name ns state))
                  (\<lambda>r. case r of
                     Inl e \<Rightarrow> seqM (dataReadyError pvc ''Failed to create VolumeReplication resource'')
                               (ret (True, False, Some (wrapE ''failed to create VolumeReplication resource, '' e [])))
                   | Inr _ \<Rightarrow>
                       seqM (updatePVCDataReadyCondition ns name ''Progressing'' ''Created VolumeReplication resource for PVC'')
                         (ret (False, False, None)))))"

definition processVRAsPrimary :: "claim \<Rightarrow> outcome vrgm" where
  "processVRAsPrimary pvc =
     bindM (getsM vrgSpecOf)
       (\<lambda>sp. if vAsync sp \<noteq> None then createOrUpdateVR pvc VRPrimary
             else if vSync sp \<noteq> None
             then let msg = ''PVC in the VolumeReplicationGroup is ready for use''
                  in seqM (updatePVCDataReadyCondition (claimNamespace pvc) (claimName pvc) ''Ready'' msg)
                       (seqM (updatePVCDataProtectedCondition (claimNamespace pvc) (claimName pvc) ''Ready'' msg)
                          (seqM (updatePVCLastSyncCounters pvc None) (ret (False, True, None))))
             else ret (True, True, None))"

definition processVRAsSecondary :: "claim \<Rightarrow> outcome vrgm" where
  "processVRAsSecondary pvc =
     bindM (getsM vrgSpecOf)
       (\<lambda>sp. if vAsync sp \<noteq> None then createOrUpdateVR pvc VRSecondary
             else if vSync sp \<noteq> None
             then let msg = ''VolumeReplication resource for the pvc as Secondary is in sync with Primary''
                  in seqM (updatePVCDataReadyCondition (claimNamespace pvc) (claimName pvc) ''Replicated'' msg)
                       (seqM (updatePVCDataProtectedCondition (claimNamespace pvc) (claimName pvc) ''DataProtected'' msg)
                          (seqM (updatePVCLastSyncCounters pvc None) (ret (False, True, None))))
             else ret (True, True, None))"

section \<open>Deleting\<close>

definition ensureDeletedFromAPIServer :: "(vrgs \<Rightarrow> 'v store) \<Rightarrow> string \<Rightarrow> string \<Rightarrow> unit vrgm" where
  "ensureDeletedFromAPIServer field name ns =
     bindM (attemptM (getFrom field name ns))
       (\<lambda>r. case r of
          Inr _ \<Rightarrow> failM (newE (''waiting for deletion of VolumeReplication resource ('' @ ns @ ''/'' @ name @ '')''))
        | Inl e \<Rightarrow> if IsNotFound e then ret () else failM (wrapE ''failed to get VolumeReplication resource, '' e []))"

definition deleteVR :: "string \<Rightarrow> string \<Rightarrow> unit vrgm" where
  "deleteVR name ns =
     bindM (attemptM (deleteReplication kVRs kVRs_update name ns))
       (\<lambda>r. case r of
          Inl e \<Rightarrow> if IsNotFound e then ret ()
                   else failM (wrapE ''failed to delete VolumeReplication resource, '' e [])
        | Inr _ \<Rightarrow> ensureDeletedFromAPIServer kVRs name ns)"

definition succeeded :: "unit vrgm \<Rightarrow> bool vrgm" where
  "succeeded m = bindM (attemptM m) (\<lambda>r. ret (case r of Inl _ \<Rightarrow> False | Inr _ \<Rightarrow> True))"

text \<open>\<open>True\<close> asks for a requeue.\<close>

definition undoPVCFinalizersAndPVRetention :: "claim \<Rightarrow> bool vrgm" where
  "undoPVCFinalizersAndPVRetention pvc =
     bindM (succeeded (deleteVR (claimName pvc) (claimNamespace pvc)))
       (\<lambda>ok. if \<not> ok then ret True
             else bindM (succeeded (preparePVCForVRDeletion pvc)) (\<lambda>ok. ret (\<not> ok)))"

text \<open>Whether the resource is missing, and whether to requeue.\<close>

definition reconcileMissingVR :: "claim \<Rightarrow> (bool \<times> bool) vrgm" where
  "reconcileMissingVR pvc =
     bindM (getsM vrgSpecOf)
       (\<lambda>sp. if vAsync sp = None then ret (False, False)
             else bindM (attemptM (getFrom kVRs (claimName pvc) (claimNamespace pvc)))
               (\<lambda>r. case r of
                  Inr vr \<Rightarrow> ret (False, vrDeleted vr)
                | Inl e \<Rightarrow>
                    if \<not> IsNotFound e then ret (False, True)
                    else bindM (succeeded (preparePVCForVRDeletion pvc)) (\<lambda>ok. ret (True, \<not> ok))))"

section \<open>As secondary\<close>

definition isPVCInUse :: "claim \<Rightarrow> string \<Rightarrow> bool vrgm" where
  "isPVCInUse pvc operation =
     (let progressing = (\<lambda>msg. seqM (updatePVCDataReadyCondition (claimNamespace pvc) (claimName pvc) ''Progressing''
                                      (operation @ msg)) (ret True))
      in bindM (attemptM (IsPVCInUseByPod (claimName pvc) (claimNamespace pvc) False))
           (\<lambda>r. if r \<noteq> Inr False then progressing '' failed as PVC is potentially in use by a pod''
                else bindM (attemptM (IsPVAttachedToNode pvc))
                  (\<lambda>r. if r \<noteq> Inr False
                       then progressing '' failed as PersistentVolume for PVC is still attached to node(s)''
                       else ret False)))"

definition isPVCReadyForSecondary :: "claim \<Rightarrow> bool vrgm" where
  "isPVCReadyForSecondary pvc =
     bindM (getsM vrgSpecOf)
       (\<lambda>sp. if vAction sp \<noteq> VRGActionFailover \<and> \<not> claimDeleted pvc
             then seqM (updatePVCDataReadyCondition (claimNamespace pvc) (claimName pvc) ''Progressing''
                          ''unable to transition to Secondary as PVC is not deleted'') (ret False)
             else bindM (isPVCInUse pvc ''Secondary transition'') (\<lambda>inUse. ret (\<not> inUse)))"

text \<open>Whether to requeue, whether the resource is ready, and whether the PVC is skipped.\<close>

definition reconcileVRAsSecondary :: "claim \<Rightarrow> (bool \<times> bool \<times> bool) vrgm" where
  "reconcileVRAsSecondary pvc =
     bindM (isPVCReadyForSecondary pvc)
       (\<lambda>ok. if \<not> ok then ret (True, False, True)
             else bindM (processVRAsSecondary pvc) (\<lambda>(requeue, ready, _). ret (requeue, ready, False)))"

definition reconcilePVCVRAsSecondary :: "claim \<Rightarrow> bool vrgm" where
  "reconcilePVCVRAsSecondary pvc =
     bindM (reconcileMissingVR pvc)
       (\<lambda>(vrMissing, requeue).
          if vrMissing \<or> requeue then ret True
          else bindM (reconcileVRAsSecondary pvc)
            (\<lambda>(requeue, ready, skip).
               if requeue \<or> skip \<or> \<not> ready then ret requeue else undoPVCFinalizersAndPVRetention pvc))"

text \<open>The groups collected so far, keyed by the name and namespace of the group's resource.\<close>

type_synonym groups = "((string \<times> string) \<times> claim list) list"

fun addToGroup :: "string \<times> string \<Rightarrow> claim \<Rightarrow> groups \<Rightarrow> groups" where
  "addToGroup key pvc [] = [(key, [pvc])]"
| "addToGroup key pvc ((key', pvcs) # gs) =
     (if key = key' then (key', pvcs @ [pvc]) # gs else (key', pvcs) # addToGroup key pvc gs)"

definition addPVCToGroupPVCs :: "claim \<Rightarrow> string \<Rightarrow> groups \<Rightarrow> groups vrgm" where
  "addPVCToGroupPVCs pvc cg gs =
     getsM (\<lambda>s. addToGroup (vgrNamespacedName s cg (claimNamespace pvc)) pvc gs)"

definition processPVCAsSecondary :: "groups \<Rightarrow> claim \<Rightarrow> (bool \<times> groups) vrgm" where
  "processPVCAsSecondary gs pvc =
     (if PvcVRFinalizerProtected \<notin> set (claimFinalizers pvc) then seqM (deletePVCStatus pvc) (ret (False, gs))
      else bindM (recoverM (updateProtectedPVCs pvc))
        (\<lambda>r. case r of
           Inl _ \<Rightarrow> ret (True, gs)
         | Inr _ \<Rightarrow>
             bindM (preparePVCForVRProtection pvc)
               (\<lambda>(requeue, skip, pvc').
                  if requeue \<or> skip then ret (requeue, gs)
                  else bindM (isCGEnabled pvc')
                    (\<lambda>(cg, ok).
                       if ok then bindM (addPVCToGroupPVCs pvc' cg gs) (\<lambda>gs'. ret (False, gs'))
                       else bindM (reconcilePVCVRAsSecondary pvc') (\<lambda>requeue. ret (requeue, gs))))))"

definition processPVCsAsSecondary :: "claim list \<Rightarrow> (bool \<times> groups) vrgm" where
  "processPVCsAsSecondary pvcs =
     foldlM (\<lambda>(requeue, gs) pvc. bindM (processPVCAsSecondary gs pvc) (\<lambda>(r, gs'). ret (requeue \<or> r, gs')))
       (False, []) pvcs"

section \<open>When the VRG is deleted\<close>

definition reconcileVRForDeletion :: "claim \<Rightarrow> bool vrgm" where
  "reconcileVRForDeletion pvc =
     bindM (getsM vrgSpecOf)
       (\<lambda>sp. if vReplicationState sp = Secondary
             then bindM (reconcileVRAsSecondary pvc)
                    (\<lambda>(requeue, ready, skip).
                       if requeue then ret True
                       else if skip \<or> \<not> ready then ret False
                       else undoPVCFinalizersAndPVRetention pvc)
             else bindM (processVRAsPrimary pvc)
                    (\<lambda>(requeue, ready, err).
                       if err \<noteq> None \<or> requeue \<or> \<not> ready then ret True
                       else undoPVCFinalizersAndPVRetention pvc))"

end
