(* ===== verification/Ramen_VolGroupRep.thy ===== *)
theory Ramen_VolGroupRep
  imports Ramen_VolRep
begin

text \<open>
  The VolumeGroupReplication of a consistency group (\<^verbatim>\<open>vrg_volgrouprep.go\<close>) and the agreement between VRGs that share a
  global one (\<^verbatim>\<open>vrg_volgrouprep_global.go\<close>). Functions that change the labels of the PVCs of a group return the PVCs.
\<close>

section \<open>Global groups\<close>

definition setGlobalCondition :: "string \<Rightarrow> condition_status \<Rightarrow> string \<Rightarrow> string \<Rightarrow> unit vrgm" where
  "setGlobalCondition t st reason message =
     modifyM (\<lambda>s. updConditions (\<lambda>cs. putCondition (clock s) cs (mkCondition t reason (vGeneration (iVrg s)) st message)) s)"

definition setGlobalStateCondition :: "condition_status \<Rightarrow> string \<Rightarrow> string \<Rightarrow> unit vrgm" where
  "setGlobalStateCondition = setGlobalCondition ''GlobalState''"

definition setGlobalSecondaryCondition :: "condition_status \<Rightarrow> string \<Rightarrow> string \<Rightarrow> unit vrgm" where
  "setGlobalSecondaryCondition = setGlobalCondition ''GlobalSecondary''"

definition sharesGlobalVGR :: "vrg \<Rightarrow> vrg \<Rightarrow> bool" where
  "sharesGlobalVGR v w \<longleftrightarrow> map_of (vLabels w) ''ramendr.openshift.io/global-vgr'' = Some (vrgGlobalVGRLabel v)"

definition isSibling :: "vrg \<Rightarrow> vrg \<Rightarrow> bool" where
  "isSibling v w \<longleftrightarrow> \<not> (vName w = vName v \<and> vNamespace w = vNamespace v)"

definition pendingNames :: "vrg list \<Rightarrow> string" where
  "pendingNames ws =
     (case map (\<lambda>w. vNamespace w @ ''/'' @ vName w) ws of [] \<Rightarrow> [] | n # ns \<Rightarrow> concat (n # map (\<lambda>m. '', '' @ m) ns))"

definition isGlobalStateInConsensus :: "bool vrgm" where
  "isGlobalStateInConsensus =
     bindM (getsM iVrg)
       (\<lambda>v. let state = vReplicationState (vSpec v)
            in bindM (attemptM (listAll kVRGs (sharesGlobalVGR v)))
              (\<lambda>r. case r of
                 Inl _ \<Rightarrow> ret False
               | Inr vrgs \<Rightarrow>
                   let pending = filter (\<lambda>w. isSibling v w \<and> vReplicationState (vSpec w) \<noteq> state) vrgs
                   in if pending \<noteq> []
                      then seqM (setGlobalStateCondition ConditionFalse ''ConsensusNotReached''
                                   (''Pending: '' @ pendingNames pending @ ''; expected state '' @ replicationStateText state))
                             (ret False)
                      else seqM (setGlobalStateCondition ConditionTrue ''ConsensusReached''
                                   (''Consensus reached for state '' @ replicationStateText state))
                             (ret True)))"

definition isSiblingReadyForGlobalSecondary :: "vrg \<Rightarrow> bool" where
  "isSiblingReadyForGlobalSecondary w \<longleftrightarrow>
     (case FindCondition (vConditions (vStatus w)) ''GlobalSecondary'' of
        None \<Rightarrow> False
      | Some c \<Rightarrow> cStatus c = ConditionTrue \<and> cReason c \<noteq> ''Unused'' \<and> cObservedGeneration c = vGeneration w)"

definition areSiblingVRGsReadyForGlobalSecondary :: "bool vrgm" where
  "areSiblingVRGsReadyForGlobalSecondary =
     bindM (getsM iVrg)
       (\<lambda>v. bindM (attemptM (listAll kVRGs (sharesGlobalVGR v)))
          (\<lambda>r. case r of
             Inl _ \<Rightarrow> ret False
           | Inr vrgs \<Rightarrow>
               ret (list_all (\<lambda>w. isSibling v w \<and> \<not> vDeleted w \<longrightarrow> isSiblingReadyForGlobalSecondary w) vrgs)))"

definition isGlobalDeleteInConsensus :: "bool vrgm" where
  "isGlobalDeleteInConsensus =
     bindM (getsM iVrg)
       (\<lambda>v. bindM (attemptM (listAll kVRGs (sharesGlobalVGR v)))
          (\<lambda>r. case r of Inl _ \<Rightarrow> ret False | Inr vrgs \<Rightarrow> ret (list_all vDeleted vrgs)))"

section \<open>Creating, updating and deleting\<close>

definition labelClaim :: "string \<Rightarrow> string \<Rightarrow> claim \<Rightarrow> claim vrgm" where
  "labelClaim key value pvc =
     (if map_of (claimLabels pvc) key = Some value then ret pvc
      else let pvc' = pvc\<lparr>claimLabels := sm_put key value (claimLabels pvc)\<rparr>
           in seqM (updateClaim pvc') (ret pvc'))"

definition labelPVCsWithVGROwner :: "claim list \<Rightarrow> string \<Rightarrow> claim list vrgm" where
  "labelPVCsWithVGROwner pvcs name =
     foldlM (\<lambda>done pvc. bindM (catchM (labelClaim ''volumegroupreplication-owner'' name pvc)
                               (\<lambda>e. failM (wrapE ''failed to update PVC labels: '' e [])))
                        (\<lambda>pvc'. ret (done @ [pvc'])))
       [] pvcs"

definition createVGR :: "string \<Rightarrow> string \<Rightarrow> claim list \<Rightarrow> vr_replication_state \<Rightarrow> unit vrgm" where
  "createVGR name ns pvcs state =
     (case pvcs of
        [] \<Rightarrow> failM indexOutOfRange
      | pvc # _ \<Rightarrow>
          bindM (getStorageClass pvc)
            (\<lambda>storageClass. let offloaded = sm_has (clLabels storageClass) StorageOffloadedLabel in
          bindM (catchM (selectVolumeReplicationClass pvc True)
                   (\<lambda>e. failM (wrapE ''failed to find the appropriate VolumeGroupReplicationClass '' e [])))
            (\<lambda>vgrc.
          bindM (if offloaded then ret []
                 else bindM (catchM (selectVolumeReplicationClass pvc False)
                               (\<lambda>e. failM (wrapE ''failed to find the appropriate VolumeReplicationClass '' e [])))
                        (\<lambda>vrc. ret (clName vrc)))
            (\<lambda>vrcName.
          case map_of (claimLabels pvc) ConsistencyGroupLabel of
            None \<Rightarrow> failM (newE (''failed to create VolumeGroupReplication ('' @ ns @ ''/'' @ name @ '')''))
          | Some cg \<Rightarrow>
              bindM (getsM (\<lambda>s. (vrgHasGlobalVGRLabel (iVrg s), vrgInAdminNamespace s, iVrg s, iUID s, iPvcSelector s)))
                (\<lambda>(isGlobal, inAdmin, v, uid, selector).
                   let vgr = \<lparr>vrGeneration = 1, vrDeleted = False, vrFinalizers = [],
                        vrLabels = sm_put ''ramendr.openshift.io/created-by-ramen'' ''true'' (if isGlobal then [] else OwnerLabels v),
                        vrOwner = (if \<not> inAdmin \<and> \<not> isGlobal then Some uid else None),
                        vrReplicationState = state, vrAutoResync = False, vrClass = vrcName, vrStatus = emptyVRStatus,
                        vgrName = name, vgrNamespace = ns, vgrResourceVersion = [], vgrAnnotations = [],
                        vgrGroupClass = clName vgrc, vgrContentName = [], vgrExternal = offloaded,
                        vgrSelector = (if isGlobal \<or> offloaded then [(ConsistencyGroupLabel, cg)]
                                       else sm_put ConsistencyGroupLabel cg selector),
                        vgrClaimRefs = []\<rparr>
                   in if vrOwner vgr \<noteq> None \<and> vNamespace v \<noteq> ns
                      then failM (newE ''failed to set owner reference to VolumeGroupReplication resource'')
                      else catchM (createIn kVGRs kVGRs_update name ns vgr)
                             (\<lambda>e. failM (wrapE ''failed to create VolumeGroupReplication resource, '' e [])))))))"

definition allDataReady :: "claim list \<Rightarrow> string \<Rightarrow> string \<Rightarrow> unit vrgm" where
  "allDataReady pvcs reason msg = forClaims pvcs (\<lambda>ns name. updatePVCDataReadyCondition ns name reason msg)"

definition updateVGR ::
  "claim list \<Rightarrow> string \<Rightarrow> string \<Rightarrow> volume_group_replication \<Rightarrow> vr_replication_state \<Rightarrow> outcome vrgm" where
  "updateVGR pvcs name ns vgr state =
     bindM (getsM iVrg)
       (\<lambda>v. if vrReplicationState vgr = state \<and> vrAutoResync vgr = autoResync v state
            then bindM (checkVRStatus pvcs (vrGeneration vgr) (vrStatus vgr)) (\<lambda>ready. ret (False, ready, None))
            else bindM (attemptM (updateIn kVGRs kVGRs_update name ns (withVRState v state vgr)))
              (\<lambda>r. case r of
                 Inl e \<Rightarrow> seqM (allDataReady pvcs ''Error'' ''Failed to update VolumeGroupReplication resource'')
                           (ret (True, False, Some (wrapE ''failed to update VolumeGroupReplication resource, '' e [])))
               | Inr _ \<Rightarrow> seqM (allDataReady pvcs ''Progressing'' ''Updated VolumeGroupReplication resource'')
                           (ret (False, False, None))))"

definition createOrUpdateVGR ::
  "string \<Rightarrow> string \<Rightarrow> claim list \<Rightarrow> vr_replication_state \<Rightarrow> (claim list \<times> outcome) vrgm" where
  "createOrUpdateVGR name ns pvcs state =
     bindM (attemptM (labelPVCsWithVGROwner pvcs name))
       (\<lambda>r. case r of
          Inl e \<Rightarrow> ret (pvcs, True, False, Some e)
        | Inr pvcs \<Rightarrow>
            bindM (attemptM (getFrom kVGRs name ns))
              (\<lambda>r. case r of
                 Inr vgr \<Rightarrow> bindM (updateVGR pvcs name ns vgr state) (\<lambda>out. ret (pvcs, out))
               | Inl e \<Rightarrow>
                   if \<not> IsNotFound e
                   then seqM (allDataReady pvcs ''UnknownError'' ''Failed to get VolumeGroupReplication resource'')
                          (ret (pvcs, True, False, Some (wrapE ''failed to get VolumeGroupReplication resource, '' e [])))
                   else bindM (recoverM (createVGR name ns pvcs state))
                     (\<lambda>r. bindM (getsM (\<lambda>s. vrgHasGlobalVGRLabel (iVrg s)))
                       (\<lambda>isGlobal. case r of
                        Inl e \<Rightarrow>
                          if isGlobal \<and> IsAlreadyExists e then ret (pvcs, True, False, None)
                          else seqM (allDataReady pvcs ''Error'' ''Failed to create VolumeGroupReplication resource'')
                                 (ret (pvcs, True, False,
                                       Some (wrapE ''failed to create VolumeGroupReplication resource, '' e [])))
                      | Inr _ \<Rightarrow> seqM (allDataReady pvcs ''Progressing'' ''Created VolumeGroupReplication resource'')
                                  (ret (pvcs, False, False, None))))))"

definition processVGRAsPrimary :: "string \<Rightarrow> string \<Rightarrow> claim list \<Rightarrow> (claim list \<times> outcome) vrgm" where
  "processVGRAsPrimary name ns pvcs = createOrUpdateVGR name ns pvcs VRPrimary"

definition processVGRAsSecondary :: "string \<Rightarrow> string \<Rightarrow> claim list \<Rightarrow> (claim list \<times> outcome) vrgm" where
  "processVGRAsSecondary name ns pvcs = createOrUpdateVGR name ns pvcs VRSecondary"

definition deleteVGR :: "string \<Rightarrow> string \<Rightarrow> unit vrgm" where
  "deleteVGR name ns =
     bindM (attemptM (deleteReplication kVGRs kVGRs_update name ns))
       (\<lambda>r. case r of
          Inl e \<Rightarrow> if IsNotFound e then ret ()
                   else failM (wrapE ''failed to delete VolumeGroupReplication resource, '' e [])
        | Inr _ \<Rightarrow> ensureDeletedFromAPIServer kVGRs name ns)"

text \<open>\<^verbatim>\<open>deleteGlobalVGR\<close>: whether to requeue.\<close>

definition deleteGlobalVGR :: "bool vrgm" where
  "deleteGlobalVGR =
     bindM isGlobalDeleteInConsensus
       (\<lambda>ok. if \<not> ok then ret False
             else bindM (getsM globalVGRNamespacedName)
               (\<lambda>(name, ns). bindM (succeeded (deleteVGR name ns)) (\<lambda>ok. ret (\<not> ok))))"

section \<open>Releasing the PVCs of a group\<close>

definition prepareAllForVRDeletion :: "claim list \<Rightarrow> bool vrgm" where
  "prepareAllForVRDeletion pvcs = bindM (succeeded (forM pvcs preparePVCForVRDeletion)) (\<lambda>ok. ret (\<not> ok))"

definition undoPVCFinalizersAndPVRetentionForVGR :: "string \<Rightarrow> string \<Rightarrow> claim list \<Rightarrow> bool vrgm" where
  "undoPVCFinalizersAndPVRetentionForVGR name ns pvcs =
     bindM (getsM (\<lambda>s. vrgHasGlobalVGRLabel (iVrg s)))
       (\<lambda>isGlobal.
          if isGlobal then prepareAllForVRDeletion pvcs
          else bindM (succeeded (deleteVGR name ns))
            (\<lambda>ok. if \<not> ok then ret True else prepareAllForVRDeletion pvcs))"

definition reconcileMissingVGR :: "string \<Rightarrow> string \<Rightarrow> claim list \<Rightarrow> (bool \<times> bool) vrgm" where
  "reconcileMissingVGR name ns pvcs =
     bindM (getsM vrgSpecOf)
       (\<lambda>sp. if vAsync sp = None then ret (False, False)
             else bindM (attemptM (getFrom kVGRs name ns))
               (\<lambda>r. case r of
                  Inr vgr \<Rightarrow> ret (False, vrDeleted vgr)
                | Inl e \<Rightarrow>
                    if \<not> IsNotFound e then ret (False, True)
                    else bindM (prepareAllForVRDeletion pvcs) (\<lambda>requeue. ret (True, requeue))))"

section \<open>As secondary\<close>

text \<open>The loop stops at the first PVC that is not ready.\<close>

fun allReadyForSecondary :: "claim list \<Rightarrow> bool vrgm" where
  "allReadyForSecondary [] = ret True"
| "allReadyForSecondary (pvc # pvcs) =
     bindM (isPVCReadyForSecondary pvc) (\<lambda>ok. if ok then allReadyForSecondary pvcs else ret False)"

definition reconcileVGRAsSecondary :: "string \<Rightarrow> string \<Rightarrow> claim list \<Rightarrow> (claim list \<times> bool \<times> bool \<times> bool) vrgm" where
  "reconcileVGRAsSecondary name ns pvcs =
     bindM (getsM (\<lambda>s. vrgHasGlobalVGRLabel (iVrg s)))
       (\<lambda>isGlobal.
          bindM (allReadyForSecondary pvcs)
            (\<lambda>ok.
               if \<not> ok
               then seqM (whenM isGlobal
                            (setGlobalSecondaryCondition ConditionFalse ''PVCsInUse'' ''PVCs are still in use''))
                      (ret (pvcs, True, False, True))
               else seqM (whenM isGlobal
                            (setGlobalSecondaryCondition ConditionTrue ''PVCsNotInUse'' ''PVCs are not in use''))
                      (bindM (if isGlobal then areSiblingVRGsReadyForGlobalSecondary else ret True)
                         (\<lambda>siblings.
                            if \<not> siblings then ret (pvcs, True, False, True)
                            else bindM (processVGRAsSecondary name ns pvcs)
                              (\<lambda>(pvcs', requeue, ready, _). ret (pvcs', requeue, ready, False))))))"

definition reconcileGroupAsSecondary :: "bool \<Rightarrow> (string \<times> string) \<times> claim list \<Rightarrow> bool vrgm" where
  "reconcileGroupAsSecondary requeue g =
     (case g of ((name, ns), pvcs) \<Rightarrow>
        bindM (reconcileMissingVGR name ns pvcs)
          (\<lambda>(missing, again).
             if missing \<or> again then ret True
             else bindM (reconcileVGRAsSecondary name ns pvcs)
               (\<lambda>(pvcs', again, ready, skip).
                  if again then ret True
                  else if skip \<or> \<not> ready then ret requeue
                  else bindM (undoPVCFinalizersAndPVRetentionForVGR name ns pvcs') (\<lambda>again. ret (requeue \<or> again)))))"

definition reconcileVolGroupRepsAsSecondary :: "bool \<Rightarrow> groups \<Rightarrow> bool vrgm" where
  "reconcileVolGroupRepsAsSecondary requeue gs =
     bindM (getsM (\<lambda>s. vrgHasGlobalVGRLabel (iVrg s)))
       (\<lambda>isGlobal.
          if isGlobal \<and> gs = []
          then seqM (setGlobalSecondaryCondition ConditionTrue ''PVCsNotInUse'' ''PVCs are not in use'') (ret requeue)
          else bindM (if isGlobal then isGlobalStateInConsensus else ret True)
            (\<lambda>consensus. if \<not> consensus then ret True else foldlM reconcileGroupAsSecondary requeue gs))"

section \<open>When PVCs or the VRG are deleted\<close>

definition reconcileVGRForDeletion :: "string \<Rightarrow> string \<Rightarrow> claim list \<Rightarrow> bool vrgm" where
  "reconcileVGRForDeletion name ns pvcs =
     bindM (getsM vrgSpecOf)
       (\<lambda>sp. if vReplicationState sp = Secondary
             then bindM (reconcileVGRAsSecondary name ns pvcs)
                    (\<lambda>(pvcs', requeue, ready, skip).
                       if requeue then ret True
                       else if skip \<or> \<not> ready then ret False
                       else undoPVCFinalizersAndPVRetentionForVGR name ns pvcs')
             else bindM (processVGRAsPrimary name ns pvcs)
                    (\<lambda>(pvcs', requeue, ready, err).
                       if err \<noteq> None \<or> requeue \<or> \<not> ready then ret True
                       else undoPVCFinalizersAndPVRetentionForVGR name ns pvcs'))"

definition pvcsUnprotectVolGroupRep :: "groups \<Rightarrow> unit vrgm" where
  "pvcsUnprotectVolGroupRep gs =
     forM gs (\<lambda>((name, ns), pvcs).
       bindM (reconcileMissingVGR name ns pvcs)
         (\<lambda>(missing, requeue).
            if missing \<or> requeue then whenM requeue requeueVRG
            else bindM (reconcileVGRForDeletion name ns pvcs) (\<lambda>requeue. whenM requeue requeueVRG)))"

text \<open>Whether the label is seen to be reset, or the error.\<close>

definition resetCGLabelValue :: "claim \<Rightarrow> (bool \<times> claim) vrgm" where
  "resetCGLabelValue pvc =
     bindM (isCGEnabled pvc)
       (\<lambda>(cg, ok).
          if \<not> ok then failM (newE ''PVC is not protected as part of a consistency group'')
          else if cg = [] then ret (True, pvc)
          else bindM (catchM (labelClaim ConsistencyGroupLabel [] pvc)
                        (\<lambda>e. failM (newE (''error ('' @ Error e @ '') updating PVC labels''))))
                 (\<lambda>pvc'. ret (False, pvc')))"

definition getVGRUsingSCLabel :: "claim \<Rightarrow> ((string \<times> string) \<times> volume_group_replication) vrgm" where
  "getVGRUsingSCLabel pvc =
     bindM (catchM (getVGRClassReplicationID pvc) (\<lambda>e. failM (newE ''error determining replicationID'')))
       (\<lambda>grID. bindM (getsM (\<lambda>s. vgrNamespacedName s grID (claimNamespace pvc)))
          (\<lambda>(name, ns). bindM (getFrom kVGRs name ns) (\<lambda>vgr. ret ((name, ns), vgr))))"

definition ensurePVCUnprotected :: "claim \<Rightarrow> volume_group_replication \<Rightarrow> bool" where
  "ensurePVCUnprotected pvc vgr \<longleftrightarrow> \<not> vrDeleted vgr \<and> claimName pvc \<notin> set (vgrClaimRefs vgr)"

definition deleteVGRIfUnused :: "string \<times> string \<Rightarrow> volume_group_replication \<Rightarrow> unit vrgm" where
  "deleteVGRIfUnused key vgr = (if vgrClaimRefs vgr \<noteq> [] then ret () else deleteVGR (fst key) (snd key))"

definition pvcUnprotectVolGroupRep :: "claim \<Rightarrow> unit vrgm" where
  "pvcUnprotectVolGroupRep pvc =
     (let report = (\<lambda>reason msg. seqM (updatePVCDataReadyCondition (claimNamespace pvc) (claimName pvc) reason msg) requeueVRG);
          retrying = (\<lambda>e. report ''Error''
             (''Retrying, on error ('' @ Error e @ '') processing PVC for deletion or deselection from protection''))
      in bindM (attemptM (resetCGLabelValue pvc))
           (\<lambda>r. case r of
              Inl e \<Rightarrow> retrying e
            | Inr (False, _) \<Rightarrow>
                report ''Error''
                  ''PVC is deleted or deselected from protection, and is not protected as part of a consistency group''
            | Inr (True, pvc') \<Rightarrow>
                bindM (attemptM (getVGRUsingSCLabel pvc'))
                  (\<lambda>r. let release = bindM (attemptM (preparePVCForVRDeletion pvc'))
                             (\<lambda>r. case r of
                                Inl e \<Rightarrow> report ''Error''
                                  (''Retrying due to error ('' @ Error e @ '') processing PVC for deletion or deselection from protection'')
                              | Inr _ \<Rightarrow> ret ())
                       in case r of
                          Inl e \<Rightarrow> if IsNotFound e then release else retrying e
                        | Inr (key, vgr) \<Rightarrow>
                            if \<not> ensurePVCUnprotected pvc' vgr
                            then report ''Progressing'' ''PVC is being processed for deletion or deselection from protection''
                            else bindM (attemptM (deleteVGRIfUnused key vgr))
                              (\<lambda>r. case r of Inl e \<Rightarrow> retrying e | Inr _ \<Rightarrow> release))))"

definition pvcsUnprotectVolRep :: "claim list \<Rightarrow> unit vrgm" where
  "pvcsUnprotectVolRep pvcs =
     bindM (foldlM (\<lambda>gs pvc.
        if PvcVRFinalizerProtected \<notin> set (claimFinalizers pvc) then ret gs
        else bindM (preparePVCForVRProtection pvc)
          (\<lambda>(requeue, skip, pvc').
             if requeue \<or> skip then seqM requeueVRG (ret gs)
             else bindM (isCGEnabled pvc')
               (\<lambda>(cg, ok).
                  if ok
                  then bindM (attemptM (if cg = [] then getVGRClassReplicationID pvc' else ret cg))
                         (\<lambda>r. case r of
                            Inl _ \<Rightarrow> seqM requeueVRG (ret gs)
                          | Inr cg' \<Rightarrow> addPVCToGroupPVCs pvc' cg' gs)
                  else bindM (reconcileMissingVR pvc')
                    (\<lambda>(missing, requeue).
                       if requeue then seqM requeueVRG (ret gs)
                       else if missing then ret gs
                       else bindM (reconcileVRForDeletion pvc')
                         (\<lambda>requeue. seqM (whenM requeue requeueVRG) (ret gs))))))
       [] pvcs)
     pvcsUnprotectVolGroupRep"

end
