(* ===== verification/Ramen_DryRun.thy ===== *)
theory Ramen_DryRun
  imports Ramen_VolGroupRep
begin

text \<open>
  Snapshots of the volumes during a dry run of a failover (end of \<^verbatim>\<open>vrg_volrep.go\<close>, with the choice of the snapshot class of
  \<^verbatim>\<open>volsync/vshandler.go\<close>).
\<close>

section \<open>Snapshot classes\<close>

definition GetVolumeSnapshotClasses :: "class_object list vrgm" where
  "GetVolumeSnapshotClasses =
     bindM (getsM iSnapshotClasses)
       (\<lambda>cached. case cached of
          Some cs \<Rightarrow> ret cs
        | None \<Rightarrow>
            bindM (getsM (\<lambda>s. case vAsync (vrgSpecOf s) of
                             None \<Rightarrow> [] | Some a \<Rightarrow> kMatchLabels s (asVolumeSnapshotClassSelector a)))
              (\<lambda>sel. bindM (catchM (listAll kSnapshotClasses (\<lambda>c. matchesLabels sel (clLabels c)))
                              (\<lambda>e. failM (wrapE ''error listing volumesnapshotclasses ('' e '')'')))
                 (\<lambda>cs. seqM (modifyM (\<lambda>s. s\<lparr>iSnapshotClasses := Some cs\<rparr>)) (ret cs))))"

definition isDefaultVolumeSnapshotClass :: "class_object \<Rightarrow> bool" where
  "isDefaultVolumeSnapshotClass c \<longleftrightarrow>
     map_of (clAnnotations c) ''snapshot.storage.kubernetes.io/is-default-class'' = Some ''true''"

fun matchingSnapshotClass :: "class_object \<Rightarrow> string \<Rightarrow> class_object list \<Rightarrow> string" where
  "matchingSnapshotClass sc matched [] = matched"
| "matchingSnapshotClass sc matched (c # cs) =
     (let sid = sm_get (clLabels c) StorageIDLabel
      in if sid \<noteq> [] \<and> sid \<noteq> sm_get (clLabels sc) StorageIDLabel then matchingSnapshotClass sc matched cs
         else if clProvisioner c = clProvisioner sc \<and> (matched = [] \<or> isDefaultVolumeSnapshotClass c)
         then matchingSnapshotClass sc (clName c) cs
         else matchingSnapshotClass sc matched cs)"

definition getVolumeSnapshotClassFromPVCStorageClass :: "class_object \<Rightarrow> string vrgm" where
  "getVolumeSnapshotClassFromPVCStorageClass sc =
     bindM GetVolumeSnapshotClasses
       (\<lambda>cs. let matched = matchingSnapshotClass sc [] cs
             in if matched = []
                then failM (newE (''unable to find matching volumesnapshotclass for storage provisioner '' @ clProvisioner sc))
                else ret matched)"

definition vsGetStorageClass :: "string option \<Rightarrow> class_object vrgm" where
  "vsGetStorageClass name =
     (case name of
        None \<Rightarrow> failM (newE ''no storageClassName given, cannot proceed'')
      | Some n \<Rightarrow>
          if n = [] then failM (newE ''no storageClassName given, cannot proceed'')
          else catchM (getFrom kStorageClasses n []) (\<lambda>e. failM (wrapE ''error getting storage class ('' e '')'')))"

definition GetVolumeSnapshotClassFromPVCStorageClass :: "string option \<Rightarrow> string vrgm" where
  "GetVolumeSnapshotClassFromPVCStorageClass name =
     bindM (vsGetStorageClass name) getVolumeSnapshotClassFromPVCStorageClass"

section \<open>Taking snapshots\<close>

definition shouldTakeDryRunSnapshots :: "vrg_spec \<Rightarrow> bool" where
  "shouldTakeDryRunSnapshots sp \<longleftrightarrow>
     vReplicationState sp = Primary \<and> vDryRun sp \<and> vAction sp = VRGActionFailover"

definition shouldCleanupDryRunSnapshots :: "vrg_spec \<Rightarrow> bool" where
  "shouldCleanupDryRunSnapshots sp \<longleftrightarrow>
     vReplicationState sp = Secondary \<and> \<not> vDryRun sp
     \<or> vReplicationState sp = Primary \<and> \<not> vDryRun sp \<and> vAction sp = VRGActionFailover"

definition isCephFSProvisioner :: "string \<Rightarrow> bool" where
  "isCephFSProvisioner provisioner \<longleftrightarrow> strContains (map asciiLower provisioner) ''cephfs''"

definition filterNonCephFSPVCs :: "claim list vrgm" where
  "filterNonCephFSPVCs =
     bindM (getsM iVolRepPVCs)
       (foldlM (\<lambda>found pvc. bindM (getStorageClass pvc)
          (\<lambda>sc. ret (if isCephFSProvisioner (clProvisioner sc) then found else found @ [pvc]))) [])"

definition dryRunLabels :: "vrg \<Rightarrow> strmap" where
  "dryRunLabels v = [(''ramendr.openshift.io/dry-run-snapshot'', ''true''), (''ramendr.openshift.io/dry-run-vrg'', vName v)]"

definition snapshotsUpToDateFromMap :: "(string \<times> snapshot) list \<Rightarrow> claim list \<Rightarrow> bool" where
  "snapshotsUpToDateFromMap snapshots pvcs \<longleftrightarrow>
     length snapshots = length pvcs
     \<and> list_all (\<lambda>pvc. case map_of snapshots (claimName pvc) of None \<Rightarrow> False | Some sn \<Rightarrow> snapReady sn) pvcs"

definition createSnapshot :: "claim \<Rightarrow> string \<Rightarrow> unit vrgm" where
  "createSnapshot pvc className =
     bindM (getsM iVrg)
       (\<lambda>v. let snap = \<lparr>snapName = claimName pvc @ ''-snapshot'', snapNamespace = claimNamespace pvc,
                        snapLabels = sm_put ''ramendr.openshift.io/created-by-ramen'' ''true'' (dryRunLabels v),
                        snapClaim = Some (claimName pvc), snapClass = Some className, snapReady = False\<rparr>
            in seqM apiCall
                 (modifyM (\<lambda>s. if list_ex (\<lambda>sn. snapName sn = snapName snap \<and> snapNamespace sn = snapNamespace snap) (kSnapshots s)
                               then s else s\<lparr>kSnapshots := kSnapshots s @ [snap]\<rparr>)))"

text \<open>A snapshot that exists is left alone, whatever it is of.\<close>

definition createSnapshotForPVC :: "claim \<Rightarrow> unit vrgm" where
  "createSnapshotForPVC pvc =
     bindM (GetVolumeSnapshotClassFromPVCStorageClass (claimStorageClassName pvc)) (createSnapshot pvc)"

definition createSnapshotsForPVCs :: "claim list \<Rightarrow> unit vrgm" where
  "createSnapshotsForPVCs pvcs = forM pvcs createSnapshotForPVC"

text \<open>The map is keyed by the name of the PVC; a later namespace wins.\<close>

definition ensureSnapshotsForDryRun :: "unit vrgm" where
  "ensureSnapshotsForDryRun =
     bindM (catchM filterNonCephFSPVCs (\<lambda>e. failM (wrapE ''filtering non-CephFS PVCs: '' e [])))
       (\<lambda>pvcs.
          if pvcs = [] then ret ()
          else bindM (getsM (dryRunLabels \<circ> iVrg))
            (\<lambda>labels. bindM
               (foldlM (\<lambda>found ns.
                  bindM (catchM (listAll kSnapshots (\<lambda>sn. snapNamespace sn = ns \<and> matchesLabels labels (snapLabels sn)))
                           (\<lambda>e. failM (wrapE (''listing dry-run snapshots in namespace '' @ ns @ '': '') e [])))
                    (\<lambda>snaps. ret (foldl (\<lambda>m sn. case snapClaim sn of None \<Rightarrow> m | Some n \<Rightarrow> sm_put n sn m) found snaps)))
                  [] (remdups (map claimNamespace pvcs)))
               (\<lambda>found. if snapshotsUpToDateFromMap found pvcs then ret () else createSnapshotsForPVCs pvcs)))"

section \<open>Cleaning up\<close>

definition deleteSnapshot :: "snapshot \<Rightarrow> unit vrgm" where
  "deleteSnapshot sn =
     seqM apiCall
       (bindM (getsM (\<lambda>s. list_ex (\<lambda>x. snapName x = snapName sn \<and> snapNamespace x = snapNamespace sn) (kSnapshots s)))
          (\<lambda>found.
             if \<not> found then failM (Gerr NotFound (snapName sn @ '' not found''))
             else modifyM (\<lambda>s. s\<lparr>kSnapshots :=
                    filter (\<lambda>x. \<not> (snapName x = snapName sn \<and> snapNamespace x = snapNamespace sn)) (kSnapshots s)\<rparr>)))"

definition cleanupDryRunSnapshots :: "unit vrgm" where
  "cleanupDryRunSnapshots =
     bindM (getsM (dryRunLabels \<circ> iVrg))
       (\<lambda>labels. bindM (catchM (listAll kSnapshots (\<lambda>sn. matchesLabels labels (snapLabels sn)))
                          (\<lambda>e. failM (wrapE ''failed to list dry-run snapshots: '' e [])))
          (\<lambda>snaps. bindM (foldlM (\<lambda>errors sn.
                            bindM (attemptM (deleteSnapshot sn))
                              (\<lambda>r. ret (case r of Inr _ \<Rightarrow> errors
                                          | Inl e \<Rightarrow> if IsNotFound e then errors else errors + 1))) (0 :: nat) snaps)
             (\<lambda>errors. if errors > 0 then failM (newE ''failed to delete snapshots during cleanup'') else ret ())))"

end
