(* ===== verification/Ramen_VrgUpload.thy ===== *)
theory Ramen_VrgUpload
  imports Ramen_DryRun
begin

text \<open>
  Protecting the cluster data of PVCs (\<^verbatim>\<open>vrg_volrep.go\<close>): the destination volume handle on the volume, the upload of volume
  and PVC to every object store of the VRG, the annotations that record it, and the deletion of the uploaded objects.
\<close>

section \<open>Object stores of the VRG\<close>

definition namespacedName :: "vrgs \<Rightarrow> string" where
  "namespacedName s = vNamespace (iVrg s) @ ''/'' @ vName (iVrg s)"

definition s3KeyPrefix :: "vrgs \<Rightarrow> string" where
  "s3KeyPrefix s = S3KeyPrefix (namespacedName s)"

definition cacheObjectStorer :: "string \<Rightarrow> gerr + object_store \<Rightarrow> unit vrgm" where
  "cacheObjectStorer profile r = modifyM (\<lambda>s. s\<lparr>iObjectStorers := (iObjectStorers s)(profile \<mapsto> r)\<rparr>)"

definition getObjectStorer :: "string \<Rightarrow> object_store vrgm" where
  "getObjectStorer profile =
     bindM (getsM (\<lambda>s. (iObjectStorers s profile, namespacedName s)))
       (\<lambda>(cached, tag). case cached of
          Some r \<Rightarrow> liftE r
        | None \<Rightarrow>
            bindM (attemptM (ObjectStore profile tag))
              (\<lambda>r. let r' = (case r of
                               Inl e \<Rightarrow> Inl (wrapE (''error creating object store for s3Profile '' @ profile @ '', '') e [])
                             | Inr (store, _) \<Rightarrow> Inr store)
                   in seqM (cacheObjectStorer profile r') (liftE r')))"

text \<open>An operation on every store, through clients of its own; the profile \<^verbatim>\<open>NoS3\<close> is skipped.\<close>

definition s3StoreDo :: "(object_store \<Rightarrow> unit vrgm) \<Rightarrow> string \<Rightarrow> unit vrgm" where
  "s3StoreDo act profile =
     bindM (getsM namespacedName)
       (\<lambda>tag. bindM (catchM (ObjectStore profile tag)
                       (\<lambda>e. failM (wrapE (''failed to get client for s3Profile '' @ profile @ '', err '') e [])))
          (\<lambda>(store, _). act store))"

definition s3StoresDo :: "(object_store \<Rightarrow> unit vrgm) \<Rightarrow> string \<Rightarrow> unit vrgm" where
  "s3StoresDo act msg =
     bindM (getsM (\<lambda>s. vS3Profiles (vrgSpecOf s)))
       (\<lambda>profiles. forM profiles (\<lambda>profile.
          if profile = ''NoS3'' then ret ()
          else catchM (s3StoreDo act profile)
                 (\<lambda>e. failM (wrapE (msg @ '' using profile '' @ profile @ '', err '') e []))))"

definition deleteClusterDataInS3Stores :: "unit vrgm" where
  "deleteClusterDataInS3Stores =
     bindM (getsM s3KeyPrefix)
       (\<lambda>prefix. s3StoresDo (\<lambda>store. DeleteObjectsWithKeyPrefix store prefix) (''delete objects with key prefix '' @ prefix))"

definition replicaKeys :: "vrgs \<Rightarrow> claim \<Rightarrow> string list" where
  "replicaKeys s pvc =
     (let prefix = s3KeyPrefix s
      in [typedKey prefix (claimVolumeName pvc) ''v1.PersistentVolume'',
          typedKey prefix (claimNamespace pvc @ ''/'' @ claimName pvc) ''v1.PersistentVolumeClaim'']
         @ (if claimNamespace pvc = vNamespace (iVrg s)
            then [typedKey prefix (claimName pvc) ''v1.PersistentVolumeClaim''] else []))"

definition pvAndPvcObjectReplicasDelete :: "claim \<Rightarrow> unit vrgm" where
  "pvAndPvcObjectReplicasDelete pvc =
     bindM (getsM (\<lambda>s. replicaKeys s pvc))
       (\<lambda>keys. s3StoresDo (\<lambda>store. DeleteObjects store keys) ''delete object replicas'')"

section \<open>Destination volume handle\<close>

definition destinationVolumeHandleAnnotation :: string where
  "destinationVolumeHandleAnnotation = ''ramendr.openshift.io/destination-volume-handle''"

text \<open>A missing condition is skipped, one that is not true is an error.\<close>

definition destinationInfoAvailableOrSkip :: "conditions \<Rightarrow> string \<Rightarrow> gerr + bool" where
  "destinationInfoAvailableOrSkip cs description =
     (case FindCondition cs ''DestinationInfoAvailable'' of
        None \<Rightarrow> Inr False
      | Some c \<Rightarrow>
          if cStatus c \<noteq> ConditionTrue then Inl (newE (''destination info is not available for '' @ description))
          else Inr True)"

definition withDestinationVolumeHandle :: "string \<Rightarrow> volume \<Rightarrow> volume" where
  "withDestinationVolumeHandle handle pv =
     pv\<lparr>pvAnnotations := sm_delete pvcVRAnnotationArchivedKey
          (sm_put destinationVolumeHandleAnnotation handle (pvAnnotations pv))\<rparr>"

definition applyDestinationVolumeHandleToPV :: "volume \<Rightarrow> string \<Rightarrow> unit vrgm" where
  "applyDestinationVolumeHandleToPV pv handle =
     (if sm_get (pvAnnotations pv) destinationVolumeHandleAnnotation = handle then ret ()
      else catchM (updateVolume (withDestinationVolumeHandle handle pv))
             (\<lambda>e. failM (wrapE (''failed to update PersistentVolume '' @ pvName pv
                                  @ '' with destination volume handle annotation: '') e [])))"

definition annotateWithDestinationVolumeHandleForVolRep :: "claim \<Rightarrow> unit vrgm" where
  "annotateWithDestinationVolumeHandleForVolRep pvc =
     bindM (getsM (\<lambda>s. vSync (vrgSpecOf s)))
       (\<lambda>sync.
          if sync \<noteq> None then ret ()
          else bindM (catchM (getPVFromPVC pvc) (\<lambda>e. failM (wrapE (''failed to get PV for PVC '' @ claimName pvc @ '': '') e [])))
            (\<lambda>pv. bindM (getFrom kVRs (claimName pvc) (claimNamespace pvc))
               (\<lambda>vr. bindM (liftE (destinationInfoAvailableOrSkip (vrsConditions (vrStatus vr)) (''VR '' @ claimName pvc)))
                  (\<lambda>available.
                     if \<not> available then ret ()
                     else if vrsDestinationVolumeID (vrStatus vr) = []
                     then failM (newE (''destination volume ID is empty for VR '' @ claimName pvc))
                     else applyDestinationVolumeHandleToPV pv (vrsDestinationVolumeID (vrStatus vr))))))"

section \<open>Upload\<close>

definition generateArchiveAnnotation :: "int \<Rightarrow> string" where
  "generateArchiveAnnotation gen = ''archiveV1-'' @ show_int gen"

definition HashPVC :: "vrgs \<Rightarrow> claim \<Rightarrow> string" where
  "HashPVC s pvc = kHash s (claimSpec pvc)"

definition isArchivedAlready :: "claim \<Rightarrow> bool vrgm" where
  "isArchivedAlready pvc =
     bindM (attemptM (getPVFromPVC pvc))
       (\<lambda>r. case r of
          Inl _ \<Rightarrow> ret False
        | Inr pv \<Rightarrow>
            getsM (\<lambda>s. sm_get (claimAnnotations pvc) pvcVRAnnotationArchivedKey = HashPVC s pvc
                     \<and> sm_get (pvAnnotations pv) pvcVRAnnotationArchivedKey = generateArchiveAnnotation (pvGeneration pv)))"

definition isPVCResizeCompleted :: "claim \<Rightarrow> bool" where
  "isPVCResizeCompleted pvc \<longleftrightarrow> claimCapacity pvc \<ge> claimRequested pvc"

definition UploadPVAndPVCtoS3 :: "string \<Rightarrow> object_store \<Rightarrow> volume \<Rightarrow> claim \<Rightarrow> unit vrgm" where
  "UploadPVAndPVCtoS3 profile store pv pvc =
     bindM (getsM s3KeyPrefix)
       (\<lambda>prefix.
          seqM (catchM (UploadPV store prefix (pvName pv) pv)
                  (\<lambda>e. seqM (whenM (isAwsError e)
                               (cacheObjectStorer profile
                                  (Inl (newE (''persistent error while uploading to s3 profile '' @ profile @ '', will retry later'')))))
                         (failM (wrapE (''error uploading PV to s3Profile '' @ profile @ '', failed to protect cluster data for PVC ''
                                        @ claimName pvc @ '', '') e []))))
            (catchM (UploadPVC store prefix (claimNamespace pvc @ ''/'' @ claimName pvc) pvc)
               (\<lambda>e. failM (wrapE (''error uploading PVC to s3Profile '' @ profile @ '', failed to protect cluster data for PVC ''
                            @ claimNamespace pvc @ ''/'' @ claimName pvc @ '', '') e []))))"

definition UploadPVandPVCtoS3Store :: "string \<Rightarrow> claim \<Rightarrow> volume \<Rightarrow> unit vrgm" where
  "UploadPVandPVCtoS3Store profile pvc pv =
     (if profile = [] then failM (newE (''missing S3 profiles, failed to protect cluster data for PVC '' @ claimName pvc))
      else bindM (catchM (getObjectStorer profile)
                    (\<lambda>e. failM (wrapE (''error getting object store, failed to protect cluster data for PVC '' @ claimName pvc @ '', '') e [])))
             (\<lambda>store. UploadPVAndPVCtoS3 profile store pv pvc))"

text \<open>The profiles uploaded to; the first failure ends the loop.\<close>

definition UploadPVandPVCtoS3Stores :: "claim \<Rightarrow> string list vrgm" where
  "UploadPVandPVCtoS3Stores pvc =
     bindM (catchM (getPVFromPVC pvc)
              (\<lambda>e. failM (wrapE (''error getting PV for PVC, failed to protect cluster data for PVC '' @ claimName pvc @ '', '') e [])))
       (\<lambda>pv. bindM (getsM (\<lambda>s. vS3Profiles (vrgSpecOf s)))
          (\<lambda>profiles. foldlM (\<lambda>done profile.
             seqM (catchM (UploadPVandPVCtoS3Store profile pvc pv)
                     (\<lambda>e. seqM (updatePVCClusterDataProtectedCondition (claimNamespace pvc) (claimName pvc) ''UploadError'' (Error e))
                            (failM e)))
               (ret (done @ [profile]))) [] profiles))"

text \<open>The PVC as it is left behind.\<close>

definition addArchivedAnnotationForPVC :: "claim \<Rightarrow> claim vrgm" where
  "addArchivedAnnotationForPVC pvc =
     bindM (getsM (\<lambda>s. HashPVC s pvc))
       (\<lambda>hash. bindM (annotateClaim pvc pvcVRAnnotationArchivedKey hash)
          (\<lambda>pvc'. bindM (catchM (getPVFromPVC pvc') (\<lambda>e. failM (wrapE ''failed to get PersistentVolume, '' e [])))
             (\<lambda>pv. seqM (annotateVolume pv pvcVRAnnotationArchivedKey (generateArchiveAnnotation (pvGeneration pv)))
                (ret pvc'))))"

definition handleNoS3ProfilesError :: "claim \<Rightarrow> unit vrgm" where
  "handleNoS3ProfilesError pvc =
     seqM (updatePVCClusterDataProtectedCondition (claimNamespace pvc) (claimName pvc) ''UploadError''
             ''Error uploading PV cluster data because VRG spec has no S3 profiles'')
       (failM (newE (''error uploading cluster data of PV '' @ claimName pvc @ '' because VRG spec has no S3 profiles'')))"

definition uploadPVandPVCtoS3Stores :: "claim \<Rightarrow> unit vrgm" where
  "uploadPVandPVCtoS3Stores pvc =
     (let report = updatePVCClusterDataProtectedCondition (claimNamespace pvc) (claimName pvc)
      in bindM (getsM vrgSpecOf)
       (\<lambda>sp.
          if vDryRun sp then ret ()
          else bindM (isArchivedAlready pvc)
            (\<lambda>archived.
               if archived
               then report ''Uploaded'' (''PV cluster data already protected for PVC '' @ claimName pvc)
               else if \<not> isPVCResizeCompleted pvc then failM (newE (''resize is in progress for pvc '' @ claimName pvc))
               else if vS3Profiles sp = [] then handleNoS3ProfilesError pvc
               else bindM (catchM (UploadPVandPVCtoS3Stores pvc)
                             (\<lambda>e. failM (wrapE ''failed to upload PV/PVC with error ('' e '')'')))
                 (\<lambda>profiles.
                    if length profiles \<noteq> length (vS3Profiles sp)
                    then let msg = ''uploaded PV/PVC cluster data to only some S3 profile(s)''
                         in seqM (report ''UploadError'' msg) (failM (newE msg))
                    else seqM (catchM (bindM (addArchivedAnnotationForPVC pvc) (\<lambda>_. ret ()))
                                 (\<lambda>e. seqM (report ''AnnotationFailed'' (''failed to add archived annotation: '' @ Error e))
                                        (failM (wrapE (''failed to add archived annotation for PVC ('' @ claimNamespace pvc @ ''/''
                                                       @ claimName pvc @ ''): '') e []))))
                           (report ''Uploaded'' ''Done uploading PV/PVC cluster data to S3 profile(s)'')))))"

end
