(* ===== verification/Ramen_VrgRestore.thy ===== *)
theory Ramen_VrgRestore
  imports Ramen_VrgUpload
begin

text \<open>
  Restoring the cluster data of PVCs from the object stores when a VRG becomes primary (\<^verbatim>\<open>vrg_volrep.go\<close>): volumes and PVCs are
  downloaded, rid of what belonged to the other cluster, and created; an object that exists already must match. The
  functions here that restore objects of either kind are shared with the groups.
\<close>

section \<open>Cleaning a volume\<close>

text \<open>\<^verbatim>\<open>secretsFromSC\<close>: the secret named by two parameters, if any of them is set.\<close>

definition secretsFromSC :: "strmap \<Rightarrow> string \<Rightarrow> string \<Rightarrow> secret_ref option" where
  "secretsFromSC params nameKey namespaceKey =
     (let r = (sm_get params nameKey, sm_get params namespaceKey) in if r = ([], []) then None else Some r)"

definition csiSecret :: "strmap \<Rightarrow> string \<Rightarrow> secret_ref option" where
  "csiSecret params kind =
     secretsFromSC params (''csi.storage.k8s.io/'' @ kind @ ''-secret-name'') (''csi.storage.k8s.io/'' @ kind @ ''-secret-namespace'')"

definition orKeep :: "'a option \<Rightarrow> 'a option \<Rightarrow> 'a option" where
  "orKeep new old = (case new of None \<Rightarrow> old | Some _ \<Rightarrow> new)"

text \<open>The secret for publishing lands in the reference for expanding, as in the source.\<close>

definition withSecrets :: "strmap \<Rightarrow> csi_source \<Rightarrow> csi_source" where
  "withSecrets params c =
     c\<lparr>csiNodeStageSecretRef := orKeep (csiSecret params ''node-stage'') (csiNodeStageSecretRef c),
       csiNodePublishSecretRef := orKeep (csiSecret params ''node-publish'') (csiNodePublishSecretRef c),
       csiNodeExpandSecretRef := orKeep (csiSecret params ''node-expand'') (csiNodeExpandSecretRef c),
       csiControllerExpandSecretRef := orKeep (csiSecret params ''controller-publish'')
         (orKeep (csiSecret params ''controller-expand'') (csiControllerExpandSecretRef c))\<rparr>"

definition processPVSecrets :: "volume \<Rightarrow> class_object \<Rightarrow> gerr + volume" where
  "processPVSecrets pv sc =
     (let params = clParameters sc;
          annotated = (case csiSecret params ''provisioner'' of
             None \<Rightarrow> pvAnnotations pv
           | Some (n, ns) \<Rightarrow> sm_put ''volume.kubernetes.io/provisioner-deletion-secret-namespace'' ns
                              (sm_put ''volume.kubernetes.io/provisioner-deletion-secret-name'' n (pvAnnotations pv)));
          pv' = pv\<lparr>pvAnnotations := sm_put ''pv.kubernetes.io/provisioned-by'' (clProvisioner sc) annotated\<rparr>
      in case pvCSI pv of
           Some c \<Rightarrow> Inr (pv'\<lparr>pvCSI := Some (withSecrets params c)\<rparr>)
         | None \<Rightarrow>
             if list_ex (\<lambda>k. csiSecret params k \<noteq> None)
                  [''node-stage'', ''node-publish'', ''node-expand'', ''controller-expand'', ''controller-publish'']
             then Inl nilDereference else Inr pv')"

definition updatePVClusterIDForRestore :: "vrg_spec \<Rightarrow> class_object \<Rightarrow> volume \<Rightarrow> volume" where
  "updatePVClusterIDForRestore sp sc pv =
     (if vSync sp \<noteq> None then pv
      else case pvCSI pv of
        None \<Rightarrow> pv
      | Some c \<Rightarrow>
          let clusterID = sm_get (clParameters sc) ''clusterID''
          in if clusterID = [] then pv
             else pv\<lparr>pvCSI := Some (c\<lparr>csiVolumeAttributes := sm_put ''clusterID'' clusterID (csiVolumeAttributes c)\<rparr>)\<rparr>)"

text \<open>The changes that do not need the storage class.\<close>

definition unboundForRestore :: "volume \<Rightarrow> volume" where
  "unboundForRestore pv =
     (let pv1 = pv\<lparr>pvResourceVersion := [], pvLabels := sm_delete pvLeftBehindLabelKey (pvLabels pv),
                   pvClaimRef := map_option (\<lambda>r. r\<lparr>crUID := [], crResourceVersion := [], crAPIVersion := []\<rparr>) (pvClaimRef pv)\<rparr>;
          handle = sm_get (pvAnnotations pv) destinationVolumeHandleAnnotation
      in case pvCSI pv of
           None \<Rightarrow> pv1
         | Some c \<Rightarrow>
             if handle = [] then pv1
             else pv1\<lparr>pvCSI := Some (c\<lparr>csiVolumeHandle := handle\<rparr>),
                      pvAnnotations := sm_delete destinationVolumeHandleAnnotation (pvAnnotations pv)\<rparr>)"

definition cleanupPVForRestore :: "volume \<Rightarrow> volume vrgm" where
  "cleanupPVForRestore pv =
     bindM (getStorageClassFromSCName (pvStorageClassName pv))
       (\<lambda>sc. bindM (getsM vrgSpecOf)
          (\<lambda>sp. liftE (processPVSecrets (updatePVClusterIDForRestore sp sc (unboundForRestore pv)) sc)))"

definition RestoreAnnotation :: string where
  "RestoreAnnotation = ''volumereplicationgroups.ramendr.openshift.io/ramen-restore''"

definition addRestoreAnnotation :: "strmap \<Rightarrow> strmap" where
  "addRestoreAnnotation annotations = sm_put RestoreAnnotation ''True'' annotations"

section \<open>Existing objects\<close>

definition OptionalEqual :: "string \<Rightarrow> string \<Rightarrow> bool" where
  "OptionalEqual a b \<longleftrightarrow> a = [] \<or> b = [] \<or> a = b"

definition csiMatches :: "csi_source option \<Rightarrow> csi_source option \<Rightarrow> bool" where
  "csiMatches x y =
     (case (x, y) of
        (Some a, Some b) \<Rightarrow> csiDriver a = csiDriver b \<and> csiFSType a = csiFSType b
      | _ \<Rightarrow> True)"

text \<open>The claim references are dereferenced without a check for nil.\<close>

definition pvMatches :: "volume \<Rightarrow> volume \<Rightarrow> gerr + bool" where
  "pvMatches x y =
     (if pvName x \<noteq> pvName y \<or> \<not> csiMatches (pvCSI x) (pvCSI y) then Inr False
      else case (pvClaimRef x, pvClaimRef y) of
        (Some a, Some b) \<Rightarrow>
          Inr (OptionalEqual (crKind a) (crKind b) \<and> crNamespace a = crNamespace b \<and> crName a = crName b
               \<and> pvAccessModes x = pvAccessModes y \<and> pvVolumeMode x = pvVolumeMode y)
      | _ \<Rightarrow> Inl nilDereference)"

definition updateExistingPVForSync :: "volume \<Rightarrow> unit vrgm" where
  "updateExistingPVForSync pv =
     bindM (cleanupPVForRestore pv)
       (\<lambda>pv'. catchM (updateVolume (pv'\<lparr>pvAnnotations := addRestoreAnnotation (pvAnnotations pv')\<rparr>))
          (\<lambda>e. failM (wrapE ''failed to cleanup existing PV for sync DR PV: '' e [])))"

definition validateBoundPV :: "volume \<Rightarrow> volume \<Rightarrow> unit vrgm" where
  "validateBoundPV existing pv =
     (case pvClaimRef pv of
        None \<Rightarrow> failM nilDereference
      | Some r \<Rightarrow>
          bindM (catchM (getFrom kClaims (crName r) (crNamespace r))
                   (\<lambda>e. failM (wrapE (''found bound PV '' @ pvName existing @ '' but unable to validate claim exists: '') e [])))
            (\<lambda>pvc.
               if claimDeleted pvc then failM (newE (''existing bound PV '' @ pvName existing @ '' claim deletion timestamp non-zero''))
               else bindM (liftE (pvMatches existing pv))
                 (\<lambda>ok. if ok then ret ()
                       else failM (newE (''existing PV ('' @ pvName existing @ '') is bound and doesn't match with the PV to be restored'')))))"

definition validateExistingPV :: "volume \<Rightarrow> unit vrgm" where
  "validateExistingPV pv =
     bindM (catchM (getFrom kVolumes (pvName pv) []) (\<lambda>e. failM (wrapE (''failed to get PV '' @ pvName pv @ '': '') e [])))
       (\<lambda>existing.
          if pvPhase existing = VolumeBound then validateBoundPV existing pv
          else bindM (getsM vrgSpecOf)
            (\<lambda>sp.
               if vSync sp \<noteq> None then updateExistingPVForSync existing
               else if sm_get (pvAnnotations existing) RestoreAnnotation = ''True'' then ret ()
               else failM (newE (''found existing PV ('' @ pvName existing
                                 @ '') not restored by Ramen and not matching with backed up PV''))))"

definition validateExistingPVC :: "claim \<Rightarrow> unit vrgm" where
  "validateExistingPVC pvc =
     bindM (catchM (getFrom kClaims (claimName pvc) (claimNamespace pvc))
              (\<lambda>e. failM (wrapE (''failed to get existing PVC '' @ claimName pvc @ '' ('') e '')'')))
       (\<lambda>existing.
          if \<not> claimBound existing then failM (newE (''PVC '' @ claimName pvc @ '' exists and is not bound''))
          else if claimDeleted existing then failM (newE (''existing bound PVC '' @ claimName pvc @ '' is being deleted''))
          else if claimVolumeName existing \<noteq> claimVolumeName pvc
          then failM (newE (''PVC '' @ claimName pvc @ '' exists and bound to a different PV''))
          else ret ())"

section \<open>Restoring a list of objects\<close>

text \<open>
  \<open>cleanup\<close> gives the object to create, with the restore annotation; \<open>existing\<close> is \<^verbatim>\<open>handleExistingObject\<close>: whether the object
  that exists can be counted as restored. A failed clean-up ends the loop, a failed creation does not.
\<close>

definition restoreClusterDataObject ::
  "('o \<Rightarrow> 'o vrgm) \<Rightarrow> ('o \<Rightarrow> unit vrgm) \<Rightarrow> ('o \<Rightarrow> bool vrgm) \<Rightarrow> nat \<Rightarrow> 'o \<Rightarrow> nat vrgm" where
  "restoreClusterDataObject cleanup create existing n x =
     bindM (cleanup x)
       (\<lambda>x'. bindM (attemptM (create x'))
          (\<lambda>r. case r of
             Inr _ \<Rightarrow> ret (Suc n)
           | Inl e \<Rightarrow>
               if IsAlreadyExists e then bindM (existing x') (\<lambda>ok. ret (if ok then Suc n else n)) else ret n))"

definition restoreClusterDataObjects ::
  "('o \<Rightarrow> 'o vrgm) \<Rightarrow> ('o \<Rightarrow> unit vrgm) \<Rightarrow> ('o \<Rightarrow> bool vrgm) \<Rightarrow> 'o list \<Rightarrow> nat vrgm" where
  "restoreClusterDataObjects cleanup create existing xs =
     bindM (foldlM (restoreClusterDataObject cleanup create existing) 0 xs)
       (\<lambda>n. if n \<noteq> length xs then failM (newE ''failed to restore all objects'') else ret n)"

text \<open>Whether the validation succeeded; a panic goes through.\<close>

definition handleExistingObject :: "unit vrgm \<Rightarrow> unit vrgm \<Rightarrow> bool vrgm" where
  "handleExistingObject validate update =
     bindM (recoverM validate)
       (\<lambda>r. case r of Inl _ \<Rightarrow> ret False | Inr _ \<Rightarrow> succeeded update)"

text \<open>Two volumes of one claim cannot be told apart.\<close>

fun checkPVClusterData :: "(string \<times> string) list \<Rightarrow> volume list \<Rightarrow> gerr option" where
  "checkPVClusterData seen [] = None"
| "checkPVClusterData seen (pv # pvs) =
     (case pvClaimRef pv of
        None \<Rightarrow> Some nilDereference
      | Some r \<Rightarrow>
          if (crNamespace r, crName r) \<in> set seen
          then Some (newE (''when restoring PV cluster data, detected conflicting claimKey '' @ crNamespace r @ ''/'' @ crName r))
          else checkPVClusterData ((crNamespace r, crName r) # seen) pvs)"

definition restorePVsFromObjectStore :: "object_store \<Rightarrow> string \<Rightarrow> nat vrgm" where
  "restorePVsFromObjectStore store profile =
     bindM (getsM s3KeyPrefix)
       (\<lambda>prefix. bindM (downloadPVs store prefix)
          (\<lambda>pvs. case checkPVClusterData [] pvs of
             Some e \<Rightarrow> failM (if ekind_of e = GoPanic then e
                             else wrapE (''Error found in PV cluster data in S3 store '' @ profile @ '': '') e [])
           | None \<Rightarrow>
               restoreClusterDataObjects
                 (\<lambda>pv. bindM (cleanupPVForRestore pv) (\<lambda>pv'. ret (pv'\<lparr>pvAnnotations := addRestoreAnnotation (pvAnnotations pv')\<rparr>)))
                 createVolume (\<lambda>pv. handleExistingObject (validateExistingPV pv) (ret ())) pvs))"

section \<open>PVCs\<close>

definition prunedAnnotation :: "string \<Rightarrow> bool" where
  "prunedAnnotation key \<longleftrightarrow>
     list_ex (\<lambda>p. isPrefixOf p key)
       [''pv.kubernetes.io'', ''volume.kubernetes.io'', ''replication.storage.openshift.io'',
        ''volumereplicationgroups.ramendr.openshift.io'', ''volsync.backube'']"

definition PruneAnnotations :: "strmap \<Rightarrow> strmap" where
  "PruneAnnotations annotations = filter (\<lambda>(k, v). \<not> prunedAnnotation k) annotations"

definition cleanupPVCForRestore :: "claim \<Rightarrow> claim" where
  "cleanupPVCForRestore pvc =
     pvc\<lparr>claimAnnotations := PruneAnnotations (claimAnnotations pvc), claimFinalizers := [], claimResourceVersion := [],
         claimOwners := [], claimUID := []\<rparr>"

definition validateVolumeAttributeClassExists :: "string \<Rightarrow> unit vrgm" where
  "validateVolumeAttributeClassExists name =
     bindM (getsM (\<lambda>s. name \<in> set (iVacCache s)))
       (\<lambda>cached.
          if cached then ret ()
          else bindM (catchM (listAll kVolumeAttributesClasses (\<lambda>n. n = name))
                        (\<lambda>e. failM (wrapE (''failed to get the volumeattributesclass with name '' @ name @ '' ('') e '')'')))
            (\<lambda>found. if found = [] then failM (Gerr NotFound (''failed to get the volumeattributesclass with name '' @ name))
                     else modifyM (\<lambda>s. s\<lparr>iVacCache := name # iVacCache s\<rparr>)))"

text \<open>A missing class is reported as an event and does not fail the restore.\<close>

definition validateVolumeAttributesClassForRestore :: "claim \<Rightarrow> unit vrgm" where
  "validateVolumeAttributesClassForRestore pvc =
     (case claimVolumeAttributesClass pvc of
        None \<Rightarrow> ret ()
      | Some name \<Rightarrow> if name = [] then ret () else bindM (succeeded (validateVolumeAttributeClassExists name)) (\<lambda>_. ret ()))"

definition restorePVCsFromObjectStore :: "object_store \<Rightarrow> string \<Rightarrow> nat vrgm" where
  "restorePVCsFromObjectStore store profile =
     bindM (getsM s3KeyPrefix)
       (\<lambda>prefix. bindM (downloadPVCs store prefix)
          (\<lambda>pvcs. seqM (modifyM (\<lambda>s. s\<lparr>iVolRepPVCs := iVolRepPVCs s @ pvcs\<rparr>))
             (restoreClusterDataObjects
                (\<lambda>pvc. let pvc' = cleanupPVCForRestore pvc
                       in seqM (validateVolumeAttributesClassForRestore pvc')
                            (ret (pvc'\<lparr>claimAnnotations := addRestoreAnnotation (claimAnnotations pvc')\<rparr>)))
                createClaim (\<lambda>pvc. handleExistingObject (validateExistingPVC pvc) (updateClaim pvc)) pvcs)))"

section \<open>All profiles\<close>

text \<open>
  The profiles are tried in order until one restores as many objects of the second kind as of the first. The result is the
  number restored, whether to requeue and the last error. A mismatch of the counts clears the error.
\<close>

type_synonym restored = "nat \<times> bool \<times> gerr option"

fun restoreFromS3 ::
  "(object_store \<Rightarrow> string \<Rightarrow> nat vrgm) \<Rightarrow> (object_store \<Rightarrow> string \<Rightarrow> nat vrgm) \<Rightarrow> gerr option \<Rightarrow> bool \<Rightarrow> string list \<Rightarrow> restored vrgm"
where
  "restoreFromS3 first second err noS3 [] = ret (if noS3 then (0, False, None) else (0, True, err))"
| "restoreFromS3 first second err noS3 (profile # profiles) =
     (if profile = ''NoS3'' then restoreFromS3 first second err True profiles
      else bindM (getsM namespacedName)
        (\<lambda>tag. bindM (attemptM (ObjectStore profile tag))
           (\<lambda>r. case r of
              Inl e \<Rightarrow> restoreFromS3 first second (Some e) noS3 profiles
            | Inr (store, _) \<Rightarrow>
                bindM (recoverM (first store profile))
                  (\<lambda>r. case r of
                     Inl e \<Rightarrow> restoreFromS3 first second (Some e) noS3 profiles
                   | Inr n \<Rightarrow>
                       bindM (recoverM (second store profile))
                         (\<lambda>r. case r of
                            Inl e \<Rightarrow> restoreFromS3 first second (Some e) noS3 profiles
                          | Inr m \<Rightarrow> if n \<noteq> m then restoreFromS3 first second None noS3 profiles
                                     else ret (n + m, False, None))))))"

definition restorePVsAndPVCsFromS3 :: "restored vrgm" where
  "restorePVsAndPVCsFromS3 =
     bindM (getsM (\<lambda>s. vS3Profiles (vrgSpecOf s)))
       (restoreFromS3 restorePVsFromObjectStore restorePVCsFromObjectStore (Some (newE ''s3Profiles empty'')) False)"

definition restorePVsAndPVCsForVolRep :: "restored vrgm" where
  "restorePVsAndPVCsForVolRep =
     bindM (getsM (\<lambda>s. vS3Profiles (vrgSpecOf s)))
       (\<lambda>profiles.
          if profiles = [] then ret (0, True, Some (newE ''no S3Profiles configured''))
          else bindM restorePVsAndPVCsFromS3
            (\<lambda>(n, requeue, err). case err of
               None \<Rightarrow> ret (n, requeue, None)
             | Some e \<Rightarrow> ret (0, requeue, Some (wrapE ''failed to restore PVs and PVCs using profile list: '' e []))))"

end
