(* ===== verification/Ramen_VgrStore.thy ===== *)
theory Ramen_VgrStore
  imports Ramen_VrgRestore
begin

text \<open>
  The cluster data of consistency groups (\<^verbatim>\<open>vrg_volgrouprep.go\<close>): the destination handles on volumes and on the content of a
  group, the upload of a VolumeGroupReplication with its content, and their restore.
\<close>

section \<open>Content of a group\<close>

definition getVGRCFromVGR :: "volume_group_replication \<Rightarrow> group_content vrgm" where
  "getVGRCFromVGR vgr =
     catchM (getFrom kVGRCs (vgrContentName vgr) [])
       (\<lambda>e. failM (wrapE (''failed to get VGRC '' @ vgrContentName vgr @ '' from VGR '' @ vgrName vgr @ '', '') e []))"

definition updateVGRC :: "group_content \<Rightarrow> unit vrgm" where
  "updateVGRC gc = updateIn kVGRCs kVGRCs_update (gcName gc) [] gc"

section \<open>Destination handles\<close>

definition findAndApplyPVMapping :: "group_content \<Rightarrow> volume \<Rightarrow> string \<Rightarrow> unit vrgm" where
  "findAndApplyPVMapping gc pv name =
     (case find (\<lambda>m. pmName m = pvName pv) (gcMappings gc) of
        None \<Rightarrow> failM (newE (''no persistent volume mapping for PV '' @ pvName pv @ '' in VolumeGroupReplicationContent '' @ gcName gc))
      | Some m \<Rightarrow>
          if pmDestinationVolumeHandle m = [] then failM (newE (''destination volume ID is empty for VGR '' @ name))
          else applyDestinationVolumeHandleToPV pv (pmDestinationVolumeHandle m))"

definition annotateWithDestinationVolumeHandleForVolGroupRep :: "string \<Rightarrow> string \<Rightarrow> claim \<Rightarrow> unit vrgm" where
  "annotateWithDestinationVolumeHandleForVolGroupRep name ns pvc =
     bindM (getsM (\<lambda>s. vSync (vrgSpecOf s)))
       (\<lambda>sync.
          if sync \<noteq> None then ret ()
          else bindM (catchM (getPVFromPVC pvc) (\<lambda>e. failM (wrapE (''failed to get PV for PVC '' @ claimName pvc @ '': '') e [])))
            (\<lambda>pv. bindM (getFrom kVGRs name ns)
               (\<lambda>vgr. bindM (liftE (destinationInfoAvailableOrSkip (vrsConditions (vrStatus vgr)) (''VGR '' @ name)))
                  (\<lambda>available.
                     if \<not> available then ret ()
                     else bindM (catchM (getVGRCFromVGR vgr)
                                   (\<lambda>e. failM (wrapE (''failed to get VolumeGroupReplicationContent for VGR '' @ name @ '': '') e [])))
                       (\<lambda>gc. findAndApplyPVMapping gc pv name)))))"

definition destinationVolumeGroupHandleAnnotation :: string where
  "destinationVolumeGroupHandleAnnotation = ''ramendr.openshift.io/destination-volume-group-handle''"

definition findAndApplyVolumeGroupHandle :: "group_content \<Rightarrow> string \<Rightarrow> unit vrgm" where
  "findAndApplyVolumeGroupHandle gc name =
     (let handle = gcDestinationGroupID gc
      in if handle = [] then failM (newE (''destination volume group ID is empty for VGR '' @ name))
         else if sm_get (gcAnnotations gc) destinationVolumeGroupHandleAnnotation = handle then ret ()
         else catchM (updateVGRC (gc\<lparr>gcAnnotations := sm_delete pvcVRAnnotationArchivedKey
                        (sm_put destinationVolumeGroupHandleAnnotation handle (gcAnnotations gc))\<rparr>))
                (\<lambda>e. failM (wrapE (''failed to update VolumeGroupReplicationContent '' @ gcName gc
                              @ '' with destination volume group handle annotation: '') e [])))"

definition annotateWithDestinationVolumeGroupHandle :: "string \<Rightarrow> string \<Rightarrow> unit vrgm" where
  "annotateWithDestinationVolumeGroupHandle name ns =
     bindM (getsM (\<lambda>s. vSync (vrgSpecOf s)))
       (\<lambda>sync.
          if sync \<noteq> None then ret ()
          else bindM (getFrom kVGRs name ns)
            (\<lambda>vgr. bindM (liftE (destinationInfoAvailableOrSkip (vrsConditions (vrStatus vgr)) (''VGR '' @ name)))
               (\<lambda>available.
                  if \<not> available then ret ()
                  else bindM (catchM (getVGRCFromVGR vgr)
                                (\<lambda>e. failM (wrapE (''failed to get VolumeGroupReplicationContent for VGR '' @ name @ '': '') e [])))
                    (\<lambda>gc. findAndApplyVolumeGroupHandle gc name))))"

section \<open>Upload\<close>

definition isVGRandVGRCArchivedAlready :: "volume_group_replication \<Rightarrow> bool vrgm" where
  "isVGRandVGRCArchivedAlready vgr =
     bindM (attemptM (getVGRCFromVGR vgr))
       (\<lambda>r. case r of
          Inl _ \<Rightarrow> ret False
        | Inr gc \<Rightarrow>
            ret (sm_get (vgrAnnotations vgr) pvcVRAnnotationArchivedKey = generateArchiveAnnotation (vrGeneration vgr)
                 \<and> sm_get (gcAnnotations gc) pvcVRAnnotationArchivedKey = generateArchiveAnnotation (gcGeneration gc)))"

definition UploadVGRAndVGRCtoS3 :: "string \<Rightarrow> object_store \<Rightarrow> volume_group_replication \<Rightarrow> group_content \<Rightarrow> unit vrgm" where
  "UploadVGRAndVGRCtoS3 profile store vgr gc =
     bindM (getsM s3KeyPrefix)
       (\<lambda>prefix.
          seqM (catchM (UploadVGRC store prefix (gcName gc) gc)
                  (\<lambda>e. seqM (whenM (isAwsError e)
                               (cacheObjectStorer profile
                                  (Inl (newE (''persistent error while uploading to s3 profile '' @ profile @ '', will retry later'')))))
                         (failM (wrapE (''error uploading VGRC to s3Profile '' @ profile @ '', failed to protect cluster data for VGRC ''
                                        @ gcName gc @ '', '') e []))))
            (catchM (UploadVGR store prefix (vgrNamespace vgr @ ''/'' @ vgrName vgr) vgr)
               (\<lambda>e. failM (wrapE (''error uploading VGR to s3Profile '' @ profile @ '', failed to protect cluster data for VGR ''
                            @ vgrNamespace vgr @ ''/'' @ vgrName vgr @ '', '') e []))))"

definition UploadVGRandVGRCtoS3Store :: "string \<Rightarrow> volume_group_replication \<Rightarrow> group_content \<Rightarrow> unit vrgm" where
  "UploadVGRandVGRCtoS3Store profile vgr gc =
     (if profile = [] then failM (newE (''missing S3 profiles, failed to protect cluster data for VGR '' @ vgrName vgr))
      else bindM (catchM (getObjectStorer profile)
                    (\<lambda>e. failM (wrapE (''error getting object store, failed to protect cluster data for VGR '' @ vgrName vgr @ '', '') e [])))
             (\<lambda>store. UploadVGRAndVGRCtoS3 profile store vgr gc))"

definition UploadVGRandVGRCtoS3Stores :: "volume_group_replication \<Rightarrow> string list vrgm" where
  "UploadVGRandVGRCtoS3Stores vgr =
     bindM (catchM (getVGRCFromVGR vgr)
              (\<lambda>e. failM (wrapE (''error getting VGRC for VGR, failed to protect cluster data for VGR '' @ vgrName vgr @ '', '') e [])))
       (\<lambda>gc. bindM (getsM (\<lambda>s. vS3Profiles (vrgSpecOf s)))
          (foldlM (\<lambda>done profile. seqM (UploadVGRandVGRCtoS3Store profile vgr gc) (ret (done @ [profile]))) []))"

definition updateVGRMeta :: "volume_group_replication \<Rightarrow> unit vrgm" where
  "updateVGRMeta vgr = updateIn kVGRs kVGRs_update (vgrName vgr) (vgrNamespace vgr) vgr"

definition addArchivedAnnotationForVGRandVGRC :: "volume_group_replication \<Rightarrow> unit vrgm" where
  "addArchivedAnnotationForVGRandVGRC vgr =
     (let value = generateArchiveAnnotation (vrGeneration vgr)
      in seqM (if map_of (vgrAnnotations vgr) pvcVRAnnotationArchivedKey = Some value then ret ()
               else catchM (updateVGRMeta (vgr\<lparr>vgrAnnotations := sm_put pvcVRAnnotationArchivedKey value (vgrAnnotations vgr)\<rparr>))
                      (\<lambda>e. failM (wrapE ''failed to update VolumeGroupReplication annotation, '' e [])))
           (bindM (catchM (getVGRCFromVGR vgr) (\<lambda>e. failM (wrapE ''failed to update VGRC annotation, '' e [])))
              (\<lambda>gc. let value = generateArchiveAnnotation (gcGeneration gc)
                    in if map_of (gcAnnotations gc) pvcVRAnnotationArchivedKey = Some value then ret ()
                       else catchM (updateVGRC (gc\<lparr>gcAnnotations := sm_put pvcVRAnnotationArchivedKey value (gcAnnotations gc)\<rparr>))
                              (\<lambda>e. failM (wrapE ''failed to update VolumeGroupReplicationContent annotation, '' e [])))))"

definition uploadVGRandVGRCtoS3Stores :: "string \<Rightarrow> string \<Rightarrow> unit vrgm" where
  "uploadVGRandVGRCtoS3Stores name ns =
     bindM (getsM vrgSpecOf)
       (\<lambda>sp.
          if vDryRun sp then ret ()
          else bindM (catchM (getFrom kVGRs name ns) (\<lambda>e. failM (wrapE ''failed to get VGR ('' e '')'')))
            (\<lambda>vgr.
               if vgrExternal vgr then ret ()
               else bindM (isVGRandVGRCArchivedAlready vgr)
                 (\<lambda>archived.
                    if archived then ret ()
                    else if vS3Profiles sp = []
                    then failM (newE (''error uploading cluster data of VGR and VGRC '' @ name @ '' because VRG spec has no S3 profiles''))
                    else bindM (catchM (UploadVGRandVGRCtoS3Stores vgr)
                                  (\<lambda>e. failM (wrapE ''failed to upload VGR/VGRC with error ('' e '')'')))
                      (\<lambda>profiles.
                         if length profiles \<noteq> length (vS3Profiles sp)
                         then failM (newE ''uploaded VGR/VGRC cluster data to only some S3 profile(s)'')
                         else addArchivedAnnotationForVGRandVGRC vgr))))"

section \<open>Restore\<close>

text \<open>The reference to the group is dereferenced without a check for nil.\<close>

fun checkVGRCClusterData :: "(string \<times> string) list \<Rightarrow> group_content list \<Rightarrow> gerr option" where
  "checkVGRCClusterData seen [] = None"
| "checkVGRCClusterData seen (gc # gcs) =
     (case gcRef gc of
        None \<Rightarrow> Some nilDereference
      | Some r \<Rightarrow>
          if r \<in> set seen
          then Some (newE (''when restoring VGRC cluster data, detected conflicting vgrKey '' @ snd r @ ''/'' @ fst r))
          else checkVGRCClusterData (r # seen) gcs)"

definition validateExistingVGRC :: "group_content \<Rightarrow> unit vrgm" where
  "validateExistingVGRC gc =
     bindM (catchM (getFrom kVGRCs (gcName gc) []) (\<lambda>e. failM (wrapE (''failed to get existing VGRC '' @ gcName gc @ '' ('') e '')'')))
       (\<lambda>existing. if gcDeleted existing then failM (newE (''existing VGRC '' @ gcName gc @ '' is being deleted'')) else ret ())"

definition validateExistingVGR :: "volume_group_replication \<Rightarrow> unit vrgm" where
  "validateExistingVGR vgr =
     bindM (catchM (getFrom kVGRs (vgrName vgr) (vgrNamespace vgr))
              (\<lambda>e. failM (wrapE (''failed to get existing VGR '' @ vgrName vgr @ '' ('') e '')'')))
       (\<lambda>existing.
          if vrDeleted existing then failM (newE (''existing VGR '' @ vgrName vgr @ '' is being deleted''))
          else if vgrContentName existing \<noteq> vgrContentName vgr
          then failM (newE (''VGR '' @ vgrName vgr @ '' exists and refers to a different VGRC''))
          else ret ())"

text \<open>A volume handle is replaced by the destination of the first mapping with that handle.\<close>

definition destinationHandle :: "group_content \<Rightarrow> string \<Rightarrow> gerr + string" where
  "destinationHandle gc handle =
     (case find (\<lambda>m. pmVolumeHandle m = handle) (gcMappings gc) of
        None \<Rightarrow> Inr handle
      | Some m \<Rightarrow>
          if pmDestinationVolumeHandle m = []
          then Inl (newE (''destination volume ID is empty for VGRC '' @ gcName gc @ '', PV '' @ pmName m @ '', volumeHandle '' @ handle))
          else Inr (pmDestinationVolumeHandle m))"

fun destinationHandles :: "group_content \<Rightarrow> string list \<Rightarrow> gerr + string list" where
  "destinationHandles gc [] = Inr []"
| "destinationHandles gc (h # hs) =
     (case destinationHandle gc h of
        Inl e \<Rightarrow> Inl e
      | Inr h' \<Rightarrow> (case destinationHandles gc hs of Inl e \<Rightarrow> Inl e | Inr hs' \<Rightarrow> Inr (h' # hs')))"

definition updateVGRCVolumeHandlesForRestore :: "group_content \<Rightarrow> gerr + group_content" where
  "updateVGRCVolumeHandlesForRestore gc =
     (case destinationHandles gc (gcVolumeHandles gc) of Inl e \<Rightarrow> Inl e | Inr hs \<Rightarrow> Inr (gc\<lparr>gcVolumeHandles := hs\<rparr>))"

definition getVGRClass :: "string \<Rightarrow> class_object vrgm" where
  "getVGRClass name =
     bindM (listAll kVGRClasses (\<lambda>c. clName c = name))
       (\<lambda>cs. case cs of [] \<Rightarrow> failM (Gerr NotFound (name @ '' not found'')) | c # _ \<Rightarrow> ret c)"

definition updateVGRCClusterIDForRestore :: "group_content \<Rightarrow> group_content vrgm" where
  "updateVGRCClusterIDForRestore gc =
     bindM (getVGRClass (gcClassName gc))
       (\<lambda>c. let clusterID = sm_get (clParameters c) ''clusterID''
            in ret (if clusterID = [] then gc else gc\<lparr>gcAttributes := sm_put ''clusterID'' clusterID (gcAttributes gc)\<rparr>))"

definition putIfSet :: "string \<Rightarrow> string \<Rightarrow> strmap \<Rightarrow> strmap" where
  "putIfSet key value m = (if value = [] then m else sm_put key value m)"

definition processVGRCSecrets :: "group_content \<Rightarrow> group_content vrgm" where
  "processVGRCSecrets gc =
     bindM (getVGRClass (gcClassName gc))
       (\<lambda>c. let n = ''replication.storage.openshift.io/group-replication-secret-name'';
                ns = ''replication.storage.openshift.io/group-replication-secret-namespace''
            in ret (gc\<lparr>gcAnnotations := putIfSet ns (sm_get (clParameters c) ns)
                 (putIfSet n (sm_get (clParameters c) n) (gcAnnotations gc))\<rparr>))"

definition detachedContent :: "group_content \<Rightarrow> group_content" where
  "detachedContent gc =
     (let gc1 = gc\<lparr>gcResourceVersion := [], gcRef := None\<rparr>;
          handle = sm_get (gcAnnotations gc) destinationVolumeGroupHandleAnnotation
      in if handle = [] then gc1
         else gc1\<lparr>gcHandle := handle, gcAnnotations := sm_delete destinationVolumeGroupHandleAnnotation (gcAnnotations gc)\<rparr>)"

definition cleanupVGRCForRestore :: "group_content \<Rightarrow> group_content vrgm" where
  "cleanupVGRCForRestore gc =
     bindM (liftE (updateVGRCVolumeHandlesForRestore (detachedContent gc)))
       (\<lambda>gc1. bindM (updateVGRCClusterIDForRestore gc1) processVGRCSecrets)"

definition cleanupVGRForRestore :: "volume_group_replication \<Rightarrow> volume_group_replication vrgm" where
  "cleanupVGRForRestore vgr =
     bindM (getsM (\<lambda>s. (vrgInAdminNamespace s, vNamespace (iVrg s), iUID s)))
       (\<lambda>(inAdmin, vrgNs, uid).
          let vgr' = vgr\<lparr>vgrAnnotations := PruneAnnotations (vgrAnnotations vgr), vrFinalizers := [], vgrResourceVersion := []\<rparr>
          in if inAdmin then ret (vgr'\<lparr>vrOwner := None\<rparr>)
             else if vrgNs \<noteq> vgrNamespace vgr
             then failM (newE ''failed to set owner reference to VolumeGroupReplication resource'')
             else ret (vgr'\<lparr>vrOwner := Some uid\<rparr>))"

text \<open>What the server stores on creation has no deletion mark and no status.\<close>

definition createVGRC :: "group_content \<Rightarrow> unit vrgm" where
  "createVGRC gc =
     createIn kVGRCs kVGRCs_update (gcName gc) [] (gc\<lparr>gcDeleted := False, gcMappings := [], gcDestinationGroupID := []\<rparr>)"

definition createRestoredVGR :: "volume_group_replication \<Rightarrow> unit vrgm" where
  "createRestoredVGR vgr =
     createIn kVGRs kVGRs_update (vgrName vgr) (vgrNamespace vgr)
       (vgr\<lparr>vrDeleted := False, vrStatus := emptyVRStatus, vgrClaimRefs := []\<rparr>)"

definition restoreVGRCsFromObjectStore :: "object_store \<Rightarrow> string \<Rightarrow> nat vrgm" where
  "restoreVGRCsFromObjectStore store profile =
     bindM (getsM s3KeyPrefix)
       (\<lambda>prefix. bindM (downloadVGRCs store prefix)
          (\<lambda>gcs. case checkVGRCClusterData [] gcs of
             Some e \<Rightarrow> failM (if ekind_of e = GoPanic then e
                             else wrapE (''Error found in VGRC cluster data in S3 store '' @ profile @ '': '') e [])
           | None \<Rightarrow>
               restoreClusterDataObjects
                 (\<lambda>gc. bindM (cleanupVGRCForRestore gc) (\<lambda>gc'. ret (gc'\<lparr>gcAnnotations := addRestoreAnnotation (gcAnnotations gc')\<rparr>)))
                 createVGRC (\<lambda>gc. handleExistingObject (validateExistingVGRC gc) (ret ())) gcs))"

definition restoreVGRsFromObjectStore :: "object_store \<Rightarrow> string \<Rightarrow> nat vrgm" where
  "restoreVGRsFromObjectStore store profile =
     bindM (getsM s3KeyPrefix)
       (\<lambda>prefix. bindM (downloadVGRs store prefix)
          (restoreClusterDataObjects
             (\<lambda>vgr. bindM (cleanupVGRForRestore vgr) (\<lambda>vgr'. ret (vgr'\<lparr>vgrAnnotations := addRestoreAnnotation (vgrAnnotations vgr')\<rparr>)))
             createRestoredVGR (\<lambda>vgr. handleExistingObject (validateExistingVGR vgr) (ret ()))))"

definition restoreVGRsAndVGRCsFromS3 :: "restored vrgm" where
  "restoreVGRsAndVGRCsFromS3 =
     bindM (getsM (\<lambda>s. vS3Profiles (vrgSpecOf s)))
       (restoreFromS3 restoreVGRCsFromObjectStore restoreVGRsFromObjectStore (Some (newE ''s3Profiles empty'')) False)"

text \<open>Whether to requeue, and the error.\<close>

definition restoreVGRsAndVGRCsForVolRep :: "(bool \<times> gerr option) vrgm" where
  "restoreVGRsAndVGRCsForVolRep =
     bindM IsCGEnabledForVolRep
       (\<lambda>cg.
          if \<not> cg then ret (False, None)
          else bindM (getsM (\<lambda>s. vS3Profiles (vrgSpecOf s)))
            (\<lambda>profiles.
               if profiles = [] then ret (True, Some (newE ''no S3Profiles configured''))
               else bindM restoreVGRsAndVGRCsFromS3
                 (\<lambda>(_, requeue, err). ret (requeue,
                    map_option (\<lambda>e. wrapE ''failed to restore VGRs and VGRCs using profile list: '' e []) err))))"

end
