(* ===== verification/Ramen_VolRepReconcile.thy ===== *)
theory Ramen_VolRepReconcile
  imports Ramen_VgrStore
begin

text \<open>
  The reconcile of all PVCs of a VRG that are replicated by VolumeReplication or VolumeGroupReplication, as primary and as
  secondary (\<^verbatim>\<open>vrg_volrep.go\<close>, \<^verbatim>\<open>vrg_volgrouprep.go\<close>), with the unprotection of PVCs that are deleted while the VRG is primary
  and the upload of the VRG itself (\<^verbatim>\<open>vrg_vrgobject.go\<close>).
\<close>

section \<open>Unprotecting\<close>

definition pvcUnprotectVolRep :: "claim \<Rightarrow> unit vrgm" where
  "pvcUnprotectVolRep pvc =
     bindM (getsM (\<lambda>s. cfgVolumeUnprotectionEnabled (iConfig s)))
       (\<lambda>enabled.
          if \<not> enabled then ret ()
          else bindM (succeeded (pvAndPvcObjectReplicasDelete pvc))
            (\<lambda>ok.
               if \<not> ok then requeueVRG
               else bindM (isCGEnabled pvc)
                 (\<lambda>(_, cg). if cg then pvcUnprotectVolGroupRep pvc else pvcsUnprotectVolRep [pvc])))"

definition pvcUnprotectVolRepIfDeleted :: "claim \<Rightarrow> bool vrgm" where
  "pvcUnprotectVolRepIfDeleted pvc =
     (if \<not> claimDeleted pvc then ret False
      else bindM (getsM vrgSpecOf)
        (\<lambda>sp.
           if vReplicationState sp \<noteq> Primary \<or> vPrepareForFinalSync sp \<or> vRunFinalSync sp then ret True
           else seqM (pvcUnprotectVolRep pvc) (ret True)))"

section \<open>As primary\<close>

text \<open>The PVCs of groups are collected and processed afterwards.\<close>

definition processPVCAsPrimary :: "groups \<Rightarrow> claim \<Rightarrow> groups vrgm" where
  "processPVCAsPrimary gs pvc =
     bindM (pvcUnprotectVolRepIfDeleted pvc)
       (\<lambda>deleted.
          if deleted then ret gs
          else bindM (recoverM (updateProtectedPVCs pvc))
            (\<lambda>r. case r of
               Inl _ \<Rightarrow> seqM requeueVRG (ret gs)
             | Inr _ \<Rightarrow>
                 bindM (preparePVCForVRProtection pvc)
                   (\<lambda>(requeue, skip, pvc').
                      if requeue then seqM requeueVRG (ret gs)
                      else if skip then ret gs
                      else bindM (isCGEnabled pvc')
                        (\<lambda>(cg, ok).
                           if ok then addPVCToGroupPVCs pvc' cg gs
                           else bindM (processVRAsPrimary pvc')
                             (\<lambda>(requeue, _, err).
                                seqM (whenM requeue requeueVRG)
                                  (if err \<noteq> None then ret gs
                                   else bindM (succeeded (annotateWithDestinationVolumeHandleForVolRep pvc'))
                                     (\<lambda>ok.
                                        if \<not> ok then seqM requeueVRG (ret gs)
                                        else bindM (succeeded (uploadPVandPVCtoS3Stores pvc'))
                                          (\<lambda>ok. seqM (whenM (\<not> ok) requeueVRG) (ret gs)))))))))"

definition processPVCsAsPrimary :: "groups vrgm" where
  "processPVCsAsPrimary = bindM (getsM iVolRepPVCs) (foldlM processPVCAsPrimary [])"

definition protectGroupPVC :: "string \<Rightarrow> string \<Rightarrow> claim \<Rightarrow> unit vrgm" where
  "protectGroupPVC name ns pvc =
     bindM (succeeded (annotateWithDestinationVolumeHandleForVolGroupRep name ns pvc))
       (\<lambda>ok.
          if \<not> ok then requeueVRG
          else bindM (succeeded (uploadPVandPVCtoS3Stores pvc)) (\<lambda>ok. whenM (\<not> ok) requeueVRG))"

definition reconcileGroupAsPrimary :: "bool \<Rightarrow> (string \<times> string) \<times> claim list \<Rightarrow> unit vrgm" where
  "reconcileGroupAsPrimary isGlobal g =
     (case g of ((name, ns), pvcs) \<Rightarrow>
        bindM (processVGRAsPrimary name ns pvcs)
          (\<lambda>(pvcs', requeue, _, err).
             seqM (whenM requeue requeueVRG)
               (if err \<noteq> None then ret ()
                else seqM (forM pvcs' (protectGroupPVC name ns))
                  (bindM (succeeded (annotateWithDestinationVolumeGroupHandle name ns))
                     (\<lambda>ok.
                        if \<not> ok then requeueVRG
                        else if isGlobal then ret ()
                        else bindM (succeeded (uploadVGRandVGRCtoS3Stores name ns)) (\<lambda>ok. whenM (\<not> ok) requeueVRG))))))"

definition reconcileVolGroupRepsAsPrimary :: "groups \<Rightarrow> unit vrgm" where
  "reconcileVolGroupRepsAsPrimary gs =
     bindM (getsM (\<lambda>s. vrgHasGlobalVGRLabel (iVrg s)))
       (\<lambda>isGlobal. bindM (if isGlobal then isGlobalStateInConsensus else ret True)
          (\<lambda>consensus. if \<not> consensus then requeueVRG else forM gs (reconcileGroupAsPrimary isGlobal)))"

definition reconcileVolRepsAsPrimary :: "unit vrgm" where
  "reconcileVolRepsAsPrimary =
     bindM (getsM iVrg)
       (\<lambda>v. bindM (if shouldCleanupDryRunSnapshots (vSpec v) then succeeded cleanupDryRunSnapshots else ret True)
          (\<lambda>cleaned.
             if \<not> cleaned then requeueVRG
             else bindM (if vState (vStatus v) = PrimaryState \<and> shouldTakeDryRunSnapshots (vSpec v)
                         then succeeded ensureSnapshotsForDryRun else ret True)
               (\<lambda>taken.
                  if \<not> taken then requeueVRG
                  else bindM processPVCsAsPrimary reconcileVolGroupRepsAsPrimary)))"

section \<open>As secondary\<close>

definition reconcileVolRepsAsSecondary :: "bool vrgm" where
  "reconcileVolRepsAsSecondary =
     bindM (getsM vrgSpecOf)
       (\<lambda>sp. bindM (if shouldCleanupDryRunSnapshots sp then succeeded cleanupDryRunSnapshots else ret True)
          (\<lambda>cleaned.
             if \<not> cleaned then ret True
             else bindM (bindM (getsM iVolRepPVCs) processPVCsAsSecondary)
               (\<lambda>(requeue, gs). reconcileVolGroupRepsAsSecondary requeue gs)))"

section \<open>The VRG itself\<close>

definition VrgObjectProtect :: "object_store \<Rightarrow> vrg \<Rightarrow> unit vrgm" where
  "VrgObjectProtect store v = uploadTypedObject store (s3PathNamePrefix (vNamespace v) (vName v)) ''a'' (StoredVRG v)"

definition VrgObjectUnprotect :: "object_store \<Rightarrow> vrg \<Rightarrow> unit vrgm" where
  "VrgObjectUnprotect store v =
     DeleteTypedObject store (s3PathNamePrefix (vNamespace v) (vName v)) ''a'' ''v1alpha1.VolumeReplicationGroup''"

definition vrgObjectDownload :: "object_store \<Rightarrow> string \<Rightarrow> vrg vrgm" where
  "vrgObjectDownload store pathName = DownloadTypedObject store pathName ''a'' ''v1alpha1.VolumeReplicationGroup'' storedVRG"

text \<open>\<open>True\<close> asks for a requeue. The version is recorded after each store.\<close>

fun vrgObjectProtectThrottled :: "(object_store \<times> s3_profile) list \<Rightarrow> bool vrgm" where
  "vrgObjectProtectThrottled [] = ret False"
| "vrgObjectProtectThrottled ((store, profile) # accessors) =
     bindM (getsM iVrg)
       (\<lambda>v. bindM (succeeded (VrgObjectProtect store v))
          (\<lambda>ok.
             if \<not> ok
             then seqM (modifyM (\<lambda>s. s\<lparr>iVrgObjectProtected := Some (newVRGClusterDataUnprotectedCondition (vGeneration v)
                           ''VolumeReplicationGroupObjectCaptureError'' ''VRG Kube object protect error'')\<rparr>))
                    (ret True)
             else seqM (modifyM (\<lambda>s. s\<lparr>iLastUploadVersion := (iLastUploadVersion s)(namespacedName s \<mapsto> vResourceVersion v),
                           iVrgObjectProtected := Some (newVRGClusterDataProtectedCondition (vGeneration v) ''VRG object protected'')\<rparr>))
                    (vrgObjectProtectThrottled accessors)))"

definition vrgObjectProtect :: "bool vrgm" where
  "vrgObjectProtect =
     bindM (getsM (\<lambda>s. (iVrg s, iLastUploadVersion s (namespacedName s), iS3StoreAccessors s)))
       (\<lambda>(v, uploaded, accessors).
          if vDryRun (vSpec v) then ret False
          else if uploaded = Some (vResourceVersion v) then ret False
          else vrgObjectProtectThrottled accessors)"

fun s3StoreAccessorsGet :: "string \<Rightarrow> (object_store \<times> s3_profile) list \<Rightarrow> string list \<Rightarrow> (object_store \<times> s3_profile) list vrgm" where
  "s3StoreAccessorsGet tag found [] = ret found"
| "s3StoreAccessorsGet tag found (profile # profiles) =
     (if profile = ''NoS3'' then s3StoreAccessorsGet tag found profiles
      else bindM (attemptM (ObjectStore profile tag))
        (\<lambda>r. case r of Inl _ \<Rightarrow> ret [] | Inr a \<Rightarrow> s3StoreAccessorsGet tag (found @ [a]) profiles))"

end
