(* ===== verification/Ramen_VolRepInv.thy ===== *)
theory Ramen_VolRepInv
  imports Ramen_VolRepReconcile
begin

text \<open>
  What the operations on the PVCs of a VRG keep. Five locales, each extending the one before, say what a property of the
  state must be closed under: \<open>vrg_reads\<close>, the calls to the API server, the reported status and the caches; \<open>vrg_protects\<close>,
  writes of volumes and of PVCs that carry the protection finalizer, and the clean-up of snapshots; \<open>vrg_replicates\<close>, the
  resources of one PVC or group on their way to secondary; \<open>vrg_releases\<close>, any write
  of a PVC and the deletion of replication resources; \<open>vrg_demotes\<close>, the creation and change of the replication resources of
  given keys, after which it covers the whole reconcile as secondary. They are interpreted on what a reconcile
  never changes and, in \<open>Ramen_VolRepProps\<close>, on the demoted resources and the protected PVCs.
\<close>

section \<open>The contract\<close>

locale vrg_reads =
  fixes I :: "vrgs \<Rightarrow> bool"
  assumes I_calls: "I s \<Longrightarrow> I (s\<lparr>calls := n\<rparr>)"
    and I_status: "I s \<Longrightarrow> I (updStatus f s)"
    and I_repl: "I s \<Longrightarrow> I (s\<lparr>iReplClassList := cs\<rparr>)"
    and I_grp: "I s \<Longrightarrow> I (s\<lparr>iGrpReplClassList := cs\<rparr>)"
    and I_vrc: "I s \<Longrightarrow> I (s\<lparr>iVrcUpdated := b\<rparr>)"
    and I_cache: "I s \<Longrightarrow> I (s\<lparr>iStorageClassCache := c\<rparr>)"
    and I_requeue: "I s \<Longrightarrow> I (s\<lparr>iRequeue := b\<rparr>)"
begin

lemma pres_modifyM: "(\<And>s. I s \<Longrightarrow> I (f s)) \<Longrightarrow> pres I (modifyM f)"
  by (simp add: pres_def modifyM_def)

lemma I_protected: "I s \<Longrightarrow> I (updProtected f s)"
  by (simp add: updProtected_def I_status)

lemma I_conditions: "I s \<Longrightarrow> I (updConditions f s)"
  by (simp add: updConditions_def I_status)

lemma pres_apiCall [pres_rules]: "pres I apiCall"
  by (rule presI) (auto simp: apiCall_def I_calls split: option.split)

lemma pres_updProtected [pres_rules]: "pres I (modifyM (updProtected f))"
  by (intro pres_modifyM I_protected)

lemma pres_getFrom [pres_rules]: "pres I (getFrom field name ns)"
  unfolding getFrom_def by (intro pres_rules)

lemma pres_listAll [pres_rules]: "pres I (listAll field P)"
  unfolding listAll_def by (intro pres_rules)

lemma pres_requeueVRG [pres_rules]: "pres I requeueVRG"
  unfolding requeueVRG_def by (intro pres_modifyM I_requeue)

lemma pres_IsCRDInstalled [pres_rules]: "pres I (IsCRDInstalled n)"
  unfolding IsCRDInstalled_def by (intro pres_rules)

lemma pres_IsCGEnabledForVolRep [pres_rules]: "pres I IsCGEnabledForVolRep"
  unfolding IsCGEnabledForVolRep_def by (intro pres_rules)

lemma pres_isCGEnabled [pres_rules]: "pres I (isCGEnabled pvc)"
  unfolding isCGEnabled_def by (intro pres_rules)

lemma pres_IsPVCInUseByPod [pres_rules]: "pres I (IsPVCInUseByPod name ns b)"
  unfolding IsPVCInUseByPod_def by (intro pres_rules)

lemma pres_IsPVAttachedToNode [pres_rules]: "pres I (IsPVAttachedToNode pvc)"
  unfolding IsPVAttachedToNode_def by (intro pres_rules)

lemma pres_updatePVC [pres_rules]: "pres I (updatePVC f ns name)"
  unfolding updatePVC_def by (intro pres_modifyM I_protected)

lemma pres_updatePVCDataReadyCondition [pres_rules]: "pres I (updatePVCDataReadyCondition ns name r m)"
  unfolding updatePVCDataReadyCondition_def by (intro pres_rules)

lemma pres_updatePVCDataProtectedCondition [pres_rules]: "pres I (updatePVCDataProtectedCondition ns name r m)"
  unfolding updatePVCDataProtectedCondition_def by (intro pres_rules)

lemma pres_updatePVCDestinationInfoAvailableCondition [pres_rules]:
  "pres I (updatePVCDestinationInfoAvailableCondition ns name r m)"
  unfolding updatePVCDestinationInfoAvailableCondition_def by (intro pres_rules)

lemma pres_updatePVCReplicationHealthyCondition [pres_rules]:
  "pres I (updatePVCReplicationHealthyCondition ns name st r m)"
  unfolding updatePVCReplicationHealthyCondition_def by (intro pres_rules)

lemma pres_forClaims [pres_rules]: "(\<And>ns name. pres I (f ns name)) \<Longrightarrow> pres I (forClaims pvcs f)"
  unfolding forClaims_def by (intro pres_rules)

lemma pres_setErrors [pres_rules]: "pres I (setErrors pvcs msg)"
  unfolding setErrors_def by (intro pres_rules)

lemma pres_dataReadyError [pres_rules]: "pres I (dataReadyError pvc msg)"
  unfolding dataReadyError_def by (intro pres_rules)

lemma pres_allDataReady [pres_rules]: "pres I (allDataReady pvcs r msg)"
  unfolding allDataReady_def by (intro pres_rules)

text \<open>Reading the status of a replication resource.\<close>

lemma pres_validateVRValidatedStatus [pres_rules]: "pres I (validateVRValidatedStatus pvcs g st)"
  unfolding validateVRValidatedStatus_def by (intro pres_rules)

lemma pres_validateVRCompletedStatus [pres_rules]: "pres I (validateVRCompletedStatus pvcs g state st)"
  unfolding validateVRCompletedStatus_def by (intro pres_rules)

lemma pres_checkAndUpdateDestinationInfoAvailable [pres_rules]: "pres I (checkAndUpdateDestinationInfoAvailable pvcs st)"
  unfolding checkAndUpdateDestinationInfoAvailable_def by (intro pres_rules)

lemma pres_checkAndUpdateReplicationHealthy [pres_rules]: "pres I (checkAndUpdateReplicationHealthy pvcs st)"
  unfolding checkAndUpdateReplicationHealthy_def by (intro pres_rules)

lemma pres_updatePVCLastSyncCounters [pres_rules]: "pres I (updatePVCLastSyncCounters pvc st)"
  unfolding updatePVCLastSyncCounters_def writeSyncCounters_def by (intro pres_rules)

lemma pres_checkResyncCompletionAsSecondary [pres_rules]: "pres I (checkResyncCompletionAsSecondary pvcs g st)"
  unfolding checkResyncCompletionAsSecondary_def by (intro pres_rules)

lemma pres_validateAdditionalVRStatusForSecondary [pres_rules]: "pres I (validateAdditionalVRStatusForSecondary pvcs g st)"
  unfolding validateAdditionalVRStatusForSecondary_def by (intro pres_rules)

lemma pres_readyAsPrimary [pres_rules]: "pres I (readyAsPrimary pvcs st)"
  unfolding readyAsPrimary_def by (intro pres_rules)

lemma pres_validateVRStatus [pres_rules]: "pres I (validateVRStatus pvcs g state st)"
  unfolding validateVRStatus_def by (intro pres_rules)

lemma pres_validateGlobalVGRStatus [pres_rules]: "pres I (validateGlobalVGRStatus pvcs st state)"
  unfolding validateGlobalVGRStatus_def by (intro pres_rules)

lemma pres_checkVRStatus [pres_rules]: "pres I (checkVRStatus pvcs g st)"
  unfolding checkVRStatus_def by (intro pres_rules)

text \<open>Classes, the entry of a PVC in the status, and the checks before a demotion.\<close>

lemma pres_updateReplicationClassList [pres_rules]: "pres I updateReplicationClassList"
  unfolding updateReplicationClassList_def by (intro pres_rules pres_modifyM I_repl I_grp I_vrc)

lemma pres_getStorageClassFromSCName [pres_rules]: "pres I (getStorageClassFromSCName n)"
  unfolding getStorageClassFromSCName_def by (intro pres_rules pres_modifyM I_cache)

lemma pres_getStorageClass [pres_rules]: "pres I (getStorageClass pvc)"
  unfolding getStorageClass_def by (intro pres_rules)

lemma pres_selectVolumeReplicationClass [pres_rules]: "pres I (selectVolumeReplicationClass pvc b)"
  unfolding selectVolumeReplicationClass_def by (intro pres_rules)

lemma pres_getVGRClassReplicationID [pres_rules]: "pres I (getVGRClassReplicationID pvc)"
  unfolding getVGRClassReplicationID_def by (intro pres_rules)

lemma pres_setPVCStorageIdentifiers [pres_rules]: "pres I (setPVCStorageIdentifiers sc pvc)"
  unfolding setPVCStorageIdentifiers_def by (intro pres_rules)

lemma pres_updateProtectedPVCs [pres_rules]: "pres I (updateProtectedPVCs pvc)"
  unfolding updateProtectedPVCs_def by (intro pres_rules)

lemma pres_deletePVCStatus [pres_rules]: "pres I (deletePVCStatus pvc)"
  unfolding deletePVCStatus_def by (intro pres_rules)

lemma pres_isPVCInUse [pres_rules]: "pres I (isPVCInUse pvc op)"
  unfolding isPVCInUse_def by (intro pres_rules)

lemma pres_isPVCReadyForSecondary [pres_rules]: "pres I (isPVCReadyForSecondary pvc)"
  unfolding isPVCReadyForSecondary_def by (intro pres_rules)

lemma pres_allReadyForSecondary [pres_rules]: "pres I (allReadyForSecondary pvcs)"
  by (induction pvcs) (auto intro!: pres_rules)

lemma pres_getPVCForVRNSName [pres_rules]: "pres I (getPVCForVRNSName name ns)"
  unfolding getPVCForVRNSName_def by (intro pres_rules)

lemma pres_setGlobalCondition [pres_rules]: "pres I (setGlobalCondition t st r m)"
  unfolding setGlobalCondition_def by (intro pres_modifyM I_conditions)

lemma pres_isGlobalStateInConsensus [pres_rules]: "pres I isGlobalStateInConsensus"
  unfolding isGlobalStateInConsensus_def setGlobalStateCondition_def by (intro pres_rules)

lemma pres_setGlobalSecondaryCondition [pres_rules]: "pres I (setGlobalSecondaryCondition st r m)"
  unfolding setGlobalSecondaryCondition_def by (intro pres_rules)

lemma pres_areSiblingVRGsReadyForGlobalSecondary [pres_rules]: "pres I areSiblingVRGsReadyForGlobalSecondary"
  unfolding areSiblingVRGsReadyForGlobalSecondary_def by (intro pres_rules)

lemma pres_ensureDeletedFromAPIServer [pres_rules]: "pres I (ensureDeletedFromAPIServer field name ns)"
  unfolding ensureDeletedFromAPIServer_def by (intro pres_rules)

lemma pres_succeeded [pres_rules]: "pres I m \<Longrightarrow> pres I (succeeded m)"
  unfolding succeeded_def by (intro pres_rules)

lemma pres_addPVCToGroupPVCs [pres_rules]: "pres I (addPVCToGroupPVCs pvc cg gs)"
  unfolding addPVCToGroupPVCs_def by (intro pres_rules)

end

text \<open>\<open>pvc'\<close> is \<open>pvc\<close> after it was prepared for protection.\<close>

definition preparedFrom :: "claim \<Rightarrow> claim \<Rightarrow> bool" where
  "preparedFrom pvc pvc' \<longleftrightarrow>
     claimName pvc' = claimName pvc \<and> claimNamespace pvc' = claimNamespace pvc \<and> claimDeleted pvc' = claimDeleted pvc
     \<and> claimVolumeName pvc' = claimVolumeName pvc
     \<and> map_of (claimLabels pvc') ConsistencyGroupLabel = map_of (claimLabels pvc) ConsistencyGroupLabel
     \<and> (PvcVRFinalizerProtected \<in> set (claimFinalizers pvc) \<longrightarrow> PvcVRFinalizerProtected \<in> set (claimFinalizers pvc'))"

lemma preparedFrom_refl [simp]: "preparedFrom pvc pvc"
  by (simp add: preparedFrom_def)

lemma preparedFrom_trans: "preparedFrom a b \<Longrightarrow> preparedFrom b c \<Longrightarrow> preparedFrom a c"
  by (auto simp: preparedFrom_def)

lemma owner_keeps_group:
  "ObjectOwnerSetIfNotAlready labels v = (c, labels') \<Longrightarrow> map_of labels' ConsistencyGroupLabel = map_of labels ConsistencyGroupLabel"
  by (auto simp: ObjectOwnerSetIfNotAlready_def MapInsertOnlyAll_def OwnerLabels_def ConsistencyGroupLabel_def map_of_sm_put
        split: if_splits)

lemma yields_annotateClaim: "preparedFrom pvc pvc1 \<Longrightarrow> yields (preparedFrom pvc) (annotateClaim pvc1 k v)"
  unfolding annotateClaim_def Let_def by (auto simp: preparedFrom_def intro!: yields_ret yields_seq)

lemma yields_protectPVC: "yields (\<lambda>(requeue, pvc'). preparedFrom pvc pvc') (protectPVC pvc)"
proof -
  have protected: "preparedFrom pvc (pvc\<lparr>claimLabels := labels, claimFinalizers := claimFinalizers pvc @ fs\<rparr>)"
    if "ObjectOwnerSetIfNotAlready (claimLabels pvc) v = (c, labels)" for v c labels fs
    using owner_keeps_group [OF that] by (simp add: preparedFrom_def)
  have annotated: "yields P (bindM (attemptM (annotateClaim p k x)) f)"
    if "preparedFrom pvc p" "\<And>e. yields P (f (Inl e))" "\<And>q. preparedFrom pvc q \<Longrightarrow> yields P (f (Inr q))"
    for P :: "bool \<times> claim \<Rightarrow> bool" and p k x f
    by (rule yields_bind [OF yields_attempt [OF yields_annotateClaim [OF that(1)]]])
      (metis sum.exhaust that(2,3))
  show ?thesis
    unfolding protectPVC_def Let_def
    by (auto intro!: yields_step [where m = "getsM f" for f] yields_step [where m = "attemptM (whenM b n)" for b n]
        yields_step [where m = "attemptM (retainPVForPVC p)" for p] annotated yields_ret yields_seq protected
        simp del: append_Nil2 split: prod.split comparison.split sum.split)
qed

lemma yields_preparePVC:
  "yields (\<lambda>(requeue, skip, pvc'). preparedFrom pvc pvc') (preparePVCForVRProtection pvc)"
  unfolding preparePVCForVRProtection_def
  by (auto intro!: yields_ret yields_seq yields_bind [OF yields_protectPVC] split: prod.split bool.split)


text \<open>The checks before a demotion, and what it may rely on.\<close>

definition apiFaulty :: "vrgs \<Rightarrow> bool" where
  "apiFaulty s \<longleftrightarrow> (\<exists>n. faults s n \<noteq> None)"

definition demotable :: "vrgs \<Rightarrow> claim \<Rightarrow> bool" where
  "demotable s pvc \<longleftrightarrow>
     (vAction (vrgSpecOf s) = VRGActionFailover \<or> claimDeleted pvc)
     \<and> (\<forall>p \<in> set (kPods s). podNamespace p = claimNamespace pvc \<longrightarrow> claimName pvc \<notin> set (podClaims p))
     \<and> (claimVolumeName pvc = [] \<or> claimVolumeName pvc \<notin> set (kAttachedVolumes s) \<or> apiFaulty s)"

lemma demotable_prepared: "preparedFrom pvc pvc' \<Longrightarrow> demotable s pvc' \<longleftrightarrow> demotable s pvc"
  by (simp add: preparedFrom_def demotable_def)

definition input :: "vrgs \<Rightarrow> (vrg_spec \<times> strmap \<times> string \<times> string \<times> strmap \<times> vrg list)
    \<times> (pod list \<times> string list \<times> (nat \<Rightarrow> gerr option) \<times> string \<times> claim list)" where
  "input s = ((vrgSpecOf s, vLabels (iVrg s), vName (iVrg s), vNamespace (iVrg s), vAnnotations (iVrg s), kVRGs s),
              (kPods s, kAttachedVolumes s, faults s, iOperatorNamespace s, iVolRepPVCs s))"

lemma input_demotable: "input s = input s' \<Longrightarrow> demotable s pvc \<longleftrightarrow> demotable s' pvc"
  by (simp add: input_def demotable_def apiFaulty_def)

lemma input_groupName: "input s = input s' \<Longrightarrow> vgrNamespacedName s cg ns = vgrNamespacedName s' cg ns"
  by (simp add: input_def vgrNamespacedName_def globalVGRNamespacedName_def vrgHasGlobalVGRLabel_def vrgGlobalVGRLabel_def)

section \<open>Protecting\<close>

locale vrg_protects = vrg_reads +
  assumes I_volumes: "I s \<Longrightarrow> I (kVolumes_update f s)"
    and I_snapshots: "I s \<Longrightarrow> I (s\<lparr>kSnapshots := ss\<rparr>)"
    and I_claim: "I s \<Longrightarrow> PvcVRFinalizerProtected \<in> set (claimFinalizers c)
      \<Longrightarrow> I (kClaims_update (\<lambda>m. m((claimName c, claimNamespace c) \<mapsto> c)) s)"
begin

lemma pres_updateVolume [pres_rules]: "pres I (updateVolume pv)"
  unfolding updateVolume_def updateIn_def by (intro pres_rules pres_modifyM I_volumes)

lemma pres_updateProtectedClaim:
  "PvcVRFinalizerProtected \<in> set (claimFinalizers c) \<Longrightarrow> pres I (updateClaim c)"
  unfolding updateClaim_def Let_def
  by (intro pres_rules pres_modifyM)
    (auto dest: I_claim [where c = "c\<lparr>claimDeleted := d\<rparr>" for d])

lemma pres_annotateProtectedClaim:
  "PvcVRFinalizerProtected \<in> set (claimFinalizers c) \<Longrightarrow> pres I (annotateClaim c k v)"
  unfolding annotateClaim_def by (intro pres_rules pres_updateProtectedClaim) simp_all

lemma pres_annotateVolume [pres_rules]: "pres I (annotateVolume pv k v)"
  unfolding annotateVolume_def by (intro pres_rules)

lemma pres_retainPVForPVC [pres_rules]: "pres I (retainPVForPVC pvc)"
  unfolding retainPVForPVC_def by (intro pres_rules)

lemma pres_case_comparison:
  "pres I m \<Longrightarrow> pres I n \<Longrightarrow> pres I k \<Longrightarrow> pres I (case c of Different \<Rightarrow> m | Same \<Rightarrow> n | Absent \<Rightarrow> k)"
  by (simp split: comparison.split)

lemma pres_protectPVC [pres_rules]: "pres I (protectPVC pvc)"
  unfolding protectPVC_def
  by (intro pres_rules pres_case_comparison pres_updateProtectedClaim pres_annotateProtectedClaim) auto

lemma pres_preparePVCForVRProtection [pres_rules]: "pres I (preparePVCForVRProtection pvc)"
  unfolding preparePVCForVRProtection_def by (intro pres_rules)

lemma pres_deleteSnapshot [pres_rules]: "pres I (deleteSnapshot sn)"
  unfolding deleteSnapshot_def by (intro pres_rules pres_modifyM I_snapshots)

lemma pres_cleanupDryRunSnapshots [pres_rules]: "pres I cleanupDryRunSnapshots"
  unfolding cleanupDryRunSnapshots_def by (intro pres_rules)

end

text \<open>The VolumeReplications may change as well, the protection of the PVCs stays.\<close>

locale vrg_replicates = vrg_protects +
  assumes I_VRs: "I s \<Longrightarrow> I (kVRs_update f s)"
begin

lemma pres_createVR [pres_rules]: "pres I (createVR name ns state)"
  unfolding createVR_def createIn_def by (intro pres_rules pres_modifyM I_VRs)

lemma pres_updateVR [pres_rules]: "pres I (updateVR pvc vr state)"
  unfolding updateVR_def updateIn_def by (intro pres_rules pres_modifyM I_VRs)

lemma pres_createOrUpdateVR [pres_rules]: "pres I (createOrUpdateVR pvc state)"
  unfolding createOrUpdateVR_def by (intro pres_rules)

lemma pres_processVRAsSecondary [pres_rules]: "pres I (processVRAsSecondary pvc)"
  unfolding processVRAsSecondary_def by (intro pres_rules)

end

section \<open>Releasing\<close>

locale vrg_releases = vrg_protects +
  assumes I_claims: "I s \<Longrightarrow> I (kClaims_update f s)"
    and I_dropVR: "I s \<Longrightarrow> kVRs s key = Some vr \<Longrightarrow> I (kVRs_update (\<lambda>m. m(key := markDeleted vr)) s)"
    and I_dropVGR: "I s \<Longrightarrow> kVGRs s key = Some vgr \<Longrightarrow> I (kVGRs_update (\<lambda>m. m(key := markDeleted vgr)) s)"
begin

lemma pres_updateClaim [pres_rules]: "pres I (updateClaim c)"
  unfolding updateClaim_def Let_def by (intro pres_rules pres_modifyM I_claims)

lemma pres_annotateClaim [pres_rules]: "pres I (annotateClaim pvc k v)"
  unfolding annotateClaim_def by (intro pres_rules)

lemma pres_deleteReplication:
  assumes "\<And>s vr. I s \<Longrightarrow> field s (name, ns) = Some vr \<Longrightarrow> I (upd (\<lambda>m. m((name, ns) := markDeleted vr)) s)"
  shows "pres I (deleteReplication field upd name ns)"
proof (rule presI)
  fix s assume I: "I s"
  show "I (snd (deleteReplication field upd name ns s))"
    unfolding deleteReplication_def wp_snd [symmetric] wp_rules
    by (rule wp_pres [OF pres_apiCall I]) (auto simp: wp_rules assms split: sum.split option.split)
qed

lemma pres_deleteVR [pres_rules]: "pres I (deleteVR name ns)"
  unfolding deleteVR_def by (intro pres_rules pres_deleteReplication I_dropVR)

lemma pres_deleteVGR [pres_rules]: "pres I (deleteVGR name ns)"
  unfolding deleteVGR_def by (intro pres_rules pres_deleteReplication I_dropVGR)

lemma pres_getPVFromPVC [pres_rules]: "pres I (getPVFromPVC pvc)"
  unfolding getPVFromPVC_def by (intro pres_rules)

lemma pres_preparePVCForVRDeletion [pres_rules]: "pres I (preparePVCForVRDeletion pvc)"
  unfolding preparePVCForVRDeletion_def by (intro pres_rules)

lemma pres_undoPVCFinalizersAndPVRetention [pres_rules]: "pres I (undoPVCFinalizersAndPVRetention pvc)"
  unfolding undoPVCFinalizersAndPVRetention_def by (intro pres_rules)

lemma pres_reconcileMissingVR [pres_rules]: "pres I (reconcileMissingVR pvc)"
  unfolding reconcileMissingVR_def by (intro pres_rules)

lemma pres_prepareAllForVRDeletion [pres_rules]: "pres I (prepareAllForVRDeletion pvcs)"
  unfolding prepareAllForVRDeletion_def by (intro pres_rules)

lemma pres_undoForVGR [pres_rules]: "pres I (undoPVCFinalizersAndPVRetentionForVGR name ns pvcs)"
  unfolding undoPVCFinalizersAndPVRetentionForVGR_def by (intro pres_rules)

lemma pres_reconcileMissingVGR [pres_rules]: "pres I (reconcileMissingVGR name ns pvcs)"
  unfolding reconcileMissingVGR_def by (intro pres_rules)

lemma pres_labelClaim [pres_rules]: "pres I (labelClaim k v pvc)"
  unfolding labelClaim_def by (intro pres_rules)

lemma pres_labelPVCsWithVGROwner [pres_rules]: "pres I (labelPVCsWithVGROwner pvcs name)"
  unfolding labelPVCsWithVGROwner_def by (intro pres_rules)

end

section \<open>Demoting\<close>

lemma apiFaulty_calls [simp]: "apiFaulty (s\<lparr>calls := n\<rparr>) = apiFaulty s"
  by (simp add: apiFaulty_def)

lemma apiCall_result:
  "apiCall s = (r, s') \<Longrightarrow> s' = s\<lparr>calls := calls s'\<rparr> \<and> (\<forall>e. r = Inl e \<longrightarrow> (\<exists>n. faults s n \<noteq> None))" for s :: vrgs
  by (auto simp: apiCall_def split: option.splits)

lemma listAll_result:
  "wp (listAll field P) (\<lambda>r s'. \<exists>n. s' = s\<lparr>calls := n\<rparr> \<and>
      (case r of Inl e \<Rightarrow> apiFaulty s | Inr xs \<Rightarrow> xs = filter P (field s'))) s"
  unfolding listAll_def wp_rules
  by (rule wpI) (auto simp: apiFaulty_def wp_rules dest!: apiCall_result split: sum.split)

lemma getFrom_result:
  "wp (getFrom field name ns) (\<lambda>r s'. (\<exists>n. s' = s\<lparr>calls := n\<rparr>) \<and>
     (case r of Inl e \<Rightarrow> field s' (name, ns) = None \<or> apiFaulty s | Inr v \<Rightarrow> field s' (name, ns) = Some v)) s" for s :: vrgs
  unfolding getFrom_def wp_rules
  by (rule wpI) (auto simp: apiFaulty_def wp_rules dest!: apiCall_result split: sum.split option.split)

lemma used_by_pods:
  "wp (IsPVCInUseByPod name ns False) (\<lambda>r s'. (\<exists>n. s' = s\<lparr>calls := n\<rparr>) \<and> (r = Inr False \<longrightarrow>
      (\<forall>p \<in> set (kPods s). podNamespace p = ns \<longrightarrow> name \<notin> set (podClaims p)))) s"
  unfolding IsPVCInUseByPod_def wp_rules
  by (rule wp_mono [OF listAll_result]) (auto simp: wp_rules filter_empty_conv split: sum.splits)

lemma attached_to_node:
  "wp (IsPVAttachedToNode pvc) (\<lambda>r _. r = Inr False \<longrightarrow>
      claimVolumeName pvc = [] \<or> claimVolumeName pvc \<notin> set (kAttachedVolumes s) \<or> apiFaulty s) s"
  unfolding IsPVAttachedToNode_def wp_rules
  by (auto simp: wp_rules empty_filter_conv intro!: wp_mono [OF listAll_result] split: sum.splits)

lemma readyForSecondary_demotable:
  "wp (isPVCReadyForSecondary pvc) (\<lambda>r _. r = Inr True \<longrightarrow> demotable s pvc) s"
  unfolding isPVCReadyForSecondary_def isPVCInUse_def Let_def wp_rules
  by (auto simp: wp_rules demotable_def updatePVCDataReadyCondition_def updatePVC_def
      intro!: wp_mono [OF used_by_pods] wp_mono [OF attached_to_node] split: sum.splits)

lemma gives_demotable:
  assumes "pres I (isPVCReadyForSecondary pvc)" "\<And>s. I s \<Longrightarrow> input s = input s\<^sub>0"
  shows "gives I (isPVCReadyForSecondary pvc) (\<lambda>ok. ok \<longrightarrow> demotable s\<^sub>0 pvc)"
proof (rule givesI)
  fix s assume I: "I s"
  show "wp (isPVCReadyForSecondary pvc) (\<lambda>r s'. I s' \<and> (\<forall>x. r = Inr x \<longrightarrow> x \<longrightarrow> demotable s\<^sub>0 pvc)) s"
    by (rule wp_mono [OF wp_conj [OF pres_wp [OF assms(1) I] readyForSecondary_demotable]])
      (use input_demotable [OF assms(2) [OF I]] in auto)
qed

definition tracked :: "vrgs \<Rightarrow> claim \<Rightarrow> bool" where
  "tracked s pvc' \<longleftrightarrow>
     (\<exists>pvc \<in> set (iVolRepPVCs s). PvcVRFinalizerProtected \<in> set (claimFinalizers pvc) \<and> preparedFrom pvc pvc')"

definition memberOf :: "vrgs \<Rightarrow> string \<times> string \<Rightarrow> claim \<Rightarrow> bool" where
  "memberOf s key pvc \<longleftrightarrow> tracked s pvc \<and>
     (\<exists>cg. map_of (claimLabels pvc) ConsistencyGroupLabel = Some cg \<and> key = vgrNamespacedName s cg (claimNamespace pvc))"

definition statesAgree :: "vrgs \<Rightarrow> bool" where
  "statesAgree s \<longleftrightarrow>
     (vrgHasGlobalVGRLabel (iVrg s) \<longrightarrow>
        (\<forall>w \<in> set (kVRGs s). sharesGlobalVGR (iVrg s) w \<and> isSibling (iVrg s) w \<longrightarrow>
           vReplicationState (vSpec w) = vReplicationState (vrgSpecOf s)))"

definition siblingsReady :: "vrgs \<Rightarrow> bool" where
  "siblingsReady s \<longleftrightarrow>
     (vrgHasGlobalVGRLabel (iVrg s) \<longrightarrow>
        (\<forall>w \<in> set (kVRGs s). sharesGlobalVGR (iVrg s) w \<and> isSibling (iVrg s) w \<longrightarrow>
           vDeleted w \<or> isSiblingReadyForGlobalSecondary w))"

lemma consensus_agrees: "wp isGlobalStateInConsensus (\<lambda>r _. r = Inr True \<longrightarrow> statesAgree s) s"
  unfolding isGlobalStateInConsensus_def Let_def wp_rules
  by (auto simp: wp_rules statesAgree_def filter_empty_conv setGlobalStateCondition_def setGlobalCondition_def
      intro!: wp_mono [OF listAll_result] split: sum.splits)

lemma siblings_ready: "wp areSiblingVRGsReadyForGlobalSecondary (\<lambda>r _. r = Inr True \<longrightarrow> siblingsReady s) s"
  unfolding areSiblingVRGsReadyForGlobalSecondary_def wp_rules
  by (auto simp: wp_rules siblingsReady_def list_all_iff intro!: wp_mono [OF listAll_result] split: sum.splits)

lemma input_global: "input s = input s' \<Longrightarrow> vrgHasGlobalVGRLabel (iVrg s) = vrgHasGlobalVGRLabel (iVrg s')"
  by (simp add: input_def vrgHasGlobalVGRLabel_def vrgGlobalVGRLabel_def)

lemma input_agree:
  "input s = input s' \<Longrightarrow> statesAgree s \<longleftrightarrow> statesAgree s'"
  "input s = input s' \<Longrightarrow> siblingsReady s \<longleftrightarrow> siblingsReady s'"
  by (simp_all add: input_def statesAgree_def siblingsReady_def vrgHasGlobalVGRLabel_def vrgGlobalVGRLabel_def
      sharesGlobalVGR_def isSibling_def)

locale vrg_demotes = vrg_releases +
  fixes s\<^sub>0 :: vrgs
  assumes I_input: "I s \<Longrightarrow> input s = input s\<^sub>0"
    and I_demoteVR: "I s \<Longrightarrow> tracked s\<^sub>0 pvc \<Longrightarrow> demotable s\<^sub>0 pvc
      \<Longrightarrow> I (kVRs_update (\<lambda>m. m((claimName pvc, claimNamespace pvc) \<mapsto> vr)) s)"
    and I_demoteVGR: "I s \<Longrightarrow> memberOf s\<^sub>0 key pvc \<Longrightarrow> demotable s\<^sub>0 pvc \<Longrightarrow> statesAgree s\<^sub>0 \<Longrightarrow> siblingsReady s\<^sub>0
      \<Longrightarrow> I (kVGRs_update (\<lambda>m. m(key \<mapsto> vgr)) s)"
begin

lemma ready_demotable: "gives I (isPVCReadyForSecondary pvc) (\<lambda>ok. ok \<longrightarrow> demotable s\<^sub>0 pvc)"
  by (rule gives_demotable [OF pres_isPVCReadyForSecondary I_input])

lemma all_ready_demotable:
  "gives I (allReadyForSecondary pvcs) (\<lambda>ok. ok \<longrightarrow> (\<forall>pvc \<in> set pvcs. demotable s\<^sub>0 pvc))"
  by (induction pvcs) (auto intro!: gives_ret gives_bind [OF ready_demotable] elim: gives_def [THEN iffD1, THEN spec])

text \<open>The VolumeReplication of a PVC.\<close>

lemma pres_createVR:
  "tracked s\<^sub>0 pvc \<Longrightarrow> demotable s\<^sub>0 pvc \<Longrightarrow> pres I (createVR (claimName pvc) (claimNamespace pvc) state)"
  unfolding createVR_def createIn_def by (intro pres_rules pres_modifyM I_demoteVR)

lemma pres_updateVR: "tracked s\<^sub>0 pvc \<Longrightarrow> demotable s\<^sub>0 pvc \<Longrightarrow> pres I (updateVR pvc vr state)"
  unfolding updateVR_def updateIn_def by (intro pres_rules pres_modifyM I_demoteVR)

lemma pres_processVRAsSecondary:
  "tracked s\<^sub>0 pvc \<Longrightarrow> demotable s\<^sub>0 pvc \<Longrightarrow> pres I (processVRAsSecondary pvc)"
  unfolding processVRAsSecondary_def createOrUpdateVR_def
  by (intro pres_rules pres_createVR pres_updateVR) auto

lemma pres_reconcileVRAsSecondary: "tracked s\<^sub>0 pvc \<Longrightarrow> pres I (reconcileVRAsSecondary pvc)"
  unfolding reconcileVRAsSecondary_def
  by (rule pres_bind_gives [OF ready_demotable]) (auto intro!: pres_rules pres_processVRAsSecondary)

lemma pres_reconcilePVCVRAsSecondary: "tracked s\<^sub>0 pvc \<Longrightarrow> pres I (reconcilePVCVRAsSecondary pvc)"
  unfolding reconcilePVCVRAsSecondary_def by (intro pres_rules pres_reconcileVRAsSecondary)

text \<open>Groups, collected and then demoted.\<close>

definition collected :: "groups \<Rightarrow> bool" where
  "collected gs \<longleftrightarrow> (\<forall>(key, pvcs) \<in> set gs. pvcs \<noteq> [] \<and> (\<forall>pvc \<in> set pvcs. memberOf s\<^sub>0 key pvc))"

lemma collected_Nil: "collected []"
  by (simp add: collected_def)

lemma collected_add: "collected gs \<Longrightarrow> memberOf s\<^sub>0 key pvc \<Longrightarrow> collected (addToGroup key pvc gs)"
  by (induction key pvc gs rule: addToGroup.induct) (auto simp: collected_def)

lemma gives_addPVC:
  assumes "collected gs" "tracked s\<^sub>0 pvc" "map_of (claimLabels pvc) ConsistencyGroupLabel = Some cg"
  shows "gives I (addPVCToGroupPVCs pvc cg gs) collected"
  unfolding addPVCToGroupPVCs_def
  by (rule givesI) (use assms in \<open>auto simp: wp_gets memberOf_def input_groupName [OF I_input] intro!: collected_add\<close>)

lemma yields_isCGEnabled:
  "yields (\<lambda>(cg, ok). ok \<longrightarrow> map_of (claimLabels pvc) ConsistencyGroupLabel = Some cg) (isCGEnabled pvc)"
  unfolding isCGEnabled_def by (auto intro!: yields_ret yields_step split: option.split)

lemma gives_processPVCAsSecondary:
  assumes "pvc \<in> set (iVolRepPVCs s\<^sub>0)" "collected gs"
  shows "gives I (processPVCAsSecondary gs pvc) (\<lambda>(requeue, gs'). collected gs')"
proof -
  have tr: "tracked s\<^sub>0 pvc'" if "PvcVRFinalizerProtected \<in> set (claimFinalizers pvc)" "preparedFrom pvc pvc'" for pvc'
    using assms that by (auto simp: tracked_def)
  show ?thesis
    unfolding processPVCAsSecondary_def
    by (auto intro!: gives_ret gives_seq pres_deletePVCStatus assms(2) tr
        gives_bind [OF gives_any [OF pres_recover [OF pres_updateProtectedPVCs]]]
        gives_bind [OF gives_yields [OF pres_preparePVCForVRProtection yields_preparePVC]]
        gives_bind [OF gives_yields [OF pres_isCGEnabled yields_isCGEnabled]]
        gives_bind [OF gives_addPVC] gives_bind [OF gives_any [OF pres_reconcilePVCVRAsSecondary]] split: sum.split)
qed

lemma gives_processPVCsAsSecondary:
  assumes "set pvcs \<subseteq> set (iVolRepPVCs s\<^sub>0)"
  shows "gives I (processPVCsAsSecondary pvcs) (\<lambda>(requeue, gs). collected gs)"
  unfolding processPVCsAsSecondary_def
  by (rule gives_foldlM)
    (use assms collected_Nil in \<open>auto intro!: gives_ret gives_bind [OF gives_processPVCAsSecondary]\<close>)

lemma gives_isGlobal:
  "gives I (getsM (\<lambda>s. vrgHasGlobalVGRLabel (iVrg s))) (\<lambda>g. g = vrgHasGlobalVGRLabel (iVrg s\<^sub>0))"
  by (rule givesI) (auto simp: wp_gets input_global [OF I_input])

lemma gives_consensus:
  "gives I (if vrgHasGlobalVGRLabel (iVrg s\<^sub>0) then isGlobalStateInConsensus else ret True) (\<lambda>ok. ok \<longrightarrow> statesAgree s\<^sub>0)"
proof -
  have "gives I isGlobalStateInConsensus (\<lambda>ok. ok \<longrightarrow> statesAgree s\<^sub>0)"
  proof (rule givesI)
    fix s assume I: "I s"
    show "wp isGlobalStateInConsensus (\<lambda>r s'. I s' \<and> (\<forall>x. r = Inr x \<longrightarrow> x \<longrightarrow> statesAgree s\<^sub>0)) s"
      by (rule wp_mono [OF wp_conj [OF pres_wp [OF pres_isGlobalStateInConsensus I] consensus_agrees]])
        (use input_agree(1) [OF I_input [OF I]] in auto)
  qed
  then show ?thesis by (auto simp: statesAgree_def intro: gives_ret)
qed

lemma gives_siblings:
  "gives I (if vrgHasGlobalVGRLabel (iVrg s\<^sub>0) then areSiblingVRGsReadyForGlobalSecondary else ret True)
     (\<lambda>ok. ok \<longrightarrow> siblingsReady s\<^sub>0)"
proof -
  have "gives I areSiblingVRGsReadyForGlobalSecondary (\<lambda>ok. ok \<longrightarrow> siblingsReady s\<^sub>0)"
  proof (rule givesI)
    fix s assume I: "I s"
    show "wp areSiblingVRGsReadyForGlobalSecondary (\<lambda>r s'. I s' \<and> (\<forall>x. r = Inr x \<longrightarrow> x \<longrightarrow> siblingsReady s\<^sub>0)) s"
      by (rule wp_mono [OF wp_conj [OF pres_wp [OF pres_areSiblingVRGsReadyForGlobalSecondary I] siblings_ready]])
        (use input_agree(2) [OF I_input [OF I]] in auto)
  qed
  then show ?thesis by (auto simp: siblingsReady_def intro: gives_ret)
qed

lemma pres_createVGR:
  assumes "memberOf s\<^sub>0 (name, ns) pvc" "demotable s\<^sub>0 pvc" "statesAgree s\<^sub>0" "siblingsReady s\<^sub>0"
  shows "pres I (createVGR name ns pvcs state)"
  unfolding createVGR_def createIn_def by (intro pres_rules pres_modifyM I_demoteVGR [OF _ assms])

lemma pres_updateVGR:
  assumes "memberOf s\<^sub>0 (name, ns) pvc" "demotable s\<^sub>0 pvc" "statesAgree s\<^sub>0" "siblingsReady s\<^sub>0"
  shows "pres I (updateVGR pvcs name ns vgr state)"
  unfolding updateVGR_def updateIn_def by (intro pres_rules pres_modifyM I_demoteVGR [OF _ assms])

lemma pres_createOrUpdateVGR:
  assumes "memberOf s\<^sub>0 (name, ns) pvc" "demotable s\<^sub>0 pvc" "statesAgree s\<^sub>0" "siblingsReady s\<^sub>0"
  shows "pres I (createOrUpdateVGR name ns pvcs state)"
  unfolding createOrUpdateVGR_def by (intro pres_rules pres_createVGR [OF assms] pres_updateVGR [OF assms])

lemma pres_reconcileVGRAsSecondary:
  assumes "pvcs \<noteq> []" "\<forall>pvc \<in> set pvcs. memberOf s\<^sub>0 (name, ns) pvc" "statesAgree s\<^sub>0"
  shows "pres I (reconcileVGRAsSecondary name ns pvcs)"
proof -
  have process: "pres I (processVGRAsSecondary name ns pvcs)"
    if "\<forall>pvc \<in> set pvcs. demotable s\<^sub>0 pvc" "siblingsReady s\<^sub>0"
    using that assms pres_createOrUpdateVGR [of name ns "hd pvcs" pvcs VRSecondary]
    by (simp add: processVGRAsSecondary_def)
  show ?thesis
    unfolding reconcileVGRAsSecondary_def
    by (rule pres_bind_gives [OF gives_isGlobal], hypsubst, rule pres_bind_gives [OF all_ready_demotable], rule pres_if,
        intro pres_rules, rule pres_seq, intro pres_rules, rule pres_bind_gives [OF gives_siblings])
      (auto intro!: pres_rules process)
qed

lemma pres_reconcileGroupAsSecondary:
  assumes "pvcs \<noteq> []" "\<forall>pvc \<in> set pvcs. memberOf s\<^sub>0 key pvc" "statesAgree s\<^sub>0"
  shows "pres I (reconcileGroupAsSecondary requeue (key, pvcs))"
  unfolding reconcileGroupAsSecondary_def
  by (cases key) (use assms in \<open>auto intro!: pres_rules pres_reconcileVGRAsSecondary\<close>)

lemma pres_reconcileVolGroupRepsAsSecondary:
  assumes "collected gs"
  shows "pres I (reconcileVolGroupRepsAsSecondary requeue gs)"
proof -
  have "gives I (foldlM reconcileGroupAsSecondary requeue gs) (\<lambda>_. True)" if "statesAgree s\<^sub>0"
    by (rule gives_foldlM)
      (use assms that in \<open>auto simp: collected_def intro!: gives_any pres_reconcileGroupAsSecondary\<close>)
  note loop = gives_pres [OF this]
  show ?thesis
    unfolding reconcileVolGroupRepsAsSecondary_def
    by (rule pres_bind_gives [OF gives_isGlobal], hypsubst, rule pres_if, intro pres_rules,
        rule pres_bind_gives [OF gives_consensus])
      (auto intro: pres_rules loop)
qed

lemma pres_reconcileVolRepsAsSecondary: "pres I reconcileVolRepsAsSecondary"
proof -
  have pvcs: "gives I (getsM iVolRepPVCs) (\<lambda>pvcs. pvcs = iVolRepPVCs s\<^sub>0)"
    by (rule givesI) (auto simp: wp_gets dest!: I_input simp: input_def)
  show ?thesis
    unfolding reconcileVolRepsAsSecondary_def
    by (auto intro!: pres_rules pres_bind_gives [OF gives_bind [OF pvcs gives_processPVCsAsSecondary]]
        pres_reconcileVolGroupRepsAsSecondary)
qed



end

section \<open>Interpretations\<close>

text \<open>What the reconcile as secondary reads and never writes.\<close>

lemma input_updates [simp]:
  "input (s\<lparr>calls := n\<rparr>) = input s" "input (updStatus g s) = input s" "input (s\<lparr>iReplClassList := cs\<rparr>) = input s"
  "input (s\<lparr>iGrpReplClassList := cs\<rparr>) = input s" "input (s\<lparr>iVrcUpdated := b\<rparr>) = input s"
  "input (s\<lparr>iStorageClassCache := c\<rparr>) = input s" "input (s\<lparr>iRequeue := b\<rparr>) = input s"
  "input (kVolumes_update vs s) = input s" "input (s\<lparr>kSnapshots := ss\<rparr>) = input s"
  "input (kClaims_update h s) = input s" "input (kVRs_update h' s) = input s" "input (kVGRs_update h'' s) = input s"
  by (simp_all add: input_def updStatus_def)

interpretation frozen: vrg_demotes "\<lambda>s. input s = input s\<^sub>0" s\<^sub>0 for s\<^sub>0
  by unfold_locales simp_all

text \<open>The resources demoted so far, among those that may be.\<close>

definition isSecondary :: "'z volume_replication_scheme store \<Rightarrow> string \<times> string \<Rightarrow> bool" where
  "isSecondary m key \<longleftrightarrow> (case m key of None \<Rightarrow> False | Some vr \<Rightarrow> vrReplicationState vr = VRSecondary)"

definition demotedWithin :: "vrgs \<Rightarrow> (string \<times> string) set \<Rightarrow> (string \<times> string) set \<Rightarrow> vrgs \<Rightarrow> bool" where
  "demotedWithin s\<^sub>0 D G s \<longleftrightarrow> input s = input s\<^sub>0
     \<and> (\<forall>key. isSecondary (kVRs s) key \<longrightarrow> isSecondary (kVRs s\<^sub>0) key \<or> key \<in> D)
     \<and> (\<forall>key. isSecondary (kVGRs s) key \<longrightarrow> isSecondary (kVGRs s\<^sub>0) key \<or> key \<in> G)"

definition demotableVRs :: "vrgs \<Rightarrow> (string \<times> string) set" where
  "demotableVRs s = {key. \<exists>pvc. tracked s pvc \<and> demotable s pvc \<and> key = (claimName pvc, claimNamespace pvc)}"

definition demotableVGRs :: "vrgs \<Rightarrow> (string \<times> string) set" where
  "demotableVGRs s = {key. statesAgree s \<and> siblingsReady s \<and> (\<exists>pvc. memberOf s key pvc \<and> demotable s pvc)}"

lemma isSecondary_drop: "m key = Some vr \<Longrightarrow> isSecondary (m(key := markDeleted vr)) k \<Longrightarrow> isSecondary m k"
  by (auto simp: isSecondary_def markDeleted_def split: if_splits)

lemma updStatus_resources [simp]:
  "kVRs (updStatus f s) = kVRs s" "kVGRs (updStatus f s) = kVGRs s" "kClaims (updStatus f s) = kClaims s"
  by (simp_all add: updStatus_def)

interpretation demoted: vrg_demotes "demotedWithin s\<^sub>0 (demotableVRs s\<^sub>0) (demotableVGRs s\<^sub>0)" s\<^sub>0 for s\<^sub>0
proof unfold_locales
  fix s key and vr :: volume_replication and vgr :: volume_group_replication and pvc
  assume w: "demotedWithin s\<^sub>0 (demotableVRs s\<^sub>0) (demotableVGRs s\<^sub>0) s"
  show "input s = input s\<^sub>0" using w by (simp add: demotedWithin_def)
  show "demotedWithin s\<^sub>0 (demotableVRs s\<^sub>0) (demotableVGRs s\<^sub>0) (kVRs_update (\<lambda>m. m(key := markDeleted vr)) s)"
    if "kVRs s key = Some vr"
    using w isSecondary_drop [of "kVRs s", OF that] by (auto simp: demotedWithin_def)
  show "demotedWithin s\<^sub>0 (demotableVRs s\<^sub>0) (demotableVGRs s\<^sub>0) (kVGRs_update (\<lambda>m. m(key := markDeleted vgr)) s)"
    if "kVGRs s key = Some vgr"
    using w isSecondary_drop [of "kVGRs s", OF that] by (auto simp: demotedWithin_def)
  show "demotedWithin s\<^sub>0 (demotableVRs s\<^sub>0) (demotableVGRs s\<^sub>0)
      (kVRs_update (\<lambda>m. m((claimName pvc, claimNamespace pvc) \<mapsto> vr)) s)"
    if "tracked s\<^sub>0 pvc" "demotable s\<^sub>0 pvc"
    using w that by (auto simp: demotedWithin_def demotableVRs_def isSecondary_def)
  show "demotedWithin s\<^sub>0 (demotableVRs s\<^sub>0) (demotableVGRs s\<^sub>0) (kVGRs_update (\<lambda>m. m(key \<mapsto> vgr)) s)"
    if "memberOf s\<^sub>0 key pvc" "demotable s\<^sub>0 pvc" "statesAgree s\<^sub>0" "siblingsReady s\<^sub>0"
    using w that by (auto simp: demotedWithin_def demotableVGRs_def isSecondary_def)
qed (simp_all add: demotedWithin_def)

end
