(* ===== verification/Ramen_VrgExamples.thy ===== *)
theory Ramen_VrgExamples
  imports Ramen_VolRepReconcile
begin

text \<open>Concrete states of a managed cluster, for the witnesses of the properties of the VRG controller.\<close>

definition exClaim :: claim where
  "exClaim = \<lparr>claimName = ''data'', claimNamespace = ''ns'', claimUID = ''u1'', claimResourceVersion = ''7'', claimDeleted = False,
     claimCreationTimestamp = 5, claimLabels = [(''app'', ''web'')],
     claimAnnotations = [(pvcVRAnnotationProtectedKey, ''protected'')], claimFinalizers = [PvcVRFinalizerProtected],
     claimOwners = [], claimStorageClassName = Some ''fast'', claimVolumeName = ''pv1'', claimAccessModes = [''ReadWriteOnce''],
     claimResources = ''1Gi'', claimVolumeMode = None, claimVolumeAttributesClass = None, claimRequested = 1, claimCapacity = 1,
     claimBound = True\<rparr>"

definition exCSI :: csi_source where
  "exCSI = \<lparr>csiDriver = ''csi'', csiFSType = ''ext4'', csiVolumeHandle = ''h1'', csiVolumeAttributes = [],
     csiNodeStageSecretRef = None, csiNodePublishSecretRef = None, csiNodeExpandSecretRef = None,
     csiControllerExpandSecretRef = None, csiControllerPublishSecretRef = None\<rparr>"

definition exVolume :: volume where
  "exVolume = \<lparr>pvName = ''pv1'', pvGeneration = 0, pvResourceVersion = ''3'', pvLabels = [], pvAnnotations = [], pvDeleted = False,
     pvReclaimPolicy = ReclaimRetain, pvStorageClassName = ''fast'',
     pvClaimRef = Some \<lparr>crKind = ''PersistentVolumeClaim'', crAPIVersion = ''v1'', crNamespace = ''ns'', crName = ''data'',
       crUID = ''u1'', crResourceVersion = ''7''\<rparr>,
     pvCSI = Some exCSI, pvAccessModes = [''ReadWriteOnce''], pvVolumeMode = None, pvPhase = VolumeBound\<rparr>"

definition exStorageClass :: class_object where
  "exStorageClass = \<lparr>clName = ''fast'', clLabels = [], clAnnotations = [], clProvisioner = ''csi'', clParameters = []\<rparr>"

definition exReplicationClass :: class_object where
  "exReplicationClass = \<lparr>clName = ''vrc'', clLabels = [], clAnnotations = [], clProvisioner = ''csi'',
     clParameters = [(ReplicationClassScheduleKey, ''5m'')]\<rparr>"

definition exReplication :: "vr_replication_state \<Rightarrow> volume_replication" where
  "exReplication state = \<lparr>vrGeneration = 2, vrDeleted = False, vrFinalizers = [''csi''], vrLabels = [], vrOwner = None,
     vrReplicationState = state, vrAutoResync = False, vrClass = ''vrc'',
     vrStatus = emptyVRStatus\<lparr>vrsState := VRPrimaryState, vrsObservedGeneration := 2\<rparr>\<rparr>"

definition exManagedVRG :: "replication_state \<Rightarrow> vrg" where
  "exManagedVRG state =
     (let v = emptyVRG ''app'' ''ns'' [] state
      in v\<lparr>vGeneration := 1, vResourceVersion := ''9'',
           vSpec := (vSpec v)\<lparr>vS3Profiles := [''s3''], vAction := VRGActionRelocate,
             vAsync := Some \<lparr>asReplicationClassSelector = [], asVolumeSnapshotClassSelector = [],
               asVolumeGroupSnapshotClassSelector = [], asSchedulingInterval = ''5m'', asPeerClasses = []\<rparr>\<rparr>\<rparr>)"

definition exS3Profile :: s3_profile where
  "exS3Profile = \<lparr>spName = ''s3'', spBucket = ''bucket'', spEndpoint = ''http://s3'', spEndpointParses = True, spRegion = [],
     spSecretName = ''secret'', spSecretNamespace = []\<rparr>"

text \<open>One PVC that is protected, replicated as primary and not uploaded yet.\<close>

definition exManaged :: "replication_state \<Rightarrow> claim list \<Rightarrow> vrgs" where
  "exManaged state pvcs =
     \<lparr>clock = 100, conflictRetries = 5, faults = (\<lambda>_. None), calls = 0,
      iOperatorNamespace = ''ramen'', kS3Profiles = [exS3Profile], kSecrets = [(''secret'', ''ramen'')],
      kBuckets = [(''http://s3'', ''bucket'') \<mapsto> []],
      iVrg = exManagedVRG state, iUID = ''vrg-uid'', iSaved = zeroVRGStatus,
      iConfig = \<lparr>cfgRetainNamespaceSCCAcrossPeers = False, cfgRamenOpsNamespace = ''ramen-ops'', cfgLeaderElectionResourceName = None,
        cfgDeploymentAutomationEnabled = True, cfgChannelName = [], cfgPackageName = [], cfgNamespaceName = [],
        cfgCatalogSourceName = [], cfgCatalogSourceNamespaceName = [], cfgClusterServiceVersionName = [],
        cfgS3SecretDistributionEnabled = True, cfgS3StoreProfiles = [], cfgKubeObjectProtectionDisabled = True,
        cfgVeleroNamespaceName = [], cfgVolumeUnprotectionEnabled = True, cfgVolSyncDisabled = False,
     cfgMultiNamespaceFeatureEnabled = False, cfgMultiNamespaceVolsyncSupported = False, cfgRest = []\<rparr>,
      iVolRepPVCs = pvcs, iVolSyncPVCs = [], iReplClassList = [], iGrpReplClassList = [], iVrcUpdated = False,
      iStorageClassCache = Map.empty, iVacCache = [], iSnapshotClasses = None, iObjectStorers = Map.empty,
      iS3StoreAccessors = [], iLastUploadVersion = Map.empty, iVrgObjectProtected = None, iKubeObjectsProtected = None,
      iWorkloadStatus = [], iPvcSelector = [], iPvcNamespaces = [''ns''], iRequeue = False,
      kServerVRG = exManagedVRG state, kVersion = 9, kVRGs = [exManagedVRG state],
      kClaims = map_of (map (\<lambda>c. ((claimName c, claimNamespace c), c)) pvcs),
      kClaimOrder = map (\<lambda>c. (claimName c, claimNamespace c)) pvcs,
      kVolumes = [(''pv1'', []) \<mapsto> exVolume], kVolumeOrder = [''pv1''],
      kVRs = [(''data'', ''ns'') \<mapsto> exReplication VRPrimary], kVGRs = Map.empty,
      kStorageClasses = [(''fast'', []) \<mapsto> exStorageClass], kVRClasses = [exReplicationClass], kVGRClasses = [],
      kMatchLabels = (\<lambda>_. []), kCRDs = [], kPods = [], kAttachedVolumes = [], kReplicationSources = Map.empty,
      kReplicationGroupSources = [], kVGROrder = [], kVGRCs = Map.empty, kSnapshots = [], kSnapshotClasses = [],
      kVolumeAttributesClasses = [], kVMs = [], kHash = (\<lambda>spec. fst (snd spec))\<rparr>"

lemmas managed_ex_defs = exClaim_def exCSI_def exVolume_def exStorageClass_def exReplicationClass_def exReplication_def
  exManagedVRG_def exS3Profile_def exManaged_def emptyVRG_def zeroVRGStatus_def zeroVolSync_def emptyVRStatus_def

end
