(* ===== verification/Ramen_VolRepProps.thy ===== *)
theory Ramen_VolRepProps
  imports Ramen_VolRepInv Ramen_VrgExamples
begin

text \<open>
  When the VRG reconciler, as secondary, may demote a volume and when it may let go of a PVC.
\<close>

section \<open>Demotions\<close>

lemma demotable_original:
  assumes "tracked s pvc'" "demotable s pvc'"
  shows "\<exists>pvc. pvc \<in> set (iVolRepPVCs s) \<and> PvcVRFinalizerProtected \<in> set (claimFinalizers pvc) \<and> demotable s pvc
    \<and> preparedFrom pvc pvc'"
  using assms demotable_prepared by (auto simp: tracked_def)

lemma demoted_within:
  "Collect (isSecondary (kVRs (snd (reconcileVolRepsAsSecondary s)))) \<subseteq> Collect (isSecondary (kVRs s)) \<union> demotableVRs s"
  "Collect (isSecondary (kVGRs (snd (reconcileVolRepsAsSecondary s)))) \<subseteq> Collect (isSecondary (kVGRs s)) \<union> demotableVGRs s"
proof -
  have "demotedWithin s (demotableVRs s) (demotableVGRs s) (snd (reconcileVolRepsAsSecondary s))"
    by (rule presD [OF demoted.pres_reconcileVolRepsAsSecondary]) (simp add: demotedWithin_def)
  then show "Collect (isSecondary (kVRs (snd (reconcileVolRepsAsSecondary s)))) \<subseteq> Collect (isSecondary (kVRs s)) \<union> demotableVRs s"
    "Collect (isSecondary (kVGRs (snd (reconcileVolRepsAsSecondary s)))) \<subseteq> Collect (isSecondary (kVGRs s)) \<union> demotableVGRs s"
    unfolding demotedWithin_def by blast+
qed

text \<open>
  C16. Whatever API calls fail, a reconcile as secondary (\<^verbatim>\<open>reconcileVolRepsAsSecondary\<close>) turns a VolumeReplication to
  secondary only if one of the VRG's PVCs has its name and carries the protection finalizer, the VRG fails over or the
  PVC is deleted, no pod uses it, and its volume is not attached to a node; only if API calls fail may the volume
  be attached.
\<close>

theorem secondary_demotes_only_released_pvcs:
  "Collect (isSecondary (kVRs (snd (reconcileVolRepsAsSecondary s))))
     \<subseteq> Collect (isSecondary (kVRs s))
       \<union> {(claimName pvc, claimNamespace pvc) |pvc. pvc \<in> set (iVolRepPVCs s)
            \<and> PvcVRFinalizerProtected \<in> set (claimFinalizers pvc) \<and> demotable s pvc}"
proof (rule subset_trans [OF demoted_within(1)], intro Un_mono subset_refl)
  show "demotableVRs s \<subseteq> {(claimName pvc, claimNamespace pvc) |pvc. pvc \<in> set (iVolRepPVCs s)
            \<and> PvcVRFinalizerProtected \<in> set (claimFinalizers pvc) \<and> demotable s pvc}"
    unfolding demotableVRs_def by (auto dest!: demotable_original simp: preparedFrom_def)
qed


section \<open>Releases\<close>

text \<open>What the status of a VolumeReplication must say for its resource to count as settled as secondary.\<close>

definition metAt :: "int \<Rightarrow> vr_status \<Rightarrow> string \<Rightarrow> condition_status \<Rightarrow> bool" where
  "metAt g st t d \<longleftrightarrow> fst (isVRConditionMet g st t d)"

definition settledSecondary :: "vrg \<Rightarrow> volume_replication \<Rightarrow> bool" where
  "settledSecondary v vr \<longleftrightarrow>
     vrReplicationState vr = VRSecondary \<and> vrAutoResync vr = autoResync v VRSecondary
     \<and> (let st = vrStatus vr; g = vrGeneration vr
        in vrgHasGlobalVGRLabel v \<and> vrsState st = VRSecondaryState
           \<or> vrsObservedGeneration st = g \<and> metAt g st ''Completed'' ConditionTrue
             \<and> (metAt g st ''Resyncing'' ConditionTrue \<and> metAt g st ''Degraded'' ConditionTrue
                \<or> metAt g st ''Resyncing'' ConditionFalse \<and> metAt g st ''Degraded'' ConditionFalse
                  \<and> vrsState st = VRSecondaryState))"

definition isProtectedClaim :: "vrgs \<Rightarrow> string \<times> string \<Rightarrow> bool" where
  "isProtectedClaim s key \<longleftrightarrow>
     (case kClaims s key of None \<Rightarrow> False | Some c \<Rightarrow> PvcVRFinalizerProtected \<in> set (claimFinalizers c))"

definition replicated :: "vrgs \<Rightarrow> claim \<Rightarrow> bool" where
  "replicated s pvc \<longleftrightarrow>
     (case vAsync (vrgSpecOf s) of None \<Rightarrow> vSync (vrgSpecOf s) \<noteq> None
      | Some _ \<Rightarrow> (case kVRs s (claimName pvc, claimNamespace pvc) of
           None \<Rightarrow> False | Some vr \<Rightarrow> settledSecondary (iVrg s) vr))"

definition mayRelease :: "vrgs \<Rightarrow> claim \<Rightarrow> bool" where
  "mayRelease s pvc \<longleftrightarrow>
     (let sp = vrgSpecOf s; found = kVRs s (claimName pvc, claimNamespace pvc)
      in vAsync sp \<noteq> None \<and> (found = None \<or> apiFaulty s)
         \<or> demotable s pvc \<and> replicated s pvc)"

lemma yields_checkResync:
  "yields (\<lambda>ok. ok \<longrightarrow> metAt g st ''Resyncing'' ConditionFalse \<and> metAt g st ''Degraded'' ConditionFalse
      \<and> vrsState st = VRSecondaryState) (checkResyncCompletionAsSecondary pvcs g st)"
  unfolding checkResyncCompletionAsSecondary_def Let_def
  by (auto simp: metAt_def intro!: yields_ret yields_seq split: prod.split)

lemma yields_validateSecondary:
  "yields (\<lambda>ok. ok \<longrightarrow> metAt g st ''Resyncing'' ConditionTrue \<and> metAt g st ''Degraded'' ConditionTrue
      \<or> metAt g st ''Resyncing'' ConditionFalse \<and> metAt g st ''Degraded'' ConditionFalse \<and> vrsState st = VRSecondaryState)
     (validateAdditionalVRStatusForSecondary pvcs g st)"
  unfolding validateAdditionalVRStatusForSecondary_def Let_def
  by (auto simp: metAt_def intro!: yields_ret yields_seq yields_mono [OF yields_checkResync] split: prod.split)

lemma yields_validateVR:
  "yields (\<lambda>ok. ok \<longrightarrow> metAt g st ''Completed'' ConditionTrue \<and>
      (metAt g st ''Resyncing'' ConditionTrue \<and> metAt g st ''Degraded'' ConditionTrue
      \<or> metAt g st ''Resyncing'' ConditionFalse \<and> metAt g st ''Degraded'' ConditionFalse \<and> vrsState st = VRSecondaryState))
     (validateVRStatus pvcs g Secondary st)"
proof -
  have completed: "yields (\<lambda>ok. ok \<longrightarrow> metAt g st ''Completed'' ConditionTrue) (validateVRCompletedStatus pvcs g Secondary st)"
    unfolding validateVRCompletedStatus_def
    by (auto simp: metAt_def intro!: yields_ret yields_seq split: prod.split)
  have start: "yields (\<lambda>x. x = (True, ConditionKnown)) (ret (True, ConditionKnown))"
    by (simp add: yields_ret)
  show ?thesis
    unfolding validateVRStatus_def
    by (auto intro!: yields_bind [OF start] yields_bind [OF completed] yields_ret yields_mono [OF yields_validateSecondary])
qed

lemma yields_validateGlobal:
  "yields (\<lambda>ok. ok \<longrightarrow> isGlobalVGRStateMatched st state) (validateGlobalVGRStatus pvcs st state)"
  unfolding validateGlobalVGRStatus_def by (auto intro!: yields_step yields_ret yields_seq)

lemma ready_settled:
  assumes "vReplicationState (vrgSpecOf s) = Secondary"
  shows "wp (checkVRStatus pvcs g st) (\<lambda>r _. \<forall>x. r = Inr x \<longrightarrow> x \<longrightarrow>
      vrgHasGlobalVGRLabel (iVrg s) \<and> vrsState st = VRSecondaryState
      \<or> vrsObservedGeneration st = g \<and> metAt g st ''Completed'' ConditionTrue \<and>
        (metAt g st ''Resyncing'' ConditionTrue \<and> metAt g st ''Degraded'' ConditionTrue
         \<or> metAt g st ''Resyncing'' ConditionFalse \<and> metAt g st ''Degraded'' ConditionFalse \<and> vrsState st = VRSecondaryState)) s"
proof -
  let ?v = "iVrg s"
  have global: "yields (\<lambda>ok. ok \<longrightarrow> vrgHasGlobalVGRLabel ?v \<and> vrsState st = VRSecondaryState)
      (if vrgHasGlobalVGRLabel ?v then validateGlobalVGRStatus pvcs st (vReplicationState (vSpec ?v)) else ret False)"
    using yields_validateGlobal [of st Secondary pvcs] assms
    by (auto simp: isGlobalVGRStateMatched_def intro: yields_ret)
  show ?thesis
    unfolding checkVRStatus_def wp_bind [of "getsM iVrg"] wp_gets sum.case
    by (rule wp_yields, rule yields_bind [OF global])
      (use assms in \<open>auto intro!: yields_ret yields_seq yields_mono [OF yields_validateVR]\<close>)
qed

definition stillProtected :: "vrgs \<Rightarrow> vrgs \<Rightarrow> bool" where
  "stillProtected s\<^sub>0 s \<longleftrightarrow> input s = input s\<^sub>0 \<and> (\<forall>key. isProtectedClaim s\<^sub>0 key \<longrightarrow> isProtectedClaim s key)"

definition untouchedVRs :: "vrgs \<Rightarrow> vrgs \<Rightarrow> bool" where
  "untouchedVRs s\<^sub>0 s \<longleftrightarrow> stillProtected s\<^sub>0 s \<and> kVRs s = kVRs s\<^sub>0"

interpretation guarded: vrg_replicates "stillProtected s\<^sub>0" for s\<^sub>0
  by unfold_locales (auto simp: stillProtected_def isProtectedClaim_def)

interpretation unreleased: vrg_protects "untouchedVRs s\<^sub>0" for s\<^sub>0
  by unfold_locales (auto simp: untouchedVRs_def stillProtected_def isProtectedClaim_def)

lemma input_settled: "input s = input s' \<Longrightarrow> settledSecondary (iVrg s) vr \<longleftrightarrow> settledSecondary (iVrg s') vr"
  by (simp add: input_def settledSecondary_def autoResync_def vrgHasGlobalVGRLabel_def vrgGlobalVGRLabel_def)

lemma gives_getVR:
  "gives (untouchedVRs s\<^sub>0) (attemptM (getFrom kVRs name ns)) (\<lambda>r. case r of
      Inl e \<Rightarrow> kVRs s\<^sub>0 (name, ns) = None \<or> apiFaulty s\<^sub>0 | Inr vr \<Rightarrow> kVRs s\<^sub>0 (name, ns) = Some vr)"
proof (rule givesI)
  fix s assume "untouchedVRs s\<^sub>0 s"
  then have "kVRs s = kVRs s\<^sub>0" "apiFaulty s = apiFaulty s\<^sub>0" "\<And>n. untouchedVRs s\<^sub>0 (s\<lparr>calls := n\<rparr>)"
    by (auto simp: untouchedVRs_def stillProtected_def input_def apiFaulty_def isProtectedClaim_def)
  then show "wp (attemptM (getFrom kVRs name ns)) (\<lambda>r s'. untouchedVRs s\<^sub>0 s' \<and> (\<forall>x. r = Inr x \<longrightarrow> (case x of
      Inl e \<Rightarrow> kVRs s\<^sub>0 (name, ns) = None \<or> apiFaulty s\<^sub>0 | Inr vr \<Rightarrow> kVRs s\<^sub>0 (name, ns) = Some vr))) s"
    unfolding wp_attempt by (auto intro!: wp_mono [OF getFrom_result] split: sum.splits)
qed

lemma gives_spec: "gives (untouchedVRs s\<^sub>0) (getsM vrgSpecOf) (\<lambda>sp. sp = vrgSpecOf s\<^sub>0)"
  by (rule givesI) (auto simp: wp_gets untouchedVRs_def stillProtected_def input_def)

lemma missing_keeps:
  assumes "\<not> mayRelease s\<^sub>0 pvc"
  shows "pres (untouchedVRs s\<^sub>0) (reconcileMissingVR pvc)"
  unfolding reconcileMissingVR_def
  by (rule pres_bind_gives [OF gives_spec], hypsubst, rule pres_if, intro pres_rules, rule pres_bind_gives [OF gives_getVR])
    (use assms in \<open>auto simp: mayRelease_def intro!: pres_rules split: sum.splits\<close>)

text \<open>
  Once the VolumeReplication may change, only the protection of the PVCs is kept: \<open>settles s\<^sub>0 m P\<close> says that \<open>m\<close>, started
  before, keeps it and that its results satisfy \<open>P\<close>.
\<close>

definition settles :: "vrgs \<Rightarrow> 'a vrgm \<Rightarrow> ('a \<Rightarrow> bool) \<Rightarrow> bool" where
  "settles s\<^sub>0 m P \<longleftrightarrow> (\<forall>s. untouchedVRs s\<^sub>0 s \<longrightarrow> wp m (\<lambda>r s'. stillProtected s\<^sub>0 s' \<and> (\<forall>x. r = Inr x \<longrightarrow> P x)) s)"

lemma settles_bind:
  assumes "gives (untouchedVRs s\<^sub>0) m Q" "\<And>x. Q x \<Longrightarrow> settles s\<^sub>0 (f x) P"
  shows "settles s\<^sub>0 (bindM m f) P"
  unfolding settles_def wp_bind
proof (intro allI impI, rule wp_mono [OF givesD [OF assms(1)]])
  show "case r of Inl e \<Rightarrow> stillProtected s\<^sub>0 s' \<and> (\<forall>x. Inl e = Inr x \<longrightarrow> P x)
      | Inr x \<Rightarrow> wp (f x) (\<lambda>r s'. stillProtected s\<^sub>0 s' \<and> (\<forall>x. r = Inr x \<longrightarrow> P x)) s'"
    if "untouchedVRs s\<^sub>0 s' \<and> (\<forall>x. r = Inr x \<longrightarrow> Q x)" for r s'
    using that assms(2) by (auto simp: settles_def untouchedVRs_def split: sum.split)
qed

lemma settles_yields: "pres (stillProtected s\<^sub>0) m \<Longrightarrow> yields P m \<Longrightarrow> settles s\<^sub>0 m P"
  unfolding settles_def yields_def by (auto simp: untouchedVRs_def intro!: wp_conj pres_wp)

lemma settles_gives: "gives (untouchedVRs s\<^sub>0) m P \<Longrightarrow> settles s\<^sub>0 m P"
  unfolding settles_def gives_def by (auto simp: untouchedVRs_def elim: wp_mono)

lemma settlesD: "settles s m P \<Longrightarrow> stillProtected s (snd (m s))"
  unfolding wp_snd [symmetric] settles_def
  by (auto simp: untouchedVRs_def stillProtected_def dest!: spec [of _ s] elim!: wp_mono)

lemma settles_mono: "settles s\<^sub>0 m P \<Longrightarrow> (\<And>x. P x \<Longrightarrow> Q x) \<Longrightarrow> settles s\<^sub>0 m Q"
  unfolding settles_def by (auto elim!: wp_mono)

text \<open>Results of the form \<open>(requeue, ready, _)\<close> that say the resource is ready.\<close>

definition readyOnly :: "bool \<Rightarrow> outcome \<Rightarrow> bool" where
  "readyOnly b out \<longleftrightarrow> (case out of (requeue, ready, _) \<Rightarrow> ready \<and> \<not> requeue \<longrightarrow> b)"

lemma gives_checkVRStatus:
  assumes "vReplicationState (vrgSpecOf s\<^sub>0) = Secondary" "vrReplicationState vr = VRSecondary"
    "vrAutoResync vr = autoResync (iVrg s\<^sub>0) VRSecondary"
  shows "gives (untouchedVRs s\<^sub>0) (checkVRStatus [pvc] (vrGeneration vr) (vrStatus vr)) (\<lambda>ok. ok \<longrightarrow> settledSecondary (iVrg s\<^sub>0) vr)"
proof (rule givesI)
  fix s assume s: "untouchedVRs s\<^sub>0 s"
  then have i: "input s = input s\<^sub>0" by (simp add: untouchedVRs_def stillProtected_def)
  then have "vReplicationState (vrgSpecOf s) = Secondary" using assms(1) by (simp add: input_def)
  from wp_conj [OF pres_wp [OF unreleased.pres_checkVRStatus s] ready_settled [OF this]]
  show "wp (checkVRStatus [pvc] (vrGeneration vr) (vrStatus vr))
      (\<lambda>r s'. untouchedVRs s\<^sub>0 s' \<and> (\<forall>x. r = Inr x \<longrightarrow> x \<longrightarrow> settledSecondary (iVrg s\<^sub>0) vr)) s"
    by (rule wp_mono) (use assms(2,3) in \<open>simp add: settledSecondary_def Let_def input_global [OF i, symmetric]\<close>)
qed

lemma gives_resync:
  "gives (untouchedVRs s\<^sub>0) (getsM iVrg) (\<lambda>v. autoResync v VRSecondary = autoResync (iVrg s\<^sub>0) VRSecondary)"
  by (rule givesI) (auto simp: wp_gets untouchedVRs_def stillProtected_def input_def autoResync_def)

lemma settles_updateVR:
  assumes "vReplicationState (vrgSpecOf s\<^sub>0) = Secondary"
  shows "settles s\<^sub>0 (updateVR pvc vr VRSecondary) (readyOnly (settledSecondary (iVrg s\<^sub>0) vr))"
proof -
  have written: "settles s\<^sub>0 (bindM (attemptM (updateIn kVRs kVRs_update (claimName pvc) (claimNamespace pvc) vr')) (\<lambda>r. case r of
          Inl e \<Rightarrow> seqM m (ret (True, False, f e)) | Inr _ \<Rightarrow> seqM n (ret (False, False, g))))
        (readyOnly b)"
    if "pres (stillProtected s\<^sub>0) m" "pres (stillProtected s\<^sub>0) n" for vr' m n f g b
    by (rule settles_yields)
      (auto simp: readyOnly_def updateIn_def guarded.I_VRs that
        intro!: pres_rules guarded.pres_modifyM yields_step yields_ret yields_seq split: sum.split)
  show ?thesis
    unfolding updateVR_def
    by (rule settles_bind [OF gives_resync])
      (auto simp: readyOnly_def intro!: settles_gives [OF gives_bind [OF gives_checkVRStatus [OF assms]]] gives_ret written pres_rules)
qed

lemma settles_createOrUpdateVR:
  assumes "vReplicationState (vrgSpecOf s\<^sub>0) = Secondary"
  shows "settles s\<^sub>0 (createOrUpdateVR pvc VRSecondary)
    (readyOnly (\<exists>vr. kVRs s\<^sub>0 (claimName pvc, claimNamespace pvc) = Some vr \<and> settledSecondary (iVrg s\<^sub>0) vr))"
proof -
  have failed: "settles s\<^sub>0 (seqM m (ret (True, False, e))) (readyOnly c)" if "pres (stillProtected s\<^sub>0) m" for m e c
    by (rule settles_yields) (auto simp: readyOnly_def that intro!: pres_rules yields_ret yields_seq)
  have created: "settles s\<^sub>0 (bindM (attemptM (createVR name ns state))
        (case_sum (\<lambda>e. seqM n (ret (True, False, f e))) (\<lambda>_. seqM k (ret (False, False, g))))) (readyOnly c)"
    if "pres (stillProtected s\<^sub>0) n" "pres (stillProtected s\<^sub>0) k" for name ns state n f k g c
    by (rule settles_yields)
      (auto simp: readyOnly_def that intro!: pres_rules yields_step yields_ret yields_seq split: sum.split)
  show ?thesis
    unfolding createOrUpdateVR_def Let_def
    by (rule settles_bind [OF gives_getVR])
      (auto intro!: failed created pres_rules settles_mono [OF settles_updateVR [OF assms]] split: sum.splits)
qed

lemma settles_processVRAsSecondary:
  assumes "vReplicationState (vrgSpecOf s\<^sub>0) = Secondary"
  shows "settles s\<^sub>0 (processVRAsSecondary pvc) (readyOnly (replicated s\<^sub>0 pvc))"
  unfolding processVRAsSecondary_def Let_def
  by (rule settles_bind [OF gives_spec], hypsubst)
    (auto simp: readyOnly_def replicated_def intro!: settles_mono [OF settles_createOrUpdateVR [OF assms]]
      settles_yields pres_rules yields_ret yields_seq)

lemma settles_then:
  assumes "settles s\<^sub>0 m Q" "\<And>x. Q x \<Longrightarrow> pres (stillProtected s\<^sub>0) (f x)" "\<And>x. Q x \<Longrightarrow> yields P (f x)"
  shows "settles s\<^sub>0 (bindM m f) P"
  unfolding settles_def wp_bind
proof (intro allI impI)
  fix s assume "untouchedVRs s\<^sub>0 s"
  with assms(1) have "wp m (\<lambda>r s'. stillProtected s\<^sub>0 s' \<and> (\<forall>x. r = Inr x \<longrightarrow> Q x)) s" by (simp add: settles_def)
  then show "wp m (\<lambda>r s'. case r of Inl e \<Rightarrow> stillProtected s\<^sub>0 s' \<and> (\<forall>x. Inl e = Inr x \<longrightarrow> P x)
      | Inr x \<Rightarrow> wp (f x) (\<lambda>r s'. stillProtected s\<^sub>0 s' \<and> (\<forall>x. r = Inr x \<longrightarrow> P x)) s') s"
    by (rule wp_mono) (auto split: sum.split intro!: wp_conj pres_wp [OF assms(2)] wp_yields [OF assms(3)])
qed

lemma settles_reconcileVRAsSecondary:
  assumes "vReplicationState (vrgSpecOf s\<^sub>0) = Secondary"
  shows "settles s\<^sub>0 (reconcileVRAsSecondary pvc)
    (\<lambda>(requeue, ready, skip). ready \<and> \<not> requeue \<longrightarrow> demotable s\<^sub>0 pvc \<and> replicated s\<^sub>0 pvc)"
proof -
  have ready: "gives (untouchedVRs s\<^sub>0) (isPVCReadyForSecondary pvc) (\<lambda>ok. ok \<longrightarrow> demotable s\<^sub>0 pvc)"
    by (rule gives_demotable [OF unreleased.pres_isPVCReadyForSecondary]) (simp add: untouchedVRs_def stillProtected_def)
  show ?thesis
    unfolding reconcileVRAsSecondary_def
    by (rule settles_bind [OF ready])
      (auto simp: readyOnly_def intro!: settles_gives [OF gives_ret] pres_rules yields_ret
        settles_then [OF settles_processVRAsSecondary [OF assms]])
qed

lemma kept_unless_allowed:
  assumes "vReplicationState (vrgSpecOf s\<^sub>0) = Secondary" "\<not> mayRelease s\<^sub>0 pvc"
  shows "settles s\<^sub>0 (reconcilePVCVRAsSecondary pvc) (\<lambda>_. True)"
  unfolding reconcilePVCVRAsSecondary_def
  by (rule settles_bind [OF gives_any [OF missing_keeps [OF assms(2)]]])
    (use assms(2) in \<open>auto simp: mayRelease_def Let_def intro!: settles_gives [OF gives_ret] pres_rules yields_any
       settles_then [OF settles_reconcileVRAsSecondary [OF assms(1)]]\<close>)

lemma mayRelease_prepared: "preparedFrom pvc pvc' \<Longrightarrow> mayRelease s pvc' \<longleftrightarrow> mayRelease s pvc"
proof -
  assume p: "preparedFrom pvc pvc'"
  then have "claimName pvc' = claimName pvc" "claimNamespace pvc' = claimNamespace pvc"
    by (simp_all add: preparedFrom_def)
  then show ?thesis
    using demotable_prepared [OF p, of s] by (simp add: mayRelease_def replicated_def split: option.split)
qed

text \<open>
  C18. A PVC that carries the protection finalizer keeps it through the secondary's reconcile of one PVC
  (\<^verbatim>\<open>processPVCsAsSecondary\<close>), whatever API calls fail, unless the PVC may be released: its VolumeReplication is gone (or
  API calls fail), or it may be demoted and, with asynchronous replication, the VolumeReplication was already set to
  secondary and its status says, at its generation, that the demotion completed and that the volume is
  resyncing and degraded, or neither and in the state Secondary.
\<close>

theorem secondary_releases_only_replicated_pvcs:
  assumes "vReplicationState (vrgSpecOf s) = Secondary" "isProtectedClaim s key" "\<not> mayRelease s pvc"
  shows "isProtectedClaim (snd (processPVCAsSecondary gs pvc s)) key"
proof -
  have release: "\<not> mayRelease s pvc'" if "preparedFrom pvc pvc'" for pvc'
    using assms(3) mayRelease_prepared [OF that] by blast
  have "settles s (processPVCAsSecondary gs pvc) (\<lambda>_. True)"
    unfolding processPVCAsSecondary_def
    by (auto intro!: settles_gives [OF gives_ret] settles_gives [OF gives_seq [OF unreleased.pres_deletePVCStatus]] gives_ret
        pres_rules yields_any release settles_then [OF kept_unless_allowed [OF assms(1)]]
        settles_bind [OF gives_any [OF pres_recover [OF unreleased.pres_updateProtectedPVCs]]]
        settles_bind [OF gives_yields [OF unreleased.pres_preparePVCForVRProtection yields_preparePVC]]
        settles_bind [OF gives_any [OF unreleased.pres_isCGEnabled]]
        settles_bind [OF gives_any [OF unreleased.pres_addPVCToGroupPVCs]]
        split: sum.split)
  then have "stillProtected s (snd (processPVCAsSecondary gs pvc s))"
    by (rule settlesD)
  then show ?thesis
    using assms(2) unfolding stillProtected_def by blast
qed

theorem secondary_releases_only_replicated_pvcs_witness:
  "isProtectedClaim (snd (processPVCAsSecondary [] exClaim (exManaged Secondary [exClaim]))) (''data'', ''ns'')"
  by (rule secondary_releases_only_replicated_pvcs)
    (simp_all add: managed_ex_defs isProtectedClaim_def mayRelease_def demotable_def apiFaulty_def)

end
