(* ===== verification/Ramen_PvcSelection.thy ===== *)
theory Ramen_PvcSelection
  imports Ramen_VolRepReconcile "HOL-Library.Word"
begin

text \<open>
  Which PVCs a VRG protects, and how (\<^verbatim>\<open>volumereplicationgroup_controller.go\<close>, \<^verbatim>\<open>vrg_offloaded.go\<close>, with the listing of
  \<^verbatim>\<open>util/pvcs_util.go\<close>): PVCs are selected by label and namespace and separated into those replicated by VolumeReplication and
  those replicated by VolSync, from the peer classes of the VRG and the classes of the cluster.
\<close>

section \<open>Listing\<close>

text \<open>The list of the cached client has all namespaces and is filtered afterwards.\<close>

definition ListPVCsByPVCSelector :: "strmap \<Rightarrow> string list \<Rightarrow> bool \<Rightarrow> claim list vrgm" where
  "ListPVCsByPVCSelector sel namespaces volSyncDisabled =
     bindM (catchM (listAll claimsInOrder
                      (\<lambda>c. matchesLabels sel (claimLabels c)
                         \<and> (volSyncDisabled
                            \<or> map_of (claimLabels c) ''app.kubernetes.io/created-by'' \<noteq> Some ''volsync''
                              \<and> map_of (claimLabels c) ''ramendr.openshift.io/created-by-ramen'' \<noteq> Some ''true'')))
              (\<lambda>e. failM (wrapE ''failed to list PersistentVolumeClaims, '' e [])))
       (\<lambda>pvcs. ret (filter (\<lambda>c. claimNamespace c \<in> set namespaces) pvcs))"

definition listPVCsByPVCSelector :: "strmap \<Rightarrow> claim list vrgm" where
  "listPVCsByPVCSelector sel =
     bindM (getsM (\<lambda>s. (iPvcNamespaces s, vsDisabled (vVolSync (vrgSpecOf s)))))
       (\<lambda>(namespaces, disabled). ListPVCsByPVCSelector sel namespaces disabled)"

definition listPVCsByVrgPVCSelector :: "claim list vrgm" where
  "listPVCsByVrgPVCSelector = bindM (getsM iPvcSelector) listPVCsByPVCSelector"

definition listPVCsOwnedByVrg :: "claim list vrgm" where
  "listPVCsOwnedByVrg = bindM (getsM (OwnerLabels \<circ> iVrg)) listPVCsByPVCSelector"

section \<open>Names\<close>

text \<open>The CRC-32 checksum of the IEEE polynomial, reflected, bit by bit.\<close>

unbundle bit_operations_syntax

fun crcBits :: "nat \<Rightarrow> 32 word \<Rightarrow> 32 word" where
  "crcBits 0 c = c"
| "crcBits (Suc n) c = crcBits n (if bit c 0 then drop_bit 1 c XOR 0xEDB88320 else drop_bit 1 c)"

definition crc32 :: "string \<Rightarrow> 32 word" where
  "crc32 str = NOT (foldl (\<lambda>c ch. crcBits 8 (c XOR of_nat (of_char ch))) (NOT 0) str)"

definition hexDigit :: "nat \<Rightarrow> char" where
  "hexDigit n = (if n < 10 then char_of (48 + n) else char_of (87 + n))"

definition GetHashedName :: "string \<Rightarrow> string" where
  "GetHashedName name =
     (let c = crc32 name in map (\<lambda>i. hexDigit (unat (take_bit 4 (drop_bit (4 * i) c)))) [7, 6, 5, 4, 3, 2, 1, 0])"

definition GenerateCombinedName :: "string \<Rightarrow> string \<Rightarrow> string" where
  "GenerateCombinedName name storageID =
     (let combined = name @ ''-'' @ storageID
      in if length combined \<le> 63 then combined
         else if length storageID + 1 \<ge> 63 then GetHashedName name @ ''-'' @ GetHashedName storageID
         else GetHashedName name @ ''-'' @ storageID)"

definition GlobalVGRName :: "string \<Rightarrow> string" where
  "GlobalVGRName groupReplicationID = TrimToK8sResourceNameLength (''global-'' @ map asciiLower groupReplicationID)"

section \<open>Consistency group labels\<close>

definition addVolRepConsistencyGroupLabel :: "claim \<Rightarrow> claim vrgm" where
  "addVolRepConsistencyGroupLabel pvc =
     bindM (isCGEnabled pvc)
       (\<lambda>(_, ok).
          if ok \<and> claimDeleted pvc then ret pvc
          else bindM (getVGRClassReplicationID pvc) (\<lambda>grID. labelClaim ConsistencyGroupLabel grID pvc))"

definition getCGLabelValue :: "string option \<Rightarrow> string \<Rightarrow> string \<Rightarrow> string vrgm" where
  "getCGLabelValue className name ns =
     (case className of
        None \<Rightarrow> failM (newE (''missing storage class name for PVC '' @ ns @ ''/'' @ name))
      | Some n \<Rightarrow>
          if n = [] then failM (newE (''missing storage class name for PVC '' @ ns @ ''/'' @ name))
          else bindM (getStorageClassFromSCName n)
            (\<lambda>sc. case map_of (clLabels sc) StorageIDLabel of
               None \<Rightarrow> failM (newE (''missing storageID for PVC '' @ ns @ ''/'' @ name))
             | Some sid \<Rightarrow> ret (GenerateCombinedName ns sid)))"

definition addConsistencyGroupLabel :: "claim \<Rightarrow> claim vrgm" where
  "addConsistencyGroupLabel pvc =
     bindM (getCGLabelValue (claimStorageClassName pvc) (claimName pvc) (claimNamespace pvc))
       (\<lambda>value. labelClaim ConsistencyGroupLabel value pvc)"

section \<open>Peer classes\<close>

text \<open>The last peer class of that name counts.\<close>

definition findPeerClassMatchingSC :: "class_object \<Rightarrow> peer_class list \<Rightarrow> claim \<Rightarrow> peer_class vrgm" where
  "findPeerClassMatchingSC sc peerClasses pvc =
     (case map_of (clLabels sc) StorageIDLabel of
        None \<Rightarrow> failM (newE (''label ('' @ StorageIDLabel @ '') not found in storageClass for PVC '' @ claimName pvc))
      | Some sid \<Rightarrow>
          (case find (\<lambda>p. pcStorageClassName p = clName sc) (rev peerClasses) of
             None \<Rightarrow>
               let msg = ''peerClass matching storageClass '' @ clName sc @ '' not found for PVC''
               in seqM (updatePVCDataReadyCondition (claimNamespace pvc) (claimName pvc) ''PeerClassNotFound'' msg)
                    (failM (newE msg))
           | Some p \<Rightarrow>
               if sid \<notin> set (pcStorageID p)
               then if pcStorageID p = [] then failM indexOutOfRange
                    else failM (newE (''storageID mismatch between peerClass ('' @ hd (pcStorageID p) @ '') and StorageClass ('' @ sid @ '')''))
               else ret p))"

definition matchesPeerClass :: "peer_class \<Rightarrow> class_object \<Rightarrow> class_object \<Rightarrow> bool" where
  "matchesPeerClass p sc c \<longleftrightarrow>
     sm_get (clLabels c) StorageIDLabel = sm_get (clLabels sc) StorageIDLabel
     \<and> clProvisioner c = clProvisioner sc
     \<and> (sm_get (clLabels c) ReplicationIDLabel = pcReplicationID p
        \<or> sm_get (clLabels c) GroupReplicationIDLabel = pcGroupReplicationID p)"

definition findReplicationClassUsingPeerClass :: "vrgs \<Rightarrow> peer_class \<Rightarrow> class_object \<Rightarrow> class_object option" where
  "findReplicationClassUsingPeerClass s p sc =
     find (matchesPeerClass p sc) (if pcGrouping p then iGrpReplClassList s else iReplClassList s)"

definition findVolSnapClass :: "class_object \<Rightarrow> class_object option vrgm" where
  "findVolSnapClass sc =
     bindM GetVolumeSnapshotClasses
       (\<lambda>cs. ret (find (\<lambda>c. sm_get (clLabels c) StorageIDLabel = sm_get (clLabels sc) StorageIDLabel
                            \<and> clProvisioner c = clProvisioner sc) cs))"

definition validateSyncPVCs :: "claim list \<Rightarrow> unit vrgm" where
  "validateSyncPVCs pvcs =
     bindM (getsM (\<lambda>s. vSync (vrgSpecOf s)))
       (\<lambda>sync. case sync of
          None \<Rightarrow> failM nilDereference
        | Some sy \<Rightarrow>
            if ssPeerClasses sy = [] then ret ()
            else forM pvcs (\<lambda>pvc. bindM (getStorageClass pvc)
                   (\<lambda>sc. bindM (findPeerClassMatchingSC sc (ssPeerClasses sy) pvc) (\<lambda>_. ret ()))))"

definition updateSyncPVCs :: "claim list \<Rightarrow> unit vrgm" where
  "updateSyncPVCs pvcs = seqM (validateSyncPVCs pvcs) (modifyM (\<lambda>s. s\<lparr>iVolRepPVCs := pvcs\<rparr>))"

section \<open>Separating\<close>

definition addVolRepPVC :: "claim \<Rightarrow> unit vrgm" where
  "addVolRepPVC pvc = modifyM (\<lambda>s. s\<lparr>iVolRepPVCs := iVolRepPVCs s @ [pvc]\<rparr>)"

definition addVolSyncPVC :: "claim \<Rightarrow> unit vrgm" where
  "addVolSyncPVC pvc = modifyM (\<lambda>s. s\<lparr>iVolSyncPVCs := iVolSyncPVCs s @ [pvc]\<rparr>)"

definition separatePVCsUsingVRGStatus :: "claim list \<Rightarrow> unit vrgm" where
  "separatePVCsUsingVRGStatus pvcs =
     bindM (getsM protectedPVCs)
       (\<lambda>ps. forM pvcs (\<lambda>pvc. forM (filter (isPVC (claimNamespace pvc) (claimName pvc)) ps)
          (\<lambda>p. if pvcProtectedByVolSync p then addVolSyncPVC pvc else addVolRepPVC pvc)))"

definition IsPVCMarkedForVolSync :: "strmap \<Rightarrow> bool" where
  "IsPVCMarkedForVolSync annotations \<longleftrightarrow>
     sm_get annotations ''drplacementcontrol.ramendr.openshift.io/use-volsync-for-pvc-protection'' = ''true''"

definition separatePVCsUsingOnlySC :: "class_object \<Rightarrow> claim \<Rightarrow> unit vrgm" where
  "separatePVCsUsingOnlySC sc pvc =
     bindM (getsM (\<lambda>s. \<not> IsPVCMarkedForVolSync (vAnnotations (iVrg s))
                       \<and> list_ex (\<lambda>c. clProvisioner sc = clProvisioner c) (iReplClassList s)))
       (\<lambda>volRep. if volRep then addVolRepPVC pvc else addVolSyncPVC pvc)"

definition labelError :: "claim \<Rightarrow> gerr \<Rightarrow> 'a vrgm" where
  "labelError pvc e =
     failM (wrapE (''failed to label PVC '' @ claimNamespace pvc @ ''/'' @ claimName pvc @ '' for consistency group ('') e '')'')"

definition separatePVCUsingPeerClassAndSC :: "peer_class list \<Rightarrow> class_object \<Rightarrow> claim \<Rightarrow> unit vrgm" where
  "separatePVCUsingPeerClassAndSC peerClasses sc pvc =
     bindM (findPeerClassMatchingSC sc peerClasses pvc)
       (\<lambda>p. bindM (getsM (\<lambda>s. (iVrg s, findReplicationClassUsingPeerClass s p sc)))
          (\<lambda>(v, replicationClass).
             if \<not> IsPVCMarkedForVolSync (vAnnotations v) \<and> pcReplicationID p \<noteq> []
             then (case replicationClass of
                     None \<Rightarrow> failM (newE (''failed to find replicationClass matching peerClass for PVC ''
                                          @ claimNamespace pvc @ ''/'' @ claimName pvc))
                   | Some _ \<Rightarrow>
                       bindM (if pcGrouping p then catchM (addVolRepConsistencyGroupLabel pvc) (labelError pvc) else ret pvc)
                         addVolRepPVC)
             else if vsDisabled (vVolSync (vSpec v))
             then failM (newE ''failed to find matching peerClass for PVC and VolSync is disabled'')
             else bindM (findVolSnapClass sc)
               (\<lambda>snapClass. case snapClass of
                  None \<Rightarrow> failM (newE (''failed to find snapshotClass for PVC '' @ claimNamespace pvc @ ''/'' @ claimName pvc))
                | Some _ \<Rightarrow>
                    bindM (if pcGrouping p \<and> \<not> vRunFinalSync (vSpec v)
                           then catchM (addConsistencyGroupLabel pvc) (labelError pvc) else ret pvc)
                      addVolSyncPVC)))"

definition separateAsyncPVCs :: "claim list \<Rightarrow> unit vrgm" where
  "separateAsyncPVCs pvcs =
     bindM (getsM (\<lambda>s. vAsync (vrgSpecOf s)))
       (\<lambda>async. case async of
          None \<Rightarrow> failM nilDereference
        | Some a \<Rightarrow>
            seqM (forM pvcs (\<lambda>pvc. bindM (getStorageClass pvc)
                    (\<lambda>sc. if asPeerClasses a = [] then separatePVCsUsingOnlySC sc pvc
                          else separatePVCUsingPeerClassAndSC (asPeerClasses a) sc pvc)))
              (bindM (getsM (\<lambda>s. length (iVolRepPVCs s) + length (iVolSyncPVCs s)))
                 (\<lambda>n. if length pvcs \<noteq> n then failM (newE ''no PVCs are protected'') else ret ())))"

section \<open>Offloaded PVCs\<close>

definition isOffloadedByPeerClass :: "string \<Rightarrow> string \<Rightarrow> peer_class \<Rightarrow> bool" where
  "isOffloadedByPeerClass className sID p \<longleftrightarrow> className = pcStorageClassName p \<and> sID \<in> set (pcStorageID p) \<and> pcOffloaded p"

definition isOffloadedByPeerClasses :: "peer_class list \<Rightarrow> class_object \<Rightarrow> gerr + bool" where
  "isOffloadedByPeerClasses peerClasses sc =
     (case map_of (clLabels sc) StorageIDLabel of
        None \<Rightarrow> Inl (newE (''missing '' @ StorageIDLabel @ '' label in StorageClass ('' @ clName sc @ '')''))
      | Some sID \<Rightarrow> Inr (list_ex (isOffloadedByPeerClass (clName sc) sID) peerClasses))"

definition isGloballyOffloadedByPeerClasses :: "peer_class list \<Rightarrow> string \<Rightarrow> bool \<times> string" where
  "isGloballyOffloadedByPeerClasses peerClasses className =
     (case find (\<lambda>p. className = pcStorageClassName p \<and> pcGlobal p) peerClasses of
        None \<Rightarrow> (False, [])
      | Some p \<Rightarrow> (True, pcGroupReplicationID p))"

definition hasGlobalPeerClass :: "peer_class list \<Rightarrow> bool" where
  "hasGlobalPeerClass peerClasses = list_ex pcGlobal peerClasses"

text \<open>Whether the PVCs before were offloaded, \<open>None\<close> at the first.\<close>

definition checkOffloaded :: "peer_class list \<Rightarrow> bool option \<Rightarrow> claim \<Rightarrow> bool option vrgm" where
  "checkOffloaded peerClasses offloaded pvc =
     bindM (getStorageClass pvc)
       (\<lambda>sc. bindM (liftE (isOffloadedByPeerClasses peerClasses sc))
          (\<lambda>byPeer.
             let bySC = sm_has (clLabels sc) StorageOffloadedLabel
             in if byPeer \<noteq> bySC then failM (newE ''mismatched peerClass offload support with current StorageClass offload support'')
                else case offloaded of
                  None \<Rightarrow> ret (Some bySC)
                | Some b \<Rightarrow>
                    if b = bySC then ret offloaded
                    else failM (newE ''invalid list of PVCs to protect, found a mix of offloaded and non-offloaded PVCs'')))"

definition processOffloadedPVCs :: "peer_class list \<Rightarrow> claim list \<Rightarrow> (bool \<times> claim list) vrgm" where
  "processOffloadedPVCs peerClasses pvcs =
     (if peerClasses = [] then ret (False, pvcs)
      else bindM (foldlM (checkOffloaded peerClasses) None pvcs)
        (\<lambda>offloaded.
           if offloaded \<noteq> Some True then ret (False, pvcs)
           else bindM (foldlM (\<lambda>done pvc. bindM (catchM (addVolRepConsistencyGroupLabel pvc)
                                             (\<lambda>e. failM (wrapE (''failed to label offloaded PVC '' @ claimNamespace pvc @ ''/''
                                                            @ claimName pvc @ '' for consistency group ('') e '')'')))
                                   (\<lambda>pvc'. ret (done @ [pvc']))) [] pvcs)
             (\<lambda>pvcs'. seqM (modifyM (\<lambda>s. s\<lparr>iVolRepPVCs := pvcs'\<rparr>)) (ret (True, pvcs')))))"

text \<open>The label is written to the VRG when it is not there.\<close>

definition addGlobalVGRLabel :: "string \<Rightarrow> unit vrgm" where
  "addGlobalVGRLabel grID =
     (let label = GlobalVGRName grID; key = ''ramendr.openshift.io/global-vgr''
      in bindM (getsM (vLabels \<circ> iVrg))
           (\<lambda>labels.
              if map_of labels key = Some label then ret ()
              else seqM (modifyM (\<lambda>s. s\<lparr>iVrg := (iVrg s)\<lparr>vLabels := sm_put key label labels\<rparr>\<rparr>))
                     (catchM updateInstance (\<lambda>e. failM (wrapE (''failed to add label '' @ key @ '' to VRG: '') e [])))))"

text \<open>The group of the first PVC, which the others must share; the name of the storage class is dereferenced.\<close>

fun globalGroup :: "peer_class list \<Rightarrow> string option \<Rightarrow> claim list \<Rightarrow> gerr + string" where
  "globalGroup peerClasses grID [] = Inr (case grID of None \<Rightarrow> [] | Some g \<Rightarrow> g)"
| "globalGroup peerClasses grID (pvc # pvcs) =
     (case claimStorageClassName pvc of
        None \<Rightarrow> Inl nilDereference
      | Some className \<Rightarrow>
          (case isGloballyOffloadedByPeerClasses peerClasses className of
             (False, _) \<Rightarrow> Inl (newE (''peerClass for StorageClass ('' @ className @ '') is not globally offloaded for PVC ''
                                     @ claimNamespace pvc @ ''/'' @ claimName pvc))
           | (True, g) \<Rightarrow>
               (case grID of
                  None \<Rightarrow> globalGroup peerClasses (Some g) pvcs
                | Some g0 \<Rightarrow>
                    if g \<noteq> g0 then Inl (newE ''not all PVCs share the same GroupReplicationID, cannot use global VGR'')
                    else globalGroup peerClasses grID pvcs)))"

definition processGloballyOffloadedPVCs :: "peer_class list \<Rightarrow> claim list \<Rightarrow> unit vrgm" where
  "processGloballyOffloadedPVCs peerClasses pvcs =
     (if \<not> hasGlobalPeerClass peerClasses then ret ()
      else bindM (liftE (globalGroup peerClasses None pvcs)) addGlobalVGRLabel)"

section \<open>The list of PVCs\<close>

definition updateAsyncPVCs :: "vrg_async_spec \<Rightarrow> claim list \<Rightarrow> unit vrgm" where
  "updateAsyncPVCs a pvcs =
     seqM updateReplicationClassList
       (bindM (getsM (vDeleted \<circ> iVrg))
          (\<lambda>deleted.
             if deleted then separatePVCsUsingVRGStatus pvcs
             else bindM (processOffloadedPVCs (asPeerClasses a) pvcs)
               (\<lambda>(offloaded, pvcs').
                  if offloaded then processGloballyOffloadedPVCs (asPeerClasses a) pvcs' else separateAsyncPVCs pvcs')))"

definition updatePVCList :: "unit vrgm" where
  "updatePVCList =
     bindM listPVCsByVrgPVCSelector
       (\<lambda>pvcs. bindM (getsM (\<lambda>s. vAsync (vrgSpecOf s)))
          (\<lambda>async. case async of None \<Rightarrow> updateSyncPVCs pvcs | Some a \<Rightarrow> updateAsyncPVCs a pvcs))"

end
