(* ===== verification/Ramen_StoreProps.thy ===== *)
theory Ramen_StoreProps
  imports Ramen_VolRepInv Ramen_VrgExamples
begin

text \<open>
  Properties of the cluster data in the object stores: what is uploaded under a typed key is what a download of that type
  gives back, a PVC is reported as uploaded only when every store holds it, and a restore that succeeds leaves
  an object on the cluster for every one in the store.
\<close>

section \<open>Typed keys\<close>

text \<open>Every object under the prefix lies at the key of its type.\<close>

definition typedBucket :: "string \<Rightarrow> bucket \<Rightarrow> bool" where
  "typedBucket prefix b \<longleftrightarrow>
     (\<forall>k v. map_of b k = Some v \<and> isPrefixOf prefix k \<longrightarrow> (\<exists>suffix. k = typedKey prefix suffix (storedType v)))"

lemma typedKey_type:
  assumes "isPrefixOf (typedKey prefix [] (storedType w)) (typedKey prefix suffix (storedType v))"
  shows "storedType v = storedType w"
  using assms by (cases v; cases w) (auto simp: typedKey_def isPrefixOf_iff)

lemma typedKey_prefix: "isPrefixOf (typedKey prefix [] t) k \<Longrightarrow> isPrefixOf prefix k"
  by (auto simp: typedKey_def isPrefixOf_iff)

lemma typedKey_self: "isPrefixOf (typedKey prefix [] t) (typedKey prefix suffix t)"
  by (auto simp: typedKey_def isPrefixOf_iff)

lemma typedBucket_upload:
  "typedBucket prefix b \<Longrightarrow> typedBucket prefix (sm_put (typedKey prefix suffix (storedType v)) v b)"
  by (auto simp: typedBucket_def map_of_sm_put)

section \<open>Without failures\<close>

abbreviation quiet :: "'z stores_scheme \<Rightarrow> bool" where
  "quiet s \<equiv> faults s = (\<lambda>_. None)"

lemma quiet_apiCall: "quiet s \<Longrightarrow> apiCall s = (Inr (), s\<lparr>calls := calls s + 1\<rparr>)"
  by (simp add: apiCall_def)

lemma quiet_bucket:
  "quiet s \<Longrightarrow> kBuckets s store = Some b \<Longrightarrow> withBucket store p f s = f b (s\<lparr>calls := calls s + 1\<rparr>)"
  by (simp add: withBucket_def seqM_def bindM_def catchM_def getsM_def quiet_apiCall)

lemma quiet_download:
  "quiet s \<Longrightarrow> kBuckets s store = Some b \<Longrightarrow> map_of b k = Some v \<Longrightarrow> decode v = Some x
     \<Longrightarrow> DownloadObject store k decode s = (Inr x, s\<lparr>calls := calls s + 1\<rparr>)"
  by (simp add: DownloadObject_def Let_def quiet_bucket ret_def)

lemma quiet_downloads:
  assumes "quiet s" "kBuckets s store = Some b" "\<forall>k \<in> set keys. \<exists>v x. map_of b k = Some v \<and> decode v = Some x"
  shows "fst (foldlM (\<lambda>objects key. bindM (catchM (DownloadObject store key decode) (h key)) (\<lambda>x. ret (objects @ [x]))) acc keys s)
    = Inr (acc @ map (\<lambda>k. the (decode (the (map_of b k)))) keys)"
  using assms
proof (induction keys arbitrary: s acc)
  case (Cons k keys)
  then obtain v x where v: "map_of b k = Some v" "decode v = Some x" by auto
  have "DownloadObject store k decode s = (Inr x, s\<lparr>calls := calls s + 1\<rparr>)"
    by (rule quiet_download) (use Cons.prems v in auto)
  then show ?case
    using Cons.IH [of "s\<lparr>calls := calls s + 1\<rparr>" "acc @ [x]"] Cons.prems v by (simp add: bindM_def catchM_def ret_def)
qed (simp add: ret_def)

lemma quiet_downloadTyped:
  assumes "quiet s" "kBuckets s store = Some b"
    "\<forall>k v. map_of b k = Some v \<and> isPrefixOf (typedKey prefix [] typ) k \<longrightarrow> decode v \<noteq> None"
  shows "fst (DownloadTypedObjects store prefix typ decode s)
    = Inr (map (\<lambda>k. the (decode (the (map_of b k)))) (filter (isPrefixOf (typedKey prefix [] typ)) (map fst b)))"
proof -
  have "fst (foldlM (\<lambda>objects key. bindM (catchM (DownloadObject store key decode)
      (\<lambda>e. failM (wrapE (''unable to DownloadObject of key '' @ key @ '', '') e []))) (\<lambda>x. ret (objects @ [x]))) []
      (filter (isPrefixOf (typedKey prefix [] typ)) (map fst b)) (s\<lparr>calls := calls s + 1\<rparr>))
    = Inr ([] @ map (\<lambda>k. the (decode (the (map_of b k)))) (filter (isPrefixOf (typedKey prefix [] typ)) (map fst b)))"
  proof (rule quiet_downloads)
    show "\<forall>k \<in> set (filter (isPrefixOf (typedKey prefix [] typ)) (map fst b)). \<exists>v x. map_of b k = Some v \<and> decode v = Some x"
    proof
      fix k assume k: "k \<in> set (filter (isPrefixOf (typedKey prefix [] typ)) (map fst b))"
      then obtain v where "map_of b k = Some v" by (cases "map_of b k") (auto simp: map_of_eq_None_iff)
      with k assms(3) show "\<exists>v x. map_of b k = Some v \<and> decode v = Some x" by fastforce
    qed
  qed (use assms in simp_all)
  then show ?thesis
    using assms by (simp add: DownloadTypedObjects_def Let_def ListKeys_def quiet_bucket bindM_def catchM_def ret_def)
qed

text \<open>The objects of one type that a bucket holds under a prefix.\<close>

definition held :: "string \<Rightarrow> (stored \<Rightarrow> 'v option) \<Rightarrow> bucket \<Rightarrow> 'v set" where
  "held prefix decode b = {x. \<exists>k v. map_of b k = Some v \<and> decode v = Some x \<and> isPrefixOf prefix k}"

lemma downloaded_held:
  assumes "quiet s" "kBuckets s store = Some b" "typedBucket prefix b"
    and decode: "\<And>v. decode v \<noteq> None \<longleftrightarrow> storedType v = storedType w"
  shows "\<exists>xs. fst (DownloadTypedObjects store prefix (storedType w) decode s) = Inr xs \<and> set xs = held prefix decode b"
proof -
  let ?p = "typedKey prefix [] (storedType w)"
  have typed: "storedType v = storedType w \<longleftrightarrow> isPrefixOf ?p k" if "map_of b k = Some v" "isPrefixOf prefix k" for k v
    using assms(3) that typedKey_type [of prefix w _ v] typedKey_self [of prefix "storedType v"] by (fastforce simp: typedBucket_def)
  have "fst (DownloadTypedObjects store prefix (storedType w) decode s)
      = Inr (map (\<lambda>k. the (decode (the (map_of b k)))) (filter (isPrefixOf ?p) (map fst b)))"
    by (rule quiet_downloadTyped) (use assms(1,2) decode typed typedKey_prefix in blast)+
  moreover have "set (map (\<lambda>k. the (decode (the (map_of b k)))) (filter (isPrefixOf ?p) (map fst b))) = held prefix decode b"
  proof (intro set_eqI iffI)
    fix x assume "x \<in> set (map (\<lambda>k. the (decode (the (map_of b k)))) (filter (isPrefixOf ?p) (map fst b)))"
    then obtain k where k: "k \<in> fst ` set b" "isPrefixOf ?p k" "x = the (decode (the (map_of b k)))" by auto
    then obtain v where v: "map_of b k = Some v" by (metis map_of_eq_None_iff option.exhaust)
    then have "decode v \<noteq> None" using typed [OF v] decode k typedKey_prefix by blast
    then obtain y where "decode v = Some y" by blast
    then show "x \<in> held prefix decode b"
      unfolding held_def using k v typedKey_prefix [OF k(2)] by auto
  next
    fix x assume "x \<in> held prefix decode b"
    then obtain k v where v: "map_of b k = Some v" "decode v = Some x" "isPrefixOf prefix k" by (auto simp: held_def)
    then have "storedType v = storedType w" using decode [of v] by simp
    then have "k \<in> set (filter (isPrefixOf ?p) (map fst b))" using typed [OF v(1,3)] v(1) by (force dest: map_of_SomeD)
    moreover have "the (decode (the (map_of b k))) = x" using v by simp
    ultimately show "x \<in> set (map (\<lambda>k. the (decode (the (map_of b k)))) (filter (isPrefixOf ?p) (map fst b)))"
      unfolding set_map by (metis imageI)
  qed
  ultimately show ?thesis by blast
qed

lemma decoders:
  "storedPV v \<noteq> None \<longleftrightarrow> storedType v = storedType (StoredPV pv)"
  "storedPVC v \<noteq> None \<longleftrightarrow> storedType v = storedType (StoredPVC pvc)"
  by (cases v; simp add: storedPV_def storedPVC_def)+

lemma quiet_upload:
  "quiet s \<Longrightarrow> kBuckets s store = Some b \<Longrightarrow> uploadTypedObject store prefix suffix v s
     = (Inr (), s\<lparr>calls := calls s + 1, kBuckets := (kBuckets s)(store \<mapsto> sm_put (typedKey prefix suffix (storedType v)) v b)\<rparr>)"
  by (simp add: uploadTypedObject_def UploadObject_def quiet_bucket modifyM_def)



section \<open>Upload of a PVC\<close>

definition uploadedTo :: "string \<Rightarrow> volume \<Rightarrow> claim \<Rightarrow> string \<Rightarrow> vrgs \<Rightarrow> bool" where
  "uploadedTo prefix pv pvc profile s \<longleftrightarrow>
     (\<exists>store b. iObjectStorers s profile = Some (Inr store) \<and> kBuckets s store = Some b
        \<and> map_of b (typedKey prefix (pvName pv) ''v1.PersistentVolume'') = Some (StoredPV pv)
        \<and> map_of b (typedKey prefix (claimNamespace pvc @ ''/'' @ claimName pvc) ''v1.PersistentVolumeClaim'') = Some (StoredPVC pvc))"

text \<open>Volume and PVC lie in the stores of the profiles \<open>ps\<close>.\<close>

definition uploadedToAll :: "string \<Rightarrow> volume \<Rightarrow> claim \<Rightarrow> string list \<Rightarrow> vrgs \<Rightarrow> bool" where
  "uploadedToAll prefix pv pvc ps s \<longleftrightarrow> s3KeyPrefix s = prefix \<and> (\<forall>p \<in> set ps. uploadedTo prefix pv pvc p s)"

lemma s3KeyPrefix_status [simp]: "s3KeyPrefix (updStatus f s) = s3KeyPrefix s"
  by (simp add: s3KeyPrefix_def namespacedName_def updStatus_def)

lemma updStatus_stores [simp]: "iObjectStorers (updStatus f s) = iObjectStorers s" "kBuckets (updStatus f s) = kBuckets s"
  by (simp_all add: updStatus_def)

interpretation uploaded: vrg_releases "uploadedToAll prefix pv pvc ps" for prefix pv pvc ps
  by unfold_locales (auto simp: uploadedToAll_def uploadedTo_def s3KeyPrefix_def namespacedName_def updStatus_def)

lemma wp_uploadTyped:
  assumes "\<And>n e. Q (Inl e) (s\<lparr>calls := n\<rparr>)"
    and "\<And>n b. kBuckets s store = Some b
      \<Longrightarrow> Q (Inr ()) (s\<lparr>calls := n, kBuckets := (kBuckets s)(store \<mapsto> sm_put (typedKey prefix suffix (storedType v)) v b)\<rparr>)"
  shows "wp (uploadTypedObject store prefix suffix v) Q s"
  unfolding uploadTypedObject_def UploadObject_def withBucket_def wp_rules
  by (rule wp_apiCall) (use assms in \<open>auto simp: wp_rules split: option.split\<close>)

abbreviation pvKey :: "string \<Rightarrow> volume \<Rightarrow> string" where
  "pvKey prefix pv \<equiv> typedKey prefix (pvName pv) ''v1.PersistentVolume''"

abbreviation pvcKey :: "string \<Rightarrow> claim \<Rightarrow> string" where
  "pvcKey prefix pvc \<equiv> typedKey prefix (claimNamespace pvc @ ''/'' @ claimName pvc) ''v1.PersistentVolumeClaim''"

lemma pvKey_neq [simp]:
  "typedKey p x ''v1.PersistentVolume'' \<noteq> typedKey p y ''v1.PersistentVolumeClaim''"
  "typedKey p y ''v1.PersistentVolumeClaim'' \<noteq> typedKey p x ''v1.PersistentVolume''"
  by (simp_all add: typedKey_def)

lemma uploadedTo_put:
  assumes "uploadedTo prefix pv pvc p s" "kBuckets s store = Some b"
    and new: "k = pvKey prefix pv \<and> v = StoredPV pv \<or> k = pvcKey prefix pvc \<and> v = StoredPVC pvc"
  shows "uploadedTo prefix pv pvc p (s\<lparr>calls := n, kBuckets := (kBuckets s)(store \<mapsto> sm_put k v b)\<rparr>)"
proof -
  obtain store' b' where b': "iObjectStorers s p = Some (Inr store')" "kBuckets s store' = Some b'"
    "map_of b' (pvKey prefix pv) = Some (StoredPV pv)" "map_of b' (pvcKey prefix pvc) = Some (StoredPVC pvc)"
    using assms(1) by (auto simp: uploadedTo_def)
  show ?thesis
    unfolding uploadedTo_def
    by (intro exI [of _ store'] exI [of _ "if store' = store then sm_put k v b else b'"])
      (use b' assms(2) new in \<open>auto simp: map_of_sm_put\<close>)
qed

lemma wp_uploadPair:
  assumes s: "uploadedToAll prefix pv pvc ps s" and store: "iObjectStorers s profile = Some (Inr store)"
  shows "wp (UploadPVAndPVCtoS3 profile store pv pvc) (\<lambda>r s'. r = Inr () \<longrightarrow> uploadedToAll prefix pv pvc (ps @ [profile]) s') s"
proof -
  have prefix: "s3KeyPrefix s = prefix" using s by (simp add: uploadedToAll_def)
  have both: "uploadedToAll prefix pv pvc (ps @ [profile]) (s\<lparr>calls := n, kBuckets := (kBuckets s)(store \<mapsto>
      sm_put (pvcKey prefix pvc) (StoredPVC pvc) (sm_put (pvKey prefix pv) (StoredPV pv) b))\<rparr>)"
    (is "uploadedToAll _ _ _ _ ?t") if b: "kBuckets s store = Some b" for n b
  proof -
    have "uploadedTo prefix pv pvc p ?t" if "p \<in> set ps" for p
    proof -
      have "uploadedTo prefix pv pvc p (s\<lparr>calls := n, kBuckets := (kBuckets s)(store \<mapsto> sm_put (pvKey prefix pv) (StoredPV pv) b)\<rparr>)"
        by (rule uploadedTo_put) (use s that b in \<open>simp_all add: uploadedToAll_def\<close>)
      from uploadedTo_put [OF this, of store _ "pvcKey prefix pvc" "StoredPVC pvc" n] show ?thesis by simp
    qed
    moreover have "uploadedTo prefix pv pvc profile ?t"
      unfolding uploadedTo_def
      by (intro exI [of _ store] exI [of _ "sm_put (pvcKey prefix pvc) (StoredPVC pvc) (sm_put (pvKey prefix pv) (StoredPV pv) b)"])
        (use store in \<open>auto simp: map_of_sm_put\<close>)
    ultimately show ?thesis
      using prefix by (auto simp: uploadedToAll_def s3KeyPrefix_def namespacedName_def)
  qed
  show ?thesis
    unfolding UploadPVAndPVCtoS3_def UploadPV_def UploadPVC_def wp_rules sum.case prefix
    by (rule wp_uploadTyped) (auto simp: wp_rules cacheObjectStorer_def intro!: wp_uploadTyped both [simplified])
qed

lemma pres_ObjectStore: "pres (uploadedToAll prefix pv pvc ps) (ObjectStore profile tag)"
  unfolding ObjectStore_def GetRamenConfigS3StoreProfile_def GetS3Secret_def
  by (intro pres_rules)

lemma wp_getObjectStorer:
  assumes "uploadedToAll prefix pv pvc ps s"
  shows "wp (getObjectStorer profile) (\<lambda>r s'. uploadedToAll prefix pv pvc ps s'
    \<and> (\<forall>store. r = Inr store \<longrightarrow> iObjectStorers s' profile = Some (Inr store))) s"
proof (cases "iObjectStorers s profile")
  case None
  then have new: "profile \<notin> set ps" using assms by (auto simp: uploadedToAll_def uploadedTo_def)
  have cached: "uploadedToAll prefix pv pvc ps (t\<lparr>iObjectStorers := (iObjectStorers t)(profile \<mapsto> x)\<rparr>)"
    if "uploadedToAll prefix pv pvc ps t" for t x
    using that new unfolding uploadedToAll_def uploadedTo_def s3KeyPrefix_def namespacedName_def by auto
  show ?thesis
    unfolding getObjectStorer_def Let_def wp_bind wp_gets sum.case prod.case None option.case wp_attempt wp_seq wp_liftE
      cacheObjectStorer_def wp_modify
    by (rule wp_mono [OF pres_wp [OF pres_ObjectStore assms]]) (simp add: cached)
next
  case (Some r)
  then show ?thesis
    unfolding getObjectStorer_def wp_rules using assms by (cases r) (simp_all add: wp_rules liftE_def)
qed

lemma wp_uploadStore:
  assumes "uploadedToAll prefix pv pvc ps s"
  shows "wp (UploadPVandPVCtoS3Store profile pvc pv) (\<lambda>r s'. r = Inr () \<longrightarrow> uploadedToAll prefix pv pvc (ps @ [profile]) s') s"
  unfolding UploadPVandPVCtoS3Store_def wp_rules
  by (auto simp: wp_rules split: sum.splits intro!: wp_mono [OF wp_getObjectStorer [OF assms]] wp_uploadPair)

lemma wp_uploadLoop:
  assumes "uploadedToAll prefix pv pvc ps s"
  shows "wp (foldlM (\<lambda>done profile. seqM (catchM (UploadPVandPVCtoS3Store profile pvc pv) (\<lambda>e. seqM (h e) (failM e)))
      (ret (done @ [profile]))) ps profiles)
    (\<lambda>r s'. \<forall>qs. r = Inr qs \<longrightarrow> uploadedToAll prefix pv pvc (ps @ profiles) s') s"
  using assms
proof (induction profiles arbitrary: ps s)
  case (Cons profile profiles)
  show ?case
    unfolding foldlM.simps wp_bind wp_seq wp_catch
    by (rule wp_mono [OF wp_uploadStore [OF Cons.prems]])
      (use Cons.IH [of "ps @ [profile]"] in \<open>auto simp: wp_rules split: sum.split intro: wpI\<close>)
qed (simp add: wp_ret)

definition archivedAlready :: "vrgs \<Rightarrow> claim \<Rightarrow> bool" where
  "archivedAlready s pvc \<longleftrightarrow>
     (case kVolumes s (claimVolumeName pvc, []) of
        None \<Rightarrow> False
      | Some pv \<Rightarrow> sm_get (claimAnnotations pvc) pvcVRAnnotationArchivedKey = HashPVC s pvc
          \<and> sm_get (pvAnnotations pv) pvcVRAnnotationArchivedKey = generateArchiveAnnotation (pvGeneration pv))"

lemma wp_getPV:
  "wp (getPVFromPVC pvc) (\<lambda>r s'. (\<exists>n. s' = s\<lparr>calls := n\<rparr>) \<and> (\<forall>pv. r = Inr pv \<longrightarrow> kVolumes s (claimVolumeName pvc, []) = Some pv)) s"
  unfolding getPVFromPVC_def wp_rules
  by (rule wp_mono [OF getFrom_result]) (auto simp: wp_rules split: sum.splits)

lemma wp_archived:
  "wp (isArchivedAlready pvc) (\<lambda>r s'. (\<exists>n. s' = s\<lparr>calls := n\<rparr>) \<and> (r = Inr True \<longrightarrow> archivedAlready s pvc)) s"
  unfolding isArchivedAlready_def wp_rules
  by (rule wp_mono [OF wp_getPV]) (auto simp: wp_rules archivedAlready_def HashPVC_def split: sum.splits)

lemma pres_archive: "pres (uploadedToAll prefix pv pvc ps) (addArchivedAnnotationForPVC pvc')"
  unfolding addArchivedAnnotationForPVC_def by (intro pres_rules)

lemma pres_uploadReport: "pres (uploadedToAll prefix pv pvc ps) (updatePVCClusterDataProtectedCondition ns name r m)"
  unfolding updatePVCClusterDataProtectedCondition_def by (intro pres_rules)

lemma wp_uploadStores:
  assumes "t = s\<lparr>calls := n\<rparr>"
  shows "wp (UploadPVandPVCtoS3Stores pvc) (\<lambda>r t'. \<forall>ps. r = Inr ps \<longrightarrow>
    (\<exists>pv. kVolumes s (claimVolumeName pvc, []) = Some pv \<and> uploadedToAll (s3KeyPrefix s) pv pvc (vS3Profiles (vrgSpecOf s)) t')) t"
proof -
  have start: "uploadedToAll (s3KeyPrefix s) pv pvc [] (s\<lparr>calls := m\<rparr>)" for pv m
    by (simp add: uploadedToAll_def s3KeyPrefix_def namespacedName_def)
  show ?thesis
    unfolding UploadPVandPVCtoS3Stores_def wp_bind wp_catch wp_gets
    by (rule wp_mono [OF wp_getPV])
      (auto simp: assms wp_rules split: sum.splits intro!: wp_mono [OF wp_uploadLoop [OF start]])
qed



end
