(* ===== verification/Ramen_RestoreProps.thy ===== *)
theory Ramen_RestoreProps
  imports Ramen_StoreProps
begin

text \<open>
  A restore of cluster data that counts objects as restored leaves all of them on the cluster.
\<close>

section \<open>Counting loops\<close>

text \<open>A loop whose count falls behind for every element it could not handle.\<close>

lemma returns_count:
  fixes n :: nat
  assumes "\<And>n x s. returns (f n x) (\<lambda>n' t. (n' = n \<or> n' = Suc n \<and> Pr x t) \<and> (\<forall>y. Pr y s \<longrightarrow> Pr y t)) s"
  shows "returns (foldlM f n xs) (\<lambda>n' t. n' \<le> n + length xs \<and> (n' = n + length xs \<longrightarrow> (\<forall>x \<in> set xs. Pr x t))
    \<and> (\<forall>y. Pr y s \<longrightarrow> Pr y t)) s"
proof (induction xs arbitrary: n s)
  case (Cons x xs)
  show ?case
    unfolding foldlM.simps
    by (rule returns_bind [OF assms], rule returns_mono [OF Cons.IH]) auto
qed (simp add: returns_ret)

lemma returns_restoreObjects:
  assumes "\<And>n x s. returns (restoreClusterDataObject cleanup create existing n x)
    (\<lambda>n' t. (n' = n \<or> n' = Suc n \<and> Pr x t) \<and> (\<forall>y. Pr y s \<longrightarrow> Pr y t)) s"
  shows "returns (restoreClusterDataObjects cleanup create existing xs) (\<lambda>n t. n = length xs \<and> (\<forall>x \<in> set xs. Pr x t)) s"
  unfolding restoreClusterDataObjects_def
  by (rule returns_bind [OF returns_count [OF assms]]) (auto intro!: returns_fail returns_ret)

section \<open>Volumes\<close>

text \<open>Neither the volumes nor the stores lose anything.\<close>

definition keepsVolumes :: "(string \<times> string) set \<Rightarrow> vrgs \<Rightarrow> bool" where
  "keepsVolumes K s \<longleftrightarrow> K \<subseteq> dom (kVolumes s)"

interpretation volumes: vrg_reads "keepsVolumes K" for K
  by unfold_locales (simp_all add: keepsVolumes_def updStatus_def)

lemma pres_volumes [pres_rules]:
  "pres (keepsVolumes K) (createVolume pv)" "pres (keepsVolumes K) (updateVolume pv)"
  unfolding createVolume_def updateVolume_def createIn_def updateIn_def
  by (intro pres_rules volumes.pres_modifyM; auto simp: keepsVolumes_def)+

lemma pres_cleanupPV [pres_rules]: "pres (keepsVolumes K) (cleanupPVForRestore pv)"
  unfolding cleanupPVForRestore_def by (intro pres_rules)

lemma pres_validateExistingPV [pres_rules]: "pres (keepsVolumes K) (validateExistingPV pv)"
  unfolding validateExistingPV_def validateBoundPV_def updateExistingPVForSync_def by (intro pres_rules)

lemma pvName_cleanup [simp]:
  "pvName (unboundForRestore pv) = pvName pv" "pvName (updatePVClusterIDForRestore sp sc pv) = pvName pv"
  "processPVSecrets pv sc = Inr pv' \<Longrightarrow> pvName pv' = pvName pv"
  by (auto simp: unboundForRestore_def updatePVClusterIDForRestore_def processPVSecrets_def Let_def split: option.splits if_splits)

lemma yields_cleanupPV: "yields (\<lambda>pv'. pvName pv' = pvName pv) (cleanupPVForRestore pv)"
  unfolding cleanupPVForRestore_def by (intro yields_step yields_liftE) (auto dest: pvName_cleanup(3))

lemma wp_createVolume: "wp (createVolume pv) (\<lambda>r t. r = Inr () \<longrightarrow> (pvName pv, []) \<in> dom (kVolumes t)) s"
  unfolding createVolume_def createIn_def wp_rules
  by (rule wpI) (auto simp: wp_rules domIff split: sum.split option.split)

lemma validated_volume: "returns (validateExistingPV pv) (\<lambda>_ t. (pvName pv, []) \<in> dom (kVolumes t)) s"
proof -
  have get: "returns (catchM (getFrom kVolumes n ns) (\<lambda>e. failM (h e))) (\<lambda>_. keepsVolumes {(n, ns)}) s" for n ns h
    by (rule returns_catch) (auto simp: returns_def keepsVolumes_def split: sum.splits intro!: wp_mono [OF getFrom_result])
  have "returns (validateExistingPV pv) (\<lambda>_. keepsVolumes {(pvName pv, [])}) s"
    unfolding validateExistingPV_def validateBoundPV_def updateExistingPVForSync_def
    by (rule returns_bind [OF get], rule returns_pres) (intro pres_rules)
  then show ?thesis by (rule returns_mono) (auto simp: keepsVolumes_def)
qed

lemma returns_existing:
  assumes "returns validate Q s" "\<And>t. Q () t \<Longrightarrow> wp update (\<lambda>r t'. r = Inr () \<longrightarrow> R t') t"
  shows "returns (handleExistingObject validate update) (\<lambda>ok t. ok \<longrightarrow> R t) s"
  using assms(1) unfolding handleExistingObject_def returns_def wp_rules succeeded_def
  by (auto elim!: wp_mono simp: wp_rules split: sum.splits intro!: wp_mono [OF assms(2)])

lemma returns_restoreObject:
  assumes "yields (\<lambda>x'. key x' = key x) (cleanup x)"
    and "\<And>x' t. wp (create x') (\<lambda>r t'. r = Inr () \<longrightarrow> Pr (key x') t') t"
    and "\<And>x' t. returns (existing x') (\<lambda>ok t'. ok \<longrightarrow> Pr (key x') t') t"
  shows "returns (restoreClusterDataObject cleanup create existing n x) (\<lambda>n' t. n' = n \<or> n' = Suc n \<and> Pr (key x) t) s"
proof -
  have created: "returns (attemptM (create x')) (\<lambda>r t. r = Inr () \<longrightarrow> Pr (key x') t) t" for x' t
    by (rule returns_attempt [OF assms(2)])
  show ?thesis
    unfolding restoreClusterDataObject_def
    by (rule returns_bind [OF returns_yields [OF assms(1)]], rule returns_bind [OF created])
      (auto intro!: returns_ret returns_bind [OF assms(3)] split: sum.split if_splits)
qed

lemma restored_volume_step:
  "returns (restoreClusterDataObject
     (\<lambda>pv. bindM (cleanupPVForRestore pv) (\<lambda>pv'. ret (pv'\<lparr>pvAnnotations := addRestoreAnnotation (pvAnnotations pv')\<rparr>)))
     createVolume (\<lambda>pv. handleExistingObject (validateExistingPV pv) (ret ())) n pv)
   (\<lambda>n' t. (n' = n \<or> n' = Suc n \<and> (pvName pv, []) \<in> dom (kVolumes t))
     \<and> (\<forall>y. (pvName y, []) \<in> dom (kVolumes s) \<longrightarrow> (pvName y, []) \<in> dom (kVolumes t))) s" (is "returns ?m _ _")
proof (rule returns_conj)
  show "returns ?m (\<lambda>n' t. n' = n \<or> n' = Suc n \<and> (pvName pv, []) \<in> dom (kVolumes t)) s"
    by (rule returns_restoreObject [where key = pvName and Pr = "\<lambda>k t. (k, []) \<in> dom (kVolumes t)"])
      (auto intro!: yields_bind [OF yields_cleanupPV] yields_ret wp_createVolume returns_existing [OF validated_volume] simp: wp_ret)
  have "returns ?m (\<lambda>_. keepsVolumes (dom (kVolumes s))) s"
    by (rule returns_pres) (auto simp: restoreClusterDataObject_def handleExistingObject_def keepsVolumes_def intro!: pres_rules)
  then show "returns ?m (\<lambda>_ t. \<forall>y. (pvName y, []) \<in> dom (kVolumes s) \<longrightarrow> (pvName y, []) \<in> dom (kVolumes t)) s"
    by (rule returns_mono) (auto simp: keepsVolumes_def)
qed

section \<open>Downloads\<close>

lemma returns_bucket:
  assumes "\<And>n b. kBuckets s store = Some b \<Longrightarrow> returns (f b) Q (s\<lparr>calls := n\<rparr>)"
  shows "returns (withBucket store p f) Q s"
  unfolding withBucket_def returns_def wp_rules
  by (rule wp_apiCall) (use assms in \<open>auto simp: wp_rules returns_def split: option.split\<close>)

text \<open>\<open>s\<close> with any number of calls.\<close>

definition sameBut :: "'z server_scheme \<Rightarrow> 'z server_scheme \<Rightarrow> bool" where
  "sameBut s t \<longleftrightarrow> (\<exists>n. t = s\<lparr>calls := n\<rparr>)"

lemma sameBut_calls [simp]: "sameBut s s" "sameBut s t \<Longrightarrow> sameBut s (t\<lparr>calls := n\<rparr>)"
proof -
  show "sameBut s s" unfolding sameBut_def by (rule exI [of _ "calls s"]) simp
  show "sameBut s t \<Longrightarrow> sameBut s (t\<lparr>calls := n\<rparr>)" by (auto simp: sameBut_def)
qed

lemma returns_download:
  assumes "sameBut s t"
  shows "returns (DownloadObject store k decode) (\<lambda>x t. sameBut s t \<and>
    (\<exists>b v. kBuckets s store = Some b \<and> map_of b k = Some v \<and> decode v = Some x)) t"
  unfolding DownloadObject_def Let_def
  by (rule returns_bucket) (use assms in \<open>auto simp: sameBut_def intro!: returns_fail returns_ret split: option.split\<close>)

lemma returns_downloadLoop:
  assumes "sameBut s t" "kBuckets s store = Some b"
  shows "returns (foldlM (\<lambda>objects key. bindM (catchM (DownloadObject store key decode) (\<lambda>e. failM (h key e)))
      (\<lambda>x. ret (objects @ [x]))) acc keys)
    (\<lambda>xs t. sameBut s t \<and> set acc \<subseteq> set xs
       \<and> (\<forall>k \<in> set keys. \<exists>v x. map_of b k = Some v \<and> decode v = Some x \<and> x \<in> set xs)) t"
  using assms(1)
proof (induction keys arbitrary: acc t)
  case (Cons k keys)
  have one: "returns (bindM (catchM (DownloadObject store k decode) (\<lambda>e. failM (h k e))) (\<lambda>x. ret (acc @ [x])))
      (\<lambda>acc' t. sameBut s t \<and> (\<exists>v x. map_of b k = Some v \<and> decode v = Some x \<and> acc' = acc @ [x])) t"
    by (rule returns_bind [OF returns_catch [OF returns_download [OF Cons.prems]]]) (use assms(2) in \<open>auto intro!: returns_ret\<close>)
  show ?case
    unfolding foldlM.simps by (rule returns_bind [OF one], rule returns_mono [OF Cons.IH]) auto
qed (simp add: returns_ret)

lemma returns_downloadTyped:
  "returns (DownloadTypedObjects store prefix typ decode) (\<lambda>xs t. sameBut s t \<and> (\<exists>b. kBuckets s store = Some b
     \<and> (\<forall>k v x. map_of b k = Some v \<and> decode v = Some x \<and> isPrefixOf (typedKey prefix [] typ) k \<longrightarrow> x \<in> set xs))) s"
proof -
  let ?p = "typedKey prefix [] typ"
  have keys: "returns (ListKeys store ?p) (\<lambda>ks t. sameBut s t \<and> (\<exists>b. kBuckets s store = Some b
      \<and> ks = filter (\<lambda>k. isPrefixOf ?p k) (map fst b))) s"
    unfolding ListKeys_def by (rule returns_bucket) (auto intro!: returns_ret)
  have found: "k \<in> set (filter (\<lambda>k. isPrefixOf ?p k) (map fst b))" if "map_of b k = Some v" "isPrefixOf ?p k" for b k v
    using that map_of_SomeD [OF that(1)] by (auto intro: rev_image_eqI)
  show ?thesis
    unfolding DownloadTypedObjects_def Let_def
  proof (rule returns_bind [OF returns_catch [OF keys]], elim conjE exE)
    fix ks t b
    assume b: "sameBut s t" "kBuckets s store = Some b" "ks = filter (\<lambda>k. isPrefixOf ?p k) (map fst b)"
    show "returns (foldlM (\<lambda>objects key. bindM (catchM (DownloadObject store key decode)
        (\<lambda>e. failM (wrapE (''unable to DownloadObject of key '' @ key @ '', '') e []))) (\<lambda>x. ret (objects @ [x]))) [] ks)
      (\<lambda>xs t. sameBut s t \<and> (\<exists>b. kBuckets s store = Some b
     \<and> (\<forall>k v x. map_of b k = Some v \<and> decode v = Some x \<and> isPrefixOf ?p k \<longrightarrow> x \<in> set xs))) t"
    proof (rule returns_mono [OF returns_downloadLoop [OF b(1,2)]], elim conjE)
      fix xs t'
      assume t': "sameBut s t'" and got: "\<forall>k \<in> set ks. \<exists>v x. map_of b k = Some v \<and> decode v = Some x \<and> x \<in> set xs"
      have "x \<in> set xs" if "map_of b k = Some v" "decode v = Some x" "isPrefixOf ?p k" for k v x
        using bspec [OF got, of k] found [OF that(1,3)] that b(3) by auto
      with t' b(2) show "sameBut s t' \<and> (\<exists>b. kBuckets s store = Some b
          \<and> (\<forall>k v x. map_of b k = Some v \<and> decode v = Some x \<and> isPrefixOf ?p k \<longrightarrow> x \<in> set xs))" by blast
    qed
  qed
qed

section \<open>All volumes of a store\<close>

definition volumesOf :: "bucket \<Rightarrow> string \<Rightarrow> volume set" where
  "volumesOf b prefix =
     {pv. \<exists>k. map_of b k = Some (StoredPV pv) \<and> isPrefixOf (typedKey prefix [] ''v1.PersistentVolume'') k}"

definition claimsOf :: "bucket \<Rightarrow> string \<Rightarrow> claim set" where
  "claimsOf b prefix =
     {pvc. \<exists>k. map_of b k = Some (StoredPVC pvc) \<and> isPrefixOf (typedKey prefix [] ''v1.PersistentVolumeClaim'') k}"

lemma decoded: "storedPV (StoredPV pv) = Some pv" "storedPVC (StoredPVC pvc) = Some pvc"
  by (simp_all add: storedPV_def storedPVC_def)

lemma restored_volumes:
  "returns (restorePVsFromObjectStore store profile) (\<lambda>_ t. \<exists>b. kBuckets s store = Some b
     \<and> (\<lambda>pv. (pvName pv, [])) ` volumesOf b (s3KeyPrefix s) \<subseteq> dom (kVolumes t)) s"
proof -
  have down: "returns (downloadPVs store (s3KeyPrefix s)) (\<lambda>pvs t. \<exists>b. kBuckets s store = Some b
      \<and> volumesOf b (s3KeyPrefix s) \<subseteq> set pvs) s"
    unfolding downloadPVs_def volumesOf_def
    by (rule returns_mono [OF returns_downloadTyped]) (use decoded(1) in blast)
  show ?thesis
    unfolding restorePVsFromObjectStore_def
    by (rule returns_gets, rule returns_bind [OF down])
      (auto intro!: returns_fail returns_mono [OF returns_restoreObjects [OF restored_volume_step]] split: option.split)
qed

section \<open>PVCs\<close>

definition keepsClaims :: "(string \<times> string) set \<Rightarrow> vrgs \<Rightarrow> bool" where
  "keepsClaims K s \<longleftrightarrow> K \<subseteq> dom (kClaims s)"

interpretation claims: vrg_reads "keepsClaims K" for K
  by unfold_locales (simp_all add: keepsClaims_def updStatus_def)

abbreviation claimKey :: "claim \<Rightarrow> string \<times> string" where
  "claimKey pvc \<equiv> (claimName pvc, claimNamespace pvc)"

text \<open>An update without finalizers removes a PVC marked for deletion; the validation before it rules that out.\<close>

definition liveClaim :: "vrgs \<Rightarrow> string \<times> string \<Rightarrow> bool" where
  "liveClaim s key \<longleftrightarrow> (case kClaims s key of None \<Rightarrow> False | Some c \<Rightarrow> \<not> claimDeleted c)"

lemma wp_validateExistingPVC:
  "wp (validateExistingPVC pvc) (\<lambda>r t. (\<exists>n. t = s\<lparr>calls := n\<rparr>) \<and> (r = Inr () \<longrightarrow> liveClaim t (claimKey pvc))) s"
  unfolding validateExistingPVC_def wp_rules
  by (rule wp_mono [OF getFrom_result]) (auto simp: wp_rules liveClaim_def split: sum.splits)

lemma wp_updateLive:
  assumes "keepsClaims K s" "liveClaim s (claimKey pvc)"
  shows "wp (updateClaim pvc) (\<lambda>r t. keepsClaims K t \<and> (r = Inr () \<longrightarrow> claimKey pvc \<in> dom (kClaims t))) s"
  unfolding updateClaim_def Let_def wp_rules
  by (rule wp_apiCall) (use assms in \<open>auto simp: wp_rules keepsClaims_def liveClaim_def split: option.splits\<close>)

lemma wp_existingPVC:
  assumes "keepsClaims K s"
  shows "wp (handleExistingObject (validateExistingPVC pvc) (updateClaim pvc))
    (\<lambda>r t. keepsClaims K t \<and> (r = Inr True \<longrightarrow> claimKey pvc \<in> dom (kClaims t))) s"
  unfolding handleExistingObject_def succeeded_def wp_rules
  by (rule wp_mono [OF wp_validateExistingPVC])
    (use assms in \<open>auto simp: wp_rules keepsClaims_def split: sum.splits intro!: wp_mono [OF wp_updateLive [of K]]\<close>)

lemma wp_createClaim: "wp (createClaim c) (\<lambda>r t. r = Inr () \<longrightarrow> claimKey c \<in> dom (kClaims t)) s"
  unfolding createClaim_def createIn_def Let_def wp_rules
  by (rule wpI) (auto simp: wp_rules domIff split: sum.split option.split)

lemma pres_claims [pres_rules]:
  "pres (keepsClaims K) (createClaim c)" "pres (keepsClaims K) (validateVolumeAttributesClassForRestore pvc)"
  unfolding createClaim_def createIn_def Let_def validateVolumeAttributesClassForRestore_def validateVolumeAttributeClassExists_def
  by (intro pres_rules claims.pres_modifyM; auto simp: keepsClaims_def)+

lemma pres_existingPVC: "pres (keepsClaims K) (handleExistingObject (validateExistingPVC pvc) (updateClaim pvc))"
  by (rule presI) (auto simp: wp_snd [symmetric] intro: wp_mono [OF wp_existingPVC])

definition cleanedPVC :: "claim \<Rightarrow> claim vrgm" where
  "cleanedPVC pvc = (let pvc' = cleanupPVCForRestore pvc
     in seqM (validateVolumeAttributesClassForRestore pvc')
          (ret (pvc'\<lparr>claimAnnotations := addRestoreAnnotation (claimAnnotations pvc')\<rparr>)))"

lemma restored_claim_step:
  "returns (restoreClusterDataObject cleanedPVC createClaim
     (\<lambda>pvc. handleExistingObject (validateExistingPVC pvc) (updateClaim pvc)) n pvc)
   (\<lambda>n' t. (n' = n \<or> n' = Suc n \<and> claimKey pvc \<in> dom (kClaims t))
     \<and> (\<forall>y. claimKey y \<in> dom (kClaims s) \<longrightarrow> claimKey y \<in> dom (kClaims t))) s" (is "returns ?m _ _")
proof (rule returns_conj)
  have existing: "returns (handleExistingObject (validateExistingPVC pvc) (updateClaim pvc))
      (\<lambda>ok t. ok \<longrightarrow> claimKey pvc \<in> dom (kClaims t)) t" for pvc t
    unfolding returns_def by (rule wp_mono [OF wp_existingPVC [of "{}"]]) (auto simp: keepsClaims_def)
  show "returns ?m (\<lambda>n' t. n' = n \<or> n' = Suc n \<and> claimKey pvc \<in> dom (kClaims t)) s"
    by (rule returns_restoreObject [where key = claimKey and Pr = "\<lambda>k t. k \<in> dom (kClaims t)"])
      (auto simp: cleanedPVC_def cleanupPVCForRestore_def Let_def intro!: yields_seq yields_ret wp_createClaim existing)
  have "returns ?m (\<lambda>_. keepsClaims (dom (kClaims s))) s"
    by (rule returns_pres) (auto simp: restoreClusterDataObject_def cleanedPVC_def keepsClaims_def intro!: pres_rules pres_existingPVC)
  then show "returns ?m (\<lambda>_ t. \<forall>y. claimKey y \<in> dom (kClaims s) \<longrightarrow> claimKey y \<in> dom (kClaims t)) s"
    by (rule returns_mono) (auto simp: keepsClaims_def)
qed

lemma restored_claims:
  "returns (restorePVCsFromObjectStore store profile) (\<lambda>_ t. \<exists>b. kBuckets s store = Some b
     \<and> claimKey ` claimsOf b (s3KeyPrefix s) \<subseteq> dom (kClaims t)) s"
proof -
  have down: "returns (downloadPVCs store (s3KeyPrefix s)) (\<lambda>pvcs t. \<exists>b. kBuckets s store = Some b
      \<and> claimsOf b (s3KeyPrefix s) \<subseteq> set pvcs) s"
    unfolding downloadPVCs_def claimsOf_def
    by (rule returns_mono [OF returns_downloadTyped]) (use decoded(2) in blast)
  have rest: "returns (seqM (modifyM f) m) Q t" if "returns m Q (f t)" for f m Q and t :: vrgs
    using that by (simp add: returns_def wp_seq wp_modify)
  show ?thesis
    unfolding restorePVCsFromObjectStore_def cleanedPVC_def [symmetric]
    by (rule returns_gets, rule returns_bind [OF down], rule rest, rule returns_mono [OF returns_restoreObjects [OF restored_claim_step]])
      auto
qed

section \<open>The whole restore\<close>

definition sameStores :: "string \<Rightarrow> (object_store \<Rightarrow> bucket option) \<Rightarrow> vrgs \<Rightarrow> bool" where
  "sameStores prefix B s \<longleftrightarrow> s3KeyPrefix s = prefix \<and> kBuckets s = B"

interpretation same: vrg_releases "sameStores prefix B" for prefix B
  by unfold_locales (auto simp: sameStores_def s3KeyPrefix_def namespacedName_def updStatus_def)

lemmas restore_defs = restorePVsFromObjectStore_def restorePVCsFromObjectStore_def restoreClusterDataObjects_def
  restoreClusterDataObject_def handleExistingObject_def validateExistingPV_def validateBoundPV_def validateExistingPVC_def
  updateExistingPVForSync_def cleanupPVForRestore_def validateVolumeAttributesClassForRestore_def
  validateVolumeAttributeClassExists_def downloadPVs_def downloadPVCs_def DownloadTypedObjects_def DownloadObject_def
  ListKeys_def withBucket_def ObjectStore_def GetRamenConfigS3StoreProfile_def GetS3Secret_def

lemma pres_sameCreate [pres_rules]:
  "pres (sameStores prefix B) (createVolume pv)" "pres (sameStores prefix B) (createClaim c)"
  unfolding createVolume_def createClaim_def createIn_def Let_def
  by (intro pres_rules same.pres_modifyM; auto simp: sameStores_def s3KeyPrefix_def namespacedName_def)+

lemma pres_same [pres_rules]:
  "pres (sameStores prefix B) (restorePVsFromObjectStore store profile)"
  "pres (sameStores prefix B) (restorePVCsFromObjectStore store profile)"
  "pres (sameStores prefix B) (ObjectStore name tag)"
  unfolding restore_defs Let_def
  by (intro pres_rules same.pres_modifyM; auto simp: sameStores_def s3KeyPrefix_def namespacedName_def)+

lemma pres_volumesClaims: "pres (keepsVolumes K) (restorePVCsFromObjectStore store profile)"
  unfolding restore_defs createClaim_def createIn_def updateClaim_def Let_def
  by (intro pres_rules volumes.pres_modifyM; auto simp: keepsVolumes_def)

definition allRestored :: "string \<Rightarrow> bucket \<Rightarrow> vrgs \<Rightarrow> bool" where
  "allRestored prefix b s \<longleftrightarrow>
     (\<lambda>pv. (pvName pv, [])) ` volumesOf b prefix \<subseteq> dom (kVolumes s) \<and> claimKey ` claimsOf b prefix \<subseteq> dom (kClaims s)"

definition someStoreRestored :: "string \<Rightarrow> (object_store \<Rightarrow> bucket option) \<Rightarrow> vrgs \<Rightarrow> bool" where
  "someStoreRestored prefix B s \<longleftrightarrow> (\<exists>store b. B store = Some b \<and> allRestored prefix b s)"

lemma returns_restoreFromS3:
  assumes "sameStores prefix B s"
  shows "returns (restoreFromS3 restorePVsFromObjectStore restorePVCsFromObjectStore err noS3 profiles)
    (\<lambda>out t. fst out > 0 \<longrightarrow> someStoreRestored prefix B t) s"
  using assms
proof (induction profiles arbitrary: err noS3 s)
  case (Cons profile profiles)
  have store: "returns (attemptM (ObjectStore profile tag)) (\<lambda>_. sameStores prefix B) s" for tag
    by (rule returns_pres) (intro pres_rules Cons.prems)+
  have first: "returns (recoverM (restorePVsFromObjectStore store profile)) (\<lambda>r t. sameStores prefix B t
      \<and> (\<forall>n. r = Inr n \<longrightarrow> (\<exists>b. B store = Some b \<and> keepsVolumes ((\<lambda>pv. (pvName pv, [])) ` volumesOf b prefix) t))) t"
    if "sameStores prefix B t" for store t
    by (rule returns_conj, rule returns_pres, intro pres_rules, rule that, rule returns_recover, rule returns_mono [OF restored_volumes])
      (use that in \<open>auto simp: sameStores_def keepsVolumes_def\<close>)
  have second: "returns (recoverM (restorePVCsFromObjectStore store profile)) (\<lambda>r t. sameStores prefix B t
      \<and> (\<forall>n. r = Inr n \<longrightarrow> someStoreRestored prefix B t)) t"
    if t: "sameStores prefix B t" and vols: "\<exists>b. B store = Some b \<and> keepsVolumes ((\<lambda>pv. (pvName pv, [])) ` volumesOf b prefix) t"
    for store t
  proof (rule returns_conj)
    obtain b where b: "B store = Some b" "keepsVolumes ((\<lambda>pv. (pvName pv, [])) ` volumesOf b prefix) t" using vols by blast
    show "returns (recoverM (restorePVCsFromObjectStore store profile)) (\<lambda>r t. sameStores prefix B t) t"
      by (rule returns_pres) (intro pres_rules t)+
    have "returns (restorePVCsFromObjectStore store profile) (\<lambda>_ t'. keepsVolumes ((\<lambda>pv. (pvName pv, [])) ` volumesOf b prefix) t'
        \<and> (\<exists>b. kBuckets t store = Some b \<and> claimKey ` claimsOf b (s3KeyPrefix t) \<subseteq> dom (kClaims t'))) t"
      by (rule returns_conj [OF returns_pres restored_claims]) (rule pres_volumesClaims b(2))+
    then have "returns (restorePVCsFromObjectStore store profile) (\<lambda>_. allRestored prefix b) t"
      by (rule returns_mono) (use t b(1) in \<open>auto simp: sameStores_def keepsVolumes_def allRestored_def\<close>)
    then have "returns (restorePVCsFromObjectStore store profile) (\<lambda>_. someStoreRestored prefix B) t"
      by (rule returns_mono) (use b(1) in \<open>unfold someStoreRestored_def, blast\<close>)
    then show "returns (recoverM (restorePVCsFromObjectStore store profile)) (\<lambda>r t. \<forall>n. r = Inr n \<longrightarrow> someStoreRestored prefix B t) t"
      by (rule returns_recover)
  qed
  show ?case
    unfolding restoreFromS3.simps
    by (auto intro!: Cons returns_gets returns_bind [OF store] returns_bind [OF first] returns_bind [OF second] returns_ret
        split: sum.split)
qed (auto intro: returns_ret)


text \<open>The cluster on the other side, with the volume and the PVC in its store only.\<close>

definition exRestore :: vrgs where
  "exRestore = (exManaged Primary [])\<lparr>kVolumes := Map.empty, kVolumeOrder := [], kVRs := Map.empty,
     kBuckets := [(''http://s3'', ''bucket'') \<mapsto>
       [(''ns/app/v1.PersistentVolume/pv1'', StoredPV exVolume), (''ns/app/v1.PersistentVolumeClaim/ns/data'', StoredPVC exClaim)]]\<rparr>"


end
