(* ===== verification/Ramen_PvcSelectionProps.thy ===== *)
theory Ramen_PvcSelectionProps
  imports Ramen_PvcSelection Ramen_RestoreProps "HOL-Library.Multiset"
begin

text \<open>Every PVC that the VRG selects is replicated in exactly one way.\<close>

definition selectedPVCs :: "vrgs \<Rightarrow> claim list" where
  "selectedPVCs s =
     filter (\<lambda>c. claimNamespace c \<in> set (iPvcNamespaces s) \<and> matchesLabels (iPvcSelector s) (claimLabels c)
         \<and> (vsDisabled (vVolSync (vrgSpecOf s))
            \<or> map_of (claimLabels c) ''app.kubernetes.io/created-by'' \<noteq> Some ''volsync''
              \<and> map_of (claimLabels c) ''ramendr.openshift.io/created-by-ramen'' \<noteq> Some ''true''))
       (claimsInOrder s)"

definition keysOf :: "claim list \<Rightarrow> (string \<times> string) multiset" where
  "keysOf pvcs = mset (map claimKey pvcs)"

lemma keysOf_simps [simp]: "keysOf [] = {#}" "keysOf (c # cs) = add_mset (claimKey c) (keysOf cs)" "keysOf (cs @ ds) = keysOf cs + keysOf ds"
  by (simp_all add: keysOf_def)

lemma keysOf_cong: "map claimKey cs = map claimKey ds \<Longrightarrow> keysOf cs = keysOf ds"
  unfolding keysOf_def by simp

definition separated :: "vrgs \<Rightarrow> (string \<times> string) multiset" where
  "separated s = keysOf (iVolRepPVCs s) + keysOf (iVolSyncPVCs s)"

text \<open>The lists, and what decides between the ways to fill them.\<close>

definition separatedAs :: "(string \<times> string) multiset \<Rightarrow> bool \<Rightarrow> (string \<times> string) list \<Rightarrow> vrgs \<Rightarrow> bool" where
  "separatedAs M deleted vs s \<longleftrightarrow> separated s = M \<and> vDeleted (iVrg s) = deleted \<and> map claimKey (iVolSyncPVCs s) = vs"

interpretation separated: vrg_releases "separatedAs M d vs" for M d vs
  by unfold_locales (auto simp: separatedAs_def separated_def updStatus_def)

definition sameClaim :: "claim \<Rightarrow> claim \<Rightarrow> bool" where
  "sameClaim pvc pvc' \<longleftrightarrow> claimKey pvc' = claimKey pvc"

lemma sameClaim_refl [simp]: "sameClaim pvc pvc"
  by (simp add: sameClaim_def)

lemma yields_labelClaim: "yields (sameClaim pvc) (labelClaim k v pvc)"
  unfolding labelClaim_def by (auto simp: Let_def sameClaim_def intro!: yields_ret yields_seq)

lemma yields_volRepLabel: "yields (sameClaim pvc) (addVolRepConsistencyGroupLabel pvc)"
  unfolding addVolRepConsistencyGroupLabel_def by (auto intro!: yields_step yields_ret yields_labelClaim)

lemma yields_volSyncLabel: "yields (sameClaim pvc) (addConsistencyGroupLabel pvc)"
  unfolding addConsistencyGroupLabel_def by (auto intro!: yields_step yields_labelClaim)

lemma pres_snapshotClasses [pres_rules]: "pres (separatedAs M d vs) (findVolSnapClass sc)"
  unfolding findVolSnapClass_def GetVolumeSnapshotClasses_def
  by (intro pres_rules separated.pres_modifyM) (auto simp: separatedAs_def separated_def)

lemma pres_findPeerClass [pres_rules]: "pres (separatedAs M d vs) (findPeerClassMatchingSC sc ps pvc)"
  unfolding findPeerClassMatchingSC_def by (intro pres_rules)

lemma pres_volRepLabel [pres_rules]: "pres (separatedAs M d vs) (addVolRepConsistencyGroupLabel pvc)"
  unfolding addVolRepConsistencyGroupLabel_def by (intro pres_rules)

lemma pres_volSyncLabel [pres_rules]: "pres (separatedAs M d vs) (addConsistencyGroupLabel pvc)"
  unfolding addConsistencyGroupLabel_def getCGLabelValue_def by (intro pres_rules)

text \<open>One PVC more is in one of the lists.\<close>

definition oneMore :: "(string \<times> string) multiset \<Rightarrow> bool \<Rightarrow> claim \<Rightarrow> unit \<Rightarrow> vrgs \<Rightarrow> bool" where
  "oneMore M d pvc _ s \<longleftrightarrow> (\<exists>vs. separatedAs (add_mset (claimKey pvc) M) d vs s)"

lemma returns_add:
  assumes "separatedAs M d vs s" "sameClaim pvc pvc'"
  shows "returns (addVolRepPVC pvc') (oneMore M d pvc) s" "returns (addVolSyncPVC pvc') (oneMore M d pvc) s"
  using assms
  by (auto simp: addVolRepPVC_def addVolSyncPVC_def returns_def wp_modify oneMore_def separatedAs_def separated_def sameClaim_def)

lemma returns_labelled:
  assumes "separatedAs M d vs s" "yields (sameClaim pvc) m" "pres (separatedAs M d vs) m"
  shows "returns (if b then catchM m (labelError pvc) else ret pvc) (\<lambda>pvc' t. separatedAs M d vs t \<and> sameClaim pvc pvc') s"
proof (rule returns_conj)
  show "returns (if b then catchM m (labelError pvc) else ret pvc) (\<lambda>_. separatedAs M d vs) s"
    by (rule returns_pres) (use assms in \<open>auto simp: labelError_def intro!: pres_rules\<close>)
  show "returns (if b then catchM m (labelError pvc) else ret pvc) (\<lambda>pvc' _. sameClaim pvc pvc') s"
    by (rule returns_yields) (use assms(2) in \<open>auto simp: labelError_def intro!: yields_catch yields_ret yields_fail\<close>)
qed

lemma returns_kept: "pres (separatedAs M d vs) m \<Longrightarrow> separatedAs M d vs s \<Longrightarrow> returns m (\<lambda>_. separatedAs M d vs) s"
  by (rule returns_pres)

lemma returns_separateOne:
  assumes s: "separatedAs M d vs s"
  shows "returns (separatePVCUsingPeerClassAndSC ps sc pvc) (oneMore M d pvc) s"
  unfolding separatePVCUsingPeerClassAndSC_def
  by (rule returns_bind [OF returns_kept [OF pres_findPeerClass s]], rule returns_gets)
    (auto split del: if_split intro!: returns_if returns_fail returns_add returns_bind [OF returns_labelled [OF _ yields_volRepLabel pres_volRepLabel]]
      returns_bind [OF returns_labelled [OF _ yields_volSyncLabel pres_volSyncLabel]]
      returns_bind [OF returns_kept [OF pres_snapshotClasses]] returns_option)

lemma returns_forM_separated:
  assumes "\<And>pvc M vs s. separatedAs M d vs s \<Longrightarrow> returns (f pvc) (oneMore M d pvc) s" "separatedAs M d vs s"
  shows "returns (forM pvcs f) (\<lambda>_ t. \<exists>vs. separatedAs (keysOf pvcs + M) d vs t) s"
  using assms(2)
proof (induction pvcs arbitrary: M vs s)
  case (Cons pvc pvcs)
  show ?case
    unfolding forM.simps seqM_def
    by (rule returns_bind [OF assms(1) [OF Cons.prems]], unfold oneMore_def, elim exE, rule returns_mono [OF Cons.IH]) auto
qed (auto intro: returns_ret)

lemma returns_separateAsync:
  assumes "separatedAs {#} d vs s"
  shows "returns (separateAsyncPVCs pvcs) (\<lambda>_ t. separated t = keysOf pvcs) s"
proof -
  have one: "returns (bindM (getStorageClass pvc) (\<lambda>sc. if asPeerClasses a = [] then separatePVCsUsingOnlySC sc pvc
      else separatePVCUsingPeerClassAndSC (asPeerClasses a) sc pvc)) (oneMore M d pvc) t"
    if "separatedAs M d vs t" for M vs t pvc a
    by (rule returns_bind [OF returns_kept [OF separated.pres_getStorageClass that]])
      (auto simp: separatePVCsUsingOnlySC_def intro!: returns_gets returns_add returns_separateOne)
  have all: "returns (forM pvcs (\<lambda>pvc. bindM (getStorageClass pvc) (\<lambda>sc. if asPeerClasses a = [] then separatePVCsUsingOnlySC sc pvc
      else separatePVCUsingPeerClassAndSC (asPeerClasses a) sc pvc))) (\<lambda>_ t. separated t = keysOf pvcs) s" for a
    by (rule returns_mono [OF returns_forM_separated [OF one assms]]) (auto simp: separatedAs_def)
  show ?thesis
    unfolding separateAsyncPVCs_def seqM_def
    by (rule returns_gets) (auto intro!: returns_fail returns_ret returns_gets returns_bind [OF all] split: option.split)
qed

text \<open>Offloaded PVCs are all replicated by groups.\<close>

lemma pres_checkOffloaded: "pres (separatedAs M d vs) (foldlM (checkOffloaded ps) b pvcs)"
  unfolding checkOffloaded_def by (intro pres_rules)

lemma returns_labelLoop:
  assumes "separatedAs M d vs s" "map claimKey acc = ks"
  shows "returns (foldlM (\<lambda>done pvc. bindM (catchM (addVolRepConsistencyGroupLabel pvc) (\<lambda>e. failM (h pvc e)))
      (\<lambda>pvc'. ret (done @ [pvc']))) acc pvcs)
    (\<lambda>pvcs' t. separatedAs M d vs t \<and> map claimKey pvcs' = ks @ map claimKey pvcs) s"
  using assms
proof (induction pvcs arbitrary: acc ks s)
  case (Cons pvc pvcs)
  have one: "returns (catchM (addVolRepConsistencyGroupLabel pvc) (\<lambda>e. failM (h pvc e)))
      (\<lambda>pvc' t. separatedAs M d vs t \<and> sameClaim pvc pvc') s"
    by (rule returns_catch, rule returns_conj [OF returns_kept [OF pres_volRepLabel Cons.prems(1)] returns_yields [OF yields_volRepLabel]])
  have two: "returns (bindM (catchM (addVolRepConsistencyGroupLabel pvc) (\<lambda>e. failM (h pvc e))) (\<lambda>pvc'. ret (acc @ [pvc'])))
      (\<lambda>acc' t. separatedAs M d vs t \<and> map claimKey acc' = ks @ [claimKey pvc]) s"
    by (rule returns_bind [OF one]) (use Cons.prems(2) in \<open>auto simp: sameClaim_def intro!: returns_ret\<close>)
  show ?case
    unfolding foldlM.simps by (rule returns_bind [OF two], elim conjE, rule returns_mono [OF Cons.IH]) auto
qed (simp add: returns_ret)

lemma returns_processOffloaded:
  assumes "separatedAs {#} d [] s"
  shows "returns (processOffloadedPVCs ps pvcs) (\<lambda>(offloaded, pvcs') t. map claimKey pvcs' = map claimKey pvcs
    \<and> separatedAs (if offloaded then keysOf pvcs else {#}) d [] t) s"
proof -
  have loop: "returns (foldlM (\<lambda>done pvc. bindM (catchM (addVolRepConsistencyGroupLabel pvc) (\<lambda>e. failM (h pvc e)))
      (\<lambda>pvc'. ret (done @ [pvc']))) [] pvcs)
    (\<lambda>pvcs' t. separatedAs {#} d [] t \<and> map claimKey pvcs' = map claimKey pvcs) t" if "separatedAs {#} d [] t" for t h
    using returns_labelLoop [OF that, of "[]" "[]"] by simp
  have store: "returns (seqM (modifyM (\<lambda>s. s\<lparr>iVolRepPVCs := pvcs'\<rparr>)) (ret (True, pvcs')))
      (\<lambda>(offloaded, pvcs') t. map claimKey pvcs' = map claimKey pvcs
        \<and> separatedAs (if offloaded then keysOf pvcs else {#}) d [] t) t"
    if "separatedAs {#} d [] t" "map claimKey pvcs' = map claimKey pvcs" for t pvcs'
    using that(1) that(2) keysOf_cong [OF that(2)] by (simp add: returns_def wp_seq wp_modify wp_ret separatedAs_def separated_def)
  show ?thesis
    unfolding processOffloadedPVCs_def
    by (auto simp: assms split del: if_split intro!: returns_if returns_ret returns_bind [OF loop] store
        returns_bind [OF returns_kept [OF pres_checkOffloaded assms]])
qed

lemma pres_globallyOffloaded: "pres (separatedAs M d vs) (processGloballyOffloadedPVCs ps pvcs)"
  unfolding processGloballyOffloadedPVCs_def addGlobalVGRLabel_def updateInstance_def Let_def
  by (intro pres_rules separated.pres_modifyM) (auto simp: separatedAs_def separated_def storeInstance_def Let_def)

section \<open>The list\<close>

lemma returns_updateAsync:
  assumes "separatedAs {#} False [] s"
  shows "returns (updateAsyncPVCs a pvcs) (\<lambda>_ t. separated t = keysOf pvcs) s"
proof -
  have deleted: "returns (getsM (vDeleted \<circ> iVrg)) (\<lambda>deleted t. \<not> deleted \<and> separatedAs {#} False [] t) t"
    if "separatedAs {#} False [] t" for t
    using that by (simp add: returns_def wp_gets separatedAs_def)
  have async: "returns (separateAsyncPVCs pvcs') (\<lambda>_ t. separated t = keysOf pvcs) t"
    if "separatedAs {#} False [] t" "map claimKey pvcs' = map claimKey pvcs" for t pvcs'
    using returns_separateAsync [OF that(1), of pvcs'] keysOf_cong [OF that(2)] by simp
  have global: "returns (processGloballyOffloadedPVCs ps pvcs') (\<lambda>_ t. separated t = M) t" if "separatedAs M d vs t" for M d vs t ps pvcs'
    by (rule returns_mono [OF returns_kept [OF pres_globallyOffloaded that]]) (simp add: separatedAs_def)
  show ?thesis
    unfolding updateAsyncPVCs_def seqM_def
    by (rule returns_bind [OF returns_kept [OF separated.pres_updateReplicationClassList assms]], rule returns_bind [OF deleted])
      (auto split del: if_split intro!: returns_if returns_bind [OF returns_processOffloaded] async global)
qed

lemma returns_listed:
  "returns listPVCsByVrgPVCSelector (\<lambda>pvcs t. pvcs = selectedPVCs s \<and> (\<exists>n. t = s\<lparr>calls := n\<rparr>)) s"
proof -
  have list: "returns (catchM (listAll claimsInOrder P) (\<lambda>e. failM (h e)))
      (\<lambda>pvcs t. pvcs = filter P (claimsInOrder s) \<and> (\<exists>n. t = s\<lparr>calls := n\<rparr>)) s" for P h
    by (rule returns_catch)
      (auto simp: returns_def claimsInOrder_def split: sum.splits intro!: wp_mono [OF listAll_result])
  show ?thesis
    unfolding listPVCsByVrgPVCSelector_def listPVCsByPVCSelector_def ListPVCsByPVCSelector_def
    by (rule returns_gets, rule returns_gets, unfold prod.case, rule returns_bind [OF list], rule returns_ret)
      (auto simp: selectedPVCs_def intro!: filter_cong)
qed

lemma returns_updateSync:
  assumes "separatedAs M d [] s"
  shows "returns (updateSyncPVCs pvcs) (\<lambda>_ t. separated t = keysOf pvcs) s"
proof -
  have valid: "pres (separatedAs M d []) (validateSyncPVCs pvcs)"
    unfolding validateSyncPVCs_def by (intro pres_rules)
  show ?thesis
    unfolding updateSyncPVCs_def seqM_def
    by (rule returns_bind [OF returns_kept [OF valid assms]]) (auto simp: returns_def wp_modify separatedAs_def separated_def)
qed



end
