(* ===== verification/Ramen_VrgAggregate.thy ===== *)
theory Ramen_VrgAggregate
  imports Ramen_VolGroupRep
begin

text \<open>
  From the conditions of the protected PVCs to the conditions and the state the VRG reports
  (\<^verbatim>\<open>updateVRGConditions\<close>, \<^verbatim>\<open>updateVRGStatus\<close> and what they call in \<^verbatim>\<open>volumereplicationgroup_controller.go\<close>,
  \<^verbatim>\<open>vrg_volrep.go\<close> and \<^verbatim>\<open>vrg_volsync.go\<close>).
\<close>

section \<open>PVCs replicated by VolumeReplication\<close>

definition vrgReadyStatus :: "vrg \<Rightarrow> string \<Rightarrow> condition" where
  "vrgReadyStatus v reason =
     (let sync = (vSync (vSpec v) \<noteq> None)
      in if vReplicationState (vSpec v) = Secondary
         then if reason = ''Unused''
              then newVRGDataReplicatingCondition (vGeneration v) reason
                     (if sync then ''PVC protection as secondary is complete, or no PVCs needed protection''
                      else ''PVC protection as secondary is complete, or no PVCs needed protection using VolumeReplication scheme'')
              else newVRGDataReplicatingCondition (vGeneration v) ''Replicating''
                     ''PVCs in the VolumeReplicationGroup group are replicating''
         else newVRGAsPrimaryReadyCondition (vGeneration v) reason
                (if reason = ''Unused''
                 then if sync then ''No PVCs are protected, no PVCs found matching the selector''
                      else ''No PVCs are protected using VolumeReplication scheme''
                 else ''PVCs in the VolumeReplicationGroup are ready for use''))"

text \<open>The loop over the PVCs, with the values of \<^verbatim>\<open>vrgReady\<close> and \<^verbatim>\<open>vrgProgressing\<close>; it breaks where it does not recurse.\<close>

fun dataReadyLoop :: "vrg \<Rightarrow> bool \<times> bool \<Rightarrow> protected_pvc list \<Rightarrow> bool \<times> bool" where
  "dataReadyLoop v acc [] = acc"
| "dataReadyLoop v (ready, progressing) (p # ps) =
     (if pvcProtectedByVolSync p then dataReadyLoop v (ready, progressing) ps
      else case FindCondition (pvcConditions p) ''DataReady'' of
        None \<Rightarrow> (False, progressing)
      | Some c \<Rightarrow>
          if vrgHasGlobalVGRLabel v \<and> cObservedGeneration c \<noteq> vGeneration v then (False, True)
          else if cReason c = ''Progressing'' then (False, True)
          else if cReason c = ''Error'' \<or> cReason c = ''UnknownError'' then (False, False)
          else dataReadyLoop v (ready, progressing) ps)"

definition aggregateVolRepDataReadyCondition :: "vrgs \<Rightarrow> condition" where
  "aggregateVolRepDataReadyCondition s =
     (let v = iVrg s
      in if iVolRepPVCs s = [] then vrgReadyStatus v ''Unused''
         else case dataReadyLoop v (protectedPVCs s \<noteq> [], False) (protectedPVCs s) of
           (ready, progressing) \<Rightarrow>
             if ready then vrgReadyStatus v ''Ready''
             else if progressing then newVRGDataProgressingCondition (vGeneration v) ''VolumeReplicationGroup is progressing''
             else newVRGDataErrorCondition (vGeneration v) ''All PVCs of the VolumeReplicationGroup are not ready'')"

fun dataProtectedLoop :: "bool \<times> bool \<Rightarrow> protected_pvc list \<Rightarrow> bool \<times> bool" where
  "dataProtectedLoop acc [] = acc"
| "dataProtectedLoop (isProtected, replicating) (p # ps) =
     (if pvcProtectedByVolSync p then dataProtectedLoop (isProtected, replicating) ps
      else case FindCondition (pvcConditions p) ''DataProtected'' of
        None \<Rightarrow> (False, False)
      | Some c \<Rightarrow>
          if cReason c = ''Replicating'' \<or> cReason c = ''Ready'' then dataProtectedLoop (False, True) ps
          else if cReason c = ''Error'' \<or> cReason c = ''UnknownError'' then (False, False)
          else dataProtectedLoop (isProtected, replicating) ps)"

definition aggregateVolRepDataProtectedCondition :: "vrgs \<Rightarrow> condition" where
  "aggregateVolRepDataProtectedCondition s =
     (let v = iVrg s; sync = (vSync (vSpec v) \<noteq> None)
      in if iVolRepPVCs s = []
         then newVRGAsDataProtectedUnusedCondition (vGeneration v)
                (if vReplicationState (vSpec v) = Secondary
                 then if sync then ''PVC protection as secondary is complete, or no PVCs needed protection''
                      else ''PVC protection as secondary is complete, or no PVCs needed protection using VolumeReplication scheme''
                 else if sync then ''No PVCs are protected, no PVCs found matching the selector''
                      else ''No PVCs are protected using VolumeReplication scheme'')
         else case dataProtectedLoop (True, False) (protectedPVCs s) of
           (isProtected, replicating) \<Rightarrow>
             if isProtected
             then newVRGAsDataProtectedCondition (vGeneration v) ''PVCs in the VolumeReplicationGroup are data protected ''
             else if replicating
             then newVRGDataProtectionProgressCondition (vGeneration v) ''VolumeReplicationGroup is replicating''
             else newVRGAsDataNotProtectedCondition (vGeneration v) ''All PVCs of the VolumeReplicationGroup are not ready'')"

text \<open>\<open>Inl reason\<close>: a PVC in error ends the loop; otherwise whether one is still uploading.\<close>

fun clusterDataLoop :: "bool \<Rightarrow> protected_pvc list \<Rightarrow> string + bool" where
  "clusterDataLoop protecting [] = Inr protecting"
| "clusterDataLoop protecting (p # ps) =
     (if pvcProtectedByVolSync p then clusterDataLoop protecting ps
      else case FindCondition (pvcConditions p) ''ClusterDataProtected'' of
        None \<Rightarrow> clusterDataLoop True ps
      | Some c \<Rightarrow>
          if cReason c = ''Uploading'' then clusterDataLoop True ps
          else if cReason c \<noteq> ''Uploaded'' then Inl (cReason c)
          else clusterDataLoop protecting ps)"

definition aggregateVolRepClusterDataProtectedCondition :: "vrgs \<Rightarrow> condition" where
  "aggregateVolRepClusterDataProtectedCondition s =
     (let v = iVrg s; generation = vGeneration v
      in if vReplicationState (vSpec v) = Secondary
         then newVRGClusterDataProtectedUnusedCondition generation ''Cluster data is not protected as Secondary''
         else if iVolRepPVCs s = []
         then if vSync (vSpec v) \<noteq> None
              then newVRGAsDataProtectedUnusedCondition generation ''No PVCs are protected, no PVCs found matching the selector''
              else newVRGClusterDataProtectedUnusedCondition generation ''No PVCs are protected using VolumeReplication scheme''
         else case clusterDataLoop False (protectedPVCs s) of
           Inl reason \<Rightarrow> newVRGClusterDataUnprotectedCondition generation reason
                          ''Cluster data of one or more PVs are unprotected''
         | Inr True \<Rightarrow> newVRGClusterDataProtectingCondition generation
                          ''Cluster data of one or more PVs are in the process of being protected''
         | Inr False \<Rightarrow> newVRGClusterDataProtectedCondition generation ''Cluster data of all PVs are protected'')"

definition pvcConditionsOf :: "string \<Rightarrow> vrgs \<Rightarrow> (protected_pvc \<times> condition) list" where
  "pvcConditionsOf t s =
     List.map_filter (\<lambda>p. if pvcProtectedByVolSync p then None
                          else map_option (Pair p) (FindCondition (pvcConditions p) t)) (protectedPVCs s)"

definition aggregateVolRepDestinationInfoAvailableCondition :: "vrgs \<Rightarrow> condition option" where
  "aggregateVolRepDestinationInfoAvailableCondition s =
     (let found = pvcConditionsOf ''DestinationInfoAvailable'' s; generation = vGeneration (iVrg s)
      in if found = [] then None
         else if list_all (\<lambda>(_, c). cStatus c = ConditionTrue) found
         then Some (mkCondition ''DestinationInfoAvailable'' ''Ready'' generation ConditionTrue
                ''Destination info is available for all VolumeReplication resources'')
         else Some (mkCondition ''DestinationInfoAvailable'' ''Progressing'' generation ConditionFalse
                ''Destination info is not yet available for one or more VolumeReplication resources''))"

definition replicationHealthyPVCMessage :: "protected_pvc \<Rightarrow> condition \<Rightarrow> string" where
  "replicationHealthyPVCMessage p c =
     ''VolumeReplication for PVC '' @ pvcNamespace p @ ''/'' @ pvcName p @ '': '' @ cMessage c"

definition newVRGReplicationHealthyCondition :: "int \<Rightarrow> condition_status \<Rightarrow> string \<Rightarrow> string \<Rightarrow> condition" where
  "newVRGReplicationHealthyCondition generation st reason message =
     mkCondition ''ReplicationHealthy'' reason generation st message"

text \<open>The first PVC that reports false, and the first that reports unknown.\<close>

definition collectReplicationHealthyPVCConditions ::
  "vrgs \<Rightarrow> bool \<times> (protected_pvc \<times> condition) option \<times> (protected_pvc \<times> condition) option" where
  "collectReplicationHealthyPVCConditions s =
     (let found = pvcConditionsOf ''ReplicationHealthy'' s
      in (found \<noteq> [], find (\<lambda>(_, c). cStatus c = ConditionFalse) found, find (\<lambda>(_, c). cStatus c = ConditionUnknown) found))"

definition aggregateVolRepReplicationHealthyCondition :: "vrgs \<Rightarrow> condition option" where
  "aggregateVolRepReplicationHealthyCondition s =
     (let generation = vGeneration (iVrg s)
      in case collectReplicationHealthyPVCConditions s of
        (False, _, _) \<Rightarrow> None
      | (True, Some (p, c), _) \<Rightarrow>
          Some (newVRGReplicationHealthyCondition generation ConditionFalse ''Error'' (replicationHealthyPVCMessage p c))
      | (True, None, Some (p, c)) \<Rightarrow>
          Some (newVRGReplicationHealthyCondition generation ConditionUnknown ''UnknownError'' (replicationHealthyPVCMessage p c))
      | (True, None, None) \<Rightarrow>
          Some (newVRGReplicationHealthyCondition generation ConditionTrue ''Ready'' ''VolumeReplication resources are replicating''))"

section \<open>PVCs replicated by VolSync\<close>

definition isVolSyncProtectedPVCConditionReady :: "vrgs \<Rightarrow> string \<Rightarrow> bool" where
  "isVolSyncProtectedPVCConditionReady s conType \<longleftrightarrow>
     protectedPVCs s \<noteq> []
     \<and> list_all (\<lambda>p. pvcProtectedByVolSync p \<longrightarrow>
          (case FindCondition (pvcConditions p) conType of None \<Rightarrow> False | Some c \<Rightarrow> cStatus c = ConditionTrue))
        (protectedPVCs s)"

definition aggregateVolSyncDataReadyCondition :: "vrgs \<Rightarrow> condition" where
  "aggregateVolSyncDataReadyCondition s =
     (let v = iVrg s; mk = (\<lambda>st reason msg. mkCondition ''DataReady'' reason (vGeneration v) st msg)
      in if iVolSyncPVCs s = [] then mk ConditionTrue ''Unused'' ''No PVCs are protected using Volsync scheme''
         else if vReplicationState (vSpec v) = Secondary
         then if iWorkloadStatus s = ''active'' then mk ConditionFalse ''Progressing'' ''Some of the VolSync PVCs are active''
              else mk ConditionTrue ''Unused'' ''Volsync based PVC protection does not report DataReady condition as Secondary''
         else if isVolSyncProtectedPVCConditionReady s ''PVsRestored''
                 \<or> isVolSyncProtectedPVCConditionReady s ''ReplicationSourceSetup''
         then mk ConditionTrue ''Ready'' ''All VolSync PVCs are ready''
         else mk ConditionFalse ''Progressing'' ''Not all VolSync PVCs are ready'')"

definition isRSLastSyncTimeReady :: "replication_source \<Rightarrow> bool" where
  "isRSLastSyncTimeReady rs \<longleftrightarrow> rsrcLastSyncTime rs \<noteq> None"

definition IsRSDataProtected :: "string \<Rightarrow> string \<Rightarrow> bool vrgm" where
  "IsRSDataProtected name ns =
     bindM (attemptM (getFrom kReplicationSources name ns))
       (\<lambda>r. case r of
          Inl e \<Rightarrow> if IsNotFound e then ret False else failM e
        | Inr rs \<Rightarrow> ret (isRSLastSyncTimeReady rs))"

text \<open>Whether every PVC is ready, and how many were counted before the loop ended.\<close>

fun volSyncReadyLoop :: "nat \<Rightarrow> protected_pvc list \<Rightarrow> (bool \<times> nat) vrgm" where
  "volSyncReadyLoop n [] = ret (True, n)"
| "volSyncReadyLoop n (p # ps) =
     (if \<not> pvcProtectedByVolSync p then volSyncReadyLoop n ps
      else if (case FindCondition (pvcConditions p) ''ReplicationSourceSetup'' of
                 None \<Rightarrow> True | Some c \<Rightarrow> cStatus c \<noteq> ConditionTrue) then ret (False, Suc n)
      else if (case FindCondition (pvcConditions p) ''FinalSyncInProgress'' of
                 None \<Rightarrow> False | Some c \<Rightarrow> cStatus c \<noteq> ConditionTrue) then ret (False, Suc n)
      else bindM (attemptM (IsRSDataProtected (pvcName p) (pvcNamespace p)))
             (\<lambda>r. if r \<noteq> Inr True then ret (False, Suc n) else volSyncReadyLoop (Suc n) ps))"

definition buildDataProtectedCondition :: "condition vrgm" where
  "buildDataProtectedCondition =
     bindM (getsM (\<lambda>s. (iVrg s, iVolSyncPVCs s)))
       (\<lambda>(v, pvcs).
          if pvcs = [] \<and> vsRDSpec (vVolSync (vSpec v)) = []
          then ret (newVRGAsDataProtectedUnusedCondition (vGeneration v) ''No PVCs are protected using Volsync scheme'')
          else if vReplicationState (vSpec v) = Secondary
          then ret (newVRGAsDataProtectedUnusedCondition (vGeneration v)
                 ''Volsync based PVC protection does not report DataProtected/ClusterDataProtected conditions as Secondary'')
          else bindM (volSyncReadyLoop 0 (vProtectedPVCs (vStatus v)))
            (\<lambda>(ready, count).
               if ready \<and> length (filter (\<lambda>c. \<not> claimDeleted c) pvcs) \<le> count
               then ret (mkCondition ''DataProtected'' ''DataProtected'' (vGeneration v) ConditionTrue
                      ''All VolSync PVCs are protected'')
               else ret (mkCondition ''DataProtected'' ''Progressing'' (vGeneration v) ConditionFalse
                      ''Not all VolSync PVCs are protected'')))"

definition aggregateVolSyncDataProtectedConditions :: "(condition \<times> condition) vrgm" where
  "aggregateVolSyncDataProtectedConditions =
     bindM buildDataProtectedCondition (\<lambda>c. ret (c, c\<lparr>cType := ''ClusterDataProtected''\<rparr>))"

section \<open>Conflicts\<close>

definition IsDRActionInProgress :: "vrg \<Rightarrow> bool" where
  "IsDRActionInProgress v =
     (let action = vAction (vSpec v); st = vState (vStatus v); desired = vReplicationState (vSpec v)
      in if action = VRGActionNone \<and> (st = UnknownState \<or> st = StateUnset) then False
         else if vDeleted v then False
         else (desired = Secondary \<and> st \<noteq> SecondaryState \<or> desired = Primary \<and> st \<noteq> PrimaryState)
              \<and> action \<noteq> VRGActionNone)"

definition IsSecondaryVRG :: "vrg \<Rightarrow> bool" where
  "IsSecondaryVRG v \<longleftrightarrow> vReplicationState (vSpec v) = Secondary \<and> vState (vStatus v) = SecondaryState"

definition validateSecondaryPVCConflictForVolsync :: "vrgs \<Rightarrow> bool" where
  "validateSecondaryPVCConflictForVolsync s \<longleftrightarrow>
     IsSecondaryVRG (iVrg s)
     \<and> list_ex (\<lambda>pvc. \<not> list_ex (\<lambda>rd. isPVC (claimNamespace pvc) (claimName pvc) (rdProtectedPVC rd))
                         (vsRDSpec (vVolSync (vrgSpecOf s)))) (iVolSyncPVCs s)"

definition aggregateVolSyncClusterDataConflictCondition :: "vrgs \<Rightarrow> condition" where
  "aggregateVolSyncClusterDataConflictCondition s =
     (let generation = vGeneration (iVrg s)
      in if validateSecondaryPVCConflictForVolsync s
         then updateVRGNoClusterDataConflictCondition generation ConditionFalse ''ClusterDataConflictSecondary''
                ''A PVC that is not a replication destination should not match the label selector.''
         else mkCondition ''NoClusterDataConflict'' ''NoConflictDetected'' generation ConditionTrue
                ''No PVC conflict detected for VolumeSync scheme'')"

definition hasConflictingVolRepPVCsOnSecondary :: "vrgs \<Rightarrow> bool" where
  "hasConflictingVolRepPVCsOnSecondary s \<longleftrightarrow>
     IsSecondaryVRG (iVrg s) \<and> list_ex (\<lambda>pvc. \<not> claimDeleted pvc) (iVolRepPVCs s)"

definition validateSecondaryPVCConflictForVolRep :: "vrgs \<Rightarrow> condition option" where
  "validateSecondaryPVCConflictForVolRep s =
     (if IsDRActionInProgress (iVrg s) then None
      else if hasConflictingVolRepPVCsOnSecondary s
      then Some (updateVRGNoClusterDataConflictCondition (vGeneration (iVrg s)) ConditionFalse
             ''ClusterDataConflictSecondary'' ''No PVC on the secondary should match the label selector'')
      else None)"

definition aggregateVolRepClusterDataConflictCondition :: "vrgs \<Rightarrow> condition" where
  "aggregateVolRepClusterDataConflictCondition s =
     (case validateSecondaryPVCConflictForVolRep s of
        Some c \<Rightarrow> c
      | None \<Rightarrow> mkCondition ''NoClusterDataConflict'' ''NoConflictDetected'' (vGeneration (iVrg s)) ConditionTrue
                  ''No PVC conflict detected for VolumeReplication scheme'')"

text \<open>Virtual machines: their parameters in the recipe, and the lists of them.\<close>

definition recipeParameter :: "vrg \<Rightarrow> string \<Rightarrow> string list" where
  "recipeParameter v key =
     (case vKubeObjectProtection (vSpec v) of
        None \<Rightarrow> []
      | Some k \<Rightarrow> (case map_of (kopRecipeParameters k) key of None \<Rightarrow> [] | Some vals \<Rightarrow> vals))"

definition ListVMsByLabelSelector :: "string list \<Rightarrow> string list \<Rightarrow> string list vrgm" where
  "ListVMsByLabelSelector selectors namespaces =
     foldlM (\<lambda>found (ns, ls).
        bindM (listAll kVMs (\<lambda>vm. vmNamespace vm = ns
                 \<and> map_of (vmLabels vm) ''ramendr.openshift.io/k8s-resource-selector'' = Some ls))
          (\<lambda>vms. ret (found @ map vmName vms)))
       [] (List.product namespaces selectors)"

definition ListVMsByVMNamespace :: "string list \<Rightarrow> string list \<Rightarrow> virtual_machine list vrgm" where
  "ListVMsByVMNamespace namespaces vms =
     foldlM (\<lambda>found (ns, name).
        if list_ex (\<lambda>vm. vmNamespace vm = ns \<and> vmName vm = name) found then ret found
        else bindM (attemptM (listAll kVMs (\<lambda>vm. vmNamespace vm = ns \<and> vmName vm = name)))
               (\<lambda>r. case r of
                  Inl e \<Rightarrow> if IsNotFound e then ret found else failM e
                | Inr got \<Rightarrow> ret (found @ take 1 got)))
       [] (List.product namespaces vms)"

definition classifyVMStaticIP :: "virtual_machine \<Rightarrow> (string \<times> string list) list option vrgm" where
  "classifyVMStaticIP vm =
     (case vmAddresses vm of
        None \<Rightarrow> ret None
      | Some None \<Rightarrow> failM (newE (''VM '' @ vmNamespace vm @ ''/'' @ vmName vm @ '' has malformed static IP annotation''))
      | Some (Some addresses) \<Rightarrow> ret (Some addresses))"

definition buildDiscoveredResources ::
  "(virtual_machine \<times> (string \<times> string list) list option) list \<Rightarrow> discovered_resource list" where
  "buildDiscoveredResources infos =
     List.map_filter (\<lambda>(vm, info). map_option
        (\<lambda>addresses. \<lparr>drResourceRef = \<lparr>rrAPIVersion = [], rrKind = [], rrNamespace = vmNamespace vm, rrName = vmName vm\<rparr>,
                      drNetworks = map (\<lambda>(n, as). \<lparr>dnNetworkName = n, dnAddresses = as\<rparr>) addresses\<rparr>) info) infos"

definition ValidateStaticIPNetworkMapping ::
  "string list \<Rightarrow> string list \<Rightarrow> (virtual_machine \<times> (string \<times> string list) list option) list vrgm" where
  "ValidateStaticIPNetworkMapping vmList vmNamespaces =
     (if vmList = [] then failM (newE ''cannot perform VM network discovery: protected VM list is empty'')
      else bindM (catchM (ListVMsByVMNamespace vmNamespaces vmList)
                    (\<lambda>e. failM (wrapE ''failed to list protected VMs for static IP validation: '' e [])))
        (\<lambda>vms. if vms = []
               then failM (newE ''none of the configured protected VMs were found in the protected namespaces'')
               else foldlM (\<lambda>infos vm. bindM (classifyVMStaticIP vm) (\<lambda>info. ret (infos @ [(vm, info)]))) [] vms))"

definition validateAndRecordStaticIPDiscovery :: "string list \<Rightarrow> string list \<Rightarrow> unit vrgm" where
  "validateAndRecordStaticIPDiscovery vmList vmNamespaces =
     bindM (catchM (ValidateStaticIPNetworkMapping vmList vmNamespaces)
              (\<lambda>e. failM (wrapE ''static IP validation failed: '' e [])))
       (\<lambda>infos. modifyM (updStatus (\<lambda>st. st\<lparr>vStaticIPDiscovery := Some (buildDiscoveredResources infos)\<rparr>)))"

definition CheckForVMConflictOnPrimary :: "unit vrgm" where
  "CheckForVMConflictOnPrimary =
     bindM (getsM iVrg)
       (\<lambda>v. let vmNamespaces = recipeParameter v ''VM_NAMESPACE''; vmList = recipeParameter v ''PROTECTED_VMS''
            in bindM (ListVMsByLabelSelector (recipeParameter v ''K8S_RESOURCE_SELECTOR'') vmNamespaces)
              (\<lambda>found. if set found \<noteq> set vmList
                 then failM (newE (''mismatch between VMs in the protection spec and those matched by the ''
                                   @ ''label selector, potentially affecting failover or recovery''))
                 else validateAndRecordStaticIPDiscovery vmList vmNamespaces))"

definition CheckForVMNameConflictOnSecondary :: "string list \<Rightarrow> string list \<Rightarrow> unit vrgm" where
  "CheckForVMNameConflictOnSecondary vmNamespaces vmList =
     bindM (ListVMsByVMNamespace vmNamespaces vmList)
       (\<lambda>found. if found = [] then ret ()
                else failM (newE (''protected VMs on the primary cluster share names with VMs on ''
                                  @ ''the secondary site, which may impact failover or recovery'')))"

definition CheckForVMConflictOnSecondary :: "unit vrgm" where
  "CheckForVMConflictOnSecondary =
     bindM (getsM iVrg)
       (\<lambda>v. let vmNamespaces = recipeParameter v ''VM_NAMESPACE''
            in seqM (CheckForVMNameConflictOnSecondary vmNamespaces (recipeParameter v ''PROTECTED_VMS''))
                 (bindM (ListVMsByLabelSelector (recipeParameter v ''K8S_RESOURCE_SELECTOR'') vmNamespaces)
                    (\<lambda>found. if found = [] then ret ()
                       else failM (newE (''protected VMs on the primary cluster match labeled VMs on the secondary site,''
                                         @ '' potentially impacting failover or recovery'')))))"

definition validateVMsForStandaloneProtection :: "unit vrgm" where
  "validateVMsForStandaloneProtection =
     bindM (getsM iVrg)
       (\<lambda>v. if IsDRActionInProgress v then ret ()
            else case vReplicationState (vSpec v) of
              Secondary \<Rightarrow> CheckForVMConflictOnSecondary
            | Primary \<Rightarrow> CheckForVMConflictOnPrimary
            | ReplicationStateUnset \<Rightarrow> ret ())"

definition clusterDataConflict :: "vrg \<Rightarrow> string \<Rightarrow> condition_status \<Rightarrow> condition option" where
  "clusterDataConflict v msg st =
     (case vReplicationState (vSpec v) of
        Primary \<Rightarrow> Some (updateVRGNoClusterDataConflictCondition (vGeneration v) st ''ClusterDataConflictPrimary'' msg)
      | Secondary \<Rightarrow> Some (updateVRGNoClusterDataConflictCondition (vGeneration v) st ''ClusterDataConflictSecondary'' msg)
      | ReplicationStateUnset \<Rightarrow> None)"

definition aggregateVMNoClusterDataConflictCondition :: "condition option vrgm" where
  "aggregateVMNoClusterDataConflictCondition =
     bindM (getsM iVrg)
       (\<lambda>v. bindM (attemptM (whenM (IsVMRecipe (vKubeObjectProtection (vSpec v))) validateVMsForStandaloneProtection))
          (\<lambda>r. case r of
             Inl e \<Rightarrow> ret (clusterDataConflict v
                       (''VM protection validation failed on the '' @ replicationStateText (vReplicationState (vSpec v))
                        @ '' cluster due to a '' @ Error e) ConditionFalse)
           | Inr _ \<Rightarrow> ret (clusterDataConflict v ''No resource conflict'' ConditionTrue)))"

definition PrioritizePrimaryClusterDataConflictCondition :: "vrg \<Rightarrow> condition \<Rightarrow> condition \<Rightarrow> condition" where
  "PrioritizePrimaryClusterDataConflictCondition v vmC pvcC =
     (if cReason vmC = cReason pvcC
      then vmC\<lparr>cMessage := ''Both VM and PVC resource conflicting on ''
                 @ replicationStateText (vReplicationState (vSpec v)) @ '' cluster''\<rparr>
      else if cReason vmC = ''ClusterDataConflictPrimary'' then vmC else pvcC)"

definition aggregateVRGNoClusterDataConflictCondition :: "condition option vrgm" where
  "aggregateVRGNoClusterDataConflictCondition =
     bindM aggregateVMNoClusterDataConflictCondition
       (\<lambda>vm. bindM (getsM (\<lambda>s. (iVrg s, aggregateVolRepClusterDataConflictCondition s)))
          (\<lambda>(v, pvcC).
             case vm of
               None \<Rightarrow> ret (if cStatus pvcC = ConditionFalse then Some pvcC else None)
             | Some vmC \<Rightarrow>
                 if cStatus vmC \<noteq> ConditionFalse \<and> cStatus pvcC \<noteq> ConditionFalse then ret (Some vmC)
                 else if cStatus vmC = ConditionFalse \<and> cStatus pvcC = ConditionFalse
                 then ret (Some (PrioritizePrimaryClusterDataConflictCondition v vmC pvcC))
                 else if cStatus vmC = ConditionFalse then ret (Some vmC)
                 else ret (Some pvcC)))"

section \<open>Automatic cleanup\<close>

definition vrgIsDiscoveredApp :: "vrg \<Rightarrow> bool" where
  "vrgIsDiscoveredApp v \<longleftrightarrow>
     (case vProtectedNamespaces (vSpec v) of None \<Rightarrow> False | Some ns \<Rightarrow> ns \<noteq> [])"

definition updateVRGAutoCleanupCondition :: "unit vrgm" where
  "updateVRGAutoCleanupCondition =
     modifyM (\<lambda>s. let v = iVrg s;
        setc = (\<lambda>st msg. updConditions (\<lambda>cs. setVRGAutoCleanupCondition (clock s) cs (vGeneration v) st ''Unused'' msg) s)
      in if \<not> vrgIsDiscoveredApp v
         then setc ConditionFalse ''Automated Cleanup not applicable: GitOps manages the application's resource lifecycle.''
         else if \<not> IsVMRecipe (vKubeObjectProtection (vSpec v))
         then setc ConditionFalse ''Automated cleanup is not supported for this application's protection configuration.''
         else if iVolSyncPVCs s \<noteq> []
         then setc ConditionFalse ''Automated cleanup not applicable for VMs with volumes protected by VolSync.''
         else if \<not> IsDRActionInProgress v
         then setc ConditionTrue
           ''Automated cleanup is supported, but no DR action is in progress and no cleanup is currently required.''
         else s)"

definition aggregateVRGAutoCleanupCondition :: "vrgs \<Rightarrow> condition option" where
  "aggregateVRGAutoCleanupCondition s =
     (let v = iVrg s; cur = FindCondition (vConditions (vStatus v)) ''AutoCleanup'';
          mk = (\<lambda>st reason msg. Some (mkCondition ''AutoCleanup'' reason (vGeneration v) st msg))
      in if \<not> IsVMRecipe (vKubeObjectProtection (vSpec v)) \<or> iVolSyncPVCs s \<noteq> [] then cur
         else if \<not> IsDRActionInProgress v
         then mk ConditionTrue ''Unused'' ''No DR action in progress; no resource cleanup required''
         else case cur of
           Some c \<Rightarrow> mk (cStatus c) (cReason c) (cMessage c)
         | None \<Rightarrow> mk ConditionUnknown ''Progressing'' ''DR action in progress; auto cleanup status unknown'')"

section \<open>Sync counters of the group\<close>

fun leastLastSyncTime :: "int option \<Rightarrow> protected_pvc list \<Rightarrow> int option" where
  "leastLastSyncTime least [] = least"
| "leastLastSyncTime least (p # ps) =
     (case (pvcLastSyncTime p, least) of
        (None, _) \<Rightarrow> None
      | (Some t, None) \<Rightarrow> leastLastSyncTime (Some t) ps
      | (Some t, Some l) \<Rightarrow> leastLastSyncTime (Some (if t < l then t else l)) ps)"

fun maxLastSyncDuration :: "int option \<Rightarrow> protected_pvc list \<Rightarrow> int option" where
  "maxLastSyncDuration longest [] = longest"
| "maxLastSyncDuration longest (p # ps) =
     maxLastSyncDuration
       (case (longest, pvcLastSyncDuration p) of
          (_, None) \<Rightarrow> longest
        | (None, Some d) \<Rightarrow> Some d
        | (Some l, Some d) \<Rightarrow> Some (if d > l then d else l)) ps"

text \<open>The sum of \<^verbatim>\<open>int64\<close> values wraps.\<close>

definition wrap64 :: "int \<Rightarrow> int" where
  "wrap64 x = (x + 2 ^ 63) mod 2 ^ 64 - 2 ^ 63"

fun totalLastSyncBytes :: "int option \<Rightarrow> protected_pvc list \<Rightarrow> int option" where
  "totalLastSyncBytes sofar [] = sofar"
| "totalLastSyncBytes sofar (p # ps) =
     totalLastSyncBytes
       (case (sofar, pvcLastSyncBytes p) of
          (_, None) \<Rightarrow> sofar
        | (None, Some b) \<Rightarrow> Some b
        | (Some t, Some b) \<Rightarrow> Some (wrap64 (t + b))) ps"

definition updateVRGLastGroupSyncTime :: "vrg_status \<Rightarrow> vrg_status" where
  "updateVRGLastGroupSyncTime st = st\<lparr>vLastGroupSyncTime := leastLastSyncTime None (vProtectedPVCs st)\<rparr>"

definition updateVRGLastGroupSyncDuration :: "vrg_status \<Rightarrow> vrg_status" where
  "updateVRGLastGroupSyncDuration st = st\<lparr>vLastGroupSyncDuration := maxLastSyncDuration None (vProtectedPVCs st)\<rparr>"

definition updateLastGroupSyncBytes :: "vrg_status \<Rightarrow> vrg_status" where
  "updateLastGroupSyncBytes st = st\<lparr>vLastGroupSyncBytes := totalLastSyncBytes None (vProtectedPVCs st)\<rparr>"

section \<open>The conditions of the VRG\<close>

definition logAndSetConditions :: "condition option list \<Rightarrow> unit vrgm" where
  "logAndSetConditions subs =
     modifyM (\<lambda>s. updConditions (\<lambda>cs. fst (MergeConditions (SetStatusCondition (clock s)) cs [''Unused''] subs)) s)"

definition updateVRGDataReadyCondition :: "unit vrgm" where
  "updateVRGDataReadyCondition =
     bindM (getsM (\<lambda>s. [if vSync (vrgSpecOf s) = None then Some (aggregateVolSyncDataReadyCondition s) else None,
                       Some (aggregateVolRepDataReadyCondition s)]))
       logAndSetConditions"

definition updateVRGConditions :: "unit vrgm" where
  "updateVRGConditions =
     bindM (getsM (\<lambda>s. vSync (vrgSpecOf s) = None))
       (\<lambda>async.
     bindM (if async then bindM aggregateVolSyncDataProtectedConditions (\<lambda>(d, c). ret (Some d, Some c)) else ret (None, None))
       (\<lambda>(volSyncDataProtected, volSyncClusterDataProtected).
     bindM (getsM (\<lambda>s. if async then Some (aggregateVolSyncClusterDataConflictCondition s) else None))
       (\<lambda>volSyncConflict.
     seqM updateVRGDataReadyCondition
    (bindM (getsM (\<lambda>s. [volSyncDataProtected, Some (aggregateVolRepDataProtectedCondition s)]))
       (\<lambda>dataProtected.
     seqM (logAndSetConditions dataProtected)
    (bindM (getsM (\<lambda>s. [volSyncClusterDataProtected, Some (aggregateVolRepClusterDataProtectedCondition s),
                       iVrgObjectProtected s, iKubeObjectsProtected s]))
       (\<lambda>clusterDataProtected.
     seqM (logAndSetConditions clusterDataProtected)
    (bindM aggregateVRGNoClusterDataConflictCondition
       (\<lambda>conflict.
     seqM (logAndSetConditions [volSyncConflict, conflict])
    (bindM (getsM aggregateVRGAutoCleanupCondition)
       (\<lambda>cleanup.
     seqM (logAndSetConditions [cleanup])
    (bindM (getsM aggregateVolRepDestinationInfoAvailableCondition)
       (\<lambda>destination.
     seqM (whenM (destination \<noteq> None) (logAndSetConditions [destination]))
    (bindM (getsM aggregateVolRepReplicationHealthyCondition)
       (\<lambda>healthy.
     seqM (whenM (healthy \<noteq> None) (logAndSetConditions [healthy]))
       (modifyM (updStatus (updateLastGroupSyncBytes \<circ> updateVRGLastGroupSyncDuration \<circ> updateVRGLastGroupSyncTime))))))))))))))))))"

section \<open>The state of the VRG\<close>

definition updateStatusStateForSecondary :: "vrgs \<Rightarrow> vrg_state" where
  "updateStatusStateForSecondary s =
     (let v = iVrg s
      in if vAction (vSpec v) \<noteq> VRGActionRelocate then SecondaryState
         else case FindCondition (vConditions (vStatus v)) ''DataProtected'' of
           None \<Rightarrow> if iVolRepPVCs s = [] then SecondaryState else UnknownState
         | Some c \<Rightarrow> if cStatus c = ConditionTrue \<and> cObservedGeneration c = vGeneration v
                      then SecondaryState else UnknownState)"

definition specStateToStatusState :: "replication_state \<Rightarrow> vrg_state" where
  "specStateToStatusState st =
     (case st of Primary \<Rightarrow> PrimaryState | Secondary \<Rightarrow> SecondaryState | ReplicationStateUnset \<Rightarrow> UnknownState)"

text \<open>Go dereferences the DataReady condition without a check for nil.\<close>

definition updateStatusState :: "unit vrgm" where
  "updateStatusState =
     bindM (getsM (\<lambda>s. FindCondition (vConditions (vrgStatusOf s)) ''DataReady''))
       (\<lambda>found. case found of
          None \<Rightarrow> failM nilDereference
        | Some c \<Rightarrow>
            modifyM (\<lambda>s. let v = iVrg s in
              updStatus (\<lambda>st. st\<lparr>vState :=
                 (if cStatus c \<noteq> ConditionTrue \<or> cObservedGeneration c \<noteq> vGeneration v then UnknownState
                  else if vReplicationState (vSpec v) = Primary then specStateToStatusState Primary
                  else updateStatusStateForSecondary s)\<rparr>) s))"

definition updateProtectedCGsForVolRep :: "string list list vrgm" where
  "updateProtectedCGsForVolRep =
     bindM (getsM (OwnerLabels \<circ> iVrg))
       (\<lambda>labels. bindM (catchM (listAll vgrsInOrder (\<lambda>vgr. matchesLabels labels (vrLabels vgr)))
                          (\<lambda>e. failM (wrapE ''failed to list Volume Group Replications, '' e [])))
          (\<lambda>vgrs. ret (filter (\<lambda>g. g \<noteq> []) (map (\<lambda>vgr. filter (\<lambda>n. n \<noteq> []) (vgrClaimRefs vgr)) vgrs))))"

definition updateProtectedCGsForVolSync :: "string list list vrgm" where
  "updateProtectedCGsForVolSync =
     bindM (getsM (\<lambda>s. [(''volumereplicationgroups-owner'', vName (iVrg s)),
                        (''volumereplicationgroups-owner-namespace'', vNamespace (iVrg s))]))
       (\<lambda>labels. bindM (catchM (listAll kReplicationGroupSources (\<lambda>rgs. matchesLabels labels (fst rgs)))
                          (\<lambda>e. failM (wrapE ''failed to list Replication Group Sources, '' e [])))
          (\<lambda>rgss. ret (filter (\<lambda>g. g \<noteq> []) (map (\<lambda>rgs. filter (\<lambda>n. n \<noteq> []) (snd rgs)) rgss))))"

text \<open>The result is whether to requeue.\<close>

definition updateVRGStatus :: "bool \<Rightarrow> bool vrgm" where
  "updateVRGStatus requeue =
     catchM
      (bindM IsCGEnabledForVolRep
        (\<lambda>cgVolRep. bindM (if cgVolRep then updateProtectedCGsForVolRep else ret [])
           (\<lambda>gs1. bindM IsCGEnabledForVolSync
              (\<lambda>cgVolSync. bindM (if cgVolSync then updateProtectedCGsForVolSync else ret [])
                 (\<lambda>gs2. seqM (modifyM (updStatus (\<lambda>st. st\<lparr>vPVCGroups := gs1 @ gs2\<rparr>)))
                    (seqM updateStatusState
                       (seqM (modifyM (\<lambda>s. updStatus (\<lambda>st. st\<lparr>vStatusObservedGeneration := vGeneration (iVrg s)\<rparr>) s))
                          (bindM (getsM (\<lambda>s. (iSaved s \<noteq> vrgStatusOf s, clock s)))
                             (\<lambda>(changed, now).
                                seqM (whenM changed
                                        (seqM (modifyM (updStatus (\<lambda>st. st\<lparr>vLastUpdateTime := now\<rparr>))) updateServerStatus))
                                  (ret requeue)))))))))
       )
       (\<lambda>e. if ekind_of e = GoPanic then failM e else ret True)"

definition updateVRGConditionsAndStatus :: "bool \<Rightarrow> bool vrgm" where
  "updateVRGConditionsAndStatus requeue = seqM updateVRGConditions (updateVRGStatus requeue)"

section \<open>What the aggregated conditions say\<close>

text \<open>
  Of the PVCs replicated by VolumeReplication: when one counts as ready, and when as protected.
\<close>

definition countsAsReady :: "vrg \<Rightarrow> protected_pvc \<Rightarrow> bool" where
  "countsAsReady v p \<longleftrightarrow> pvcProtectedByVolSync p \<or>
     (case FindCondition (pvcConditions p) ''DataReady'' of
        None \<Rightarrow> False
      | Some c \<Rightarrow> (vrgHasGlobalVGRLabel v \<longrightarrow> cObservedGeneration c = vGeneration v)
                  \<and> cReason c \<notin> {''Progressing'', ''Error'', ''UnknownError''})"

definition countsAsProtected :: "protected_pvc \<Rightarrow> bool" where
  "countsAsProtected p \<longleftrightarrow> pvcProtectedByVolSync p \<or>
     (case FindCondition (pvcConditions p) ''DataProtected'' of
        None \<Rightarrow> False
      | Some c \<Rightarrow> cReason c \<notin> {''Replicating'', ''Ready'', ''Error'', ''UnknownError''})"

definition countsAsUploaded :: "protected_pvc \<Rightarrow> bool" where
  "countsAsUploaded p \<longleftrightarrow> pvcProtectedByVolSync p \<or>
     (case FindCondition (pvcConditions p) ''ClusterDataProtected'' of None \<Rightarrow> False | Some c \<Rightarrow> cReason c = ''Uploaded'')"

lemma dataReadyLoop_iff: "fst (dataReadyLoop v acc ps) \<longleftrightarrow> fst acc \<and> list_all (countsAsReady v) ps"
  by (induction v acc ps rule: dataReadyLoop.induct) (auto simp: countsAsReady_def split: option.splits)

lemma dataProtectedLoop_iff: "fst (dataProtectedLoop acc ps) \<longleftrightarrow> fst acc \<and> list_all countsAsProtected ps"
  by (induction acc ps rule: dataProtectedLoop.induct) (auto simp: countsAsProtected_def split: option.splits)

lemma clusterDataLoop_iff: "clusterDataLoop b ps = Inr False \<longleftrightarrow> \<not> b \<and> list_all countsAsUploaded ps"
  by (induction b ps rule: clusterDataLoop.induct) (auto simp: countsAsUploaded_def split: option.splits)

lemmas vrg_condition_defs = mkCondition_def vrgReadyStatus_def newVRGDataReplicatingCondition_def
  newVRGAsPrimaryReadyCondition_def newVRGDataProgressingCondition_def newVRGDataErrorCondition_def
  newVRGAsDataProtectedUnusedCondition_def newVRGAsDataProtectedCondition_def newVRGDataProtectionProgressCondition_def
  newVRGAsDataNotProtectedCondition_def newVRGClusterDataProtectedUnusedCondition_def newVRGClusterDataUnprotectedCondition_def
  newVRGClusterDataProtectingCondition_def newVRGClusterDataProtectedCondition_def


end
