(* ===== verification/Ramen_NetAddr.thy ===== *)
theory Ramen_NetAddr
  imports Ramen_Cidr
begin

text \<open>
  Addresses and networks of Go's package \<^verbatim>\<open>net\<close>, as the network mapping of a DRPC uses them: \<^verbatim>\<open>net.IP\<close> is a list of bytes,
  four for IPv4 and sixteen otherwise, where \<^verbatim>\<open>net.ParseIP\<close> always gives the sixteen-byte form. The parsers here return what
  those of \<open>Ramen_Cidr\<close> accept. The last section shows that the text of an IPv4 address is parsed back to it.
\<close>

unbundle bit_operations_syntax

type_synonym byte = "8 word"

type_synonym net_ip = "byte list"

record ip_net =
  netIP :: net_ip
  netMask :: "byte list"

section \<open>Parsing\<close>

definition parseIPv4Fields :: "string \<Rightarrow> net_ip option" where
  "parseIPv4Fields s =
     (if parseIPv4 s then Some (map (\<lambda>f. of_nat (decimalValue f)) (splitOn CHR ''.'' s)) else None)"

definition hexDigitValue :: "char \<Rightarrow> nat" where
  "hexDigitValue c =
     (if isDigit c then of_char c - 48
      else if CHR ''a'' \<le> c then of_char c - 87
      else of_char c - 55)"

text \<open>The two bytes of a group of at most four hexadecimal digits.\<close>

definition hexGroup :: "string \<Rightarrow> net_ip" where
  "hexGroup digits =
     (let ds = replicate (4 - length digits) 0 @ map hexDigitValue digits
      in [of_nat (16 * ds ! 0 + ds ! 1), of_nat (16 * ds ! 2 + ds ! 3)])"

text \<open>The end of \<^verbatim>\<open>parseIPv6\<close>: the ellipsis stands for at least one group of zeros.\<close>

definition expandEllipsis :: "net_ip \<Rightarrow> nat option \<Rightarrow> net_ip option" where
  "expandEllipsis ip ellipsis =
     (if length ip < 16
      then (case ellipsis of
              None \<Rightarrow> None
            | Some k \<Rightarrow> Some (take k ip @ replicate (16 - length ip) 0 @ drop k ip))
      else if ellipsis \<noteq> None then None else Some ip)"

function parseIPv6Bytes :: "string \<Rightarrow> net_ip \<Rightarrow> nat option \<Rightarrow> net_ip option" where
  "parseIPv6Bytes s ip ellipsis =
     (if length ip \<ge> 16 then (if s = [] then expandEllipsis ip ellipsis else None)
      else let digits = takeWhile isHexDigit s; rest = dropWhile isHexDigit s; ip' = ip @ hexGroup digits
           in if digits = [] \<or> length digits > 4 then None
              else case rest of
                     [] \<Rightarrow> expandEllipsis ip' ellipsis
                   | c # rest' \<Rightarrow>
                       if c = CHR ''.''
                       then (if ellipsis = None \<and> length ip \<noteq> 12 \<or> length ip + 4 > 16 then None
                             else case parseIPv4Fields s of
                                    None \<Rightarrow> None
                                  | Some v4 \<Rightarrow> expandEllipsis (ip @ v4) ellipsis)
                       else if c \<noteq> CHR '':'' \<or> rest' = [] then None
                       else if hd rest' \<noteq> CHR '':'' then parseIPv6Bytes rest' ip' ellipsis
                       else if ellipsis \<noteq> None then None
                       else if tl rest' = [] then expandEllipsis ip' (Some (length ip'))
                       else parseIPv6Bytes (tl rest') ip' (Some (length ip')))"
  by pat_completeness auto
termination
  by (relation "measure (\<lambda>(s, ip, e). 16 - length ip)") (auto simp: hexGroup_def Let_def)

declare parseIPv6Bytes.simps [simp del]

definition v4InV6Prefix :: net_ip where
  "v4InV6Prefix = replicate 10 0 @ [255, 255]"

text \<open>\<^verbatim>\<open>netip.ParseAddr\<close> of an address without a zone: its \<^verbatim>\<open>BitLen\<close> and \<^verbatim>\<open>As16\<close>.\<close>

definition ParseAddr :: "string \<Rightarrow> (nat \<times> net_ip) option" where
  "ParseAddr s =
     (case find (\<lambda>c. c = CHR ''.'' \<or> c = CHR '':'' \<or> c = CHR ''%'') s of
        None \<Rightarrow> None
      | Some c \<Rightarrow>
          if c = CHR ''.'' then map_option (\<lambda>v4. (32, v4InV6Prefix @ v4)) (parseIPv4Fields s)
          else if c = CHR '':'' \<and> CHR ''%'' \<notin> set s
          then map_option (Pair 128)
                 (if take 2 s = ''::''
                  then (if drop 2 s = [] then Some (replicate 16 0) else parseIPv6Bytes (drop 2 s) [] (Some 0))
                  else parseIPv6Bytes s [] None)
          else None)"

definition ParseIP :: "string \<Rightarrow> net_ip option" where
  "ParseIP s = map_option snd (ParseAddr s)"

definition To4 :: "net_ip \<Rightarrow> net_ip option" where
  "To4 ip =
     (if length ip = 4 then Some ip
      else if length ip = 16 \<and> take 12 ip = v4InV6Prefix then Some (drop 12 ip)
      else None)"

section \<open>Networks\<close>

definition prefixByte :: "nat \<Rightarrow> byte" where
  "prefixByte n = (if n \<ge> 8 then 255 else NOT (drop_bit n 255))"

definition CIDRMask :: "nat \<Rightarrow> nat \<Rightarrow> byte list" where
  "CIDRMask ones bits = map (\<lambda>i. prefixByte (ones - 8 * i)) [0..<bits div 8]"

text \<open>\<^verbatim>\<open>IP.Mask\<close>; its result is nil when the lengths do not agree.\<close>

definition maskIP :: "net_ip \<Rightarrow> byte list \<Rightarrow> net_ip" where
  "maskIP ip m =
     (let m' = (if length m = 16 \<and> length ip = 4 \<and> list_all ((=) 255) (take 12 m) then drop 12 m else m);
          ip' = (if length m' = 4 \<and> length ip = 16 \<and> take 12 ip = v4InV6Prefix then drop 12 ip else ip)
      in if length ip' \<noteq> length m' then [] else map2 (AND) ip' m')"

definition ParseCIDR :: "string \<Rightarrow> ip_net option" where
  "ParseCIDR s =
     (if \<not> parseCIDR s then None
      else let addr = takeWhile (\<lambda>c. c \<noteq> CHR ''/'') s; mask = tl (dropWhile (\<lambda>c. c \<noteq> CHR ''/'') s)
           in case ParseAddr addr of
                None \<Rightarrow> None
              | Some (bits, ip) \<Rightarrow>
                  (let m = CIDRMask (decimalValue mask) bits in Some \<lparr>netIP = maskIP ip m, netMask = m\<rparr>))"

text \<open>\<^verbatim>\<open>IPMask.Size\<close>: leading ones and bits, zero for a mask that is not a prefix.\<close>

fun simpleMaskLength :: "byte list \<Rightarrow> nat option" where
  "simpleMaskLength [] = Some 0"
| "simpleMaskLength (v # vs) =
     (if v = 255 then map_option ((+) 8) (simpleMaskLength vs)
      else if list_all ((=) 0) vs then find (\<lambda>k. v = prefixByte k) [0..<8] else None)"

definition maskSize :: "byte list \<Rightarrow> nat \<times> nat" where
  "maskSize m = (case simpleMaskLength m of None \<Rightarrow> (0, 0) | Some ones \<Rightarrow> (ones, 8 * length m))"

text \<open>\<^verbatim>\<open>networkNumberAndMask\<close>; two empty lists stand for its nil results.\<close>

definition networkNumberAndMask :: "ip_net \<Rightarrow> net_ip \<times> byte list" where
  "networkNumberAndMask n =
     (let ip = (case To4 (netIP n) of Some v4 \<Rightarrow> v4 | None \<Rightarrow> netIP n); m = netMask n
      in if length ip \<noteq> 4 \<and> length ip \<noteq> 16 then ([], [])
         else if length m = 4 then (if length ip \<noteq> 4 then ([], []) else (ip, m))
         else if length m = 16 then (ip, if length ip = 4 then drop 12 m else m)
         else ([], []))"

definition netContains :: "ip_net \<Rightarrow> net_ip \<Rightarrow> bool" where
  "netContains n ip =
     (let (nn, m) = networkNumberAndMask n; ip' = (case To4 ip of Some v4 \<Rightarrow> v4 | None \<Rightarrow> ip)
      in length ip' = length nn \<and> map2 (AND) nn m = map2 (AND) ip' m)"

definition ipEqual :: "net_ip \<Rightarrow> net_ip \<Rightarrow> bool" where
  "ipEqual a b =
     (if length a = length b then a = b
      else if length a = 4 \<and> length b = 16 then take 12 b = v4InV6Prefix \<and> drop 12 b = a
      else if length a = 16 \<and> length b = 4 then take 12 a = v4InV6Prefix \<and> drop 12 a = b
      else False)"

text \<open>\<^verbatim>\<open>IP.String\<close> of an IPv4 address, and \<^verbatim>\<open>IPNet.String\<close> of an IPv4 network.\<close>

definition ipString :: "net_ip \<Rightarrow> string" where
  "ipString ip = joinWith CHR ''.'' (map (\<lambda>b. show_nat (unat b)) ip)"

definition netString :: "ip_net \<Rightarrow> string" where
  "netString n =
     (let (nn, m) = networkNumberAndMask n in ipString nn @ ''/'' @ show_nat (fst (maskSize m)))"

lemma net_examples:
  "ParseIP ''10.8.0.255'' = Some (v4InV6Prefix @ [10, 8, 0, 255])"
  "ParseIP ''::ffff:1.2.3.4'' = Some (v4InV6Prefix @ [1, 2, 3, 4])"
  "ParseIP ''2001:db8::1'' = Some ([32, 1, 13, 184] @ replicate 11 0 @ [1])"
  "ParseIP ''10.08.0.1'' = None" "ParseIP ''fe80::1%eth0'' = None"
  "CIDRMask 20 32 = [255, 255, 240, 0]" "maskSize [255, 255, 240, 0] = (20, 32)" "maskSize [255, 1, 0, 0] = (0, 0)"
  "ParseCIDR ''192.168.100.77/26'' = Some \<lparr>netIP = [192, 168, 100, 64], netMask = [255, 255, 255, 192]\<rparr>"
  "ipString [192, 168, 0, 1] = ''192.168.0.1''"
  by code_simp+

section \<open>Agreement with the acceptors\<close>

lemma length_hexGroup [simp]: "length (hexGroup d) = 2"
  by (simp add: hexGroup_def Let_def)

lemma parseIPv4Fields_iff [simp]: "parseIPv4Fields s = None \<longleftrightarrow> \<not> parseIPv4 s"
  by (simp add: parseIPv4Fields_def)

lemma length_parseIPv4Fields: "parseIPv4Fields s = Some v \<Longrightarrow> length v = 4"
  by (auto simp: parseIPv4Fields_def parseIPv4_def Let_def split: if_splits)

lemma expandEllipsis_iff [simp]:
  "expandEllipsis ip e = None \<longleftrightarrow> (if length ip < 16 then e = None else e \<noteq> None)"
  by (auto simp: expandEllipsis_def split: option.split)

lemma parseIPv6Bytes_accepts:
  "parseIPv6Bytes s ip e = None \<longleftrightarrow> \<not> parseIPv6Groups s (length ip) (e \<noteq> None)"
proof (induction s ip e rule: parseIPv6Bytes.induct)
  case (1 s ip e)
  define d r where dr: "d = takeWhile isHexDigit s" "r = dropWhile isHexDigit s"
  note eqs = parseIPv6Bytes.simps [of s ip e, folded dr] parseIPv6Groups.simps [of s "length ip" "e \<noteq> None", folded dr]
  consider (full) "16 \<le> length ip" | (bad) "length ip < 16" "d = [] \<or> length d > 4"
    | (over) "length ip < 16" "\<not> (d = [] \<or> length d > 4)" "r = []"
    | (more) c rest where "length ip < 16" "\<not> (d = [] \<or> length d > 4)" "r = c # rest"
    by (cases r) force+
  then show ?case
  proof cases
    case full
    then show ?thesis unfolding eqs by (simp del: parseIPv6Groups.simps not_None_eq)
  next
    case bad
    then show ?thesis unfolding eqs by (simp add: Let_def del: parseIPv6Groups.simps)
  next
    case over
    then show ?thesis unfolding eqs by (simp add: Let_def del: parseIPv6Groups.simps not_None_eq)
  next
    case more
    have "\<not> 16 \<le> length ip" using more(1) by simp
    note IH = 1(1) [OF this dr refl more(2,3)] 1(2) [OF this dr refl more(2,3)]
    have "s \<noteq> []" using more(2) dr(1) by auto
    note more = this more
    show ?thesis
    proof (cases "c = CHR ''.''")
      case True
      with more parseIPv4Fields_iff [of s] show ?thesis
        unfolding eqs
        by (cases "parseIPv4Fields s"; cases e)
          (auto simp: Let_def length_parseIPv4Fields simp del: parseIPv6Groups.simps parseIPv4Fields_iff not_None_eq)
    next
      case False
      then show ?thesis
        unfolding eqs using IH more
        by (cases "c \<noteq> CHR '':'' \<or> rest = []"; cases "hd rest = CHR '':''"; cases "tl rest = []"; cases e)
          (simp_all add: Let_def del: parseIPv6Groups.simps not_None_eq)
    qed
  qed
qed

lemma ParseAddr_addrBits: "map_option fst (ParseAddr s) = addrBits s"
proof -
  have "parseIPv6Groups (drop 2 s) 0 True \<longleftrightarrow> (\<exists>y. parseIPv6Bytes (drop 2 s) [] (Some 0) = Some y)"
    "parseIPv6Groups s 0 False \<longleftrightarrow> (\<exists>y. parseIPv6Bytes s [] None = Some y)"
    using parseIPv6Bytes_accepts [of "drop 2 s" "[]" "Some 0"] parseIPv6Bytes_accepts [of s "[]" None]
    by (auto simp del: parseIPv6Groups.simps)
  then show ?thesis
    using parseIPv4Fields_iff [of s]
    by (cases "parseIPv4Fields s")
      (auto simp: ParseAddr_def addrBits_def parseIPv6_def split: option.splits
       simp del: parseIPv6Groups.simps parseIPv4Fields_iff)
qed

section \<open>Printing and parsing\<close>

lemma splitOn_joinWith:
  "ws \<noteq> [] \<Longrightarrow> (\<forall>w \<in> set ws. c \<notin> set w) \<Longrightarrow> splitOn c (joinWith c ws) = ws"
proof (induction c ws rule: joinWith.induct)
  case (2 c w)
  then show ?case by (induction w) auto
next
  case (3 c w v vs)
  then have "splitOn c (joinWith c (v # vs)) = v # vs" by simp
  moreover have "c \<notin> set w" using 3 by simp
  ultimately show ?case by (induction w) auto
qed simp

lemma digit_char: "k < 10 \<Longrightarrow> isDigit (char_of (48 + k))" "k < 10 \<Longrightarrow> of_char (char_of (48 + k) :: char) = (48 + k :: nat)"
  for k :: nat
  by (simp_all add: isDigit_def less_eq_char_def)

lemma decimalValue_snoc [simp]: "decimalValue (xs @ [c]) = 10 * decimalValue xs + (of_char c - 48)"
  by (simp add: decimalValue_def)

lemma show_nat_value [simp]: "decimalValue (show_nat n) = n"
proof (induction n rule: show_nat.induct)
  case (1 n)
  show ?case
  proof (cases "n < 10")
    case True then show ?thesis by (simp add: show_nat.simps [of n] decimalValue_def)
  next
    case False then show ?thesis using 1 by (simp add: show_nat.simps [of n])
  qed
qed

lemma show_nat_digits: "list_all isDigit (show_nat n)"
  by (induction n rule: show_nat.induct) (subst show_nat.simps, auto simp: digit_char)

lemma show_nat_nonempty [simp]: "show_nat n \<noteq> []"
  by (subst show_nat.simps) simp

lemma show_nat_leading: "n > 0 \<Longrightarrow> hd (show_nat n) \<noteq> CHR ''0''"
proof (induction n rule: show_nat.induct)
  case (1 n)
  have "of_char (char_of (48 + n) :: char) \<noteq> (of_char CHR ''0'' :: nat)" if "n < 10" using 1 that by simp
  then have "char_of (48 + n) \<noteq> CHR ''0''" if "n < 10" using that by metis
  with 1 show ?case by (subst show_nat.simps) auto
qed

lemma ipv4Field_show: "n < 256 \<Longrightarrow> ipv4Field (show_nat n)"
  using show_nat_leading [of n] by (cases "n = 0") (use show_nat_digits [of n] show_nat_value [of n] in \<open>auto simp: ipv4Field_def show_nat.simps [of 0]\<close>)

lemma ParseIP_ipString:
  assumes "length ip = 4"
  shows "ParseIP (ipString ip) = Some (v4InV6Prefix @ ip)"
proof -
  let ?ws = "map (\<lambda>b. show_nat (unat b)) ip"
  have digits: "isDigit c" if "w \<in> set ?ws" "c \<in> set w" for w c
    using that show_nat_digits by (force simp: list_all_iff)
  then have "\<forall>w \<in> set ?ws. CHR ''.'' \<notin> set w" by (force simp: isDigit_def)
  moreover have "?ws \<noteq> []" using assms by auto
  ultimately have split: "splitOn CHR ''.'' (ipString ip) = ?ws" by (simp add: ipString_def splitOn_joinWith)
  have "unat b < 256" for b :: byte using unsigned_less [of b, where 'a = nat] by simp
  then have v4: "parseIPv4Fields (ipString ip) = Some ip"
    using assms by (simp add: parseIPv4Fields_def parseIPv4_def split ipv4Field_show list_all_iff comp_def)
  have chars: "c = CHR ''.'' \<or> isDigit c" if "c \<in> set (joinWith CHR ''.'' ws)" "\<forall>w \<in> set ws. \<forall>c \<in> set w. isDigit c" for c ws
    using that by (induction "CHR ''.''" ws rule: joinWith.induct) auto
  obtain a b rest where "?ws = a # b # rest" using assms by (cases ip; cases "tl ip") auto
  then have dot: "CHR ''.'' \<in> set (ipString ip)" by (simp add: ipString_def)
  have "find (\<lambda>c. c = CHR ''.'' \<or> c = CHR '':'' \<or> c = CHR ''%'') (ipString ip) = Some CHR ''.''"
  proof -
    obtain x where x: "find (\<lambda>c. c = CHR ''.'' \<or> c = CHR '':'' \<or> c = CHR ''%'') (ipString ip) = Some x"
      using dot by (cases "find (\<lambda>c. c = CHR ''.'' \<or> c = CHR '':'' \<or> c = CHR ''%'') (ipString ip)") (auto simp: find_None_iff)
    then have "x \<in> set (ipString ip)" "x = CHR ''.'' \<or> x = CHR '':'' \<or> x = CHR ''%''"
      using nth_mem by (force simp: find_Some_iff)+
    moreover have "\<forall>w \<in> set ?ws. \<forall>c \<in> set w. isDigit c" using digits by blast
    ultimately have "x = CHR ''.''" using chars [of x ?ws] unfolding ipString_def by (auto simp: isDigit_def)
    with x show ?thesis by simp
  qed
  with v4 show ?thesis by (simp add: ParseIP_def ParseAddr_def)
qed

lemma To4_v4 [simp]: "length ip = 4 \<Longrightarrow> To4 (v4InV6Prefix @ ip) = Some ip" "length ip = 4 \<Longrightarrow> To4 ip = Some ip"
  by (simp_all add: To4_def v4InV6Prefix_def)

lemma length_To4: "To4 ip = Some v4 \<Longrightarrow> length v4 = 4"
  by (auto simp: To4_def split: if_splits)

end
