(* ===== verification/Ramen_NetworkMapping.thy ===== *)
theory Ramen_NetworkMapping
  imports Ramen_NetAddr
begin

text \<open>
  Translation of the static addresses of virtual machines between two clusters (\<^verbatim>\<open>drpc_networkmapping.go\<close>): the decoded
  document of the network-mapping ConfigMap is resolved and validated into rules, which translate an address by an explicit pair, by the
  offset in a subnet, or by a regular expression, in this order.

  Go's \<^verbatim>\<open>regexp\<close> engine and the YAML decoder are parameters: \<open>regexp_lib\<close> holds what the code calls of a compiled expression, which
  is determined by its pattern, and the document comes decoded. Go maps are association lists in the order the code ranges over them.
\<close>

section \<open>The document\<close>

type_synonym network_ref = "string \<times> string"

record regex_rule =
  rgPattern :: string
  rgReplacement :: string

record raw_network_mapping =
  rwNetworkRef :: network_ref
  rwCIDR :: strmap
  rwExplicitMappings :: "strmap list"
  rwRegexMappings :: "(string \<times> regex_rule list) list"

record raw_network_mapping_config =
  rwVersion :: string
  rwNetworkMappings :: "raw_network_mapping list"

record regexp_lib =
  rxCompileError :: "string \<Rightarrow> gerr option"
  rxMatchString :: "string \<Rightarrow> string \<Rightarrow> bool"
  rxReplaceAllString :: "string \<Rightarrow> string \<Rightarrow> string \<Rightarrow> string"

section \<open>The rules\<close>

record explicit_mappings =
  emForward :: strmap
  emReverse :: strmap

record cidr_mapping =
  cmDR1CIDR :: string
  cmDR2CIDR :: string
  cmDR1Net :: ip_net
  cmDR2Net :: ip_net

record regex_rules =
  rrForward :: "regex_rule list"
  rrReverse :: "regex_rule list"

record network_mapping_block =
  nbNetworkRef :: network_ref
  nbExplicitMappings :: "explicit_mappings option"
  nbCIDRMapping :: "cidr_mapping option"
  nbRegexRules :: "regex_rules option"

record network_mapping_rules =
  nmVersion :: string
  nmDR1 :: string
  nmDR2 :: string
  nmBlocks :: "network_mapping_block list"

datatype translation_direction = TranslationDirectionForward | TranslationDirectionReverse

datatype rule_type = RuleTypeExplicit | RuleTypeCIDR | RuleTypeRegex

section \<open>Explicit mappings\<close>

definition blockErr :: "nat \<Rightarrow> string \<Rightarrow> gerr" where
  "blockErr i msg = newE (''networkMappings['' @ show_nat i @ '']: '' @ msg)"

definition rowErr :: "nat \<Rightarrow> nat \<Rightarrow> string \<Rightarrow> gerr" where
  "rowErr i j msg = blockErr i (''explicitMappings['' @ show_nat j @ '']: '' @ msg)"

definition extractClusterIPs :: "nat \<Rightarrow> nat \<Rightarrow> strmap \<Rightarrow> string \<Rightarrow> string \<Rightarrow> gerr + string \<times> string" where
  "extractClusterIPs i j pair dr1 dr2 =
     (case (map_of pair dr1, map_of pair dr2) of
        (None, _) \<Rightarrow> Inl (rowErr i j (''missing cluster key '' @ dr1))
      | (Some _, None) \<Rightarrow> Inl (rowErr i j (''missing cluster key '' @ dr2))
      | (Some dr1IP, Some dr2IP) \<Rightarrow>
          (case find (\<lambda>k. k \<noteq> dr1 \<and> k \<noteq> dr2) (map fst pair) of
             Some k \<Rightarrow> Inl (rowErr i j (''unrecognized key '' @ k))
           | None \<Rightarrow> Inr (dr1IP, dr2IP)))"

definition parseIP4 :: "string \<Rightarrow> net_ip option" where
  "parseIP4 s = Option.bind (ParseIP s) To4"

definition normalizeExplicitIPs :: "nat \<Rightarrow> nat \<Rightarrow> string \<Rightarrow> string \<Rightarrow> string \<Rightarrow> string \<Rightarrow> gerr + string \<times> string" where
  "normalizeExplicitIPs i j dr1 dr2 dr1IP dr2IP =
     (case (parseIP4 dr1IP, parseIP4 dr2IP) of
        (None, _) \<Rightarrow> Inl (rowErr i j (''invalid or non-IPv4 '' @ dr1 @ '' address '' @ dr1IP))
      | (Some _, None) \<Rightarrow> Inl (rowErr i j (''invalid or non-IPv4 '' @ dr2 @ '' address '' @ dr2IP))
      | (Some dr1IP4, Some dr2IP4) \<Rightarrow>
          (let dr1Norm = ipString dr1IP4; dr2Norm = ipString dr2IP4
           in if dr1Norm = dr2Norm
              then Inl (rowErr i j (dr1 @ '' and '' @ dr2 @ '' IP are the same; direction ambiguous''))
              else Inr (dr1Norm, dr2Norm)))"

definition validateExplicitMappingCollision ::
  "nat \<Rightarrow> nat \<Rightarrow> string \<Rightarrow> string \<Rightarrow> string \<Rightarrow> string \<Rightarrow> strmap \<Rightarrow> strmap \<Rightarrow> gerr option" where
  "validateExplicitMappingCollision i j dr1Norm dr2Norm dr1 dr2 fwd bwd =
     (if sm_has fwd dr1Norm then Some (rowErr i j (''duplicate '' @ dr1 @ '' IP '' @ dr1Norm))
      else if sm_has bwd dr2Norm then Some (rowErr i j (''duplicate '' @ dr2 @ '' IP '' @ dr2Norm))
      else if sm_has bwd dr1Norm
      then Some (rowErr i j (''IP '' @ dr1Norm @ '' appears as both a '' @ dr1 @ '' IP and a '' @ dr2 @ '' IP; direction would be ambiguous''))
      else if sm_has fwd dr2Norm
      then Some (rowErr i j (''IP '' @ dr2Norm @ '' appears as both a '' @ dr2 @ '' IP and a '' @ dr1 @ '' IP; direction would be ambiguous''))
      else None)"

fun explicitRows :: "nat \<Rightarrow> string \<Rightarrow> string \<Rightarrow> nat \<Rightarrow> strmap list \<Rightarrow> strmap \<Rightarrow> strmap \<Rightarrow> gerr + explicit_mappings" where
  "explicitRows i dr1 dr2 j [] fwd bwd = Inr \<lparr>emForward = fwd, emReverse = bwd\<rparr>"
| "explicitRows i dr1 dr2 j (pair # pairs) fwd bwd =
     (case extractClusterIPs i j pair dr1 dr2 of
        Inl e \<Rightarrow> Inl e
      | Inr (dr1IP, dr2IP) \<Rightarrow>
          (case normalizeExplicitIPs i j dr1 dr2 dr1IP dr2IP of
             Inl e \<Rightarrow> Inl e
           | Inr (dr1Norm, dr2Norm) \<Rightarrow>
               (case validateExplicitMappingCollision i j dr1Norm dr2Norm dr1 dr2 fwd bwd of
                  Some e \<Rightarrow> Inl e
                | None \<Rightarrow> explicitRows i dr1 dr2 (Suc j) pairs (sm_put dr1Norm dr2Norm fwd) (sm_put dr2Norm dr1Norm bwd))))"

definition resolveExplicitMappings :: "nat \<Rightarrow> strmap list \<Rightarrow> string \<Rightarrow> string \<Rightarrow> gerr + explicit_mappings" where
  "resolveExplicitMappings i rawPairs dr1 dr2 = explicitRows i dr1 dr2 0 rawPairs [] []"

section \<open>Subnets\<close>

definition validateCIDRKeys :: "nat \<Rightarrow> strmap \<Rightarrow> string \<Rightarrow> string \<Rightarrow> gerr + string \<times> string" where
  "validateCIDRKeys i rawCIDR dr1 dr2 =
     (case (map_of rawCIDR dr1, map_of rawCIDR dr2) of
        (None, _) \<Rightarrow> Inl (blockErr i (''cidr: missing cluster key '' @ dr1))
      | (Some _, None) \<Rightarrow> Inl (blockErr i (''cidr: missing cluster key '' @ dr2))
      | (Some dr1CIDR, Some dr2CIDR) \<Rightarrow>
          (case find (\<lambda>k. k \<noteq> dr1 \<and> k \<noteq> dr2) (map fst rawCIDR) of
             Some k \<Rightarrow> Inl (blockErr i (''cidr: unrecognized key '' @ k))
           | None \<Rightarrow> Inr (dr1CIDR, dr2CIDR)))"

definition validateCIDRNetworks :: "nat \<Rightarrow> string \<Rightarrow> string \<Rightarrow> ip_net \<Rightarrow> ip_net \<Rightarrow> gerr option" where
  "validateCIDRNetworks i dr1 dr2 dr1Net dr2Net =
     (let (dr1Ones, dr1Bits) = maskSize (netMask dr1Net); (dr2Ones, dr2Bits) = maskSize (netMask dr2Net)
      in if dr1Bits \<noteq> dr2Bits
         then Some (blockErr i (''cidr: '' @ dr1 @ '' and '' @ dr2 @ '' CIDRs have different address families''))
         else if dr1Ones \<noteq> dr2Ones
         then Some (blockErr i (''cidr: '' @ dr1 @ '' (/'' @ show_nat dr1Ones @ '') and '' @ dr2 @ '' (/'' @ show_nat dr2Ones
                @ '') have different prefix lengths; equal prefix lengths are required''))
         else if To4 (netIP dr1Net) = None \<or> To4 (netIP dr2Net) = None
         then Some (blockErr i ''cidr: only IPv4 CIDRs are supported'')
         else if ipEqual (netIP dr1Net) (netIP dr2Net)
         then Some (blockErr i (''cidr: '' @ dr1 @ '' and '' @ dr2 @ '' are the same network ('' @ netString dr1Net
                @ ''); source and destination subnets must differ''))
         else None)"

definition parseAndValidateCIDRs :: "nat \<Rightarrow> string \<Rightarrow> string \<Rightarrow> string \<Rightarrow> string \<Rightarrow> gerr + ip_net \<times> ip_net" where
  "parseAndValidateCIDRs i dr1 dr2 dr1CIDR dr2CIDR =
     (case (ParseCIDR dr1CIDR, ParseCIDR dr2CIDR) of
        (None, _) \<Rightarrow> Inl (blockErr i (''cidr.'' @ dr1 @ '': invalid CIDR '' @ dr1CIDR))
      | (Some _, None) \<Rightarrow> Inl (blockErr i (''cidr.'' @ dr2 @ '': invalid CIDR '' @ dr2CIDR))
      | (Some dr1Net, Some dr2Net) \<Rightarrow>
          (case validateCIDRNetworks i dr1 dr2 dr1Net dr2Net of
             Some e \<Rightarrow> Inl e
           | None \<Rightarrow> Inr (dr1Net, dr2Net)))"

definition resolveCIDR :: "nat \<Rightarrow> strmap \<Rightarrow> string \<Rightarrow> string \<Rightarrow> gerr + cidr_mapping" where
  "resolveCIDR i rawCIDR dr1 dr2 =
     (case validateCIDRKeys i rawCIDR dr1 dr2 of
        Inl e \<Rightarrow> Inl e
      | Inr (dr1CIDR, dr2CIDR) \<Rightarrow>
          (case parseAndValidateCIDRs i dr1 dr2 dr1CIDR dr2CIDR of
             Inl e \<Rightarrow> Inl e
           | Inr (dr1Net, dr2Net) \<Rightarrow>
               Inr \<lparr>cmDR1CIDR = dr1CIDR, cmDR2CIDR = dr2CIDR, cmDR1Net = dr1Net, cmDR2Net = dr2Net\<rparr>))"

section \<open>Regular expressions\<close>

fun compileRegexRules :: "regexp_lib \<Rightarrow> nat \<Rightarrow> string \<Rightarrow> nat \<Rightarrow> regex_rule list \<Rightarrow> gerr + regex_rule list" where
  "compileRegexRules rx i dirKey j [] = Inr []"
| "compileRegexRules rx i dirKey j (r # rs) =
     (let err = (\<lambda>msg. blockErr i (''regexMappings['' @ dirKey @ '']['' @ show_nat j @ '']: '' @ msg))
      in if rgPattern r = [] then Inl (err ''pattern is required'')
         else if rgReplacement r = [] then Inl (err ''replacement is required'')
         else case rxCompileError rx (rgPattern r) of
                Some e \<Rightarrow> Inl (wrapE (''networkMappings['' @ show_nat i @ '']: invalid pattern: '') e [])
              | None \<Rightarrow>
                  (case compileRegexRules rx i dirKey (Suc j) rs of Inl e \<Rightarrow> Inl e | Inr rules \<Rightarrow> Inr (r # rules)))"

definition resolveRegexMappings ::
  "regexp_lib \<Rightarrow> nat \<Rightarrow> (string \<times> regex_rule list) list \<Rightarrow> string \<Rightarrow> string \<Rightarrow> gerr + regex_rules" where
  "resolveRegexMappings rx i rawRegex fwdKey revKey =
     (case find (\<lambda>k. k \<noteq> fwdKey \<and> k \<noteq> revKey) (map fst rawRegex) of
        Some k \<Rightarrow> Inl (blockErr i (''regexMappings: unrecognized direction key '' @ k))
      | None \<Rightarrow>
          (let required = (\<lambda>k. Inl (blockErr i (''regexMappings['' @ k @ ''] is required and must have at least one rule'')));
               fwdRaw = (case map_of rawRegex fwdKey of None \<Rightarrow> [] | Some rs \<Rightarrow> rs);
               revRaw = (case map_of rawRegex revKey of None \<Rightarrow> [] | Some rs \<Rightarrow> rs)
           in if fwdRaw = [] then required fwdKey
              else if revRaw = [] then required revKey
              else case compileRegexRules rx i fwdKey 0 fwdRaw of
                     Inl e \<Rightarrow> Inl e
                   | Inr fwd \<Rightarrow>
                       (case compileRegexRules rx i revKey 0 revRaw of
                          Inl e \<Rightarrow> Inl e
                        | Inr bwd \<Rightarrow> Inr \<lparr>rrForward = fwd, rrReverse = bwd\<rparr>)))"

section \<open>Resolving and validating the document\<close>

definition resolveBlock ::
  "regexp_lib \<Rightarrow> nat \<Rightarrow> raw_network_mapping \<Rightarrow> string \<Rightarrow> string \<Rightarrow> string \<Rightarrow> string \<Rightarrow> gerr + network_mapping_block" where
  "resolveBlock rx i raw dr1 dr2 fwdKey revKey =
     (case (if rwExplicitMappings raw = [] then Inr None
            else map_sum id Some (resolveExplicitMappings i (rwExplicitMappings raw) dr1 dr2)) of
        Inl e \<Rightarrow> Inl e
      | Inr em \<Rightarrow>
          (case (if rwCIDR raw = [] then Inr None else map_sum id Some (resolveCIDR i (rwCIDR raw) dr1 dr2)) of
             Inl e \<Rightarrow> Inl e
           | Inr cm \<Rightarrow>
               (case (if rwRegexMappings raw = [] then Inr None
                      else map_sum id Some (resolveRegexMappings rx i (rwRegexMappings raw) fwdKey revKey)) of
                  Inl e \<Rightarrow> Inl e
                | Inr rr \<Rightarrow>
                    if em = None \<and> cm = None \<and> rr = None
                    then Inl (newE (''networkMappings['' @ show_nat i
                           @ '']: at least one of cidr, explicitMappings, or regexMappings is required''))
                    else Inr \<lparr>nbNetworkRef = rwNetworkRef raw, nbExplicitMappings = em, nbCIDRMapping = cm, nbRegexRules = rr\<rparr>)))"

fun resolveBlocks ::
  "regexp_lib \<Rightarrow> string \<Rightarrow> string \<Rightarrow> string list \<Rightarrow> nat \<Rightarrow> raw_network_mapping list \<Rightarrow> gerr + network_mapping_block list" where
  "resolveBlocks rx dr1 dr2 seen i [] = Inr []"
| "resolveBlocks rx dr1 dr2 seen i (raw # raws) =
     (let (nadNamespace, nadName) = rwNetworkRef raw; nadKey = nadNamespace @ ''/'' @ nadName
      in if nadNamespace = [] then Inl (blockErr i ''networkRef.nadNamespace is required'')
         else if nadName = [] then Inl (blockErr i ''networkRef.nadName is required'')
         else if nadKey \<in> set seen then Inl (blockErr i (''duplicate networkRef '' @ nadKey))
         else case resolveBlock rx i raw dr1 dr2 (dr1 @ ''-to-'' @ dr2) (dr2 @ ''-to-'' @ dr1) of
                Inl e \<Rightarrow> Inl e
              | Inr block \<Rightarrow>
                  (case resolveBlocks rx dr1 dr2 (seen @ [nadKey]) (Suc i) raws of
                     Inl e \<Rightarrow> Inl e
                   | Inr blocks \<Rightarrow> Inr (block # blocks)))"

definition resolveAndValidate ::
  "regexp_lib \<Rightarrow> raw_network_mapping_config \<Rightarrow> string \<Rightarrow> string \<Rightarrow> gerr + network_mapping_rules" where
  "resolveAndValidate rx rawCfg dr1 dr2 =
     (if rwNetworkMappings rawCfg = [] then Inl (newE ''networkMappings list must not be empty'')
      else case resolveBlocks rx dr1 dr2 [] 0 (rwNetworkMappings rawCfg) of
             Inl e \<Rightarrow> Inl e
           | Inr blocks \<Rightarrow> Inr \<lparr>nmVersion = rwVersion rawCfg, nmDR1 = dr1, nmDR2 = dr2, nmBlocks = blocks\<rparr>)"

text \<open>\<open>unmarshal\<close> is the YAML decoder; \<open>data\<close> the text at the key \<^verbatim>\<open>mappings.yaml\<close> of the ConfigMap \<open>name\<close>, if there is one.\<close>

definition ParseNetworkMappingConfigMap ::
  "regexp_lib \<Rightarrow> (string \<Rightarrow> gerr + raw_network_mapping_config) \<Rightarrow> string \<Rightarrow> string option \<Rightarrow> string \<Rightarrow> string
     \<Rightarrow> gerr + network_mapping_rules" where
  "ParseNetworkMappingConfigMap rx unmarshal name data dr1 dr2 =
     (case data of
        None \<Rightarrow> Inl (newE (''ConfigMap '' @ name @ '' has no mappings.yaml data key''))
      | Some raw \<Rightarrow>
          if dr1 = [] \<or> dr2 = [] then Inl (newE ''dr1 and dr2 cluster names must be non-empty'')
          else if dr1 = dr2 then Inl (newE ''dr1 and dr2 cluster names must be distinct'')
          else case unmarshal raw of
                 Inl e \<Rightarrow> Inl (wrapE (''failed to parse mappings.yaml in ConfigMap '' @ name @ '': '') e [])
               | Inr rawCfg \<Rightarrow>
                   if rwVersion rawCfg = []
                   then Inl (newE (''ConfigMap '' @ name @ '': mappings.yaml is missing required field version''))
                   else if rwVersion rawCfg \<noteq> ''v1''
                   then Inl (newE (''ConfigMap '' @ name @ '': unsupported network-mapping schema version '' @ rwVersion rawCfg))
                   else case resolveAndValidate rx rawCfg dr1 dr2 of
                          Inl e \<Rightarrow> Inl (wrapE (''invalid network mapping in ConfigMap '' @ name @ '': '') e [])
                        | Inr rules \<Rightarrow> Inr rules)"

section \<open>Translating an address\<close>

definition findBlock :: "network_mapping_rules \<Rightarrow> network_ref \<Rightarrow> network_mapping_block option" where
  "findBlock rules nadRef = find (\<lambda>b. nbNetworkRef b = nadRef) (nmBlocks rules)"

definition normalizeIP :: "string \<Rightarrow> string" where
  "normalizeIP ip = (case parseIP4 ip of None \<Rightarrow> ip | Some v4 \<Rightarrow> ipString v4)"

definition lookupExplicit :: "string \<Rightarrow> explicit_mappings \<Rightarrow> translation_direction \<Rightarrow> string option" where
  "lookupExplicit srcIP em dir =
     (case dir of
        TranslationDirectionForward \<Rightarrow> map_of (emForward em) (normalizeIP srcIP)
      | TranslationDirectionReverse \<Rightarrow> map_of (emReverse em) (normalizeIP srcIP))"

text \<open>Big-endian, four bytes; the code never passes another length.\<close>

fun ipToUint32 :: "net_ip \<Rightarrow> 32 word" where
  "ipToUint32 [a, b, c, d] = push_bit 24 (ucast a) OR push_bit 16 (ucast b) OR push_bit 8 (ucast c) OR ucast d"
| "ipToUint32 _ = 0"

definition uint32ToIP :: "32 word \<Rightarrow> net_ip" where
  "uint32ToIP n = [ucast (drop_bit 24 n), ucast (drop_bit 16 n), ucast (drop_bit 8 n), ucast n]"

definition netAddr :: "ip_net \<Rightarrow> 32 word" where
  "netAddr n = (case To4 (netIP n) of None \<Rightarrow> 0 | Some v4 \<Rightarrow> ipToUint32 v4)"

definition applyCIDR :: "string \<Rightarrow> cidr_mapping \<Rightarrow> translation_direction \<Rightarrow> string option" where
  "applyCIDR srcIP cm dir =
     (case parseIP4 srcIP of
        None \<Rightarrow> None
      | Some ip4 \<Rightarrow>
          (let (srcNet, dstNet) = (case dir of
                 TranslationDirectionForward \<Rightarrow> (cmDR1Net cm, cmDR2Net cm)
               | TranslationDirectionReverse \<Rightarrow> (cmDR2Net cm, cmDR1Net cm))
           in if \<not> netContains srcNet ip4 then None
              else let hostOffset = ipToUint32 ip4 - netAddr srcNet;
                       result = uint32ToIP (netAddr dstNet + hostOffset)
                   in if \<not> netContains dstNet result then None else Some (ipString result)))"

fun firstRegexMatch :: "regexp_lib \<Rightarrow> string \<Rightarrow> string \<Rightarrow> regex_rule list \<Rightarrow> gerr + string" where
  "firstRegexMatch rx dirStr srcIP [] = Inl (newE (''no '' @ dirStr @ '' regex rule matched IP '' @ srcIP))"
| "firstRegexMatch rx dirStr srcIP (r # rs) =
     (if \<not> rxMatchString rx (rgPattern r) srcIP then firstRegexMatch rx dirStr srcIP rs
      else let result = rxReplaceAllString rx (rgPattern r) srcIP (rgReplacement r)
           in if ParseIP result = None
              then Inl (newE (''regex pattern '' @ rgPattern r @ '' applied to IP '' @ srcIP @ '' produced invalid IP '' @ result))
              else Inr result)"

definition directionString :: "translation_direction \<Rightarrow> string \<Rightarrow> string \<Rightarrow> string" where
  "directionString dir dr1 dr2 =
     (case dir of
        TranslationDirectionForward \<Rightarrow> dr1 @ ''-to-'' @ dr2
      | TranslationDirectionReverse \<Rightarrow> dr2 @ ''-to-'' @ dr1)"

definition applyRegexRules ::
  "regexp_lib \<Rightarrow> string \<Rightarrow> regex_rules \<Rightarrow> translation_direction \<Rightarrow> string \<Rightarrow> string \<Rightarrow> gerr + string" where
  "applyRegexRules rx srcIP rr dir dr1 dr2 =
     firstRegexMatch rx (directionString dir dr1 dr2) srcIP
       (case dir of TranslationDirectionForward \<Rightarrow> rrForward rr | TranslationDirectionReverse \<Rightarrow> rrReverse rr)"

definition translateIP ::
  "regexp_lib \<Rightarrow> string \<Rightarrow> network_mapping_rules \<Rightarrow> translation_direction \<Rightarrow> network_ref \<Rightarrow> gerr + string \<times> rule_type" where
  "translateIP rx srcIP rules dir nadRef =
     (case findBlock rules nadRef of
        None \<Rightarrow> Inl (newE (''no networkMapping block found for NAD '' @ fst nadRef @ ''/'' @ snd nadRef))
      | Some block \<Rightarrow>
          (case Option.bind (nbExplicitMappings block) (\<lambda>em. lookupExplicit srcIP em dir) of
             Some result \<Rightarrow> Inr (result, RuleTypeExplicit)
           | None \<Rightarrow>
               (case Option.bind (nbCIDRMapping block) (\<lambda>cm. applyCIDR srcIP cm dir) of
                  Some result \<Rightarrow> Inr (result, RuleTypeCIDR)
                | None \<Rightarrow>
                    (case nbRegexRules block of
                       Some rr \<Rightarrow>
                         map_sum id (\<lambda>result. (result, RuleTypeRegex)) (applyRegexRules rx srcIP rr dir (nmDR1 rules) (nmDR2 rules))
                     | None \<Rightarrow>
                         Inl (newE (''no translation found for IP '' @ srcIP @ '' (NAD '' @ fst nadRef @ ''/'' @ snd nadRef
                           @ '', direction '' @ directionString dir (nmDR1 rules) (nmDR2 rules)
                           @ ''): no explicit match, not in CIDR range, no regex match''))))))"

definition directionFromCluster :: "string \<Rightarrow> string \<Rightarrow> string \<Rightarrow> gerr + translation_direction" where
  "directionFromCluster sourceCluster dr1 dr2 =
     (if sourceCluster = dr1 then Inr TranslationDirectionForward
      else if sourceCluster = dr2 then Inr TranslationDirectionReverse
      else Inl (newE (''sourceCluster '' @ sourceCluster @ '' is not a member of this DRPolicy'')))"

text \<open>\<^verbatim>\<open>translateSourceIP\<close> of the DRPC: whatever fails, the address is used unchanged.\<close>

definition translateWithRules ::
  "regexp_lib \<Rightarrow> network_mapping_rules option \<Rightarrow> string \<Rightarrow> string \<Rightarrow> network_ref \<Rightarrow> string" where
  "translateWithRules rx rules srcIP sourceCluster nadRef =
     (case rules of
        None \<Rightarrow> srcIP
      | Some rs \<Rightarrow>
          (case directionFromCluster sourceCluster (nmDR1 rs) (nmDR2 rs) of
             Inl _ \<Rightarrow> srcIP
           | Inr dir \<Rightarrow> (case translateIP rx srcIP rs dir nadRef of Inl _ \<Rightarrow> srcIP | Inr (targetIP, _) \<Rightarrow> targetIP)))"

definition translateSubnet :: "string \<Rightarrow> string \<Rightarrow> string \<Rightarrow> bool \<Rightarrow> gerr + string" where
  "translateSubnet srcIP srcCIDR dstCIDR preserveHostPart =
     (case ParseIP srcIP of
        None \<Rightarrow> Inl (newE (''invalid source IP '' @ srcIP))
      | Some ip16 \<Rightarrow>
          (case To4 ip16 of
             None \<Rightarrow> Inl (newE (''only IPv4 is supported (got '' @ srcIP @ '')''))
           | Some ip \<Rightarrow>
               (case (ParseCIDR srcCIDR, ParseCIDR dstCIDR) of
                  (None, _) \<Rightarrow> Inl (newE (''invalid source CIDR '' @ srcCIDR))
                | (Some _, None) \<Rightarrow> Inl (newE (''invalid destination CIDR '' @ dstCIDR))
                | (Some srcNet, Some dstNet) \<Rightarrow>
                    (let (srcOnes, srcBits) = maskSize (netMask srcNet); (dstOnes, dstBits) = maskSize (netMask dstNet)
                     in if \<not> netContains srcNet ip
                        then Inl (newE (''source IP '' @ srcIP @ '' is not within source CIDR '' @ srcCIDR))
                        else if srcBits \<noteq> dstBits
                        then Inl (newE ''source and destination CIDRs have different address families'')
                        else if srcOnes \<noteq> dstOnes
                        then Inl (newE (''source CIDR /'' @ show_nat srcOnes @ '' and destination CIDR /'' @ show_nat dstOnes
                               @ '' have different prefix lengths''))
                        else if To4 (netIP srcNet) = None \<and> preserveHostPart \<or> To4 (netIP dstNet) = None then Inl (Gerr GoPanic ''index out of range [3] with length 0'')
                        else if \<not> preserveHostPart then Inr (ipString (uint32ToIP (netAddr dstNet + 1)))
                        else let hostOffset = ipToUint32 ip - netAddr srcNet;
                                 result = uint32ToIP (netAddr dstNet + hostOffset)
                             in if \<not> netContains dstNet result
                                then Inl (newE (''translated IP '' @ ipString result @ '' is outside destination CIDR '' @ dstCIDR))
                                else Inr (ipString result)))))"

end
