(* ===== verification/Ramen_NetworkMappingProps.thy ===== *)
theory Ramen_NetworkMappingProps
  imports Ramen_NetworkMapping
begin

text \<open>
  Properties of the network mapping: the two directions of a validated mapping undo each other, and a subnet mapping reaches
  every host of its source network; with the place where explicit pairs and subnets get in each other's way.
\<close>

section \<open>Words and bytes\<close>

lemma byte_beyond [simp]: "8 \<le> n \<Longrightarrow> \<not> bit (b :: byte) n"
  using bit_imp_le_length [of b n] by auto

lemma four_bytes: "length ip = 4 \<Longrightarrow> \<exists>a b c d. ip = [a, b, c, d]" for ip :: net_ip
  by (cases ip rule: ipToUint32.cases) auto

lemma length_uint32ToIP [simp]: "length (uint32ToIP n) = 4"
  by (simp add: uint32ToIP_def)

lemma bit_ipToUint32:
  "bit (ipToUint32 [a, b, c, d]) n \<longleftrightarrow>
     (if n < 8 then bit d n else if n < 16 then bit c (n - 8) else if n < 24 then bit b (n - 16)
      else n < 32 \<and> bit a (n - 24))"
  by (auto simp: bit_simps)

lemma ipToUint32_uint32ToIP [simp]: "ipToUint32 (uint32ToIP n) = n"
  unfolding uint32ToIP_def by (rule bit_word_eqI) (auto simp: bit_ipToUint32 bit_simps simp del: ipToUint32.simps)

lemma ipToUint32_and:
  assumes "length a = 4" "length b = 4"
  shows "ipToUint32 (map2 (AND) a b) = ipToUint32 a AND ipToUint32 b"
  using four_bytes [OF assms(1)] four_bytes [OF assms(2)]
  by (auto simp: bit_ipToUint32 bit_and_iff simp del: ipToUint32.simps intro!: bit_word_eqI)

lemma ipToUint32_inj:
  assumes "length a = 4" "length b = 4" "ipToUint32 a = ipToUint32 b"
  shows "a = b"
proof -
  obtain a1 a2 a3 a4 b1 b2 b3 b4 where ab: "a = [a1, a2, a3, a4]" "b = [b1, b2, b3, b4]"
    using four_bytes [OF assms(1)] four_bytes [OF assms(2)] by blast
  have bits: "bit (ipToUint32 a) n = bit (ipToUint32 b) n" for n using assms(3) by simp
  have "bit a1 n = bit b1 n" "bit a2 n = bit b2 n" "bit a3 n = bit b3 n" "bit a4 n = bit b4 n" if "n < 8" for n
    using bits [of "n + 24"] bits [of "n + 16"] bits [of "n + 8"] bits [of n] that
    by (simp_all add: ab bit_ipToUint32 del: ipToUint32.simps)
  then show ?thesis by (simp add: ab) (intro conjI bit_word_eqI; simp)
qed

lemma uint32ToIP_ipToUint32: "length ip = 4 \<Longrightarrow> uint32ToIP (ipToUint32 ip) = ip"
  by (rule ipToUint32_inj) simp_all

lemma maskSize_CIDRMask:
  "k \<le> 32 \<Longrightarrow> maskSize (CIDRMask k 32) = (k, 32)" "k \<le> 128 \<Longrightarrow> maskSize (CIDRMask k 128) = (k, 128)"
proof -
  have "\<forall>k \<in> set [0..<33]. maskSize (CIDRMask k 32) = (k, 32)" "\<forall>k \<in> set [0..<129]. maskSize (CIDRMask k 128) = (k, 128)"
    by code_simp+
  then show "k \<le> 32 \<Longrightarrow> maskSize (CIDRMask k 32) = (k, 32)" "k \<le> 128 \<Longrightarrow> maskSize (CIDRMask k 128) = (k, 128)"
    by (simp_all only: set_upt atLeastLessThan_iff) auto
qed

section \<open>Subnets\<close>

lemma translated_in_subnet:
  fixes ip n1 n2 m :: "'a :: len word"
  assumes "ip AND m = n1" "n2 AND m = n2"
  shows "(n2 + (ip - n1)) AND m = n2"
proof -
  have "ip = (ip AND m) OR (ip AND NOT m)" by (rule bit_word_eqI) (auto simp: bit_simps)
  also have "\<dots> = n1 + (ip AND NOT m)"
    using assms(1) by (subst disjunctive_add_eq_or [symmetric]) (auto simp: bit_simps intro!: bit_word_eqI)
  finally have "ip - n1 = ip AND NOT m" by (metis add_diff_cancel_left')
  moreover have "n2 + (ip AND NOT m) = n2 OR (ip AND NOT m)"
  proof (rule disjunctive_add_eq_or)
    have "n2 AND (ip AND NOT m) = (n2 AND m) AND (ip AND NOT m)" using assms(2) by simp
    also have "\<dots> = 0" by (rule bit_word_eqI) (auto simp: bit_simps)
    finally show "n2 AND (ip AND NOT m) = 0" .
  qed
  moreover have "(n2 OR (ip AND NOT m)) AND m = n2 AND m" by (rule bit_word_eqI) (auto simp: bit_simps)
  ultimately show ?thesis using assms(2) by simp
qed

lemma map2_and_idem: "map2 (AND) (map2 (AND) a m) m = map2 (AND) a m" for a m :: "byte list"
  by (induction a m rule: list_induct2') (auto simp: ac_simps)

lemma length_CIDRMask [simp]: "length (CIDRMask k bits) = bits div 8"
  by (simp add: CIDRMask_def)

text \<open>An IPv4 network that was parsed: its number is masked by the last four bytes of its mask.\<close>

definition netBytes :: "ip_net \<Rightarrow> byte list" where
  "netBytes n = drop (length (netMask n) - 4) (netMask n)"

lemma ParseCIDR_SomeD:
  assumes "ParseCIDR s = Some n"
  obtains k ip where "k \<le> 32" "netMask n = CIDRMask k 32" "netIP n = maskIP (v4InV6Prefix @ ip) (CIDRMask k 32)" "length ip = 4"
  | k ip where "k \<le> 128" "netMask n = CIDRMask k 128" "netIP n = maskIP ip (CIDRMask k 128)"
proof -
  let ?addr = "takeWhile (\<lambda>c. c \<noteq> CHR ''/'') s" and ?mask = "tl (dropWhile (\<lambda>c. c \<noteq> CHR ''/'') s)"
  from assms obtain bits ip where p: "parseCIDR s" "ParseAddr ?addr = Some (bits, ip)" 
    and n: "n = \<lparr>netIP = maskIP ip (CIDRMask (decimalValue ?mask) bits), netMask = CIDRMask (decimalValue ?mask) bits\<rparr>"
    by (auto simp: ParseCIDR_def Let_def split: if_splits option.splits)
  have "addrBits ?addr = Some bits" using p(2) ParseAddr_addrBits [of ?addr] by simp
  with p(1) have le: "decimalValue ?mask \<le> bits" by (simp add: parseCIDR_def Let_def split: if_splits)
  from p(2) consider v4 where "bits = 32" "length v4 = 4" "ip = v4InV6Prefix @ v4" | "bits = 128"
    using length_parseIPv4Fields by (fastforce simp: ParseAddr_def split: option.splits if_splits)
  then show ?thesis
    by cases (use n le in \<open>auto intro: that\<close>)
qed

lemma networkNumberAndMask_v4:
  assumes "ParseCIDR s = Some n" "To4 (netIP n) = Some v"
  shows "networkNumberAndMask n = (v, netBytes n) \<and> length (netBytes n) = 4 \<and> map2 (AND) v (netBytes n) = v"
  using assms(1)
proof (cases rule: ParseCIDR_SomeD)
  case (1 k ip)
  then have "netIP n = map2 (AND) ip (CIDRMask k 32)" by (simp add: maskIP_def v4InV6Prefix_def)
  moreover from this have "v = map2 (AND) ip (CIDRMask k 32)" using assms(2) 1(4) by (simp add: To4_def)
  ultimately show ?thesis
    using 1(2,4) assms(2) by (simp add: networkNumberAndMask_def netBytes_def map2_and_idem Let_def)
next
  case (2 k ip)
  then obtain x where v: "v = map2 (AND) x (drop 12 (CIDRMask k 128))"
    using assms(2) by (auto simp: maskIP_def To4_def Let_def drop_map drop_zip split: if_splits)
  have "length v = 4" using length_To4 [OF assms(2)] .
  with 2 assms(2) v show ?thesis by (simp add: networkNumberAndMask_def netBytes_def map2_and_idem Let_def)
qed

text \<open>What the validation of the subnets guarantees: two different networks under one mask.\<close>

definition cidrOK :: "cidr_mapping \<Rightarrow> net_ip \<Rightarrow> net_ip \<Rightarrow> byte list \<Rightarrow> bool" where
  "cidrOK cm v1 v2 m \<longleftrightarrow>
     networkNumberAndMask (cmDR1Net cm) = (v1, m) \<and> networkNumberAndMask (cmDR2Net cm) = (v2, m)
     \<and> To4 (netIP (cmDR1Net cm)) = Some v1 \<and> To4 (netIP (cmDR2Net cm)) = Some v2
     \<and> length m = 4 \<and> map2 (AND) v1 m = v1 \<and> map2 (AND) v2 m = v2"

lemma same_masks:
  assumes "ParseCIDR s1 = Some n1" "ParseCIDR s2 = Some n2" "maskSize (netMask n1) = maskSize (netMask n2)"
  shows "netMask n1 = netMask n2"
  using assms by (elim ParseCIDR_SomeD) (auto simp: maskSize_CIDRMask)

lemma parseAndValidateCIDRs_Inr:
  "parseAndValidateCIDRs i dr1 dr2 s1 s2 = Inr (n1, n2)
     \<Longrightarrow> ParseCIDR s1 = Some n1 \<and> ParseCIDR s2 = Some n2 \<and> validateCIDRNetworks i dr1 dr2 n1 n2 = None"
  by (simp add: parseAndValidateCIDRs_def split: option.splits)

lemma validateCIDRNetworks_None:
  "validateCIDRNetworks i dr1 dr2 n1 n2 = None \<longleftrightarrow>
     maskSize (netMask n1) = maskSize (netMask n2) \<and> To4 (netIP n1) \<noteq> None \<and> To4 (netIP n2) \<noteq> None
     \<and> \<not> ipEqual (netIP n1) (netIP n2)"
  unfolding validateCIDRNetworks_def Let_def case_prod_beta by (auto simp: prod_eq_iff)

lemma resolveCIDR_OK:
  assumes "resolveCIDR i raw dr1 dr2 = Inr cm"
  obtains v1 v2 m where "cidrOK cm v1 v2 m"
proof -
  obtain s1 s2 where p: "parseAndValidateCIDRs i dr1 dr2 s1 s2 = Inr (cmDR1Net cm, cmDR2Net cm)"
    using assms by (auto simp: resolveCIDR_def split: sum.splits prod.splits)
  define n1 n2 where n: "n1 = cmDR1Net cm" "n2 = cmDR2Net cm"
  note pv = parseAndValidateCIDRs_Inr [OF p, folded n]
  then have s: "ParseCIDR s1 = Some n1" "ParseCIDR s2 = Some n2" and v: "validateCIDRNetworks i dr1 dr2 n1 n2 = None" by blast+
  from v have "maskSize (netMask n1) = maskSize (netMask n2)"
    by (simp add: validateCIDRNetworks_None)
  from same_masks [OF s this] have m: "netBytes n1 = netBytes n2" by (simp add: netBytes_def)
  from v obtain v1 v2 where "To4 (netIP n1) = Some v1" "To4 (netIP n2) = Some v2"
    by (auto simp: validateCIDRNetworks_None)
  with networkNumberAndMask_v4 [OF s(1)] networkNumberAndMask_v4 [OF s(2)] m n
  show ?thesis by (intro that [of v1 v2 "netBytes n1"]) (simp add: cidrOK_def)
qed

definition sourceNet :: "translation_direction \<Rightarrow> 'a \<Rightarrow> 'a \<Rightarrow> 'a" where
  "sourceNet dir a b = (case dir of TranslationDirectionForward \<Rightarrow> a | TranslationDirectionReverse \<Rightarrow> b)"

lemma length_parseIP4: "parseIP4 s = Some a \<Longrightarrow> length a = 4"
  by (auto simp: parseIP4_def bind_eq_Some_conv length_To4)

lemma parseIP4_ipString [simp]: "length a = 4 \<Longrightarrow> parseIP4 (ipString a) = Some a"
  by (simp add: parseIP4_def ParseIP_ipString)

lemma netContains_iff:
  assumes "networkNumberAndMask n = (v, m)" "length m = 4" "map2 (AND) v m = v" "length v = 4" "length a = 4"
  shows "netContains n a \<longleftrightarrow> ipToUint32 a AND ipToUint32 m = ipToUint32 v"
proof -
  have "netContains n a \<longleftrightarrow> map2 (AND) a m = v" using assms by (auto simp: netContains_def)
  also have "\<dots> \<longleftrightarrow> ipToUint32 (map2 (AND) a m) = ipToUint32 v"
    using assms by (auto intro: ipToUint32_inj)
  finally show ?thesis using assms by (simp add: ipToUint32_and)
qed

text \<open>Translation by subnet never misses a host of the source network, and keeps its offset.\<close>

lemma applyCIDR_eq:
  assumes ok: "cidrOK cm v1 v2 m" and a: "parseIP4 ip = Some a"
  shows "applyCIDR ip cm dir =
    (let src = ipToUint32 (sourceNet dir v1 v2); dst = ipToUint32 (sourceNet dir v2 v1)
     in if ipToUint32 a AND ipToUint32 m = src then Some (ipString (uint32ToIP (dst + (ipToUint32 a - src)))) else None)"
proof -
  note okD = ok [unfolded cidrOK_def]
  have len: "length v1 = 4" "length v2 = 4" "length a = 4" "length m = 4"
    using okD length_To4 length_parseIP4 [OF a] by auto
  have masked: "ipToUint32 v1 AND ipToUint32 m = ipToUint32 v1" "ipToUint32 v2 AND ipToUint32 m = ipToUint32 v2"
    using okD len ipToUint32_and [of v1 m] ipToUint32_and [of v2 m] by auto
  have c1: "netContains (cmDR1Net cm) b \<longleftrightarrow> ipToUint32 b AND ipToUint32 m = ipToUint32 v1"
    and c2: "netContains (cmDR2Net cm) b \<longleftrightarrow> ipToUint32 b AND ipToUint32 m = ipToUint32 v2" if "length b = 4" for b
    using okD len that netContains_iff [of _ _ m b] by auto
  have addr: "netAddr (cmDR1Net cm) = ipToUint32 v1" "netAddr (cmDR2Net cm) = ipToUint32 v2"
    using okD by (simp_all add: netAddr_def)
  show ?thesis
    using translated_in_subnet [OF _ masked(2), of "ipToUint32 a" "ipToUint32 v1"]
      translated_in_subnet [OF _ masked(1), of "ipToUint32 a" "ipToUint32 v2"]
    by (cases dir) (auto simp: applyCIDR_def a c1 c2 addr len sourceNet_def Let_def)
qed

definition opposite :: "translation_direction \<Rightarrow> translation_direction" where
  "opposite dir = (case dir of TranslationDirectionForward \<Rightarrow> TranslationDirectionReverse | _ \<Rightarrow> TranslationDirectionForward)"

lemma applyCIDR_inverse:
  assumes ok: "cidrOK cm v1 v2 m" and r: "applyCIDR ip cm dir = Some t"
  shows "applyCIDR t cm (opposite dir) = Some (normalizeIP ip)"
proof -
  obtain a where a: "parseIP4 ip = Some a" using r by (auto simp: applyCIDR_def split: option.splits)
  let ?src = "ipToUint32 (sourceNet dir v1 v2)" and ?dst = "ipToUint32 (sourceNet dir v2 v1)"
  have len: "length v1 = 4" "length v2 = 4" "length a = 4" "length m = 4"
    using ok length_To4 length_parseIP4 [OF a] by (auto simp: cidrOK_def)
  from r a have in_src: "ipToUint32 a AND ipToUint32 m = ?src" and t: "t = ipString (uint32ToIP (?dst + (ipToUint32 a - ?src)))"
    by (auto simp: applyCIDR_eq [OF ok] Let_def split: if_splits)
  have "?dst AND ipToUint32 m = ?dst"
    using ok len ipToUint32_and [of v1 m] ipToUint32_and [of v2 m] by (cases dir) (auto simp: cidrOK_def sourceNet_def)
  from translated_in_subnet [OF in_src this]
  have "applyCIDR t cm (opposite dir) = Some (ipString (uint32ToIP (?src + (?dst + (ipToUint32 a - ?src) - ?dst))))"
    by (subst applyCIDR_eq [OF ok]) (auto simp: t opposite_def sourceNet_def Let_def split: translation_direction.splits)
  also have "?src + (?dst + (ipToUint32 a - ?src) - ?dst) = ipToUint32 a" by simp
  finally show ?thesis by (simp add: uint32ToIP_ipToUint32 len normalizeIP_def a)
qed

section \<open>Explicit pairs\<close>

definition inverseMaps :: "strmap \<Rightarrow> strmap \<Rightarrow> bool" where
  "inverseMaps fwd bwd \<longleftrightarrow> (\<forall>k v. map_of fwd k = Some v \<longleftrightarrow> map_of bwd v = Some k)"

definition normalMap :: "strmap \<Rightarrow> bool" where
  "normalMap m \<longleftrightarrow> (\<forall>k v. map_of m k = Some v \<longrightarrow> normalizeIP v = v)"

lemma normalizeExplicitIPs_normal:
  "normalizeExplicitIPs i j dr1 dr2 a b = Inr (a', b') \<Longrightarrow> normalizeIP a' = a' \<and> normalizeIP b' = b'"
  by (auto simp: normalizeExplicitIPs_def normalizeIP_def Let_def length_parseIP4 split: option.splits if_splits)

lemma explicitRows_inverse:
  "explicitRows i dr1 dr2 j pairs fwd bwd = Inr em \<Longrightarrow> inverseMaps fwd bwd \<Longrightarrow> normalMap fwd \<Longrightarrow> normalMap bwd
     \<Longrightarrow> inverseMaps (emForward em) (emReverse em) \<and> normalMap (emForward em) \<and> normalMap (emReverse em)"
proof (induction i dr1 dr2 j pairs fwd bwd rule: explicitRows.induct)
  case (2 i dr1 dr2 j pair pairs fwd bwd)
  from 2(2) obtain a b a' b' where x: "extractClusterIPs i j pair dr1 dr2 = Inr (a, b)"
    and n: "normalizeExplicitIPs i j dr1 dr2 a b = Inr (a', b')"
    and v: "validateExplicitMappingCollision i j a' b' dr1 dr2 fwd bwd = None"
    and rest: "explicitRows i dr1 dr2 (Suc j) pairs (sm_put a' b' fwd) (sm_put b' a' bwd) = Inr em"
    by (auto split: sum.splits option.splits)
  have "\<not> sm_has fwd a'" "\<not> sm_has bwd b'"
    using v by (auto simp: validateExplicitMappingCollision_def split: if_splits)
  then have "map_of fwd a' = None" "map_of bwd b' = None"
    by (auto simp: sm_has_def)
  moreover from this have "map_of bwd v \<noteq> Some a'" "map_of fwd k \<noteq> Some b'" for k v
    using 2(3) unfolding inverseMaps_def by (metis option.distinct(1))+
  ultimately have "inverseMaps (sm_put a' b' fwd) (sm_put b' a' bwd)"
    using 2(3) unfolding inverseMaps_def map_of_sm_put by simp
  moreover have "normalMap (sm_put a' b' fwd)" "normalMap (sm_put b' a' bwd)"
    using 2(4,5) normalizeExplicitIPs_normal [OF n] by (auto simp: normalMap_def map_of_sm_put)
  ultimately show ?case using 2(1) [OF x _ n _ v rest] by auto
qed auto

lemma lookupExplicit_inverse:
  assumes "resolveExplicitMappings i pairs dr1 dr2 = Inr em" "lookupExplicit ip em dir = Some t"
  shows "lookupExplicit t em (opposite dir) = Some (normalizeIP ip)"
proof -
  have "inverseMaps (emForward em) (emReverse em)" "normalMap (emForward em)" "normalMap (emReverse em)"
    using explicitRows_inverse [OF assms(1) [unfolded resolveExplicitMappings_def]]
    by (auto simp: inverseMaps_def normalMap_def)
  with assms(2) show ?thesis
    by (cases dir) (auto simp: lookupExplicit_def opposite_def inverseMaps_def normalMap_def)
qed

section \<open>Translating there and back\<close>

definition blockOK :: "string \<Rightarrow> string \<Rightarrow> network_mapping_block \<Rightarrow> bool" where
  "blockOK dr1 dr2 b \<longleftrightarrow>
     (\<forall>em. nbExplicitMappings b = Some em \<longrightarrow> (\<exists>i pairs. resolveExplicitMappings i pairs dr1 dr2 = Inr em))
     \<and> (\<forall>cm. nbCIDRMapping b = Some cm \<longrightarrow> (\<exists>i raw. resolveCIDR i raw dr1 dr2 = Inr cm))"

lemma resolveBlock_OK: "resolveBlock rx i raw dr1 dr2 f r = Inr b \<Longrightarrow> blockOK dr1 dr2 b"
  unfolding resolveBlock_def blockOK_def
  by (cases "resolveExplicitMappings i (rwExplicitMappings raw) dr1 dr2"; cases "resolveCIDR i (rwCIDR raw) dr1 dr2";
      auto split: sum.splits if_splits; blast)

lemma resolveBlocks_OK: "resolveBlocks rx dr1 dr2 seen i raws = Inr bs \<Longrightarrow> b \<in> set bs \<Longrightarrow> blockOK dr1 dr2 b"
proof (induction rx dr1 dr2 seen i raws arbitrary: bs rule: resolveBlocks.induct)
  case (2 rx dr1 dr2 seen i raw raws)
  obtain n m where nm: "rwNetworkRef raw = (n, m)" by (cases "rwNetworkRef raw")
  from 2(2) obtain b0 bs0 where "resolveBlock rx i raw dr1 dr2 (dr1 @ ''-to-'' @ dr2) (dr2 @ ''-to-'' @ dr1) = Inr b0"
    "resolveBlocks rx dr1 dr2 (seen @ [n @ ''/'' @ m]) (Suc i) raws = Inr bs0" "bs = b0 # bs0"
    "n \<noteq> []" "m \<noteq> []" "n @ ''/'' @ m \<notin> set seen"
    by (auto simp: nm Let_def split: sum.splits if_splits)
  with 2(1) [OF nm [symmetric] refl] 2(3) show ?case using resolveBlock_OK by (auto simp: nm)
qed simp

lemma parsed_blocks_OK:
  assumes "ParseNetworkMappingConfigMap rx unmarshal name data dr1 dr2 = Inr rules" "findBlock rules nad = Some b"
  shows "blockOK dr1 dr2 b"
proof -
  from assms(1) obtain raw where "resolveAndValidate rx raw dr1 dr2 = Inr rules"
    by (auto simp: ParseNetworkMappingConfigMap_def split: option.splits sum.splits if_splits)
  then obtain raws where "resolveBlocks rx dr1 dr2 [] 0 raws = Inr (nmBlocks rules)"
    by (auto simp: resolveAndValidate_def split: sum.splits if_splits)
  moreover have "b \<in> set (nmBlocks rules)"
    using assms(2) nth_mem by (force simp: findBlock_def find_Some_iff)
  ultimately show ?thesis by (rule resolveBlocks_OK)
qed


section \<open>The example of the documentation\<close>

text \<open>The mapping the head of \<^verbatim>\<open>drpc_networkmapping.go\<close> documents, without its regular expressions.\<close>

definition exRegexp :: regexp_lib where
  "exRegexp = \<lparr>rxCompileError = \<lambda>_. None, rxMatchString = \<lambda>_ _. False, rxReplaceAllString = \<lambda>_ s _. s\<rparr>"

definition exMapping :: raw_network_mapping_config where
  "exMapping = \<lparr>rwVersion = ''v1'', rwNetworkMappings =
     [\<lparr>rwNetworkRef = (''default'', ''backup''),
       rwCIDR = [(''dr1'', ''192.168.100.0/24''), (''dr2'', ''192.168.110.0/24'')],
       rwExplicitMappings = [[(''dr1'', ''192.168.100.10''), (''dr2'', ''192.168.110.10'')],
                             [(''dr1'', ''192.168.100.51''), (''dr2'', ''192.168.110.58'')]],
       rwRegexMappings = []\<rparr>]\<rparr>"

definition exRules :: "gerr + network_mapping_rules" where
  "exRules = ParseNetworkMappingConfigMap exRegexp (\<lambda>_. Inr exMapping) ''m'' (Some []) ''dr1'' ''dr2''"

definition exForward :: "string \<Rightarrow> gerr + string \<times> rule_type" where
  "exForward ip = (case exRules of Inl e \<Rightarrow> Inl e
     | Inr rules \<Rightarrow> translateIP exRegexp ip rules TranslationDirectionForward (''default'', ''backup''))"

lemma exForward_evals:
  "\<not> isl exRules"
  "exForward ''192.168.100.51'' = Inr (''192.168.110.58'', RuleTypeExplicit)"
  "exForward ''192.168.100.58'' = Inr (''192.168.110.58'', RuleTypeCIDR)"
  by code_simp+



end
