(* ===== verification/Ramen_DrpcShell.thy ===== *)
theory Ramen_DrpcShell
  imports Ramen_Actions Ramen_Secrets Ramen_NetworkMapping
begin

text \<open>
  The outer part of the DRPC reconciler (\<^verbatim>\<open>drplacementcontrol_controller.go\<close>): its state, the user placement it works
  for, the metadata it keeps on the DRPC and the placement, and the checks that refuse a DRPC before any of its clusters is
  looked at (namespaces, conflicts with other DRPCs, the policy).

  The state \<open>shell\<close> holds the record \<open>hub\<close> on which the engine runs, so that a call of the engine is a step on that fld
  (\<open>inHub\<close>), and the objects of the hub cluster that only the shell reads or writes. At the start of a reconcile \<open>inst\<close> is
  the stored DRPC.
\<close>

section \<open>State\<close>

text \<open>A match expression of a predicate, a PlacementRule and a Placement, as far as the reconciler reads or writes them.\<close>

record label_requirement =
  lrKey :: string
  lrOperator :: string
  lrValues :: "string list"

record user_rule =
  urName :: string
  urNamespace :: string
  urDeleted :: bool
  urAnnotations :: strmap
  urLabels :: strmap
  urFinalizers :: "string list"
  urSchedulerName :: string
  urClusters :: "string list"
  urDecisions :: "placement_decision list"
  urOwner :: "(string \<times> string) option"
  urClusterConditions :: "(string \<times> condition_status) list"

record user_plc =
  upName :: string
  upNamespace :: string
  upDeleted :: bool
  upAnnotations :: strmap
  upFinalizers :: "string list"
  upPredicates :: "label_requirement list list"

datatype user_object = RuleObject user_rule | PlacementObject user_plc

fun objName :: "user_object \<Rightarrow> string" where
  "objName (RuleObject r) = urName r"
| "objName (PlacementObject p) = upName p"

fun objNamespace :: "user_object \<Rightarrow> string" where
  "objNamespace (RuleObject r) = urNamespace r"
| "objNamespace (PlacementObject p) = upNamespace p"

fun objDeleted :: "user_object \<Rightarrow> bool" where
  "objDeleted (RuleObject r) = urDeleted r"
| "objDeleted (PlacementObject p) = upDeleted p"

fun objAnnotations :: "user_object \<Rightarrow> strmap" where
  "objAnnotations (RuleObject r) = urAnnotations r"
| "objAnnotations (PlacementObject p) = upAnnotations p"

fun objFinalizers :: "user_object \<Rightarrow> string list" where
  "objFinalizers (RuleObject r) = urFinalizers r"
| "objFinalizers (PlacementObject p) = upFinalizers p"

fun withAnnotations :: "strmap \<Rightarrow> user_object \<Rightarrow> user_object" where
  "withAnnotations a (RuleObject r) = RuleObject (r\<lparr>urAnnotations := a\<rparr>)"
| "withAnnotations a (PlacementObject p) = PlacementObject (p\<lparr>upAnnotations := a\<rparr>)"

fun withFinalizers :: "string list \<Rightarrow> user_object \<Rightarrow> user_object" where
  "withFinalizers f (RuleObject r) = RuleObject (r\<lparr>urFinalizers := f\<rparr>)"
| "withFinalizers f (PlacementObject p) = PlacementObject (p\<lparr>upFinalizers := f\<rparr>)"

text \<open>What the engine sees of the user placement; \<^verbatim>\<open>nil\<close> is none of the two types.\<close>

fun engineView :: "user_object option \<Rightarrow> user_placement" where
  "engineView None = OtherPlacement"
| "engineView (Some (RuleObject r)) = PlacementRule (urDecisions r)"
| "engineView (Some (PlacementObject p)) = Placement (upName p)"

text \<open>An object that one controller (its kind and name) owns.\<close>

record 'a owned =
  owOwner :: "(string \<times> string) option"
  owLabels :: strmap
  owSpec :: 'a

text \<open>
  \<open>shOrder n\<close> is the order in which Go ranges over a map after the \<open>n\<close>-th call, of which nothing is assumed. The regular
  expression engine and the YAML decoder of the network mapping are parameters.
\<close>

record shell =
  shHub :: hub
  shExists :: bool
  shStoredFinalizers :: "string list"
  shConfig :: "gerr + ramen_config"
  shPolicies :: "drpolicy list"
  shClusters :: "drcluster list"
  shPlacements :: "user_plc store"
  shRules :: "user_rule store"
  shSecretPolicies :: "configuration_policy owned store"
  shBindings :: "(string \<times> string) owned store"
  shConfigMaps :: "strmap store"
  shPlacement :: "user_object option"
  shOrder :: "nat \<Rightarrow> string list"
  shRegexp :: regexp_lib
  shUnmarshal :: "string \<Rightarrow> gerr + raw_network_mapping_config"

type_synonym 'a shm = "(shell, 'a) gm"

definition inHub :: "'a hubm \<Rightarrow> 'a shm" where
  "inHub m sh = (case m (shHub sh) of (r, h) \<Rightarrow> (r, sh\<lparr>shHub := h\<rparr>))"

lemma wp_inHub [wp_rules]: "wp (inHub m) Q sh = wp m (\<lambda>r h. Q r (sh\<lparr>shHub := h\<rparr>)) (shHub sh)"
  by (simp add: wp_def inHub_def split: prod.split)

lemma pres_inHub: "pres I m \<Longrightarrow> pres (\<lambda>sh. I (shHub sh)) (inHub m)"
  by (simp add: pres_def inHub_def split: prod.split) (metis snd_conv)

definition shCall :: "unit shm" where
  "shCall = inHub apiCall"

definition theDRPC :: "shell \<Rightarrow> drpc" where
  "theDRPC sh = inst (shHub sh)"

definition modDRPC :: "(drpc \<Rightarrow> drpc) \<Rightarrow> unit shm" where
  "modDRPC f = inHub (modInst f)"

definition modHub :: "(hub \<Rightarrow> hub) \<Rightarrow> unit shm" where
  "modHub f = inHub (modifyM f)"

definition shGet :: "(shell \<Rightarrow> 'v store) \<Rightarrow> string \<Rightarrow> string \<Rightarrow> 'v shm" where
  "shGet fld name ns =
     seqM shCall
       (bindM (getsM (\<lambda>sh. fld sh (name, ns)))
          (\<lambda>r. case r of None \<Rightarrow> failM (Gerr NotFound (name @ '' not found'')) | Some v \<Rightarrow> ret v))"

definition shDelete :: "(shell \<Rightarrow> 'v store) \<Rightarrow> (('v store \<Rightarrow> 'v store) \<Rightarrow> shell \<Rightarrow> shell) \<Rightarrow> string \<Rightarrow> string \<Rightarrow> unit shm" where
  "shDelete fld upd name ns =
     seqM shCall
       (bindM (getsM (\<lambda>sh. fld sh (name, ns)))
          (\<lambda>r. case r of
             None \<Rightarrow> failM (Gerr NotFound (name @ '' not found''))
           | Some _ \<Rightarrow> modifyM (upd (\<lambda>m. m((name, ns) := None)))))"

definition shPut ::
  "(shell \<Rightarrow> 'v store) \<Rightarrow> (('v store \<Rightarrow> 'v store) \<Rightarrow> shell \<Rightarrow> shell) \<Rightarrow> bool \<Rightarrow> string \<Rightarrow> string \<Rightarrow> 'v \<Rightarrow> unit shm" where
  "shPut fld upd new name ns v =
     seqM shCall
       (bindM (getsM (\<lambda>sh. fld sh (name, ns) = None))
          (\<lambda>missing. if missing = new then modifyM (upd (\<lambda>m. m((name, ns) \<mapsto> v)))
                      else failM (if new then Gerr AlreadyExists (name @ '' already exists'') else Gerr NotFound (name @ '' not found''))))"

text \<open>A rule that has finalizers is only marked when it is deleted.\<close>

definition deleteRule :: "string \<Rightarrow> string \<Rightarrow> unit shm" where
  "deleteRule name ns =
     seqM shCall
       (bindM (getsM (\<lambda>sh. shRules sh (name, ns)))
          (\<lambda>r. case r of
             None \<Rightarrow> failM (Gerr NotFound (name @ '' not found''))
           | Some rule \<Rightarrow>
               modifyM (\<lambda>sh. sh\<lparr>shRules := (shRules sh)((name, ns) :=
                 (if urFinalizers rule = [] then None else Some (rule\<lparr>urDeleted := True\<rparr>)))\<rparr>)))"

text \<open>The entries of a Go map in the order of this range over it.\<close>

definition rangeVRGs :: "shell \<Rightarrow> (string \<times> vrg) list \<Rightarrow> (string \<times> vrg) list" where
  "rangeVRGs sh vs =
     List.map_filter (\<lambda>k. map_option (Pair k) (map_of vs k)) (rangeOrder (shOrder sh (calls (shHub sh))) (map fst vs))"

section \<open>Writing the DRPC and the placement\<close>

text \<open>
  \<^verbatim>\<open>Update\<close> of the DRPC: the status in memory becomes the stored one. An object marked as deleted goes away with its last
  finalizer.
\<close>

definition storeDRPC :: "unit shm" where
  "storeDRPC =
     seqM (inHub updateDRPC)
       (modifyM (\<lambda>sh. sh\<lparr>shStoredFinalizers := dFinalizers (theDRPC sh),
          shExists := \<not> (dDeleted (theDRPC sh) \<and> dFinalizers (theDRPC sh) = [])\<rparr>))"

definition setPlacement :: "user_object \<Rightarrow> unit shm" where
  "setPlacement obj = modifyM (\<lambda>sh. sh\<lparr>shPlacement := Some obj\<rparr>)"

fun storedPlacement :: "user_object \<Rightarrow> shell \<Rightarrow> bool" where
  "storedPlacement (RuleObject r) sh \<longleftrightarrow> shRules sh (urName r, urNamespace r) \<noteq> None"
| "storedPlacement (PlacementObject p) sh \<longleftrightarrow> shPlacements sh (upName p, upNamespace p) \<noteq> None"

fun putPlacement :: "user_object \<Rightarrow> shell \<Rightarrow> shell" where
  "putPlacement (RuleObject r) sh =
     sh\<lparr>shRules := (shRules sh)((urName r, urNamespace r) := (if urDeleted r \<and> urFinalizers r = [] then None else Some r))\<rparr>"
| "putPlacement (PlacementObject p) sh =
     sh\<lparr>shPlacements := (shPlacements sh)
       ((upName p, upNamespace p) := (if upDeleted p \<and> upFinalizers p = [] then None else Some p))\<rparr>"

definition storePlacement :: "user_object \<Rightarrow> unit shm" where
  "storePlacement obj =
     seqM (setPlacement obj)
       (seqM shCall
          (bindM (getsM (storedPlacement obj))
             (\<lambda>known. if known then modifyM (putPlacement obj) else failM (Gerr NotFound (objName obj @ '' not found'')))))"

section \<open>Reading the policy and the clusters\<close>

definition GetDRPolicy :: "drpc \<Rightarrow> drpolicy shm" where
  "GetDRPolicy d =
     seqM shCall
       (bindM (getsM (\<lambda>sh. find (\<lambda>p. polName p = dDRPolicyRefName (dSpec d)) (shPolicies sh)))
          (\<lambda>r. case r of
             None \<Rightarrow> failM (Gerr NotFound (dDRPolicyRefName (dSpec d) @ '' not found''))
           | Some p \<Rightarrow> ret p))"

fun drpcGetDRClusters :: "string list \<Rightarrow> drcluster list shm" where
  "drpcGetDRClusters [] = ret []"
| "drpcGetDRClusters (c # cs) =
     bindM (catchM (seqM shCall
                      (bindM (getsM (\<lambda>sh. find (\<lambda>dc. dcName dc = c) (shClusters sh)))
                         (\<lambda>r. case r of None \<Rightarrow> failM (Gerr NotFound (c @ '' not found'')) | Some dc \<Rightarrow> ret dc)))
              (\<lambda>e. failM (wrapE (''failed to get DRCluster ('' @ c @ '') '') e [])))
       (\<lambda>dc. bindM (drpcGetDRClusters cs) (\<lambda>dcs. ret (dc # dcs)))"

definition DrpolicyValidated :: "drpolicy \<Rightarrow> gerr option" where
  "DrpolicyValidated p =
     (case FindCondition (polConditions p) ''Validated'' of
        None \<Rightarrow> Some (newE ''validated condition absent'')
      | Some c \<Rightarrow> if cStatus c \<noteq> ConditionTrue then Some (newE (cMessage c)) else None)"

definition getAndEnsureValidDRPolicy :: "drpc \<Rightarrow> drpolicy shm" where
  "getAndEnsureValidDRPolicy d =
     bindM (catchM (GetDRPolicy d) (\<lambda>e. failM (wrapE ''failed to get DRPolicy '' e [])))
       (\<lambda>p. if polDeleted p
            then failM (newE (''drPolicy '' @ dDRPolicyRefName (dSpec d) @ '' referred by the DRPC is deleted, DRPC reconciliation would fail''))
            else case DrpolicyValidated p of
                   Some e \<Rightarrow> failM (wrapE ''DRPolicy not valid '' e [])
                 | None \<Rightarrow> ret p)"

text \<open>
  The object stores that \<^verbatim>\<open>GetAvailableS3Profiles\<close> finds while the status is stored: it reads the policy and its clusters
  itself and gives none if one is missing. \<open>preload\<close> puts them where the engine's copy of that function looks for them.
\<close>

definition preload :: "shell \<Rightarrow> shell" where
  "preload sh =
     (let h = shHub sh
      in case find (\<lambda>p. polName p = dDRPolicyRefName (dSpec (inst h))) (shPolicies sh) of
           None \<Rightarrow> sh\<lparr>shHub := h\<lparr>drClusters := []\<rparr>\<rparr>
         | Some p \<Rightarrow>
             (let found = List.map_filter (\<lambda>c. find (\<lambda>dc. dcName dc = c) (shClusters sh)) (polDRClusters p)
              in sh\<lparr>shHub := h\<lparr>drPolicy := p,
                   drClusters := (if length found = length (polDRClusters p) then found else [])\<rparr>\<rparr>))"

section \<open>The user placement\<close>

definition isBeingDeleted :: "drpc \<Rightarrow> user_object option \<Rightarrow> bool" where
  "isBeingDeleted d usrPl \<longleftrightarrow> dDeleted d \<or> (case usrPl of None \<Rightarrow> False | Some obj \<Rightarrow> objDeleted obj)"

definition drpcGetPlacementRule :: "drpc \<Rightarrow> user_object shm" where
  "drpcGetPlacementRule d =
     bindM (liftE (placementRefNamespace ''PlacementRule'' d))
       (\<lambda>ns. bindM (shGet shRules (dPlacementRefName (dSpec d)) ns)
          (\<lambda>r. if \<not> isBeingDeleted d (Some (RuleObject r)) \<and> urSchedulerName r \<noteq> ''ramen''
               then failM (newE (''placementRule '' @ urName r @ '' does not have the ramen scheduler. Scheduler used '' @ urSchedulerName r))
               else ret (RuleObject r)))"

definition PlacementDisableAnnotation :: string where
  "PlacementDisableAnnotation = ''cluster.open-cluster-management.io/experimental-scheduling-disable''"

definition drpcGetPlacement :: "drpc \<Rightarrow> user_object shm" where
  "drpcGetPlacement d =
     bindM (liftE (placementRefNamespace ''Placement'' d))
       (\<lambda>ns. bindM (shGet shPlacements (dPlacementRefName (dSpec d)) ns)
          (\<lambda>p. if \<not> isBeingDeleted d (Some (PlacementObject p))
                  \<and> (case map_of (upAnnotations p) PlacementDisableAnnotation of None \<Rightarrow> True | Some v \<Rightarrow> v = ''false'')
               then failM (newE (''placement '' @ upName p @ '' must be disabled in order for Ramen to be the scheduler''))
               else ret (PlacementObject p)))"

definition drpcGetPlacementOrPlacementRule :: "drpc \<Rightarrow> user_object shm" where
  "drpcGetPlacementOrPlacementRule d =
     bindM (attemptM (drpcGetPlacement d))
       (\<lambda>r. case r of
          Inr pl \<Rightarrow>
            bindM (attemptM (drpcGetPlacementRule d))
              (\<lambda>r'. case r' of
                 Inr _ \<Rightarrow> failM (newE (''can't proceed. Placement and PlacementRule CR with the same name exist in the''
                            @ '' same namespace''))
               | Inl _ \<Rightarrow> ret pl)
        | Inl e \<Rightarrow> if IsNotFound e then drpcGetPlacementRule d else failM e)"

text \<open>\<^verbatim>\<open>selectVRGNamespace\<close> for a placement object: the ApplicationSets are looked up in its namespace.\<close>

definition vrgNamespaceFor :: "drpc \<Rightarrow> user_object option \<Rightarrow> string shm" where
  "vrgNamespaceFor d obj =
     bindM (getsM (\<lambda>sh. selectVRGNamespace
              ((environ (shHub sh))\<lparr>placementNamespace := (case obj of None \<Rightarrow> [] | Some x \<Rightarrow> objNamespace x)\<rparr>)
              d (engineView obj))) liftE"

section \<open>Metadata of the DRPC and the placement\<close>

definition DRPCFinalizer :: string where
  "DRPCFinalizer = ''drpc.ramendr.openshift.io/finalizer''"

definition withPlacement :: "(user_object \<Rightarrow> 'a shm) \<Rightarrow> 'a shm" where
  "withPlacement f = bindM (getsM shPlacement) (\<lambda>r. case r of None \<Rightarrow> failM nilDereference | Some obj \<Rightarrow> f obj)"

text \<open>A placement belongs to the first DRPC that claims it; a placement that is going away is left alone.\<close>

definition annotateObject :: "unit shm" where
  "annotateObject =
     withPlacement (\<lambda>obj. bindM (getsM theDRPC) (\<lambda>d.
       let ownerName = sm_get (objAnnotations obj) DRPCNameAnnotation;
           ownerNamespace = sm_get (objAnnotations obj) DRPCNamespaceAnnotation
       in if objDeleted obj then ret ()
          else if ownerName = []
          then catchM (storePlacement (withAnnotations
                         (sm_put DRPCNamespaceAnnotation (dNamespace d)
                            (sm_put DRPCNameAnnotation (dName d) (objAnnotations obj))) obj))
                 (\<lambda>e. failM (wrapE (''failed to update Object '' @ objName obj @ '' annotation '' @ DRPCNameAnnotation
                                   @ ''/'' @ dName d @ '' ('') e '')''))
          else if ownerName \<noteq> dName d \<or> ownerNamespace \<noteq> dNamespace d
          then failM (newE (''object '' @ objName obj @ '' not owned by this DRPC '' @ dName d @ ''/'' @ dNamespace d))
          else ret ()))"

text \<open>\<^verbatim>\<open>AddLabel\<close> and \<^verbatim>\<open>AddFinalizer\<close> say whether they changed the object.\<close>

definition AddLabelDRPC :: "string \<Rightarrow> string \<Rightarrow> drpc \<Rightarrow> bool \<times> drpc" where
  "AddLabelDRPC k v d =
     (if map_of (dLabels d) k \<noteq> Some v then (True, d\<lparr>dLabels := sm_put k v (dLabels d)\<rparr>) else (False, d))"

definition AddFinalizerDRPC :: "string \<Rightarrow> drpc \<Rightarrow> bool \<times> drpc" where
  "AddFinalizerDRPC f d =
     (if f \<in> set (dFinalizers d) then (False, d) else (True, d\<lparr>dFinalizers := dFinalizers d @ [f]\<rparr>))"

definition updateObjectMetadata :: "unit shm" where
  "updateObjectMetadata =
     withPlacement (\<lambda>obj. bindM (getsM theDRPC) (\<lambda>d.
       let (u1, d1) = AddLabelDRPC OCMBackupLabelKey ''ramen'' d;
           (u2, d2) = AddFinalizerDRPC DRPCFinalizer d1
       in seqM (modDRPC (\<lambda>_. d2))
            (bindM (vrgNamespaceFor d2 (Some obj))
               (\<lambda>ns. let (u3, d3) = AddAnnotation DRPCAppNamespace ns d2
                     in seqM (modDRPC (\<lambda>_. d3))
                          (seqM (whenM (u1 \<or> u2 \<or> u3) storeDRPC)
                             (whenM (DRPCFinalizer \<notin> set (objFinalizers obj))
                                (storePlacement (withFinalizers (objFinalizers obj @ [DRPCFinalizer]) obj))))))))"

text \<open>
  An owner reference is its name and whether it is the controller. \<^verbatim>\<open>SetControllerReference\<close> refuses an object that has a
  controller already; the namespaces of the DRPC and its placement are the same.
\<close>

definition setDRPCOwner :: "bool shm" where
  "setDRPCOwner =
     withPlacement (\<lambda>owner. bindM (getsM theDRPC) (\<lambda>d.
       if list_ex (\<lambda>(n, _). n = objName owner) (dOwnerReferences d) then ret False
       else if list_ex snd (dOwnerReferences d)
       then failM (newE (''failed to set DRPC owner Object '' @ dNamespace d @ ''/'' @ dName d @ '' is already owned by another controller''))
       else seqM (modDRPC (\<lambda>d. d\<lparr>dOwnerReferences := dOwnerReferences d @ [(objName owner, True)]\<rparr>))
              (seqM (catchM storeDRPC (\<lambda>e. failM (wrapE (''failed to update drpc '' @ dName d @ '' ('') e '')'')))
                 (ret True))))"

definition updateAndSetOwner :: "bool shm" where
  "updateAndSetOwner = seqM annotateObject (seqM updateObjectMetadata setDRPCOwner)"

section \<open>Namespaces\<close>

definition RamenOperandsNamespace :: "ramen_config \<Rightarrow> string" where
  "RamenOperandsNamespace rc = cfgRamenOpsNamespace rc"

definition drpcAdminNamespaceName :: "ramen_config \<Rightarrow> string" where
  "drpcAdminNamespaceName rc = RamenOperandsNamespace rc"

definition drpcInAdminNamespace :: "drpc \<Rightarrow> ramen_config \<Rightarrow> bool" where
  "drpcInAdminNamespace d rc \<longleftrightarrow> drpcAdminNamespaceName rc = dNamespace d"

definition ensureDRPCValidNamespace :: "drpc \<Rightarrow> ramen_config \<Rightarrow> gerr option" where
  "ensureDRPCValidNamespace d rc =
     (if drpcInAdminNamespace d rc
      then (if \<not> cfgMultiNamespaceFeatureEnabled rc
            then Some (newE ''drpc cannot be in admin namespace when multinamespace feature is disabled'')
            else case dProtectedNamespaces (dSpec d) of
                   None \<Rightarrow> Some (newE ''drpc in admin namespace must have protected namespaces'')
                 | Some nss \<Rightarrow>
                     if nss = [] then Some (newE ''drpc in admin namespace must have protected namespaces'')
                     else if drpcAdminNamespaceName rc \<in> set nss
                     then Some (newE (''admin namespace cannot be a protected namespace, admin namespace: '' @ drpcAdminNamespaceName rc))
                     else None)
      else if isDiscoveredApp d
      then Some (newE (''drpc in non-admin namespace('' @ dNamespace d @ '') cannot have protected namespaces, admin-namespaces: ''
                     @ drpcAdminNamespaceName rc))
      else None)"

section \<open>Conflicts with other DRPCs\<close>

definition drpcsProtectCommonNamespace :: "string list \<Rightarrow> string list \<Rightarrow> bool" where
  "drpcsProtectCommonNamespace ns ns' = list_ex (\<lambda>n. n \<in> set ns') ns"

definition getProtectedNamespaces :: "drpc \<Rightarrow> user_object option \<Rightarrow> string list shm" where
  "getProtectedNamespaces d obj =
     (if isDiscoveredApp d then ret (the (dProtectedNamespaces (dSpec d)))
      else bindM (case obj of None \<Rightarrow> drpcGetPlacementOrPlacementRule d | Some x \<Rightarrow> ret x)
             (\<lambda>x. bindM (vrgNamespaceFor d (Some x)) (\<lambda>ns. ret [ns])))"

definition drpcHaveCommonClusters :: "drpc \<Rightarrow> drpc \<Rightarrow> bool shm" where
  "drpcHaveCommonClusters d other =
     bindM (catchM (GetDRPolicy d) (\<lambda>e. failM (wrapE ''failed to get DRPolicy '' e [])))
       (\<lambda>p. bindM (catchM (GetDRPolicy other) (\<lambda>e. failM (wrapE ''failed to get DRPolicy '' e [])))
          (\<lambda>p'. ret (list_ex (\<lambda>c. c \<in> set (polDRClusters p')) (polDRClusters p))))"

definition drpcMetaAndOtherHaveVMRecipe :: "drpc \<Rightarrow> drpc \<Rightarrow> ramen_config \<Rightarrow> bool" where
  "drpcMetaAndOtherHaveVMRecipe d other rc =
     (case (Option.bind (dKubeObjectProtection (dSpec d)) kopRecipeRef,
            Option.bind (dKubeObjectProtection (dSpec other)) kopRecipeRef) of
        (Some r, Some r') \<Rightarrow>
          rfName r = ''vm-recipe'' \<and> rfName r' = ''vm-recipe''
          \<and> rfNamespace r = RamenOperandsNamespace rc \<and> rfNamespace r' = RamenOperandsNamespace rc
      | _ \<Rightarrow> False)"

definition recipeValues :: "drpc \<Rightarrow> string \<Rightarrow> string list" where
  "recipeValues d k =
     (case dKubeObjectProtection (dSpec d) of
        None \<Rightarrow> []
      | Some kop \<Rightarrow> (case map_of (kopRecipeParameters kop) k of None \<Rightarrow> [] | Some vs \<Rightarrow> vs))"

definition drpcProtectVMInNS :: "drpc \<Rightarrow> drpc \<Rightarrow> ramen_config \<Rightarrow> bool" where
  "drpcProtectVMInNS d other rc \<longleftrightarrow>
     drpcMetaAndOtherHaveVMRecipe d other rc
     \<and> list_all (\<lambda>k. \<not> list_ex (\<lambda>v. v \<in> set (recipeValues other k)) (recipeValues d k))
         [''PROTECTED_VMS'', ''K8S_RESOURCE_SELECTOR'', ''PVC_RESOURCE_SELECTOR'']"

definition twoDRPCsConflict :: "drpc \<Rightarrow> user_object option \<Rightarrow> drpc \<Rightarrow> ramen_config \<Rightarrow> unit shm" where
  "twoDRPCsConflict d obj other rc =
     (if \<not> drpcInAdminNamespace d rc \<and> \<not> drpcInAdminNamespace other rc then ret ()
      else bindM (catchM (drpcHaveCommonClusters d other)
                    (\<lambda>e. failM (wrapE ''failed to check if drpcs have common clusters ('' e '')'')))
             (\<lambda>common. if \<not> common then ret () else
                bindM (catchM (getProtectedNamespaces d obj)
                         (\<lambda>e. failM (wrapE (''failed to get protected namespaces for drpc: '' @ dName d @ '', '') e [])))
                  (\<lambda>ns. bindM (catchM (getProtectedNamespaces other None)
                                (\<lambda>e. failM (wrapE (''failed to get protected namespaces for drpc: '' @ dName other @ '', '') e [])))
                     (\<lambda>ns'. if drpcProtectVMInNS d other rc then ret ()
                            else if drpcsProtectCommonNamespace ns ns'
                            then failM (newE (''drpc: '' @ dName d @ '' and drpc: '' @ dName other
                                           @ '' protect common resources from the same namespace''))
                            else ret ()))))"

text \<open>The list may be stale, so each DRPC of it is read again.\<close>

definition ensureNoConflictingDRPCs :: "drpc \<Rightarrow> user_object option \<Rightarrow> ramen_config \<Rightarrow> unit shm" where
  "ensureNoConflictingDRPCs d obj rc =
     seqM (catchM shCall (\<lambda>e. failM (wrapE ''failed to list DRPlacementControls ('' e '')'')))
       (bindM (getsM (\<lambda>sh. hubDRPCs (environ (shHub sh))))
          (\<lambda>items. forM items (\<lambda>item.
             if dName item = dName d \<and> dNamespace item = dNamespace d then ret ()
             else bindM (catchM (seqM shCall
                           (bindM (getsM (\<lambda>sh. find (\<lambda>x. dName x = dName item \<and> dNamespace x = dNamespace item)
                                     (hubDRPCs (environ (shHub sh)))))
                              (\<lambda>r. case r of None \<Rightarrow> failM (Gerr NotFound (dName item @ '' not found'')) | Some x \<Rightarrow> ret x)))
                           (\<lambda>e. failM (wrapE (''failed to get other DRPC '' @ dNamespace item @ ''/'' @ dName item @ '': '') e [])))
                    (\<lambda>other. twoDRPCsConflict d obj other rc))))"

end
