(* ===== verification/Ramen_DrpcAdopt.thy ===== *)
theory Ramen_DrpcAdopt
  imports Ramen_DrpcShell
begin

text \<open>
  A DRPC that finds VRGs it did not ship, after the hub was recovered or the operator upgraded
  (\<^verbatim>\<open>drplacementcontrol_controller.go\<close>): it adopts them by writing their ManifestWorks, and it rebuilds its own state, which
  decides whether it goes on by itself, waits for the user, or lets the user fail over.
\<close>

section \<open>Adoption\<close>

definition drActionOf :: "vrg_action \<Rightarrow> dr_action" where
  "drActionOf a = (case a of VRGActionNone \<Rightarrow> ActionNone | VRGActionFailover \<Rightarrow> ActionFailover | VRGActionRelocate \<Rightarrow> ActionRelocate)"

definition constructVRGFromView :: "vrg \<Rightarrow> vrg" where
  "constructVRGFromView view =
     (emptyVRG (vName view) (vNamespace view) [] Primary)
       \<lparr>vSpec := vSpec view,
        vAnnotations := foldl (\<lambda>m (k, v).
          if k \<in> {DestinationClusterAnnotationKey, IsCGEnabledAnnotation, IsSubmarinerEnabledAnnotation,
                   UseVolSyncAnnotation, EnableDiffAnnotation, DRPCUIDAnnotation}
          then sm_put k v m else m) [] (vAnnotations view)\<rparr>"

text \<open>Errors of an adoption are logged; the next reconcile tries again.\<close>

definition adoptOrphanVRG :: "drpc \<Rightarrow> string \<Rightarrow> vrg \<Rightarrow> string \<Rightarrow> unit hubm" where
  "adoptOrphanVRG d ns view cluster =
     catchM
       (seqM (CreateOrUpdateNamespaceManifestWork (dName d) ns cluster (drpcViewAnnotations d) [])
          (let v = constructVRGFromView view
           in bindM (CreateOrUpdateVRGManifestWork (dName d) ns cluster
                       (v\<lparr>vAnnotations := sm_put DRPCUIDAnnotation (dUID d) (vAnnotations v)\<rparr>) (drpcViewAnnotations d))
                (\<lambda>_. ret ())))
       (\<lambda>_. ret ())"

definition adoptExistingVRGManifestWork :: "drpc \<Rightarrow> string \<Rightarrow> vrg \<Rightarrow> string \<Rightarrow> unit hubm" where
  "adoptExistingVRGManifestWork d ns v cluster =
     (if map_of (vAnnotations v) DRPCUIDAnnotation = Some (dUID d) then ret ()
      else catchM
             (bindM (CreateOrUpdateVRGManifestWork (dName d) ns cluster
                       (v\<lparr>vAnnotations := sm_put DRPCUIDAnnotation (dUID d) (vAnnotations v)\<rparr>) (drpcViewAnnotations d))
                (\<lambda>_. ret ()))
             (\<lambda>_. ret ()))"

definition adoptVRG :: "drpc \<Rightarrow> string \<Rightarrow> vrg \<Rightarrow> string \<Rightarrow> bool hubm" where
  "adoptVRG d ns view cluster =
     bindM (attemptM (FindManifestWork (mwuManifestWorkName (dName d) ns ''vrg'') cluster))
       (\<lambda>r. case r of
          Inl e \<Rightarrow> if \<not> IsNotFound e then ret False else seqM (adoptOrphanVRG d ns view cluster) (ret False)
        | Inr mw \<Rightarrow>
            if mwDeleted mw then ret True
            else case ExtractVRGFromManifestWork mw of
                   Inl _ \<Rightarrow> ret False
                 | Inr v \<Rightarrow> seqM (adoptExistingVRGManifestWork d ns v cluster) (ret False))"

definition managedBy :: "drpc \<Rightarrow> vrg \<Rightarrow> bool" where
  "managedBy d v \<longleftrightarrow> map_of (vAnnotations v) DRPCUIDAnnotation = Some (dUID d)"

definition ensureVRGsManagedByDRPC :: "drpc \<Rightarrow> string \<Rightarrow> (string \<times> vrg) list \<Rightarrow> bool hubm" where
  "ensureVRGsManagedByDRPC d ns vs =
     foldlM (\<lambda>ensured (cluster, view).
        if vDeleted view \<or> managedBy d view then ret ensured
        else bindM (adoptVRG d ns view cluster) (\<lambda>adopted. ret (ensured \<and> adopted))) True vs"

section \<open>Rebuilding the state\<close>

datatype progress = Continue | AllowFailover | Stop

text \<open>The loop over the map that ends at the first primary, and otherwise with the entry it saw last.\<close>

definition pickVRG :: "(string \<times> vrg) list \<Rightarrow> string \<times> vrg" where
  "pickVRG vs = (case find (\<lambda>e. isVRGPrimary (snd e)) vs of Some e \<Rightarrow> e | None \<Rightarrow> last vs)"

text \<open>Parts of the messages, as \<^verbatim>\<open>fmt.Sprintf\<close> writes them.\<close>

definition field :: "string \<Rightarrow> string \<Rightarrow> string" where
  "field label v = label @ CHR 0x27 # v @ [CHR 0x27]"

definition bothActions :: "string \<Rightarrow> string \<Rightarrow> drpc \<Rightarrow> vrg \<Rightarrow> string" where
  "bothActions l l' d v =
     field l (dr_action_str (dAction (dSpec d))) @ field l' (dr_action_str (drActionOf (vAction (vSpec v))))"

definition bothClusters :: "string \<Rightarrow> vrg \<Rightarrow> string" where
  "bothClusters dst v =
     field ''. DRPCDstClstr:'' dst @ field ''. vrgDstClstr:'' (sm_get (vAnnotations v) DestinationClusterAnnotationKey) @ ''.''"

text \<open>
  The decision of \<^verbatim>\<open>determineDRPCState\<close> from what it found: the VRGs in the order of the range over them, the number of
  clusters queried with success, the last cluster that failed, and the primary that the object stores know last.
\<close>

definition decideProgress ::
  "drpc \<Rightarrow> string \<Rightarrow> (string \<times> vrg) list \<Rightarrow> nat \<Rightarrow> string \<Rightarrow> vrg option \<Rightarrow> progress \<times> string" where
  "decideProgress d dst vs queried failed s3 =
     (if queried = 0 then (Stop, ''Stop - Number of clusters queried is 0'')
      else if queried = 2 \<and> vs = [] then (Continue, [])
      else if sPhase (dStatus d) = WaitForUser \<and> dAction (dSpec d) = ActionFailover \<and> dFailoverCluster (dSpec d) \<noteq> failed
      then (Continue, [])
      else if queried = 1 \<and> vs = []
      then (case s3 of
              None \<Rightarrow>
                if failed \<noteq> dst then (Continue, [])
                else (Stop, ''Unable to query all clusters and failed to get VRG from s3 store. Failed to query '' @ failed)
            | Some v \<Rightarrow>
                if dAction (dSpec d) \<noteq> drActionOf (vAction (vSpec v))
                then (AllowFailover, bothActions ''Failover is allowed - Two different actions - drpcAction is '' '' and vrgAction from s3 is '' d v)
                else if dst = sm_get (vAnnotations v) DestinationClusterAnnotationKey \<and> dst \<noteq> failed then (Continue, [])
                else (AllowFailover, bothActions ''Failover is allowed - drpcAction:'' ''. vrgAction:'' d v @ bothClusters dst v))
      else if queried = 1 \<and> length vs = 1
      then (let (clusterName, v) = hd vs
            in if vReplicationState (vSpec v) = Primary \<and> dst = clusterName
               then (if dAction (dSpec d) \<noteq> drActionOf (vAction (vSpec v))
                     then (Stop, bothActions ''Stop - Two different actions for the same cluster - drpcAction:'' ''. vrgAction:'' d v)
                     else (Continue, []))
               else if dst \<noteq> clusterName \<and> vReplicationState (vSpec v) = Secondary
               then (AllowFailover, ''Failover is allowed - Primary is assumed to be on the failed cluster'')
               else (AllowFailover, bothActions ''Failover is allowed - drpcAction:'' ''. vrgAction:'' d v @ bothClusters dst v
                       @ field '' ReplicationState: '' (replication_state_str (vReplicationState (vSpec v))) @ ''.''))
      else if queried = 2 \<and> vs \<noteq> []
      then (let (clusterName, v) = pickVRG vs
            in if vReplicationState (vSpec v) = Secondary \<and> length vs = 2
               then (Stop, ''Stop - Both VRGs have the same secondary state'')
               else if dAction (dSpec d) = drActionOf (vAction (vSpec v)) \<and> dst = clusterName then (Continue, [])
               else (AllowFailover, field ''Failover is allowed - VRGs count:'' (show_nat (length vs))
                       @ bothActions ''. drpcAction:'' ''. vrgAction:'' d v @ field ''. DstCluster:'' dst
                       @ field ''. vrgOnCluster '' clusterName))
      else (AllowFailover, ''Failover is allowed - User intervention is required''))"

definition determineDRPCState :: "drpolicy \<Rightarrow> string \<Rightarrow> (progress \<times> string) shm" where
  "determineDRPCState p dst =
     bindM (getsM (\<lambda>sh. (theDRPC sh, shPlacement sh)))
       (\<lambda>(d, obj). bindM (vrgNamespaceFor d obj)
          (\<lambda>ns. bindM (drpcGetDRClusters (polDRClusters p))
             (\<lambda>dcs. bindM (inHub (getVRGsFromManagedClusters d dcs ns))
                (\<lambda>(found, queried, failed). bindM (getsM (\<lambda>sh. rangeVRGs sh found))
                   (\<lambda>vs. bindM (inHub (ensureVRGsManagedByDRPC d ns vs))
                      (\<lambda>managed. if \<not> managed then ret (Stop, ''VRG adoption in progress'')
                         else getsM (\<lambda>sh. decideProgress d dst (rangeVRGs sh found) queried failed
                                (GetLastKnownVRGPrimaryFromS3 (environ (shHub sh)) (AvailableS3Profiles dcs) (dName d) ns None))))))))"

definition setDRPCConditions :: "(string \<times> condition_status \<times> string \<times> string) list \<Rightarrow> unit shm" where
  "setDRPCConditions cs = forM cs (\<lambda>(t, st, reason, msg). inHub (setCond t st reason msg))"

text \<open>The phase is unset when the DRPC is new and after the hub was recovered.\<close>

definition ensureDRPCStatusConsistency :: "drpolicy \<Rightarrow> bool shm" where
  "ensureDRPCStatusConsistency p =
     bindM (getsM theDRPC)
       (\<lambda>d. if sPhase (dStatus d) \<noteq> StateNone \<and> sPhase (dStatus d) \<noteq> WaitForUser then ret False
            else bindM (determineDRPCState p
                          (if dAction (dSpec d) = ActionFailover then dFailoverCluster (dSpec d) else dPreferredCluster (dSpec d)))
              (\<lambda>(progress, msg). case progress of
                 Continue \<Rightarrow> ret False
               | AllowFailover \<Rightarrow>
                   seqM (modDRPC (\<lambda>d. snd (updateDRPCProgression
                           (d\<lparr>dStatus := (dStatus d)\<lparr>sPhase := WaitForUser, sObservedGeneration := dGeneration d\<rparr>\<rparr>)
                           ProgressionActionPaused)))
                     (seqM (setDRPCConditions [(''Available'', ConditionTrue, ''Success'', msg),
                              (''PeerReady'', ConditionTrue, ''Success'', ''Failover allowed'')])
                        (ret True))
               | Stop \<Rightarrow>
                   seqM (modDRPC (\<lambda>d. snd (updateDRPCProgression d ProgressionActionPaused)))
                     (seqM (setDRPCConditions [(''Available'', ConditionFalse, ''Paused'',
                                ''Operation Paused - User Intervention Required. '' @ msg),
                              (''PeerReady'', ConditionFalse, ''Paused'', ''User Intervention Required'')])
                        (ret True))))"

end
