(* ===== verification/Ramen_Md5.thy ===== *)
theory Ramen_Md5
  imports Ramen_Prelude "HOL-Library.Word"
begin

text \<open>
  \<^verbatim>\<open>md5.Sum\<close> and \<^verbatim>\<open>hex.EncodeToString\<close> of Go's library, as far as \<^verbatim>\<open>util/secrets_util.go\<close> uses them to shorten the name of a
  policy, and that function.
\<close>

unbundle bit_operations_syntax

section \<open>MD5\<close>

definition md5Shifts :: "nat list" where
  "md5Shifts =
     [7, 12, 17, 22, 7, 12, 17, 22, 7, 12, 17, 22, 7, 12, 17, 22,
      5, 9, 14, 20, 5, 9, 14, 20, 5, 9, 14, 20, 5, 9, 14, 20,
      4, 11, 16, 23, 4, 11, 16, 23, 4, 11, 16, 23, 4, 11, 16, 23,
      6, 10, 15, 21, 6, 10, 15, 21, 6, 10, 15, 21, 6, 10, 15, 21]"

definition md5Constants :: "32 word list" where
  "md5Constants =
     [0xd76aa478, 0xe8c7b756, 0x242070db, 0xc1bdceee, 0xf57c0faf, 0x4787c62a,
      0xa8304613, 0xfd469501, 0x698098d8, 0x8b44f7af, 0xffff5bb1, 0x895cd7be,
      0x6b901122, 0xfd987193, 0xa679438e, 0x49b40821, 0xf61e2562, 0xc040b340,
      0x265e5a51, 0xe9b6c7aa, 0xd62f105d, 0x02441453, 0xd8a1e681, 0xe7d3fbc8,
      0x21e1cde6, 0xc33707d6, 0xf4d50d87, 0x455a14ed, 0xa9e3e905, 0xfcefa3f8,
      0x676f02d9, 0x8d2a4c8a, 0xfffa3942, 0x8771f681, 0x6d9d6122, 0xfde5380c,
      0xa4beea44, 0x4bdecfa9, 0xf6bb4b60, 0xbebfbc70, 0x289b7ec6, 0xeaa127fa,
      0xd4ef3085, 0x04881d05, 0xd9d4d039, 0xe6db99e5, 0x1fa27cf8, 0xc4ac5665,
      0xf4292244, 0x432aff97, 0xab9423a7, 0xfc93a039, 0x655b59c3, 0x8f0ccc92,
      0xffeff47d, 0x85845dd1, 0x6fa87e4f, 0xfe2ce6e0, 0xa3014314, 0x4e0811a1,
      0xf7537e82, 0xbd3af235, 0x2ad7d2bb, 0xeb86d391]"

text \<open>A number in \<open>n\<close> bytes, the lowest first, and the number of four such bytes.\<close>

fun littleEndian :: "nat \<Rightarrow> nat \<Rightarrow> nat list" where
  "littleEndian 0 x = []"
| "littleEndian (Suc n) x = x mod 256 # littleEndian n (x div 256)"

fun wordOf :: "nat list \<Rightarrow> 32 word" where
  "wordOf [] = 0"
| "wordOf (b # bs) = of_nat b + 256 * wordOf bs"

definition md5Pad :: "nat list \<Rightarrow> nat list" where
  "md5Pad bs =
     bs @ [128] @ replicate ((119 - length bs mod 64) mod 64) 0 @ littleEndian 8 (8 * length bs)"

fun chunks :: "nat \<Rightarrow> nat \<Rightarrow> 'a list \<Rightarrow> 'a list list" where
  "chunks 0 n xs = []"
| "chunks (Suc k) n xs = take n xs # chunks k n (drop n xs)"

type_synonym md5_state = "32 word \<times> 32 word \<times> 32 word \<times> 32 word"

definition md5Step :: "32 word list \<Rightarrow> md5_state \<Rightarrow> nat \<Rightarrow> md5_state" where
  "md5Step ws st i =
     (case st of (a, b, c, d) \<Rightarrow>
        let (f, g) = (if i < 16 then ((b AND c) OR (NOT b AND d), i)
                      else if i < 32 then ((d AND b) OR (NOT d AND c), (5 * i + 1) mod 16)
                      else if i < 48 then (b XOR c XOR d, (3 * i + 5) mod 16)
                      else (c XOR (b OR NOT d), (7 * i) mod 16))
        in (d, b + word_rotl (md5Shifts ! i) (f + a + md5Constants ! i + ws ! g), b, c))"

definition md5Block :: "md5_state \<Rightarrow> nat list \<Rightarrow> md5_state" where
  "md5Block st block =
     (case (st, foldl (md5Step (map wordOf (chunks 16 4 block))) st [0..<64]) of
        ((a, b, c, d), (a', b', c', d')) \<Rightarrow> (a + a', b + b', c + c', d + d'))"

definition md5Sum :: "nat list \<Rightarrow> nat list" where
  "md5Sum bs =
     (let padded = md5Pad bs;
          (a, b, c, d) = foldl md5Block (0x67452301, 0xefcdab89, 0x98badcfe, 0x10325476)
                           (chunks (length padded div 64) 64 padded)
      in concat (map (\<lambda>w. littleEndian 4 (unat w)) [a, b, c, d]))"

definition hexDigit :: "nat \<Rightarrow> char" where
  "hexDigit n = ''0123456789abcdef'' ! n"

definition hexEncode :: "nat list \<Rightarrow> string" where
  "hexEncode bs = concat (map (\<lambda>b. [hexDigit (b div 16), hexDigit (b mod 16)]) bs)"

section \<open>The name of a policy\<close>

text \<open>A Go \<^verbatim>\<open>int\<close> that may be negative bounds the length.\<close>

definition GeneratePolicyName :: "string \<Rightarrow> int \<Rightarrow> string" where
  "GeneratePolicyName name maxLen =
     (if maxLen \<le> 13 then name
      else if int (length name) \<le> maxLen then name
      else take (nat maxLen) (''vs-secret-'' @ hexEncode (md5Sum (map of_char name))))"

lemma length_littleEndian [simp]: "length (littleEndian n x) = n"
  by (induction n x rule: littleEndian.induct) auto

lemma length_md5Sum [simp]: "length (md5Sum bs) = 16"
  by (simp add: md5Sum_def Let_def split: prod.split)

text \<open>The policy name fits unless the bound leaves no room for a shortened one.\<close>

lemma length_GeneratePolicyName: "maxLen > 13 \<Longrightarrow> int (length (GeneratePolicyName name maxLen)) \<le> maxLen"
  by (auto simp: GeneratePolicyName_def)

end
