(* ===== verification/Ramen_SecretPropagation.thy ===== *)
theory Ramen_SecretPropagation
  imports Ramen_DrpcShell Ramen_Md5
begin

text \<open>
  Delivery of the VolSync secret of a DRPC (\<^verbatim>\<open>volsync/secret_propagator.go\<close>): a Policy with the secret, a PlacementRule with the
  clusters and a PlacementBinding, all named after the DRPC and owned by it, and their removal with the DRPC.
\<close>

section \<open>Names\<close>

definition GetVolSyncPSKSecretNameFromVRGName :: "string \<Rightarrow> string" where
  "GetVolSyncPSKSecretNameFromVRGName vrgName = vrgName @ ''-vs-secret''"

text \<open>\<^verbatim>\<open>newSecretPropagator\<close> gives its three objects one name.\<close>

definition propagationName :: "drpc \<Rightarrow> string" where
  "propagationName owner = GeneratePolicyName (dName owner @ ''-vs-secret'') (62 - int (length (dNamespace owner)))"

section \<open>Creating and updating\<close>

definition createOrUpdateIn ::
  "(shell \<Rightarrow> 'v store) \<Rightarrow> (('v store \<Rightarrow> 'v store) \<Rightarrow> shell \<Rightarrow> shell) \<Rightarrow> string \<Rightarrow> string \<Rightarrow> 'v \<Rightarrow> ('v \<Rightarrow> gerr + 'v) \<Rightarrow> unit shm" where
  "createOrUpdateIn fld upd name ns fresh mutate =
     bindM (attemptM (shGet fld name ns))
       (\<lambda>r. case r of
          Inl e \<Rightarrow> if IsNotFound e then bindM (liftE (mutate fresh)) (shPut fld upd True name ns) else failM e
        | Inr v \<Rightarrow> bindM (liftE (mutate v)) (\<lambda>v'. if v' = v then ret () else shPut fld upd False name ns v'))"

text \<open>\<^verbatim>\<open>ctrl.SetControllerReference\<close>: an object has at most one controller.\<close>

definition controllerOf :: "drpc \<Rightarrow> string \<times> string" where
  "controllerOf owner = (''DRPlacementControl'', dName owner)"

definition SetControllerReference :: "drpc \<Rightarrow> (string \<times> string) option \<Rightarrow> gerr + (string \<times> string) option" where
  "SetControllerReference owner current =
     (if current = None \<or> current = Some (controllerOf owner) then Inr (Some (controllerOf owner))
      else Inl (newE ''Object is already owned by another controller''))"

definition withLabel :: "string \<Rightarrow> string \<Rightarrow> strmap \<Rightarrow> strmap" where
  "withLabel k v labels = (if map_of labels k = Some v then labels else sm_put k v labels)"

definition getEmbeddedConfigPolicy :: "string \<Rightarrow> string \<Rightarrow> string list \<Rightarrow> string \<Rightarrow> string \<Rightarrow> configuration_policy" where
  "getEmbeddedConfigPolicy srcName srcNamespace keys destName destNamespace =
     \<lparr>cpName = ''rmn-'' @ destNamespace @ ''-'' @ destName, cpLabels = [CreatedByRamen],
      cpObject = \<lparr>lsName = destName, lsNamespace = destNamespace, lsLabels = [CreatedByRamen],
        lsData = foldl (\<lambda>m k. sm_put k (''{{hub fromSecret '' @ quoted srcNamespace @ '' '' @ quoted srcName @ '' ''
                                         @ quoted k @ '' hub}}'') m) [] keys\<rparr>\<rparr>"

definition reconcileSecretPropagationPolicy :: "drpc \<Rightarrow> configuration_policy \<Rightarrow> unit shm" where
  "reconcileSecretPropagationPolicy owner embedded =
     catchM
       (createOrUpdateIn shSecretPolicies shSecretPolicies_update (propagationName owner) (dNamespace owner)
          \<lparr>owOwner = None, owLabels = [CreatedByRamen], owSpec = embedded\<rparr>
          (\<lambda>policy. case SetControllerReference owner (owOwner policy) of
             Inl e \<Rightarrow> Inl e
           | Inr c \<Rightarrow> Inr (policy\<lparr>owOwner := c, owLabels := withLabel ExcludeFromVeleroBackup ''true'' (owLabels policy),
                              owSpec := embedded\<rparr>)))
       (\<lambda>e. failM (wrapE ''error creating or updating secret propagation policy ('' e '')''))"

definition reconcileSecretPropagationPlacementRule :: "drpc \<Rightarrow> string list \<Rightarrow> unit shm" where
  "reconcileSecretPropagationPlacementRule owner destClusters =
     catchM
       (createOrUpdateIn shRules shRules_update (propagationName owner) (dNamespace owner)
          \<lparr>urName = propagationName owner, urNamespace = dNamespace owner, urDeleted = False, urAnnotations = [],
           urLabels = [CreatedByRamen], urFinalizers = [], urSchedulerName = [], urClusters = [], urDecisions = [],
           urOwner = None, urClusterConditions = []\<rparr>
          (\<lambda>rule. case SetControllerReference owner (urOwner rule) of
             Inl e \<Rightarrow> Inl e
           | Inr c \<Rightarrow> Inr (rule\<lparr>urOwner := c, urSchedulerName := [], urClusters := destClusters,
                              urClusterConditions := [(''ManagedClusterConditionAvailable'', ConditionTrue)]\<rparr>)))
       (\<lambda>e. failM (wrapE ''error creating or updating secret propagation placement rule ('' e '')''))"

definition reconcileSecretPropagationPlacementBinding :: "drpc \<Rightarrow> unit shm" where
  "reconcileSecretPropagationPlacementBinding owner =
     catchM
       (createOrUpdateIn shBindings shBindings_update (propagationName owner) (dNamespace owner)
          \<lparr>owOwner = None, owLabels = [CreatedByRamen], owSpec = ([], [])\<rparr>
          (\<lambda>binding. case SetControllerReference owner (owOwner binding) of
             Inl e \<Rightarrow> Inl e
           | Inr c \<Rightarrow> Inr (binding\<lparr>owOwner := c, owSpec := (propagationName owner, propagationName owner)\<rparr>)))
       (\<lambda>e. failM (wrapE ''error creating or updating secret propagation placement binding ('' e '')''))"

definition PropagateSecretToClusters ::
  "string \<Rightarrow> string \<Rightarrow> string list \<Rightarrow> drpc \<Rightarrow> string list \<Rightarrow> string \<Rightarrow> string \<Rightarrow> unit shm" where
  "PropagateSecretToClusters srcName srcNamespace keys owner destClusters destSecretName destSecretNamespace =
     seqM (reconcileSecretPropagationPolicy owner
             (getEmbeddedConfigPolicy srcName srcNamespace keys destSecretName destSecretNamespace))
       (seqM (reconcileSecretPropagationPlacementRule owner destClusters)
          (reconcileSecretPropagationPlacementBinding owner))"

section \<open>Cleaning up\<close>

definition deleteIgnoreNotFound :: "unit shm \<Rightarrow> unit shm" where
  "deleteIgnoreNotFound del = catchM del (\<lambda>e. if IsNotFound e then ret () else failM e)"

definition CleanupSecretPropagation :: "drpc \<Rightarrow> unit shm" where
  "CleanupSecretPropagation owner =
     seqM (deleteIgnoreNotFound (shDelete shBindings shBindings_update (propagationName owner) (dNamespace owner)))
       (seqM (deleteIgnoreNotFound (deleteRule (propagationName owner) (dNamespace owner)))
          (deleteIgnoreNotFound (shDelete shSecretPolicies shSecretPolicies_update (propagationName owner) (dNamespace owner))))"

end
