(* ===== verification/Ramen_DrpcDelete.thy ===== *)
theory Ramen_DrpcDelete
  imports Ramen_DrpcAdopt Ramen_SecretPropagation
begin

text \<open>
  Deletion of a DRPC (\<^verbatim>\<open>drplacementcontrol_controller.go\<close>): its VRGs, secondaries first, its other ManifestWorks and views, the
  objects that deliver its secret, and last its finalizers on the placement and on itself.
\<close>

section \<open>The cloned PlacementRule\<close>

definition clonedPlRuleName :: "drpc \<Rightarrow> string" where
  "clonedPlRuleName d = ''drpc-plrule-'' @ dName d @ ''-'' @ dNamespace d"

definition getClonedPlacementRule :: "string \<Rightarrow> string \<Rightarrow> user_rule shm" where
  "getClonedPlacementRule name ns =
     catchM (shGet shRules name ns) (\<lambda>e. failM (wrapE ''failed to get placementrule error: '' e []))"

definition deleteClonedPlacementRule :: "string \<Rightarrow> string \<Rightarrow> unit shm" where
  "deleteClonedPlacementRule name ns =
     bindM (attemptM (getClonedPlacementRule name ns))
       (\<lambda>r. case r of
          Inl e \<Rightarrow> if IsNotFound e then ret () else failM e
        | Inr rule \<Rightarrow> catchM (deleteRule name ns) (\<lambda>e. failM (wrapE ''failed to delete cloned plRule '' e [])))"

section \<open>VRGs and views\<close>

text \<open>
  The loop over the VRGs of one replication state: it asks for the deletion of each work, and fails while there is one. The
  map is ranged over again by the adoption inside it.
\<close>

fun deleteVRGsIn :: "drpc \<Rightarrow> string \<Rightarrow> (string \<times> vrg) list \<Rightarrow> replication_state \<Rightarrow> (string \<times> vrg) list \<Rightarrow> bool \<Rightarrow> bool hubm" where
  "deleteVRGsIn d ns vs st [] inProgress = ret inProgress"
| "deleteVRGsIn d ns vs st ((cluster, v) # rest) inProgress =
     (if vReplicationState (vSpec v) \<noteq> st then deleteVRGsIn d ns vs st rest inProgress
      else bindM (ensureVRGsManagedByDRPC d ns vs)
             (\<lambda>managed. if \<not> managed then failM (newE (replication_state_str st @ '' VRG adoption in progress''))
                else seqM (catchM (DeleteManifestWork (mwuManifestWorkName (dName d) ns ''vrg'') cluster)
                             (\<lambda>e. failM (wrapE (''failed to delete '' @ replication_state_str st @ '' VRG manifestwork for cluster ''
                                              @ quoted cluster @ '': '') e [])))
                       (deleteVRGsIn d ns vs st rest True)))"

definition ensureVRGsDeleted :: "drpc \<Rightarrow> string \<Rightarrow> (string \<times> vrg) list \<Rightarrow> replication_state \<Rightarrow> unit hubm" where
  "ensureVRGsDeleted d ns vs st =
     bindM (deleteVRGsIn d ns vs st vs False)
       (\<lambda>inProgress. if inProgress then failM (newE (replication_state_str st @ '' VRG manifestwork deletion in progress''))
                      else ret ())"

definition deleteProtectedNamespaceMCVs :: "drpc \<Rightarrow> string \<Rightarrow> unit hubm" where
  "deleteProtectedNamespaceMCVs d cluster =
     (if \<not> isDiscoveredApp d then ret ()
      else forM (the (dProtectedNamespaces (dSpec d)))
             (\<lambda>ns. catchM (DeleteNamespaceManagedClusterView ns [] cluster)
                     (\<lambda>e. failM (wrapE (''failed to delete namespace MCV for '' @ quoted ns @ '': '') e []))))"

definition deleteAllManagedClusterViews :: "drpc \<Rightarrow> string list \<Rightarrow> string \<Rightarrow> unit hubm" where
  "deleteAllManagedClusterViews d clusterNames ns =
     forM clusterNames (\<lambda>cluster.
       seqM (catchM (DeleteVRGManagedClusterView (dName d) ns cluster)
               (\<lambda>e. failM (wrapE ''failed to delete VRG MCV '' e [])))
         (seqM (deleteProtectedNamespaceMCVs d cluster)
            (case Option.bind (dKubeObjectProtection (dSpec d)) kopRecipeRef of
               None \<Rightarrow> ret ()
             | Some rf \<Rightarrow> catchM (DeleteRecipeManagedClusterView (rfName rf) (rfNamespace rf) cluster)
                            (\<lambda>e. failM (wrapE ''failed to delete recipe MCV '' e [])))))"

text \<open>What \<^verbatim>\<open>cleanupVRGs\<close> does once it has the VRGs, in the order Go ranges over them.\<close>

definition cleanupFoundVRGs :: "drpc \<Rightarrow> drpolicy \<Rightarrow> string \<Rightarrow> (string \<times> vrg) list \<Rightarrow> unit hubm" where
  "cleanupFoundVRGs d p ns vs =
     seqM (ensureVRGsDeleted d ns vs Secondary)
       (seqM (ensureVRGsDeleted d ns vs Primary)
          (if vs \<noteq> [] then failM (newE ''waiting for VRGs count to go to zero'')
           else catchM (deleteAllManagedClusterViews d (polDRClusters p) ns)
                  (\<lambda>e. failM (wrapE ''error in deleting MCV ('' e '')''))))"

definition cleanupVRGs :: "drpc \<Rightarrow> drpolicy \<Rightarrow> string \<Rightarrow> unit shm" where
  "cleanupVRGs d p ns =
     bindM (catchM (drpcGetDRClusters (polDRClusters p))
              (\<lambda>e. failM (wrapE ''failed to get drclusters. Error ('' e '')'')))
       (\<lambda>dcs. bindM (catchM (inHub (getVRGsFromManagedClusters d dcs ns))
                       (\<lambda>e. failM (wrapE ''failed to retrieve VRGs. We'll retry later. Error ('' e '')'')))
          (\<lambda>(found, _, _). bindM (getsM (\<lambda>sh. rangeVRGs sh found))
             (\<lambda>vs. inHub (cleanupFoundVRGs d p ns vs))))"

definition deleteNamespaceManifestWorks :: "drpc \<Rightarrow> drpolicy \<Rightarrow> string \<Rightarrow> unit hubm" where
  "deleteNamespaceManifestWorks d p vrgNs =
     forM (if isDiscoveredApp d then the (dProtectedNamespaces (dSpec d)) else [vrgNs])
       (\<lambda>ns. forM (polDRClusters p)
          (\<lambda>cluster. DeleteNamespaceManifestWork (ManifestWorkName (dName d) ns ''ns'') cluster))"

section \<open>Finalizing\<close>

definition finalizeDRPC :: "unit shm" where
  "finalizeDRPC =
     bindM (getsM (\<lambda>sh. (theDRPC sh, shPlacement sh)))
       (\<lambda>(d, obj).
          seqM (whenM (dPreferredCluster (dSpec d) = []) (deleteClonedPlacementRule (clonedPlRuleName d) (dNamespace d)))
            (bindM (vrgNamespaceFor d obj)
               (\<lambda>ns. bindM (catchM (GetDRPolicy d) (\<lambda>e. failM (wrapE ''failed to get DRPolicy while finalizing DRPC ('' e '')'')))
                  (\<lambda>p. seqM (catchM (CleanupSecretPropagation d)
                               (\<lambda>e. failM (wrapE ''failed to clean up volsync secret-related resources ('' e '')'')))
                     (seqM (cleanupVRGs d p ns)
                        (seqM (inHub (deleteNamespaceManifestWorks d p ns))
                           (inHub (forM (polDRClusters p)
                              (\<lambda>cluster. DeleteRecipeManifestWork (mwuManifestWorkName (dName d) ns ''recipe'') cluster)))))))))"

fun syncExpression :: "string \<Rightarrow> label_requirement \<Rightarrow> label_requirement" where
  "syncExpression clusterName e =
     (if lrKey e \<noteq> ''name'' \<or> lrOperator e \<noteq> ''In'' then e else e\<lparr>lrValues := [clusterName]\<rparr>)"

definition syncPlacementPredicateClusterName :: "string \<Rightarrow> user_plc \<Rightarrow> bool \<times> user_plc" where
  "syncPlacementPredicateClusterName clusterName p =
     (let preds = map (map (syncExpression clusterName)) (upPredicates p)
      in (preds \<noteq> upPredicates p, p\<lparr>upPredicates := preds\<rparr>))"

definition alignPlacementPredicateWithDecision :: "user_object \<Rightarrow> user_object shm" where
  "alignPlacementPredicateWithDecision obj =
     (case obj of
        RuleObject _ \<Rightarrow> ret obj
      | PlacementObject p \<Rightarrow>
          bindM (inHub (getClusterDecisionFromPlacement (upName p)))
            (\<lambda>cd. ret (if cdClusterName cd = [] then obj
                       else PlacementObject (snd (syncPlacementPredicateClusterName (cdClusterName cd) p)))))"

definition finalizePlacement :: "user_object \<Rightarrow> unit shm" where
  "finalizePlacement obj =
     bindM (let obj' = withFinalizers (filter (\<lambda>f. f \<noteq> DRPCFinalizer) (objFinalizers obj)) obj
            in if objDeleted obj then ret obj' else alignPlacementPredicateWithDecision obj')
       (\<lambda>obj'. catchM (storePlacement obj')
                 (\<lambda>e. failM (wrapE ''failed to update User PlacementRule/Placement '' e [])))"

definition setDeletionStatusAndUpdate :: "unit shm" where
  "setDeletionStatusAndUpdate =
     bindM (getsM (\<lambda>sh. (theDRPC sh, clock (shHub sh))))
       (\<lambda>(d, t). let (progressionUpdated, d1) = updateDRPCProgression d ProgressionDeleting;
                      phaseUpdated = (sPhase (dStatus d) \<noteq> Deleting);
                      st1 = (if progressionUpdated then (dStatus d1)\<lparr>sActionStartTime := Some t, sActionDuration := None\<rparr> else dStatus d1)
                  in seqM (modDRPC (\<lambda>_. d1\<lparr>dStatus := st1\<lparr>sPhase := Deleting, sObservedGeneration := dGeneration d\<rparr>\<rparr>))
                       (whenM (progressionUpdated \<or> phaseUpdated)
                          (seqM (catchM shCall (\<lambda>e. failM (wrapE ''failed to update DRPC status: ('' e '')'')))
                             (modHub (\<lambda>h. h\<lparr>serverStatus := status h\<rparr>)))))"

definition drpcProcessDeletion :: "unit shm" where
  "drpcProcessDeletion =
     bindM (getsM (\<lambda>sh. DRPCFinalizer \<in> set (dFinalizers (theDRPC sh))))
       (\<lambda>guarded. whenM guarded
          (seqM setDeletionStatusAndUpdate
             (seqM finalizeDRPC
                (seqM (bindM (getsM shPlacement)
                         (\<lambda>r. case r of
                            None \<Rightarrow> ret ()
                          | Some obj \<Rightarrow> whenM (DRPCFinalizer \<in> set (objFinalizers obj)) (finalizePlacement obj)))
                   (seqM (modDRPC (\<lambda>d. snd (updateDRPCProgression d ProgressionDeleted)))
                      (seqM (modDRPC (\<lambda>d. d\<lparr>dFinalizers := filter (\<lambda>f. f \<noteq> DRPCFinalizer) (dFinalizers d)\<rparr>))
                         (catchM storeDRPC (\<lambda>e. failM (wrapE ''failed to update drpc '' e [])))))))))"

end
