(* ===== verification/Ramen_DrpcReconcile.thy ===== *)
theory Ramen_DrpcReconcile
  imports Ramen_DrpcDelete
begin

text \<open>
  The reconcile of a DRPC (\<^verbatim>\<open>drplacementcontrol_controller.go\<close>): the instance on which the engine runs, with the PlacementRule
  that chooses the preferred cluster and the network mapping, and \<^verbatim>\<open>Reconcile\<close> around it.
\<close>

section \<open>Choosing the preferred cluster\<close>

definition errWaitForDRPCPlacementRule :: gerr where
  "errWaitForDRPCPlacementRule = Gerr WaitForDRPCPlacementRule ''waiting for DRPC Placement to produces placement decision''"

definition addClusterPeersToPlacementRule :: "drpolicy \<Rightarrow> user_rule \<Rightarrow> gerr + user_rule" where
  "addClusterPeersToPlacementRule p r =
     (if polDRClusters p = [] then Inl (newE (''DRPolicy '' @ polName p @ '' is missing DR clusters''))
      else Inr (r\<lparr>urClusters := urClusters r @ polDRClusters p\<rparr>))"

text \<open>The clone carries the metadata of the user's rule, its finalizers included; the server drops the status.\<close>

definition clonePlacementRule :: "drpolicy \<Rightarrow> user_rule \<Rightarrow> string \<Rightarrow> user_rule shm" where
  "clonePlacementRule p userRule name =
     bindM (liftE (addClusterPeersToPlacementRule p
              (userRule\<lparr>urName := name, urSchedulerName := [], urLabels := withLabel CreatedByRamenLabel ''true'' (urLabels userRule)\<rparr>)))
       (\<lambda>r. let created = r\<lparr>urDecisions := []\<rparr>
            in seqM (catchM (shPut shRules shRules_update True name (urNamespace r) created)
                       (\<lambda>e. failM (wrapE ''failed to create PlacementRule: '' e [])))
                 (ret created))"

definition getOrClonePlacementRule :: "drpc \<Rightarrow> drpolicy \<Rightarrow> user_rule \<Rightarrow> user_rule shm" where
  "getOrClonePlacementRule d p userRule =
     bindM (attemptM (getClonedPlacementRule (clonedPlRuleName d) (dNamespace d)))
       (\<lambda>r. case r of
          Inr rule \<Rightarrow> ret rule
        | Inl e \<Rightarrow>
            if IsNotFound e
            then catchM (clonePlacementRule p userRule (clonedPlRuleName d))
                   (\<lambda>e'. failM (wrapE ''failed to create cloned placementrule error: '' e' []))
            else failM e)"

definition getDRPCPlacementRule :: "drpolicy \<Rightarrow> unit shm" where
  "getDRPCPlacementRule p =
     bindM (getsM (\<lambda>sh. (theDRPC sh, shPlacement sh)))
       (\<lambda>(d, obj). if dPreferredCluster (dSpec d) \<noteq> [] then ret ()
          else case obj of
                 Some (RuleObject userRule) \<Rightarrow>
                   bindM (getOrClonePlacementRule d p userRule)
                     (\<lambda>rule. if urDecisions rule = [] then failM errWaitForDRPCPlacementRule else ret ())
               | _ \<Rightarrow> failM (newE ''invalid user PlacementRule''))"

section \<open>The network mapping\<close>

definition LoadNetworkMapping :: "drpolicy \<Rightarrow> network_mapping_rules option shm" where
  "LoadNetworkMapping p =
     (let cmName = (case polNetworkMappingRef p of None \<Rightarrow> [] | Some n \<Rightarrow> n)
      in if cmName = [] then ret None
         else bindM (getsM (\<lambda>sh. dNamespace (theDRPC sh)))
           (\<lambda>ns. bindM (catchM (shGet shConfigMaps cmName ns)
                    (\<lambda>e. if IsNotFound e
                         then failM (newE (''network-mapping ConfigMap '' @ quoted cmName @ '' not found in namespace '' @ quoted ns))
                         else failM (wrapE (''failed to get network-mapping ConfigMap '' @ quoted cmName @ '': '') e [])))
              (\<lambda>data. case polDRClusters p of
                 [dr1, dr2] \<Rightarrow>
                   bindM (getsM (\<lambda>sh. ParseNetworkMappingConfigMap (shRegexp sh) (shUnmarshal sh) cmName
                                        (map_of data ''mappings.yaml'') dr1 dr2))
                     (\<lambda>r. case r of
                        Inl e \<Rightarrow> failM (wrapE (''failed to parse network-mapping ConfigMap '' @ quoted cmName @ '': '') e [])
                      | Inr rules \<Rightarrow> ret (Some rules))
               | _ \<Rightarrow> failM (newE (''DRPolicy '' @ quoted (polName p) @ '' must have exactly 2 drClusters, got ''
                                 @ show_nat (length (polDRClusters p)))))))"

text \<open>A mapping that cannot be loaded disables the translation and does not stop the reconcile.\<close>

definition loadNetworkMapping :: "drpolicy \<Rightarrow> network_mapping_rules option shm" where
  "loadNetworkMapping p =
     bindM (attemptM (LoadNetworkMapping p))
       (\<lambda>r. case r of
          Inl e \<Rightarrow>
            seqM (setDRPCConditions [(''NetworkMappingLoaded'', ConditionFalse, ''NetworkMappingLoadFailed'', Error e)]) (ret None)
        | Inr None \<Rightarrow> ret None
        | Inr (Some rules) \<Rightarrow>
            seqM (setDRPCConditions [(''NetworkMappingLoaded'', ConditionTrue, ''NetworkMappingLoaded'',
                     ''Network mapping loaded successfully'')]) (ret (Some rules)))"

section \<open>The instance\<close>

definition allVRGPeerClassesOffloaded :: "(string \<times> vrg) list \<Rightarrow> bool" where
  "allVRGPeerClassesOffloaded vs =
     (let pcs = concat (map (\<lambda>(_, v). case vAsync (vSpec v) of None \<Rightarrow> [] | Some a \<Rightarrow> asPeerClasses a) vs)
      in pcs \<noteq> [] \<and> list_all pcOffloaded pcs)"

text \<open>Whether the DRPC is Metro, and whether VolSync is disabled for it.\<close>

definition chooseDRType :: "drpc \<Rightarrow> drpolicy \<Rightarrow> ramen_config \<Rightarrow> (string \<times> vrg) list \<Rightarrow> gerr + dr_type \<times> bool" where
  "chooseDRType d p rc vs =
     (let final = (\<lambda>disabled. if \<not> disabled \<and> drpcInAdminNamespace d rc
                              then \<not> cfgMultiNamespaceVolsyncSupported rc else disabled)
      in if allVRGPeerClassesOffloaded vs then Inr (DRTypeAsync, final (cfgVolSyncDisabled rc))
         else case dRPolicySupportsMetro p None of
                Inl e \<Rightarrow> Inl (wrapE ''failed to check if DRPolicy supports Metro: '' e [])
              | Inr (isMetro, _) \<Rightarrow>
                  if isMetro then Inr (DRTypeSync, final True) else Inr (DRTypeAsync, final (cfgVolSyncDisabled rc)))"

definition createDRPCInstance :: "drpolicy \<Rightarrow> ramen_config \<Rightarrow> unit shm" where
  "createDRPCInstance p rc =
     bindM (drpcGetDRClusters (polDRClusters p))
       (\<lambda>dcs. seqM (getDRPCPlacementRule p)
          (bindM (getsM (\<lambda>sh. (theDRPC sh, shPlacement sh)))
             (\<lambda>(d, obj). bindM (vrgNamespaceFor d obj)
                (\<lambda>ns. bindM (inHub (getVRGsFromManagedClusters d dcs ns))
                   (\<lambda>(found, queried, _). seqM (modHub (\<lambda>h. h\<lparr>numClustersQueriedSuccessfully := queried\<rparr>))
                      (bindM (loadNetworkMapping p)
                         (\<lambda>rules. bindM (liftE (chooseDRType d p rc found))
                            (\<lambda>(drt, disabled). bindM (getsM (\<lambda>sh. (rangeVRGs sh found, shRegexp sh)))
                               (\<lambda>(vs, rx). modHub (\<lambda>h. h\<lparr>drPolicy := p, drClusters := dcs, vrgs := vs, vrgNamespace := ns,
                                   ramenConfig := Some rc, drType := drt, volSyncDisabled := disabled,
                                   requeueAfter := 0, mcvRequestInProgress := False,
                                   environ := (environ h)\<lparr>translateSourceIP := translateWithRules rx rules\<rparr>,
                                   savedInstanceStatus := status h\<rparr>))))))))))"

section \<open>Reconcile\<close>

text \<open>The loop ends at the first primary.\<close>

definition ensureGlobalVGRLabel :: "bool shm" where
  "ensureGlobalVGRLabel =
     bindM (getsM (\<lambda>sh. (hasGlobalVGRLabel (shHub sh), rangeVRGs sh (vrgs (shHub sh)))))
       (\<lambda>(has, vs). if has then ret True
          else case find (\<lambda>(_, v). vReplicationState (vSpec v) = Primary) vs of
                 None \<Rightarrow> ret True
               | Some (_, v) \<Rightarrow>
                   if sm_get (vLabels v) GlobalVGRLabel = [] then ret True
                   else seqM (modDRPC (\<lambda>d. snd (AddLabelDRPC GlobalVGRLabel (sm_get (vLabels v) GlobalVGRLabel) d)))
                          (bindM (attemptM storeDRPC) (\<lambda>_. ret False)))"

record reconcile_result =
  resRequeue :: bool
  resRequeueAfter :: int

definition reconciled :: reconcile_result where
  "reconciled = \<lparr>resRequeue = False, resRequeueAfter = 0\<rparr>"

definition requeueNow :: reconcile_result where
  "requeueNow = \<lparr>resRequeue = True, resRequeueAfter = 0\<rparr>"

definition requeueIn :: "int \<Rightarrow> reconcile_result" where
  "requeueIn t = \<lparr>resRequeue = False, resRequeueAfter = t\<rparr>"

text \<open>A time that is not set is the first second of year one.\<close>

definition timeOrZero :: "int option \<Rightarrow> int" where
  "timeOrZero t = (case t of None \<Rightarrow> - 62135596800 | Some x \<Rightarrow> x)"

definition reconcileDRPCInstance :: "reconcile_result shm" where
  "reconcileDRPCInstance =
     bindM (getsM (\<lambda>sh. (timeOrZero (sLastUpdateTime (status (shHub sh))), theDRPC sh, vrgNamespace (shHub sh),
                          rangeVRGs sh (vrgs (shHub sh)))))
       (\<lambda>(before, d, ns, vs). bindM (inHub (ensureVRGsManagedByDRPC d ns vs))
          (\<lambda>managed. if \<not> managed then ret requeueNow
             else bindM ensureGlobalVGRLabel
               (\<lambda>labelled. if \<not> labelled then ret requeueNow
                  else bindM (inHub startProcessing)
                    (\<lambda>requeue. getsM (\<lambda>sh. let h = shHub sh
                       in if mcvRequestInProgress h \<and> sPhase (status h) \<noteq> StateNone
                          then requeueIn (getRequeueDuration (inst h))
                          else if requeue then requeueNow
                          else requeueIn (getStatusCheckDelay (clock h) before (timeOrZero (sLastUpdateTime (status h)))))))))"

definition drpcRecordFailure :: "string \<Rightarrow> string \<Rightarrow> unit shm" where
  "drpcRecordFailure reason msg = inHub (recordFailure reason msg)"

definition orRecord :: "'a shm \<Rightarrow> 'a shm" where
  "orRecord m = catchM m (\<lambda>e. seqM (drpcRecordFailure ''Error'' (Error e)) (failM e))"

text \<open>What \<^verbatim>\<open>Reconcile\<close> remembers of the DRPC it read, and the conditions it starts with.\<close>

definition startReconcile :: "unit shm" where
  "startReconcile =
     seqM (modifyM preload)
       (seqM (modHub (\<lambda>h. h\<lparr>userPlacement := OtherPlacement, serverStatus := status h, reconcilerSavedStatus := status h,
                              savedDRActionCount := dActionCount (inst h)\<rparr>))
          (seqM (modifyM (\<lambda>sh. sh\<lparr>shPlacement := None\<rparr>))
             (bindM (getsM (\<lambda>sh. clock (shHub sh)))
                (\<lambda>t. modDRPC (\<lambda>d. d\<lparr>dStatus := (dStatus d)\<lparr>sConditions :=
                   ensureDRPCConditionsInited t (sConditions (dStatus d)) (dGeneration d) ''Initialization''\<rparr>\<rparr>)))))"

definition adoptPlacement :: "user_object option \<Rightarrow> unit shm" where
  "adoptPlacement obj =
     seqM (modifyM (\<lambda>sh. sh\<lparr>shPlacement := obj\<rparr>))
       (modHub (\<lambda>h. h\<lparr>userPlacement := engineView obj,
          environ := (environ h)\<lparr>placementNamespace := (case obj of None \<Rightarrow> [] | Some x \<Rightarrow> objNamespace x)\<rparr>\<rparr>))"

definition resolvePlacement :: "unit shm" where
  "resolvePlacement =
     bindM (getsM theDRPC)
       (\<lambda>d. bindM (attemptM (drpcGetPlacementOrPlacementRule d))
          (\<lambda>r. case r of
             Inr obj \<Rightarrow> adoptPlacement (Some obj)
           | Inl e \<Rightarrow> if IsNotFound e \<and> dDeleted d then ret ()
                      else seqM (drpcRecordFailure ''Error'' (Error e)) (failM e)))"

definition reconcileLive :: "ramen_config \<Rightarrow> reconcile_result shm" where
  "reconcileLive rc =
     bindM (getsM (\<lambda>sh. (theDRPC sh, shPlacement sh)))
       (\<lambda>(d, obj).
          seqM (orRecord (case ensureDRPCValidNamespace d rc of None \<Rightarrow> ret () | Some e \<Rightarrow> failM e))
          (seqM (orRecord (ensureNoConflictingDRPCs d obj rc))
          (bindM (orRecord (getAndEnsureValidDRPolicy d))
             (\<lambda>p. bindM updateAndSetOwner
                (\<lambda>updated. if updated then ret requeueNow
                   else bindM (ensureDRPCStatusConsistency p)
                     (\<lambda>requeue. if requeue then seqM (inHub (updateDRPCStatus False)) (ret requeueNow)
                        else bindM (attemptM (createDRPCInstance p rc))
                          (\<lambda>r. case r of
                             Inr _ \<Rightarrow> reconcileDRPCInstance
                           | Inl e \<Rightarrow>
                               if ekind_of e = WaitForDRPCPlacementRule
                               then seqM (drpcRecordFailure ''Waiting'' (Error errWaitForDRPCPlacementRule @ '' - wait time: 5''))
                                      (ret (requeueIn 5))
                               else bindM (attemptM (inHub (updateDRPCStatus False)))
                                 (\<lambda>r'. failM (wrapE ''failed to create DRPC instance ('' e
                                    ('') and ('' @ (case r' of Inl e' \<Rightarrow> Error e' | Inr _ \<Rightarrow> ''<nil>'') @ '')''))))))))))"

definition drpcReconcile :: "reconcile_result shm" where
  "drpcReconcile =
     bindM (attemptM (seqM shCall
              (bindM (getsM shExists) (\<lambda>there. if there then ret () else failM (Gerr NotFound ''DRPC not found'')))))
       (\<lambda>r. case r of
          Inl e \<Rightarrow> if IsNotFound e then ret reconciled else failM (wrapE ''failed to get DRPC object: '' e [])
        | Inr _ \<Rightarrow>
            seqM startReconcile
              (bindM (orRecord (catchM (seqM shCall (bindM (getsM shConfig) liftE))
                                 (\<lambda>e. failM (wrapE ''failed to get the ramen configMap: '' e []))))
                 (\<lambda>rc. seqM resolvePlacement
                    (bindM (getsM (\<lambda>sh. isBeingDeleted (theDRPC sh) (shPlacement sh)))
                       (\<lambda>deleted. if deleted then seqM drpcProcessDeletion (ret reconciled)
                          else reconcileLive rc)))))"

end
