(* ===== verification/Ramen_DrpcInv.thy ===== *)
theory Ramen_DrpcInv
  imports Ramen_DrpcReconcile Ramen_Invariants
begin

text \<open>
  What the outer part of the DRPC reconciler keeps. The locale \<open>drpc_works\<close> is its contract for a property of the hub: what the
  property must be closed under so that reading views, adopting VRGs and deleting works keep it. \<open>A c v\<close> says that a VRG shown on
  cluster \<open>c\<close> may be adopted, \<open>D c\<close> that the VRG's work there may be deleted.
\<close>

section \<open>Works, views and adoption\<close>

definition vrgWork :: "drpc \<Rightarrow> string \<Rightarrow> string" where
  "vrgWork d ns = ManifestWorkName (dName d) ns ''vrg''"

definition shippedSpec :: "drpc \<Rightarrow> string \<Rightarrow> hub \<Rightarrow> string \<Rightarrow> vrg_spec option" where
  "shippedSpec d ns h c =
     (case manifestWorks h (vrgWork d ns, c) of
        None \<Rightarrow> None
      | Some mw \<Rightarrow> (case ExtractVRGFromManifestWork mw of Inl _ \<Rightarrow> None | Inr v \<Rightarrow> Some (vSpec v)))"

lemma shippedSpec_calls [simp]: "shippedSpec d ns (s\<lparr>calls := n\<rparr>) c = shippedSpec d ns s c"
  by (simp add: shippedSpec_def)

definition dropMW :: "string \<Rightarrow> string \<Rightarrow> hub \<Rightarrow> hub" where
  "dropMW name c h = h\<lparr>manifestWorks := (manifestWorks h)((name, c) := None)\<rparr>"

text \<open>A view that is written shows nothing, or what the stored one shows.\<close>

definition sameResult :: "hub \<Rightarrow> string \<Rightarrow> string \<Rightarrow> mcv \<Rightarrow> bool" where
  "sameResult h name c v \<longleftrightarrow> vwResult v = None \<or> (\<exists>vw. findView name c h = Some vw \<and> vwResult v = vwResult vw)"

lemma pres_foldlM_in: "(\<And>b x. x \<in> set xs \<Longrightarrow> pres I (f b x)) \<Longrightarrow> pres I (foldlM f b xs)"
  by (induction xs arbitrary: b) (auto intro: pres_bind pres_ret)

locale drpc_works = read_invariant I for I :: "hub \<Rightarrow> bool" +
  fixes d :: drpc and ns :: string and A :: "string \<Rightarrow> vrg_spec \<Rightarrow> bool" and D :: "string \<Rightarrow> bool"
  assumes I_putMW: "I s \<Longrightarrow>
      (name = vrgWork d ns \<Longrightarrow>
        (\<exists>v. ExtractVRGFromManifestWork mw = Inr v \<and> (A c (vSpec v) \<or> shippedSpec d ns s c = Some (vSpec v)))) \<Longrightarrow> I (putMW name c mw s)"
    and I_dropMW: "I s \<Longrightarrow> (name = vrgWork d ns \<Longrightarrow> D c) \<Longrightarrow> I (dropMW name c s)"
    and I_putView: "I s \<Longrightarrow> sameResult s name c v \<Longrightarrow> I (putView name c v s)"
    and I_dropView: "I s \<Longrightarrow> I (s\<lparr>hubViews := filter P (hubViews s)\<rparr>)"
begin

lemma pres_writeWork:
  assumes "\<And>s mw'. I s \<Longrightarrow> mwManifests mw' = mwManifests mw \<Longrightarrow> I (putMW name c mw' s)"
  shows "pres I (createOrUpdateManifestWork name mw c)"
proof -
  have w: "pres I (updateMW name c mw')" "pres I (createMW name c mw')" if "mwManifests mw' = mwManifests mw" for mw'
    unfolding updateMW_def createMW_def using that by (intro pres_rules pres_modifyM assms; simp)+
  show ?thesis unfolding createOrUpdateManifestWork_def by (intro pres_rules w) simp_all
qed

lemma pres_CreateOrUpdateNamespaceManifestWork [pres_rules]:
  "pres I (CreateOrUpdateNamespaceManifestWork name nsname c ann ls)"
  unfolding CreateOrUpdateNamespaceManifestWork_def
  by (intro pres_rules pres_writeWork I_putMW) (simp_all add: vrgWork_def)

lemma pres_adoptOrphanVRG: "A c (vSpec v) \<Longrightarrow> pres I (adoptOrphanVRG d ns v c)"
  unfolding adoptOrphanVRG_def CreateOrUpdateVRGManifestWork_def Let_def
  by (intro pres_rules pres_writeWork I_putMW)
     (simp_all add: newManifestWork_def ExtractVRGFromManifestWork_def constructVRGFromView_def)

text \<open>An adopted work keeps the specification it has.\<close>

lemma pres_adoptExisting:
  "pres (\<lambda>s. I s \<and> shippedSpec d ns s c = Some (vSpec v)) (adoptExistingVRGManifestWork d ns v c)"
proof -
  let ?J = "\<lambda>s. I s \<and> shippedSpec d ns s c = Some (vSpec v)"
  have calls: "pres ?J apiCall"
    by (rule presI) (auto simp: apiCall_def I_calls split: option.split)
  have put: "?J (putMW (vrgWork d ns) c mw s)" if "?J s" "ExtractVRGFromManifestWork mw = Inr w" "vSpec w = vSpec v" for s mw w
    using that I_putMW [of s "vrgWork d ns" mw c] by (simp add: shippedSpec_def putMW_def)
  let ?w = "v\<lparr>vAnnotations := sm_put DRPCUIDAnnotation (dUID d) (vAnnotations v)\<rparr>"
  have w: "pres ?J (updateMW (vrgWork d ns) c mw)" "pres ?J (createMW (vrgWork d ns) c mw)"
    if "mwManifests mw = [VRGManifest ?w]" for mw
    unfolding updateMW_def createMW_def
    by (intro pres_rules calls presI; simp add: modifyM_def put [where w = ?w] that ExtractVRGFromManifestWork_def)+
  have r: "pres ?J (getMW (vrgWork d ns) c)" unfolding getMW_def by (intro pres_rules calls)
  show ?thesis
    unfolding adoptExistingVRGManifestWork_def CreateOrUpdateVRGManifestWork_def createOrUpdateManifestWork_def
      vrgWork_def [symmetric]
    by (intro pres_rules w r) (simp_all add: newManifestWork_def)
qed

lemma pres_adoptVRG:
  assumes "A c (vSpec v)"
  shows "pres I (adoptVRG d ns v c)"
proof (rule presI)
  fix s assume I: "I s"
  have name: "mwuManifestWorkName (dName d) ns ''vrg'' = vrgWork d ns"
    by (simp add: mwuManifestWorkName_def vrgWork_def)
  have "wp (adoptVRG d ns v c) (\<lambda>_. I) s"
    unfolding adoptVRG_def wp_bind wp_attempt name
  proof (rule wp_FindManifestWork)
    fix n e
    have "wp (if \<not> IsNotFound e then ret False else seqM (adoptOrphanVRG d ns v c) (ret False)) (\<lambda>_. I) (s\<lparr>calls := n\<rparr>)"
      by (rule pres_wp) (auto intro!: pres_rules pres_adoptOrphanVRG assms I_calls I)
    then show "case Inr (Inl e) of Inl e \<Rightarrow> I (s\<lparr>calls := n\<rparr>)
        | Inr r \<Rightarrow> wp (case r of Inl e \<Rightarrow> if \<not> IsNotFound e then ret False else seqM (adoptOrphanVRG d ns v c) (ret False)
            | Inr mw \<Rightarrow> if mwDeleted mw then ret True
                else case ExtractVRGFromManifestWork mw of Inl _ \<Rightarrow> ret False
                     | Inr v \<Rightarrow> seqM (adoptExistingVRGManifestWork d ns v c) (ret False)) (\<lambda>_. I) (s\<lparr>calls := n\<rparr>)" by simp
  next
    fix n mw assume mw: "manifestWorks s (vrgWork d ns, c) = Some mw"
    have "wp (case ExtractVRGFromManifestWork mw of Inl _ \<Rightarrow> ret False
                   | Inr v \<Rightarrow> seqM (adoptExistingVRGManifestWork d ns v c) (ret False)) (\<lambda>_. I) (s\<lparr>calls := n\<rparr>)"
    proof (cases "ExtractVRGFromManifestWork mw")
      case (Inr w)
      then have "shippedSpec d ns (s\<lparr>calls := n\<rparr>) c = Some (vSpec w)" by (simp add: shippedSpec_def mw)
      then have "wp (adoptExistingVRGManifestWork d ns w c) (\<lambda>_. I) (s\<lparr>calls := n\<rparr>)"
        using wp_mono [OF pres_wp [OF pres_adoptExisting, of "s\<lparr>calls := n\<rparr>" c w]] I_calls [OF I] by simp
      then show ?thesis by (auto simp: Inr wp_rules elim!: wp_mono split: sum.split)
    qed (simp add: wp_rules I_calls I)
    then show "case Inr (Inr mw) of Inl e \<Rightarrow> I (s\<lparr>calls := n\<rparr>)
        | Inr r \<Rightarrow> wp (case r of Inl e \<Rightarrow> if \<not> IsNotFound e then ret False else seqM (adoptOrphanVRG d ns v c) (ret False)
            | Inr mw \<Rightarrow> if mwDeleted mw then ret True
                else case ExtractVRGFromManifestWork mw of Inl _ \<Rightarrow> ret False
                     | Inr v \<Rightarrow> seqM (adoptExistingVRGManifestWork d ns v c) (ret False)) (\<lambda>_. I) (s\<lparr>calls := n\<rparr>)"
      by (simp add: wp_ret I_calls I)
  qed
  then show "I (snd (adoptVRG d ns v c s))" by (simp add: wp_snd)
qed

lemma pres_ensureVRGsManagedByDRPC:
  assumes "\<And>c v. (c, v) \<in> set vs \<Longrightarrow> \<not> vDeleted v \<Longrightarrow> \<not> managedBy d v \<Longrightarrow> A c (vSpec v)"
  shows "pres I (ensureVRGsManagedByDRPC d ns vs)"
  unfolding ensureVRGsManagedByDRPC_def
  by (rule pres_foldlM_in) (use assms in \<open>auto intro!: pres_rules pres_adoptVRG\<close>)

text \<open>Reading through views, and deleting them.\<close>

lemma pres_getMCV [pres_rules]: "pres I (getMCV n c)"
  unfolding getMCV_def by (intro pres_rules)

lemma wp_getOrCreateView:
  assumes "I s"
  shows "wp (getOrCreateManagedClusterView n c ls ann sc)
     (\<lambda>r s'. I s' \<and> (\<forall>v. r = Inr v \<longrightarrow> vwResult v = None \<or> (\<exists>vw. findView n c s = Some vw \<and> vwResult v = vwResult vw))) s"
proof -
  have f: "findView n c (s\<lparr>calls := k\<rparr>) = findView n c s" for k by (simp add: findView_def)
  have p: "findView n c (putView n c v s) = Some v" for v s by (simp add: findView_def putView_def)
  show ?thesis
    unfolding getOrCreateManagedClusterView_def getMCV_def createMCV_def updateMCV_def Let_def
    using I_calls [OF assms]
    by (auto simp: wp_rules newView_def sameResult_def f p assms
        intro!: wp_apiCall I_putView I_calls split: option.split sum.split)
qed

lemma wp_GetVRG:
  assumes "I s"
  shows "wp (GetVRGFromManagedCluster n rns c ann)
     (\<lambda>r s'. I s' \<and> (\<forall>v. r = Inr v \<longrightarrow>
        (\<exists>vw. findView (BuildManagedClusterViewName n rns ''vrg'') c s = Some vw \<and> vwResult vw = Some (ViewedVRG v)))) s"
  unfolding GetVRGFromManagedCluster_def getResourceFromManagedCluster_def getManagedClusterResource_def wp_bind wp_catch
  by (rule wp_mono [OF wp_getOrCreateView [OF assms]])
     (auto simp: wp_fail wp_liftE GetResource_def asVRG_def split: sum.splits option.splits viewed.splits)

lemma pres_GetVRG [pres_rules]: "pres I (GetVRGFromManagedCluster n rns c ann)"
  unfolding pres_def wp_snd [symmetric] by (blast intro: wp_mono [OF wp_GetVRG])

lemma pres_queryVRGs [pres_rules]: "pres I (queryVRGs d' ns' dcs vs n failed)"
  by (induction dcs arbitrary: vs n failed) (auto intro!: pres_rules)

lemma pres_getVRGs [pres_rules]: "pres I (getVRGsFromManagedClusters d' dcs ns')"
  unfolding getVRGsFromManagedClusters_def by (intro pres_rules)

lemma pres_deleteMCV [pres_rules]: "pres I (deleteMCV n c)"
  unfolding deleteMCV_def by (intro pres_rules pres_modifyM I_dropView)

lemma pres_DeleteManagedClusterView [pres_rules]: "pres I (DeleteManagedClusterView c n)"
  unfolding DeleteManagedClusterView_def by (intro pres_rules)

lemma pres_deleteAllManagedClusterViews [pres_rules]: "pres I (deleteAllManagedClusterViews d' cs ns')"
  unfolding deleteAllManagedClusterViews_def deleteProtectedNamespaceMCVs_def DeleteVRGManagedClusterView_def
    DeleteNamespaceManagedClusterView_def DeleteRecipeManagedClusterView_def
  by (intro pres_rules)

text \<open>Deleting works.\<close>

lemma pres_DeleteManifestWork: "(name = vrgWork d ns \<Longrightarrow> D c) \<Longrightarrow> pres I (DeleteManifestWork name c)"
  unfolding DeleteManifestWork_def deleteMW_def
  by (intro pres_rules pres_modifyM) (auto intro: I_dropMW [unfolded dropMW_def])

lemma pres_DeleteNamespaceManifestWork [pres_rules]: "pres I (DeleteNamespaceManifestWork (ManifestWorkName a b ''ns'') c)"
  unfolding DeleteNamespaceManifestWork_def ensureOrphanDeleteOption_def
  by (intro pres_rules pres_modifyM pres_DeleteManifestWork I_putMW) (simp_all add: vrgWork_def)

lemma pres_DeleteRecipeManifestWork [pres_rules]: "pres I (DeleteRecipeManifestWork (mwuManifestWorkName a b ''recipe'') c)"
  unfolding DeleteRecipeManifestWork_def
  by (intro pres_rules pres_DeleteManifestWork) (simp_all add: vrgWork_def mwuManifestWorkName_def)

lemma pres_deleteNamespaceManifestWorks [pres_rules]: "pres I (deleteNamespaceManifestWorks d' p ns')"
  unfolding deleteNamespaceManifestWorks_def by (intro pres_rules)

lemma pres_deleteVRGsIn:
  assumes "\<And>c v. (c, v) \<in> set vs \<Longrightarrow> A c (vSpec v)"
    and "\<And>c v. (c, v) \<in> set rest \<Longrightarrow> vReplicationState (vSpec v) = st \<Longrightarrow> D c"
  shows "pres I (deleteVRGsIn d ns vs st rest b)"
  using assms(2)
proof (induction rest arbitrary: b)
  case (Cons x rest)
  then show ?case
    by (cases x) (auto simp: mwuManifestWorkName_def vrgWork_def
        intro!: pres_rules pres_ensureVRGsManagedByDRPC pres_DeleteManifestWork assms(1))
qed (simp add: pres_ret)

lemma pres_ensureVRGsDeleted:
  assumes "\<And>c v. (c, v) \<in> set vs \<Longrightarrow> A c (vSpec v)"
    and "\<And>c v. (c, v) \<in> set vs \<Longrightarrow> vReplicationState (vSpec v) = st \<Longrightarrow> D c"
  shows "pres I (ensureVRGsDeleted d ns vs st)"
  unfolding ensureVRGsDeleted_def by (intro pres_rules pres_deleteVRGsIn) (use assms in auto)

end

text \<open>The pass over one replication state succeeds only if no VRG has it.\<close>

lemma yields_deleteVRGsIn:
  "yields (\<lambda>b'. b' = (b \<or> (\<exists>(c, v) \<in> set rest. vReplicationState (vSpec v) = st))) (deleteVRGsIn d ns vs st rest b)"
proof (induction rest arbitrary: b)
  case (Cons x rest)
  obtain c v where x: "x = (c, v)" by (cases x)
  show ?case
  proof (cases "vReplicationState (vSpec v) = st")
    case True
    then show ?thesis
      using Cons.IH [of True] by (auto simp: x intro!: yields_step yields_fail yields_seq elim!: yields_mono)
  next
    case False
    then show ?thesis using Cons.IH [of b] by (simp add: x)
  qed
qed (simp add: yields_ret)

lemma yields_ensureVRGsDeleted:
  "yields (\<lambda>_. \<forall>(c, v) \<in> set vs. vReplicationState (vSpec v) \<noteq> st) (ensureVRGsDeleted d ns vs st)"
  unfolding ensureVRGsDeleted_def
  by (rule yields_bind [OF yields_deleteVRGsIn]) (auto intro: yields_fail yields_ret)

text \<open>The VRGs a query returns are shown by views; \<open>S c v\<close> says so of the views a property allows.\<close>

locale drpc_views = drpc_works +
  fixes S :: "string \<Rightarrow> vrg \<Rightarrow> bool"
  assumes I_shown: "I s \<Longrightarrow> findView n c s = Some vw \<Longrightarrow> vwResult vw = Some (ViewedVRG v) \<Longrightarrow> S c v"
begin

lemma gives_queryVRGs:
  "\<forall>(c, v) \<in> set vs. S c v
     \<Longrightarrow> gives I (queryVRGs d' ns' dcs vs n failed) (\<lambda>(vs', _). \<forall>(c, v) \<in> set vs'. S c v)"
proof (induction dcs arbitrary: vs n failed)
  case (Cons dc dcs)
  have get: "gives I (attemptM (GetVRGFromManagedCluster (dName d') ns' (dcName dc) (drpcViewAnnotations d')))
      (\<lambda>r. \<forall>v. r = Inr v \<longrightarrow> S (dcName dc) v)"
    unfolding gives_def wp_attempt by (auto intro!: wp_mono [OF wp_GetVRG]) (blast intro: I_shown)
  show ?case
    unfolding queryVRGs.simps
    by (rule gives_bind [OF get]) (use Cons in \<open>auto split: sum.split\<close>)
qed (simp add: gives_ret)

lemma gives_getVRGs: "gives I (getVRGsFromManagedClusters d' dcs ns') (\<lambda>(vs, _). \<forall>(c, v) \<in> set vs. S c v)"
  unfolding getVRGsFromManagedClusters_def
  by (rule gives_bind [OF gives_queryVRGs]) (auto intro: gives_ret gives_yields [OF pres_fail yields_fail])

end

section \<open>The shell\<close>

text \<open>\<open>shell_reads\<close>: a property of the shell that API calls keep. \<open>shell_writes\<close>: one that also the shell's own objects leave alone.\<close>

locale shell_reads =
  fixes J :: "shell \<Rightarrow> bool"
  assumes J_calls: "J sh \<Longrightarrow> J (sh\<lparr>shHub := (shHub sh)\<lparr>calls := n\<rparr>\<rparr>)"
begin

lemma pres_shMod: "(\<And>sh. J sh \<Longrightarrow> J (f sh)) \<Longrightarrow> pres J (modifyM f)"
  by (simp add: pres_def modifyM_def)

lemma pres_shCall [pres_rules]: "pres J shCall"
  by (rule presI) (auto simp: shCall_def inHub_def apiCall_def J_calls split: option.split)

lemma pres_shGet [pres_rules]: "pres J (shGet fld n ns)"
  unfolding shGet_def by (intro pres_rules)

lemma pres_GetDRPolicy [pres_rules]: "pres J (GetDRPolicy d)"
  unfolding GetDRPolicy_def by (intro pres_rules)

lemma pres_getAndEnsureValidDRPolicy [pres_rules]: "pres J (getAndEnsureValidDRPolicy d)"
  unfolding getAndEnsureValidDRPolicy_def by (intro pres_rules)

lemma pres_drpcGetDRClusters [pres_rules]: "pres J (drpcGetDRClusters cs)"
  by (induction cs) (auto intro!: pres_rules)

lemma pres_vrgNamespaceFor [pres_rules]: "pres J (vrgNamespaceFor d obj)"
  unfolding vrgNamespaceFor_def by (intro pres_rules)

lemma pres_drpcGetPlacement [pres_rules]:
  "pres J (drpcGetPlacementRule d)" "pres J (drpcGetPlacement d)" "pres J (drpcGetPlacementOrPlacementRule d)"
  unfolding drpcGetPlacementOrPlacementRule_def drpcGetPlacementRule_def drpcGetPlacement_def by (intro pres_rules)+

lemma pres_twoDRPCsConflict [pres_rules]: "pres J (twoDRPCsConflict d obj other rc)"
  unfolding twoDRPCsConflict_def drpcHaveCommonClusters_def getProtectedNamespaces_def by (intro pres_rules)

lemma pres_ensureNoConflictingDRPCs [pres_rules]: "pres J (ensureNoConflictingDRPCs d obj rc)"
  unfolding ensureNoConflictingDRPCs_def by (intro pres_rules)

lemma pres_LoadNetworkMapping [pres_rules]: "pres J (LoadNetworkMapping p)"
  unfolding LoadNetworkMapping_def by (intro pres_rules)

lemma pres_getClonedPlacementRule [pres_rules]: "pres J (getClonedPlacementRule n ns)"
  unfolding getClonedPlacementRule_def by (intro pres_rules)

end

locale shell_writes = shell_reads +
  assumes J_rules: "J sh \<Longrightarrow> J (sh\<lparr>shRules := x\<rparr>)"
    and J_secretPolicies: "J sh \<Longrightarrow> J (sh\<lparr>shSecretPolicies := y\<rparr>)"
    and J_bindings: "J sh \<Longrightarrow> J (sh\<lparr>shBindings := z\<rparr>)"
    and J_placements: "J sh \<Longrightarrow> J (sh\<lparr>shPlacements := w\<rparr>)"
    and J_placement: "J sh \<Longrightarrow> J (sh\<lparr>shPlacement := u\<rparr>)"
begin

lemma pres_deleteRule [pres_rules]: "pres J (deleteRule n ns)"
  unfolding deleteRule_def by (intro pres_rules pres_shMod J_rules)

lemma J_updates: "J sh \<Longrightarrow> J (shRules_update f sh)" "J sh \<Longrightarrow> J (shSecretPolicies_update g sh)"
    "J sh \<Longrightarrow> J (shBindings_update h sh)"
proof -
  have "shRules_update f sh = sh\<lparr>shRules := f (shRules sh)\<rparr>"
    "shSecretPolicies_update g sh = sh\<lparr>shSecretPolicies := g (shSecretPolicies sh)\<rparr>"
    "shBindings_update h sh = sh\<lparr>shBindings := h (shBindings sh)\<rparr>" by (cases sh; simp)+
  then show "J sh \<Longrightarrow> J (shRules_update f sh)" "J sh \<Longrightarrow> J (shSecretPolicies_update g sh)" "J sh \<Longrightarrow> J (shBindings_update h sh)"
    by (metis J_rules J_secretPolicies J_bindings)+
qed

lemma pres_CleanupSecretPropagation [pres_rules]: "pres J (CleanupSecretPropagation d)"
  unfolding CleanupSecretPropagation_def deleteIgnoreNotFound_def shDelete_def
  by (intro pres_rules pres_shMod J_updates)

lemma pres_deleteClonedPlacementRule [pres_rules]: "pres J (deleteClonedPlacementRule n ns)"
  unfolding deleteClonedPlacementRule_def by (intro pres_rules)

lemma pres_getDRPCPlacementRule [pres_rules]: "pres J (getDRPCPlacementRule p)"
proof -
  have "pres J (getOrClonePlacementRule d p r)" for d r
    unfolding getOrClonePlacementRule_def clonePlacementRule_def shPut_def
    by (intro pres_rules pres_shMod J_updates)
  then show ?thesis
    unfolding getDRPCPlacementRule_def by (intro pres_rules) (auto intro!: pres_rules split: user_object.split)
qed

lemma pres_storePlacement [pres_rules]: "pres J (storePlacement obj)"
proof -
  have "J (putPlacement obj sh)" if "J sh" for sh
    using that by (cases obj) (simp_all add: J_rules J_placements)
  then show ?thesis
    unfolding storePlacement_def setPlacement_def by (intro pres_rules pres_shMod J_placement)
qed

lemma pres_annotateObject [pres_rules]: "pres J annotateObject"
  unfolding annotateObject_def withPlacement_def by (intro pres_rules)

end

end
