(* ===== verification/Ramen_DrpcProps.thy ===== *)
theory Ramen_DrpcProps
  imports Ramen_DrpcInv Ramen_Examples
begin

text \<open>
  Properties of the outer part of the DRPC reconciler: rebuilding the state after the hub was recovered, adoption of VRGs,
  deletion, and conflicts between DRPCs.
\<close>

section \<open>Rebuilding the state\<close>

text \<open>What \<^verbatim>\<open>determineDRPCState\<close> finds before it adopts: the VRGs, the clusters queried, and the last that failed.\<close>

definition viewVRGs :: "drpolicy \<Rightarrow> ((string \<times> vrg) list \<times> nat \<times> string) shm" where
  "viewVRGs p =
     bindM (getsM (\<lambda>sh. (theDRPC sh, shPlacement sh)))
       (\<lambda>(d, obj). bindM (vrgNamespaceFor d obj)
          (\<lambda>ns. bindM (drpcGetDRClusters (polDRClusters p)) (\<lambda>dcs. inHub (getVRGsFromManagedClusters d dcs ns))))"

lemma set_map_filter: "set (List.map_filter f xs) = {y. \<exists>x \<in> set xs. f x = Some y}"
  by (induction xs) (auto simp: List.map_filter_simps split: option.split)

lemma set_rangeVRGs: "set (rangeVRGs sh vs) = {(k, v). map_of vs k = Some v}"
proof -
  have "k \<in> fst ` set vs" if "map_of vs k = Some v" for k v
    using map_of_SomeD [OF that] by force
  then show ?thesis by (auto simp: rangeVRGs_def rangeOrder_def set_map_filter)
qed

lemma keys_rangeVRGs: "map fst (rangeVRGs sh vs) = rangeOrder (shOrder sh (calls (shHub sh))) (map fst vs)"
proof -
  have *: "map fst (List.map_filter (\<lambda>k. map_option (Pair k) (map_of vs k)) ks) = ks" if "set ks \<subseteq> fst ` set vs" for ks
    using that by (induction ks) (auto simp: List.map_filter_simps map_of_eq_None_iff split: option.split)
  show ?thesis unfolding rangeVRGs_def by (rule *) (auto simp: rangeOrder_def)
qed

lemma distinct_rangeVRGs: "distinct (map fst (rangeVRGs sh vs))"
  by (simp add: keys_rangeVRGs rangeOrder_def)

lemma pickVRG_primary:
  assumes "\<exists>(c, v) \<in> set vs. isVRGPrimary v"
  shows "pickVRG vs \<in> set vs \<and> isVRGPrimary (snd (pickVRG vs))"
  using assms by (auto simp: pickVRG_def find_None_iff find_Some_iff split: option.split) (metis snd_conv)

definition continuesByUser :: "drpc \<Rightarrow> string \<Rightarrow> bool" where
  "continuesByUser d failed \<longleftrightarrow>
     sPhase (dStatus d) = WaitForUser \<and> dAction (dSpec d) = ActionFailover \<and> dFailoverCluster (dSpec d) \<noteq> failed"

lemma decideProgress_continue:
  assumes "fst (decideProgress d dst vs queried failed s3) = Continue" "\<not> continuesByUser d failed"
    "(c, v) \<in> set vs" "isVRGPrimary v" "\<And>c' v'. (c', v') \<in> set vs \<Longrightarrow> isVRGPrimary v' \<Longrightarrow> (c', v') = (c, v)"
  shows "c = dst \<and> drActionOf (vAction (vSpec v)) = dAction (dSpec d)"
proof (cases "queried = 1 \<and> length vs = 1")
  case True
  then have "hd vs = (c, v)" using assms(3) by (cases vs) auto
  with True assms(1,2,4) show ?thesis
    by (simp add: decideProgress_def continuesByUser_def isVRGPrimary_def split: if_splits)
next
  case False
  have "pickVRG vs = (c, v)"
    using pickVRG_primary [of vs] assms(3-5) by (metis case_prodI prod.collapse)
  moreover have "vs \<noteq> []" using assms(3) by auto
  ultimately show ?thesis using False assms(1,2,4)
    by (simp add: decideProgress_def continuesByUser_def isVRGPrimary_def split: if_splits)
qed

lemma distinct_queryVRGs:
  "distinct (map fst vs) \<Longrightarrow> yields (\<lambda>(vs', _). distinct (map fst vs')) (queryVRGs d ns dcs vs n failed)"
proof (induction dcs arbitrary: vs n failed)
  case (Cons dc dcs)
  have "distinct (map fst (filter (\<lambda>e. fst e \<noteq> dcName dc) vs @ [(dcName dc, v)]))" for v :: vrg
    using Cons.prems by (auto simp: distinct_map inj_on_def)
  with Cons show ?case
    by (auto intro!: yields_bind [OF yields_any] simp del: distinct_append map_append split: sum.split)
qed (simp add: yields_ret)

lemma distinct_getVRGs: "yields (\<lambda>(vs, _). distinct (map fst vs)) (getVRGsFromManagedClusters d dcs ns)"
  unfolding getVRGsFromManagedClusters_def
  by (rule yields_bind [OF distinct_queryVRGs]) (auto intro: yields_ret yields_fail)

lemma decideProgress_reachable:
  "fst (decideProgress d dst [] 1 failed s3) = Continue \<Longrightarrow> \<not> continuesByUser d failed \<Longrightarrow> dst \<noteq> failed"
  by (auto simp: decideProgress_def continuesByUser_def split: option.splits if_splits)

lemma determineDRPCState_decides:
  assumes "fst (determineDRPCState p dst sh) = Inr (Continue, msg)" "fst (viewVRGs p sh) = Inr (found, queried, failed)"
  obtains sh' s3 where "fst (decideProgress (theDRPC sh) dst (rangeVRGs sh' found) queried failed s3) = Continue"
    "distinct (map fst found)"
proof -
  from assms(2) obtain ns dcs sh1 sh2 h where
    a: "vrgNamespaceFor (theDRPC sh) (shPlacement sh) sh = (Inr ns, sh1)"
    and b: "drpcGetDRClusters (polDRClusters p) sh1 = (Inr dcs, sh2)"
    and c: "getVRGsFromManagedClusters (theDRPC sh) dcs ns (shHub sh2) = (Inr (found, queried, failed), h)"
    by (auto simp: viewVRGs_def bindM_def getsM_def inHub_def split: prod.splits sum.splits)
  from c have d: "distinct (map fst found)"
    using distinct_getVRGs [of "theDRPC sh" dcs ns] by (auto simp: yields_def dest!: spec [of _ "shHub sh2"] wpD)
  from assms(1) have "\<exists>sh' s3. fst (decideProgress (theDRPC sh) dst (rangeVRGs sh' found) queried failed s3) = Continue"
    by (auto simp: determineDRPCState_def bindM_def getsM_def inHub_def ret_def a b c split: prod.splits sum.splits if_splits)
       (metis fst_conv)+
  with d that show ?thesis by blast
qed


section \<open>Concrete states\<close>

text \<open>The workload \<open>app\<close> of a Placement \<open>plc\<close> on the clusters \<open>c1\<close> and \<open>c2\<close>, with the given views and VRG works.\<close>

definition exPlcObject :: user_plc where
  "exPlcObject = \<lparr>upName = ''plc'', upNamespace = ''ns'', upDeleted = False,
     upAnnotations = [(PlacementDisableAnnotation, ''true''), (DRPCNameAnnotation, ''app''), (DRPCNamespaceAnnotation, ''ns'')],
     upFinalizers = [DRPCFinalizer], upPredicates = []\<rparr>"

definition exRamenConfig :: ramen_config where
  "exRamenConfig = \<lparr>cfgRetainNamespaceSCCAcrossPeers = False, cfgRamenOpsNamespace = ''ramen-ops'',
     cfgLeaderElectionResourceName = None, cfgDeploymentAutomationEnabled = False, cfgChannelName = [], cfgPackageName = [],
     cfgNamespaceName = [], cfgCatalogSourceName = [], cfgCatalogSourceNamespaceName = [], cfgClusterServiceVersionName = [],
     cfgS3SecretDistributionEnabled = False, cfgS3StoreProfiles = [], cfgKubeObjectProtectionDisabled = True,
     cfgVeleroNamespaceName = [], cfgVolumeUnprotectionEnabled = True, cfgVolSyncDisabled = True,
     cfgMultiNamespaceFeatureEnabled = True, cfgMultiNamespaceVolsyncSupported = False, cfgRest = []\<rparr>"

definition exViewOf :: "conditions \<Rightarrow> viewed option \<Rightarrow> mcv" where
  "exViewOf cs r = (newView [] [] \<lparr>scKind = ''VolumeReplicationGroup'', scGroup = ramenGroup, scVersion = ''v1alpha1'',
     scName = ''app'', scNamespace = ''ns''\<rparr>)\<lparr>vwConditions := cs, vwResult := r\<rparr>"

definition exProcessing :: "string \<Rightarrow> string \<Rightarrow> condition" where
  "exProcessing reason msg = \<lparr>cType = ''Processing'', cStatus = ConditionTrue, cObservedGeneration = 1, cLastTransitionTime = 0,
     cReason = reason, cMessage = msg\<rparr>"

definition exShown :: "vrg \<Rightarrow> mcv" where
  "exShown v = exViewOf [exProcessing ''GetResourceProcessing'' []] (Some (ViewedVRG v))"

definition exAbsent :: mcv where
  "exAbsent = exViewOf [exProcessing ''GetResourceFailed'' ''app not found''] None"

definition exPending :: mcv where
  "exPending = exViewOf [] None"

definition exManagedDRPC :: drpc where
  "exManagedDRPC = (exDRPC ActionNone)\<lparr>dFinalizers := [DRPCFinalizer], dOwnerReferences := [(''plc'', True)],
     dAnnotations := [(DRPCAppNamespace, ''ns'')], dLabels := [(OCMBackupLabelKey, ''ramen'')]\<rparr>"

definition exOwnVRG :: "replication_state \<Rightarrow> vrg" where
  "exOwnVRG st = (exVRG st)\<lparr>vAnnotations := [(DRPCUIDAnnotation, ''uid'')]\<rparr>"

definition exShell :: "drpc \<Rightarrow> mcv \<Rightarrow> mcv \<Rightarrow> (string \<times> manifest_work) list \<Rightarrow> shell" where
  "exShell d view1 view2 mws =
     \<lparr>shHub = (exHub ActionNone False [] mws ''c1'')\<lparr>inst := d,
        hubViews := [((''app-ns-vrg-mcv'', ''c1''), view1), ((''app-ns-vrg-mcv'', ''c2''), view2)]\<rparr>,
      shExists = True, shStoredFinalizers = dFinalizers d, shConfig = Inr exRamenConfig,
      shPolicies = [exPolicy\<lparr>polConditions := [exCond ''Validated'']\<rparr>],
      shClusters = [exCluster ''c1'' False, exCluster ''c2'' False],
      shPlacements = (\<lambda>k. if k = (''plc'', ''ns'') then Some exPlcObject else None), shRules = (\<lambda>_. None),
      shSecretPolicies = (\<lambda>_. None), shBindings = (\<lambda>_. None), shConfigMaps = (\<lambda>_. None),
      shPlacement = Some (PlacementObject exPlcObject), shOrder = (\<lambda>_. []),
      shRegexp = \<lparr>rxCompileError = (\<lambda>_. None), rxMatchString = (\<lambda>_ _. False), rxReplaceAllString = (\<lambda>_ t _. t)\<rparr>,
      shUnmarshal = (\<lambda>_. Inl (newE ''no YAML''))\<rparr>"

definition exRecovered :: shell where
  "exRecovered = exShell exManagedDRPC (exShown (exOwnVRG Primary)) (exShown (exOwnVRG Secondary)) []"

lemma exRecovered_evals:
  "fst (determineDRPCState (hd (shPolicies exRecovered)) ''c1'' exRecovered) = Inr (Continue, [])"
  "fst (viewVRGs (hd (shPolicies exRecovered)) exRecovered)
     = Inr ([(''c1'', exOwnVRG Primary), (''c2'', exOwnVRG Secondary)], 2, [])"
  "\<not> continuesByUser (theDRPC exRecovered) []"
  "filter (\<lambda>(_, v). isVRGPrimary v) [(''c1'', exOwnVRG Primary), (''c2'', exOwnVRG Secondary)] = [(''c1'', exOwnVRG Primary)]"
  by code_simp+


text \<open>
  With a primary on both clusters the outcome depends on the order in which Go ranges over a map, which is random: the loop stops
  at the first primary it sees, and the DRPC goes on if that is the one on the destination cluster and stops for the user
  otherwise.
\<close>

theorem two_primaries_decided_by_map_order:
  "fst (decideProgress exManagedDRPC ''c1'' [(''c1'', exOwnVRG Primary), (''c2'', exOwnVRG Primary)] 2 [] None) = Continue
   \<and> fst (decideProgress exManagedDRPC ''c1'' [(''c2'', exOwnVRG Primary), (''c1'', exOwnVRG Primary)] 2 [] None) = AllowFailover"
  by code_simp

definition exDeleting :: shell where
  "exDeleting = exShell (exManagedDRPC\<lparr>dDeleted := True\<rparr>) exAbsent exPending [(''c2'', exMW Primary)]"


section \<open>Adoption and deletion\<close>

text \<open>The interfaces of \<open>drpc_works\<close> for what adoption may ship and what deletion may remove.\<close>

definition adoptable :: "drpc \<Rightarrow> (string \<times> vrg) list \<Rightarrow> string \<Rightarrow> vrg_spec \<Rightarrow> bool" where
  "adoptable d vs c sp \<longleftrightarrow> list_ex (\<lambda>(c', v). c' = c \<and> \<not> vDeleted v \<and> \<not> managedBy d v \<and> vSpec v = sp) vs"

definition shipsOnly :: "drpc \<Rightarrow> string \<Rightarrow> (string \<Rightarrow> vrg_spec \<Rightarrow> bool) \<Rightarrow> hub \<Rightarrow> hub \<Rightarrow> bool" where
  "shipsOnly d ns A h0 h \<longleftrightarrow>
     (\<forall>c. shippedSpec d ns h c = shippedSpec d ns h0 c \<or> (\<exists>sp. shippedSpec d ns h c = Some sp \<and> A c sp))"

definition removesOnly :: "drpc \<Rightarrow> string \<Rightarrow> (string \<Rightarrow> bool) \<Rightarrow> hub \<Rightarrow> hub \<Rightarrow> bool" where
  "removesOnly d ns D h0 h \<longleftrightarrow>
     (\<forall>c. manifestWorks h0 (vrgWork d ns, c) \<noteq> None \<longrightarrow> manifestWorks h (vrgWork d ns, c) = None \<longrightarrow> D c)"

interpretation adopting: drpc_works "shipsOnly d ns A h0" d ns A "\<lambda>_. False"
proof unfold_locales
  fix s name mw c assume s: "shipsOnly d ns A h0 s"
    and w: "name = vrgWork d ns \<Longrightarrow>
      \<exists>v. ExtractVRGFromManifestWork mw = Inr v \<and> (A c (vSpec v) \<or> shippedSpec d ns s c = Some (vSpec v))"
  have "shippedSpec d ns (putMW name c mw s) c' = shippedSpec d ns s c'
      \<or> (\<exists>sp. shippedSpec d ns (putMW name c mw s) c' = Some sp \<and> A c' sp)" for c'
    using w by (cases "name = vrgWork d ns \<and> c' = c") (auto simp: shippedSpec_def putMW_def)
  with s show "shipsOnly d ns A h0 (putMW name c mw s)" unfolding shipsOnly_def by metis
qed (auto simp: shipsOnly_def shippedSpec_def dropMW_def putView_def)

interpretation deleting: drpc_works "removesOnly d ns D h0" d ns "\<lambda>_ _. True" D
  by unfold_locales (auto simp: removesOnly_def dropMW_def putMW_def putView_def)

text \<open>
  C10. Adoption of VRGs ships no specification of its own: whatever calls fail, after \<^verbatim>\<open>ensureVRGsManagedByDRPC\<close> the
  specification shipped to a cluster is the one shipped before, or the one of a VRG that the cluster shows, that is not being
  deleted and that this DRPC does not manage yet.
\<close>

theorem adoption_keeps_specifications:
  "shipsOnly d ns (adoptable d vs) h (snd (ensureVRGsManagedByDRPC d ns vs h))"
proof -
  have "pres (shipsOnly d ns (adoptable d vs) h) (ensureVRGsManagedByDRPC d ns vs)"
    by (rule adopting.pres_ensureVRGsManagedByDRPC) (auto simp: adoptable_def list_ex_iff)
  then show ?thesis by (rule presD) (simp add: shipsOnly_def)
qed

text \<open>
  C11. The VRGs of a DRPC that is deleted go in order: \<^verbatim>\<open>cleanupVRGs\<close> removes the work of a VRG from a cluster only if
  that VRG is secondary, or primary while no VRG is secondary.
\<close>

theorem secondaries_deleted_before_primaries:
  assumes "manifestWorks h (vrgWork d ns, c) \<noteq> None"
    and "manifestWorks (snd (cleanupFoundVRGs d p ns vs h)) (vrgWork d ns, c) = None"
  shows "\<exists>v. (c, v) \<in> set vs \<and> (isVRGSecondary v \<or> isVRGPrimary v \<and> (\<forall>(_, v') \<in> set vs. \<not> isVRGSecondary v'))"
proof -
  define D where "D c \<longleftrightarrow>
    (\<exists>v. (c, v) \<in> set vs \<and> (isVRGSecondary v \<or> isVRGPrimary v \<and> (\<forall>(_, v') \<in> set vs. \<not> isVRGSecondary v')))" for c
  let ?I = "removesOnly d ns D h"
  have s: "pres ?I (ensureVRGsDeleted d ns vs Secondary)"
    by (rule deleting.pres_ensureVRGsDeleted) (auto simp: D_def isVRGSecondary_def)
  have p: "pres ?I (ensureVRGsDeleted d ns vs Primary)" if "\<forall>(c, v) \<in> set vs. vReplicationState (vSpec v) \<noteq> Secondary"
    by (rule deleting.pres_ensureVRGsDeleted) (use that in \<open>auto simp: D_def isVRGPrimary_def isVRGSecondary_def\<close>)
  have "pres ?I (cleanupFoundVRGs d p ns vs)"
    unfolding cleanupFoundVRGs_def seqM_def
    by (rule pres_bind_gives [OF gives_yields [OF s yields_ensureVRGsDeleted]])
       (intro pres_rules p deleting.pres_deleteAllManagedClusterViews)
  then have "?I (snd (cleanupFoundVRGs d p ns vs h))" by (rule presD) (auto simp: removesOnly_def)
  with assms show ?thesis by (simp add: removesOnly_def D_def)
qed

theorem secondaries_deleted_before_primaries_witness:
  "\<exists>v. (''c2'', v) \<in> set [(''c1'', exOwnVRG Primary), (''c2'', exOwnVRG Secondary)]
     \<and> (isVRGSecondary v \<or> isVRGPrimary v
          \<and> (\<forall>(_, v') \<in> set [(''c1'', exOwnVRG Primary), (''c2'', exOwnVRG Secondary)]. \<not> isVRGSecondary v'))"
proof (rule secondaries_deleted_before_primaries)
  let ?h = "shHub (exShell exManagedDRPC exAbsent exAbsent [(''c1'', exMW Primary), (''c2'', exMW Secondary)])"
  show "manifestWorks ?h (vrgWork exManagedDRPC ''ns'', ''c2'') \<noteq> None" by code_simp
  show "manifestWorks (snd (cleanupFoundVRGs exManagedDRPC exPolicy ''ns''
      [(''c1'', exOwnVRG Primary), (''c2'', exOwnVRG Secondary)] ?h)) (vrgWork exManagedDRPC ''ns'', ''c2'') = None" by code_simp
qed

section \<open>Conflicts\<close>

definition storedPolicy :: "shell \<Rightarrow> drpc \<Rightarrow> drpolicy option" where
  "storedPolicy sh d = find (\<lambda>p. polName p = dDRPolicyRefName (dSpec d)) (shPolicies sh)"

definition storedDRPC :: "shell \<Rightarrow> string \<Rightarrow> string \<Rightarrow> drpc option" where
  "storedDRPC sh n ns = find (\<lambda>x. dName x = n \<and> dNamespace x = ns) (hubDRPCs (environ (shHub sh)))"

text \<open>Discovered applications that share a cluster and a namespace, and not only virtual machines that are told apart.\<close>

definition conflicting :: "shell \<Rightarrow> ramen_config \<Rightarrow> drpc \<Rightarrow> drpc \<Rightarrow> bool" where
  "conflicting sh rc d other \<longleftrightarrow>
     (case (storedPolicy sh d, storedPolicy sh other) of
        (Some p, Some p') \<Rightarrow> set (polDRClusters p) \<inter> set (polDRClusters p') \<noteq> {}
      | _ \<Rightarrow> False)
     \<and> set (the (dProtectedNamespaces (dSpec d))) \<inter> set (the (dProtectedNamespaces (dSpec other))) \<noteq> {}
     \<and> \<not> drpcProtectVMInNS d other rc"

definition checkedFrom :: "shell \<Rightarrow> shell \<Rightarrow> bool" where
  "checkedFrom sh sh' \<longleftrightarrow> environ (shHub sh') = environ (shHub sh) \<and> shPolicies sh' = shPolicies sh"

interpretation conflicts: shell_reads "checkedFrom sh"
  by unfold_locales (simp add: checkedFrom_def)

lemma gives_gets: "(\<And>s. I s \<Longrightarrow> Q (f s)) \<Longrightarrow> (\<And>x. Q x \<Longrightarrow> gives I (g x) P) \<Longrightarrow> gives I (bindM (getsM f) g) P"
  by (auto simp: gives_def wp_bind wp_gets)

lemma gives_wrap: "gives I m P \<Longrightarrow> gives I (catchM m (\<lambda>e. failM (h e))) P"
  unfolding gives_def wp_catch by (auto simp: wp_fail elim!: wp_mono split: sum.split)

lemma gives_fail: "gives I (failM e) P"
  by (simp add: gives_def wp_fail)

lemma gives_if: "(b \<Longrightarrow> gives I m P) \<Longrightarrow> (\<not> b \<Longrightarrow> gives I n P) \<Longrightarrow> gives I (if b then m else n) P"
  by simp

lemma gives_forM: "(\<And>x. x \<in> set xs \<Longrightarrow> gives I (f x) (\<lambda>_. P x)) \<Longrightarrow> gives I (forM xs f) (\<lambda>_. \<forall>x \<in> set xs. P x)"
proof (induction xs)
  case (Cons x xs)
  show ?case
    unfolding forM.simps seqM_def
    by (rule gives_bind [where Q = "\<lambda>_. P x"])
       (use Cons in \<open>auto simp: gives_def elim!: wp_mono\<close>)
qed (simp add: gives_ret)

lemma gives_GetDRPolicy: "gives (checkedFrom sh) (GetDRPolicy d) (\<lambda>p. storedPolicy sh d = Some p)"
  unfolding GetDRPolicy_def
  by (intro gives_seq conflicts.pres_shCall gives_gets [where Q = "\<lambda>r. r = storedPolicy sh d"])
     (auto simp: checkedFrom_def storedPolicy_def intro: gives_fail gives_ret split: option.split)

lemma gives_twoDRPCsConflict:
  assumes "isDiscoveredApp d" "isDiscoveredApp other" "drpcInAdminNamespace d rc \<or> drpcInAdminNamespace other rc"
  shows "gives (checkedFrom sh) (twoDRPCsConflict d obj other rc) (\<lambda>_. \<not> conflicting sh rc d other)"
proof -
  let ?common = "\<lambda>p p'. list_ex (\<lambda>c. c \<in> set (polDRClusters p')) (polDRClusters p)"
  have common: "gives (checkedFrom sh) (drpcHaveCommonClusters d other)
      (\<lambda>b. \<exists>p p'. storedPolicy sh d = Some p \<and> storedPolicy sh other = Some p' \<and> b = ?common p p')"
    unfolding drpcHaveCommonClusters_def
    by (rule gives_bind [OF gives_wrap [OF gives_GetDRPolicy]], rule gives_bind [OF gives_wrap [OF gives_GetDRPolicy]])
       (auto intro: gives_ret)
  have "gives (checkedFrom sh) (if \<not> b then ret () else bindM (catchM (ret (the (dProtectedNamespaces (dSpec d)))) h)
      (\<lambda>ns. bindM (catchM (ret (the (dProtectedNamespaces (dSpec other)))) h')
         (\<lambda>ns'. if drpcProtectVMInNS d other rc then ret () else if drpcsProtectCommonNamespace ns ns' then failM e else ret ())))
      (\<lambda>_. \<not> conflicting sh rc d other)"
    if "storedPolicy sh d = Some p" "storedPolicy sh other = Some p'" "b = ?common p p'" for b p p' h h' e
    using that by (auto simp: gives_def wp_rules conflicting_def drpcsProtectCommonNamespace_def list_ex_iff)
  then show ?thesis
    using assms unfolding twoDRPCsConflict_def getProtectedNamespaces_def
    by (auto intro!: gives_bind [OF gives_wrap [OF common]] simp del: not_not)
qed

text \<open>
  C12. A DRPC of a discovered application is reconciled only if no other such DRPC conflicts with it: when
  \<^verbatim>\<open>ensureNoConflictingDRPCs\<close> succeeds and one of the two is in the admin namespace, they have no cluster or no protected
  namespace in common, or they protect virtual machines told apart by their recipes' parameters.
\<close>

theorem reconciled_drpcs_do_not_conflict:
  assumes "fst (ensureNoConflictingDRPCs d obj rc sh) = Inr ()"
    and "storedDRPC sh n ns = Some other" and "n \<noteq> dName d \<or> ns \<noteq> dNamespace d"
    and "isDiscoveredApp d" "isDiscoveredApp other" "drpcInAdminNamespace d rc \<or> drpcInAdminNamespace other rc"
  shows "\<not> conflicting sh rc d other"
proof -
  have other: "other \<in> set (hubDRPCs (environ (shHub sh)))" "dName other = n" "dNamespace other = ns"
    using assms(2) by (auto simp: storedDRPC_def find_Some_iff)
  define P :: "drpc \<Rightarrow> bool" where "P x \<longleftrightarrow> (dName x = n \<and> dNamespace x = ns \<longrightarrow> \<not> conflicting sh rc d other)" for x
  have again: "gives (checkedFrom sh) (seqM shCall
      (bindM (getsM (\<lambda>sh. find (\<lambda>x. dName x = dName item \<and> dNamespace x = dNamespace item) (hubDRPCs (environ (shHub sh)))))
         (\<lambda>r. case r of None \<Rightarrow> failM (Gerr NotFound (dName item @ '' not found'')) | Some x \<Rightarrow> ret x)))
      (\<lambda>x. storedDRPC sh (dName item) (dNamespace item) = Some x)" for item :: drpc
    by (intro gives_seq conflicts.pres_shCall gives_gets [where Q = "\<lambda>r. r = storedDRPC sh (dName item) (dNamespace item)"])
       (auto simp: checkedFrom_def storedDRPC_def intro: gives_fail gives_ret split: option.split)
  have check: "gives (checkedFrom sh) (twoDRPCsConflict d obj x rc) (\<lambda>_. P item)"
    if "storedDRPC sh (dName item) (dNamespace item) = Some x" for item x :: drpc
  proof (cases "dName item = n \<and> dNamespace item = ns")
    case True
    with that assms(2) have "x = other" by simp
    then show ?thesis
      using gives_twoDRPCsConflict [OF assms(4-6), of sh obj] unfolding gives_def P_def by (auto elim!: wp_mono)
  next
    case False
    then show ?thesis
      using gives_any [OF conflicts.pres_twoDRPCsConflict] by (auto simp: P_def)
  qed
  have own: "P item" if "dName item = dName d \<and> dNamespace item = dNamespace d" for item
    using that assms(3) by (auto simp: P_def)
  have "gives (checkedFrom sh) (ensureNoConflictingDRPCs d obj rc) (\<lambda>_. \<forall>x \<in> set (hubDRPCs (environ (shHub sh))). P x)"
    unfolding ensureNoConflictingDRPCs_def
    by (intro gives_seq gives_gets [where Q = "\<lambda>xs. xs = hubDRPCs (environ (shHub sh))"] pres_catch conflicts.pres_shCall pres_fail)
       (simp add: checkedFrom_def,
        simp only:, intro gives_forM gives_if gives_ret own gives_bind [OF gives_wrap [OF again]] check)
  from givesD [OF this, of sh] have "\<forall>x \<in> set (hubDRPCs (environ (shHub sh))). P x"
    using assms(1) by (simp add: checkedFrom_def wp_def split: prod.splits)
  with other show ?thesis by (auto simp: P_def)
qed

definition exDiscovered :: "string \<Rightarrow> string \<Rightarrow> drpc" where
  "exDiscovered n ns = exManagedDRPC\<lparr>dName := n, dNamespace := ''ramen-ops'',
     dSpec := (dSpec exManagedDRPC)\<lparr>dProtectedNamespaces := Some [ns]\<rparr>\<rparr>"

definition exTwoDRPCs :: shell where
  "exTwoDRPCs = (let sh = exShell (exDiscovered ''app'' ''shop'') exAbsent exAbsent []
     in sh\<lparr>shHub := (shHub sh)\<lparr>environ := (environ (shHub sh))\<lparr>hubDRPCs := [exDiscovered ''app'' ''shop'', exDiscovered ''web'' ''site'']\<rparr>\<rparr>\<rparr>)"

theorem reconciled_drpcs_do_not_conflict_witness:
  "\<not> conflicting exTwoDRPCs exRamenConfig (exDiscovered ''app'' ''shop'') (exDiscovered ''web'' ''site'')"
proof (rule reconciled_drpcs_do_not_conflict)
  show "fst (ensureNoConflictingDRPCs (exDiscovered ''app'' ''shop'') None exRamenConfig exTwoDRPCs) = Inr ()" by code_simp
  show "storedDRPC exTwoDRPCs ''web'' ''ramen-ops'' = Some (exDiscovered ''web'' ''site'')" by code_simp
  show "''web'' \<noteq> dName (exDiscovered ''app'' ''shop'') \<or> ''ramen-ops'' \<noteq> dNamespace (exDiscovered ''app'' ''shop'')" by code_simp
  show "isDiscoveredApp (exDiscovered ''app'' ''shop'')" "isDiscoveredApp (exDiscovered ''web'' ''site'')" by code_simp+
  show "drpcInAdminNamespace (exDiscovered ''app'' ''shop'') exRamenConfig
      \<or> drpcInAdminNamespace (exDiscovered ''web'' ''site'') exRamenConfig" by code_simp
qed

section \<open>The cloned PlacementRule\<close>

definition heldRule :: "string \<Rightarrow> string \<Rightarrow> shell \<Rightarrow> bool" where
  "heldRule name ns sh \<longleftrightarrow> (case shRules sh (name, ns) of None \<Rightarrow> False | Some r \<Rightarrow> urFinalizers r \<noteq> [])"

interpretation held: shell_reads "heldRule name ns"
  by unfold_locales (simp add: heldRule_def)

lemma returns_clonePlacementRule:
  assumes "urFinalizers r \<noteq> []"
  shows "returns (clonePlacementRule p r name) (\<lambda>_. heldRule name (urNamespace r)) sh"
  using assms unfolding clonePlacementRule_def addClusterPeersToPlacementRule_def shPut_def Let_def
  by (auto simp: returns_def wp_rules heldRule_def wp_liftE wp_def [of shCall] split: sum.split prod.split)

lemma deleteClonedPlacementRule_holds: "pres (heldRule name ns) (deleteClonedPlacementRule name ns)"
proof -
  have "pres (heldRule name ns) (modifyM (\<lambda>sh. sh\<lparr>shRules := (shRules sh)((name, ns) :=
      (if urFinalizers r = [] then None else Some (r\<lparr>urDeleted := True\<rparr>)))\<rparr>))" if "urFinalizers r \<noteq> []" for r
    using that by (simp add: pres_def modifyM_def heldRule_def)
  then have "pres (heldRule name ns) (deleteRule name ns)"
    unfolding deleteRule_def seqM_def
    by (intro pres_bind [OF held.pres_shCall] pres_bind_gives [where P = "\<lambda>r. case r of None \<Rightarrow> False | Some r \<Rightarrow> urFinalizers r \<noteq> []"])
       (auto simp: gives_def wp_gets heldRule_def split: option.splits)
  then show ?thesis
    unfolding deleteClonedPlacementRule_def by (intro pres_rules held.pres_getClonedPlacementRule)
qed

text \<open>
  The clone of a user's PlacementRule carries the finalizer that the DRPC put on the rule, and nothing removes it from the clone:
  deleting the clone only marks it.
\<close>

theorem cloned_rule_survives_deletion:
  assumes "clonePlacementRule p r name sh = (Inr c, sh')" and "urFinalizers r \<noteq> []"
  shows "shRules (snd (deleteClonedPlacementRule name (urNamespace r) sh')) (name, urNamespace r) \<noteq> None"
  using presD [OF deleteClonedPlacementRule_holds returnsD [OF returns_clonePlacementRule [OF assms(2)] assms(1)]]
  by (auto simp: heldRule_def split: option.splits)

definition exUserRule :: user_rule where
  "exUserRule = \<lparr>urName = ''plr'', urNamespace = ''ns'', urDeleted = False, urAnnotations = [], urLabels = [],
     urFinalizers = [DRPCFinalizer], urSchedulerName = ''ramen'', urClusters = [], urDecisions = [], urOwner = None,
     urClusterConditions = []\<rparr>"

theorem cloned_rule_survives_deletion_witness:
  "shRules (snd (deleteClonedPlacementRule ''clone'' ''ns'' (snd (clonePlacementRule exPolicy exUserRule ''clone'' exRecovered))))
     (''clone'', ''ns'') \<noteq> None"
proof -
  have ns: "urNamespace exUserRule = ''ns''" by (simp add: exUserRule_def)
  have r: "isl (fst (clonePlacementRule exPolicy exUserRule ''clone'' exRecovered)) = False" by code_simp
  obtain c sh where c: "clonePlacementRule exPolicy exUserRule ''clone'' exRecovered = (Inr c, sh)"
    using r by (cases "clonePlacementRule exPolicy exUserRule ''clone'' exRecovered"; cases "fst (clonePlacementRule exPolicy exUserRule ''clone'' exRecovered)") auto
  show ?thesis using cloned_rule_survives_deletion [OF c] by (simp add: ns c) (simp add: exUserRule_def)
qed

end
