(* ===== verification/Ramen_DrpcSafety.thy ===== *)
theory Ramen_DrpcSafety
  imports Ramen_DrpcProps Ramen_Relocation
begin

text \<open>
  One reconcile of a DRPC as a whole, from reading the DRPC to storing its status: which clusters it can make primary. The
  interfaces \<open>drpc_views\<close>, \<open>stored_status_invariant\<close> and \<open>shell_writes\<close> are interpreted on the property that no cluster was asked to be
  primary but those that showed a primary VRG; the engine is then one step from such a state.
\<close>

section \<open>Safe states\<close>

definition primaryWork :: "string \<Rightarrow> hub \<Rightarrow> string \<Rightarrow> bool" where
  "primaryWork w h c \<longleftrightarrow> (case manifestWorks h (w, c) of None \<Rightarrow> False | Some mw \<Rightarrow> mwPrim mw)"

definition showsVRG :: "hub \<Rightarrow> string \<Rightarrow> vrg \<Rightarrow> bool" where
  "showsVRG h c v \<longleftrightarrow> list_ex (\<lambda>((_, c'), vw). c' = c \<and> vwResult vw = Some (ViewedVRG v)) (hubViews h)"

definition showsPrimary :: "hub \<Rightarrow> string \<Rightarrow> bool" where
  "showsPrimary h c \<longleftrightarrow> (\<exists>v. showsVRG h c v \<and> isVRGPrimary v)"

definition sameDRPC :: "drpc \<Rightarrow> string \<Rightarrow> drpc \<Rightarrow> bool" where
  "sameDRPC d ns d' \<longleftrightarrow> drpcCore d' = drpcCore d \<and> sm_get (dAnnotations d') DRPCAppNamespace = ns"

definition safeWorks :: "string \<Rightarrow> hub \<Rightarrow> hub \<Rightarrow> bool" where
  "safeWorks w h0 h \<longleftrightarrow>
     (\<forall>c. primaryWork w h c \<longrightarrow> primaryWork w h0 c \<or> showsPrimary h0 c) \<and> (\<forall>c v. showsVRG h c v \<longrightarrow> showsVRG h0 c v)"

definition hubSafe :: "drpc \<Rightarrow> string \<Rightarrow> hub \<Rightarrow> hub \<Rightarrow> bool" where
  "hubSafe d ns h0 h \<longleftrightarrow> safeWorks (vrgWork d ns) h0 h \<and> sameDRPC d ns (inst h)"

lemma replaceView_entries:
  "(k', vw) \<in> set (replaceView k v vs) \<Longrightarrow> (k', vw) \<in> set vs \<or> k' = k \<and> vw = v"
  by (induction k v vs rule: replaceView.induct) (auto split: if_splits)

lemma showsVRG_putView: "sameResult h n c vw \<Longrightarrow> showsVRG (putView n c vw h) c' v \<Longrightarrow> showsVRG h c' v"
  by (fastforce simp: showsVRG_def list_ex_iff putView_def sameResult_def findView_def dest: replaceView_entries map_of_SomeD)

lemma showsVRG_filter: "showsVRG (h\<lparr>hubViews := filter P (hubViews h)\<rparr>) c v \<Longrightarrow> showsVRG h c v"
  by (auto simp: showsVRG_def list_ex_iff)

lemma primaryWork_putMW:
  "primaryWork w (putMW name c mw h) c' = (if name = w \<and> c' = c then mwPrim mw else primaryWork w h c')"
  by (simp add: primaryWork_def putMW_def)

lemma primaryWork_putView: "primaryWork w (putView n c vw h) c' = primaryWork w h c'" "inst (putView n c vw h) = inst h"
  by (simp_all add: primaryWork_def putView_def)

lemma shipped_primary: "shippedSpec d ns h c = Some sp \<Longrightarrow> vReplicationState sp = Primary \<Longrightarrow> primaryWork (vrgWork d ns) h c"
  by (auto simp: shippedSpec_def primaryWork_def mwPrim_def isVRGPrimary_def split: option.splits sum.splits)

interpretation reconciling: drpc_views "hubSafe d ns h0" d ns
  "\<lambda>c sp. vReplicationState sp = Primary \<longrightarrow> showsPrimary h0 c" "\<lambda>_. True" "showsVRG h0"
proof unfold_locales
  fix s name mw c assume s: "hubSafe d ns h0 s" and w: "name = vrgWork d ns \<Longrightarrow>
      \<exists>v. ExtractVRGFromManifestWork mw = Inr v
        \<and> ((vReplicationState (vSpec v) = Primary \<longrightarrow> showsPrimary h0 c) \<or> shippedSpec d ns s c = Some (vSpec v))"
  have "primaryWork (vrgWork d ns) h0 c \<or> showsPrimary h0 c" if "name = vrgWork d ns" "mwPrim mw"
    using w [OF that(1)] that(2) s shipped_primary [of d ns s c]
    by (auto simp: mwPrim_def isVRGPrimary_def hubSafe_def safeWorks_def)
  then show "hubSafe d ns h0 (putMW name c mw s)"
    using s by (auto simp: hubSafe_def safeWorks_def primaryWork_putMW) (simp_all add: putMW_def showsVRG_def)
next
  fix s name c v assume "hubSafe d ns h0 s" "sameResult s name c v"
  then show "hubSafe d ns h0 (putView name c v s)"
    by (auto simp: hubSafe_def safeWorks_def primaryWork_putView dest: showsVRG_putView)
next
  fix s n c vw v assume "hubSafe d ns h0 s" "findView n c s = Some vw" "vwResult vw = Some (ViewedVRG v)"
  then show "showsVRG h0 c v"
    by (fastforce simp: hubSafe_def safeWorks_def showsVRG_def list_ex_iff findView_def dest: map_of_SomeD)
next
  fix s P assume "hubSafe d ns h0 s"
  then show "hubSafe d ns h0 (s\<lparr>hubViews := filter P (hubViews s)\<rparr>)"
    using showsVRG_filter [of P s] by (simp add: hubSafe_def safeWorks_def primaryWork_def)
qed (auto simp: hubSafe_def safeWorks_def primaryWork_def showsVRG_def dropMW_def)

interpretation reporting: stored_status_invariant "safeWorks w h0"
  by unfold_locales (auto simp: safeWorks_def primaryWork_def showsVRG_def)

lemma hubSafe_same: "drpcCore d' = drpcCore d \<Longrightarrow> hubSafe d' ns h0 = hubSafe d ns h0"
  by (auto simp: hubSafe_def fun_eq_iff sameDRPC_def vrgWork_def drpcCore_def)

section \<open>Safe states of the shell\<close>

definition shellSafe :: "shell \<Rightarrow> string \<Rightarrow> shell \<Rightarrow> bool" where
  "shellSafe sh0 ns sh \<longleftrightarrow> hubSafe (theDRPC sh0) ns (shHub sh0) (shHub sh)
     \<and> shPolicies sh = shPolicies sh0 \<and> shClusters sh = shClusters sh0"

interpretation shellSafe: shell_writes "shellSafe sh0 ns"
  by unfold_locales
     (auto simp: shellSafe_def hubSafe_def safeWorks_def primaryWork_def showsVRG_def)

lemma pres_shellSafe_hub: "pres (hubSafe (theDRPC sh0) ns (shHub sh0)) m \<Longrightarrow> pres (shellSafe sh0 ns) (inHub m)"
  by (auto simp: pres_def inHub_def shellSafe_def split: prod.split)

lemma gives_shellSafe_hub:
  "gives (hubSafe (theDRPC sh0) ns (shHub sh0)) m P \<Longrightarrow> gives (shellSafe sh0 ns) (inHub m) P"
  by (auto simp: gives_def wp_inHub shellSafe_def elim!: wp_mono)

lemma pres_shellSafe_modDRPC:
  "(\<And>d. sameDRPC (theDRPC sh0) ns d \<Longrightarrow> sameDRPC (theDRPC sh0) ns (f d)) \<Longrightarrow> pres (shellSafe sh0 ns) (modDRPC f)"
  unfolding modDRPC_def
  by (rule pres_shellSafe_hub) (auto simp: pres_def modInst_def modifyM_def hubSafe_def safeWorks_def primaryWork_def showsVRG_def)

lemma pres_shellSafe_modHub:
  "(\<And>h. manifestWorks (f h) = manifestWorks h \<and> hubViews (f h) = hubViews h \<and> inst (f h) = inst h) \<Longrightarrow> pres (shellSafe sh0 ns) (modHub f)"
  unfolding modHub_def
  by (rule pres_shellSafe_hub) (auto simp: pres_def modifyM_def hubSafe_def safeWorks_def primaryWork_def showsVRG_def)

lemma gives_theDRPC:
  "gives (shellSafe sh0 ns) (getsM (\<lambda>sh. (theDRPC sh, g sh))) (\<lambda>(d, _). sameDRPC (theDRPC sh0) ns d)"
  "gives (shellSafe sh0 ns) (getsM theDRPC) (\<lambda>d. sameDRPC (theDRPC sh0) ns d)"
  by (auto simp: gives_def wp_gets shellSafe_def hubSafe_def theDRPC_def)

lemma gives_vrgNamespaceFor:
  assumes "ns \<noteq> []" "sameDRPC (theDRPC sh0) ns d"
  shows "gives (shellSafe sh0 ns) (vrgNamespaceFor d obj) (\<lambda>x. x = ns)"
  using assms unfolding vrgNamespaceFor_def
  by (auto simp: gives_def wp_rules wp_liftE selectVRGNamespace_def sameDRPC_def)

lemma same_simps [simp]:
  "sameDRPC d0 ns (d\<lparr>dStatus := x\<rparr>) = sameDRPC d0 ns d" "sameDRPC d0 ns (d\<lparr>dFinalizers := fs\<rparr>) = sameDRPC d0 ns d"
  "sameDRPC d0 ns (d\<lparr>dLabels := ls\<rparr>) = sameDRPC d0 ns d" "sameDRPC d0 ns (d\<lparr>dOwnerReferences := os\<rparr>) = sameDRPC d0 ns d"
  "sameDRPC d0 ns (snd (updateDRPCProgression d p)) = sameDRPC d0 ns d"
  "sameDRPC d0 ns (setDRPCCondition t k st r m d) = sameDRPC d0 ns d"
  by (simp_all add: sameDRPC_def drpcCore_def updateDRPCProgression_def setDRPCCondition_def)

lemma pres_setDRPCConditions: "pres (shellSafe sh0 ns) (setDRPCConditions cs)"
  unfolding setDRPCConditions_def setCond_def
  by (intro pres_rules pres_shellSafe_hub)
     (auto simp: pres_def modInst_def modifyM_def hubSafe_def safeWorks_def primaryWork_def showsVRG_def)

lemma pres_storeDRPC: "pres (shellSafe sh0 ns) storeDRPC"
proof -
  have "pres (hubSafe (theDRPC sh0) ns (shHub sh0)) updateDRPC"
    unfolding updateDRPC_def
    by (intro pres_rules reconciling.pres_apiCall)
       (auto simp: pres_def modifyM_def hubSafe_def safeWorks_def primaryWork_def showsVRG_def)
  then show ?thesis
    unfolding storeDRPC_def
    by (intro pres_rules pres_shellSafe_hub) (auto simp: pres_def modifyM_def shellSafe_def)
qed

section \<open>The steps of the reconcile\<close>

lemma pres_updateAndSetOwner:
  assumes "ns \<noteq> []"
  shows "pres (shellSafe sh0 ns) updateAndSetOwner"
proof -
  let ?J = "shellSafe sh0 ns"
  have o: "pres ?J setDRPCOwner"
    unfolding setDRPCOwner_def withPlacement_def
    by (intro pres_rules pres_storeDRPC pres_shellSafe_modDRPC) simp
  have m: "pres ?J updateObjectMetadata"
    unfolding updateObjectMetadata_def withPlacement_def Let_def
  proof (rule pres_bind [OF pres_gets], rule pres_case_option [OF _ pres_bind_gives [OF gives_theDRPC(2)]])
    fix obj d assume d: "sameDRPC (theDRPC sh0) ns d"
    obtain u1 d1 u2 d2 where e: "AddLabelDRPC OCMBackupLabelKey ''ramen'' d = (u1, d1)" "AddFinalizerDRPC DRPCFinalizer d1 = (u2, d2)"
      by fastforce
    have d2: "sameDRPC (theDRPC sh0) ns d2"
      using d e by (auto simp: AddLabelDRPC_def AddFinalizerDRPC_def split: if_splits)
    have d3: "sameDRPC (theDRPC sh0) ns d3" if "AddAnnotation DRPCAppNamespace ns d2 = (u3, d3)" for u3 d3
      using d2 that by (auto simp: AddAnnotation_def sameDRPC_def drpcCore_def split: if_splits)
    show "pres ?J (case AddLabelDRPC OCMBackupLabelKey ''ramen'' d of (u1, d1) \<Rightarrow> case AddFinalizerDRPC DRPCFinalizer d1 of (u2, d2) \<Rightarrow>
        seqM (modDRPC (\<lambda>_. d2)) (bindM (vrgNamespaceFor d2 (Some obj))
          (\<lambda>ns. case AddAnnotation DRPCAppNamespace ns d2 of (u3, d3) \<Rightarrow>
            seqM (modDRPC (\<lambda>_. d3)) (seqM (whenM (u1 \<or> u2 \<or> u3) storeDRPC)
              (whenM (DRPCFinalizer \<notin> set (objFinalizers obj))
                (storePlacement (withFinalizers (objFinalizers obj @ [DRPCFinalizer]) obj)))))))"
      unfolding e prod.case
      by (rule pres_seq [OF pres_shellSafe_modDRPC [OF d2]], rule pres_bind_gives [OF gives_vrgNamespaceFor [OF assms d2]])
         (auto intro!: pres_seq pres_when pres_storeDRPC shellSafe.pres_storePlacement pres_shellSafe_modDRPC d3 split: prod.split)
  qed (rule pres_fail)
  show ?thesis unfolding updateAndSetOwner_def by (intro pres_rules shellSafe.pres_annotateObject o m)
qed

text \<open>The views are ranged over in some order.\<close>

lemma shows_rangeVRGs: "\<forall>(c, v) \<in> set vs. showsVRG h c v \<Longrightarrow> \<forall>(c, v) \<in> set (rangeVRGs sh vs). showsVRG h c v"
  by (auto simp: set_rangeVRGs dest: map_of_SomeD)

lemma pres_adopting:
  assumes "sameDRPC (theDRPC sh0) ns d" "\<forall>(c, v) \<in> set vs. showsVRG (shHub sh0) c v"
  shows "pres (shellSafe sh0 ns) (inHub (ensureVRGsManagedByDRPC d ns vs))"
proof (rule pres_shellSafe_hub)
  have "pres (hubSafe d ns (shHub sh0)) (ensureVRGsManagedByDRPC d ns vs)"
    by (rule reconciling.pres_ensureVRGsManagedByDRPC)
       (use assms(2) in \<open>auto simp: showsPrimary_def isVRGPrimary_def\<close>)
  then show "pres (hubSafe (theDRPC sh0) ns (shHub sh0)) (ensureVRGsManagedByDRPC d ns vs)"
    using assms(1) hubSafe_same [of d "theDRPC sh0"] by (simp add: sameDRPC_def)
qed

lemma gives_found:
  "gives (shellSafe sh0 ns) (inHub (getVRGsFromManagedClusters d dcs x)) (\<lambda>(vs, _). \<forall>(c, v) \<in> set vs. showsVRG (shHub sh0) c v)"
  by (rule gives_shellSafe_hub [OF reconciling.gives_getVRGs])

lemma pres_determineDRPCState:
  assumes "ns \<noteq> []"
  shows "pres (shellSafe sh0 ns) (determineDRPCState p dst)"
  unfolding determineDRPCState_def
proof (rule pres_bind_gives [OF gives_theDRPC(1)], clarsimp)
  fix d obj assume d: "sameDRPC (theDRPC sh0) ns d"
  have tail: "pres (shellSafe sh0 ns) (bindM (getsM (\<lambda>sh. rangeVRGs sh found)) (\<lambda>vs. bindM (inHub (ensureVRGsManagedByDRPC d ns vs)) f))"
    if "\<forall>(c, v) \<in> set found. showsVRG (shHub sh0) c v" "\<And>b. pres (shellSafe sh0 ns) (f b)" for found and f :: "bool \<Rightarrow> (progress \<times> string) shm"
    by (rule pres_bind_gives [where P = "\<lambda>vs. \<forall>(c, v) \<in> set vs. showsVRG (shHub sh0) c v"])
       (use shows_rangeVRGs [OF that(1)] that(2) in \<open>auto simp: gives_def wp_gets intro!: pres_bind pres_adopting d\<close>)
  show "pres (shellSafe sh0 ns) (bindM (vrgNamespaceFor d obj)
     (\<lambda>ns. bindM (drpcGetDRClusters (polDRClusters p))
        (\<lambda>dcs. bindM (inHub (getVRGsFromManagedClusters d dcs ns))
           (\<lambda>(found, queried, failed). bindM (getsM (\<lambda>sh. rangeVRGs sh found))
              (\<lambda>vs. bindM (inHub (ensureVRGsManagedByDRPC d ns vs))
                 (\<lambda>managed. if \<not> managed then ret (Stop, ''VRG adoption in progress'')
                    else getsM (\<lambda>sh. decideProgress d dst (rangeVRGs sh found) queried failed
                           (GetLastKnownVRGPrimaryFromS3 (environ (shHub sh)) (AvailableS3Profiles dcs) (dName d) ns None))))))))"
    by (rule pres_bind_gives [OF gives_vrgNamespaceFor [OF assms d]], simp,
        rule pres_bind [OF shellSafe.pres_drpcGetDRClusters], rule pres_bind_gives [OF gives_found])
       (auto intro!: tail pres_if pres_ret pres_gets)
qed

lemma pres_case_progress:
  "pres I a \<Longrightarrow> pres I b \<Longrightarrow> pres I c \<Longrightarrow> pres I (case p of Continue \<Rightarrow> a | AllowFailover \<Rightarrow> b | Stop \<Rightarrow> c)"
  by (cases p) simp_all

lemma pres_ensureDRPCStatusConsistency:
  assumes "ns \<noteq> []"
  shows "pres (shellSafe sh0 ns) (ensureDRPCStatusConsistency p)"
  unfolding ensureDRPCStatusConsistency_def
  by (intro pres_rules pres_case_progress pres_determineDRPCState assms pres_setDRPCConditions pres_shellSafe_modDRPC) simp_all

text \<open>Deletion.\<close>

lemma pres_cleanupVRGs:
  assumes "sameDRPC (theDRPC sh0) ns d"
  shows "pres (shellSafe sh0 ns) (cleanupVRGs d p ns)"
proof -
  have same: "hubSafe d ns (shHub sh0) = hubSafe (theDRPC sh0) ns (shHub sh0)"
    using assms by (auto simp: sameDRPC_def intro!: hubSafe_same)
  have del: "pres (hubSafe d ns (shHub sh0)) (cleanupFoundVRGs d p ns vs)" if "\<forall>(c, v) \<in> set vs. showsVRG (shHub sh0) c v" for vs
    unfolding cleanupFoundVRGs_def
    by (intro pres_rules reconciling.pres_ensureVRGsDeleted reconciling.pres_deleteAllManagedClusterViews)
       (use that in \<open>auto simp: showsPrimary_def isVRGPrimary_def\<close>)
  have tail: "pres (shellSafe sh0 ns) (bindM (getsM (\<lambda>sh. rangeVRGs sh found)) (\<lambda>vs. inHub (cleanupFoundVRGs d p ns vs)))"
    if "\<forall>(c, v) \<in> set found. showsVRG (shHub sh0) c v" for found
    by (rule pres_bind_gives [where P = "\<lambda>vs. \<forall>(c, v) \<in> set vs. showsVRG (shHub sh0) c v"])
       (use shows_rangeVRGs [OF that] del in \<open>auto simp: gives_def wp_gets same intro!: pres_shellSafe_hub\<close>)
  show ?thesis
    unfolding cleanupVRGs_def
    by (rule pres_bind [OF pres_catch [OF shellSafe.pres_drpcGetDRClusters pres_fail]],
        rule pres_bind_gives [OF gives_wrap [OF gives_found]])
       (auto intro!: tail)
qed

lemma pres_finalizeDRPC:
  assumes "ns \<noteq> []"
  shows "pres (shellSafe sh0 ns) finalizeDRPC"
  unfolding finalizeDRPC_def
proof (rule pres_bind_gives [OF gives_theDRPC(1)], clarsimp)
  fix d obj assume d: "sameDRPC (theDRPC sh0) ns d"
  have works: "pres (shellSafe sh0 ns) (seqM (inHub (deleteNamespaceManifestWorks d p ns))
      (inHub (forM (polDRClusters p) (\<lambda>cluster. DeleteRecipeManifestWork (mwuManifestWorkName (dName d) ns ''recipe'') cluster))))" for p
    by (intro pres_seq pres_shellSafe_hub pres_forM reconciling.pres_deleteNamespaceManifestWorks reconciling.pres_DeleteRecipeManifestWork)
  have tail: "pres (shellSafe sh0 ns) (bindM (catchM (GetDRPolicy d) (\<lambda>e. failM (f e)))
      (\<lambda>p. seqM (catchM (CleanupSecretPropagation d) (\<lambda>e. failM (g e)))
         (seqM (cleanupVRGs d p ns) (seqM (inHub (deleteNamespaceManifestWorks d p ns))
            (inHub (forM (polDRClusters p) (\<lambda>cluster. DeleteRecipeManifestWork (mwuManifestWorkName (dName d) ns ''recipe'') cluster)))))))"
    for f g :: "gerr \<Rightarrow> gerr"
    by (intro pres_bind pres_seq [OF pres_catch] pres_seq [OF pres_cleanupVRGs [OF d]] works pres_catch shellSafe.pres_GetDRPolicy pres_fail
        shellSafe.pres_CleanupSecretPropagation)
  show "pres (shellSafe sh0 ns)
     (seqM (whenM (dPreferredCluster (dSpec d) = []) (deleteClonedPlacementRule (clonedPlRuleName d) (dNamespace d)))
       (bindM (vrgNamespaceFor d obj)
          (\<lambda>ns. bindM (catchM (GetDRPolicy d) (\<lambda>e. failM (wrapE ''failed to get DRPolicy while finalizing DRPC ('' e '')'')))
             (\<lambda>p. seqM (catchM (CleanupSecretPropagation d)
                          (\<lambda>e. failM (wrapE ''failed to clean up volsync secret-related resources ('' e '')'')))
                (seqM (cleanupVRGs d p ns)
                   (seqM (inHub (deleteNamespaceManifestWorks d p ns))
                      (inHub (forM (polDRClusters p)
                         (\<lambda>cluster. DeleteRecipeManifestWork (mwuManifestWorkName (dName d) ns ''recipe'') cluster)))))))))"
    by (rule pres_seq [OF pres_when [OF shellSafe.pres_deleteClonedPlacementRule]],
        rule pres_bind_gives [OF gives_vrgNamespaceFor [OF assms d]], simp only:, rule tail)
qed

lemma pres_setDeletionStatusAndUpdate: "pres (shellSafe sh0 ns) setDeletionStatusAndUpdate"
  unfolding setDeletionStatusAndUpdate_def Let_def
  by (rule pres_bind_gives [OF gives_theDRPC(1)], clarsimp split: prod.split simp del: not_None_eq,
      intro conjI impI pres_seq pres_when pres_catch pres_fail shellSafe.pres_shCall pres_shellSafe_modDRPC pres_shellSafe_modHub)
     (auto simp: updateDRPCProgression_def split: if_splits)

lemma pres_finalizePlacement: "pres (shellSafe sh0 ns) (finalizePlacement obj)"
proof -
  have "pres (shellSafe sh0 ns) (alignPlacementPredicateWithDecision obj)" for obj
    unfolding alignPlacementPredicateWithDecision_def
    by (cases obj) (auto intro!: pres_rules pres_shellSafe_hub reconciling.pres_getClusterDecisionFromPlacement)
  then show ?thesis
    unfolding finalizePlacement_def Let_def by (intro pres_rules shellSafe.pres_storePlacement)
qed

lemma pres_drpcProcessDeletion:
  assumes "ns \<noteq> []"
  shows "pres (shellSafe sh0 ns) drpcProcessDeletion"
  unfolding drpcProcessDeletion_def
  by (intro pres_rules pres_setDeletionStatusAndUpdate pres_finalizeDRPC assms pres_finalizePlacement pres_storeDRPC
      pres_shellSafe_modDRPC) simp_all

section \<open>The instance\<close>

text \<open>What the engine's state has to do with the objects the reconcile started from.\<close>

definition engineRun :: "shell \<Rightarrow> string \<Rightarrow> hub \<Rightarrow> bool" where
  "engineRun sh0 ns h \<longleftrightarrow> sameDRPC (theDRPC sh0) ns (inst h) \<and> vrgNamespace h = ns
     \<and> drPolicy h \<in> set (shPolicies sh0) \<and> \<not> polDeleted (drPolicy h) \<and> DrpolicyValidated (drPolicy h) = None
     \<and> map dcName (drClusters h) = polDRClusters (drPolicy h) \<and> set (drClusters h) \<subseteq> set (shClusters sh0)
     \<and> list_all (\<lambda>(c, v). showsVRG (shHub sh0) c v) (vrgs h)"

lemma gives_drpcGetDRClusters:
  "gives (shellSafe sh0 ns) (drpcGetDRClusters cs) (\<lambda>dcs. map dcName dcs = cs \<and> set dcs \<subseteq> set (shClusters sh0))"
proof (induction cs)
  case (Cons c cs)
  have get: "gives (shellSafe sh0 ns) (seqM shCall (bindM (getsM (\<lambda>sh. find (\<lambda>dc. dcName dc = c) (shClusters sh)))
      (\<lambda>r. case r of None \<Rightarrow> failM (Gerr NotFound (c @ '' not found'')) | Some dc \<Rightarrow> ret dc)))
      (\<lambda>dc. dcName dc = c \<and> dc \<in> set (shClusters sh0))"
    by (intro gives_seq shellSafe.pres_shCall gives_gets [where Q = "\<lambda>r. r = find (\<lambda>dc. dcName dc = c) (shClusters sh0)"])
       (auto simp: shellSafe_def find_Some_iff intro: gives_fail gives_ret split: option.split)
  show ?case
    unfolding drpcGetDRClusters.simps
    by (rule gives_bind [OF gives_wrap [OF get]], rule gives_bind [OF Cons]) (auto intro!: gives_ret)
qed (simp add: gives_ret)

lemma gives_getAndEnsureValidDRPolicy:
  "gives (shellSafe sh0 ns) (getAndEnsureValidDRPolicy d)
     (\<lambda>p. p \<in> set (shPolicies sh0) \<and> \<not> polDeleted p \<and> DrpolicyValidated p = None)"
proof -
  have get: "gives (shellSafe sh0 ns) (GetDRPolicy d) (\<lambda>p. p \<in> set (shPolicies sh0))"
    unfolding GetDRPolicy_def
    by (intro gives_seq shellSafe.pres_shCall
          gives_gets [where Q = "\<lambda>r. r = find (\<lambda>p. polName p = dDRPolicyRefName (dSpec d)) (shPolicies sh0)"])
       (auto simp: shellSafe_def find_Some_iff intro: gives_fail gives_ret split: option.split)
  show ?thesis
    unfolding getAndEnsureValidDRPolicy_def
    by (rule gives_bind [OF gives_wrap [OF get]]) (auto intro: gives_fail gives_ret split: option.split)
qed

lemma pres_loadNetworkMapping: "pres (shellSafe sh0 ns) (loadNetworkMapping p)"
  unfolding loadNetworkMapping_def by (intro pres_rules shellSafe.pres_LoadNetworkMapping pres_setDRPCConditions)

text \<open>\<open>keeping I R\<close>: \<open>I\<close> holds at the end, and \<open>R\<close> too after success.\<close>

definition keeping :: "('s \<Rightarrow> bool) \<Rightarrow> ('s \<Rightarrow> bool) \<Rightarrow> gerr + 'a \<Rightarrow> 's \<Rightarrow> bool" where
  "keeping I R r t \<longleftrightarrow> I t \<and> (isl r \<or> R t)"

lemma wp_bind_gives:
  assumes "gives I m P" "I s" "\<And>x t. I t \<Longrightarrow> P x \<Longrightarrow> wp (f x) (keeping I R) t"
  shows "wp (bindM m f) (keeping I R) s"
  unfolding wp_bind
  by (rule wp_mono [OF givesD [OF assms(1,2)]]) (use assms(3) in \<open>auto simp: keeping_def split: sum.split\<close>)

lemmas wp_bind_pres = wp_bind_gives [OF gives_any, simplified]

lemma wp_createDRPCInstance:
  assumes "ns \<noteq> []" "shellSafe sh0 ns sh" "p \<in> set (shPolicies sh0)" "\<not> polDeleted p" "DrpolicyValidated p = None"
  shows "wp (createDRPCInstance p rc) (keeping (shellSafe sh0 ns) (\<lambda>sh'. engineRun sh0 ns (shHub sh'))) sh"
    (is "wp _ ?Q sh")
proof -
  have finish: "wp (modHub (\<lambda>h. h\<lparr>drPolicy := p, drClusters := dcs, vrgs := rangeVRGs t found, vrgNamespace := ns,
       ramenConfig := Some rc, drType := drt, volSyncDisabled := disabled, requeueAfter := 0, mcvRequestInProgress := False,
       environ := (environ h)\<lparr>translateSourceIP := g\<rparr>, savedInstanceStatus := status h\<rparr>)) ?Q sh'"
    if "shellSafe sh0 ns sh'" "map dcName dcs = polDRClusters p" "set dcs \<subseteq> set (shClusters sh0)"
       "\<forall>(c, v) \<in> set found. showsVRG (shHub sh0) c v"
    for dcs t found drt disabled g sh'
    using that assms(3-5) shows_rangeVRGs [OF that(4), of t]
    by (auto simp: keeping_def modHub_def wp_inHub wp_modify shellSafe_def hubSafe_def safeWorks_def primaryWork_def showsVRG_def engineRun_def list_all_iff)
  show ?thesis
    unfolding createDRPCInstance_def seqM_def
    apply (rule wp_bind_gives [OF gives_drpcGetDRClusters assms(2)])
    apply (rule wp_bind_pres [OF shellSafe.pres_getDRPCPlacementRule], assumption)
    apply (rule wp_bind_gives [OF gives_theDRPC(1)], assumption, clarify)
    apply (rule wp_bind_gives [OF gives_vrgNamespaceFor [OF assms(1)]], assumption, assumption, clarify)
    apply (rule wp_bind_gives [OF gives_found], assumption, clarify)
    apply (rule wp_bind_pres [OF pres_shellSafe_modHub], simp, assumption)
    apply (rule wp_bind_pres [OF pres_loadNetworkMapping], assumption)
    apply (rule wp_bind_pres [OF pres_liftE], assumption, clarify)
    apply (simp add: wp_bind wp_gets)
    apply (rule finish; simp)
    done
qed

section \<open>The engine's step\<close>

text \<open>What a reconcile may end with: also the target of the action, when its guard holds.\<close>

definition promotable :: "shell \<Rightarrow> string \<Rightarrow> string \<Rightarrow> bool" where
  "promotable sh0 ns c \<longleftrightarrow>
     showsPrimary (shHub sh0) c \<or> c = engineTarget (shHub sh0) \<and> (\<exists>h. engineRun sh0 ns h \<and> promotionReady h)"

definition endsWell :: "shell \<Rightarrow> string \<Rightarrow> shell \<Rightarrow> bool" where
  "endsWell sh0 ns sh \<longleftrightarrow> (\<forall>c. primaryWork (vrgWork (theDRPC sh0) ns) (shHub sh) c
     \<longrightarrow> primaryWork (vrgWork (theDRPC sh0) ns) (shHub sh0) c \<or> promotable sh0 ns c)"

lemma safe_endsWell:
  "safeWorks (vrgWork (theDRPC sh0) ns) (shHub sh0) (shHub sh) \<Longrightarrow> endsWell sh0 ns sh"
  "shellSafe sh0 ns sh \<Longrightarrow> endsWell sh0 ns sh"
  by (auto simp: endsWell_def promotable_def safeWorks_def shellSafe_def hubSafe_def)

lemma startProcessing_endsWell:
  assumes safe: "shellSafe sh0 ns sh" and run: "engineRun sh0 ns (shHub sh)"
  shows "endsWell sh0 ns (sh\<lparr>shHub := snd (startProcessing (shHub sh))\<rparr>)"
  unfolding endsWell_def
proof (intro allI impI)
  let ?h = "shHub sh" and ?h' = "snd (startProcessing (shHub sh))" and ?w = "vrgWork (theDRPC sh0) ns"
  fix c assume "primaryWork ?w (shHub (sh\<lparr>shHub := ?h'\<rparr>)) c"
  then have p: "primaryWork ?w ?h' c" by simp
  have cfg: "cfg ?h' = cfg ?h"
    using presD [OF pt.pres_startProcessing [of ?h], of ?h] frame_primaryWithin [of ?h ?h "{engineTarget ?h}"]
    by (simp add: primaryWithin_def)
  have "BuildManifestWorkName ?h ''vrg'' = ?w"
    using run by (simp add: vrgWork_def engineRun_def sameDRPC_def drpcCore_def)
  moreover from this have "BuildManifestWorkName ?h' ''vrg'' = ?w" by (simp only: cfg_mwName [OF cfg])
  ultimately have w: "mwPrimary ?h c = primaryWork ?w ?h c" "mwPrimary ?h' c = primaryWork ?w ?h' c"
    unfolding mwPrimary_alt primaryWork_def by simp_all
  have t: "engineTarget ?h = engineTarget (shHub sh0)"
    using run by (auto simp: engineTarget_def engineRun_def sameDRPC_def drpcCore_def theDRPC_def split: dr_action.split)
  show "primaryWork ?w (shHub sh0) c \<or> promotable sh0 ns c"
  proof (cases "primaryWork ?w ?h c")
    case True
    then show ?thesis using safe_endsWell(2) [OF safe] by (simp add: endsWell_def)
  next
    case False
    have "promotionReady ?h"
    proof (rule ccontr)
      assume "\<not> promotionReady ?h"
      then have "primaryWithin ?h {} ?h'" using startProcessing_blocked [of ?h] by (simp add: wp_snd)
      with False p w show False by (simp add: primaryWithin_def)
    qed
    with False p w run startProcessing_target [of ?h c] t show ?thesis by (auto simp: promotable_def)
  qed
qed

interpretation running: drpc_works "engineRun sh0 ns" d ns' "\<lambda>_ _. True" "\<lambda>_. True"
  by unfold_locales (auto simp: engineRun_def putMW_def dropMW_def putView_def)

definition running :: "shell \<Rightarrow> string \<Rightarrow> shell \<Rightarrow> bool" where
  "running sh0 ns sh \<longleftrightarrow> shellSafe sh0 ns sh \<and> engineRun sh0 ns (shHub sh)"

lemma pres_running: "pres (shellSafe sh0 ns) m \<Longrightarrow> pres (\<lambda>sh. engineRun sh0 ns (shHub sh)) m \<Longrightarrow> pres (running sh0 ns) m"
  by (simp add: pres_def running_def)

lemma pres_running_adopting:
  assumes "sameDRPC (theDRPC sh0) ns d" "\<forall>(c, v) \<in> set vs. showsVRG (shHub sh0) c v"
  shows "pres (running sh0 ns) (inHub (ensureVRGsManagedByDRPC d ns vs))"
  by (rule pres_running [OF pres_adopting [OF assms] pres_inHub [OF running.pres_ensureVRGsManagedByDRPC]]) simp

lemma pres_ensureGlobalVGRLabel: "pres (running sh0 ns) ensureGlobalVGRLabel"
proof (rule pres_running)
  have "pres (engineRun sh0 ns) (modInst (\<lambda>d. snd (AddLabelDRPC k l d)))" "pres (engineRun sh0 ns) updateDRPC" for k l
    unfolding updateDRPC_def modInst_def
     apply (simp add: pres_def modifyM_def engineRun_def AddLabelDRPC_def)
    apply (intro pres_rules running.pres_apiCall)
    apply (simp add: pres_def modifyM_def engineRun_def)
    done
  note e = pres_inHub [OF this(1)] pres_inHub [OF this(2)]
  show "pres (\<lambda>sh. engineRun sh0 ns (shHub sh)) ensureGlobalVGRLabel"
    unfolding ensureGlobalVGRLabel_def storeDRPC_def modDRPC_def
    by (intro pres_rules e) (simp add: pres_def modifyM_def)
  show "pres (shellSafe sh0 ns) ensureGlobalVGRLabel"
    unfolding ensureGlobalVGRLabel_def
    by (intro pres_rules pres_storeDRPC pres_shellSafe_modDRPC) (simp add: AddLabelDRPC_def)
qed

lemma wp_keep:
  assumes "pres I m" "I s" "\<And>t. I t \<Longrightarrow> F t" "\<And>x t. I t \<Longrightarrow> wp (f x) (\<lambda>_. F) t"
  shows "wp (bindM m f) (\<lambda>_. F) s"
  unfolding wp_bind by (rule wp_mono [OF pres_wp [OF assms(1,2)]]) (auto intro: assms(3,4) split: sum.split)

lemma reconcileDRPCInstance_endsWell:
  assumes "running sh0 ns sh"
  shows "wp reconcileDRPCInstance (\<lambda>_. endsWell sh0 ns) sh"
proof -
  have ends: "endsWell sh0 ns t" if "running sh0 ns t" for t
    using that safe_endsWell(2) by (simp add: running_def)
  have engine: "wp (bindM (inHub startProcessing) (\<lambda>r. getsM (f r))) (\<lambda>_. endsWell sh0 ns) t"
    if "running sh0 ns t" for t and f :: "bool \<Rightarrow> shell \<Rightarrow> reconcile_result"
    using startProcessing_endsWell [of sh0 ns t] that
    unfolding wp_bind wp_inHub by (auto simp: running_def wp_gets wp_def [of startProcessing] split: sum.split prod.split)
  have d: "sameDRPC (theDRPC sh0) ns (theDRPC sh)" "vrgNamespace (shHub sh) = ns"
    and vs: "\<forall>(c, v) \<in> set (rangeVRGs sh (vrgs (shHub sh))). showsVRG (shHub sh0) c v"
    using assms by (auto simp: running_def engineRun_def theDRPC_def list_all_iff intro!: shows_rangeVRGs)
  show ?thesis
    unfolding reconcileDRPCInstance_def wp_bind [where m = "getsM _"] wp_gets sum.case prod.case d(2)
    by (rule wp_keep [OF pres_running_adopting [OF d(1) vs] assms ends], assumption)
       (auto intro!: wp_keep [OF pres_ensureGlobalVGRLabel] engine ends simp: wp_ret)
qed

section \<open>Reconcile\<close>

lemma reports_endWell:
  assumes "shellSafe sh0 ns sh"
  shows "wp (drpcRecordFailure a b) (\<lambda>_. endsWell sh0 ns) sh" "wp (inHub (updateDRPCStatus u)) (\<lambda>_. endsWell sh0 ns) sh"
proof -
  let ?W = "\<lambda>sh. safeWorks (vrgWork (theDRPC sh0) ns) (shHub sh0) (shHub sh)"
  have W: "?W sh" using assms by (simp add: shellSafe_def hubSafe_def)
  show "wp (drpcRecordFailure a b) (\<lambda>_. endsWell sh0 ns) sh"
    unfolding drpcRecordFailure_def
    by (rule wp_mono [OF pres_wp [OF pres_inHub [OF reporting.pres_recordFailure] W]]) (rule safe_endsWell(1))
  show "wp (inHub (updateDRPCStatus u)) (\<lambda>_. endsWell sh0 ns) sh"
    by (rule wp_mono [OF pres_wp [OF pres_inHub [OF reporting.pres_updateDRPCStatus] W]]) (rule safe_endsWell(1))
qed

lemma wp_orRecord:
  assumes "gives (shellSafe sh0 ns) m P" "shellSafe sh0 ns s"
    and "\<And>x t. shellSafe sh0 ns t \<Longrightarrow> P x \<Longrightarrow> wp (f x) (\<lambda>_. endsWell sh0 ns) t"
  shows "wp (bindM (orRecord m) f) (\<lambda>_. endsWell sh0 ns) s"
  unfolding orRecord_def wp_bind wp_catch
  by (rule wp_mono [OF givesD [OF assms(1,2)]])
     (auto simp: wp_seq wp_fail split: sum.split intro: assms(3) intro!: wp_mono [OF reports_endWell(1)])

lemma reconcileLive_endsWell:
  assumes ns: "ns \<noteq> []" and s: "shellSafe sh0 ns sh"
  shows "wp (reconcileLive rc) (\<lambda>_. endsWell sh0 ns) sh"
proof -
  note ends = safe_endsWell(2)
  have create: "wp (createDRPCInstance p rc) (\<lambda>r. wp (f r) (\<lambda>_. endsWell sh0 ns)) t"
    if "shellSafe sh0 ns t" "p \<in> set (shPolicies sh0)" "\<not> polDeleted p" "DrpolicyValidated p = None"
      "\<And>t x. running sh0 ns t \<Longrightarrow> wp (f (Inr x)) (\<lambda>_. endsWell sh0 ns) t"
      "\<And>t e. shellSafe sh0 ns t \<Longrightarrow> wp (f (Inl e)) (\<lambda>_. endsWell sh0 ns) t" for t p f
  proof (rule wp_mono [OF wp_createDRPCInstance [OF ns that(1-4)]])
    fix r :: "gerr + unit" and s' assume "keeping (shellSafe sh0 ns) (\<lambda>sh'. engineRun sh0 ns (shHub sh')) r s'"
    then show "wp (f r) (\<lambda>_. endsWell sh0 ns) s'"
      using that(5,6) by (cases r) (auto simp: keeping_def running_def)
  qed
  show ?thesis
    unfolding reconcileLive_def seqM_def wp_bind [where m = "getsM _"] wp_gets sum.case prod.case
    apply (rule wp_orRecord [OF gives_any s])
     apply (intro pres_rules)
    apply (rule wp_orRecord [OF gives_any [OF shellSafe.pres_ensureNoConflictingDRPCs]], assumption)
    apply (rule wp_orRecord [OF gives_getAndEnsureValidDRPolicy], assumption)
    apply (rule wp_keep [OF pres_updateAndSetOwner [OF ns] _ ends], assumption, assumption)
    apply (auto simp: wp_ret intro!: ends)
    apply (rule wp_keep [OF pres_ensureDRPCStatusConsistency [OF ns] _ ends], assumption, assumption)
    apply (auto simp: wp_ret wp_bind wp_attempt wp_fail split: sum.split intro!: create reconcileDRPCInstance_endsWell
        wp_mono [OF reports_endWell(1)] wp_mono [OF reports_endWell(2)])
    done
qed

lemma pres_startReconcile: "pres (shellSafe sh0 ns) startReconcile"
proof -
  have f: "pres (shellSafe sh0 ns) (modifyM preload)" "pres (shellSafe sh0 ns) (modifyM (\<lambda>sh. sh\<lparr>shPlacement := None\<rparr>))"
    by (auto simp: pres_def modifyM_def preload_def shellSafe_def hubSafe_def safeWorks_def primaryWork_def showsVRG_def Let_def
        split: option.split)
  show ?thesis
    unfolding startReconcile_def by (intro pres_rules f pres_shellSafe_modDRPC pres_shellSafe_modHub) simp_all
qed

lemma pres_adoptPlacement: "pres (shellSafe sh0 ns) (adoptPlacement obj)"
  unfolding adoptPlacement_def
  by (intro pres_rules pres_shellSafe_modHub shellSafe.pres_shMod shellSafe.J_placement) simp_all

lemma wp_resolvePlacement:
  assumes "shellSafe sh0 ns s" "\<And>x t. shellSafe sh0 ns t \<Longrightarrow> wp m (\<lambda>_. endsWell sh0 ns) t"
  shows "wp (bindM resolvePlacement (\<lambda>_. m)) (\<lambda>_. endsWell sh0 ns) s"
proof -
  have w: "wp (drpcGetPlacementOrPlacementRule d) (\<lambda>_. shellSafe sh0 ns) s" for d
    by (rule pres_wp [OF shellSafe.pres_drpcGetPlacement(3) assms(1)])
  show ?thesis
    unfolding resolvePlacement_def
    by (auto simp: wp_rules wp_attempt intro!: wp_mono [OF w] wp_mono [OF pres_wp [OF pres_adoptPlacement]] assms(2)
        wp_mono [OF reports_endWell(1)] intro: safe_endsWell(2) split: sum.split)
qed

text \<open>The clusters that one reconcile asks to become primary.\<close>

definition newPrimaries :: "shell \<Rightarrow> string \<Rightarrow> string set" where
  "newPrimaries sh ns =
     {c. primaryWork (vrgWork (theDRPC sh) ns) (shHub (snd (drpcReconcile sh))) c \<and> \<not> primaryWork (vrgWork (theDRPC sh) ns) (shHub sh) c}"



end
