(* ===== verification/Ramen_ClusterConfig.thy ===== *)
theory Ramen_ClusterConfig
  imports Ramen_Peers "HOL-Library.AList"
begin

text \<open>
  The DRClusterConfig reconciler of a managed cluster (\<^verbatim>\<open>drclusterconfig_controller.go\<close>): it checks the identity of the cluster,
  and reports in the status of the one DRClusterConfig the storage classes marked for disaster recovery, the addresses that
  storage is accessed from and the network attachments, which the hub reads through views to pair the classes of two clusters.
\<close>

section \<open>State\<close>

record cluster_claim =
  clmName :: string
  clmLabels :: strmap
  clmValue :: string

text \<open>The status of a network fence client in a CSIAddonsNode: its class, and the CIDRs of each client.\<close>

record fence_client_status =
  fcsClassName :: string
  fcsClientCidrs :: "string list list"

text \<open>
  A NetworkAttachmentDefinition. \<open>nadDecoded\<close> is what \<^verbatim>\<open>json.Unmarshal\<close> makes of its configuration: the type, and the types of its
  plugins.
\<close>

record nad =
  nadName :: string
  nadNamespace :: string
  nadLabels :: strmap
  nadConfig :: string
  nadDecoded :: "gerr + string \<times> string list"

text \<open>A DRClusterConfig with the metadata that its own reconciler uses.\<close>

record dcc_object = drcluster_config +
  dccGeneration :: int
  dccDeleted :: bool
  dccFinalizers :: "string list"

text \<open>
  \<open>kObject\<close> is the object in memory, \<open>kStored\<close> the stored one, \<open>kOthers\<close> the names of other DRClusterConfigs. \<open>kOrder\<close> is the order in
  which Go ranges over the map of provisioners.
\<close>

record dcc = server +
  kObject :: dcc_object
  kStored :: "dcc_object option"
  kOthers :: "string list"
  kClaims :: "cluster_claim list"
  kStorageClasses :: "class_object list"
  kSnapshotClasses :: "class_object list"
  kPublicGroupSnapshotClasses :: "class_object list"
  kPrivateGroupSnapshotClasses :: "class_object list"
  kReplicationClasses :: "class_object list"
  kGroupReplicationClasses :: "class_object list"
  kFenceClasses :: "class_object list"
  kNodes :: "fence_client_status list list"
  kNADs :: "nad list"
  kCRDs :: "string list"
  kUsePublicVGSAPI :: bool
  kNadWatchRegistered :: bool
  kOrder :: "string list"

type_synonym 'a dccm = "(dcc, 'a) gm"

definition modConfig :: "(dcc_object \<Rightarrow> dcc_object) \<Rightarrow> unit dccm" where
  "modConfig f = modifyM (\<lambda>s. s\<lparr>kObject := f (kObject s)\<rparr>)"

text \<open>\<^verbatim>\<open>List\<close> of one kind of object.\<close>

definition listAll :: "(dcc \<Rightarrow> 'v list) \<Rightarrow> string \<Rightarrow> 'v list dccm" where
  "listAll fld what =
     bindM (catchM apiCall (\<lambda>e. failM (wrapE (''failed to list '' @ what @ '', '') e []))) (\<lambda>_. getsM fld)"

definition withConfigStatusOf :: "dcc_object \<Rightarrow> dcc_object \<Rightarrow> dcc_object" where
  "withConfigStatusOf o1 o2 =
     o1\<lparr>ccConditions := ccConditions o2, ccStorageClasses := ccStorageClasses o2,
        ccVolumeSnapshotClasses := ccVolumeSnapshotClasses o2, ccVolumeGroupSnapshotClasses := ccVolumeGroupSnapshotClasses o2,
        ccVolumeReplicationClasses := ccVolumeReplicationClasses o2,
        ccVolumeGroupReplicationClasses := ccVolumeGroupReplicationClasses o2, ccNetworkFenceClasses := ccNetworkFenceClasses o2,
        ccStorageAccessDetails := ccStorageAccessDetails o2, ccNetworkAttachments := ccNetworkAttachments o2\<rparr>"

text \<open>
  \<^verbatim>\<open>Update\<close> of the object: the status of the stored object, which the call does not write, replaces the one in memory. A deleted
  object goes away with its last finalizer.
\<close>

definition updateConfig :: "unit dccm" where
  "updateConfig =
     seqM apiCall
       (bindM (getsM kStored)
          (\<lambda>r. case r of
             None \<Rightarrow> failM (Gerr NotFound ''DRClusterConfig not found'')
           | Some old \<Rightarrow>
               modifyM (\<lambda>s. let new = withConfigStatusOf (kObject s) old
                            in s\<lparr>kObject := new, kStored := (if dccDeleted new \<and> dccFinalizers new = [] then None else Some new)\<rparr>)))"

section \<open>Conditions\<close>

definition dccCondition :: "string \<Rightarrow> condition_status \<Rightarrow> string \<Rightarrow> string \<Rightarrow> int \<Rightarrow> condition" where
  "dccCondition t st reason msg generation =
     \<lparr>cType = t, cStatus = st, cObservedGeneration = generation, cLastTransitionTime = 0, cReason = reason, cMessage = msg\<rparr>"

definition setDRClusterConfigInitialCondition :: "int \<Rightarrow> conditions \<Rightarrow> int \<Rightarrow> string \<Rightarrow> conditions" where
  "setDRClusterConfigInitialCondition now cs generation message =
     SetStatusConditionIfNotFound now
       (SetStatusConditionIfNotFound now cs (dccCondition ''Processed'' ConditionUnknown ''Initializing'' message generation))
       (dccCondition ''Reachable'' ConditionUnknown ''Initializing'' message generation)"

definition setDRClusterConfigConfigurationProcessedCondition :: "string \<Rightarrow> condition_status \<Rightarrow> string \<Rightarrow> unit dccm" where
  "setDRClusterConfigConfigurationProcessedCondition msg st reason =
     bindM (getsM clock)
       (\<lambda>t. modConfig (\<lambda>c. c\<lparr>ccConditions := fst (SetStatusCondition t (ccConditions c)
          (dccCondition ''Processed'' st reason msg (dccGeneration c)))\<rparr>))"

definition setStaticIPDiscoveryCondition :: "condition_status \<Rightarrow> string \<Rightarrow> string \<Rightarrow> unit dccm" where
  "setStaticIPDiscoveryCondition st reason msg =
     bindM (getsM clock)
       (\<lambda>t. modConfig (\<lambda>c. c\<lparr>ccConditions := fst (SetStatusCondition t (ccConditions c)
          (dccCondition ''StaticIPDiscoveryReady'' st reason msg 0))\<rparr>))"

section \<open>The identity of the cluster\<close>

definition clusterIDClusterClaimName :: string where
  "clusterIDClusterClaimName = ''id.k8s.io''"

definition getClusterID :: "string dccm" where
  "getClusterID =
     bindM (catchM (seqM apiCall
                      (bindM (getsM (\<lambda>s. find (\<lambda>c. clmName c = clusterIDClusterClaimName) (kClaims s)))
                         (\<lambda>r. case r of
                            None \<Rightarrow> failM (Gerr NotFound (clusterIDClusterClaimName @ '' not found''))
                          | Some c \<Rightarrow> ret c)))
              (\<lambda>e. failM (wrapE (''failed to get ClusterClaim '' @ quoted clusterIDClusterClaimName @ '': '') e [])))
       (\<lambda>claim. if clmValue claim = []
                 then failM (newE (''ClusterClaim '' @ quoted clusterIDClusterClaimName @ '' has an empty cluster ID value''))
                 else ret (clmValue claim))"

definition validateClusterIDFromClaim :: "unit dccm" where
  "validateClusterIDFromClaim =
     bindM (catchM getClusterID (\<lambda>e. failM (wrapE ''failed to get cluster ID claim: '' e [])))
       (\<lambda>clusterID. bindM (getsM (\<lambda>s. ccClusterID (kObject s)))
          (\<lambda>cid. if cid \<noteq> clusterID
                 then failM (newE (''cluster ID claim value '' @ quoted clusterID @ '' differs from DRClusterConfig ClusterID '' @ quoted cid))
                 else ret ()))"

section \<open>Classes\<close>

definition listDRSupportedSCs :: "string list dccm" where
  "listDRSupportedSCs =
     bindM (listAll kStorageClasses ''StorageClasses'') (\<lambda>cs. ret (map clName (filter (\<lambda>c. sm_has (clLabels c) StorageIDLabel) cs)))"

definition listDRSupportedVSCs :: "string list dccm" where
  "listDRSupportedVSCs =
     bindM (listAll kSnapshotClasses ''VolumeSnapshotClasses'') (\<lambda>cs. ret (map clName (filter (\<lambda>c. sm_has (clLabels c) StorageIDLabel) cs)))"

definition listDRSupportedVRCs :: "string list dccm" where
  "listDRSupportedVRCs =
     bindM (listAll kReplicationClasses ''VolumeReplicationClasses'')
       (\<lambda>cs. ret (map clName (filter (\<lambda>c. sm_has (clLabels c) ReplicationIDLabel) cs)))"

definition listDRSupportedVGRCs :: "string list dccm" where
  "listDRSupportedVGRCs =
     bindM (listAll kGroupReplicationClasses ''VolumeGroupReplicationClasses'')
       (\<lambda>cs. ret (map clName (filter (\<lambda>c. sm_has (clLabels c) GroupReplicationIDLabel) cs)))"

definition GetVolumeGroupSnapshotClasses :: "class_object list dccm" where
  "GetVolumeGroupSnapshotClasses =
     seqM (catchM apiCall (\<lambda>e. failM (wrapE ''error listing volumegroupsnapshotclasses ('' e '')'')))
       (getsM (\<lambda>s. if kUsePublicVGSAPI s then kPublicGroupSnapshotClasses s else kPrivateGroupSnapshotClasses s))"

definition listDRSupportedVGSCs :: "string list dccm" where
  "listDRSupportedVGSCs =
     bindM (catchM GetVolumeGroupSnapshotClasses (\<lambda>e. failM (wrapE ''failed to list VolumeGroupSnapshotClasses, '' e [])))
       (\<lambda>cs. ret (map clName (filter (\<lambda>c. sm_has (clLabels c) StorageIDLabel) cs)))"

definition listDRSupportedNFCs :: "string list dccm" where
  "listDRSupportedNFCs =
     bindM (listAll kFenceClasses ''NetworkFenceClasses'')
       (\<lambda>cs. ret (map clName (filter (\<lambda>c. sm_has (clAnnotations c) StorageIDLabel) cs)))"

text \<open>\<^verbatim>\<open>field, err = list()\<close>: a list that cannot be read leaves the field empty. What is read is sorted.\<close>

definition assignSorted :: "(string list \<Rightarrow> dcc_object \<Rightarrow> dcc_object) \<Rightarrow> string list dccm \<Rightarrow> unit dccm" where
  "assignSorted assign lister =
     bindM (catchM lister (\<lambda>e. seqM (modConfig (assign [])) (failM e))) (\<lambda>names. modConfig (assign (sort names)))"

definition updateStorageClassesStatus :: "unit dccm" where
  "updateStorageClassesStatus =
     seqM (assignSorted (\<lambda>x c. c\<lparr>ccStorageClasses := x\<rparr>) listDRSupportedSCs)
    (seqM (assignSorted (\<lambda>x c. c\<lparr>ccVolumeSnapshotClasses := x\<rparr>) listDRSupportedVSCs)
    (seqM (assignSorted (\<lambda>x c. c\<lparr>ccVolumeReplicationClasses := x\<rparr>) listDRSupportedVRCs)
    (seqM (assignSorted (\<lambda>x c. c\<lparr>ccVolumeGroupReplicationClasses := x\<rparr>) listDRSupportedVGRCs)
    (seqM (assignSorted (\<lambda>x c. c\<lparr>ccVolumeGroupSnapshotClasses := x\<rparr>) listDRSupportedVGSCs)
          (assignSorted (\<lambda>x c. c\<lparr>ccNetworkFenceClasses := x\<rparr>) listDRSupportedNFCs)))))"

section \<open>Storage access\<close>

definition listMatchingNFCClientStatus :: "fence_client_status list dccm" where
  "listMatchingNFCClientStatus =
     bindM listDRSupportedNFCs
       (\<lambda>nfcs. bindM (listAll kNodes ''CSIAddonsNodes'')
          (\<lambda>nodes. ret (concat (map (\<lambda>st. map (\<lambda>_. st) (filter (\<lambda>nfc. nfc = fcsClassName st) nfcs)) (concat nodes)))))"

text \<open>A class that cannot be read is skipped.\<close>

definition addStorageAccess :: "(string \<times> string list) list \<Rightarrow> fence_client_status \<Rightarrow> (string \<times> string list) list dccm" where
  "addStorageAccess cidrs st =
     bindM (attemptM (seqM apiCall
              (bindM (getsM (\<lambda>s. find (\<lambda>c. clName c = fcsClassName st) (kFenceClasses s)))
                 (\<lambda>r. case r of None \<Rightarrow> failM (Gerr NotFound (fcsClassName st @ '' not found'')) | Some c \<Rightarrow> ret c))))
       (\<lambda>r. case r of
          Inl _ \<Rightarrow> ret cidrs
        | Inr nf \<Rightarrow>
            ret (if fcsClientCidrs st = [] then cidrs
                 else AList.update (clProvisioner nf)
                        ((case map_of cidrs (clProvisioner nf) of None \<Rightarrow> [] | Some x \<Rightarrow> x) @ concat (fcsClientCidrs st)) cidrs))"

definition listStorageAccessDetails :: "storage_access_detail list dccm" where
  "listStorageAccessDetails =
     bindM listMatchingNFCClientStatus
       (\<lambda>sts. bindM (foldlM addStorageAccess [] sts)
          (\<lambda>cidrs. getsM (\<lambda>s. map (\<lambda>p. \<lparr>saStorageProvisioner = p, saCIDRs = the (map_of cidrs p)\<rparr>)
                                 (rangeOrder (kOrder s) (map fst cidrs)))))"

definition updateStorageAccessDetailsStatus :: "unit dccm" where
  "updateStorageAccessDetailsStatus =
     bindM listStorageAccessDetails (\<lambda>ds. modConfig (\<lambda>c. c\<lparr>ccStorageAccessDetails := ds\<rparr>))"

section \<open>Network attachments\<close>

definition NADResourceName :: string where
  "NADResourceName = ''network-attachment-definitions.k8s.cni.cncf.io''"

definition NADDRNetworkLabel :: string where
  "NADDRNetworkLabel = ''ramendr.openshift.io/dr-network''"

definition IsCRDInstalled :: "string \<Rightarrow> bool dccm" where
  "IsCRDInstalled crdName =
     bindM (attemptM apiCall)
       (\<lambda>r. case r of Inl _ \<Rightarrow> ret False | Inr _ \<Rightarrow> getsM (\<lambda>s. crdName \<in> set (kCRDs s)))"

definition nadCRDInstalled :: "bool dccm" where
  "nadCRDInstalled = IsCRDInstalled NADResourceName"

text \<open>The type, and the error that comes with it.\<close>

definition parseCNIType :: "nad \<Rightarrow> string \<times> gerr option" where
  "parseCNIType n =
     (if nadConfig n = [] then (''unknown'', Some (newE ''spec.config is empty''))
      else case nadDecoded n of
             Inl e \<Rightarrow> (''unknown'', Some (wrapE ''spec.config is not valid JSON: '' e []))
           | Inr (t, plugins) \<Rightarrow>
               if t \<noteq> [] then (t, None)
               else if plugins \<noteq> [] \<and> hd plugins \<noteq> [] then (hd plugins, None)
               else (''unknown'', None))"

definition toAttachment :: "nad \<Rightarrow> network_attachment" where
  "toAttachment n = \<lparr>naName = nadName n, naNamespace = nadNamespace n,
     naCNIType = (case parseCNIType n of (t, None) \<Rightarrow> t | (_, Some _) \<Rightarrow> ''unknown'')\<rparr>"

definition listDRSupportedNADs :: "network_attachment list dccm" where
  "listDRSupportedNADs =
     bindM nadCRDInstalled
       (\<lambda>there. if \<not> there then ret []
          else bindM (catchM (seqM apiCall (getsM (\<lambda>s. filter (\<lambda>n. map_of (nadLabels n) NADDRNetworkLabel = Some ''true'') (kNADs s))))
                        (\<lambda>e. failM (wrapE (''failed to list NADs with label '' @ NADDRNetworkLabel @ ''=true: '') e [])))
                 (\<lambda>nads. ret (sort_key (\<lambda>a. naNamespace a @ ''/'' @ naName a) (map toAttachment nads))))"

definition updateNetworkAttachmentsStatus :: "unit dccm" where
  "updateNetworkAttachmentsStatus =
     bindM listDRSupportedNADs (\<lambda>nads. modConfig (\<lambda>c. c\<lparr>ccNetworkAttachments := nads\<rparr>))"

definition UpdateStatus :: "unit dccm" where
  "UpdateStatus =
     seqM updateStorageClassesStatus (seqM updateStorageAccessDetailsStatus updateNetworkAttachmentsStatus)"

definition updateStaticIPDiscoveryCondition :: "unit dccm" where
  "updateStaticIPDiscoveryCondition =
     bindM nadCRDInstalled
       (\<lambda>there. if \<not> there
          then seqM (modifyM (\<lambda>s. s\<lparr>kNadWatchRegistered := False\<rparr>))
                 (setStaticIPDiscoveryCondition ConditionFalse ''NADCRDMissing''
                    ''NetworkAttachmentDefinition CRD is not installed on the cluster'')
          else bindM (getsM kNadWatchRegistered)
            (\<lambda>watched. if \<not> watched
               then setStaticIPDiscoveryCondition ConditionFalse ''NADWatchNotRegistered''
                      (''NetworkAttachmentDefinition CRD is available, but NAD monitoring is disabled until the controller is''
                       @ '' restarted'')
               else setStaticIPDiscoveryCondition ConditionTrue ''StaticIPDiscoveryEnabled''
                      (''NetworkAttachmentDefinition monitoring is enabled and static IP discovery is''
                       @ '' operational'')))"

section \<open>Reconcile\<close>

definition drCConfigFinalizerName :: string where
  "drCConfigFinalizerName = ''drclusterconfigs.ramendr.openshift.io/finalizer''"

definition drCConfigOwnerLabel :: string where
  "drCConfigOwnerLabel = ''drclusterconfigs.ramendr.openshift.io/owner''"

definition ownedClaim :: "cluster_claim \<Rightarrow> bool" where
  "ownedClaim c \<longleftrightarrow> map_of (clmLabels c) drCConfigOwnerLabel = Some ''ramen''"

definition pruneClusterClaims :: "string list \<Rightarrow> unit dccm" where
  "pruneClusterClaims survivors =
     bindM (listAll (\<lambda>s. filter ownedClaim (kClaims s)) ''ClusterClaims'')
       (\<lambda>claims. forM claims (\<lambda>claim.
          if clmName claim \<in> set survivors then ret ()
          else catchM (seqM apiCall
                 (bindM (getsM (\<lambda>s. list_ex (\<lambda>c. clmName c = clmName claim) (kClaims s)))
                    (\<lambda>there. if there then modifyM (\<lambda>s. s\<lparr>kClaims := filter (\<lambda>c. clmName c \<noteq> clmName claim) (kClaims s)\<rparr>)
                             else failM (Gerr NotFound (clmName claim @ '' not found'')))))
               (\<lambda>e. failM (wrapE (''failed to delete ClusterClaim '' @ clmName claim @ '', '') e []))))"

definition GetDRClusterConfig :: "unit dccm" where
  "GetDRClusterConfig =
     bindM (listAll (\<lambda>s. (case kStored s of None \<Rightarrow> [] | Some c \<Rightarrow> [ccName c]) @ kOthers s) ''DRClusterConfig'')
       (\<lambda>names. if names = [] then failM (newE ''failed to find DRClusterConfig'')
                else if length names > 1 then failM (newE ''multiple DRClusterConfigs found'')
                else ret ())"

text \<open>
  \<^verbatim>\<open>reflect.DeepEqual\<close> is given a status and a pointer to one, values of two types that are never equal, so the status is
  always written.
\<close>

definition dccStatusUpdate :: "unit dccm" where
  "dccStatusUpdate =
     catchM (seqM apiCall
               (bindM (getsM kStored)
                  (\<lambda>r. case r of
                     None \<Rightarrow> failM (Gerr NotFound ''DRClusterConfig not found'')
                   | Some old \<Rightarrow> modifyM (\<lambda>s. s\<lparr>kStored := Some (withConfigStatusOf old (kObject s))\<rparr>))))
       (\<lambda>e. bindM (getsM (\<lambda>s. ccName (kObject s)))
          (\<lambda>n. failM (newE (''failed to update drClusterConfig status ('' @ n @ ''/)''))))"

definition dccProcessDeletion :: "unit dccm" where
  "dccProcessDeletion =
     bindM (getsM (\<lambda>s. drCConfigFinalizerName \<in> set (dccFinalizers (kObject s))))
       (\<lambda>there. whenM there
          (seqM (modConfig (\<lambda>c. c\<lparr>dccFinalizers := filter (\<lambda>f. f \<noteq> drCConfigFinalizerName) (dccFinalizers c)\<rparr>))
             (catchM updateConfig (\<lambda>e. failM (wrapE ''failed to remove finalizer for DRClusterConfig resource, '' e [])))))"

definition reportingFailed :: "unit dccm \<Rightarrow> (gerr \<Rightarrow> gerr) \<Rightarrow> unit dccm" where
  "reportingFailed m wrap =
     catchM m (\<lambda>e. seqM (setDRClusterConfigConfigurationProcessedCondition (Error e) ConditionFalse ''Failed'') (failM (wrap e)))"

definition addConfigFinalizer :: "unit dccm" where
  "addConfigFinalizer =
     bindM (getsM (\<lambda>s. drCConfigFinalizerName \<in> set (dccFinalizers (kObject s))))
       (\<lambda>there. whenM (\<not> there)
          (seqM (modConfig (\<lambda>c. c\<lparr>dccFinalizers := dccFinalizers c @ [drCConfigFinalizerName]\<rparr>)) updateConfig))"

definition dccProcessCreateOrUpdate :: "unit dccm" where
  "dccProcessCreateOrUpdate =
     seqM (reportingFailed validateClusterIDFromClaim (\<lambda>e. e))
    (seqM (reportingFailed addConfigFinalizer
             (\<lambda>e. wrapE ''failed to add finalizer for DRClusterConfig resource, '' e []))
    (seqM (reportingFailed UpdateStatus (\<lambda>e. e))
    (seqM (reportingFailed (pruneClusterClaims []) (\<lambda>e. e))
    (seqM (setDRClusterConfigConfigurationProcessedCondition ''Configuration processed and validated'' ConditionTrue ''Succeeded'')
          updateStaticIPDiscoveryCondition))))"

definition initConfigConditions :: "unit dccm" where
  "initConfigConditions =
     bindM (getsM clock)
       (\<lambda>t. modConfig (\<lambda>c. if ccConditions c = []
          then c\<lparr>ccConditions := setDRClusterConfigInitialCondition t [] (dccGeneration c) ''Initializing DRClusterConfig''\<rparr>
          else c))"

text \<open>A failure to store the status is logged.\<close>

definition processConfig :: "unit dccm" where
  "processConfig =
     bindM (getsM (\<lambda>s. dccDeleted (kObject s)))
       (\<lambda>deleted. if deleted then dccProcessDeletion
          else bindM (attemptM dccProcessCreateOrUpdate)
                 (\<lambda>r. seqM (catchM dccStatusUpdate (\<lambda>_. ret ())) (liftE r)))"

definition dccReconcile :: "unit dccm" where
  "dccReconcile =
     bindM (attemptM (seqM apiCall (bindM (getsM kStored)
              (\<lambda>r. case r of None \<Rightarrow> failM (Gerr NotFound ''DRClusterConfig not found'') | Some c \<Rightarrow> ret c))))
       (\<lambda>r. case r of
          Inl e \<Rightarrow> if IsNotFound e then ret () else failM (wrapE ''get: '' e [])
        | Inr c \<Rightarrow> seqM (modConfig (\<lambda>_. c)) (seqM GetDRClusterConfig (seqM initConfigConditions processConfig)))"

end
