(* ===== verification/Ramen_ClusterConfigProps.thy ===== *)
theory Ramen_ClusterConfigProps
  imports Ramen_ClusterConfig
begin

text \<open>
  What the DRClusterConfig reconciler reports. The locale \<open>config_invariant\<close> is the contract for a property of its state that the
  steps after the classes were listed keep; it is interpreted on the classes reported.
\<close>

section \<open>What the later steps keep\<close>

locale config_invariant =
  fixes I :: "dcc \<Rightarrow> bool"
  assumes I_calls: "I s \<Longrightarrow> I (s\<lparr>calls := n\<rparr>)"
    and I_conditions: "I s \<Longrightarrow> I (s\<lparr>kObject := (kObject s)\<lparr>ccConditions := cs\<rparr>\<rparr>)"
    and I_access: "I s \<Longrightarrow> I (s\<lparr>kObject := (kObject s)\<lparr>ccStorageAccessDetails := ds\<rparr>\<rparr>)"
    and I_attachments: "I s \<Longrightarrow> I (s\<lparr>kObject := (kObject s)\<lparr>ccNetworkAttachments := nads\<rparr>\<rparr>)"
    and I_claims: "I s \<Longrightarrow> I (s\<lparr>kClaims := claims\<rparr>)"
    and I_watch: "I s \<Longrightarrow> I (s\<lparr>kNadWatchRegistered := b\<rparr>)"
begin

lemma pres_call [pres_rules]: "pres I apiCall"
  by (rule presI) (auto simp: apiCall_def I_calls split: option.split)

lemma pres_mod: "(\<And>s. I s \<Longrightarrow> I (f s)) \<Longrightarrow> pres I (modifyM f)"
  by (simp add: pres_def modifyM_def)

lemma pres_listAll [pres_rules]: "pres I (listAll f w)"
  unfolding listAll_def by (intro pres_rules)

lemma pres_conditions [pres_rules]:
  "pres I (setDRClusterConfigConfigurationProcessedCondition m st r)" "pres I (setStaticIPDiscoveryCondition st r m)"
  unfolding setDRClusterConfigConfigurationProcessedCondition_def setStaticIPDiscoveryCondition_def modConfig_def
  by (auto intro!: pres_rules pres_mod I_conditions)

lemma pres_reportingFailed [pres_rules]: "pres I m \<Longrightarrow> pres I (reportingFailed m w)"
  unfolding reportingFailed_def by (intro pres_rules)

lemma pres_foldlM_access: "pres I (foldlM addStorageAccess acc sts)"
  by (induction sts arbitrary: acc) (auto simp: addStorageAccess_def intro!: pres_rules)

lemma pres_updateStorageAccessDetailsStatus [pres_rules]: "pres I updateStorageAccessDetailsStatus"
  unfolding updateStorageAccessDetailsStatus_def listStorageAccessDetails_def listMatchingNFCClientStatus_def listDRSupportedNFCs_def
    modConfig_def
  by (intro pres_rules pres_foldlM_access pres_mod I_access)

lemma pres_nadCRDInstalled [pres_rules]: "pres I nadCRDInstalled"
  unfolding nadCRDInstalled_def IsCRDInstalled_def by (intro pres_rules)

lemma pres_updateNetworkAttachmentsStatus [pres_rules]: "pres I updateNetworkAttachmentsStatus"
  unfolding updateNetworkAttachmentsStatus_def listDRSupportedNADs_def modConfig_def
  by (intro pres_rules pres_mod I_attachments)

lemma pres_updateStaticIPDiscoveryCondition [pres_rules]: "pres I updateStaticIPDiscoveryCondition"
  unfolding updateStaticIPDiscoveryCondition_def by (intro pres_rules pres_mod I_watch)

lemma pres_pruneClusterClaims [pres_rules]: "pres I (pruneClusterClaims xs)"
  unfolding pruneClusterClaims_def by (intro pres_rules pres_mod I_claims)

lemma pres_getClusterID [pres_rules]: "pres I validateClusterIDFromClaim"
  unfolding validateClusterIDFromClaim_def getClusterID_def by (intro pres_rules)

end

section \<open>The classes reported\<close>

definition marked :: "(class_object \<Rightarrow> strmap) \<Rightarrow> string \<Rightarrow> class_object list \<Rightarrow> string list" where
  "marked ls k cs = sort (map clName (filter (\<lambda>c. sm_has (ls c) k) cs))"

definition groupSnapshotClasses :: "dcc \<Rightarrow> class_object list" where
  "groupSnapshotClasses s = (if kUsePublicVGSAPI s then kPublicGroupSnapshotClasses s else kPrivateGroupSnapshotClasses s)"

definition reportsClasses :: "dcc \<Rightarrow> dcc_object \<Rightarrow> bool" where
  "reportsClasses s c \<longleftrightarrow>
     ccStorageClasses c = marked clLabels StorageIDLabel (kStorageClasses s)
     \<and> ccVolumeSnapshotClasses c = marked clLabels StorageIDLabel (kSnapshotClasses s)
     \<and> ccVolumeReplicationClasses c = marked clLabels ReplicationIDLabel (kReplicationClasses s)
     \<and> ccVolumeGroupReplicationClasses c = marked clLabels GroupReplicationIDLabel (kGroupReplicationClasses s)
     \<and> ccVolumeGroupSnapshotClasses c = marked clLabels StorageIDLabel (groupSnapshotClasses s)
     \<and> ccNetworkFenceClasses c = marked clAnnotations StorageIDLabel (kFenceClasses s)"

text \<open>The cluster's classes do not change during a reconcile.\<close>

definition sameClasses :: "dcc \<Rightarrow> dcc \<Rightarrow> bool" where
  "sameClasses s t \<longleftrightarrow> kStorageClasses t = kStorageClasses s \<and> kSnapshotClasses t = kSnapshotClasses s
     \<and> kReplicationClasses t = kReplicationClasses s \<and> kGroupReplicationClasses t = kGroupReplicationClasses s
     \<and> groupSnapshotClasses t = groupSnapshotClasses s \<and> kFenceClasses t = kFenceClasses s"

interpretation listed: config_invariant "\<lambda>t. sameClasses s t \<and> reportsClasses s (kObject t)"
  by unfold_locales (auto simp: sameClasses_def reportsClasses_def groupSnapshotClasses_def)

lemma sameClasses_simps [simp]:
  "sameClasses s (t\<lparr>calls := n\<rparr>) = sameClasses s t" "sameClasses s (t\<lparr>kObject := c\<rparr>) = sameClasses s t"
  "sameClasses s (t\<lparr>kStored := r\<rparr>) = sameClasses s t"
  by (simp_all add: sameClasses_def groupSnapshotClasses_def)

lemma returns_assignSorted:
  assumes "returns lister (\<lambda>x t'. sort x = v \<and> sameClasses s t' \<and> kObject t' = kObject t) t"
  shows "returns (assignSorted f lister) (\<lambda>_ t'. sameClasses s t' \<and> kObject t' = f v (kObject t)) t"
  unfolding assignSorted_def
proof (rule returns_bind)
  show "returns (catchM lister (\<lambda>e. seqM (modConfig (f [])) (failM e)))
      (\<lambda>x t'. sort x = v \<and> sameClasses s t' \<and> kObject t' = kObject t) t"
    using assms unfolding returns_def wp_catch
    by (auto simp: wp_seq modConfig_def wp_modify wp_fail elim!: wp_mono split: sum.split)
qed (auto simp: returns_def modConfig_def wp_modify)

lemma returns_list:
  assumes "sameClasses s t"
  shows "returns (listAll f w) (\<lambda>x t'. x = f t' \<and> sameClasses s t' \<and> kObject t' = kObject t) t"
    "returns GetVolumeGroupSnapshotClasses (\<lambda>x t'. x = groupSnapshotClasses s \<and> sameClasses s t' \<and> kObject t' = kObject t) t"
  using assms
  by (auto simp: listAll_def GetVolumeGroupSnapshotClasses_def returns_def wp_rules wp_catch seqM_def intro!: wp_apiCall split: sum.split)
     (auto simp: sameClasses_def groupSnapshotClasses_def)

lemma returns_listers:
  assumes "sameClasses s t"
  shows "returns listDRSupportedSCs (\<lambda>x t'. sort x = marked clLabels StorageIDLabel (kStorageClasses s) \<and> sameClasses s t' \<and> kObject t' = kObject t) t"
    "returns listDRSupportedVSCs (\<lambda>x t'. sort x = marked clLabels StorageIDLabel (kSnapshotClasses s) \<and> sameClasses s t' \<and> kObject t' = kObject t) t"
    "returns listDRSupportedVRCs (\<lambda>x t'. sort x = marked clLabels ReplicationIDLabel (kReplicationClasses s) \<and> sameClasses s t' \<and> kObject t' = kObject t) t"
    "returns listDRSupportedVGRCs (\<lambda>x t'. sort x = marked clLabels GroupReplicationIDLabel (kGroupReplicationClasses s) \<and> sameClasses s t' \<and> kObject t' = kObject t) t"
    "returns listDRSupportedVGSCs (\<lambda>x t'. sort x = marked clLabels StorageIDLabel (groupSnapshotClasses s) \<and> sameClasses s t' \<and> kObject t' = kObject t) t"
    "returns listDRSupportedNFCs (\<lambda>x t'. sort x = marked clAnnotations StorageIDLabel (kFenceClasses s) \<and> sameClasses s t' \<and> kObject t' = kObject t) t"
  unfolding listDRSupportedSCs_def listDRSupportedVSCs_def listDRSupportedVRCs_def listDRSupportedVGRCs_def listDRSupportedVGSCs_def
    listDRSupportedNFCs_def
  by (rule returns_bind [OF returns_list(1) [OF assms]] returns_bind [OF returns_catch [OF returns_list(2) [OF assms]]],
      rule returns_ret, simp add: marked_def sameClasses_def)+

lemma returns_updateStorageClassesStatus:
  assumes "sameClasses s t"
  shows "returns updateStorageClassesStatus (\<lambda>_ t'. sameClasses s t' \<and> reportsClasses s (kObject t')) t"
  unfolding updateStorageClassesStatus_def seqM_def
  apply (rule returns_bind [OF returns_assignSorted [OF returns_listers(1) [OF assms]]], erule conjE)
  apply (rule returns_bind [OF returns_assignSorted [OF returns_listers(2)]], assumption, erule conjE)
  apply (rule returns_bind [OF returns_assignSorted [OF returns_listers(3)]], assumption, erule conjE)
  apply (rule returns_bind [OF returns_assignSorted [OF returns_listers(4)]], assumption, erule conjE)
  apply (rule returns_bind [OF returns_assignSorted [OF returns_listers(5)]], assumption, erule conjE)
  apply (rule returns_mono [OF returns_assignSorted [OF returns_listers(6)]], assumption, erule conjE)
  apply (simp add: reportsClasses_def)
  done

lemma returns_wrapFailed: "returns m Q s \<Longrightarrow> returns (reportingFailed m w) Q s"
  unfolding reportingFailed_def returns_def wp_catch
  by (auto simp: wp_seq wp_fail wp_def [of "setDRClusterConfigConfigurationProcessedCondition _ _ _"] elim!: wp_mono split: sum.split prod.split)

lemma pres_sameClasses: "pres (sameClasses s) validateClusterIDFromClaim" "pres (sameClasses s) addConfigFinalizer"
proof -
  have c: "pres (sameClasses s) apiCall"
    by (rule presI) (auto simp: apiCall_def split: option.split)
  show "pres (sameClasses s) validateClusterIDFromClaim"
    unfolding validateClusterIDFromClaim_def getClusterID_def by (intro pres_rules c)
  show "pres (sameClasses s) addConfigFinalizer"
    unfolding addConfigFinalizer_def updateConfig_def modConfig_def
    by (intro pres_rules c) (auto simp: pres_def modifyM_def Let_def)
qed

lemma returns_dccProcessCreateOrUpdate:
  assumes "sameClasses s t"
  shows "returns dccProcessCreateOrUpdate (\<lambda>_ t'. sameClasses s t' \<and> reportsClasses s (kObject t')) t"
  unfolding dccProcessCreateOrUpdate_def UpdateStatus_def seqM_def
  apply (rule returns_bind [OF returns_wrapFailed [OF returns_pres [OF pres_sameClasses(1) assms]]])
  apply (rule returns_bind [OF returns_wrapFailed [OF returns_pres [OF pres_sameClasses(2)]]], assumption)
  apply (rule returns_bind [OF returns_wrapFailed])
   apply (rule returns_bind [OF returns_updateStorageClassesStatus], assumption)
   apply (rule returns_pres [where I = "\<lambda>t. sameClasses s t \<and> reportsClasses s (kObject t)"])
    apply (intro pres_rules listed.pres_updateStorageAccessDetailsStatus listed.pres_updateNetworkAttachmentsStatus)
   apply assumption
  apply (rule returns_pres [where I = "\<lambda>t. sameClasses s t \<and> reportsClasses s (kObject t)"])
   apply (intro pres_rules listed.pres_reportingFailed listed.pres_pruneClusterClaims listed.pres_conditions
      listed.pres_updateStaticIPDiscoveryCondition)
  apply assumption
  done

text \<open>Nothing but the removal of a finalizer can make the object go away.\<close>

definition storedAlive :: "dcc \<Rightarrow> bool" where
  "storedAlive t \<longleftrightarrow> (\<forall>n. faults t n = None) \<and> kStored t \<noteq> None \<and> \<not> dccDeleted (kObject t)"

interpretation alive: config_invariant storedAlive
  by unfold_locales (auto simp: storedAlive_def)

lemma pres_alive: "pres storedAlive dccProcessCreateOrUpdate"
proof -
  have assign: "pres storedAlive (assignSorted f m)"
    if "pres storedAlive m" "\<And>x c. dccDeleted (f x c) = dccDeleted c" for f m
    unfolding assignSorted_def modConfig_def
    by (intro pres_rules that(1) alive.pres_mod) (simp_all add: storedAlive_def that(2))
  have add: "pres storedAlive addConfigFinalizer"
    unfolding addConfigFinalizer_def updateConfig_def modConfig_def
    by (intro pres_rules alive.pres_call alive.pres_mod) (auto simp: storedAlive_def withConfigStatusOf_def Let_def)
  show ?thesis
    unfolding dccProcessCreateOrUpdate_def UpdateStatus_def updateStorageClassesStatus_def listDRSupportedSCs_def listDRSupportedVSCs_def
      listDRSupportedVRCs_def listDRSupportedVGRCs_def listDRSupportedVGSCs_def listDRSupportedNFCs_def GetVolumeGroupSnapshotClasses_def
    by (intro pres_rules alive.pres_reportingFailed alive.pres_getClusterID add assign alive.pres_listAll alive.pres_call
        alive.pres_updateStorageAccessDetailsStatus alive.pres_updateNetworkAttachmentsStatus alive.pres_pruneClusterClaims
        alive.pres_conditions alive.pres_updateStaticIPDiscoveryCondition) simp_all
qed

definition storedReports :: "dcc \<Rightarrow> dcc \<Rightarrow> bool" where
  "storedReports s t \<longleftrightarrow> (case kStored t of None \<Rightarrow> False | Some c \<Rightarrow> reportsClasses s c)"

lemma wp_dccStatusUpdate:
  assumes "storedAlive t" "reportsClasses s (kObject t)"
  shows "wp dccStatusUpdate (\<lambda>r t'. r = Inr () \<and> storedReports s t') t"
  using assms
  by (auto simp: dccStatusUpdate_def wp_rules wp_catch wp_def [of apiCall] apiCall_def storedAlive_def storedReports_def
      reportsClasses_def withConfigStatusOf_def split: option.split)

lemma returns_processConfig:
  assumes "storedAlive t" "sameClasses s t"
  shows "returns processConfig (\<lambda>_. storedReports s) t"
proof -
  have "returns (bindM (attemptM dccProcessCreateOrUpdate) (\<lambda>r. seqM (catchM dccStatusUpdate (\<lambda>_. ret ())) (liftE r)))
     (\<lambda>_. storedReports s) t"
  proof (rule returns_bind [where R = "\<lambda>r t'. storedAlive t' \<and> (\<forall>x. r = Inr x \<longrightarrow> reportsClasses s (kObject t'))"])
    have "wp dccProcessCreateOrUpdate (\<lambda>r t'. storedAlive t' \<and> (\<forall>x. r = Inr x \<longrightarrow> reportsClasses s (kObject t'))) t"
      using wp_conj [OF pres_wp [OF pres_alive assms(1)] returns_dccProcessCreateOrUpdate [OF assms(2), unfolded returns_def]]
      by (rule wp_mono) auto
    then show "returns (attemptM dccProcessCreateOrUpdate) (\<lambda>r t'. storedAlive t' \<and> (\<forall>x. r = Inr x \<longrightarrow> reportsClasses s (kObject t'))) t"
      by (rule returns_attempt)
  next
    fix r :: "gerr + unit" and t' assume a: "storedAlive t' \<and> (\<forall>x. r = Inr x \<longrightarrow> reportsClasses s (kObject t'))"
    show "returns (seqM (catchM dccStatusUpdate (\<lambda>_. ret ())) (liftE r)) (\<lambda>_. storedReports s) t'"
    proof (cases r)
      case (Inr x)
      with a have "wp dccStatusUpdate (\<lambda>r t'. r = Inr () \<and> storedReports s t') t'" by (intro wp_dccStatusUpdate) auto
      then show ?thesis
        by (auto simp: returns_def wp_seq wp_catch wp_liftE Inr elim!: wp_mono)
    qed (simp add: liftE_def returns_seqFail)
  qed
  with assms(1) show ?thesis
    unfolding processConfig_def by (intro returns_gets) (simp add: storedAlive_def)
qed

lemma pres_configStart: "pres (\<lambda>t. storedAlive t \<and> sameClasses s t) (seqM GetDRClusterConfig initConfigConditions)"
proof -
  have "pres (\<lambda>t. storedAlive t \<and> sameClasses s t) apiCall"
    by (rule presI) (auto simp: apiCall_def storedAlive_def split: option.split)
  then show ?thesis
    unfolding GetDRClusterConfig_def listAll_def initConfigConditions_def modConfig_def
    by (intro pres_rules) (auto simp: pres_def modifyM_def storedAlive_def)
qed

lemma seqM_assoc: "seqM (seqM a b) c = seqM a (seqM b c)"
  by (auto simp: seqM_def bindM_def fun_eq_iff split: prod.split sum.split)

text \<open>
  C27. When no call fails, a reconcile of a live DRClusterConfig that succeeds stores exactly the classes of the cluster that are
  marked for disaster recovery, in order: the storage, snapshot, group snapshot, replication and group replication classes
  by their labels and the network fence classes by their annotation.
\<close>

theorem config_reports_marked_classes:
  assumes "dccReconcile s = (Inr (), t)" and "\<forall>n. faults s n = None" and "kStored s = Some c" and "\<not> dccDeleted c"
  shows "storedReports s t"
proof -
  let ?K = "\<lambda>t. storedAlive t \<and> sameClasses s t"
  have got: "fst (seqM apiCall (bindM (getsM kStored)
      (\<lambda>r. case r of None \<Rightarrow> failM (Gerr NotFound ''DRClusterConfig not found'') | Some c \<Rightarrow> ret c)) s) = Inr c"
    using assms(2,3) by (simp add: seqM_def bindM_def apiCall_def getsM_def ret_def)
  have start: "?K (s\<lparr>calls := n, kObject := c\<rparr>)" for n using assms(2-4) by (simp add: storedAlive_def sameClasses_def groupSnapshotClasses_def)
  have "returns (seqM (modConfig (\<lambda>_. c)) (seqM GetDRClusterConfig (seqM initConfigConditions processConfig))) (\<lambda>_. storedReports s) (s\<lparr>calls := n\<rparr>)" for n
  proof -
    have "returns (bindM (seqM GetDRClusterConfig initConfigConditions) (\<lambda>_. processConfig)) (\<lambda>_. storedReports s) (s\<lparr>calls := n, kObject := c\<rparr>)"
      by (rule returns_bind [OF returns_pres [OF pres_configStart start]]) (rule returns_processConfig; simp)
    then have "returns (seqM GetDRClusterConfig (seqM initConfigConditions processConfig)) (\<lambda>_. storedReports s) (s\<lparr>calls := n, kObject := c\<rparr>)"
      by (simp add: seqM_assoc seqM_def [of "seqM _ _", symmetric])
    then show ?thesis by (simp add: returns_def modConfig_def wp_seq [of "modifyM _"] wp_modify)
  qed
  then have "returns dccReconcile (\<lambda>_. storedReports s) s"
    using got assms(2,3) unfolding dccReconcile_def
    by (auto simp: returns_def wp_bind wp_attempt wp_seq wp_gets wp_ret wp_def [of apiCall] apiCall_def)
  from returnsD [OF this assms(1)] show ?thesis .
qed

section \<open>The identity of the cluster\<close>

definition processedTrue :: "dcc_object \<Rightarrow> bool" where
  "processedTrue c \<longleftrightarrow> (case FindCondition (ccConditions c) ''Processed'' of None \<Rightarrow> False | Some x \<Rightarrow> cStatus x = ConditionTrue)"

definition identityMatches :: "dcc \<Rightarrow> dcc_object \<Rightarrow> bool" where
  "identityMatches s c \<longleftrightarrow> (case find (\<lambda>x. clmName x = clusterIDClusterClaimName) (kClaims s) of
     None \<Rightarrow> False | Some claim \<Rightarrow> clmValue claim \<noteq> [] \<and> clmValue claim = ccClusterID c)"

lemma processed_failed:
  "\<not> processedTrue (c\<lparr>ccConditions := fst (SetStatusCondition now cs (dccCondition ''Processed'' ConditionFalse r m g))\<rparr>)"
  using ssc.find_same [of now cs "dccCondition ''Processed'' ConditionFalse r m g"] by (auto simp: processedTrue_def dccCondition_def)

text \<open>While the identity does not match, the object read stays as it is but for its conditions.\<close>

definition unmatched :: "dcc_object \<Rightarrow> dcc \<Rightarrow> bool" where
  "unmatched c t \<longleftrightarrow> kStored t = Some c \<and> ccClusterID (kObject t) = ccClusterID c \<and> \<not> identityMatches t c"

lemma wp_getClusterID:
  "wp getClusterID (\<lambda>r t'. (\<exists>n. t' = t\<lparr>calls := n\<rparr>) \<and> (\<forall>x. r = Inr x \<longrightarrow> x \<noteq> []
     \<and> (\<exists>claim. find (\<lambda>x. clmName x = clusterIDClusterClaimName) (kClaims t) = Some claim \<and> clmValue claim = x))) t"
  unfolding getClusterID_def wp_bind wp_catch wp_seq
  by (rule wp_apiCall) (auto simp: wp_rules split: option.split)

lemma wp_validate_unmatched:
  assumes "unmatched c t"
  shows "wp validateClusterIDFromClaim (\<lambda>r t'. isl r \<and> unmatched c t') t"
proof -
  have u: "unmatched c (t\<lparr>calls := n\<rparr>)" for n using assms by (simp add: unmatched_def identityMatches_def)
  show ?thesis
    unfolding validateClusterIDFromClaim_def wp_bind wp_catch
  proof (rule wp_mono [OF wp_getClusterID], goal_cases)
    case (1 r t')
    then show ?case using u assms
      by (cases r) (auto simp: wp_rules unmatched_def identityMatches_def)
  qed
qed

lemma wp_process_unmatched:
  assumes "unmatched c t"
  shows "wp dccProcessCreateOrUpdate (\<lambda>r t'. kStored t' = Some c \<and> \<not> processedTrue (kObject t')) t"
  unfolding dccProcessCreateOrUpdate_def reportingFailed_def wp_seq [of "catchM validateClusterIDFromClaim _"] wp_catch
proof (rule wp_mono [OF wp_validate_unmatched [OF assms]], goal_cases)
  case (1 r t')
  then show ?case
    by (cases r) (auto simp: wp_seq wp_bind wp_gets wp_modify wp_fail setDRClusterConfigConfigurationProcessedCondition_def modConfig_def
        unmatched_def processed_failed)
qed

lemma processedTrue_with [simp]: "processedTrue (withConfigStatusOf a b) = processedTrue b"
  by (simp add: processedTrue_def withConfigStatusOf_def)

definition notProcessedNow :: "dcc_object \<Rightarrow> dcc \<Rightarrow> bool" where
  "notProcessedNow c t \<longleftrightarrow> (\<forall>o'. kStored t = Some o' \<longrightarrow> processedTrue o' \<longrightarrow> processedTrue c)"

lemma wp_dccStatusUpdate_unmatched:
  assumes "kStored t = Some c" "\<not> processedTrue (kObject t)"
  shows "wp dccStatusUpdate (\<lambda>_. notProcessedNow c) t"
  using assms unfolding dccStatusUpdate_def wp_catch wp_seq
  by (intro wp_apiCall) (auto simp: wp_rules notProcessedNow_def)

lemma wp_dccProcessDeletion:
  assumes "kStored t = Some c"
  shows "wp dccProcessDeletion (\<lambda>_. notProcessedNow c) t"
  using assms unfolding dccProcessDeletion_def updateConfig_def wp_bind wp_when wp_seq wp_gets sum.case modConfig_def wp_modify wp_catch
  by (auto simp: notProcessedNow_def wp_rules Let_def intro!: wp_apiCall)

lemma wp_processConfig_unmatched:
  assumes "unmatched c t"
  shows "wp processConfig (\<lambda>_. notProcessedNow c) t"
proof -
  have c: "kStored t = Some c" using assms by (simp add: unmatched_def)
  have store: "wp (seqM (catchM dccStatusUpdate (\<lambda>_. ret ())) (liftE r)) (\<lambda>_. notProcessedNow c) t'"
    if "kStored t' = Some c" "\<not> processedTrue (kObject t')" for t' and r :: "gerr + unit"
    unfolding wp_seq wp_catch
    by (rule wp_mono [OF wp_dccStatusUpdate_unmatched [OF that]]) (auto simp: wp_liftE wp_ret split: sum.split)
  show ?thesis
    unfolding processConfig_def wp_bind [where m = "getsM _"] wp_gets sum.case
    by (auto simp: wp_dccProcessDeletion [OF c] wp_bind wp_attempt intro!: wp_mono [OF wp_process_unmatched [OF assms]] store)
qed

lemma pres_unmatched: "pres (unmatched c) GetDRClusterConfig" "pres (unmatched c) initConfigConditions"
proof -
  have "pres (unmatched c) apiCall"
    by (rule presI) (auto simp: apiCall_def unmatched_def identityMatches_def split: option.split)
  then show "pres (unmatched c) GetDRClusterConfig"
    unfolding GetDRClusterConfig_def listAll_def by (intro pres_rules)
  show "pres (unmatched c) initConfigConditions"
    unfolding initConfigConditions_def modConfig_def
    by (intro pres_rules) (auto simp: pres_def modifyM_def unmatched_def identityMatches_def)
qed

lemma unmatched_notProcessed: "unmatched c t \<Longrightarrow> notProcessedNow c t"
  by (simp add: unmatched_def notProcessedNow_def)

text \<open>
  C28. Whatever calls fail, the condition \<^verbatim>\<open>Processed\<close> of a DRClusterConfig becomes true only if the cluster's claim of its identity has a
  value and that is the identity in the specification: a configuration meant for another cluster is never accepted.
\<close>

theorem processed_only_if_identity_matches:
  assumes "kStored s = Some c" and "kStored (snd (dccReconcile s)) = Some c'" and "processedTrue c'" and "\<not> processedTrue c"
  shows "identityMatches s c"
proof (rule ccontr)
  assume no: "\<not> identityMatches s c"
  have rest: "wp (seqM (modConfig (\<lambda>_. c)) (seqM GetDRClusterConfig (seqM initConfigConditions processConfig))) (\<lambda>_. notProcessedNow c) (s\<lparr>calls := n\<rparr>)" for n
  proof -
    have u: "unmatched c (s\<lparr>calls := n, kObject := c\<rparr>)" using no assms(1) by (simp add: unmatched_def identityMatches_def)
    have "wp (seqM GetDRClusterConfig (seqM initConfigConditions processConfig)) (\<lambda>_. notProcessedNow c) (s\<lparr>calls := n, kObject := c\<rparr>)"
      unfolding wp_seq
      by (rule wp_mono [OF pres_wp [OF pres_unmatched(1) u]])
         (auto split: sum.split intro!: wp_mono [OF pres_wp [OF pres_unmatched(2)]] wp_processConfig_unmatched unmatched_notProcessed)
    then show ?thesis by (simp add: modConfig_def wp_seq [of "modifyM _"] wp_modify)
  qed
  have "wp dccReconcile (\<lambda>_. notProcessedNow c) s"
    unfolding dccReconcile_def wp_bind [where m = "attemptM _"] wp_attempt wp_seq [of apiCall]
  proof (rule wp_apiCall, goal_cases)
    case (1 n e)
    then show ?case using assms(1) by (auto simp: wp_ret wp_fail notProcessedNow_def)
  next
    case (2 n)
    then show ?case using assms(1) rest [of n] by (simp add: wp_bind wp_gets wp_ret)
  qed
  then show False using assms by (simp add: wp_snd notProcessedNow_def)
qed

section \<open>Concrete states\<close>

definition exConfig :: dcc_object where
  "exConfig = \<lparr>ccName = ''c1'', ccLabels = [], ccClusterID = ''id-1'', ccReplicationSchedules = [], ccConditions = [],
     ccStorageClasses = [], ccVolumeSnapshotClasses = [], ccVolumeGroupSnapshotClasses = [], ccVolumeReplicationClasses = [],
     ccVolumeGroupReplicationClasses = [], ccNetworkFenceClasses = [], ccStorageAccessDetails = [], ccNetworkAttachments = [],
     dccGeneration = 1, dccDeleted = False, dccFinalizers = []\<rparr>"

definition exClass :: "string \<Rightarrow> class_object" where
  "exClass n = \<lparr>clName = n, clLabels = [(StorageIDLabel, ''s1'')], clAnnotations = [], clProvisioner = ''rbd'', clParameters = []\<rparr>"

definition exConfigState :: dcc where
  "exConfigState = \<lparr>clock = 5, conflictRetries = 5, faults = (\<lambda>_. None), calls = 0, kObject = exConfig, kStored = Some exConfig,
     kOthers = [], kClaims = [\<lparr>clmName = clusterIDClusterClaimName, clmLabels = [], clmValue = ''id-1''\<rparr>,
       \<lparr>clmName = ''storage.class.old'', clmLabels = [(drCConfigOwnerLabel, ''ramen'')], clmValue = []\<rparr>],
     kStorageClasses = [exClass ''rbd'', exClass ''cephfs''], kSnapshotClasses = [exClass ''rbd-snap''],
     kPublicGroupSnapshotClasses = [], kPrivateGroupSnapshotClasses = [], kReplicationClasses = [], kGroupReplicationClasses = [],
     kFenceClasses = [], kNodes = [], kNADs = [], kCRDs = [NADResourceName], kUsePublicVGSAPI = True, kNadWatchRegistered = True,
     kOrder = []\<rparr>"

lemma exConfigState_succeeds: "fst (dccReconcile exConfigState) = Inr ()"
  by code_simp

theorem config_reports_marked_classes_witness: "storedReports exConfigState (snd (dccReconcile exConfigState))"
proof (rule config_reports_marked_classes)
  show "dccReconcile exConfigState = (Inr (), snd (dccReconcile exConfigState))"
    using exConfigState_succeeds by (metis prod.collapse)
  show "\<forall>n. faults exConfigState n = None" "kStored exConfigState = Some exConfig" "\<not> dccDeleted exConfig"
    by (simp_all add: exConfigState_def exConfig_def)
qed

theorem processed_only_if_identity_matches_witness: "identityMatches exConfigState exConfig"
proof -
  have s: "kStored exConfigState = Some exConfig" by (simp add: exConfigState_def)
  have p: "(case kStored (snd (dccReconcile exConfigState)) of None \<Rightarrow> False | Some c' \<Rightarrow> processedTrue c')" by code_simp
  have n: "\<not> processedTrue exConfig" by code_simp
  obtain c' where c': "kStored (snd (dccReconcile exConfigState)) = Some c'" "processedTrue c'" using p by (auto split: option.splits)
  show ?thesis by (rule processed_only_if_identity_matches [OF s c' n])
qed


text \<open>
  The condition \<^verbatim>\<open>Reachable\<close> is never reported: the initial conditions are set in memory, adding the finalizer replaces them by
  the stored ones, and later reconciles find conditions and set none.
\<close>

theorem reachable_never_reported:
  "case kStored (snd (dccReconcile exConfigState)) of None \<Rightarrow> False
   | Some c \<Rightarrow> FindCondition (ccConditions c) ''Processed'' \<noteq> None \<and> FindCondition (ccConditions c) ''Reachable'' = None
     \<and> (case kStored (snd (dccReconcile (snd (dccReconcile exConfigState)))) of None \<Rightarrow> False
        | Some c' \<Rightarrow> FindCondition (ccConditions c') ''Reachable'' = None)"
  by code_simp

text \<open>
  One failing look-up of the CRD of network attachments disables the discovery of static addresses for good: the flag that the
  watch is registered is cleared, and nothing but a restart sets it.
\<close>

theorem failed_lookup_disables_discovery:
  "(let s = exConfigState\<lparr>faults := (\<lambda>n. if n = 16 then Some (newE ''timeout'') else None)\<rparr>; t = snd (dccReconcile s)
    in kNadWatchRegistered s \<and> \<not> kNadWatchRegistered t
       \<and> \<not> kNadWatchRegistered (snd (dccReconcile (t\<lparr>calls := 0, faults := (\<lambda>_. None)\<rparr>))))"
  by code_simp

end
