(* ===== verification/Spec2Isabelle.thy ===== *)
theory Spec2Isabelle
  imports Ramen_PeerReady Ramen_Liveness Ramen_Examples Ramen_DRClusterProps Ramen_PeersProps Ramen_DRPolicyProps
    Ramen_VolRepProps Ramen_PvcSelectionProps Ramen_VrgAggregate Ramen_NetworkMappingProps Ramen_DrpcSafety
    Ramen_ClusterConfigProps
begin

text \<open>
  \<^bold>\<open>Ramen: the disaster-recovery engine on the hub, the fencing of clusters, the policies, and the replication of
  volumes on the managed clusters.\<close>

  Ramen protects a workload that runs on one of two managed Kubernetes clusters. On the hub cluster a
  \<^verbatim>\<open>DRPlacementControl\<close> (DRPC) names the workload, its preferred cluster and, for a failover, the cluster to
  fail over to. The DRPC reconciler (\<^verbatim>\<open>src/internal/controller/drplacementcontrol.go\<close> and its neighbours)
  never touches the managed clusters itself: for each cluster it writes a ManifestWork that holds a
  \<^verbatim>\<open>VolumeReplicationGroup\<close> (VRG), asked to be primary or secondary, it moves the decision of the user's
  Placement, and it reads the state of the VRGs back through managed cluster views and object stores. Two
  primaries at a time, or a promotion before the old home is fenced or synced, lose data: this development
  models that engine and proves when it promotes.

  The engine relies on what two other reconcilers of the hub report. The DRCluster reconciler fences a cluster by
  having a peer apply NetworkFence resources and reports the condition \<open>Fenced\<close>, which a Metro failover waits for; it
  also deploys the operator and activates the maintenance modes a regional failover waits for. The DRPolicy reconciler
  finds out which storage classes of the clusters are paired, synchronously or asynchronously, which decides whether a
  DRPC is Metro or regional, and delivers the secrets of the object stores. Both are modelled whole.

  On a managed cluster the VRG reconciler carries out what the hub asks for: it protects the PVCs of the workload, promotes
  and demotes their volumes through VolumeReplication and VolumeGroupReplication resources of csi-addons, releases the PVCs
  when they may go, and aggregates the conditions of the PVCs to the conditions and the state that the hub reads. That
  part of it is modelled too.

  \<^bold>\<open>Theories and the code they model\<close> (paths under \<^verbatim>\<open>src/internal/controller\<close> unless given):

  \<^item> \<open>Ramen_Prelude\<close>: Go errors with what \<^verbatim>\<open>errors.Is\<close> can see of them, string maps, the state-and-error monad
    in which the handlers are written, its weakest preconditions (\<open>wp_rules\<close>) and preservation rules
    (\<open>pres_rules\<close>).
  \<^item> \<open>Ramen_Conditions\<close>: \<^verbatim>\<open>util/conditions.go\<close> and \<^verbatim>\<open>addOrUpdateCondition\<close>; the locale \<open>condition_store\<close> is the
    contract of a condition writer and is interpreted on both writers.
  \<^item> \<open>Ramen_Types\<close>: the structs and enumerations of \<^verbatim>\<open>src/api/v1alpha1\<close>.
  \<^item> \<open>Ramen_PeerClass\<close>: \<^verbatim>\<open>updatePeers\<close>, \<^verbatim>\<open>dRPolicySupportsMetro\<close> and the scheduling interval.
  \<^item> \<open>Ramen_Server\<close>: the record \<open>server\<close> that every reconciler's state extends (clock, failures and count of API calls) and
    the calls on one kind of object. \<open>Ramen_Api\<close>: its extension \<open>api\<close> with the ManifestWorks, the objects shipped in ManifestWorks, and \<^verbatim>\<open>util/mw_util.go\<close>.
  \<^item> \<open>Ramen_Views\<close>: \<^verbatim>\<open>util/mcv_util.go\<close>, with the class lists of \<^verbatim>\<open>drpolicy_peerclass.go\<close> that are read through views; the
    locale \<open>store_neutral\<close> says what these utilities leave alone.
  \<^item> \<open>Ramen_Hub\<close>: the record \<open>hub\<close> (the fields of \<^verbatim>\<open>DRPCInstance\<close> with the API objects one reconcile reads and
    writes) and the ManifestWorks of VRGs.
  \<^item> \<open>Ramen_VrgSpec\<close>: \<^verbatim>\<open>newVRG\<close>, \<^verbatim>\<open>updateVRGOptionalFields\<close> and their builders.
  \<^item> \<open>Ramen_Placement\<close>: decisions of PlacementRules and Placements (\<^verbatim>\<open>drplacementcontrol_controller.go\<close>).
  \<^item> \<open>Ramen_Protected\<close>: \<^verbatim>\<open>protected_condition.go\<close>.
  \<^item> \<open>Ramen_Status\<close>: phase, progression, action counters (\<^verbatim>\<open>dr_telemetry_metrics.go\<close>), the choice of the VRG whose
    status is reported, and storing the status.
  \<^item> \<open>Ramen_Checks\<close>: the guards (readiness, failover target, fencing, maintenance modes, dry-run readiness) and
    \<^verbatim>\<open>drplacementcontrol_global.go\<close>.
  \<^item> \<open>Ramen_Works\<close>: ManifestWorks of namespaces, recipes and VRGs, \<^verbatim>\<open>switchToCluster\<close>, \<^verbatim>\<open>ensurePlacement\<close>.
  \<^item> \<open>Ramen_Secondary\<close>: \<^verbatim>\<open>drplacementcontrolvolsync.go\<close>.
  \<^item> \<open>Ramen_Cleanup\<close>: \<^verbatim>\<open>EnsureCleanup\<close> and \<^verbatim>\<open>cleanupSecondaries\<close>.
  \<^item> \<open>Ramen_Actions\<close>: \<^verbatim>\<open>RunInitialDeployment\<close>, \<^verbatim>\<open>RunFailover\<close>, \<^verbatim>\<open>RunRelocate\<close> and the loop \<^verbatim>\<open>startProcessing\<close>.
  \<^item> \<open>Ramen_Invariants\<close>: the locales \<open>read_invariant\<close>, \<open>report_invariant\<close>, \<open>works_invariant\<close>, \<open>stored_status_invariant\<close>, \<open>hub_invariant\<close>
    and \<open>promotion_target\<close>, each extending some before: what a property of the hub must be closed under to be
    kept by the reads, the reports, the placement and namespace writes, storing the status, every handler that does not
    promote, and the whole engine. They are interpreted on the configuration and on the set of clusters
    asked to be primary.
  \<^item> \<open>Ramen_Faultless\<close>: exact effects when no API call fails; \<open>Ramen_Failover\<close>, \<open>Ramen_Relocation\<close>,
    \<open>Ramen_PeerReady\<close>, \<open>Ramen_Liveness\<close>: the guards of the actions and their progress; \<open>Ramen_Examples\<close>:
    concrete states for the witnesses.
  \<^item> \<open>Ramen_Cidr\<close>: \<^verbatim>\<open>net.ParseCIDR\<close> of Go's library. \<open>Ramen_DRCluster\<close>, \<open>Ramen_DRClusterConfig\<close>, \<open>Ramen_Fencing\<close>,
    \<open>Ramen_MModes\<close>, \<open>Ramen_DRClusterReconcile\<close>: \<^verbatim>\<open>drcluster_controller.go\<close>, \<^verbatim>\<open>drclusters.go\<close>, \<^verbatim>\<open>drcluster_mmode.go\<close> on the
    record \<open>drc\<close> (\<^verbatim>\<open>drclusterInstance\<close> with the stored object).
  \<^item> \<open>Ramen_FencingSpec\<close>: the abstract fencing automaton \<open>fence_step\<close>, and the locales \<open>drc_neutral\<close> and \<open>fence_steps\<close>;
    \<open>Ramen_DRClusterInv\<close>: \<open>status_invariant\<close> and \<open>fence_invariant\<close>, whose interpretations carry an invariant of the
    stored status through a whole reconcile; \<open>Ramen_FencingProps\<close>, \<open>Ramen_DRClusterProps\<close>: the refinement of the
    automaton and when a cluster is reported fenced.
  \<^item> \<open>Ramen_Peers\<close>, \<open>Ramen_PeersProps\<close>: the peer classes of \<^verbatim>\<open>drpolicy_peerclass.go\<close>.
  \<^item> \<open>Ramen_Secrets\<close>: \<^verbatim>\<open>util/secrets_util.go\<close>; \<open>Ramen_DRPolicy\<close>, \<open>Ramen_DRPolicyProps\<close>: \<^verbatim>\<open>drpolicy_controller.go\<close> and
    \<^verbatim>\<open>drpolicy.go\<close> on the record \<open>drp\<close> (\<^verbatim>\<open>drpolicyUpdater\<close> with the stored objects).
  \<^item> \<open>Ramen_VrgStatus\<close>: \<^verbatim>\<open>status.go\<close> and \<^verbatim>\<open>vrg_status_pvcs.go\<close>. \<open>Ramen_VrgObjects\<close>: the objects of a managed cluster. \<open>Ramen_VrgState\<close>: the
    record \<open>vrgs\<close> (\<^verbatim>\<open>VRGInstance\<close> with the objects of the managed cluster and the buckets of the object stores) and the utilities
    on PVCs and labels.
  \<^item> \<open>Ramen_VolRepStatus\<close>, \<open>Ramen_VolRepProtect\<close>, \<open>Ramen_VolRep\<close>, \<open>Ramen_VolRepReconcile\<close>: \<^verbatim>\<open>vrg_volrep.go\<close>, from the status of a replication to the
    conditions of its PVCs, the protection of a PVC and its release, the VolumeReplication of a PVC, and the reconcile of all
    PVCs as primary and as secondary. \<open>Ramen_VolGroupRep\<close>: \<^verbatim>\<open>vrg_volgrouprep.go\<close> and \<^verbatim>\<open>vrg_volgrouprep_global.go\<close>.
  \<^item> \<open>Ramen_ObjectStore\<close>: \<^verbatim>\<open>s3utils.go\<close> and the profiles of \<^verbatim>\<open>ramenconfig.go\<close>. \<open>Ramen_VrgUpload\<close>, \<open>Ramen_VrgRestore\<close>, \<open>Ramen_VgrStore\<close>: the cluster data of
    volumes, PVCs, groups and the VRG itself in the stores (\<^verbatim>\<open>vrg_volrep.go\<close>, \<^verbatim>\<open>vrg_vrgobject.go\<close>, \<^verbatim>\<open>vrg_volgrouprep.go\<close>). \<open>Ramen_DryRun\<close>: the
    snapshots of a dry run.
  \<^item> \<open>Ramen_PvcSelection\<close>: which PVCs the VRG protects and how (\<^verbatim>\<open>volumereplicationgroup_controller.go\<close>, \<^verbatim>\<open>vrg_offloaded.go\<close>).
    \<open>Ramen_VrgAggregate\<close>: the conditions, the sync counters and the state of a VRG.
  \<^item> \<open>Ramen_VolRepInv\<close>: the locales \<open>vrg_reads\<close>, \<open>vrg_protects\<close>, \<open>vrg_replicates\<close>, \<open>vrg_releases\<close> and \<open>vrg_demotes\<close> of what these
    operations keep, interpreted on what a reconcile never changes, on the demoted resources and on the protected PVCs;
    \<open>Ramen_VolRepProps\<close>, \<open>Ramen_StoreProps\<close>, \<open>Ramen_RestoreProps\<close>, \<open>Ramen_PvcSelectionProps\<close>: the properties of the VRG
    controller; \<open>Ramen_VrgExamples\<close>: its concrete states.
  \<^item> \<open>Ramen_NetAddr\<close>: the addresses and networks of Go's packages \<^verbatim>\<open>net\<close> and \<^verbatim>\<open>net/netip\<close>, as byte lists.
    \<open>Ramen_NetworkMapping\<close>: \<^verbatim>\<open>drpc_networkmapping.go\<close>, the validation of the rules and the translation of the static addresses of
    virtual machines between two clusters; the regular expression engine and the YAML decoder are parameters.
    \<open>Ramen_NetworkMappingProps\<close>: the two directions undo each other, and where they do not.
  \<^item> \<open>Ramen_DrpcShell\<close>, \<open>Ramen_DrpcAdopt\<close>, \<open>Ramen_DrpcDelete\<close>, \<open>Ramen_DrpcReconcile\<close>: the outer part of
    \<^verbatim>\<open>drplacementcontrol_controller.go\<close> on the record \<open>shell\<close>, which holds the engine's \<open>hub\<close> and the objects only the outer part uses:
    the placement and its metadata, namespaces and conflicts, adoption and \<^verbatim>\<open>determineDRPCState\<close>, deletion, the instance, and
    \<^verbatim>\<open>Reconcile\<close>. \<open>Ramen_Md5\<close>, \<open>Ramen_SecretPropagation\<close>: \<^verbatim>\<open>volsync/secret_propagator.go\<close> with the digest its names use.
  \<^item> \<open>Ramen_DrpcInv\<close>: the locales \<open>drpc_works\<close>, \<open>drpc_views\<close>, \<open>shell_reads\<close> and \<open>shell_writes\<close> of what the outer part keeps;
    \<open>Ramen_DrpcProps\<close>: recovery, adoption, deletion and conflicts; \<open>Ramen_DrpcSafety\<close>: which clusters one whole reconcile can
    make primary.
  \<^item> \<open>Ramen_ClusterConfig\<close>: \<^verbatim>\<open>drclusterconfig_controller.go\<close> on the record \<open>dcc\<close>, the reconciler of a managed cluster that reports the
    classes which the DRPolicy reconciler pairs; \<open>Ramen_ClusterConfigProps\<close>: what it reports.

  \<^bold>\<open>State and failures.\<close> A handler is a function from a state (\<open>hub\<close>, \<open>shell\<close>, \<open>drc\<close>, \<open>drp\<close>, \<open>dcc\<close> or \<open>vrgs\<close>) to an error or a result and a state; an error keeps
  the writes made before it. The \<open>n\<close>-th API call of a reconcile fails with \<open>faults n\<close> if that is set, for an
  arbitrary function \<open>faults\<close>: theorems without the hypothesis \<open>faultless\<close> hold for every pattern of API
  failures. To the engine the views of VRGs, object stores, ApplicationSets, the VolSync secret and the IP
  translation (\<open>translateWithRules\<close> of the network mapping) are inputs and are fields of
  \<open>env\<close>, fixed during a reconcile. Every loop of the source ranges over a list or retries a bounded number of
  times (\<^verbatim>\<open>MaxPlacementDecisionConflictCount\<close>, the steps of \<^verbatim>\<open>RetryOnConflict\<close>, kept as \<open>conflictRetries\<close>), so
  every definition is total and no fuel is needed. Counters of actions and the lag bound keep their 64 bits.
  Go maps ranged over (\<^verbatim>\<open>d.vrgs\<close>) are association lists in an arbitrary order, which in the outer part \<open>shOrder\<close> gives anew for
  each range. A ManifestWork that is deleted leaves the store at once, unless it was marked as deleted before. An index out of range and a nil
  dereference are values (\<open>None\<close>, an error of kind \<open>GoPanic\<close>). The two other reconcilers keep the object in memory apart
  from the stored one, as a status update and an update of the object differ in what they write and what they return.

  \<^bold>\<open>What is shown.\<close> The first group of properties below is about promotions: only the target of the action, only
  behind its guard, under any API failures, for the engine and for a whole reconcile (which may also adopt a primary that a cluster
  shows); and that a failover whose prerequisites hold does promote. Of the outer part: a recovered DRPC goes on by itself
  only towards the primary, adoption ships no specification of its own, secondaries are deleted before primaries, conflicting
  DRPCs are not reconciled, and a cluster that cannot be queried is forgotten on deletion. Then
  the engine as a whole, placement and ManifestWorks, the guards, and the places where the code departs from
  its intent, each with a concrete state. Properties of single components stand at the end of their theories:
  merging and storing conditions, the Protected condition, peer classes, the refresh of a VRG, counting of
  actions, the latest primary in the object stores, and when the peers are reported ready. Of the DRCluster reconciler:
  it refines the fencing automaton, never reports a cluster fenced and clean at once, and reports it fenced only if a peer
  shows that the NetworkFences succeeded, which closes the chain from a Metro failover to the fence; two properties show
  where it departs from its intent (an unfence request on a cluster that is not fenced, the deletion of a fenced cluster). Of
  the DRPolicy reconciler: no storage class is paired twice or in both ways, the status is exactly the peers found,
  overlapping Metro policies are refused, and deleting a policy keeps the secrets others need. Of the VRG reconciler: as secondary it
  demotes a volume or a group only after the workload let go of its PVCs and the siblings of a global group agree, and releases a
  PVC only when its replication settled; a PVC counts as uploaded only when every store holds it, a restore that counts
  objects leaves none of a store behind, a volume survives the round trip through a store; every selected PVC is replicated in
  exactly one way; and the aggregated conditions are true exactly when each PVC counts. Of the DRClusterConfig
  reconciler: it reports exactly the marked classes, and only on the cluster it is meant for. Of the network mapping: the explicit
  pairs and the subnets that the parser accepts can be translated back, but a pair and a subnet together can collide.

  \<^bold>\<open>Not modelled.\<close> Logging, events and metrics other than the gauges the reconcilers read back; watches and predicates
  (which objects wake a reconciler), the mapping of clusters to policies and of VRGs to DRPCs apart; of the VRG controller the
  outer state machine, the VolSync handler, the capture of kube objects and the clean-up of virtual machines; hooks and Velero
  requests; generated code. To the hub the reports of the VRG controller are inputs, and the outcome of the secret propagation
  and the view that storing the status reads are inputs of the engine although they are modelled on their own.
\<close>

section \<open>Agreement on a global action\<close>

definition agreesWith :: "hub \<Rightarrow> drpc \<Rightarrow> bool" where
  "agreesWith s d =
     (if dName d = dName (inst s) \<and> dNamespace d = dNamespace (inst s) then True
      else if map_of (dLabels d) GlobalVGRLabel \<noteq> Some (globalVGRLabel s) then True
      else dAction (dSpec d) = dAction (spec s)
           \<and> (if dAction (spec s) = ActionFailover then dFailoverCluster (dSpec d) = dFailoverCluster (spec s)
              else dPreferredCluster (dSpec d) = dPreferredCluster (spec s)))"

section \<open>Promotions of the engine\<close>

text \<open>
  C1. One pass of the engine (\<^verbatim>\<open>startProcessing\<close>), whatever calls to the API fail during it, asks no
  cluster to become primary except the target of the DRPC's action, and that one only when the guard of
  the action holds: the failover prerequisites, the quiesced and synced peers of a relocation, or a
  workload not yet deployed.
\<close>

theorem engine_promotes_only_ready_target:
  "promoted startProcessing s \<subseteq> {c. c = engineTarget s \<and> promotionReady s}"
proof
  fix c assume "c \<in> promoted startProcessing s"
  then have c: "mwPrimary (snd (startProcessing s)) c" "\<not> mwPrimary s c" by (simp_all add: promoted_def)
  have "promotionReady s"
  proof (rule ccontr)
    assume "\<not> promotionReady s"
    then have "primaryWithin s {} (snd (startProcessing s))"
      using startProcessing_blocked [of s] by (simp add: wp_snd)
    with c show False by (simp add: primaryWithin_def)
  qed
  with c startProcessing_target [of s c] show "c \<in> {c. c = engineTarget s \<and> promotionReady s}" by simp
qed

text \<open>
  C3. In Metro DR, when no API call fails, a failover asks a cluster to become primary only if the
  workload's current home cluster is known and fenced.
\<close>

theorem metro_failover_needs_fencing:
  "{c \<in> promoted RunFailover s. drType s = DRTypeSync \<and> faultless s}
     \<subseteq> {c. homeCluster s \<noteq> [] \<and> checkClusterFenced (homeCluster s) (drClusters s) = Inr True}"
proof clarify
  fix c assume c: "c \<in> promoted RunFailover s" "drType s = DRTypeSync" "faultless s"
  have "failoverReady s" using RunFailover_promoted [of s] c(1) by blast
  then show "homeCluster s \<noteq> [] \<and> checkClusterFenced (homeCluster s) (drClusters s) = Inr True"
    using c(2,3) by (simp add: failoverReady_def homeCandidates_def failoverPrereq_def split: if_splits)
qed

text \<open>
  C4. Whatever calls fail, a failover asks a cluster to become primary only if the failover cluster is set
  and its VRG is primary or has settled as a secondary of the current generation; the peers of a global
  action agree; a dry run starts from a protected workload that does not lag; and the prerequisites of the
  DR type hold for one of the clusters that can be the current home.
\<close>

theorem failover_promotes_only_when_ready:
  "promoted RunFailover s \<subseteq> {c. failoverReady s}"
  by (rule RunFailover_promoted)

text \<open>
  C6. A relocation asks a cluster to become primary only if every cluster could be queried, at most one VRG is
  primary, a differing current home has completed protection and its final sync, and every other cluster
  reports its VRG secondary and its data protected.
\<close>

theorem relocation_promotes_only_when_synced:
  "promoted RunRelocate s \<subseteq> {c. relocateReady s}"
  using RunRelocate_blocked [of s] by (auto simp: promoted_def wp_snd primaryWithin_def)

text \<open>
  An initial deployment asks a cluster to become primary only if the preferred cluster is set, the workload
  is not primary elsewhere while unknown at home, and no VRG was shipped to the preferred cluster before
  (unless the API server denies the existence of an object it has).
\<close>

theorem deployment_creates_primary_once:
  "promoted RunInitialDeployment s \<subseteq> {c. deployReady s}"
  using RunInitialDeployment_blocked [of s] by (auto simp: promoted_def wp_snd primaryWithin_def)

text \<open>
  C5. When no API call fails, the prerequisites hold, and the failover cluster holds a settled secondary, one pass
  of \<^verbatim>\<open>RunFailover\<close> asks it to become primary and waits for its resources to be restored.
\<close>

theorem failover_makes_progress:
  assumes "failoverPossible s"
  shows "fst (RunFailover s) = Inl errWaitForRestore \<and> mwPrimary (snd (RunFailover s)) (dFailoverCluster (spec s))"
  using RunFailover_promotes [OF assms] by (simp add: wp_def split: prod.splits)

theorem failover_makes_progress_witness:
  "mwPrimary (snd (RunFailover exFailover)) ''c2'' \<and> \<not> mwPrimary exFailover ''c2''"
proof -
  have "failoverPossible exFailover"
    by (simp add: failoverPossible_def ex_defs faultless_def placementOK_def isValidFailoverTarget_def
        vrgExistsAndPrimary_def vrgOf_def mwVRG_def ManifestWorkName_def ExtractVRGFromManifestWork_def newManifestWork_def
        isVRGPrimary_def currentDecision_def getClusterDecisionFromPlacementRule_def homeCluster_def
        failoverPrereq_def hasGlobalVGRLabel_def globalVGRLabel_def sm_get_def Let_def)
  moreover have "dFailoverCluster (spec exFailover) = ''c2''" by (simp add: ex_defs)
  moreover have "\<not> mwPrimary exFailover ''c2''"
    by (simp add: mwPrimary_def mwVRG_def ex_defs ManifestWorkName_def ExtractVRGFromManifestWork_def newManifestWork_def
        isVRGPrimary_def Let_def)
  ultimately show ?thesis using failover_makes_progress [of exFailover] by simp
qed

section \<open>The engine as a whole\<close>

text \<open>
  One pass of the engine never changes what it was given: the DRPC's name, spec and generation, the policy,
  the clusters, the views and the set of clusters with a VRG.
\<close>

theorem engine_keeps_configuration:
  "cfg (snd (startProcessing s)) = cfg s"
  using presD [OF pt.pres_startProcessing [of s], of s] frame_primaryWithin [of s s "{engineTarget s}"]
  by (simp add: primaryWithin_def)

text \<open>
  One pass of the engine always returns a decision about requeueing, never an error, and it stops requeueing
  only after a pass that reported its action done.
\<close>

theorem engine_stops_only_when_done:
  "fst (startProcessing s) = Inr True
     \<or> fst (startProcessing s) = Inr False \<and> fst (processPlacement s) = Inr True"
proof -
  obtain x s1 where u: "shouldUpdateStatus (snd (processPlacement s)) = (Inr x, s1)"
    using shouldUpdateStatus_returns by blast
  obtain r s0 where p: "processPlacement s = (r, s0)" by (cases "processPlacement s")
  show ?thesis
    using u p by (auto simp: startProcessing_def bindM_def attemptM_def getsM_def ret_def split: prod.splits sum.splits)
qed

text \<open>
  C34. A DRPC that asks for a dry run of anything but a failover is refused before the action starts: processing
  returns the validation error, and no cluster is asked to become primary.
\<close>

theorem dry_run_needs_failover:
  assumes "dDryRun (spec s)" "dAction (spec s) \<noteq> ActionFailover"
  shows "fst (processPlacement s) = Inl (newE ''dryRun is enabled but action is not failover'')
     \<and> promoted processPlacement s = {}"
proof -
  have rec: "wp (recordFailure a b) (\<lambda>r s'. r = Inr () \<and> primaryWithin s {} s') s" for a b
  proof (rule wp_conj)
    show "wp (recordFailure a b) (\<lambda>_ s'. primaryWithin s {} s') s"
      by (rule pres_wp [OF pw.pres_recordFailure frame_primaryWithin [OF refl]])
    show "wp (recordFailure a b) (\<lambda>r _. r = Inr ()) s"
      by (auto simp: recordFailure_def modStatus_def modInst_def wp_rules intro!: wpI split: prod.split sum.split)
  qed
  have "wp processPlacement (\<lambda>r s'. r = Inl (newE ''dryRun is enabled but action is not failover'')
      \<and> primaryWithin s {} s') s"
    using assms
    by (auto simp: processPlacement_def processTestFailoverFlowIfEnabled_def wp_rules intro!: wp_mono [OF rec])
  then show ?thesis
    by (auto simp: wp_def promoted_def primaryWithin_def split: prod.splits)
qed

theorem dry_run_needs_failover_witness:
  "fst (processPlacement exDryRelocate) = Inl (newE ''dryRun is enabled but action is not failover'')"
  using dry_run_needs_failover [of exDryRelocate] by (simp add: exDryRelocate_def ex_defs)

section \<open>Placement and ManifestWorks\<close>

text \<open>
  When no API call fails and PlacementDecision names are unique, a cluster written as the user placement's
  decision is the cluster read back, for a PlacementRule and for a Placement, whether its decision object
  existed or had to be created.
\<close>

theorem placement_round_trip:
  assumes "faultless s" "distinct (map poName (placementDecisions s))" "r \<noteq> FailoverRetained"
    "fst (updateUserPlacementRule c r s) = Inr ()"
  shows "\<exists>d. fst (getClusterDecision (snd (updateUserPlacementRule c r s))) = Inr d \<and> cdClusterName d = c"
proof -
  note stored = updateUserPlacementRule_stores [OF assms(1-3), of c]
  have w: "faultless (snd (updateUserPlacementRule c r s))"
      "cdClusterName (currentDecision (snd (updateUserPlacementRule c r s))) = c"
    using stored assms(4) by (auto simp: wp_def split: prod.splits)
  have "wp getClusterDecision (\<lambda>res _. res = Inr (currentDecision (snd (updateUserPlacementRule c r s))))
      (snd (updateUserPlacementRule c r s))"
    by (simp add: ok_getClusterDecision [OF w(1)])
  then show ?thesis using w(2) by (auto simp: wp_def split: prod.splits)
qed

theorem placement_round_trip_witness:
  "\<exists>d. fst (getClusterDecision (snd (updateUserPlacementRule ''c2'' ''c2'' exPlaced))) = Inr d \<and> cdClusterName d = ''c2''"
proof (rule placement_round_trip)
  show "faultless exPlaced" "distinct (map poName (placementDecisions exPlaced))" "''c2'' \<noteq> FailoverRetained"
    by (simp_all add: exPlaced_def ex_defs faultless_def FailoverRetained_def)
  show "fst (updateUserPlacementRule ''c2'' ''c2'' exPlaced) = Inr ()"
    by (simp add: exPlaced_def ex_defs monad_defs updateUserPlacementRule_def updateUserPlacementStatusDecision_def
        createOrUpdatePlacementDecision_def getPlacementDecisionFromPlacement_def apiCall_def
        ExcludeFromVeleroBackup_def PlacementLabel_def updatePD_def putPD_def sm_get_def activeDecisions_def retained_def FailoverRetained_def Let_def)
qed

text \<open>
  When no API call fails, \<^verbatim>\<open>updateVRGState\<close> rewrites the VRG of exactly one cluster's ManifestWork: the new
  replication state is in its spec, a demotion and a failover promotion clear both final-sync requests, any
  other change keeps them, and its name, selector, status and replication destinations stay.
\<close>

theorem updateVRGState_rewrites_one_cluster:
  assumes "faultless s" "c \<noteq> []" "mwVRG s c = Some v" "vReplicationState (vSpec v) \<noteq> st"
  shows "fst (updateVRGState c st s) = Inr True
     \<and> (\<exists>v'. mwVRG (snd (updateVRGState c st s)) = (mwVRG s)(c \<mapsto> v')
          \<and> vReplicationState (vSpec v') = st
          \<and> (vPrepareForFinalSync (vSpec v'), vRunFinalSync (vSpec v'))
             = (if st = Secondary \<or> isFailoverPromotion s c then (False, False)
                else (vPrepareForFinalSync (vSpec v), vRunFinalSync (vSpec v)))
          \<and> (vName v', vNamespace v', vPVCSelector (vSpec v'), vStatus v', vsRDSpec (vVolSync (vSpec v')))
             = (vName v, vNamespace v, vPVCSelector (vSpec v), vStatus v, vsRDSpec (vVolSync (vSpec v))))"
proof -
  let ?v' = "withReplicationState s c st v"
  have "wp (updateVRGState c st) (\<lambda>r s'. r = Inr True \<and> mwVRG s' = (mwVRG s)(c \<mapsto> ?v')) s"
    using assms by (simp add: ok_updateVRGState fun_eq_iff mwVRG_putVRGManifest [OF assms(3)])
  then show ?thesis
    using withReplicationState_fields [of s c st v]
    by (intro conjI exI [of _ ?v']) (auto simp: wp_def split: prod.splits)
qed

theorem updateVRGState_witness:
  "fst (updateVRGState ''c1'' Secondary exFailover) = Inr True"
proof -
  have "mwVRG exFailover ''c1'' = Some (exVRG Primary)"
    by (simp add: mwVRG_def exFailover_def exHub_def exMWs_def exMW_def ManifestWorkName_def
        ExtractVRGFromManifestWork_def newManifestWork_def exDRPC_def)
  moreover have "vReplicationState (vSpec (exVRG Primary)) \<noteq> Secondary" "faultless exFailover"
    by (simp_all add: ex_defs faultless_def Let_def)
  ultimately show ?thesis
    using updateVRGState_rewrites_one_cluster [of exFailover "''c1''" "exVRG Primary" Secondary] by simp
qed

text \<open>
  When no API call fails, \<^verbatim>\<open>createOrUpdateManifestWork\<close> leaves a ManifestWork with the manifests and the
  deletion option it was given, changes no other ManifestWork, and a second call with the same arguments
  finds nothing to do and only counts its read.
\<close>

theorem createOrUpdateManifestWork_idempotent:
  assumes "faultless s" "0 < conflictRetries s"
  shows "\<exists>res s' m. createOrUpdateManifestWork name mw c s = (Inr res, s')
     \<and> manifestWorks s' = (manifestWorks s)((name, c) \<mapsto> m)
     \<and> mwManifests m = mwManifests mw \<and> mwOrphan m = mwOrphan mw
     \<and> createOrUpdateManifestWork name mw c s' = (Inr OperationResultNone, s'\<lparr>calls := calls s' + 1\<rparr>)"
proof -
  obtain res s' m where "createOrUpdateManifestWork name mw c s = (Inr res, s')" "faultless s'"
      "manifestWorks s' = (manifestWorks s)((name, c) \<mapsto> m)" "mwManifests m = mwManifests mw" "mwOrphan m = mwOrphan mw"
    using createOrUpdateManifestWork_writes [OF assms, of name mw c] by (auto simp: wp_def split: prod.splits)
  with createOrUpdateManifestWork_same [of s' name c m mw] show ?thesis
    by (auto simp: wp_def split: prod.splits)
qed

theorem createOrUpdateManifestWork_idempotent_witness:
  "\<exists>res s'. createOrUpdateManifestWork ''app-ns-vrg-mw'' (exMW Secondary) ''c1'' exFailover = (Inr res, s')
     \<and> createOrUpdateManifestWork ''app-ns-vrg-mw'' (exMW Secondary) ''c1'' s' = (Inr OperationResultNone, s'\<lparr>calls := calls s' + 1\<rparr>)"
  using createOrUpdateManifestWork_idempotent [of exFailover "''app-ns-vrg-mw''" "exMW Secondary" "''c1''"]
  by (auto simp: faultless_def exFailover_def exHub_def)

section \<open>Guards\<close>

text \<open>
  C36. A dry-run failover counts the last group sync as lagging exactly when it is more than three scheduling
  intervals old, for every interval up to 3074457345 seconds, where the 64-bit product of nanoseconds
  cannot wrap.
\<close>

theorem group_sync_lags_after_three_intervals:
  assumes "sLastGroupSyncTime (status s) = Some t0" "GetSecondsFromSchedulingInterval (drPolicy s) = Inr n"
    "n \<le> 3074457345"
  shows "groupSyncLags s \<longleftrightarrow> clock s - t0 > 3 * int n"
  using assms by (auto simp: groupSyncLags_def lagBound_exact sinceNanos_def maxDuration_def)

theorem group_sync_lags_witness:
  "groupSyncLags (exSynced 99) \<and> \<not> groupSyncLags (exSynced 100)"
proof -
  have "GetSecondsFromSchedulingInterval (drPolicy (exSynced t)) = Inr 300" for t
    by (simp add: exSynced_def ex_defs GetSecondsFromSchedulingInterval_def digit_val_def Let_def)
  moreover have "sLastGroupSyncTime (status (exSynced t)) = Some t" "clock (exSynced t) = 1000" for t
    by (simp_all add: exSynced_def ex_defs)
  ultimately show ?thesis
    using group_sync_lags_after_three_intervals [of "exSynced 99" 99 300]
      group_sync_lags_after_three_intervals [of "exSynced 100" 100 300] by simp
qed

text \<open>
  C35. A global failover or relocation is agreed on exactly when every other DRPC of the hub with the same
  global-group label asks for the same action and the same target cluster.
\<close>

theorem global_action_consensus:
  assumes "dAction (spec s) \<noteq> ActionNone" "faultless s"
  shows "fst (isGlobalActionInConsensus s) = Inr (list_all (agreesWith s) (hubDRPCs (environ s)))"
proof -
  have p: "pendingDRPCs (s\<lparr>calls := n\<rparr>) = pendingDRPCs s" for n
    by (rule frame_guards) simp
  have "pendingDRPCs s = [] \<longleftrightarrow> list_all (agreesWith s) (hubDRPCs (environ s))"
    using assms(1) by (cases "dAction (spec s)")
      (auto simp: pendingDRPCs_def agreesWith_def disagrees_def actionTarget_def filter_empty_conv list_all_iff)
  then have "wp isGlobalActionInConsensus (\<lambda>r _. r = Inr (list_all (agreesWith s) (hubDRPCs (environ s)))) s"
    using assms unfolding isGlobalActionInConsensus_def setGlobalActionCondition_def
    by (cases "dAction (spec s)") (auto simp: wp_rules ok_rules p intro!: wp_reports)
  then show ?thesis by (simp add: wp_def split: prod.splits)
qed

theorem global_action_consensus_witness:
  "fst (isGlobalActionInConsensus (exGroup ActionFailover)) = Inr True
   \<and> fst (isGlobalActionInConsensus (exGroup ActionRelocate)) = Inr False"
proof -
  have "dAction (spec (exGroup a)) \<noteq> ActionNone" "faultless (exGroup a)" for a
    by (simp_all add: exGroup_def ex_defs faultless_def Let_def)
  moreover have "list_all (agreesWith (exGroup a)) (hubDRPCs (environ (exGroup a))) \<longleftrightarrow> a = ActionFailover" for a
    by (simp add: agreesWith_def exGroup_def ex_defs globalVGRLabel_def sm_get_def GlobalVGRLabel_def Let_def)
  ultimately show ?thesis
    using global_action_consensus [of "exGroup ActionFailover"] global_action_consensus [of "exGroup ActionRelocate"]
    by simp
qed

section \<open>Where the code departs from its intent\<close>

text \<open>
  The namespaces of a discovered application are created on every cluster of the policy except the one
  passed to \<^verbatim>\<open>createOrUpdateNSForDiscoveredApps\<close>, whose ManifestWorks stay as they are. The callers
  \<^verbatim>\<open>createVRGManifestWork\<close> and \<^verbatim>\<open>createOrUpdateSecondaryManifestWork\<close> pass the cluster on which they need the
  namespace.
\<close>

theorem discovered_namespaces_skip_named_cluster:
  "manifestWorks (snd (createOrUpdateNSForDiscoveredApps c s)) (n, c) = manifestWorks s (n, c)"
  using presD [OF mk.pres_createOrUpdateNSForDiscoveredApps [of n c "manifestWorks s (n, c)"], of s] by simp

text \<open>
  A test failover annotation costs the DRPC the condition just reported: when the cleanup of the peers
  succeeds and the annotation was present, the status in memory, with the condition \<^verbatim>\<open>PeerReady\<close> set true a
  moment before, has been replaced by the one the API server holds.
\<close>

lemma peer_ready_lost_with_test_annotation:
  "{s. HasAnnotation (inst s) DRPCTestFailoverDryRunAnnotation \<and> fst (cleanupSecondaries k s) = Inr ()}
     \<subseteq> {s. status (snd (cleanupSecondaries k s)) = serverStatus (snd (cleanupSecondaries k s))}"
proof clarify
  fix s
  assume a: "HasAnnotation (inst s) DRPCTestFailoverDryRunAnnotation" "fst (cleanupSecondaries k s) = Inr ()"
  have "wp (cleanupSecondaries k) (\<lambda>r s'. r = Inr () \<longrightarrow> status s' = serverStatus s') s"
    unfolding cleanupSecondaries_def wp_bind wp_gets sum.case wp_seq
  proof (rule wp_mono [OF cleanupPeers_clean], goal_cases)
    case (1 r s')
    have ann: "HasAnnotation (inst s2) DRPCTestFailoverDryRunAnnotation" if "r = Inr ()" "frame s2 = frame s'" for s2
    proof -
      have "dAnnotations (inst s2) = dAnnotations (inst s)"
        using 1 that frameD(6) [OF that(2)] by (simp add: workFrame_def reportCore_def)
      then show ?thesis using a(1) by (simp add: HasAnnotation_def)
    qed
    show ?case
      by (auto intro!: wp_reports(3) simp: removeTestFailoverAnnotation_def modInst_def updateDRPC_def wp_rules ann
          split: sum.split intro: wp_apiCall)
  qed
  then show "status (snd (cleanupSecondaries k s)) = serverStatus (snd (cleanupSecondaries k s))"
    using a(2) by (auto simp: wp_def split: prod.splits)
qed

text \<open>
  A recipe already shipped never counts as up to date: the copy in the ManifestWork carries the label
  \<^verbatim>\<open>created-by-ramen\<close> that \<^verbatim>\<open>prepareRecipeForMW\<close> adds, so \<^verbatim>\<open>recipeNeedsUpdate\<close> finds its labels different from
  those of the source, which has no such label.
\<close>

lemma shipped_recipe_always_stale:
  assumes "\<not> sm_has (rcpLabels r) CreatedByRamenLabel" "mwManifests mw = [RecipeManifest (prepareRecipeForMW r)]"
  shows "recipeNeedsUpdate mw r"
proof -
  have "rcpLabels (prepareRecipeForMW r) \<noteq> rcpLabels r"
    using assms(1) sm_has_put [of CreatedByRamenLabel "''true''" "rcpLabels r" CreatedByRamenLabel]
    by (simp add: prepareRecipeForMW_def CreatedByRamenLabel_def del: sm_has_put) metis
  with assms(2) show ?thesis by (auto simp: recipeNeedsUpdate_def mapsEqual_def Let_def)
qed

text \<open>
  The key under which \<^verbatim>\<open>requiresRegionalFailoverPrerequisites\<close> collects required activations, provisioner
  and replication ID run together, is ambiguous: of two volumes with different storage, both of which need
  the failover maintenance mode, only the first one's activation is awaited.
\<close>

theorem activation_keys_collide:
  "needsFailoverMMode (exMModePVC ''csi.a'' ''1'') \<and> needsFailoverMMode (exMModePVC ''csi.'' ''a1'')
   \<and> pvcStorageIdentifiers (exMModePVC ''csi.a'' ''1'') \<noteq> pvcStorageIdentifiers (exMModePVC ''csi.'' ''a1'')
   \<and> (let s = exRegional [exMModePVC ''csi.a'' ''1'', exMModePVC ''csi.'' ''a1'']
      in map snd (snd (requiresRegionalFailoverPrerequisites (environ s) [] (dName (inst s)) (vrgNamespace s) (vrgs s) ''c2'')))
      = [pvcStorageIdentifiers (exMModePVC ''csi.a'' ''1'')]"
  by (simp add: needsFailoverMMode_def exMModePVC_def exPVC_def requiresRegionalFailoverPrerequisites_def exRegional_def
      ex_defs getLastKnownPrimaryVRG_def isVRGPrimary_def addActivation_def activationKey_def Let_def)

text \<open>
  The status of a VRG read from the object store is taken for older than the one reported before when its
  resource version, a number written in decimal, comes first in the order of strings: with version 999
  reported, a VRG of version 1000 is dropped.
\<close>

theorem newer_vrg_dropped_as_stale:
  "fst (getVRG ''ns'' ''c2'' False exStale) = Inr None
   \<and> map_option vResourceVersion (GetLastKnownVRGPrimaryFromS3 (environ exStale) [''s3-c1'', ''s3-c2''] ''app'' ''ns'' None)
      = Some ''1000''
   \<and> rmResourceVersion (rcResourceMeta (sResourceConditions (status exStale))) = ''999''"
  by (simp add: getVRG_def exStale_def ex_defs monad_defs GetAvailableS3Profiles_def apiCall_def DRPolicyClusterNames_def
      AvailableS3Profiles_def laterPrimary_def isVRGPrimary_def s3PathNamePrefix_def zeroVRGConditions_def zeroResourceMeta_def
      less_char_def Let_def)

text \<open>
  When listing the PlacementDecisions fails, the error is swallowed and the preferred decision is taken for
  the current home: here the placement names \<open>c2\<close>, a failover to \<open>c1\<close> is asked for, and the cluster whose
  fencing is then checked is \<open>c1\<close>.
\<close>

theorem unreadable_placement_misleads_failover:
  "fst (getCurrentHomeClusterName ''c1'' (exUnreadable True)) = Inr ''c1''
   \<and> fst (getCurrentHomeClusterName ''c1'' (exUnreadable False)) = Inr ''c2''"
  by (simp add: getCurrentHomeClusterName_def getClusterDecision_def getClusterDecisionFromPlacement_def
      getPlacementDecisionFromPlacement_def exUnreadable_def ex_defs monad_defs apiCall_def noDecision_def
      activeDecisions_def retained_def FailoverRetained_def PlacementLabel_def Let_def)

text \<open>
  The comment of \<^verbatim>\<open>updateVRGOptionalFields\<close> lists \<^verbatim>\<open>Spec.StaticIPTranslationSpec\<close> among the fields it does not
  modify; for a secondary of a VM recipe with static IPs it does: here it writes the translation of the
  addresses discovered on the primary.
\<close>

lemma refresh_writes_static_ip_translation:
  "vStaticIPTranslationSpec (vSpec (exVRG Secondary)) = None
   \<and> vStaticIPTranslationSpec (vSpec (updateVRGOptionalFields exStaticIP (exVRG Secondary) None ''c1''))
      = Some [\<lparr>itResourceRef = exVM, itNetworks = [\<lparr>ntNetworkName = ''net'', ntAddresses = [''10.0.0.1'']\<rparr>]\<rparr>]"
  by (simp add: updateVRGOptionalFields_def updateVRGStaticIPTranslationSpec_def shouldInjectStaticIPTranslationSpec_def
      exStaticIP_def exVM_def IsVMRecipe_def setVRGAnnotations_def setVRGSpecFields_def setVRGAction_def
      updateVRGDRTypeSpecIfNeeded_def updateMoverConfigIfNeeded_def currentPrimaryCluster_def
      buildStaticIPTranslationSpec_def setStaticIPTranslationSpec_def vrgOf_def hasGlobalVGRLabel_def globalVGRLabel_def
      sm_get_def zeroVRGConditions_def zeroResourceMeta_def newVRGSpecSync_def ex_defs Let_def)

end
